(* ===== verification/Prelude.thy ===== *)
theory Prelude
  imports Main "HOL-Library.Char_ord" "HOL-Library.List_Lexorder"
begin

text \<open>
  Shared vocabulary of the development: JavaScript strings and the few string operations
  the sources use, \<^verbatim>\<open>Array.prototype.sort\<close> with a comparator, de-duplication through a
  \<^verbatim>\<open>Set\<close> of keys, and asynchronous programs.

  A JavaScript string is a \<^typ>\<open>string\<close> whose characters are the code units
  \<^verbatim>\<open>U+0000 .. U+00FF\<close>. On that fragment of the strings \<^verbatim>\<open>length\<close>, \<^verbatim>\<open>===\<close>, \<^verbatim>\<open><\<close>,
  \<^verbatim>\<open>startsWith\<close>, \<^verbatim>\<open>includes\<close> and \<^verbatim>\<open>trim\<close> are the list operations below; strings with
  larger code units are outside the model.

  An asynchronous function is a resumption: it has returned, or it waits for one atomic
  access to the shared state and goes on with the answer. JavaScript is single threaded, so
  everything between two \<^verbatim>\<open>await\<close>s is one step; \<open>run\<close> is the execution in which nothing
  else happens in between and \<open>sched\<close> interleaves several programs.
\<close>

named_theorems run_simps \<open>equations that execute asynchronous programs\<close>
named_theorems js_simps \<open>equations of the JavaScript primitives\<close>
named_theorems db_simps \<open>equations of the registries\<close>

section \<open>Strings\<close>

definition js_ws :: "char \<Rightarrow> bool" where
  "js_ws c \<longleftrightarrow> (of_char c :: nat) \<in> {9, 10, 11, 12, 13, 32, 160}"

definition js_trim :: "string \<Rightarrow> string" where
  "js_trim s = rev (dropWhile js_ws (rev (dropWhile js_ws s)))"

definition js_starts_with :: "string \<Rightarrow> string \<Rightarrow> bool" where
  "js_starts_with s p \<longleftrightarrow> take (length p) s = p"

definition js_ends_with :: "string \<Rightarrow> string \<Rightarrow> bool" where
  "js_ends_with s p \<longleftrightarrow> length p \<le> length s \<and> drop (length s - length p) s = p"

fun js_includes :: "string \<Rightarrow> string \<Rightarrow> bool" where
  "js_includes [] p = (p = [])"
| "js_includes (c # s) p = (js_starts_with (c # s) p \<or> js_includes s p)"

text \<open>\<^verbatim>\<open>xs.join(sep)\<close>\<close>

fun js_join :: "string \<Rightarrow> string list \<Rightarrow> string" where
  "js_join sep [] = []"
| "js_join sep [x] = x"
| "js_join sep (x # y # xs) = x @ sep @ js_join sep (y # xs)"

text \<open>A string that is neither empty nor made of white space only.\<close>

definition nonblank :: "string \<Rightarrow> bool" where
  "nonblank s \<longleftrightarrow> length (js_trim s) > 0"

lemma dropWhile_nonempty_iff: "dropWhile P xs \<noteq> [] \<longleftrightarrow> (\<exists>x\<in>set xs. \<not> P x)"
  by (metis dropWhile_eq_Nil_conv)

lemma set_dropWhile_exists:
  "(\<exists>x\<in>set (dropWhile P xs). \<not> P x) \<longleftrightarrow> (\<exists>x\<in>set xs. \<not> P x)"
  by (induction xs) auto

lemma nonblank_iff: "nonblank s \<longleftrightarrow> (\<exists>c\<in>set s. \<not> js_ws c)"
proof -
  have "nonblank s \<longleftrightarrow> dropWhile js_ws (rev (dropWhile js_ws s)) \<noteq> []"
    by (simp add: nonblank_def js_trim_def)
  also have "\<dots> \<longleftrightarrow> (\<exists>c\<in>set (dropWhile js_ws s). \<not> js_ws c)"
    by (simp add: dropWhile_nonempty_iff)
  finally show ?thesis
    by (simp add: set_dropWhile_exists)
qed

lemma nonblank_Nil [simp]: "\<not> nonblank []"
  by (simp add: nonblank_iff)

lemma nonblank_append [simp]: "nonblank (s @ t) \<longleftrightarrow> nonblank s \<or> nonblank t"
  by (auto simp: nonblank_iff)

lemma nonblank_Cons [simp]: "nonblank (c # s) \<longleftrightarrow> \<not> js_ws c \<or> nonblank s"
  by (auto simp: nonblank_iff)

lemma nonblank_not_Nil: "nonblank s \<Longrightarrow> s \<noteq> []"
  by auto

lemma js_starts_with_iff: "js_starts_with s p \<longleftrightarrow> (\<exists>t. s = p @ t)"
  unfolding js_starts_with_def by (metis append_eq_conv_conj append_take_drop_id)

lemma js_includes_iff: "js_includes s p \<longleftrightarrow> (\<exists>a b. s = a @ p @ b)"
proof (induction s)
  case Nil
  show ?case by auto
next
  case (Cons c s)
  have "js_includes (c # s) p \<longleftrightarrow> (\<exists>b. c # s = p @ b) \<or> (\<exists>a b. s = a @ p @ b)"
    by (simp add: Cons.IH js_starts_with_iff)
  also have "\<dots> \<longleftrightarrow> (\<exists>a b. c # s = a @ p @ b)"
    by (metis append_Cons append_Nil list.exhaust list.inject)
  finally show ?case .
qed

section \<open>Sorting with a comparator\<close>

text \<open>
  \<^verbatim>\<open>xs.sort(cmp)\<close> is stable; \<open>le a b\<close> stands for \<^verbatim>\<open>cmp(a, b) <= 0\<close>. Insertion sort
  computes the stable result for every comparator that is a total preorder.
\<close>

fun js_insort :: "('a \<Rightarrow> 'a \<Rightarrow> bool) \<Rightarrow> 'a \<Rightarrow> 'a list \<Rightarrow> 'a list" where
  "js_insort le x [] = [x]"
| "js_insort le x (y # ys) = (if le x y then x # y # ys else y # js_insort le x ys)"

definition js_sort :: "('a \<Rightarrow> 'a \<Rightarrow> bool) \<Rightarrow> 'a list \<Rightarrow> 'a list" where
  "js_sort le xs = foldr (js_insort le) xs []"

lemma set_js_insort [simp]: "set (js_insort le x ys) = insert x (set ys)"
  by (induction ys) auto

lemma js_sort_simps [simp]:
  "js_sort le [] = []"
  "js_sort le (x # xs) = js_insort le x (js_sort le xs)"
  by (simp_all add: js_sort_def)

lemma set_js_sort [simp]: "set (js_sort le xs) = set xs"
  by (induction xs) auto

lemma length_js_insort [simp]: "length (js_insort le x ys) = Suc (length ys)"
  by (induction ys) auto

lemma length_js_sort [simp]: "length (js_sort le xs) = length xs"
  by (induction xs) auto

lemma js_sort_Nil_iff [simp]: "js_sort le xs = [] \<longleftrightarrow> xs = []"
  by (metis length_0_conv length_js_sort)

text \<open>
  The interface the tie-breaks of the program rest on: a comparator that is a total
  preorder. The sources pick the first element of the sorted array.
\<close>

locale comparator =
  fixes le :: "'a \<Rightarrow> 'a \<Rightarrow> bool"
  assumes le_total: "le x y \<or> le y x"
    and le_trans: "le x y \<Longrightarrow> le y z \<Longrightarrow> le x z"
begin

lemma le_refl: "le x x"
  using le_total by blast

lemma hd_insort_minimal:
  assumes "\<forall>y\<in>set ys. le (hd ys) y"
  shows "\<forall>y\<in>set (js_insort le x ys). le (hd (js_insort le x ys)) y"
proof (cases ys)
  case Nil
  then show ?thesis by (simp add: le_refl)
next
  case (Cons z zs)
  show ?thesis
  proof (cases "le x z")
    case True
    then show ?thesis
      using assms Cons by (auto intro: le_refl le_trans)
  next
    case False
    then have "le z x" using le_total by blast
    then show ?thesis using assms Cons False by auto
  qed
qed

lemma hd_sort_minimal: "y \<in> set xs \<Longrightarrow> le (hd (js_sort le xs)) y"
proof -
  have "\<forall>y\<in>set (js_sort le xs). le (hd (js_sort le xs)) y" for xs :: "'a list"
  proof (induction xs)
    case Nil
    show ?case by simp
  next
    case (Cons x xs)
    then show ?case using hd_insort_minimal [OF Cons.IH, of x] by simp
  qed
  then show "y \<in> set xs \<Longrightarrow> ?thesis" by simp
qed

lemma hd_sort_in: "xs \<noteq> [] \<Longrightarrow> hd (js_sort le xs) \<in> set xs"
  by (metis js_sort_Nil_iff list.set_sel(1) set_js_sort)

text \<open>The winner does not depend on the order in which the candidates arrived.\<close>

lemma hd_sort_set_invariant:
  assumes "xs \<noteq> []" and "set xs = set ys"
    and "\<And>x y. x \<in> set xs \<Longrightarrow> y \<in> set xs \<Longrightarrow> le x y \<Longrightarrow> le y x \<Longrightarrow> x = y"
  shows "hd (js_sort le xs) = hd (js_sort le ys)"
proof -
  have "ys \<noteq> []" using assms(1,2) by auto
  then have "hd (js_sort le ys) \<in> set xs" "hd (js_sort le xs) \<in> set xs"
    using assms(1,2) hd_sort_in by auto
  then show ?thesis
    using assms hd_sort_minimal by metis
qed

end

section \<open>De-duplication through a set of keys\<close>

text \<open>
  The loop \<^verbatim>\<open>for (const e of xs) { const k = key(e); if (!seen.has(k)) { seen.add(k); result.push(e) } }\<close>.
\<close>

fun dedup_loop :: "('a \<Rightarrow> 'k) \<Rightarrow> 'k list \<Rightarrow> 'a list \<Rightarrow> 'a list" where
  "dedup_loop key seen [] = []"
| "dedup_loop key seen (x # xs) =
     (if key x \<in> set seen then dedup_loop key seen xs
      else x # dedup_loop key (key x # seen) xs)"

lemma dedup_loop_subset: "set (dedup_loop key seen xs) \<subseteq> set xs"
  by (induction xs arbitrary: seen) (auto split: if_splits)

lemma dedup_loop_keys: "key ` set (dedup_loop key seen xs) = key ` set xs - set seen"
  by (induction xs arbitrary: seen) auto

lemma dedup_loop_distinct: "distinct (map key (dedup_loop key seen xs))"
proof (induction xs arbitrary: seen)
  case Nil
  show ?case by simp
next
  case (Cons x xs)
  have "key x \<notin> key ` set (dedup_loop key (key x # seen) xs)"
    by (simp add: dedup_loop_keys)
  with Cons.IH show ?case by auto
qed

lemma set_dedup: "set (dedup_loop id [] xs) = set xs"
  using dedup_loop_keys [of id "[]" xs] by simp

lemma dedup_loop_id:
  "distinct (map key xs) \<Longrightarrow> key ` set xs \<inter> set seen = {} \<Longrightarrow> dedup_loop key seen xs = xs"
  by (induction xs arbitrary: seen) auto

section \<open>Asynchronous programs\<close>

datatype ('s, 'a) proc = Ret 'a | Await "'s \<Rightarrow> 's \<times> ('s, 'a) proc"

primrec proc_bind :: "('s, 'a) proc \<Rightarrow> ('a \<Rightarrow> ('s, 'b) proc) \<Rightarrow> ('s, 'b) proc" where
  "proc_bind (Ret a) f = f a"
| "proc_bind (Await g) f = Await (\<lambda>s. map_prod id (\<lambda>p. proc_bind p f) (g s))"

text \<open>One atomic access to the shared state: a read and an update.\<close>

definition fetch :: "('s \<Rightarrow> 'a) \<Rightarrow> ('s, 'a) proc" where
  "fetch f = Await (\<lambda>s. (s, Ret (f s)))"

definition atomically :: "('s \<Rightarrow> 's \<times> 'a) \<Rightarrow> ('s, 'a) proc" where
  "atomically f = Await (\<lambda>s. (fst (f s), Ret (snd (f s))))"

primrec run :: "('s, 'a) proc \<Rightarrow> 's \<Rightarrow> 's \<times> 'a" where
  "run (Ret a) = (\<lambda>s. (s, a))"
| "run (Await g) = (\<lambda>s. case map_prod id run (g s) of (s', k) \<Rightarrow> k s')"

lemma run_Ret [simp, run_simps]: "run (Ret a) s = (s, a)"
  by simp

lemma run_bind [simp, run_simps]:
  "run (proc_bind p f) s = (case run p s of (s', a) \<Rightarrow> run (f a) s')"
proof (induction p arbitrary: s)
  case (Ret a)
  show ?case by simp
next
  case (Await g)
  obtain s' p where g: "g s = (s', p)" by (cases "g s")
  then have "p \<in> Basic_BNFs.snds (g s)" by (simp add: snds.simps)
  then have "run (proc_bind p f) s' = (case run p s' of (s', a) \<Rightarrow> run (f a) s')"
    using Await.IH by blast
  with g show ?case by simp
qed

lemma run_fetch [simp, run_simps]: "run (fetch f) s = (s, f s)"
  by (simp add: fetch_def)

lemma run_atomically [simp, run_simps]: "run (atomically f) s = f s"
  by (simp add: atomically_def)

text \<open>
  Interleaving: a configuration is the shared state and the pending programs; a step lets
  one waiting program make its next access.
\<close>

inductive sched :: "'s \<times> ('s, 'a) proc list \<Rightarrow> 's \<times> ('s, 'a) proc list \<Rightarrow> bool" where
  sched_step: "i < length ps \<Longrightarrow> ps ! i = Await g \<Longrightarrow> g s = (s', p) \<Longrightarrow>
     sched (s, ps) (s', ps[i := p])"

inductive scheds :: "'s \<times> ('s, 'a) proc list \<Rightarrow> 's \<times> ('s, 'a) proc list \<Rightarrow> bool" where
  scheds_refl: "scheds c c"
| scheds_step: "sched c c' \<Longrightarrow> scheds c' c'' \<Longrightarrow> scheds c c''"

inductive_cases sched_cases: "sched (s, ps) c"

text \<open>Executable form: run the schedule given by a list of program indices.\<close>

fun sched_run :: "nat list \<Rightarrow> 's \<times> ('s, 'a) proc list \<Rightarrow> 's \<times> ('s, 'a) proc list" where
  "sched_run [] c = c"
| "sched_run (i # is) (s, ps) =
     (if i < length ps then
        (case ps ! i of
           Ret a \<Rightarrow> sched_run is (s, ps)
         | Await g \<Rightarrow> (case g s of (s', p) \<Rightarrow> sched_run is (s', ps[i := p])))
      else sched_run is (s, ps))"

lemma sched_run_scheds: "scheds c (sched_run is c)"
proof (induction "is" c rule: sched_run.induct)
  case (1 c)
  show ?case by (simp add: scheds_refl)
next
  case (2 i "is" s ps)
  show ?case
  proof (cases "i < length ps")
    case True
    show ?thesis
    proof (cases "ps ! i")
      case (Ret a)
      with True 2 show ?thesis by simp
    next
      case (Await g)
      obtain s' p where g: "g s = (s', p)" by (cases "g s")
      have "sched (s, ps) (s', ps[i := p])"
        using True Await g by (rule sched_step)
      moreover have "scheds (s', ps[i := p]) (sched_run is (s', ps[i := p]))"
        using 2(2) True Await g by simp
      ultimately show ?thesis
        using True Await g by (auto intro: scheds_step)
    qed
  next
    case False
    with 2 show ?thesis by simp
  qed
qed

section \<open>Guarantees of asynchronous programs\<close>

text \<open>
  \<open>guarq R Q p\<close>: every atomic access of \<open>p\<close>, whatever state it finds, relates the state before
  to the state after by \<open>R\<close>, and a returned value satisfies \<open>Q\<close>. For a preorder \<open>R\<close> the
  guarantee carries over to every interleaving.
\<close>

primrec guarq :: "('s \<Rightarrow> 's \<Rightarrow> bool) \<Rightarrow> ('a \<Rightarrow> bool) \<Rightarrow> ('s, 'a) proc \<Rightarrow> bool" where
  "guarq R Q (Ret a) = Q a"
| "guarq R Q (Await g) = (\<forall>s. case map_prod id (guarq R Q) (g s) of (s', ok) \<Rightarrow> R s s' \<and> ok)"

definition guar :: "('s \<Rightarrow> 's \<Rightarrow> bool) \<Rightarrow> ('s, 'a) proc \<Rightarrow> bool" where
  "guar R p = guarq R (\<lambda>_. True) p"

lemma guarq_Await: "guarq R Q (Await g) \<longleftrightarrow> (\<forall>s. R s (fst (g s)) \<and> guarq R Q (snd (g s)))"
  by (simp add: case_prod_unfold)

declare guarq.simps(2) [simp del]

lemma snd_snds: "snd x \<in> Basic_BNFs.snds x"
  by (cases x) (simp add: snds.intros)

lemma guarq_bind: "guarq R P p \<Longrightarrow> (\<And>a. P a \<Longrightarrow> guarq R Q (f a)) \<Longrightarrow> guarq R Q (proc_bind p f)"
proof (induction p)
  case (Ret a)
  then show ?case by simp
next
  case (Await g)
  have "R s (fst (g s)) \<and> guarq R Q (proc_bind (snd (g s)) f)" for s
  proof -
    have "guarq R P (snd (g s))" "R s (fst (g s))" using Await.prems(1) by (simp_all add: guarq_Await)
    then show ?thesis using Await.IH [OF rangeI snd_snds] Await.prems(2) by blast
  qed
  then show ?case by (simp add: guarq_Await)
qed

lemma guarq_mono:
  "guarq R P p \<Longrightarrow> (\<And>s t. R s t \<Longrightarrow> R' s t) \<Longrightarrow> (\<And>a. P a \<Longrightarrow> Q a) \<Longrightarrow> guarq R' Q p"
proof (induction p)
  case (Await g)
  have "guarq R' Q (snd (g s))" for s
    using Await.IH [OF rangeI snd_snds] Await.prems by (simp add: guarq_Await)
  then show ?case using Await.prems by (simp add: guarq_Await)
qed simp

lemma guarq_fetch: "(\<And>s. R s s) \<Longrightarrow> (\<And>s. Q (f s)) \<Longrightarrow> guarq R Q (fetch f)"
  by (simp add: fetch_def guarq_Await)

lemma guarq_atomically: "(\<And>s. R s (fst (f s))) \<Longrightarrow> (\<And>s. Q (snd (f s))) \<Longrightarrow> guarq R Q (atomically f)"
  by (simp add: atomically_def guarq_Await)

lemma guar_Ret [simp]: "guar R (Ret a)"
  by (simp add: guar_def)

lemma guar_Await: "guar R (Await g) \<longleftrightarrow> (\<forall>s. R s (fst (g s)) \<and> guar R (snd (g s)))"
  by (simp add: guar_def guarq_Await)

lemma guar_bind: "guar R p \<Longrightarrow> (\<And>a. guar R (f a)) \<Longrightarrow> guar R (proc_bind p f)"
  by (auto simp: guar_def intro: guarq_bind)

lemma guar_fetch: "(\<And>s. R s s) \<Longrightarrow> guar R (fetch f)"
  by (simp add: guar_def guarq_fetch)

lemma guar_atomically: "(\<And>s. R s (fst (f s))) \<Longrightarrow> guar R (atomically f)"
  by (simp add: guar_def guarq_atomically)

text \<open>The preorders used as guarantees.\<close>

locale guarantee =
  fixes R :: "'s \<Rightarrow> 's \<Rightarrow> bool"
  assumes R_refl: "R s s" and R_trans: "R s t \<Longrightarrow> R t u \<Longrightarrow> R s u"
begin

lemma guar_run: "guar R p \<Longrightarrow> R s (fst (run p s))"
proof (induction p arbitrary: s)
  case (Ret a)
  show ?case by (simp add: R_refl)
next
  case (Await g)
  have "R (fst (g s)) (fst (run (snd (g s)) (fst (g s))))"
    using Await.IH [OF rangeI snd_snds] Await.prems by (simp add: guar_Await)
  moreover have "R s (fst (g s))" using Await.prems by (simp add: guar_Await)
  ultimately show ?case by (auto simp: case_prod_unfold intro: R_trans)
qed

lemma guar_sched:
  assumes "sched c c'" and "\<forall>p\<in>set (snd c). guar R p"
  shows "R (fst c) (fst c') \<and> (\<forall>p\<in>set (snd c'). guar R p)"
  using assms
proof (cases rule: sched.cases)
  case (sched_step i ps g s s' p)
  then have "guar R (Await g)" using assms(2) by (metis nth_mem snd_conv)
  then have "R s s'" "guar R p" using sched_step by (auto simp: guar_Await dest: spec [of _ s])
  then show ?thesis
    using sched_step assms(2) by (auto dest: subsetD [OF set_update_subset_insert])
qed

lemma guar_scheds:
  "scheds c c' \<Longrightarrow> \<forall>p\<in>set (snd c). guar R p \<Longrightarrow> R (fst c) (fst c')"
proof (induction rule: scheds.induct)
  case (scheds_refl c)
  show ?case by (rule R_refl)
next
  case (scheds_step c c' c'')
  then show ?case using guar_sched by (blast intro: R_trans)
qed

end

end
