(* ===== verification/Canonical.thy ===== *)
theory Canonical
  imports Prelude "HOL-Library.Word"
begin

text \<open>
  The run-time values of the program and \<^verbatim>\<open>src/canonical.js\<close>: \<^verbatim>\<open>normalize\<close>,
  \<^verbatim>\<open>canonicalize\<close>, \<^verbatim>\<open>sha256Hex\<close> and \<^verbatim>\<open>hashCanonical\<close>. Every hash, id, receipt and
  binding of the program is the SHA-256 of a canonical JSON text.

  A value is a JSON value or \<^verbatim>\<open>undefined\<close>. An object is the list of its own properties. The
  finite numbers of the model are the integers (the program hashes counters and limits only);
  \<^verbatim>\<open>NaN\<close> and the infinities are kept, because \<^verbatim>\<open>normalize\<close> and the guards of the
  validators treat them specially. Fractions, \<^verbatim>\<open>-0\<close> and integers from \<^verbatim>\<open>1e21\<close> on (which
  JavaScript prints with an exponent) are outside the model.

  \<^verbatim>\<open>normalize\<close> assigns the properties one by one to a fresh object, so a property named
  \<^verbatim>\<open>__proto__\<close> sets the prototype and is not a property of the result.
\<close>

unbundle bit_operations_syntax

section \<open>Values\<close>

datatype jsnum = NInt int | NNaN | NInf | NNegInf

datatype jsval =
    JUndef
  | JNull
  | JBool bool
  | JNum jsnum
  | JStr string
  | JArr "jsval list"
  | JObj "(string \<times> jsval) list"

text \<open>Property access \<^verbatim>\<open>v.k\<close> on a value that is not null or undefined.\<close>

fun js_get :: "jsval \<Rightarrow> string \<Rightarrow> jsval" where
  "js_get (JObj kvs) k = (case map_of kvs k of Some v \<Rightarrow> v | None \<Rightarrow> JUndef)"
| "js_get _ k = JUndef"

fun js_keys :: "jsval \<Rightarrow> string list" where
  "js_keys (JObj kvs) = map fst kvs"
| "js_keys _ = []"

fun js_truthy :: "jsval \<Rightarrow> bool" where
  "js_truthy JUndef = False"
| "js_truthy JNull = False"
| "js_truthy (JBool b) = b"
| "js_truthy (JNum n) = (case n of NInt i \<Rightarrow> i \<noteq> 0 | NNaN \<Rightarrow> False | _ \<Rightarrow> True)"
| "js_truthy (JStr s) = (s \<noteq> [])"
| "js_truthy (JArr _) = True"
| "js_truthy (JObj _) = True"

text \<open>\<^verbatim>\<open>Boolean(v) && typeof v === "object" && !Array.isArray(v)\<close>\<close>

fun isPlainObject :: "jsval \<Rightarrow> bool" where
  "isPlainObject (JObj _) = True"
| "isPlainObject _ = False"

fun is_nullish :: "jsval \<Rightarrow> bool" where
  "is_nullish JUndef = True"
| "is_nullish JNull = True"
| "is_nullish _ = False"

fun as_str :: "jsval \<Rightarrow> string option" where
  "as_str (JStr s) = Some s"
| "as_str _ = None"

fun isNonBlankString :: "jsval \<Rightarrow> bool" where
  "isNonBlankString (JStr s) = nonblank s"
| "isNonBlankString _ = False"

fun isNonEmptyString :: "jsval \<Rightarrow> bool" where
  "isNonEmptyString (JStr s) = (s \<noteq> [])"
| "isNonEmptyString _ = False"

text \<open>Decimal digits of a natural number, most significant first.\<close>

definition dec_digit :: "nat \<Rightarrow> char" where
  "dec_digit d = char_of (48 + d)"

fun nat_dec :: "nat \<Rightarrow> string" where
  "nat_dec n = (if n < 10 then [dec_digit n] else nat_dec (n div 10) @ [dec_digit (n mod 10)])"

declare nat_dec.simps [simp del]

definition int_dec :: "int \<Rightarrow> string" where
  "int_dec i = (if i < 0 then CHR ''-'' # nat_dec (nat (- i)) else nat_dec (nat i))"

fun num_str :: "jsnum \<Rightarrow> string" where
  "num_str (NInt i) = int_dec i"
| "num_str NNaN = ''NaN''"
| "num_str NInf = ''Infinity''"
| "num_str NNegInf = ''-Infinity''"

text \<open>\<^verbatim>\<open>String(v)\<close>\<close>

fun js_String :: "jsval \<Rightarrow> string" where
  "js_String JUndef = ''undefined''"
| "js_String JNull = ''null''"
| "js_String (JBool b) = (if b then ''true'' else ''false'')"
| "js_String (JNum n) = num_str n"
| "js_String (JStr s) = s"
| "js_String (JArr xs) = js_join '','' (map (\<lambda>x. if is_nullish x then [] else js_String x) xs)"
| "js_String (JObj _) = ''[object Object]''"

text \<open>\<^verbatim>\<open>String(v || d)\<close>\<close>

definition js_String_or :: "jsval \<Rightarrow> string \<Rightarrow> string" where
  "js_String_or v d = (if js_truthy v then js_String v else d)"

section \<open>normalize\<close>

definition proto_key :: string where
  "proto_key = ''__proto__''"

primrec normalize :: "jsval \<Rightarrow> jsval" where
  "normalize JUndef = JNull"
| "normalize JNull = JNull"
| "normalize (JBool b) = JBool b"
| "normalize (JNum n) = (case n of NInt i \<Rightarrow> JNum (NInt i) | _ \<Rightarrow> JNull)"
| "normalize (JStr s) = JStr s"
| "normalize (JArr xs) = JArr (map normalize xs)"
| "normalize (JObj kvs) =
     JObj (filter (\<lambda>kv. fst kv \<noteq> proto_key) (sort_key fst (map (map_prod id normalize) kvs)))"

section \<open>canonicalize\<close>

text \<open>\<^verbatim>\<open>JSON.stringify\<close> of a string.\<close>

definition hex_digit :: "nat \<Rightarrow> char" where
  "hex_digit d = (if d < 10 then char_of (48 + d) else char_of (87 + d))"

definition json_escape :: "char \<Rightarrow> string" where
  "json_escape c =
     (let n = of_char c :: nat in
      if n = 34 then [CHR 0x5C, CHR 0x22]
      else if n = 92 then [CHR 0x5C, CHR 0x5C]
      else if n = 8 then [CHR 0x5C, CHR ''b'']
      else if n = 9 then [CHR 0x5C, CHR ''t'']
      else if n = 10 then [CHR 0x5C, CHR ''n'']
      else if n = 12 then [CHR 0x5C, CHR ''f'']
      else if n = 13 then [CHR 0x5C, CHR ''r'']
      else if n < 32 then CHR 0x5C # ''u00'' @ [hex_digit (n div 16), hex_digit (n mod 16)]
      else [c])"

definition json_quote :: "string \<Rightarrow> string" where
  "json_quote s = CHR 0x22 # concat (map json_escape s) @ [CHR 0x22]"

text \<open>\<^verbatim>\<open>JSON.stringify\<close> of a normalized value that is neither array nor object.\<close>

fun json_scalar :: "jsval \<Rightarrow> string" where
  "json_scalar (JBool b) = (if b then ''true'' else ''false'')"
| "json_scalar (JNum (NInt i)) = int_dec i"
| "json_scalar (JStr s) = json_quote s"
| "json_scalar _ = ''null''"

text \<open>The reference printer: normalized values in their own order.\<close>

primrec print_json :: "jsval \<Rightarrow> string" where
  "print_json JUndef = ''null''"
| "print_json JNull = ''null''"
| "print_json (JBool b) = json_scalar (JBool b)"
| "print_json (JNum n) = json_scalar (JNum n)"
| "print_json (JStr s) = json_scalar (JStr s)"
| "print_json (JArr xs) = ''['' @ js_join '','' (map print_json xs) @ '']''"
| "print_json (JObj kvs) =
     ''{'' @ js_join '','' (map (\<lambda>(k, v). json_quote k @ '':'' @ v) (map (map_prod id print_json) kvs)) @ ''}''"

lemma snd_in_snds: "snd kv \<in> Basic_BNFs.snds kv"
  by (cases kv) (simp add: snds.intros)

lemma size_mem_sum_list: "x \<in> set xs \<Longrightarrow> size x < Suc (size_list size xs)"
  by (induction xs) auto

lemma size_list_mono_map:
  "(\<And>x. x \<in> set xs \<Longrightarrow> size (f x) \<le> size x) \<Longrightarrow> size_list size (map f xs) \<le> size_list size xs"
  by (induction xs) (auto simp: add_mono)

lemma size_normalize_child_arr:
  assumes "\<And>x. x \<in> set xs \<Longrightarrow> size (normalize x) \<le> size x" and "y \<in> set (map normalize xs)"
  shows "size y < size (JArr xs)"
proof -
  from assms(2) obtain x where "x \<in> set xs" "y = normalize x" by auto
  with assms(1) [of x] size_mem_sum_list [of x xs] show ?thesis by simp
qed

lemma size_prod_child:
  "(k, v) \<in> set kvs \<Longrightarrow> size v < Suc (size_list (size_prod (\<lambda>x. 0) size) kvs)"
  by (induction kvs) auto

lemma size_list_filter_le: "size_list f (filter P xs) \<le> size_list f xs"
  by (induction xs) auto

lemma size_list_sort_key: "size_list f (sort_key g xs) = size_list f xs"
proof -
  have ins: "size_list f (insort_key g x ys) = Suc (f x + size_list f ys)" for x ys
    by (induction ys) auto
  show ?thesis
    by (induction xs) (simp_all add: ins)
qed

lemma size_normalize: "size (normalize v) \<le> size v"
proof (induction v)
  case (JNum n)
  then show ?case by (cases n) auto
next
  case (JArr xs)
  then show ?case using size_list_mono_map [of xs normalize] by simp
next
  case (JObj kvs)
  have "size (normalize v) \<le> size v" if "(k, v) \<in> set kvs" for k v
    using JObj that by (auto simp: snds.simps)
  then have "size_list (size_prod (\<lambda>x. 0) size) (map (map_prod id normalize) kvs)
        \<le> size_list (size_prod (\<lambda>x. 0) size) kvs"
  proof (induction kvs)
    case Nil
    show ?case by simp
  next
    case (Cons kv kvs)
    obtain k v where kv: "kv = (k, v)" by (cases kv)
    have "size (normalize v) \<le> size v" by (rule Cons.prems [of k]) (simp add: kv)
    moreover have "size_list (size_prod (\<lambda>x. 0) size) (map (map_prod id normalize) kvs)
        \<le> size_list (size_prod (\<lambda>x. 0) size) kvs"
      by (rule Cons.IH) (use Cons.prems in auto)
    ultimately show ?case by (simp add: kv id_def)
  qed
  moreover have "size_list (size_prod (\<lambda>x. 0) size)
      (filter (\<lambda>kv. fst kv \<noteq> proto_key) (sort_key fst (map (map_prod id normalize) kvs)))
      \<le> size_list (size_prod (\<lambda>x. 0) size) (map (map_prod id normalize) kvs)"
    by (metis size_list_filter_le size_list_sort_key)
  ultimately show ?case by (simp only: normalize.simps jsval.size)
qed simp_all

function canonicalize :: "jsval \<Rightarrow> string" where
  "canonicalize v =
     (case normalize v of
        JArr xs \<Rightarrow> ''['' @ js_join '','' (map canonicalize xs) @ '']''
      | JObj kvs \<Rightarrow>
          ''{'' @ js_join '','' (map (\<lambda>kv. json_quote (fst kv) @ '':'' @ canonicalize (snd kv))
                                  (sort_key fst kvs)) @ ''}''
      | w \<Rightarrow> json_scalar w)"
  by pat_completeness auto
termination
proof (relation "measure size", goal_cases)
  case 1
  show ?case by simp
next
  case (2 v xs z)
  have "size (JArr xs) \<le> size v" using 2(1) size_normalize [of v] by simp
  with size_mem_sum_list [OF 2(2)] show ?case by simp
next
  case (3 v kvs z)
  have "size (JObj kvs) \<le> size v" using 3(1) size_normalize [of v] by simp
  moreover have "(fst z, snd z) \<in> set kvs" using 3(2) by simp
  ultimately show ?case using size_prod_child [of "fst z" "snd z" kvs] by simp
qed

declare canonicalize.simps [simp del]

section \<open>SHA-256\<close>

type_synonym w32 = "32 word"

definition rightRotate :: "w32 \<Rightarrow> nat \<Rightarrow> w32" where
  "rightRotate v n = drop_bit n v OR push_bit (32 - n) v"

text \<open>\<^verbatim>\<open>new TextEncoder().encode(s)\<close>: one or two bytes per code unit below 256.\<close>

definition utf8_char :: "char \<Rightarrow> nat list" where
  "utf8_char c =
     (let n = of_char c :: nat in if n < 128 then [n] else [192 + n div 64, 128 + n mod 64])"

definition utf8Bytes :: "string \<Rightarrow> nat list" where
  "utf8Bytes s = concat (map utf8_char s)"

text \<open>The four bytes \<^verbatim>\<open>setUint32\<close> writes (big endian), and \<^verbatim>\<open>getUint32\<close>.\<close>

definition uint32_bytes :: "nat \<Rightarrow> nat list" where
  "uint32_bytes n = [n div 2 ^ 24 mod 256, n div 2 ^ 16 mod 256, n div 2 ^ 8 mod 256, n mod 256]"

definition get_uint32 :: "nat list \<Rightarrow> nat \<Rightarrow> w32" where
  "get_uint32 bs i =
     of_nat (bs ! i * 2 ^ 24 + bs ! (i + 1) * 2 ^ 16 + bs ! (i + 2) * 2 ^ 8 + bs ! (i + 3))"

definition sha_padded_length :: "nat \<Rightarrow> nat" where
  "sha_padded_length n = (n + 9 + 63) div 64 * 64"

definition sha_pad :: "nat list \<Rightarrow> nat list" where
  "sha_pad bs =
     (let bitLength = length bs * 8 in
      bs @ [128] @ replicate (sha_padded_length (length bs) - length bs - 9) 0
         @ uint32_bytes (bitLength div 2 ^ 32) @ uint32_bytes (bitLength mod 2 ^ 32))"

definition sha_k :: "w32 list" where
  "sha_k = concat
    [[0x428a2f98, 0x71374491, 0xb5c0fbcf, 0xe9b5dba5, 0x3956c25b, 0x59f111f1, 0x923f82a4, 0xab1c5ed5],
     [0xd807aa98, 0x12835b01, 0x243185be, 0x550c7dc3, 0x72be5d74, 0x80deb1fe, 0x9bdc06a7, 0xc19bf174],
     [0xe49b69c1, 0xefbe4786, 0x0fc19dc6, 0x240ca1cc, 0x2de92c6f, 0x4a7484aa, 0x5cb0a9dc, 0x76f988da],
     [0x983e5152, 0xa831c66d, 0xb00327c8, 0xbf597fc7, 0xc6e00bf3, 0xd5a79147, 0x06ca6351, 0x14292967],
     [0x27b70a85, 0x2e1b2138, 0x4d2c6dfc, 0x53380d13, 0x650a7354, 0x766a0abb, 0x81c2c92e, 0x92722c85],
     [0xa2bfe8a1, 0xa81a664b, 0xc24b8b70, 0xc76c51a3, 0xd192e819, 0xd6990624, 0xf40e3585, 0x106aa070],
     [0x19a4c116, 0x1e376c08, 0x2748774c, 0x34b0bcb5, 0x391c0cb3, 0x4ed8aa4a, 0x5b9cca4f, 0x682e6ff3],
     [0x748f82ee, 0x78a5636f, 0x84c87814, 0x8cc70208, 0x90befffa, 0xa4506ceb, 0xbef9a3f7, 0xc67178f2]]"

definition sha_h0 :: "w32 list" where
  "sha_h0 = [0x6a09e667, 0xbb67ae85, 0x3c6ef372, 0xa54ff53a, 0x510e527f, 0x9b05688c, 0x1f83d9ab, 0x5be0cd19]"

text \<open>The message schedule: 16 words of the block, then 48 more, oldest first.\<close>

definition sha_w_next :: "w32 list \<Rightarrow> w32" where
  "sha_w_next w =
     (let i = length w;
          s0 = rightRotate (w ! (i - 15)) 7 XOR rightRotate (w ! (i - 15)) 18 XOR drop_bit 3 (w ! (i - 15));
          s1 = rightRotate (w ! (i - 2)) 17 XOR rightRotate (w ! (i - 2)) 19 XOR drop_bit 10 (w ! (i - 2))
      in w ! (i - 16) + s0 + w ! (i - 7) + s1)"

definition sha_schedule :: "nat list \<Rightarrow> nat \<Rightarrow> w32 list" where
  "sha_schedule padded offset =
     ((\<lambda>w. w @ [sha_w_next w]) ^^ 48) (map (\<lambda>i. get_uint32 padded (offset + i * 4)) [0..<16])"

text \<open>One round on the eight working variables, given \<^verbatim>\<open>k[i]\<close> and \<^verbatim>\<open>w[i]\<close>.\<close>

fun sha_round :: "w32 list \<Rightarrow> w32 \<times> w32 \<Rightarrow> w32 list" where
  "sha_round [a, b, c, d, e, f, g, hh] (ki, wi) =
     (let s1 = rightRotate e 6 XOR rightRotate e 11 XOR rightRotate e 25;
          ch = (e AND f) XOR (NOT e AND g);
          temp1 = hh + s1 + ch + ki + wi;
          s0 = rightRotate a 2 XOR rightRotate a 13 XOR rightRotate a 22;
          maj = (a AND b) XOR (a AND c) XOR (b AND c);
          temp2 = s0 + maj
      in [temp1 + temp2, a, b, c, d + temp1, e, f, g])"
| "sha_round h _ = h"

definition sha_block :: "nat list \<Rightarrow> w32 list \<Rightarrow> nat \<Rightarrow> w32 list" where
  "sha_block padded h offset =
     map2 (+) h (foldl sha_round h (zip sha_k (sha_schedule padded offset)))"

definition hex8 :: "w32 \<Rightarrow> string" where
  "hex8 x = map (\<lambda>i. hex_digit (unat x div 16 ^ i mod 16)) (rev [0..<8])"

definition sha256Hex :: "string \<Rightarrow> string" where
  "sha256Hex input =
     (let padded = sha_pad (utf8Bytes input) in
      concat (map hex8 (foldl (sha_block padded) sha_h0 (map (\<lambda>i. i * 64) [0..<length padded div 64]))))"

definition hashCanonical :: "jsval \<Rightarrow> string" where
  "hashCanonical v = sha256Hex (canonicalize v)"

text \<open>The prefixed form \<^verbatim>\<open>"sha256:" + sha256Hex(canonicalize(v))\<close> used for object hashes.\<close>

definition objectHash :: "jsval \<Rightarrow> string" where
  "objectHash v = ''sha256:'' @ sha256Hex (canonicalize v)"

end
