(* ===== verification/Canonical_Facts.thy ===== *)
theory Canonical_Facts
  imports Canonical "HOL-Library.Multiset"
begin

text \<open>
  Facts about canonical JSON and SHA-256: \<open>normalize\<close> is idempotent, \<open>canonicalize\<close> is the
  reference printer after \<open>normalize\<close> and is injective on normalized values, and a digest is
  64 lower-case hexadecimal characters.
\<close>

section \<open>normalize is idempotent, canonicalize is its printer\<close>

text \<open>The values \<open>normalize\<close> produces.\<close>

primrec normal :: "jsval \<Rightarrow> bool" where
  "normal JUndef = False"
| "normal JNull = True"
| "normal (JBool b) = True"
| "normal (JNum n) = (case n of NInt i \<Rightarrow> True | _ \<Rightarrow> False)"
| "normal (JStr s) = True"
| "normal (JArr xs) = list_all id (map normal xs)"
| "normal (JObj kvs) =
     (sorted (map fst kvs) \<and> proto_key \<notin> set (map fst kvs) \<and>
      list_all snd (map (map_prod id normal) kvs))"

lemma normal_JArr [simp]: "normal (JArr xs) \<longleftrightarrow> (\<forall>x\<in>set xs. normal x)"
  by (simp add: list_all_iff)

lemma normal_JObj [simp]:
  "normal (JObj kvs) \<longleftrightarrow>
     sorted (map fst kvs) \<and> proto_key \<notin> set (map fst kvs) \<and> (\<forall>kv\<in>set kvs. normal (snd kv))"
  by (auto simp: list_all_iff)

declare normal.simps(6,7) [simp del]

lemma sorted_map_fst_filter:
  "sorted (map fst xs) \<Longrightarrow> sorted (map fst (filter P xs))"
  by (simp add: sorted_filter)

lemma normal_normalize: "normal (normalize v)"
proof (induction v)
  case (JNum n)
  show ?case by (cases n) auto
next
  case (JObj kvs)
  have "\<forall>kv\<in>set kvs. normal (normalize (snd kv))"
    using JObj.IH snd_in_snds by blast
  then show ?case
    by (auto simp: sorted_map_fst_filter)
qed auto

lemma normalize_normal: "normal v \<Longrightarrow> normalize v = v"
proof (induction v)
  case (JNum n)
  then show ?case by (cases n) auto
next
  case (JArr xs)
  then show ?case by (simp add: map_idI)
next
  case (JObj kvs)
  have "map_prod id normalize kv = kv" if "kv \<in> set kvs" for kv
    using JObj.IH [OF that snd_in_snds] JObj.prems that by (cases kv) auto
  then have "map (map_prod id normalize) kvs = kvs" by (simp add: map_idI)
  moreover have "sort_key fst kvs = kvs"
    using JObj.prems by (simp add: sort_key_id_if_sorted)
  moreover have "filter (\<lambda>kv. fst kv \<noteq> proto_key) kvs = kvs"
    using JObj.prems by (force simp: filter_id_conv)
  ultimately show ?case by simp
qed auto

lemma normalize_idem [simp]: "normalize (normalize v) = normalize v"
  by (rule normalize_normal [OF normal_normalize])

lemma canonicalize_normal: "normal v \<Longrightarrow> canonicalize v = print_json v"
proof (induction v)
  case (JNum n)
  then show ?case by (cases n) (auto simp: canonicalize.simps)
next
  case (JArr xs)
  then have eq: "map canonicalize xs = map print_json xs" by auto
  have "normalize (JArr xs) = JArr xs" using JArr.prems by (rule normalize_normal)
  then have "canonicalize (JArr xs) = ''['' @ js_join '','' (map canonicalize xs) @ '']''"
    by (subst canonicalize.simps) (simp del: map_eq_conv)
  then show ?case by (simp only: print_json.simps eq)
next
  case (JObj kvs)
  have "canonicalize (snd kv) = print_json (snd kv)" if "kv \<in> set kvs" for kv
    using JObj.IH [OF that snd_in_snds] JObj.prems that by simp
  then have eq: "map (\<lambda>kv. json_quote (fst kv) @ '':'' @ canonicalize (snd kv)) kvs
      = map (\<lambda>(k, v). json_quote k @ '':'' @ v) (map (map_prod id print_json) kvs)"
    by (simp add: case_prod_unfold)
  have "sort_key fst kvs = kvs"
    using JObj.prems by (simp add: sort_key_id_if_sorted)
  moreover have "normalize (JObj kvs) = JObj kvs" using JObj.prems by (rule normalize_normal)
  ultimately have "canonicalize (JObj kvs) = ''{'' @ js_join '',''
      (map (\<lambda>kv. json_quote (fst kv) @ '':'' @ canonicalize (snd kv)) kvs) @ ''}''"
    by (subst canonicalize.simps) (simp del: map_eq_conv)
  then show ?case by (simp only: print_json.simps eq)
qed (simp_all add: canonicalize.simps)

lemma canonicalize_normalize: "canonicalize (normalize v) = canonicalize v"
  by (simp only: canonicalize.simps [of v] canonicalize.simps [of "normalize v"] normalize_idem)

lemma canonicalize_eq_print: "canonicalize v = print_json (normalize v)"
  by (metis canonicalize_normal canonicalize_normalize normal_normalize)

section \<open>The printer is uniquely readable\<close>

text \<open>What may follow a printed value inside a printed value.\<close>

definition follows :: "string \<Rightarrow> bool" where
  "follows r \<longleftrightarrow> (case r of [] \<Rightarrow> True | c # _ \<Rightarrow> c \<in> {CHR '','', CHR '']'', CHR ''}''})"

definition is_digit :: "char \<Rightarrow> bool" where
  "is_digit c \<longleftrightarrow> (of_char c :: nat) \<in> {48..57}"

lemma of_char_dec_digit: "a < 10 \<Longrightarrow> (of_char (dec_digit a) :: nat) = 48 + a"
  by (simp add: dec_digit_def take_bit_eq_mod)

lemma dec_digit_inj: "a < 10 \<Longrightarrow> b < 10 \<Longrightarrow> dec_digit a = dec_digit b \<Longrightarrow> a = b"
  by (metis add_left_cancel of_char_dec_digit)

lemma is_digit_dec_digit [simp]: "d < 10 \<Longrightarrow> is_digit (dec_digit d)"
  by (simp add: is_digit_def of_char_dec_digit)

lemma nat_dec_digits: "\<forall>c\<in>set (nat_dec n). is_digit c"
proof (induction n rule: nat_dec.induct)
  case (1 n)
  then show ?case by (subst nat_dec.simps) auto
qed

lemma nat_dec_not_Nil [simp]: "nat_dec n \<noteq> []"
  by (subst nat_dec.simps) simp

lemma Nil_eq_nat_dec [simp]: "[] \<noteq> nat_dec n"
  using nat_dec_not_Nil by metis

lemma nat_dec_inj: "nat_dec a = nat_dec b \<Longrightarrow> a = b"
proof (induction a arbitrary: b rule: nat_dec.induct)
  case (1 a)
  show ?case
  proof (cases "a < 10 \<or> b < 10")
    case True
    then show ?thesis
      using 1(2) nat_dec.simps [of a] nat_dec.simps [of b]
      by (auto split: if_splits intro: dec_digit_inj)
  next
    case False
    then have "nat_dec (a div 10) = nat_dec (b div 10)" "dec_digit (a mod 10) = dec_digit (b mod 10)"
      using 1(2) nat_dec.simps [of a] nat_dec.simps [of b] by auto
    then have "a div 10 = b div 10" "a mod 10 = b mod 10"
      using 1(1) False by (auto intro: dec_digit_inj)
    then show ?thesis by (metis div_mult_mod_eq)
  qed
qed

text \<open>Two digit strings followed by something that is no digit.\<close>

lemma digits_prefix:
  assumes "\<forall>c\<in>set a. is_digit c" "\<forall>c\<in>set b. is_digit c"
    and "case r of [] \<Rightarrow> True | c # _ \<Rightarrow> \<not> is_digit c"
    and "case r' of [] \<Rightarrow> True | c # _ \<Rightarrow> \<not> is_digit c"
    and "a @ r = b @ r'"
  shows "a = b \<and> r = r'"
  using assms
proof (induction a arbitrary: b)
  case Nil
  then show ?case by (cases b) auto
next
  case (Cons c a)
  then show ?case by (cases b) auto
qed

lemma follows_not_digit: "follows r \<Longrightarrow> case r of [] \<Rightarrow> True | c # _ \<Rightarrow> \<not> is_digit c"
  by (auto simp: follows_def is_digit_def split: list.splits)

lemma not_digit_minus [simp]: "\<not> is_digit CHR ''-''"
  by (simp add: is_digit_def)

lemma int_dec_unique:
  assumes "follows r" "follows r'" and "int_dec i @ r = int_dec j @ r'"
  shows "i = j \<and> r = r'"
proof -
  have N: "m = n \<and> r = r'" if "nat_dec m @ r = nat_dec n @ r'" for m n
    using digits_prefix [OF nat_dec_digits nat_dec_digits _ _ that]
      follows_not_digit [OF assms(1)] follows_not_digit [OF assms(2)] nat_dec_inj by blast
  have X: "nat_dec m @ s \<noteq> CHR ''-'' # t" for m s t
    using nat_dec_digits [of m] by (cases "nat_dec m") auto
  consider "i < 0" "j < 0" | "i < 0" "\<not> j < 0" | "\<not> i < 0" "j < 0" | "\<not> i < 0" "\<not> j < 0"
    by blast
  then show ?thesis
  proof cases
    case 1
    then show ?thesis using assms(3) N [of "nat (- i)" "nat (- j)"] by (auto simp: int_dec_def)
  next
    case 2
    then show ?thesis using assms(3) X [of "nat j" r' "nat_dec (nat (- i)) @ r"]
      by (simp add: int_dec_def)
  next
    case 3
    then show ?thesis using assms(3) X [of "nat i" r "nat_dec (nat (- j)) @ r'"]
      by (simp add: int_dec_def)
  next
    case 4
    then show ?thesis using assms(3) N [of "nat i" "nat j"] by (auto simp: int_dec_def)
  qed
qed

subsection \<open>Strings\<close>

definition hex_value :: "char \<Rightarrow> nat" where
  "hex_value c = (let n = of_char c in if n < 58 then n - 48 else n - 87)"

lemma hex_value_digit: "d < 16 \<Longrightarrow> hex_value (hex_digit d) = d"
  by (auto simp: hex_value_def hex_digit_def Let_def)

text \<open>Reading one escaped character back.\<close>

definition unescape :: "string \<Rightarrow> char \<times> string" where
  "unescape s =
     (case s of
        x # y # r \<Rightarrow>
          (if (of_char x :: nat) \<noteq> 92 then (x, y # r)
           else if y = CHR ''u'' then
             (case r of
                a # b # c # d # r' \<Rightarrow> (char_of (16 * hex_value c + hex_value d), r')
              | _ \<Rightarrow> (x, []))
           else if y = CHR ''b'' then (char_of (8::nat), r)
           else if y = CHR ''t'' then (char_of (9::nat), r)
           else if y = CHR ''n'' then (char_of (10::nat), r)
           else if y = CHR ''f'' then (char_of (12::nat), r)
           else if y = CHR ''r'' then (char_of (13::nat), r)
           else (y, r))
      | [x] \<Rightarrow> (x, [])
      | [] \<Rightarrow> (CHR ''x'', []))"

lemma char_of_nat_eqI: "(of_char c :: nat) = n \<Longrightarrow> char_of n = c"
  by (metis char_of_char)

lemma char_of_quote: "char_of (34::nat) = CHR 0x22"
  by (rule char_of_nat_eqI) simp

lemma char_of_backslash: "char_of (92::nat) = CHR 0x5C"
  by (rule char_of_nat_eqI) simp

lemma unescape_escape: "unescape (json_escape c @ r) = (c, r)"
proof -
  define n where "n = (of_char c :: nat)"
  have c: "c = char_of n" by (simp add: n_def)
  have hex: "16 * hex_value (hex_digit (n div 16)) + hex_value (hex_digit (n mod 16)) = n"
    if "n < 32" using that by (simp add: hex_value_digit)
  consider "n = 34" | "n = 92" | "n = 8" | "n = 9" | "n = 10" | "n = 12" | "n = 13"
    | "n < 32" "n \<noteq> 8" "n \<noteq> 9" "n \<noteq> 10" "n \<noteq> 12" "n \<noteq> 13"
    | "\<not> n < 32" "n \<noteq> 34" "n \<noteq> 92" by linarith
  then show ?thesis
  proof cases
    case 8
    then have "json_escape c = CHR 0x5C # ''u00'' @ [hex_digit (n div 16), hex_digit (n mod 16)]"
      by (simp add: json_escape_def n_def Let_def)
    then show ?thesis using hex 8(1) c by (simp add: unescape_def)
  next
    case 9
    then have "json_escape c = [c]" by (simp add: json_escape_def n_def Let_def)
    then show ?thesis using 9 by (cases r) (simp_all add: unescape_def n_def)
  qed (simp_all add: json_escape_def unescape_def n_def [symmetric] c Let_def char_of_quote char_of_backslash)
qed

lemma json_escape_not_Nil [simp]: "json_escape c \<noteq> []"
  by (simp add: json_escape_def Let_def)

lemma json_escape_hd: "hd (json_escape c @ r) \<noteq> CHR 0x22"
  by (auto simp: json_escape_def Let_def)

lemma escaped_unique:
  "concat (map json_escape s) @ CHR 0x22 # r = concat (map json_escape t) @ CHR 0x22 # r' \<Longrightarrow>
   s = t \<and> r = r'"
proof (induction s arbitrary: t)
  case Nil
  show ?case
  proof (cases t)
    case (Cons d t')
    then show ?thesis
      using Nil json_escape_hd [of d "concat (map json_escape t') @ CHR 0x22 # r'"]
      by (metis append.assoc append_Nil concat.simps(1,2) list.map(1,2) list.sel(1))
  qed (use Nil in simp)
next
  case (Cons c s)
  show ?case
  proof (cases t)
    case Nil
    then show ?thesis
      using Cons.prems json_escape_hd [of c "concat (map json_escape s) @ CHR 0x22 # r"]
      by (metis append.assoc append_Nil concat.simps(1,2) list.map(1,2) list.sel(1))
  next
    case (Cons d t')
    have "unescape (json_escape c @ concat (map json_escape s) @ CHR 0x22 # r)
        = unescape (json_escape d @ concat (map json_escape t') @ CHR 0x22 # r')"
      using Cons.prems Cons by simp
    then have "c = d" "concat (map json_escape s) @ CHR 0x22 # r = concat (map json_escape t') @ CHR 0x22 # r'"
      by (simp_all add: unescape_escape)
    with Cons.IH [of t'] show ?thesis by (simp add: Cons)
  qed
qed

lemma json_quote_unique: "json_quote s @ r = json_quote t @ r' \<Longrightarrow> s = t \<and> r = r'"
  using escaped_unique [of s r t r'] by (simp add: json_quote_def)

subsection \<open>Comma-separated lists\<close>

lemma js_join_Cons: "js_join sep (x # xs) = x @ concat (map (\<lambda>y. sep @ y) xs)"
  by (induction xs arbitrary: x) simp_all

text \<open>
  \<open>p\<close> prints the items; each printed item is uniquely readable before a comma or a closing
  bracket, and never starts with one of these.
\<close>

lemma follows_tail:
  "cl \<in> {CHR '']'', CHR ''}''} \<Longrightarrow> follows (concat (map (\<lambda>x. CHR '','' # p x) xs) @ cl # r)"
  by (cases xs) (auto simp: follows_def)

lemma items_tail_unique:
  assumes U: "\<And>x y r r'. x \<in> set xs \<Longrightarrow> P y \<Longrightarrow> follows r \<Longrightarrow> follows r' \<Longrightarrow> p x @ r = p y @ r' \<Longrightarrow> x = y \<and> r = r'"
    and "cl \<in> {CHR '']'', CHR ''}''}" and "\<forall>y\<in>set ys. P y"
    and "concat (map (\<lambda>x. CHR '','' # p x) xs) @ cl # r = concat (map (\<lambda>x. CHR '','' # p x) ys) @ cl # r'"
  shows "xs = ys \<and> r = r'"
  using assms
proof (induction xs arbitrary: ys)
  case Nil
  then show ?case by (cases ys) auto
next
  case (Cons x xs)
  obtain y ys' where ys: "ys = y # ys'"
    using Cons.prems(2,4) by (cases ys) auto
  let ?rx = "concat (map (\<lambda>x. CHR '','' # p x) xs) @ cl # r"
  let ?ry = "concat (map (\<lambda>x. CHR '','' # p x) ys') @ cl # r'"
  have F: "follows ?rx" "follows ?ry"
    using Cons.prems(2) by (simp_all only: follows_tail)
  have "p x @ ?rx = p y @ ?ry" using Cons.prems(4) ys by simp
  then have "x = y" "?rx = ?ry"
    using Cons.prems(1) [of x y ?rx ?ry] Cons.prems(3) ys F by auto
  moreover have "xs = ys' \<and> r = r'"
  proof (rule Cons.IH [OF _ Cons.prems(2)])
    show "\<forall>y\<in>set ys'. P y" using Cons.prems(3) ys by simp
    show "?rx = ?ry" by (rule calculation(2))
  qed (use Cons.prems(1) in auto)
  ultimately show ?case using ys by simp
qed

lemma items_unique:
  assumes U: "\<And>x y r r'. x \<in> set xs \<Longrightarrow> P y \<Longrightarrow> follows r \<Longrightarrow> follows r' \<Longrightarrow> p x @ r = p y @ r' \<Longrightarrow> x = y \<and> r = r'"
    and H: "\<And>x. \<exists>c t. p x = c # t \<and> c \<notin> {CHR '']'', CHR ''}''}"
    and cl: "cl \<in> {CHR '']'', CHR ''}''}" and P: "\<forall>y\<in>set ys. P y"
    and eq: "js_join '','' (map p xs) @ cl # r = js_join '','' (map p ys) @ cl # r'"
  shows "xs = ys \<and> r = r'"
proof (cases xs)
  case Nil
  show ?thesis
  proof (cases ys)
    case (Cons y ys')
    then show ?thesis using eq cl H [of y] Nil by (auto simp: js_join_Cons)
  qed (use eq Nil in simp)
next
  case (Cons x xs')
  obtain y ys' where ys: "ys = y # ys'"
    using eq cl H [of x] Cons by (cases ys) (auto simp: js_join_Cons)
  let ?rx = "concat (map (\<lambda>x. CHR '','' # p x) xs') @ cl # r"
  let ?ry = "concat (map (\<lambda>x. CHR '','' # p x) ys') @ cl # r'"
  have F: "follows ?rx" "follows ?ry"
    using cl by (simp_all only: follows_tail)
  have "p x @ ?rx = p y @ ?ry"
    using eq Cons ys by (simp add: js_join_Cons comp_def)
  then have "x = y" "?rx = ?ry"
    using U [of x y ?rx ?ry] Cons P ys F by auto
  moreover have "xs' = ys' \<and> r = r'"
    using items_tail_unique [of xs' P p cl ys' r r'] U cl P Cons ys calculation(2) by auto
  ultimately show ?thesis using ys Cons by simp
qed

subsection \<open>The main theorem\<close>

lemma print_json_hd: "\<exists>c t. print_json v = c # t \<and> c \<notin> {CHR '']'', CHR ''}''}"
proof (cases v)
  case (JNum n)
  show ?thesis
  proof (cases n)
    case (NInt i)
    have "int_dec i = CHR ''-'' # nat_dec (nat (- i)) \<or> int_dec i = nat_dec (nat i)"
      by (simp add: int_dec_def)
    moreover have "\<exists>c t. nat_dec m = c # t \<and> c \<notin> {CHR '']'', CHR ''}''}" for m
      using nat_dec_digits [of m] by (cases "nat_dec m") (auto simp: is_digit_def)
    ultimately show ?thesis using JNum NInt by auto
  qed (simp_all add: JNum)
qed (simp_all add: json_quote_def)

lemma print_pair_hd:
  "\<exists>c t. json_quote (fst kv) @ '':'' @ print_json (snd kv) = c # t \<and> c \<notin> {CHR '']'', CHR ''}''}"
  by (simp add: json_quote_def)

lemma print_json_JObj:
  "print_json (JObj kvs) =
     ''{'' @ js_join '','' (map (\<lambda>kv. json_quote (fst kv) @ '':'' @ print_json (snd kv)) kvs) @ ''}''"
  by (simp add: comp_def case_prod_unfold)

lemma print_json_JArr: "print_json (JArr xs) = ''['' @ js_join '','' (map print_json xs) @ '']''"
  by simp

text \<open>The printed scalars differ from each other and from arrays and objects in the first character.\<close>

lemma int_dec_hd: "\<exists>c t. int_dec i = c # t \<and> (is_digit c \<or> c = CHR ''-'')"
  using nat_dec_digits [of "nat i"] by (cases "nat_dec (nat i)") (auto simp: int_dec_def)

lemma print_json_unique:
  "normal v \<Longrightarrow> normal w \<Longrightarrow> follows r \<Longrightarrow> follows r' \<Longrightarrow> print_json v @ r = print_json w @ r' \<Longrightarrow>
   v = w \<and> r = r'"
proof (induction v arbitrary: w r r')
  case (JNum n)
  then obtain i where n: "n = NInt i" by (cases n) auto
  obtain c t where c: "int_dec i = c # t" "is_digit c \<or> c = CHR ''-''"
    using int_dec_hd by blast
  show ?case
  proof (cases w)
    case (JNum m)
    then obtain j where m: "m = NInt j" using JNum.prems by (cases m) auto
    show ?thesis
      using int_dec_unique [of r r' i j] JNum.prems JNum n m by auto
  qed (use JNum.prems n c in \<open>auto simp: is_digit_def json_quote_def split: if_splits\<close>)
next
  case (JStr s)
  show ?case
  proof (cases w)
    case (JStr t)
    show ?thesis using JStr.prems JStr json_quote_unique [of s r t r'] by auto
  next
    case (JNum m)
    then obtain j where m: "m = NInt j" using JStr.prems by (cases m) auto
    show ?thesis
      using JStr.prems JNum m int_dec_hd [of j] by (auto simp: is_digit_def json_quote_def)
  qed (use JStr.prems in \<open>auto simp: json_quote_def split: if_splits\<close>)
next
  case (JArr xs)
  show ?case
  proof (cases w)
    case (JArr ys)
    have "xs = ys \<and> r = r'"
    proof (rule items_unique [where p = print_json and P = normal and cl = "CHR '']''"])
      show "js_join '','' (map print_json xs) @ CHR '']'' # r = js_join '','' (map print_json ys) @ CHR '']'' # r'"
        using JArr.prems JArr by simp
    qed (use JArr.IH JArr.prems JArr print_json_hd in auto)
    then show ?thesis using JArr by simp
  next
    case (JNum m)
    then obtain j where m: "m = NInt j" using JArr.prems by (cases m) auto
    show ?thesis
      using JArr.prems JNum m int_dec_hd [of j] by (auto simp: is_digit_def)
  qed (use JArr.prems in \<open>auto simp: json_quote_def split: if_splits\<close>)
next
  case (JObj kvs)
  show ?case
  proof (cases w)
    case (JObj kws)
    let ?p = "\<lambda>kv. json_quote (fst kv) @ '':'' @ print_json (snd kv)"
    have "kvs = kws \<and> r = r'"
    proof (rule items_unique [where p = ?p and P = "\<lambda>kv. normal (snd kv)" and cl = "CHR ''}''"])
      fix x y :: "string \<times> jsval" and q q' :: string
      assume A: "x \<in> set kvs" "normal (snd y)" "follows q" "follows q'" "?p x @ q = ?p y @ q'"
      then have "fst x = fst y \<and> '':'' @ print_json (snd x) @ q = '':'' @ print_json (snd y) @ q'"
        using json_quote_unique [of "fst x" "'':'' @ print_json (snd x) @ q" "fst y"] by simp
      moreover from this have "snd x = snd y \<and> q = q'"
        using JObj.IH [OF A(1) snd_in_snds] JObj.prems(1) A by auto
      ultimately show "x = y \<and> q = q'" by (simp add: prod_eq_iff)
    next
      show "js_join '','' (map ?p kvs) @ CHR ''}'' # r = js_join '','' (map ?p kws) @ CHR ''}'' # r'"
        using JObj.prems(5) JObj by (simp only: print_json_JObj) simp
    qed (use JObj.prems JObj print_pair_hd in auto)
    then show ?thesis using JObj by simp
  next
    case (JNum m)
    then obtain j where m: "m = NInt j" using JObj.prems by (cases m) auto
    show ?thesis
      using JObj.prems JNum m int_dec_hd [of j] by (auto simp: is_digit_def)
  qed (use JObj.prems in \<open>auto simp: json_quote_def split: if_splits\<close>)
next
  case (JBool b)
  show ?case
  proof (cases w)
    case (JNum m)
    then obtain j where m: "m = NInt j" using JBool.prems by (cases m) auto
    show ?thesis
      using JBool.prems JNum m int_dec_hd [of j] by (auto simp: is_digit_def split: if_splits)
  qed (use JBool.prems in \<open>auto simp: json_quote_def split: if_splits\<close>)
next
  case JNull
  show ?case
  proof (cases w)
    case (JNum m)
    then obtain j where m: "m = NInt j" using JNull.prems by (cases m) auto
    show ?thesis
      using JNull.prems JNum m int_dec_hd [of j] by (auto simp: is_digit_def)
  qed (use JNull.prems in \<open>auto simp: json_quote_def split: if_splits\<close>)
qed simp

lemma canonicalize_inj: "canonicalize a = canonicalize b \<longleftrightarrow> normalize a = normalize b"
proof
  assume "canonicalize a = canonicalize b"
  then have "print_json (normalize a) @ [] = print_json (normalize b) @ []"
    by (simp add: canonicalize_eq_print)
  then show "normalize a = normalize b"
    using print_json_unique [OF normal_normalize [of a] normal_normalize [of b], of "[]" "[]"]
    by (simp add: follows_def)
next
  assume "normalize a = normalize b"
  then show "canonicalize a = canonicalize b" by (simp add: canonicalize_eq_print)
qed

section \<open>SHA-256 digests\<close>

lemma length_sha_round: "length (sha_round h kw) = length h"
  by (induction h kw rule: sha_round.induct) (simp_all add: Let_def)

lemma length_foldl_sha_round: "length (foldl sha_round h kws) = length h"
  by (induction kws arbitrary: h) (simp_all add: length_sha_round)

lemma length_sha_block [simp]: "length (sha_block padded h off) = length h"
  by (simp add: sha_block_def length_foldl_sha_round)

lemma length_foldl_sha_block: "length (foldl (sha_block padded) h offs) = length h"
  by (induction offs arbitrary: h) simp_all

lemma length_hex8 [simp]: "length (hex8 x) = 8"
  by (simp add: hex8_def)

lemma length_concat_hex8: "length (concat (map hex8 ws)) = 8 * length ws"
  by (induction ws) simp_all

lemma length_sha256Hex [simp]: "length (sha256Hex s) = 64"
  by (simp add: sha256Hex_def Let_def length_concat_hex8 length_foldl_sha_block sha_h0_def)

definition hex_chars :: "char set" where
  "hex_chars = hex_digit ` {0..<16}"

lemma sha256Hex_chars: "set (sha256Hex s) \<subseteq> hex_chars"
proof -
  have "set (hex8 x) \<subseteq> hex_chars" for x
    by (auto simp: hex8_def hex_chars_def)
  then show ?thesis by (force simp: sha256Hex_def Let_def)
qed

lemma sha256Hex_not_Nil [simp]: "sha256Hex s \<noteq> []"
  using length_sha256Hex [of s] by (metis length_0_conv zero_neq_numeral)

lemma nonblank_objectHash [simp]: "nonblank (objectHash v)"
  by (simp add: objectHash_def js_ws_def)

lemma objectHash_inj:
  "objectHash a = objectHash b \<longleftrightarrow> sha256Hex (canonicalize a) = sha256Hex (canonicalize b)"
  by (simp add: objectHash_def)

section \<open>Properties\<close>

text \<open>
  C29. Canonical JSON identifies exactly the values with the same normal form: two values have
  the same canonical text if and only if \<^verbatim>\<open>normalize\<close> maps them to the same value. So a
  hash of canonical text is a hash of the normal form and of nothing less.
\<close>

theorem canonicalize_identifies_normal_forms:
  "canonicalize a = canonicalize b \<longleftrightarrow> normalize a = normalize b"
  by (rule canonicalize_inj)

text \<open>
  \<^verbatim>\<open>normalize\<close> produces a value in normal form (sorted keys, no \<^verbatim>\<open>undefined\<close>, no
  non-finite number) and is idempotent, and \<^verbatim>\<open>canonicalize\<close>, which normalizes again at
  every level, agrees with a printer that normalizes once.
\<close>

theorem canonicalize_refines_printer:
  "normal (normalize v) \<and> normalize (normalize v) = normalize v \<and>
   canonicalize v = print_json (normalize v) \<and> canonicalize (normalize v) = canonicalize v"
  by (simp add: normal_normalize canonicalize_eq_print)

text \<open>
  The order in which the properties of an object were written does not matter: two
  objects with the same property set (distinct names) have the same canonical text.
\<close>

theorem canonicalize_key_order:
  assumes "distinct (map fst kvs)" and "distinct (map fst kws)" and "set kvs = set kws"
  shows "canonicalize (JObj kvs) = canonicalize (JObj kws)"
proof -
  let ?n = "map (map_prod id normalize)"
  have keys: "map fst (?n xs) = map fst xs" for xs :: "(string \<times> jsval) list" by simp
  have "mset kvs = mset kws"
    using assms by (metis distinct_map set_eq_iff_mset_eq_distinct)
  then have "mset (?n kvs) = mset (?n kws)" by (simp only: mset_map)
  moreover have "inj_on fst (set (?n kvs))"
    using assms(1) by (metis distinct_map keys)
  ultimately have "sort_key fst (?n kvs) = sort_key fst (?n kws)"
    by (rule sort_key_eq_sort_key)
  then show ?thesis by (simp add: canonicalize_eq_print)
qed

theorem canonicalize_key_order_witness:
  "canonicalize (JObj [(''b'', JNull), (''a'', JBool True)]) =
   canonicalize (JObj [(''a'', JBool True), (''b'', JNull)])"
  by (rule canonicalize_key_order) auto

text \<open>
  A property named \<^verbatim>\<open>__proto__\<close> is not covered by the hash: adding it to an object that
  has none leaves the canonical text and every hash of it unchanged.
\<close>

theorem proto_property_not_hashed:
  "canonicalize (JObj ((proto_key, v) # kvs)) = canonicalize (JObj kvs) \<and>
   hashCanonical (JObj ((proto_key, v) # kvs)) = hashCanonical (JObj kvs) \<and>
   objectHash (JObj ((proto_key, v) # kvs)) = objectHash (JObj kvs)"
proof -
  let ?P = "\<lambda>kv :: string \<times> jsval. fst kv \<noteq> proto_key"
  have "filter ?P (insort_key fst (proto_key, w) xs) = filter ?P xs" for w xs
    by (induction xs) auto
  then have "normalize (JObj ((proto_key, v) # kvs)) = normalize (JObj kvs)" by simp
  then have "canonicalize (JObj ((proto_key, v) # kvs)) = canonicalize (JObj kvs)"
    by (simp only: canonicalize_eq_print)
  then show ?thesis by (simp only: hashCanonical_def objectHash_def simp_thms)
qed

text \<open>
  A digest is 64 lower-case hexadecimal characters, and an object hash is the prefix
  \<^verbatim>\<open>sha256:\<close> followed by a digest.
\<close>

theorem sha256Hex_format:
  "length (sha256Hex s) = 64 \<and> set (sha256Hex s) \<subseteq> set ''0123456789abcdef'' \<and>
   objectHash v = ''sha256:'' @ hashCanonical v"
proof -
  have "hex_chars = set (map hex_digit [0..<16])" by (simp add: hex_chars_def)
  also have "map hex_digit [0..<16] = ''0123456789abcdef''" by code_simp
  finally have "hex_chars \<subseteq> set ''0123456789abcdef''" by simp
  then show ?thesis
    using sha256Hex_chars [of s] by (simp only: objectHash_def hashCanonical_def length_sha256Hex) blast
qed

end
