(* ===== verification/Continuity_Core.thy ===== *)
theory Continuity_Core
  imports Canonical_Facts
begin

text \<open>
  The correctness-critical primitives of \<^verbatim>\<open>src/continuity-core.js\<close>: validation of an
  authorized execution object (AEO), the lineage graph, the proof envelope, the classification
  of reconciliation evidence and the in-memory replay registry.
\<close>

section \<open>Shared shape tests\<close>

definition REQUIRED_AEO_FIELDS :: "string list" where
  "REQUIRED_AEO_FIELDS = [''finality'', ''intent'', ''scope'', ''target'', ''validation'']"

text \<open>\<^verbatim>\<open>obj.k = v\<close>: replace the property or add it at the end.\<close>

fun alist_set :: "(string \<times> jsval) list \<Rightarrow> string \<Rightarrow> jsval \<Rightarrow> (string \<times> jsval) list" where
  "alist_set [] k v = [(k, v)]"
| "alist_set ((k', v') # kvs) k v = (if k' = k then (k, v) # kvs else (k', v') # alist_set kvs k v)"

fun js_set :: "jsval \<Rightarrow> string \<Rightarrow> jsval \<Rightarrow> jsval" where
  "js_set (JObj kvs) k v = JObj (alist_set kvs k v)"
| "js_set w k v = w"

text \<open>\<^verbatim>\<open>JSON.parse(JSON.stringify(v))\<close>\<close>

function json_clone :: "jsval \<Rightarrow> jsval" where
  "json_clone JUndef = JNull"
| "json_clone JNull = JNull"
| "json_clone (JBool b) = JBool b"
| "json_clone (JNum n) = (case n of NInt i \<Rightarrow> JNum (NInt i) | _ \<Rightarrow> JNull)"
| "json_clone (JStr s) = JStr s"
| "json_clone (JArr xs) = JArr (map json_clone xs)"
| "json_clone (JObj kvs) =
     JObj (map (\<lambda>kv. (fst kv, json_clone (snd kv))) (filter (\<lambda>kv. snd kv \<noteq> JUndef) kvs))"
  by pat_completeness auto
termination
proof (relation "measure size", goal_cases)
  case (2 xs z)
  then show ?case using size_mem_sum_list [of z xs] by simp
next
  case (3 kvs z)
  then have "(fst z, snd z) \<in> set kvs" by simp
  then show ?case using size_prod_child [of "fst z" "snd z" kvs] by simp
qed simp

section \<open>validateAeo\<close>

datatype AeoValidationDecision = AEO_VALID | AEO_NULL

record AeoValidationContext =
  expected_authority :: string
  maximum_scope :: "string list"

definition aeoObjectForHash :: "jsval \<Rightarrow> jsval" where
  "aeoObjectForHash aeo =
     (let clone = json_clone aeo in
      if isPlainObject (js_get clone ''validation'')
      then js_set clone ''validation'' (js_set (js_get clone ''validation'') ''object_hash'' JNull)
      else clone)"

definition hasExactKeys :: "jsval \<Rightarrow> bool" where
  "hasExactKeys aeo \<longleftrightarrow> sort (js_keys aeo) = REQUIRED_AEO_FIELDS"

definition sectionsBound :: "jsval \<Rightarrow> string \<Rightarrow> bool" where
  "sectionsBound aeo expected \<longleftrightarrow>
     list_all (\<lambda>sec. isPlainObject (js_get aeo sec) \<and>
                     js_get (js_get aeo sec) ''authority_id'' = JStr expected) REQUIRED_AEO_FIELDS"

definition boundsContained :: "jsval \<Rightarrow> string list \<Rightarrow> bool" where
  "boundsContained aeo maxScope \<longleftrightarrow>
     (case js_get (js_get aeo ''scope'') ''bounds'' of
        JArr bs \<Rightarrow> bs \<noteq> [] \<and> list_all isNonBlankString bs \<and>
                  list_all (\<lambda>b. case b of JStr s \<Rightarrow> s \<in> set maxScope | _ \<Rightarrow> False) bs
      | _ \<Rightarrow> False)"

definition validateAeo :: "jsval \<Rightarrow> AeoValidationContext \<Rightarrow> AeoValidationDecision" where
  "validateAeo aeo ctx =
     (if \<not> isPlainObject aeo then AEO_NULL
      else if \<not> hasExactKeys aeo then AEO_NULL
      else if \<not> sectionsBound aeo (expected_authority ctx) then AEO_NULL
      else if \<not> boundsContained aeo (maximum_scope ctx) then AEO_NULL
      else case js_get (js_get aeo ''validation'') ''object_hash'' of
             JStr storedHash \<Rightarrow>
               (if length storedHash \<noteq> 64 then AEO_NULL
                else if sha256Hex (canonicalize (aeoObjectForHash aeo)) \<noteq> storedHash then AEO_NULL
                else AEO_VALID)
           | _ \<Rightarrow> AEO_NULL)"

lemma validateAeo_VALID_iff:
  "validateAeo aeo ctx = AEO_VALID \<longleftrightarrow>
     isPlainObject aeo \<and> hasExactKeys aeo \<and> sectionsBound aeo (expected_authority ctx) \<and>
     boundsContained aeo (maximum_scope ctx) \<and>
     js_get (js_get aeo ''validation'') ''object_hash'' =
       JStr (sha256Hex (canonicalize (aeoObjectForHash aeo)))"
  by (auto simp: validateAeo_def split: jsval.splits)

lemma strings_only:
  "list_all isNonBlankString bs \<longleftrightarrow> (\<exists>ss. bs = map JStr ss \<and> list_all nonblank ss)"
proof (induction bs)
  case (Cons b bs)
  then show ?case by (cases b) (auto simp: Cons_eq_map_conv)
qed simp

lemma boundsContained_iff:
  "boundsContained aeo M \<longleftrightarrow>
     (\<exists>bs. bs \<noteq> [] \<and> js_get (js_get aeo ''scope'') ''bounds'' = JArr (map JStr bs) \<and>
           list_all nonblank bs \<and> set bs \<subseteq> set M)"
proof (cases "js_get (js_get aeo ''scope'') ''bounds''")
  case (JArr xs)
  have "list_all (\<lambda>b. case b of JStr s \<Rightarrow> s \<in> set M | _ \<Rightarrow> False) (map JStr ss) \<longleftrightarrow> set ss \<subseteq> set M" for ss
    by (auto simp: list_all_iff)
  then show ?thesis
    using JArr by (auto simp: boundsContained_def strings_only)
qed (auto simp: boundsContained_def)

section \<open>Lineage graph\<close>

record CoreLineageNode =
  cln_id :: string
  cln_parent_ids :: "string list"

type_synonym lineage_graph = "string \<rightharpoonup> CoreLineageNode"

datatype LineageState = LIN_VALID | LIN_ORPHAN | LIN_AMBIGUOUS | LIN_NULL

definition lineage_insert :: "lineage_graph \<Rightarrow> CoreLineageNode \<Rightarrow> lineage_graph \<times> LineageState" where
  "lineage_insert g n =
     (if g (cln_id n) \<noteq> None then (g, LIN_AMBIGUOUS) else (g(cln_id n \<mapsto> n), LIN_VALID))"

definition lineage_classify :: "lineage_graph \<Rightarrow> string \<Rightarrow> LineageState" where
  "lineage_classify g i =
     (case g i of
        None \<Rightarrow> LIN_NULL
      | Some n \<Rightarrow> if list_all (\<lambda>p. g p \<noteq> None) (cln_parent_ids n) then LIN_VALID else LIN_ORPHAN)"

definition lineage_classifyAsValidation :: "lineage_graph \<Rightarrow> string \<Rightarrow> LineageState" where
  "lineage_classifyAsValidation g i =
     (let st = lineage_classify g i in if st = LIN_ORPHAN then LIN_NULL else st)"

lemma lineage_insert_mono: "g \<subseteq>\<^sub>m fst (lineage_insert g n)"
  by (auto simp: lineage_insert_def map_le_def)

text \<open>Insertion never takes validity away from a node.\<close>

lemma lineage_classify_mono:
  assumes "lineage_classify g i = LIN_VALID"
  shows "lineage_classify (fst (lineage_insert g n)) i = LIN_VALID"
proof -
  obtain m where m: "g i = Some m" "list_all (\<lambda>p. g p \<noteq> None) (cln_parent_ids m)"
    using assms by (auto simp: lineage_classify_def split: option.splits if_splits)
  have keep: "fst (lineage_insert g n) p \<noteq> None" if "g p \<noteq> None" for p
    using that by (simp add: lineage_insert_def)
  have "fst (lineage_insert g n) i = Some m"
    using m(1) by (auto simp: lineage_insert_def)
  with m(2) keep show ?thesis
    by (auto simp: lineage_classify_def list_all_iff)
qed

section \<open>Proof envelope and reconciliation evidence\<close>

datatype js_error = TypeError

record ProofEnvelope =
  pe_proof_id :: string
  pe_execution_id :: jsval
  pe_decision_id :: jsval
  pe_aeo_hash :: jsval
  pe_target_system :: jsval
  pe_target_action :: jsval
  pe_result :: jsval
  pe_timestamp :: jsval
  pe_evidence_hash :: string

text \<open>
  The test \<^verbatim>\<open>!v || !v.trim()\<close>: a truthy value that is no string has no method \<^verbatim>\<open>trim\<close> and
  throws.
\<close>

definition blank_test :: "jsval \<Rightarrow> js_error + bool" where
  "blank_test v =
     (if \<not> js_truthy v then Inr True
      else case v of JStr s \<Rightarrow> Inr (\<not> nonblank s) | _ \<Rightarrow> Inl TypeError)"

definition buildProofEnvelope :: "string \<Rightarrow> jsval \<Rightarrow> js_error + ProofEnvelope option" where
  "buildProofEnvelope proofId evidence =
     (if \<not> js_truthy evidence then Inr None
      else case blank_test (js_get evidence ''result'') of
        Inl e \<Rightarrow> Inl e
      | Inr True \<Rightarrow> Inr None
      | Inr False \<Rightarrow>
     (case blank_test (js_get evidence ''timestamp'') of
        Inl e \<Rightarrow> Inl e
      | Inr True \<Rightarrow> Inr None
      | Inr False \<Rightarrow>
         if is_nullish (js_get evidence ''evidence_object'') then Inr None
         else Inr (Some
           \<lparr>pe_proof_id = proofId,
            pe_execution_id = js_get evidence ''execution_id'',
            pe_decision_id = js_get evidence ''decision_id'',
            pe_aeo_hash = js_get evidence ''aeo_hash'',
            pe_target_system = js_get evidence ''target_system'',
            pe_target_action = js_get evidence ''target_action'',
            pe_result = js_get evidence ''result'',
            pe_timestamp = js_get evidence ''timestamp'',
            pe_evidence_hash = sha256Hex (canonicalize (js_get evidence ''evidence_object''))\<rparr>)))"

datatype CoreReconciliation = CR_RECONCILED | CR_DIVERGENT | CR_AMBIGUOUS | CR_PARTIAL | CR_NULL

record ReconciliationEvidence =
  re_expected_hash :: "string option"
  re_observed_hash :: "string option"
  re_lineage_complete :: bool
  re_proof_present :: bool
  re_observations_complete :: bool
  re_ambiguity_detected :: bool

definition classifyReconciliation :: "ReconciliationEvidence option \<Rightarrow> CoreReconciliation" where
  "classifyReconciliation ev =
     (case ev of
        None \<Rightarrow> CR_NULL
      | Some e \<Rightarrow>
          if re_expected_hash e = None \<or> re_observed_hash e = None then CR_PARTIAL
          else if re_ambiguity_detected e then CR_AMBIGUOUS
          else if \<not> re_lineage_complete e \<or> \<not> re_proof_present e \<or> \<not> re_observations_complete e
            then CR_PARTIAL
          else if re_expected_hash e = re_observed_hash e then CR_RECONCILED
          else CR_DIVERGENT)"

lemma classifyReconciliation_RECONCILED_iff:
  "classifyReconciliation (Some e) = CR_RECONCILED \<longleftrightarrow>
     (\<exists>h. re_expected_hash e = Some h \<and> re_observed_hash e = Some h) \<and>
     \<not> re_ambiguity_detected e \<and> re_lineage_complete e \<and> re_proof_present e \<and>
     re_observations_complete e"
  by (auto simp: classifyReconciliation_def)

section \<open>Replay registry\<close>

record CoreReplayRegistry =
  usedNonces :: "string list"
  usedObjectHashes :: "string list"

datatype CoreReplayState = RR_UNUSED | RR_USED | RR_AMBIGUOUS | RR_NULL

definition replay_classify ::
  "CoreReplayRegistry \<Rightarrow> string \<Rightarrow> string \<Rightarrow> string \<Rightarrow> CoreReplayState" where
  "replay_classify reg nonce objHash lineageBinding =
     (if nonce = [] \<or> objHash = [] \<or> lineageBinding = [] then RR_NULL
      else let nonceUsed = nonce \<in> set (usedNonces reg);
               hashUsed = objHash \<in> set (usedObjectHashes reg) in
           if \<not> nonceUsed \<and> \<not> hashUsed then RR_UNUSED
           else if nonceUsed \<and> hashUsed then RR_USED
           else RR_AMBIGUOUS)"

definition replay_admit ::
  "CoreReplayRegistry \<Rightarrow> string \<Rightarrow> string \<Rightarrow> string \<Rightarrow> CoreReplayRegistry \<times> CoreReplayState" where
  "replay_admit reg nonce objHash lineageBinding =
     (if replay_classify reg nonce objHash lineageBinding = RR_UNUSED
      then (reg\<lparr>usedNonces := nonce # usedNonces reg,
                usedObjectHashes := objHash # usedObjectHashes reg\<rparr>, RR_UNUSED)
      else (reg, RR_NULL))"

text \<open>A run of admissions, and how often it admitted a nonce.\<close>

fun replay_admits :: "CoreReplayRegistry \<Rightarrow> (string \<times> string \<times> string) list \<Rightarrow> CoreReplayState list" where
  "replay_admits reg [] = []"
| "replay_admits reg ((n, h, l) # rest) =
     (case replay_admit reg n h l of (reg', st) \<Rightarrow> st # replay_admits reg' rest)"

definition admitted :: "(string \<times> string \<times> string) list \<Rightarrow> CoreReplayState list \<Rightarrow> (string \<times> string \<times> string) list" where
  "admitted reqs sts = map fst (filter (\<lambda>p. snd p = RR_UNUSED) (zip reqs sts))"

lemma admitted_Cons [simp]:
  "admitted (r # reqs) (st # sts) = (if st = RR_UNUSED then r # admitted reqs sts else admitted reqs sts)"
  by (simp add: admitted_def)

lemma replay_admit_UNUSED_iff:
  "snd (replay_admit reg n h l) = RR_UNUSED \<longleftrightarrow>
     n \<noteq> [] \<and> h \<noteq> [] \<and> l \<noteq> [] \<and> n \<notin> set (usedNonces reg) \<and> h \<notin> set (usedObjectHashes reg)"
  by (auto simp: replay_admit_def replay_classify_def Let_def)

lemma admitted_fresh:
  "r \<in> set (admitted reqs (replay_admits reg reqs)) \<Longrightarrow>
     fst r \<notin> set (usedNonces reg) \<and> fst (snd r) \<notin> set (usedObjectHashes reg)"
proof (induction reqs arbitrary: reg)
  case Nil
  then show ?case by (simp add: admitted_def)
next
  case (Cons q reqs)
  obtain n h l where q: "q = (n, h, l)" by (cases q)
  show ?case
  proof (cases "replay_classify reg n h l = RR_UNUSED")
    case True
    then have adm: "replay_admit reg n h l =
        (reg\<lparr>usedNonces := n # usedNonces reg, usedObjectHashes := h # usedObjectHashes reg\<rparr>, RR_UNUSED)"
      by (simp add: replay_admit_def)
    then have "n \<notin> set (usedNonces reg)" "h \<notin> set (usedObjectHashes reg)"
      using replay_admit_UNUSED_iff [of reg n h l] by auto
    then show ?thesis using Cons.prems Cons.IH q adm by fastforce
  next
    case False
    then have "replay_admit reg n h l = (reg, RR_NULL)" by (simp add: replay_admit_def)
    then show ?thesis using Cons.prems Cons.IH q by auto
  qed
qed

lemma admitted_distinct:
  "distinct (map fst (admitted reqs (replay_admits reg reqs))) \<and>
   distinct (map (\<lambda>r. fst (snd r)) (admitted reqs (replay_admits reg reqs)))"
proof (induction reqs arbitrary: reg)
  case Nil
  show ?case by (simp add: admitted_def)
next
  case (Cons q reqs)
  obtain n h l where q: "q = (n, h, l)" by (cases q)
  obtain reg' st where adm: "replay_admit reg n h l = (reg', st)" by (cases "replay_admit reg n h l")
  show ?case
  proof (cases "st = RR_UNUSED")
    case True
    then have "n \<in> set (usedNonces reg')" "h \<in> set (usedObjectHashes reg')"
      using adm by (auto simp: replay_admit_def split: if_splits)
    then have "\<forall>r\<in>set (admitted reqs (replay_admits reg' reqs)). fst r \<noteq> n \<and> fst (snd r) \<noteq> h"
      using admitted_fresh by blast
    then show ?thesis using Cons.IH [of reg'] q adm True by (auto simp: image_iff)
  next
    case False
    then show ?thesis using Cons.IH [of reg'] q adm by simp
  qed
qed

section \<open>Properties\<close>

text \<open>
  C28. \<^verbatim>\<open>validateAeo\<close> says \<^verbatim>\<open>VALID\<close> exactly when the object has the five required sections
  and no other, every section is bound to the expected authority, the scope bounds are a
  non-empty list of non-blank strings inside the maximum scope, and the stored hash is the
  SHA-256 of the canonical object with the hash field set to null.
\<close>

theorem validateAeo_VALID_exactly:
  "validateAeo aeo ctx = AEO_VALID \<longleftrightarrow>
     isPlainObject aeo \<and> sort (js_keys aeo) = [''finality'', ''intent'', ''scope'', ''target'', ''validation''] \<and>
     (\<forall>sec. sec \<in> set REQUIRED_AEO_FIELDS \<longrightarrow>
        isPlainObject (js_get aeo sec) \<and>
        js_get (js_get aeo sec) ''authority_id'' = JStr (expected_authority ctx)) \<and>
     (\<exists>bs. bs \<noteq> [] \<and> js_get (js_get aeo ''scope'') ''bounds'' = JArr (map JStr bs) \<and>
           list_all nonblank bs \<and> set bs \<subseteq> set (maximum_scope ctx)) \<and>
     js_get (js_get aeo ''validation'') ''object_hash'' =
       JStr (sha256Hex (canonicalize (aeoObjectForHash aeo)))"
  unfolding validateAeo_VALID_iff hasExactKeys_def sectionsBound_def boundsContained_iff
    list_all_iff Ball_def REQUIRED_AEO_FIELDS_def
  by (rule refl)

theorem validateAeo_VALID_exactly_witness:
  "let sec = (\<lambda>k kvs. (k, JObj ((''authority_id'', JStr ''auth'') # kvs)));
       obj = (\<lambda>h. JObj [sec ''intent'' [], sec ''scope'' [(''bounds'', JArr [JStr ''src''])],
                        sec ''validation'' [(''object_hash'', h)], sec ''target'' [], sec ''finality'' []])
   in validateAeo (obj (JStr (sha256Hex (canonicalize (obj JNull)))))
        \<lparr>expected_authority = ''auth'', maximum_scope = [''src'', ''docs'']\<rparr> = AEO_VALID"
  unfolding Let_def validateAeo_VALID_exactly
  by (auto simp: REQUIRED_AEO_FIELDS_def aeoObjectForHash_def js_ws_def Let_def intro!: exI [of _ "[''src'']"])

text \<open>
  The in-memory replay registry admits every nonce at most once and every object hash at
  most once, whatever sequence of admissions is requested, and an admitted request was fresh.
\<close>

theorem replay_registry_admits_once:
  "distinct (map fst (admitted reqs (replay_admits reg reqs))) \<and>
   distinct (map (\<lambda>r. fst (snd r)) (admitted reqs (replay_admits reg reqs))) \<and>
   (\<forall>n h l. (n, h, l) \<in> set (admitted reqs (replay_admits reg reqs)) \<longrightarrow>
      n \<notin> set (usedNonces reg) \<and> h \<notin> set (usedObjectHashes reg))"
  using admitted_distinct admitted_fresh by (metis fst_conv snd_conv)

theorem replay_registry_admits_once_witness:
  "let reg = \<lparr>usedNonces = [''n0''], usedObjectHashes = [''h0'']\<rparr>;
       reqs = [(''n1'', ''h1'', ''l''), (''n1'', ''h2'', ''l''), (''n0'', ''h3'', ''l''), (''n2'', ''h2'', ''l'')]
   in admitted reqs (replay_admits reg reqs) = [(''n1'', ''h1'', ''l''), (''n2'', ''h2'', ''l'')] \<and>
      ''n2'' \<notin> set (usedNonces reg)"
proof -
  let ?reg = "\<lparr>usedNonces = [''n0''], usedObjectHashes = [''h0'']\<rparr>"
  let ?reqs = "[(''n1'', ''h1'', ''l''), (''n1'', ''h2'', ''l''), (''n0'', ''h3'', ''l''), (''n2'', ''h2'', ''l'')]"
  have A: "admitted ?reqs (replay_admits ?reg ?reqs) = [(''n1'', ''h1'', ''l''), (''n2'', ''h2'', ''l'')]"
    by code_simp
  moreover have "''n2'' \<notin> set (usedNonces ?reg)"
    using replay_registry_admits_once [of ?reqs ?reg] A by auto
  ultimately show ?thesis by simp
qed

end
