(* ===== verification/Filesystem_AEO.thy ===== *)
theory Filesystem_AEO
  imports Continuity_Core "HOL-Library.Monad_Syntax"
begin

text \<open>
  \<^verbatim>\<open>src/lib/filesystem-aeo.ts\<close>: the five sections of a filesystem AEO, the validation of each
  section of an unknown value, \<^verbatim>\<open>materializeFilesystemAEO\<close> and the object hash. Array
  elements are run-time values: \<^verbatim>\<open>compileFilesystemWriteAEO\<close> copies arrays without looking
  at their elements, \<^verbatim>\<open>materializeFilesystemAEO\<close> accepts arrays of strings only.
\<close>

section \<open>The sections\<close>

record FilesystemAEOIntent =
  fi_action :: string
  fi_purpose :: string

record FilesystemAEOScope =
  fs_repo :: string
  fs_root :: string
  fs_allowed_paths :: "jsval list"
  fs_denied_paths :: "jsval list"
  fs_allowed_operations :: "jsval list"
  fs_denied_operations :: "jsval list"
  fs_max_files :: jsnum
  fs_max_diff_lines :: jsnum

record FilesystemAEOValidation =
  fv_decision_id :: string
  fv_authority_lineage_hash :: string
  fv_policy_id :: string
  fv_policy_hash :: string
  fv_canonicalization :: string
  fv_pre_write_hash :: string
  fv_proposed_diff_hash :: string
  fv_aeo_hash_required :: bool
  fv_replay_nonce :: string
  fv_requires_unused_nonce :: bool
  fv_requires_scope_match :: bool
  fv_requires_path_policy_match :: bool
  fv_requires_pre_write_hash_match :: bool

text \<open>\<^verbatim>\<open>target.system\<close> is the constant \<^verbatim>\<open>"filesystem"\<close>; \<open>target_js\<close> writes it.\<close>

record FilesystemAEOTarget =
  ft_operation :: string
  ft_path :: string
  ft_normalized_path_required :: bool
  ft_symlink_following_allowed :: bool

record FilesystemAEOFinality =
  ff_proof_required :: bool
  ff_proof_type :: string
  ff_expected_result :: string
  ff_proof_fields :: "jsval list"
  ff_registry_required :: bool
  ff_reconciliation_required :: bool
  ff_replay_state_after_success :: string

record FilesystemAEO =
  fa_intent :: FilesystemAEOIntent
  fa_scope :: FilesystemAEOScope
  fa_validation :: FilesystemAEOValidation
  fa_target :: FilesystemAEOTarget
  fa_finality :: FilesystemAEOFinality

text \<open>The run-time objects.\<close>

definition intent_js :: "FilesystemAEOIntent \<Rightarrow> jsval" where
  "intent_js i = JObj [(''action'', JStr (fi_action i)), (''purpose'', JStr (fi_purpose i))]"

definition scope_js :: "FilesystemAEOScope \<Rightarrow> jsval" where
  "scope_js s = JObj
     [(''repo'', JStr (fs_repo s)), (''root'', JStr (fs_root s)),
      (''allowed_paths'', JArr (fs_allowed_paths s)), (''denied_paths'', JArr (fs_denied_paths s)),
      (''allowed_operations'', JArr (fs_allowed_operations s)),
      (''denied_operations'', JArr (fs_denied_operations s)),
      (''max_files'', JNum (fs_max_files s)), (''max_diff_lines'', JNum (fs_max_diff_lines s))]"

definition validation_js :: "FilesystemAEOValidation \<Rightarrow> jsval" where
  "validation_js v = JObj
     [(''decision_id'', JStr (fv_decision_id v)),
      (''authority_lineage_hash'', JStr (fv_authority_lineage_hash v)),
      (''policy_id'', JStr (fv_policy_id v)), (''policy_hash'', JStr (fv_policy_hash v)),
      (''canonicalization'', JStr (fv_canonicalization v)),
      (''pre_write_hash'', JStr (fv_pre_write_hash v)),
      (''proposed_diff_hash'', JStr (fv_proposed_diff_hash v)),
      (''aeo_hash_required'', JBool (fv_aeo_hash_required v)),
      (''replay_nonce'', JStr (fv_replay_nonce v)),
      (''requires_unused_nonce'', JBool (fv_requires_unused_nonce v)),
      (''requires_scope_match'', JBool (fv_requires_scope_match v)),
      (''requires_path_policy_match'', JBool (fv_requires_path_policy_match v)),
      (''requires_pre_write_hash_match'', JBool (fv_requires_pre_write_hash_match v))]"

definition target_js :: "FilesystemAEOTarget \<Rightarrow> jsval" where
  "target_js t = JObj
     [(''system'', JStr ''filesystem''), (''operation'', JStr (ft_operation t)),
      (''path'', JStr (ft_path t)),
      (''normalized_path_required'', JBool (ft_normalized_path_required t)),
      (''symlink_following_allowed'', JBool (ft_symlink_following_allowed t))]"

definition finality_js :: "FilesystemAEOFinality \<Rightarrow> jsval" where
  "finality_js f = JObj
     [(''proof_required'', JBool (ff_proof_required f)), (''proof_type'', JStr (ff_proof_type f)),
      (''expected_result'', JStr (ff_expected_result f)),
      (''proof_fields'', JArr (ff_proof_fields f)),
      (''registry_required'', JBool (ff_registry_required f)),
      (''reconciliation_required'', JBool (ff_reconciliation_required f)),
      (''replay_state_after_success'', JStr (ff_replay_state_after_success f))]"

definition aeo_js :: "FilesystemAEO \<Rightarrow> jsval" where
  "aeo_js a = JObj
     [(''intent'', intent_js (fa_intent a)), (''scope'', scope_js (fa_scope a)),
      (''validation'', validation_js (fa_validation a)), (''target'', target_js (fa_target a)),
      (''finality'', finality_js (fa_finality a))]"

section \<open>Field checks\<close>

definition req_str :: "jsval \<Rightarrow> string \<Rightarrow> string option" where
  "req_str v k = (case js_get v k of JStr s \<Rightarrow> if s \<noteq> [] then Some s else None | _ \<Rightarrow> None)"

definition req_bool :: "jsval \<Rightarrow> string \<Rightarrow> bool option" where
  "req_bool v k = (case js_get v k of JBool b \<Rightarrow> Some b | _ \<Rightarrow> None)"

fun isStringArray :: "jsval \<Rightarrow> bool" where
  "isStringArray (JArr xs) = list_all (\<lambda>x. case x of JStr _ \<Rightarrow> True | _ \<Rightarrow> False) xs"
| "isStringArray _ = False"

definition req_strs :: "jsval \<Rightarrow> string \<Rightarrow> jsval list option" where
  "req_strs v k =
     (case js_get v k of JArr xs \<Rightarrow> if isStringArray (JArr xs) then Some xs else None | _ \<Rightarrow> None)"

text \<open>\<^verbatim>\<open>typeof x !== "number" || x < 1\<close> rejects: \<^verbatim>\<open>NaN\<close> and \<^verbatim>\<open>Infinity\<close> pass.\<close>

fun num_lt_1 :: "jsnum \<Rightarrow> bool" where
  "num_lt_1 (NInt i) = (i < 1)"
| "num_lt_1 NNaN = False"
| "num_lt_1 NInf = False"
| "num_lt_1 NNegInf = True"

definition req_num :: "jsval \<Rightarrow> string \<Rightarrow> jsnum option" where
  "req_num v k = (case js_get v k of JNum n \<Rightarrow> if num_lt_1 n then None else Some n | _ \<Rightarrow> None)"

definition guard :: "bool \<Rightarrow> unit option" where
  "guard b = (if b then Some () else None)"

section \<open>Section validators\<close>

definition validateIntent :: "jsval \<Rightarrow> FilesystemAEOIntent option" where
  "validateIntent v = do {
     guard (isPlainObject v);
     action \<leftarrow> req_str v ''action'';
     purpose \<leftarrow> req_str v ''purpose'';
     Some \<lparr>fi_action = action, fi_purpose = purpose\<rparr> }"

definition validateScope :: "jsval \<Rightarrow> FilesystemAEOScope option" where
  "validateScope v = do {
     guard (isPlainObject v);
     repo \<leftarrow> req_str v ''repo'';
     root \<leftarrow> req_str v ''root'';
     ap \<leftarrow> req_strs v ''allowed_paths'';
     dp \<leftarrow> req_strs v ''denied_paths'';
     ao \<leftarrow> req_strs v ''allowed_operations'';
     guard (ao \<noteq> []);
     dop \<leftarrow> req_strs v ''denied_operations'';
     mf \<leftarrow> req_num v ''max_files'';
     md \<leftarrow> req_num v ''max_diff_lines'';
     Some \<lparr>fs_repo = repo, fs_root = root, fs_allowed_paths = ap, fs_denied_paths = dp,
           fs_allowed_operations = ao, fs_denied_operations = dop,
           fs_max_files = mf, fs_max_diff_lines = md\<rparr> }"

definition validateValidation :: "jsval \<Rightarrow> FilesystemAEOValidation option" where
  "validateValidation v = do {
     guard (isPlainObject v);
     decision_id \<leftarrow> req_str v ''decision_id'';
     alh \<leftarrow> req_str v ''authority_lineage_hash'';
     policy_id \<leftarrow> req_str v ''policy_id'';
     policy_hash \<leftarrow> req_str v ''policy_hash'';
     canonicalization \<leftarrow> req_str v ''canonicalization'';
     pre \<leftarrow> req_str v ''pre_write_hash'';
     diff \<leftarrow> req_str v ''proposed_diff_hash'';
     ahr \<leftarrow> req_bool v ''aeo_hash_required'';
     nonce \<leftarrow> req_str v ''replay_nonce'';
     run \<leftarrow> req_bool v ''requires_unused_nonce'';
     rsm \<leftarrow> req_bool v ''requires_scope_match'';
     rpp \<leftarrow> req_bool v ''requires_path_policy_match'';
     rpw \<leftarrow> req_bool v ''requires_pre_write_hash_match'';
     Some \<lparr>fv_decision_id = decision_id, fv_authority_lineage_hash = alh, fv_policy_id = policy_id,
           fv_policy_hash = policy_hash, fv_canonicalization = canonicalization,
           fv_pre_write_hash = pre, fv_proposed_diff_hash = diff, fv_aeo_hash_required = ahr,
           fv_replay_nonce = nonce, fv_requires_unused_nonce = run, fv_requires_scope_match = rsm,
           fv_requires_path_policy_match = rpp, fv_requires_pre_write_hash_match = rpw\<rparr> }"

definition validateTarget :: "jsval \<Rightarrow> FilesystemAEOTarget option" where
  "validateTarget v = do {
     guard (isPlainObject v);
     guard (js_get v ''system'' = JStr ''filesystem'');
     operation \<leftarrow> req_str v ''operation'';
     path \<leftarrow> req_str v ''path'';
     npr \<leftarrow> req_bool v ''normalized_path_required'';
     sfa \<leftarrow> req_bool v ''symlink_following_allowed'';
     Some \<lparr>ft_operation = operation, ft_path = path, ft_normalized_path_required = npr,
           ft_symlink_following_allowed = sfa\<rparr> }"

definition validateFinality :: "jsval \<Rightarrow> FilesystemAEOFinality option" where
  "validateFinality v = do {
     guard (isPlainObject v);
     pr \<leftarrow> req_bool v ''proof_required'';
     guard pr;
     proof_type \<leftarrow> req_str v ''proof_type'';
     expected_result \<leftarrow> req_str v ''expected_result'';
     pf \<leftarrow> req_strs v ''proof_fields'';
     guard (pf \<noteq> []);
     rr \<leftarrow> req_bool v ''registry_required'';
     rc \<leftarrow> req_bool v ''reconciliation_required'';
     rs \<leftarrow> req_str v ''replay_state_after_success'';
     Some \<lparr>ff_proof_required = pr, ff_proof_type = proof_type, ff_expected_result = expected_result,
           ff_proof_fields = pf, ff_registry_required = rr, ff_reconciliation_required = rc,
           ff_replay_state_after_success = rs\<rparr> }"

section \<open>materializeFilesystemAEO\<close>

datatype FilesystemAEOMaterializationFailure =
    MF_missing_required_field
  | MF_extra_field_present
  | MF_authority_binding_missing
  | MF_invalid_field_type

text \<open>The required keys are the five of \<^verbatim>\<open>continuity-core.js\<close>, in the same order.\<close>

definition FILESYSTEM_AEO_REQUIRED_KEYS :: "string list" where
  "FILESYSTEM_AEO_REQUIRED_KEYS = [''finality'', ''intent'', ''scope'', ''target'', ''validation'']"

definition computeFilesystemAEOHash :: "FilesystemAEO \<Rightarrow> string" where
  "computeFilesystemAEOHash a = objectHash (aeo_js a)"

definition materializeFilesystemAEO ::
  "jsval \<Rightarrow> FilesystemAEOMaterializationFailure + (FilesystemAEO \<times> string)" where
  "materializeFilesystemAEO input =
     (if \<not> isPlainObject input then Inl MF_missing_required_field
      else let keys = sort (js_keys input) in
      if length keys \<noteq> length FILESYSTEM_AEO_REQUIRED_KEYS then
        Inl (if length keys > length FILESYSTEM_AEO_REQUIRED_KEYS
             then MF_extra_field_present else MF_missing_required_field)
      else if keys \<noteq> FILESYSTEM_AEO_REQUIRED_KEYS then Inl MF_missing_required_field
      else case validateIntent (js_get input ''intent'') of None \<Rightarrow> Inl MF_invalid_field_type
      | Some intent \<Rightarrow>
     (case validateScope (js_get input ''scope'') of None \<Rightarrow> Inl MF_invalid_field_type
      | Some scope \<Rightarrow>
     (case validateValidation (js_get input ''validation'') of None \<Rightarrow> Inl MF_authority_binding_missing
      | Some validation \<Rightarrow>
     (case validateTarget (js_get input ''target'') of None \<Rightarrow> Inl MF_invalid_field_type
      | Some target \<Rightarrow>
     (case validateFinality (js_get input ''finality'') of None \<Rightarrow> Inl MF_invalid_field_type
      | Some finality \<Rightarrow>
          let aeo = \<lparr>fa_intent = intent, fa_scope = scope, fa_validation = validation,
                     fa_target = target, fa_finality = finality\<rparr>
          in Inr (aeo, computeFilesystemAEOHash aeo))))))"

definition CANONICAL_FILESYSTEM_AEO_FIXTURE :: FilesystemAEO where
  "CANONICAL_FILESYSTEM_AEO_FIXTURE =
    \<lparr>fa_intent = \<lparr>fi_action = ''modify_file'', fi_purpose = ''bounded repository file mutation''\<rparr>,
     fa_scope =
       \<lparr>fs_repo = ''mindshift-demo'', fs_root = ''repository'',
        fs_allowed_paths = map JStr [''src/**'', ''tests/**'', ''docs/**''],
        fs_denied_paths = map JStr [''.github/workflows/**'', ''wrangler.toml'', ''.env*'', ''secrets/**'', ''package-lock.json''],
        fs_allowed_operations = map JStr [''create'', ''modify''],
        fs_denied_operations = map JStr [''delete'', ''chmod'', ''rename'', ''symlink''],
        fs_max_files = NInt 1, fs_max_diff_lines = NInt 300\<rparr>,
     fa_validation =
       \<lparr>fv_decision_id = ''AUTH-fixture-001'',
        fv_authority_lineage_hash = ''sha256:fixture-authority-lineage-hash'',
        fv_policy_id = ''filesystem-write-policy-v1'', fv_policy_hash = ''sha256:fixture-policy-hash'',
        fv_canonicalization = ''json-canonical-v1'', fv_pre_write_hash = ''sha256:fixture-pre-write-hash'',
        fv_proposed_diff_hash = ''sha256:fixture-diff-hash'', fv_aeo_hash_required = True,
        fv_replay_nonce = ''fixture-nonce-001'', fv_requires_unused_nonce = True,
        fv_requires_scope_match = True, fv_requires_path_policy_match = True,
        fv_requires_pre_write_hash_match = True\<rparr>,
     fa_target =
       \<lparr>ft_operation = ''modify'', ft_path = ''src/example.ts'', ft_normalized_path_required = True,
        ft_symlink_following_allowed = False\<rparr>,
     fa_finality =
       \<lparr>ff_proof_required = True, ff_proof_type = ''filesystem_mutation_receipt'',
        ff_expected_result = ''single_bounded_file_mutation'',
        ff_proof_fields = map JStr [''decision_id'', ''aeo_hash'', ''target_path'', ''operation'',
          ''pre_write_hash'', ''post_write_hash'', ''diff_hash'', ''execution_id'', ''timestamp''],
        ff_registry_required = True, ff_reconciliation_required = True,
        ff_replay_state_after_success = ''CONSUMED''\<rparr>\<rparr>"

section \<open>Materialization is a projection\<close>

lemma guard_bind [simp]: "(guard b \<bind> f) = (if b then f () else None)"
  by (simp add: guard_def)

lemma req_str_Some: "req_str v k = Some s \<longleftrightarrow> js_get v k = JStr s \<and> s \<noteq> []"
  by (auto simp: req_str_def split: jsval.splits)

lemma req_bool_Some: "req_bool v k = Some b \<longleftrightarrow> js_get v k = JBool b"
  by (auto simp: req_bool_def split: jsval.splits)

lemma req_strs_Some: "req_strs v k = Some xs \<longleftrightarrow> js_get v k = JArr xs \<and> isStringArray (JArr xs)"
  by (auto simp: req_strs_def split: jsval.splits)

lemma req_num_Some: "req_num v k = Some n \<longleftrightarrow> js_get v k = JNum n \<and> \<not> num_lt_1 n"
  by (auto simp: req_num_def split: jsval.splits)

lemmas req_Some = req_str_Some req_bool_Some req_strs_Some req_num_Some

text \<open>\<open>agrees w v\<close>: on the properties of \<open>w\<close> the object \<open>v\<close> has the same values.\<close>

definition agrees :: "jsval \<Rightarrow> jsval \<Rightarrow> bool" where
  "agrees w v \<longleftrightarrow> list_all (\<lambda>k. js_get v k = js_get w k) (js_keys w)"

lemma validateIntent_Some:
  "validateIntent v = Some i \<Longrightarrow> validateIntent (intent_js i) = Some i \<and> agrees (intent_js i) v"
  by (auto simp: validateIntent_def bind_eq_Some_conv req_Some intent_js_def agrees_def split: if_splits)

lemma validateScope_Some:
  "validateScope v = Some i \<Longrightarrow> validateScope (scope_js i) = Some i \<and> agrees (scope_js i) v"
  by (auto simp: validateScope_def bind_eq_Some_conv req_Some scope_js_def agrees_def split: if_splits)

lemma validateValidation_Some:
  "validateValidation v = Some i \<Longrightarrow>
     validateValidation (validation_js i) = Some i \<and> agrees (validation_js i) v"
  by (auto simp: validateValidation_def bind_eq_Some_conv req_Some validation_js_def agrees_def
           split: if_splits)

lemma validateTarget_Some:
  "validateTarget v = Some i \<Longrightarrow> validateTarget (target_js i) = Some i \<and> agrees (target_js i) v"
  by (auto simp: validateTarget_def bind_eq_Some_conv req_Some target_js_def agrees_def split: if_splits)

lemma validateFinality_Some:
  "validateFinality v = Some i \<Longrightarrow>
     validateFinality (finality_js i) = Some i \<and> agrees (finality_js i) v"
  by (auto simp: validateFinality_def bind_eq_Some_conv req_Some finality_js_def agrees_def
           split: if_splits)

lemmas section_Some =
  validateIntent_Some validateScope_Some validateValidation_Some validateTarget_Some validateFinality_Some

lemma materialize_Inr_iff:
  "materializeFilesystemAEO v = Inr (a, h) \<longleftrightarrow>
     isPlainObject v \<and> sort (js_keys v) = FILESYSTEM_AEO_REQUIRED_KEYS \<and>
     validateIntent (js_get v ''intent'') = Some (fa_intent a) \<and>
     validateScope (js_get v ''scope'') = Some (fa_scope a) \<and>
     validateValidation (js_get v ''validation'') = Some (fa_validation a) \<and>
     validateTarget (js_get v ''target'') = Some (fa_target a) \<and>
     validateFinality (js_get v ''finality'') = Some (fa_finality a) \<and>
     h = computeFilesystemAEOHash a"
proof -
  have len: "length (js_keys v) = length FILESYSTEM_AEO_REQUIRED_KEYS"
    if "sort (js_keys v) = FILESYSTEM_AEO_REQUIRED_KEYS"
    using that by (metis length_sort)
  show ?thesis
    by (cases a)
       (auto simp: materializeFilesystemAEO_def Let_def len split: option.splits if_splits)
qed

lemma aeo_js_get [simp]:
  "js_get (aeo_js a) ''intent'' = intent_js (fa_intent a)"
  "js_get (aeo_js a) ''scope'' = scope_js (fa_scope a)"
  "js_get (aeo_js a) ''validation'' = validation_js (fa_validation a)"
  "js_get (aeo_js a) ''target'' = target_js (fa_target a)"
  "js_get (aeo_js a) ''finality'' = finality_js (fa_finality a)"
  by (simp_all add: aeo_js_def)

lemma aeo_js_shape [simp]:
  "isPlainObject (aeo_js a)" "sort (js_keys (aeo_js a)) = FILESYSTEM_AEO_REQUIRED_KEYS"
  by (simp_all add: aeo_js_def FILESYSTEM_AEO_REQUIRED_KEYS_def)

section \<open>Properties\<close>

text \<open>
  Materialization is a projection: the materialized object materializes to itself with the
  same hash, the hash is the object hash of the canonical form, and every field of every
  section carries the value the input had there.
\<close>

theorem materialize_projection:
  assumes "materializeFilesystemAEO v = Inr (a, h)"
  shows "materializeFilesystemAEO (aeo_js a) = Inr (a, h) \<and>
         h = ''sha256:'' @ hashCanonical (aeo_js a) \<and>
         list_all (\<lambda>sec. agrees (js_get (aeo_js a) sec) (js_get v sec)) FILESYSTEM_AEO_REQUIRED_KEYS"
proof (intro conjI)
  note A = assms [unfolded materialize_Inr_iff]
  have I: "validateIntent (intent_js (fa_intent a)) = Some (fa_intent a) \<and>
      agrees (intent_js (fa_intent a)) (js_get v ''intent'')"
    and C: "validateScope (scope_js (fa_scope a)) = Some (fa_scope a) \<and>
      agrees (scope_js (fa_scope a)) (js_get v ''scope'')"
    and V: "validateValidation (validation_js (fa_validation a)) = Some (fa_validation a) \<and>
      agrees (validation_js (fa_validation a)) (js_get v ''validation'')"
    and T: "validateTarget (target_js (fa_target a)) = Some (fa_target a) \<and>
      agrees (target_js (fa_target a)) (js_get v ''target'')"
    and F: "validateFinality (finality_js (fa_finality a)) = Some (fa_finality a) \<and>
      agrees (finality_js (fa_finality a)) (js_get v ''finality'')"
    by (rule section_Some; use A in simp)+
  show "materializeFilesystemAEO (aeo_js a) = Inr (a, h)"
    unfolding materialize_Inr_iff using A I C V T F by simp
  show "h = ''sha256:'' @ hashCanonical (aeo_js a)"
    using A by (simp add: computeFilesystemAEOHash_def objectHash_def hashCanonical_def)
  show "list_all (\<lambda>sec. agrees (js_get (aeo_js a) sec) (js_get v sec)) FILESYSTEM_AEO_REQUIRED_KEYS"
    using I C V T F by (simp add: FILESYSTEM_AEO_REQUIRED_KEYS_def)
qed

theorem materialize_projection_witness:
  "let a = CANONICAL_FILESYSTEM_AEO_FIXTURE in
   materializeFilesystemAEO (js_set (aeo_js a) ''intent''
      (js_set (intent_js (fa_intent a)) ''note'' (JStr ''dropped''))) = Inr (a, computeFilesystemAEOHash a) \<and>
   materializeFilesystemAEO (aeo_js a) = Inr (a, computeFilesystemAEOHash a)"
proof -
  let ?a = CANONICAL_FILESYSTEM_AEO_FIXTURE
  have "materializeFilesystemAEO (js_set (aeo_js ?a) ''intent''
      (js_set (intent_js (fa_intent ?a)) ''note'' (JStr ''dropped''))) = Inr (?a, computeFilesystemAEOHash ?a)"
    unfolding materialize_Inr_iff
    by (simp add: aeo_js_def FILESYSTEM_AEO_REQUIRED_KEYS_def CANONICAL_FILESYSTEM_AEO_FIXTURE_def
        intent_js_def scope_js_def validation_js_def target_js_def finality_js_def
        validateIntent_def validateScope_def validateValidation_def validateTarget_def
        validateFinality_def req_str_def req_bool_def req_strs_def req_num_def)
  from this materialize_projection [OF this] show ?thesis by simp
qed

end
