(* ===== verification/Filesystem_Validator.thy ===== *)
theory Filesystem_Validator
  imports Filesystem_AEO
begin

text \<open>
  \<^verbatim>\<open>src/lib/filesystem-aeo-validator.ts\<close>: the validator of filesystem AEOs. Its context is a
  record of read-only interfaces, each an asynchronous program over the state \<open>'s\<close> of the
  registries; \<^verbatim>\<open>validateFilesystemAEO\<close> is the composition of the ten numbered steps of the
  source, every early return a denial. The locale \<open>readonly_context\<close> is the contract of the
  interfaces (a read answers from the state and changes nothing); under it the sequential run
  of the validator is the pure function \<open>omega_verdict\<close> and \<^verbatim>\<open>VALID\<close> is characterised.

  Patterns of \<^verbatim>\<open>matchesGlob\<close> are read over the regular-expression fragment the source
  generates (literals, \<^verbatim>\<open>.\<close>, \<^verbatim>\<open>[^/]*\<close>); patterns with other regular-expression
  metacharacters are outside the model.
\<close>

section \<open>Observations\<close>

datatype ObservationError =
    NOT_FOUND | READ_DENIED | AMBIGUOUS_PATH | SYMLINK_BLOCKED | IO_ERROR | UNSUPPORTED_ENCODING
  | OUTSIDE_SCOPE | TIMEOUT | REGISTRY_MISS | LINEAGE_MISMATCH | POLICY_MISS | REPLAY_STATE_UNKNOWN

text \<open>A failed observation carries \<^verbatim>\<open>topology_visible\<close> and \<^verbatim>\<open>safe_to_disclose\<close>.\<close>

datatype 'a ObservationResult = Obs 'a | Unobserved ObservationError bool bool

text \<open>The failure every reader of the route reports: hidden topology, safe to disclose.\<close>

definition unseen :: "ObservationError \<Rightarrow> 'a ObservationResult" where
  "unseen e = Unobserved e False True"

record DecisionRecord =
  dr_decision_id :: string
  dr_status :: string
  dr_authority_lineage_hash :: string
  dr_scope :: string
  dr_expires_at :: "string option"

record AuthorityLineageRecord =
  al_lineage_hash :: string
  al_status :: string

record PolicyRecord =
  po_policy_id :: string
  po_policy_hash :: string
  po_allowed_paths :: "string list"
  po_denied_paths :: "string list"
  po_allowed_operations :: "string list"
  po_denied_operations :: "string list"
  po_max_files :: jsnum
  po_max_diff_lines :: jsnum

datatype ReplayState = RS_UNUSED | RS_RESERVED | RS_CONSUMED | RS_INVALIDATED

datatype AeoReplayState = ARS_UNUSED | ARS_CONSUMED | ARS_INVALIDATED

record FileMetadata =
  fm_exists :: bool
  fm_is_symlink :: bool

record DiffInspectionResult =
  di_applicable :: bool
  di_post_write_hash :: string

record 's FilesystemValidatorContext =
  readDecision :: "string \<Rightarrow> ('s, DecisionRecord ObservationResult) proc"
  readAuthorityLineage :: "string \<Rightarrow> ('s, AuthorityLineageRecord ObservationResult) proc"
  readPolicy :: "string \<Rightarrow> ('s, PolicyRecord ObservationResult) proc"
  readPolicyHash :: "string \<Rightarrow> ('s, string ObservationResult) proc"
  readNonceState :: "string \<Rightarrow> ('s, ReplayState ObservationResult) proc"
  readAeoState :: "string \<Rightarrow> ('s, AeoReplayState ObservationResult) proc"
  normalizePath :: "string \<Rightarrow> string ObservationResult"
  readHash :: "string \<Rightarrow> ('s, string ObservationResult) proc"
  readMetadata :: "string \<Rightarrow> ('s, FileMetadata ObservationResult) proc"
  hashDiff :: "string \<Rightarrow> string ObservationResult"
  inspectApplicability :: "string \<Rightarrow> string \<Rightarrow> string \<Rightarrow> ('s, DiffInspectionResult ObservationResult) proc"
  clock_now :: "string ObservationResult"

section \<open>Results\<close>

record DenialResult =
  dn_denial_reason :: string
  dn_failure_class :: string
  dn_mutation_performed :: bool
  dn_retry_same_aeo_allowed :: bool
  dn_required_agent_action :: "string option"
  dn_aeo_hash :: "string option"
  dn_decision_id :: "string option"
  dn_adapter_observation :: "(string \<times> ObservationError \<times> bool) option"

datatype ValidatorResult = V_VALID string | V_NULL DenialResult

text \<open>The denial object with the optional fields absent.\<close>

definition deny :: "string \<Rightarrow> string \<Rightarrow> DenialResult" where
  "deny reason cls =
     \<lparr>dn_denial_reason = reason, dn_failure_class = cls, dn_mutation_performed = False,
      dn_retry_same_aeo_allowed = False, dn_required_agent_action = None, dn_aeo_hash = None,
      dn_decision_id = None, dn_adapter_observation = None\<rparr>"

definition deny_for :: "string \<Rightarrow> string \<Rightarrow> string \<Rightarrow> DenialResult" where
  "deny_for decision_id reason cls = (deny reason cls)\<lparr>dn_decision_id := Some decision_id\<rparr>"

definition deny_obs :: "string \<Rightarrow> string \<Rightarrow> string \<Rightarrow> string \<Rightarrow> ObservationError \<Rightarrow> bool \<Rightarrow> DenialResult" where
  "deny_obs decision_id reason cls adapter err safe =
     (deny_for decision_id reason cls)\<lparr>dn_adapter_observation := Some (adapter, err, safe)\<rparr>"

section \<open>Paths\<close>

text \<open>
  The regular expression built by the three \<^verbatim>\<open>replace\<close> calls. The star of the \<^verbatim>\<open>.*\<close> that the
  second call writes is rewritten by the third, so \<^verbatim>\<open>**\<close> ends up as \<^verbatim>\<open>.[^/]*\<close>.
\<close>

datatype re_item = RLit char | RDot | RStar

fun glob_items :: "string \<Rightarrow> re_item list" where
  "glob_items [] = []"
| "glob_items [c] = [if c = CHR ''*'' then RStar else RLit c]"
| "glob_items (c # d # r) =
     (if c = CHR ''*'' \<and> d = CHR ''*'' then RDot # RStar # glob_items r
      else (if c = CHR ''*'' then RStar else RLit c) # glob_items (d # r))"

definition line_end :: "char \<Rightarrow> bool" where
  "line_end c \<longleftrightarrow> (of_char c :: nat) = 10 \<or> (of_char c :: nat) = 13"

function re_match :: "re_item list \<Rightarrow> string \<Rightarrow> bool" where
  "re_match [] s = (s = [])"
| "re_match (RLit c # r) s = (case s of [] \<Rightarrow> False | d # s' \<Rightarrow> c = d \<and> re_match r s')"
| "re_match (RDot # r) s = (case s of [] \<Rightarrow> False | d # s' \<Rightarrow> \<not> line_end d \<and> re_match r s')"
| "re_match (RStar # r) s =
     (re_match r s \<or> (case s of [] \<Rightarrow> False | d # s' \<Rightarrow> d \<noteq> CHR ''/'' \<and> re_match (RStar # r) s'))"
  by pat_completeness auto
termination by (relation "measure (\<lambda>(r, s). length r + length s)") auto

definition matchesGlob :: "string \<Rightarrow> string \<Rightarrow> bool" where
  "matchesGlob path pattern =
     (if js_ends_with pattern ''/**'' then
        let prefix = take (length pattern - 3) pattern
        in path = prefix \<or> js_starts_with path (prefix @ ''/'')
      else if js_starts_with pattern ''*.'' then js_ends_with path (drop 1 pattern)
      else if js_includes pattern ''*'' then re_match (glob_items pattern) path
      else path = pattern)"

definition pathMatchesAny :: "string \<Rightarrow> string list \<Rightarrow> bool" where
  "pathMatchesAny path patterns = list_ex (matchesGlob path) patterns"

definition pathIsInsideRoot :: "string \<Rightarrow> bool" where
  "pathIsInsideRoot normalizedPath \<longleftrightarrow>
     \<not> js_starts_with normalizedPath ''../'' \<and> normalizedPath \<noteq> ''..''"

section \<open>The ten steps\<close>

text \<open>
  A step either denies or passes on what the later steps use. The locals of the source that
  are \<^verbatim>\<open>typeof x === "string" ? x : null\<close> and are then only tested for truth are
  \<^const>\<open>req_str\<close>.
\<close>

text \<open>Step 1: exactly the five keys.\<close>

definition vf_shape :: "jsval \<Rightarrow> DenialResult option" where
  "vf_shape input =
     (if \<not> isPlainObject input then Some (deny ''INVALID_AEO_SHAPE'' ''INVALID_AEO_SHAPE'')
      else let keys = sort (js_keys input) in
      if length keys \<noteq> length FILESYSTEM_AEO_REQUIRED_KEYS then
        Some (deny (if length keys > length FILESYSTEM_AEO_REQUIRED_KEYS
                    then ''EXTRA_FIELD_PRESENT'' else ''MISSING_REQUIRED_FIELD'') ''INVALID_AEO_SHAPE'')
      else if keys \<noteq> FILESYSTEM_AEO_REQUIRED_KEYS then
        Some (deny ''INVALID_AEO_SHAPE'' ''INVALID_AEO_SHAPE'')
      else None)"

text \<open>Step 2: hash binding, and the authority fields of \<^verbatim>\<open>validation\<close>.\<close>

definition vf_hash_binding :: "jsval \<Rightarrow> string option \<Rightarrow> DenialResult + (string \<times> string)" where
  "vf_hash_binding aeo aeoHashOverride =
     (let aeo_hash = objectHash aeo in
      if aeoHashOverride \<noteq> None \<and> aeoHashOverride \<noteq> Some aeo_hash then
        Inl ((deny ''AEO_HASH_MISMATCH'' ''AEO_HASH_MISMATCH'')\<lparr>dn_aeo_hash := Some aeo_hash\<rparr>)
      else if \<not> isPlainObject (js_get aeo ''validation'') then
        Inl (deny ''AUTHORITY_INVALID'' ''AUTHORITY_INVALID'')
      else case (req_str (js_get aeo ''validation'') ''decision_id'',
                 req_str (js_get aeo ''validation'') ''authority_lineage_hash'') of
             (Some decision_id, Some alh) \<Rightarrow> Inr (decision_id, alh)
           | _ \<Rightarrow> Inl (deny ''AUTHORITY_INVALID'' ''AUTHORITY_INVALID''))"

text \<open>Step 3: the decision record.\<close>

definition vf_authority :: "string \<Rightarrow> string \<Rightarrow> DecisionRecord ObservationResult \<Rightarrow> DenialResult option" where
  "vf_authority decision_id authority_lineage_hash decisionObs =
     (case decisionObs of
        Unobserved e _ safe \<Rightarrow>
          Some (deny_obs decision_id ''AUTHORITY_INVALID'' ''AUTHORITY_INVALID'' ''authorityRegistry'' e safe)
      | Obs decision \<Rightarrow>
          if dr_status decision \<noteq> ''ACTIVE'' then
            Some (deny_for decision_id ''AUTHORITY_INVALID'' ''AUTHORITY_INVALID'')
          else if dr_authority_lineage_hash decision \<noteq> authority_lineage_hash then
            Some (deny_for decision_id ''AUTHORITY_INVALID'' ''AUTHORITY_LINEAGE_MISMATCH'')
          else None)"

text \<open>Step 4: the policy record.\<close>

definition vf_policy_fields :: "jsval \<Rightarrow> string \<Rightarrow> DenialResult + (string \<times> string)" where
  "vf_policy_fields aeo decision_id =
     (case (req_str (js_get aeo ''validation'') ''policy_id'',
            req_str (js_get aeo ''validation'') ''policy_hash'') of
        (Some policy_id, Some policy_hash) \<Rightarrow> Inr (policy_id, policy_hash)
      | _ \<Rightarrow> Inl (deny_for decision_id ''POLICY_HASH_MISMATCH'' ''POLICY_INVALID''))"

definition vf_policy :: "string \<Rightarrow> string \<Rightarrow> PolicyRecord ObservationResult \<Rightarrow> DenialResult + PolicyRecord" where
  "vf_policy decision_id policy_hash policyObs =
     (case policyObs of
        Unobserved e _ safe \<Rightarrow>
          Inl (deny_obs decision_id ''POLICY_HASH_MISMATCH'' ''POLICY_INVALID'' ''policyRegistry'' e safe)
      | Obs policy \<Rightarrow>
          if po_policy_hash policy \<noteq> policy_hash then
            Inl (deny_for decision_id ''POLICY_HASH_MISMATCH'' ''POLICY_HASH_MISMATCH'')
          else Inr policy)"

text \<open>Step 5: path and operation against the policy.\<close>

definition vf_target_fields :: "jsval \<Rightarrow> string \<Rightarrow> DenialResult + (string \<times> string)" where
  "vf_target_fields aeo decision_id =
     (if \<not> isPlainObject (js_get aeo ''target'') then
        Inl (deny_for decision_id ''PATH_OR_OPERATION_NOT_ALLOWED'' ''INVALID_TARGET'')
      else case (req_str (js_get aeo ''target'') ''path'', req_str (js_get aeo ''target'') ''operation'') of
             (Some path, Some operation) \<Rightarrow> Inr (path, operation)
           | _ \<Rightarrow> Inl (deny_for decision_id ''PATH_OR_OPERATION_NOT_ALLOWED'' ''INVALID_TARGET''))"

definition vf_normalize :: "string \<Rightarrow> string ObservationResult \<Rightarrow> DenialResult + string" where
  "vf_normalize decision_id normalizeResult =
     (case normalizeResult of
        Unobserved e _ safe \<Rightarrow>
          Inl (deny_obs decision_id
                 (if e = AMBIGUOUS_PATH then ''PATH_AMBIGUOUS'' else ''PATH_OR_OPERATION_NOT_ALLOWED'')
                 ''PATH_AMBIGUOUS'' ''filesystem'' e safe)
      | Obs p \<Rightarrow> Inr p)"

definition vf_scope :: "string \<Rightarrow> PolicyRecord \<Rightarrow> string \<Rightarrow> string \<Rightarrow> DenialResult option" where
  "vf_scope decision_id policy normalizedPath targetOperation =
     (let denial = (\<lambda>cls. Some (deny_for decision_id ''PATH_OR_OPERATION_NOT_ALLOWED'' cls)) in
      if \<not> pathIsInsideRoot normalizedPath then denial ''PATH_OUTSIDE_ROOT''
      else if \<not> pathMatchesAny normalizedPath (po_allowed_paths policy) then denial ''PATH_NOT_ALLOWED''
      else if pathMatchesAny normalizedPath (po_denied_paths policy) then denial ''PATH_DENIED''
      else if targetOperation \<notin> set (po_allowed_operations policy) then denial ''OPERATION_NOT_ALLOWED''
      else if targetOperation \<in> set (po_denied_operations policy) then denial ''OPERATION_DENIED''
      else None)"

text \<open>Step 6: replay.\<close>

definition vf_nonce_field :: "jsval \<Rightarrow> string \<Rightarrow> DenialResult + string" where
  "vf_nonce_field aeo decision_id =
     (case req_str (js_get aeo ''validation'') ''replay_nonce'' of
        Some nonce \<Rightarrow> Inr nonce
      | None \<Rightarrow> Inl (deny_for decision_id ''REPLAY_NOT_ALLOWED'' ''REPLAY_NONCE_MISSING''))"

definition vf_nonce :: "string \<Rightarrow> ReplayState ObservationResult \<Rightarrow> DenialResult option" where
  "vf_nonce decision_id nonceObs =
     (case nonceObs of
        Unobserved e _ safe \<Rightarrow>
          Some (deny_obs decision_id
                  (if e = REPLAY_STATE_UNKNOWN then ''REPLAY_NOT_DETERMINABLE'' else ''REPLAY_NOT_ALLOWED'')
                  ''REPLAY_STATE_UNKNOWN'' ''replayRegistry'' e safe)
      | Obs st \<Rightarrow>
          if st \<noteq> RS_UNUSED then
            Some (deny_for decision_id ''REPLAY_NOT_ALLOWED'' ''REPLAY_NONCE_CONSUMED_OR_RESERVED'')
          else None)"

text \<open>An AEO state that could not be read does not deny.\<close>

definition vf_aeo_state :: "string \<Rightarrow> string \<Rightarrow> AeoReplayState ObservationResult \<Rightarrow> DenialResult option" where
  "vf_aeo_state decision_id aeo_hash aeoStateObs =
     (case aeoStateObs of
        Obs st \<Rightarrow>
          if st \<noteq> ARS_UNUSED then
            Some ((deny_for decision_id ''REPLAY_NOT_ALLOWED'' ''AEO_ALREADY_CONSUMED'')
                    \<lparr>dn_aeo_hash := Some aeo_hash\<rparr>)
          else None
      | Unobserved _ _ _ \<Rightarrow> None)"

text \<open>Step 7: pre-state integrity.\<close>

definition vf_pre_field :: "jsval \<Rightarrow> string \<Rightarrow> DenialResult + string" where
  "vf_pre_field aeo decision_id =
     (case req_str (js_get aeo ''validation'') ''pre_write_hash'' of
        Some h \<Rightarrow> Inr h
      | None \<Rightarrow> Inl (deny_for decision_id ''PRE_WRITE_HASH_MISSING'' ''INVALID_VALIDATION''))"

definition vf_prestate ::
  "string \<Rightarrow> string \<Rightarrow> string \<Rightarrow> string \<Rightarrow> string ObservationResult \<Rightarrow> DenialResult option" where
  "vf_prestate decision_id aeo_hash targetOperation pre_write_hash fileHashObs =
     (case fileHashObs of
        Unobserved e _ safe \<Rightarrow>
          let denial = (\<lambda>r. deny_obs decision_id r r ''filesystem'' e safe) in
          if e = NOT_FOUND \<and> targetOperation = ''create'' then None
          else if e = NOT_FOUND then
            Some ((denial ''TARGET_PRESTATE_UNOBSERVABLE'')
                    \<lparr>dn_required_agent_action := Some ''RE_MATERIALIZE_AEO_FROM_CURRENT_STATE''\<rparr>)
          else if e = READ_DENIED then Some (denial ''OBSERVATION_DENIED'')
          else if e = TIMEOUT then Some (denial ''OBSERVATION_TIMEOUT'')
          else Some (denial ''OBSERVATION_UNAVAILABLE'')
      | Obs h \<Rightarrow>
          if h \<noteq> pre_write_hash then
            Some ((deny_for decision_id ''PRE_WRITE_HASH_MISMATCH'' ''STALE_PRESTATE'')
                    \<lparr>dn_required_agent_action := Some ''RE_MATERIALIZE_AEO_FROM_CURRENT_STATE'',
                     dn_aeo_hash := Some aeo_hash\<rparr>)
          else None)"

text \<open>Step 8: the declared diff, when there is one.\<close>

definition vf_diff :: "string \<Rightarrow> string \<Rightarrow> DiffInspectionResult ObservationResult \<Rightarrow> DenialResult option" where
  "vf_diff decision_id aeo_hash obs =
     (case obs of
        Unobserved e _ safe \<Rightarrow>
          Some (deny_obs decision_id ''DIFF_HASH_MISMATCH'' ''DIFF_INSPECTION_FAILED'' ''diffInspector'' e safe)
      | Obs r \<Rightarrow>
          if \<not> di_applicable r then
            Some ((deny_for decision_id ''DIFF_HASH_MISMATCH'' ''DIFF_NOT_APPLICABLE'')
                    \<lparr>dn_required_agent_action := Some ''RE_MATERIALIZE_AEO_FROM_CURRENT_STATE'',
                     dn_aeo_hash := Some aeo_hash\<rparr>)
          else None)"

text \<open>Step 9: finality.\<close>

definition vf_finality :: "jsval \<Rightarrow> string \<Rightarrow> DenialResult option" where
  "vf_finality aeo decision_id =
     (let finality = js_get aeo ''finality'';
          denial = (\<lambda>cls. Some (deny_for decision_id ''FINALITY_REQUIREMENT_INVALID'' cls)) in
      if \<not> isPlainObject finality then denial ''FINALITY_INVALID''
      else if js_get finality ''proof_required'' \<noteq> JBool True then denial ''PROOF_NOT_REQUIRED''
      else if js_get finality ''registry_required'' \<noteq> JBool True then denial ''REGISTRY_NOT_REQUIRED''
      else if js_get finality ''replay_state_after_success'' \<noteq> JStr ''CONSUMED''
        then denial ''REPLAY_CONSUMED_NOT_DECLARED''
      else None)"

section \<open>validateFilesystemAEO\<close>

text \<open>\<^verbatim>\<open>return nullResult(d)\<close>, or go on.\<close>

definition or_deny :: "DenialResult option \<Rightarrow> ('s, ValidatorResult) proc \<Rightarrow> ('s, ValidatorResult) proc" where
  "or_deny d k = (case d of Some d \<Rightarrow> Ret (V_NULL d) | None \<Rightarrow> k)"

definition or_deny_with ::
  "DenialResult + 'a \<Rightarrow> ('a \<Rightarrow> ('s, ValidatorResult) proc) \<Rightarrow> ('s, ValidatorResult) proc" where
  "or_deny_with d k = (case d of Inl d \<Rightarrow> Ret (V_NULL d) | Inr a \<Rightarrow> k a)"

text \<open>Steps 8 to 10, after the pre-state.\<close>

definition validate_diff_and_finality ::
  "jsval \<Rightarrow> 's FilesystemValidatorContext \<Rightarrow> string \<Rightarrow> string \<Rightarrow> string \<Rightarrow> string \<Rightarrow> ('s, ValidatorResult) proc" where
  "validate_diff_and_finality aeo ctx decision_id aeo_hash normalizedPath pre_write_hash =
     (let step9 = or_deny (vf_finality aeo decision_id) (Ret (V_VALID aeo_hash)) in
      case req_str (js_get aeo ''validation'') ''proposed_diff_hash'' of
        None \<Rightarrow> step9
      | Some diff \<Rightarrow>
          proc_bind (inspectApplicability ctx pre_write_hash normalizedPath diff)
            (\<lambda>obs. or_deny (vf_diff decision_id aeo_hash obs) step9))"

text \<open>Steps 6 and 7.\<close>

definition validate_replay_and_prestate ::
  "jsval \<Rightarrow> 's FilesystemValidatorContext \<Rightarrow> string \<Rightarrow> string \<Rightarrow> string \<Rightarrow> string \<Rightarrow> ('s, ValidatorResult) proc" where
  "validate_replay_and_prestate aeo ctx decision_id aeo_hash normalizedPath targetOperation =
     or_deny_with (vf_nonce_field aeo decision_id) (\<lambda>nonce.
     proc_bind (readNonceState ctx nonce) (\<lambda>nonceObs.
     or_deny (vf_nonce decision_id nonceObs) (
     proc_bind (readAeoState ctx aeo_hash) (\<lambda>aeoStateObs.
     or_deny (vf_aeo_state decision_id aeo_hash aeoStateObs) (
     or_deny_with (vf_pre_field aeo decision_id) (\<lambda>pre_write_hash.
     proc_bind (readHash ctx normalizedPath) (\<lambda>fileHashObs.
     or_deny (vf_prestate decision_id aeo_hash targetOperation pre_write_hash fileHashObs)
       (validate_diff_and_finality aeo ctx decision_id aeo_hash normalizedPath pre_write_hash))))))))"

definition validateFilesystemAEO ::
  "jsval \<Rightarrow> 's FilesystemValidatorContext \<Rightarrow> string option \<Rightarrow> ('s, ValidatorResult) proc" where
  "validateFilesystemAEO aeo ctx aeoHashOverride =
     or_deny (vf_shape aeo) (
     or_deny_with (vf_hash_binding aeo aeoHashOverride) (\<lambda>(decision_id, alh).
     proc_bind (readDecision ctx decision_id) (\<lambda>decisionObs.
     or_deny (vf_authority decision_id alh decisionObs) (
     or_deny_with (vf_policy_fields aeo decision_id) (\<lambda>(policy_id, policy_hash).
     proc_bind (readPolicy ctx policy_id) (\<lambda>policyObs.
     or_deny_with (vf_policy decision_id policy_hash policyObs) (\<lambda>policy.
     or_deny_with (vf_target_fields aeo decision_id) (\<lambda>(targetPath, targetOperation).
     or_deny_with (vf_normalize decision_id (normalizePath ctx targetPath)) (\<lambda>normalizedPath.
     or_deny (vf_scope decision_id policy normalizedPath targetOperation)
       (validate_replay_and_prestate aeo ctx decision_id (objectHash aeo) normalizedPath targetOperation))))))))))"

section \<open>Read-only contexts\<close>

text \<open>What an observation answers in a state.\<close>

definition observe :: "('s, 'a) proc \<Rightarrow> 's \<Rightarrow> 'a" where
  "observe p s = snd (run p s)"

text \<open>
  The contract of the \<^verbatim>\<open>Readonly*\<close> interfaces: running one of them changes nothing.
\<close>

definition readonly :: "('s, 'a) proc \<Rightarrow> bool" where
  "readonly p \<longleftrightarrow> (\<forall>s. fst (run p s) = s)"

definition readonly_ctx :: "'s FilesystemValidatorContext \<Rightarrow> bool" where
  "readonly_ctx ctx \<longleftrightarrow>
     (\<forall>i. readonly (readDecision ctx i)) \<and> (\<forall>i. readonly (readPolicy ctx i)) \<and>
     (\<forall>n. readonly (readNonceState ctx n)) \<and> (\<forall>h. readonly (readAeoState ctx h)) \<and>
     (\<forall>p. readonly (readHash ctx p)) \<and> (\<forall>h p d. readonly (inspectApplicability ctx h p d))"

lemma run_readonly: "readonly p \<Longrightarrow> run p s = (s, observe p s)"
  by (metis observe_def prod.collapse readonly_def)

lemma readonly_simps [simp]: "readonly (Ret a)" "readonly (fetch f)"
  by (simp_all add: readonly_def)

lemma observe_simps [simp, db_simps]: "observe (Ret a) s = a" "observe (fetch f) s = f s"
  by (simp_all add: observe_def)

lemma run_bind_readonly: "readonly p \<Longrightarrow> run (proc_bind p k) s = run (k (observe p s)) s"
  by (simp add: run_readonly)

lemma run_or_deny:
  "run (or_deny d k) s = (case d of Some d \<Rightarrow> (s, V_NULL d) | None \<Rightarrow> run k s)"
  by (simp add: or_deny_def split: option.splits)

lemma run_or_deny_with:
  "run (or_deny_with d k) s = (case d of Inl d \<Rightarrow> (s, V_NULL d) | Inr a \<Rightarrow> run (k a) s)"
  by (simp add: or_deny_with_def split: sum.splits)

lemma or_deny_VALID:
  "run (or_deny d k) s = (s', V_VALID h) \<longleftrightarrow> d = None \<and> run k s = (s', V_VALID h)"
  by (simp add: run_or_deny split: option.splits)

lemma or_deny_with_VALID:
  "run (or_deny_with d k) s = (s', V_VALID h) \<longleftrightarrow> (\<exists>a. d = Inr a \<and> run (k a) s = (s', V_VALID h))"
  by (simp add: run_or_deny_with split: sum.splits)

text \<open>Every denial says that nothing was mutated and that the same AEO must not be retried.\<close>

definition inert :: "DenialResult \<Rightarrow> bool" where
  "inert d \<longleftrightarrow> \<not> dn_mutation_performed d \<and> \<not> dn_retry_same_aeo_allowed d"

lemma inert_deny [simp]:
  "inert (deny r c)" "inert (deny_for i r c)" "inert (deny_obs i r c a e b)"
  "inert d \<Longrightarrow> inert (d\<lparr>dn_aeo_hash := x\<rparr>)" "inert d \<Longrightarrow> inert (d\<lparr>dn_required_agent_action := y\<rparr>)"
  by (simp_all add: inert_def deny_def deny_for_def deny_obs_def)

definition safe_outcome :: "string \<Rightarrow> ValidatorResult \<Rightarrow> bool" where
  "safe_outcome h r \<longleftrightarrow> (case r of V_VALID h' \<Rightarrow> h' = h | V_NULL d \<Rightarrow> inert d)"

lemma steps_inert:
  "vf_shape aeo = Some d \<Longrightarrow> inert d"
  "vf_hash_binding aeo ov = Inl d \<Longrightarrow> inert d"
  "vf_authority i l dobs = Some d \<Longrightarrow> inert d"
  "vf_policy_fields aeo i = Inl d \<Longrightarrow> inert d"
  "vf_policy i ph pobs = Inl d \<Longrightarrow> inert d"
  "vf_target_fields aeo i = Inl d \<Longrightarrow> inert d"
  "vf_normalize i nobs = Inl d \<Longrightarrow> inert d"
  "vf_scope i pol np op = Some d \<Longrightarrow> inert d"
  "vf_nonce_field aeo i = Inl d \<Longrightarrow> inert d"
  "vf_nonce i robs = Some d \<Longrightarrow> inert d"
  "vf_aeo_state i ah aobs = Some d \<Longrightarrow> inert d"
  "vf_pre_field aeo i = Inl d \<Longrightarrow> inert d"
  "vf_prestate i ah op pre fobs = Some d \<Longrightarrow> inert d"
  "vf_diff i ah xobs = Some d \<Longrightarrow> inert d"
  "vf_finality aeo i = Some d \<Longrightarrow> inert d"
  by (auto simp: vf_shape_def vf_hash_binding_def vf_authority_def vf_policy_fields_def vf_policy_def
        vf_target_fields_def vf_normalize_def vf_scope_def vf_nonce_field_def vf_nonce_def
        vf_aeo_state_def vf_pre_field_def vf_prestate_def vf_diff_def vf_finality_def Let_def
      split: if_splits option.splits ObservationResult.splits)

text \<open>Steps keep the state; a verdict is the object hash or an inert denial.\<close>

definition keeps :: "string \<Rightarrow> ('s, ValidatorResult) proc \<Rightarrow> bool" where
  "keeps h p \<longleftrightarrow> (\<forall>s. fst (run p s) = s \<and> safe_outcome h (snd (run p s)))"

lemma keeps_or_deny: "(\<And>d'. d = Some d' \<Longrightarrow> inert d') \<Longrightarrow> keeps h k \<Longrightarrow> keeps h (or_deny d k)"
  by (auto simp: keeps_def run_or_deny safe_outcome_def split: option.splits)

lemma keeps_or_deny_with:
  "(\<And>d'. d = Inl d' \<Longrightarrow> inert d') \<Longrightarrow> (\<And>a. d = Inr a \<Longrightarrow> keeps h (k a)) \<Longrightarrow> keeps h (or_deny_with d k)"
  by (auto simp: keeps_def run_or_deny_with safe_outcome_def split: sum.splits)

lemma keeps_bind: "readonly p \<Longrightarrow> (\<And>a. keeps h (k a)) \<Longrightarrow> keeps h (proc_bind p k)"
  by (simp add: keeps_def run_readonly)

lemma keeps_prod: "(\<And>x y. keeps h (f x y)) \<Longrightarrow> keeps h (case a of (x, y) \<Rightarrow> f x y)"
  by (simp split: prod.split)

lemma keeps_valid: "keeps h (Ret (V_VALID h))"
  by (simp add: keeps_def safe_outcome_def)

lemmas keeps_rules = keeps_or_deny keeps_or_deny_with keeps_bind keeps_prod keeps_valid

section \<open>What VALID means\<close>

text \<open>
  The specification of the verdict: the conditions on the object alone, and the conditions on
  what the registries answer.
\<close>

record OmegaFields =
  of_decision_id :: string
  of_lineage :: string
  of_policy_id :: string
  of_policy_hash :: string
  of_path :: string
  of_operation :: string
  of_nonce :: string
  of_pre :: string

definition omega_fields :: "jsval \<Rightarrow> OmegaFields option" where
  "omega_fields aeo = do {
     let v = js_get aeo ''validation'';
     let t = js_get aeo ''target'';
     let f = js_get aeo ''finality'';
     guard (isPlainObject aeo \<and> sort (js_keys aeo) = FILESYSTEM_AEO_REQUIRED_KEYS);
     guard (isPlainObject v \<and> isPlainObject t \<and> isPlainObject f);
     decision_id \<leftarrow> req_str v ''decision_id'';
     lineage \<leftarrow> req_str v ''authority_lineage_hash'';
     policy_id \<leftarrow> req_str v ''policy_id'';
     policy_hash \<leftarrow> req_str v ''policy_hash'';
     path \<leftarrow> req_str t ''path'';
     operation \<leftarrow> req_str t ''operation'';
     nonce \<leftarrow> req_str v ''replay_nonce'';
     pre \<leftarrow> req_str v ''pre_write_hash'';
     guard (js_get f ''proof_required'' = JBool True \<and> js_get f ''registry_required'' = JBool True \<and>
            js_get f ''replay_state_after_success'' = JStr ''CONSUMED'');
     Some \<lparr>of_decision_id = decision_id, of_lineage = lineage, of_policy_id = policy_id,
           of_policy_hash = policy_hash, of_path = path, of_operation = operation,
           of_nonce = nonce, of_pre = pre\<rparr> }"

definition path_authorized :: "PolicyRecord \<Rightarrow> string \<Rightarrow> string \<Rightarrow> bool" where
  "path_authorized policy np op \<longleftrightarrow>
     pathIsInsideRoot np \<and> pathMatchesAny np (po_allowed_paths policy) \<and>
     \<not> pathMatchesAny np (po_denied_paths policy) \<and>
     op \<in> set (po_allowed_operations policy) \<and> op \<notin> set (po_denied_operations policy)"

definition omega_authorized :: "'s FilesystemValidatorContext \<Rightarrow> OmegaFields \<Rightarrow> 's \<Rightarrow> string \<Rightarrow> bool" where
  "omega_authorized ctx f s np \<longleftrightarrow>
     (\<exists>d. observe (readDecision ctx (of_decision_id f)) s = Obs d \<and>
          dr_status d = ''ACTIVE'' \<and> dr_authority_lineage_hash d = of_lineage f) \<and>
     (\<exists>p. observe (readPolicy ctx (of_policy_id f)) s = Obs p \<and>
          po_policy_hash p = of_policy_hash f \<and> path_authorized p np (of_operation f)) \<and>
     normalizePath ctx (of_path f) = Obs np"

definition omega_fresh :: "'s FilesystemValidatorContext \<Rightarrow> jsval \<Rightarrow> OmegaFields \<Rightarrow> 's \<Rightarrow> string \<Rightarrow> bool" where
  "omega_fresh ctx aeo f s np \<longleftrightarrow>
     observe (readNonceState ctx (of_nonce f)) s = Obs RS_UNUSED \<and>
     (\<forall>st. observe (readAeoState ctx (objectHash aeo)) s = Obs st \<longrightarrow> st = ARS_UNUSED) \<and>
     (case observe (readHash ctx np) s of
        Obs h \<Rightarrow> h = of_pre f
      | Unobserved e _ _ \<Rightarrow> e = NOT_FOUND \<and> of_operation f = ''create'')"

definition omega_diff_ok :: "'s FilesystemValidatorContext \<Rightarrow> jsval \<Rightarrow> OmegaFields \<Rightarrow> 's \<Rightarrow> string \<Rightarrow> bool" where
  "omega_diff_ok ctx aeo f s np \<longleftrightarrow>
     (\<forall>diff. req_str (js_get aeo ''validation'') ''proposed_diff_hash'' = Some diff \<longrightarrow>
        (\<exists>r. observe (inspectApplicability ctx (of_pre f) np diff) s = Obs r \<and> di_applicable r))"

lemma vf_shape_None:
  "vf_shape aeo = None \<longleftrightarrow> isPlainObject aeo \<and> sort (js_keys aeo) = FILESYSTEM_AEO_REQUIRED_KEYS"
proof -
  have "length (js_keys aeo) = length FILESYSTEM_AEO_REQUIRED_KEYS"
    if "sort (js_keys aeo) = FILESYSTEM_AEO_REQUIRED_KEYS"
    using that by (metis length_sort)
  then show ?thesis by (auto simp: vf_shape_def Let_def)
qed

lemma vf_hash_binding_Inr:
  "vf_hash_binding aeo ov = Inr (i, l) \<longleftrightarrow>
     (ov = None \<or> ov = Some (objectHash aeo)) \<and> isPlainObject (js_get aeo ''validation'') \<and>
     req_str (js_get aeo ''validation'') ''decision_id'' = Some i \<and>
     req_str (js_get aeo ''validation'') ''authority_lineage_hash'' = Some l"
  by (auto simp: vf_hash_binding_def Let_def split: option.splits)

lemma vf_authority_None:
  "vf_authority i l obs = None \<longleftrightarrow>
     (\<exists>d. obs = Obs d \<and> dr_status d = ''ACTIVE'' \<and> dr_authority_lineage_hash d = l)"
  by (auto simp: vf_authority_def split: ObservationResult.splits)

lemma vf_policy_fields_Inr:
  "vf_policy_fields aeo i = Inr (pid, ph) \<longleftrightarrow>
     req_str (js_get aeo ''validation'') ''policy_id'' = Some pid \<and>
     req_str (js_get aeo ''validation'') ''policy_hash'' = Some ph"
  by (auto simp: vf_policy_fields_def split: option.splits)

lemma vf_policy_Inr: "vf_policy i ph obs = Inr p \<longleftrightarrow> obs = Obs p \<and> po_policy_hash p = ph"
  by (auto simp: vf_policy_def split: ObservationResult.splits)

lemma vf_target_fields_Inr:
  "vf_target_fields aeo i = Inr (p, op) \<longleftrightarrow> isPlainObject (js_get aeo ''target'') \<and>
     req_str (js_get aeo ''target'') ''path'' = Some p \<and>
     req_str (js_get aeo ''target'') ''operation'' = Some op"
  by (auto simp: vf_target_fields_def split: option.splits)

lemma vf_normalize_Inr: "vf_normalize i obs = Inr np \<longleftrightarrow> obs = Obs np"
  by (auto simp: vf_normalize_def split: ObservationResult.splits)

lemma vf_scope_None: "vf_scope i p np op = None \<longleftrightarrow> path_authorized p np op"
  by (auto simp: vf_scope_def path_authorized_def Let_def)

lemma vf_nonce_field_Inr:
  "vf_nonce_field aeo i = Inr n \<longleftrightarrow> req_str (js_get aeo ''validation'') ''replay_nonce'' = Some n"
  by (auto simp: vf_nonce_field_def split: option.splits)

lemma vf_nonce_None: "vf_nonce i obs = None \<longleftrightarrow> obs = Obs RS_UNUSED"
  by (auto simp: vf_nonce_def split: ObservationResult.splits)

lemma vf_aeo_state_None: "vf_aeo_state i h obs = None \<longleftrightarrow> (\<forall>st. obs = Obs st \<longrightarrow> st = ARS_UNUSED)"
  by (auto simp: vf_aeo_state_def split: ObservationResult.splits)

lemma vf_pre_field_Inr:
  "vf_pre_field aeo i = Inr n \<longleftrightarrow> req_str (js_get aeo ''validation'') ''pre_write_hash'' = Some n"
  by (auto simp: vf_pre_field_def split: option.splits)

lemma vf_prestate_None:
  "vf_prestate i h op pre obs = None \<longleftrightarrow>
     (case obs of Obs x \<Rightarrow> x = pre | Unobserved e _ _ \<Rightarrow> e = NOT_FOUND \<and> op = ''create'')"
  by (auto simp: vf_prestate_def Let_def split: ObservationResult.splits)

lemma vf_diff_None: "vf_diff i h obs = None \<longleftrightarrow> (\<exists>r. obs = Obs r \<and> di_applicable r)"
  by (auto simp: vf_diff_def split: ObservationResult.splits)

lemma vf_finality_None:
  "vf_finality aeo i = None \<longleftrightarrow>
     (let f = js_get aeo ''finality'' in isPlainObject f \<and> js_get f ''proof_required'' = JBool True \<and>
      js_get f ''registry_required'' = JBool True \<and>
      js_get f ''replay_state_after_success'' = JStr ''CONSUMED'')"
  by (auto simp: vf_finality_def Let_def)

lemmas step_passes =
  vf_shape_None vf_hash_binding_Inr vf_authority_None vf_policy_fields_Inr vf_policy_Inr
  vf_target_fields_Inr vf_normalize_Inr vf_scope_None vf_nonce_field_Inr vf_nonce_None
  vf_aeo_state_None vf_pre_field_Inr vf_prestate_None vf_diff_None vf_finality_None

lemma omega_fields_Some:
  "omega_fields aeo = Some f \<longleftrightarrow>
     isPlainObject aeo \<and> sort (js_keys aeo) = FILESYSTEM_AEO_REQUIRED_KEYS \<and>
     isPlainObject (js_get aeo ''validation'') \<and> isPlainObject (js_get aeo ''target'') \<and>
     req_str (js_get aeo ''validation'') ''decision_id'' = Some (of_decision_id f) \<and>
     req_str (js_get aeo ''validation'') ''authority_lineage_hash'' = Some (of_lineage f) \<and>
     req_str (js_get aeo ''validation'') ''policy_id'' = Some (of_policy_id f) \<and>
     req_str (js_get aeo ''validation'') ''policy_hash'' = Some (of_policy_hash f) \<and>
     req_str (js_get aeo ''target'') ''path'' = Some (of_path f) \<and>
     req_str (js_get aeo ''target'') ''operation'' = Some (of_operation f) \<and>
     req_str (js_get aeo ''validation'') ''replay_nonce'' = Some (of_nonce f) \<and>
     req_str (js_get aeo ''validation'') ''pre_write_hash'' = Some (of_pre f) \<and>
     (let f = js_get aeo ''finality'' in isPlainObject f \<and> js_get f ''proof_required'' = JBool True \<and>
      js_get f ''registry_required'' = JBool True \<and>
      js_get f ''replay_state_after_success'' = JStr ''CONSUMED'')"
  by (cases f) (auto simp: omega_fields_def Let_def bind_eq_Some_conv split: if_splits)

locale readonly_context =
  fixes ctx :: "'s FilesystemValidatorContext"
  assumes ctx_readonly: "readonly_ctx ctx"
begin

lemma reads:
  "readonly (readDecision ctx i)" "readonly (readPolicy ctx i)" "readonly (readNonceState ctx n)"
  "readonly (readAeoState ctx h)" "readonly (readHash ctx p)" "readonly (inspectApplicability ctx h p d)"
  using ctx_readonly by (simp_all add: readonly_ctx_def)

lemmas run_reads = reads [THEN run_bind_readonly]

lemma keeps_diff_and_finality: "keeps h (validate_diff_and_finality aeo ctx i h np pre)"
  by (auto simp: validate_diff_and_finality_def Let_def intro!: keeps_rules reads
           split: option.splits dest: steps_inert)

lemma keeps_replay_and_prestate: "keeps h (validate_replay_and_prestate aeo ctx i h np op)"
  unfolding validate_replay_and_prestate_def
  by (intro keeps_rules reads keeps_diff_and_finality) (simp_all add: steps_inert)

lemma keeps_validate: "keeps (objectHash aeo) (validateFilesystemAEO aeo ctx ov)"
  unfolding validateFilesystemAEO_def
  by (intro keeps_rules reads keeps_replay_and_prestate) (simp_all add: steps_inert)

lemma run_validate_keeps:
  "fst (run (validateFilesystemAEO aeo ctx ov) s) = s"
  "safe_outcome (objectHash aeo) (snd (run (validateFilesystemAEO aeo ctx ov) s))"
  using keeps_validate by (simp_all add: keeps_def)

lemma diff_and_finality_VALID:
  "run (validate_diff_and_finality aeo ctx i h np pre) s = (s', V_VALID h') \<longleftrightarrow>
     (\<forall>diff. req_str (js_get aeo ''validation'') ''proposed_diff_hash'' = Some diff \<longrightarrow>
        (\<exists>r. observe (inspectApplicability ctx pre np diff) s = Obs r \<and> di_applicable r)) \<and>
     vf_finality aeo i = None \<and> s' = s \<and> h' = h"
  by (cases "req_str (js_get aeo ''validation'') ''proposed_diff_hash''")
     (auto simp: validate_diff_and_finality_def Let_def run_reads or_deny_VALID vf_diff_None
           simp del: run_bind)

lemma replay_and_prestate_VALID:
  "run (validate_replay_and_prestate aeo ctx i h np op) s = (s', V_VALID h') \<longleftrightarrow>
     (\<exists>n pre. vf_nonce_field aeo i = Inr n \<and> vf_nonce i (observe (readNonceState ctx n) s) = None \<and>
        vf_aeo_state i h (observe (readAeoState ctx h) s) = None \<and> vf_pre_field aeo i = Inr pre \<and>
        vf_prestate i h op pre (observe (readHash ctx np) s) = None \<and>
        run (validate_diff_and_finality aeo ctx i h np pre) s = (s', V_VALID h'))"
  by (auto simp: validate_replay_and_prestate_def run_reads or_deny_VALID or_deny_with_VALID
           simp del: run_bind)

lemma validate_VALID_steps:
  "run (validateFilesystemAEO aeo ctx ov) s = (s', V_VALID h) \<longleftrightarrow>
     vf_shape aeo = None \<and>
     (\<exists>i l pid ph pol p op np. vf_hash_binding aeo ov = Inr (i, l) \<and>
        vf_authority i l (observe (readDecision ctx i) s) = None \<and>
        vf_policy_fields aeo i = Inr (pid, ph) \<and>
        vf_policy i ph (observe (readPolicy ctx pid) s) = Inr pol \<and>
        vf_target_fields aeo i = Inr (p, op) \<and> vf_normalize i (normalizePath ctx p) = Inr np \<and>
        vf_scope i pol np op = None \<and>
        run (validate_replay_and_prestate aeo ctx i (objectHash aeo) np op) s = (s', V_VALID h))"
  by (auto simp: validateFilesystemAEO_def run_reads or_deny_VALID or_deny_with_VALID split_paired_Ex
           simp del: run_bind)

lemma validate_VALID_iff:
  "run (validateFilesystemAEO aeo ctx ov) s = (s', V_VALID h) \<longleftrightarrow>
     s' = s \<and> h = objectHash aeo \<and> (ov = None \<or> ov = Some (objectHash aeo)) \<and>
     (\<exists>f np. omega_fields aeo = Some f \<and> omega_authorized ctx f s np \<and>
             omega_fresh ctx aeo f s np \<and> omega_diff_ok ctx aeo f s np)"
    (is "?L \<longleftrightarrow> ?R")
proof
  assume ?L
  then obtain i l pid ph pol p op np n pre where
    A: "vf_shape aeo = None" "vf_hash_binding aeo ov = Inr (i, l)"
       "vf_authority i l (observe (readDecision ctx i) s) = None"
       "vf_policy_fields aeo i = Inr (pid, ph)" "vf_policy i ph (observe (readPolicy ctx pid) s) = Inr pol"
       "vf_target_fields aeo i = Inr (p, op)" "vf_normalize i (normalizePath ctx p) = Inr np"
       "vf_scope i pol np op = None"
    and B: "vf_nonce_field aeo i = Inr n" "vf_nonce i (observe (readNonceState ctx n) s) = None"
       "vf_aeo_state i (objectHash aeo) (observe (readAeoState ctx (objectHash aeo)) s) = None"
       "vf_pre_field aeo i = Inr pre"
       "vf_prestate i (objectHash aeo) op pre (observe (readHash ctx np) s) = None"
    and C: "\<forall>diff. req_str (js_get aeo ''validation'') ''proposed_diff_hash'' = Some diff \<longrightarrow>
        (\<exists>r. observe (inspectApplicability ctx pre np diff) s = Obs r \<and> di_applicable r)"
       "vf_finality aeo i = None" "s' = s" "h = objectHash aeo"
    unfolding validate_VALID_steps replay_and_prestate_VALID diff_and_finality_VALID by blast
  let ?f = "\<lparr>of_decision_id = i, of_lineage = l, of_policy_id = pid, of_policy_hash = ph, of_path = p,
             of_operation = op, of_nonce = n, of_pre = pre\<rparr>"
  have "omega_fields aeo = Some ?f"
    using A B C by (simp add: omega_fields_Some step_passes)
  moreover have "omega_authorized ctx ?f s np"
    using A by (simp add: omega_authorized_def step_passes)
  moreover have "omega_fresh ctx aeo ?f s np"
    using B by (simp add: omega_fresh_def step_passes split: ObservationResult.splits)
  moreover have "omega_diff_ok ctx aeo ?f s np"
    using C by (simp add: omega_diff_ok_def)
  ultimately show ?R using A(2) C(3,4) by (auto simp: vf_hash_binding_Inr)
next
  assume ?R
  then obtain f np where F: "omega_fields aeo = Some f" and Au: "omega_authorized ctx f s np"
    and Fr: "omega_fresh ctx aeo f s np" and Di: "omega_diff_ok ctx aeo f s np"
    and O: "s' = s" "h = objectHash aeo" "ov = None \<or> ov = Some (objectHash aeo)" by blast
  note F = F [unfolded omega_fields_Some]
  obtain pol where P: "observe (readPolicy ctx (of_policy_id f)) s = Obs pol"
      "po_policy_hash pol = of_policy_hash f" "path_authorized pol np (of_operation f)"
    using Au by (auto simp: omega_authorized_def)
  show ?L
    unfolding validate_VALID_steps replay_and_prestate_VALID diff_and_finality_VALID step_passes
    using F Au Fr Di O P
    by (simp add: omega_authorized_def omega_fresh_def omega_diff_ok_def)
qed

lemma readonly_validate: "readonly (validateFilesystemAEO aeo ctx ov)"
  by (simp add: readonly_def run_validate_keeps)

end

section \<open>Properties\<close>

text \<open>
  C8. Over read-only registries the filesystem validator says \<^verbatim>\<open>VALID\<close> exactly when the object
  has the five sections with the required fields, the decision is active and has the declared
  lineage, the policy has the declared hash and allows the normalized path and the operation,
  the nonce and the object are unused, the file's hash is the declared pre-write hash (or the
  file is absent and the operation is create) and a declared diff is applicable; the verdict
  carries the hash of the object and the registries are unchanged.
\<close>

theorem validateFilesystemAEO_VALID_exactly:
  assumes "readonly_ctx ctx"
  shows "run (validateFilesystemAEO aeo ctx ov) s = (s', V_VALID h) \<longleftrightarrow>
     s' = s \<and> h = objectHash aeo \<and> (ov = None \<or> ov = Some (objectHash aeo)) \<and>
     (\<exists>f np. omega_fields aeo = Some f \<and> omega_authorized ctx f s np \<and>
             omega_fresh ctx aeo f s np \<and> omega_diff_ok ctx aeo f s np)"
  using assms by (intro readonly_context.validate_VALID_iff readonly_context.intro)

text \<open>A context that knows the decision, policy and file of the canonical fixture only.\<close>

definition fixture_context :: "unit FilesystemValidatorContext" where
  "fixture_context =
     (let policy = \<lparr>po_policy_id = ''filesystem-write-policy-v1'', po_policy_hash = ''sha256:fixture-policy-hash'',
             po_allowed_paths = [''src/**'', ''tests/**'', ''docs/**''], po_denied_paths = [''.env*'', ''secrets/**''],
             po_allowed_operations = [''create'', ''modify''], po_denied_operations = [''delete''],
             po_max_files = NInt 1, po_max_diff_lines = NInt 300\<rparr> in
      \<lparr>readDecision = (\<lambda>i. Ret (if i = ''AUTH-fixture-001'' then
          Obs \<lparr>dr_decision_id = i, dr_status = ''ACTIVE'',
               dr_authority_lineage_hash = ''sha256:fixture-authority-lineage-hash'',
               dr_scope = ''repository'', dr_expires_at = None\<rparr> else unseen REGISTRY_MISS)),
       readAuthorityLineage = (\<lambda>i. Ret (unseen LINEAGE_MISMATCH)),
       readPolicy = (\<lambda>i. Ret (if i = ''filesystem-write-policy-v1'' then Obs policy else unseen POLICY_MISS)),
       readPolicyHash = (\<lambda>i. Ret (Obs ''sha256:fixture-policy-hash'')),
       readNonceState = (\<lambda>n. Ret (Obs (if n = ''fixture-nonce-001'' then RS_UNUSED else RS_CONSUMED))),
       readAeoState = (\<lambda>h. Ret (unseen REPLAY_STATE_UNKNOWN)),
       normalizePath = Obs,
       readHash = (\<lambda>p. Ret (if p = ''src/example.ts'' then Obs ''sha256:fixture-pre-write-hash''
                           else unseen NOT_FOUND)),
       readMetadata = (\<lambda>p. Ret (Obs \<lparr>fm_exists = True, fm_is_symlink = False\<rparr>)),
       hashDiff = Obs,
       inspectApplicability = (\<lambda>h p d. Ret (Obs \<lparr>di_applicable = True, di_post_write_hash = []\<rparr>)),
       clock_now = Obs ''2026-01-01T00:00:00.000Z''\<rparr>)"

lemma readonly_fixture_context: "readonly_ctx fixture_context"
  by (simp add: readonly_ctx_def fixture_context_def Let_def)

interpretation fixture: readonly_context fixture_context
  by unfold_locales (rule readonly_fixture_context)

theorem validateFilesystemAEO_VALID_exactly_witness:
  "run (validateFilesystemAEO (aeo_js CANONICAL_FILESYSTEM_AEO_FIXTURE) fixture_context None) () =
     ((), V_VALID (objectHash (aeo_js CANONICAL_FILESYSTEM_AEO_FIXTURE)))"
proof -
  let ?f = "\<lparr>of_decision_id = ''AUTH-fixture-001'', of_lineage = ''sha256:fixture-authority-lineage-hash'',
     of_policy_id = ''filesystem-write-policy-v1'', of_policy_hash = ''sha256:fixture-policy-hash'',
     of_path = ''src/example.ts'', of_operation = ''modify'', of_nonce = ''fixture-nonce-001'',
     of_pre = ''sha256:fixture-pre-write-hash''\<rparr>"
  let ?a = "aeo_js CANONICAL_FILESYSTEM_AEO_FIXTURE"
  have "omega_fields ?a = Some ?f"
    unfolding omega_fields_Some
    by (simp add: CANONICAL_FILESYSTEM_AEO_FIXTURE_def validation_js_def target_js_def finality_js_def req_str_def)
  moreover have "path_authorized \<lparr>po_policy_id = x, po_policy_hash = y,
      po_allowed_paths = [''src/**'', ''tests/**'', ''docs/**''], po_denied_paths = [''.env*'', ''secrets/**''],
      po_allowed_operations = [''create'', ''modify''], po_denied_operations = [''delete''],
      po_max_files = NInt 1, po_max_diff_lines = NInt 300\<rparr> ''src/example.ts'' ''modify''" for x y
    by code_simp
  then have "omega_authorized fixture_context ?f () ''src/example.ts''"
    by (simp add: omega_authorized_def fixture_context_def Let_def)
  moreover have "omega_fresh fixture_context ?a ?f () ''src/example.ts''"
    "omega_diff_ok fixture_context ?a ?f () ''src/example.ts''"
    by (simp_all add: omega_fresh_def omega_diff_ok_def fixture_context_def Let_def unseen_def)
  ultimately show ?thesis
    unfolding validateFilesystemAEO_VALID_exactly [OF readonly_fixture_context] by blast
qed

text \<open>
  Whatever it is given, the validator changes no registry, and a verdict is either
  \<^verbatim>\<open>VALID\<close> with the hash of exactly the object that was given or a denial that reports no
  mutation and forbids retrying the same object.
\<close>

theorem validateFilesystemAEO_inert:
  assumes "readonly_ctx ctx"
  shows "\<exists>r. run (validateFilesystemAEO aeo ctx ov) s = (s, r) \<and>
     (case r of V_VALID h \<Rightarrow> h = objectHash aeo
      | V_NULL d \<Rightarrow> \<not> dn_mutation_performed d \<and> \<not> dn_retry_same_aeo_allowed d)"
proof -
  have "readonly_context ctx" using assms by (rule readonly_context.intro)
  then have "fst (run (validateFilesystemAEO aeo ctx ov) s) = s"
    "safe_outcome (objectHash aeo) (snd (run (validateFilesystemAEO aeo ctx ov) s))"
    by (simp_all add: readonly_context.run_validate_keeps)
  then show ?thesis
    by (intro exI [of _ "snd (run (validateFilesystemAEO aeo ctx ov) s)"])
       (auto simp: prod_eq_iff safe_outcome_def inert_def split: ValidatorResult.splits)
qed

theorem validateFilesystemAEO_inert_witness:
  "\<exists>r. run (validateFilesystemAEO JNull fixture_context None) () = ((), r) \<and>
     (case r of V_VALID h \<Rightarrow> h = objectHash JNull
      | V_NULL d \<Rightarrow> \<not> dn_mutation_performed d \<and> \<not> dn_retry_same_aeo_allowed d)"
  by (rule validateFilesystemAEO_inert [OF readonly_fixture_context])

text \<open>
  A pattern \<^verbatim>\<open>prefix/**\<close> matches exactly the prefix itself and the paths below it, a
  pattern without a star exactly itself. A \<^verbatim>\<open>**\<close> in the middle of a pattern does not match
  across directories: \<^verbatim>\<open>src/**/x.ts\<close> misses \<^verbatim>\<open>src/a/b/x.ts\<close>.
\<close>

theorem matchesGlob_behaviour:
  "(matchesGlob path (prefix @ ''/**'') \<longleftrightarrow> path = prefix \<or> (\<exists>rest. path = prefix @ ''/'' @ rest)) \<and>
   (js_includes pat ''*'' \<or> (matchesGlob path pat \<longleftrightarrow> path = pat)) \<and>
   matchesGlob ''src/a/x.ts'' ''src/**/x.ts'' \<and> \<not> matchesGlob ''src/a/b/x.ts'' ''src/**/x.ts''"
proof (intro conjI)
  show "matchesGlob path (prefix @ ''/**'') \<longleftrightarrow> path = prefix \<or> (\<exists>rest. path = prefix @ ''/'' @ rest)"
    by (simp add: matchesGlob_def js_ends_with_def js_starts_with_iff Let_def)
  have "\<not> js_ends_with pat ''/**''" "\<not> js_starts_with pat ''*.''" if "\<not> js_includes pat ''*''"
    using that unfolding js_ends_with_def js_starts_with_iff js_includes_iff
    by (metis append.assoc append_Cons append_Nil append_take_drop_id) (use that in \<open>auto simp: js_includes_iff\<close>)
  then show "js_includes pat ''*'' \<or> (matchesGlob path pat \<longleftrightarrow> path = pat)"
    by (auto simp: matchesGlob_def)
qed code_simp+

end
