(* ===== verification/Adapter_Contract.thy ===== *)
theory Adapter_Contract
  imports Filesystem_AEO
begin

text \<open>
  The execution boundary: \<^verbatim>\<open>runtime/lineage/executionEligibility.mjs\<close> (the continuity gate),
  \<^verbatim>\<open>src/lib/adapter-contract.ts\<close> (\<^verbatim>\<open>executeWithAdapter\<close> and the proof receipt) and the three
  adapters \<^verbatim>\<open>FilesystemExecutionAdapter\<close>, \<^verbatim>\<open>CloudflareAdapter\<close> and \<^verbatim>\<open>D1StorageAdapter\<close>. An
  adapter acts on a world \<open>'w\<close>; a JavaScript \<^verbatim>\<open>TypeError\<close> (property of null or undefined) is
  the left value of the result. \<^verbatim>\<open>Date.parse\<close> beyond its ISO form is implementation-defined,
  so it is the parameter \<open>parse\<close> (\<open>None\<close> for \<^verbatim>\<open>NaN\<close>); the wall clock is the parameter \<open>wall\<close>.
\<close>

section \<open>The continuity gate\<close>

definition str :: "jsval \<Rightarrow> string" where
  "str v = (case v of JStr s \<Rightarrow> s | JUndef \<Rightarrow> [] | JNull \<Rightarrow> [] | _ \<Rightarrow> js_String v)"

fun lt_num :: "int \<Rightarrow> jsnum \<Rightarrow> bool" where
  "lt_num i (NInt j) = (i < j)"
| "lt_num i NNaN = False"
| "lt_num i NInf = True"
| "lt_num i NNegInf = False"

definition isExpired :: "(string \<Rightarrow> int option) \<Rightarrow> jsval \<Rightarrow> jsnum \<Rightarrow> bool" where
  "isExpired parse expires_at nowMs =
     (let raw = str expires_at in
      if raw = [] then False
      else case parse raw of None \<Rightarrow> False | Some t \<Rightarrow> lt_num t nowMs)"

definition GENESIS_OBJECT_HASH :: string where
  "GENESIS_OBJECT_HASH =
     sha256Hex (canonicalize (JObj [(''genesis'', JBool True), (''lineage'', JStr ''EXECUTION_ELIGIBILITY'')]))"

definition GENESIS_EXECUTION_STATE :: jsval where
  "GENESIS_EXECUTION_STATE = JObj
     [(''continuity_id'', JStr []), (''parent_continuity_id'', JStr []),
      (''validated_object_hash'', JStr GENESIS_OBJECT_HASH),
      (''executed_object_hash'', JStr GENESIS_OBJECT_HASH),
      (''proof_hash'', JStr []), (''status'', JStr ''ACTIVE''), (''expires_at'', JStr []),
      (''revoked_at'', JStr []), (''is_genesis'', JBool True)]"

definition gate_now :: "(string \<Rightarrow> int option) \<Rightarrow> int \<Rightarrow> jsval \<Rightarrow> jsnum" where
  "gate_now parse wall now =
     (case now of
        JNum n \<Rightarrow> n
      | _ \<Rightarrow> if js_truthy now then (case parse (js_String now) of Some t \<Rightarrow> NInt t | None \<Rightarrow> NNaN)
             else NInt wall)"

text \<open>\<^verbatim>\<open>if (c) null_reasons.push(r)\<close>\<close>

definition reason_if :: "bool \<Rightarrow> string \<Rightarrow> string list" where
  "reason_if c r = (if c then [r] else [])"

definition classifyExecutionEligibility ::
  "(string \<Rightarrow> int option) \<Rightarrow> int \<Rightarrow> jsval \<Rightarrow> jsval \<Rightarrow> jsval \<Rightarrow> string list \<Rightarrow> bool \<times> string list" where
  "classifyExecutionEligibility parse wall prior current now consumed =
     (let priorState = (if is_nullish prior then GENESIS_EXECUTION_STATE else prior);
          nowMs = gate_now parse wall now;
          cur = current;
          p = (\<lambda>k. str (js_get priorState k));
          c = (\<lambda>k. str (js_get cur k));
          null_reasons =
            reason_if (c ''validated_object_hash'' = []) ''UNVALIDATED_CURRENT'' @
            reason_if (c ''executed_object_hash'' \<noteq> [] \<and> c ''executed_object_hash'' \<noteq> c ''validated_object_hash'')
              ''CURRENT_INVARIANT_BROKEN'' @
            reason_if (p ''validated_object_hash'' \<noteq> p ''executed_object_hash'') ''PRIOR_INVARIANT_BROKEN'' @
            reason_if (c ''parent_executed_object_hash'' \<noteq> p ''executed_object_hash'') ''UNINHERITED_EXECUTED_STATE'' @
            reason_if (c ''parent_continuity_id'' \<noteq> p ''continuity_id'') ''BROKEN_CONTINUITY'' @
            reason_if (p ''revoked_at'' \<noteq> [] \<or>
                str (if js_truthy (js_get priorState ''status'') then js_get priorState ''status'' else JStr ''ACTIVE'') \<noteq> ''ACTIVE'')
              ''REVOKED_LINEAGE'' @
            reason_if (isExpired parse (js_get priorState ''expires_at'') nowMs) ''EXPIRED_LINEAGE'' @
            reason_if (c ''nonce'' \<noteq> [] \<and> c ''nonce'' \<in> set consumed) ''REPLAYED_NONCE''
      in (null_reasons = [], null_reasons))"

definition eligibilityCarry :: "jsval \<Rightarrow> jsval" where
  "eligibilityCarry cur =
     (let f = (\<lambda>k. str (js_get cur k)) in JObj
       [(''continuity_id'', JStr (f ''continuity_id'')),
        (''parent_continuity_id'', JStr (f ''parent_continuity_id'')),
        (''validated_object_hash'', JStr (f ''validated_object_hash'')),
        (''executed_object_hash'',
           JStr (if f ''executed_object_hash'' \<noteq> [] then f ''executed_object_hash'' else f ''validated_object_hash'')),
        (''proof_hash'', JStr (f ''proof_hash'')),
        (''status'', JStr (str (if js_truthy (js_get cur ''status'') then js_get cur ''status'' else JStr ''ACTIVE''))),
        (''expires_at'', JStr (f ''expires_at'')), (''revoked_at'', JStr (f ''revoked_at''))])"

section \<open>Contract types\<close>

record AdapterExecutionContext =
  ac_validated_object_hash :: string
  ac_emitted_at :: string

record 'w AdapterContract =
  adapter_surface :: string
  execute :: "jsval \<Rightarrow> AdapterExecutionContext \<Rightarrow> 'w \<Rightarrow> 'w \<times> (js_error + jsval)"

record LineageBinding =
  lb_continuity_id :: string
  lb_parent_continuity_id :: string
  lb_parent_executed_object_hash :: string

record AdapterProofReceipt =
  pr_receipt_id :: string
  pr_validated_object_hash :: string
  pr_executed_object_hash :: string
  pr_execution_evidence_hash :: string
  pr_adapter_surface :: jsval
  pr_decision_id :: jsval
  pr_replay_nonce :: jsval
  pr_execution_result :: string
  pr_creates_authority :: bool
  pr_emitted_at :: string
  pr_lineage :: "LineageBinding option"

record ContinuityGateContext =
  cg_prior :: jsval
  cg_consumed_nonces :: "string list"
  cg_now :: jsval

datatype AdapterNullReason =
    NULL_AEO_INPUT | NULL_VALIDATED_HASH | NULL_EXECUTOR | NULL_EMITTED_AT | AEO_SHAPE_INVALID
  | OBJECT_HASH_MISMATCH | EXECUTOR_RETURNED_NULL | EVIDENCE_MISSING_EXECUTION_ID
  | EVIDENCE_MISSING_EXECUTED_AT | EVIDENCE_SURFACE_MISMATCH | EVIDENCE_ADAPTER_SPECIFIC_NULL
  | NULL_CONTINUITY_CONTEXT | EXECUTION_NOT_ELIGIBLE | STORED_CHAIN_INVALID

datatype AdapterExecutionOutcome =
    AO_receipt AdapterProofReceipt
  | AO_null AdapterNullReason "string list option"

definition ADAPTER_AEO_REQUIRED_KEYS :: "string list" where
  "ADAPTER_AEO_REQUIRED_KEYS = [''finality'', ''intent'', ''scope'', ''target'', ''validation'']"

definition hasExactAEOShape :: "jsval \<Rightarrow> bool" where
  "hasExactAEOShape aeo \<longleftrightarrow> sort (js_keys aeo) = ADAPTER_AEO_REQUIRED_KEYS"

definition computeAdapterAEOHash :: "jsval \<Rightarrow> string" where
  "computeAdapterAEOHash aeo = objectHash aeo"

text \<open>\<^verbatim>\<open>===\<close>; two object values are different objects.\<close>

fun js_strict_eq :: "jsval \<Rightarrow> jsval \<Rightarrow> bool" where
  "js_strict_eq (JNum a) (JNum b) = (a = b \<and> a \<noteq> NNaN)"
| "js_strict_eq (JArr _) _ = False"
| "js_strict_eq (JObj _) _ = False"
| "js_strict_eq a b = (a = b)"

section \<open>executeWithAdapter\<close>

text \<open>The checks on the arguments, in order.\<close>

definition ewa_guards ::
  "jsval \<Rightarrow> jsval \<Rightarrow> 'w AdapterContract option \<Rightarrow> jsval \<Rightarrow> AdapterNullReason + (string \<times> 'w AdapterContract \<times> string)" where
  "ewa_guards aeo validated_object_hash executor emitted_at =
     (if \<not> js_truthy aeo then Inl NULL_AEO_INPUT
      else if \<not> isNonBlankString validated_object_hash then Inl NULL_VALIDATED_HASH
      else case executor of None \<Rightarrow> Inl NULL_EXECUTOR
      | Some ex \<Rightarrow>
         (if \<not> isNonBlankString emitted_at then Inl NULL_EMITTED_AT
          else if \<not> hasExactAEOShape aeo then Inl AEO_SHAPE_INVALID
          else if JStr (computeAdapterAEOHash aeo) \<noteq> validated_object_hash then Inl OBJECT_HASH_MISMATCH
          else Inr (computeAdapterAEOHash aeo, ex, str emitted_at)))"

text \<open>\<^verbatim>\<open>validation.lineage_key\<close>, trimmed; empty when no lineage is declared.\<close>

definition ewa_lineage_key :: "jsval \<Rightarrow> string" where
  "ewa_lineage_key aeo =
     (case js_get (js_get aeo ''validation'') ''lineage_key'' of
        JStr s \<Rightarrow> if nonblank s then js_trim s else []
      | _ \<Rightarrow> [])"

definition ewa_current :: "jsval \<Rightarrow> string \<Rightarrow> jsval" where
  "ewa_current aeo hash =
     (let v = js_get aeo ''validation'' in JObj
       [(''lineage_key'', JStr (ewa_lineage_key aeo)),
        (''continuity_id'', js_get v ''continuity_id''),
        (''parent_continuity_id'', js_get v ''parent_continuity_id''),
        (''parent_executed_object_hash'', js_get v ''parent_executed_object_hash''),
        (''validated_object_hash'', JStr hash),
        (''nonce'', js_get v ''replay_nonce'')])"

definition js_String_nullish :: "jsval \<Rightarrow> string" where
  "js_String_nullish v = (if is_nullish v then [] else js_String v)"

definition ewa_gate ::
  "(string \<Rightarrow> int option) \<Rightarrow> int \<Rightarrow> jsval \<Rightarrow> string \<Rightarrow> ContinuityGateContext option
   \<Rightarrow> (AdapterNullReason \<times> string list option) + LineageBinding option" where
  "ewa_gate parse wall aeo hash continuity =
     (if ewa_lineage_key aeo = [] then Inr None
      else case continuity of None \<Rightarrow> Inl (NULL_CONTINUITY_CONTEXT, None)
      | Some c \<Rightarrow>
         (let v = js_get aeo ''validation'';
              (eligible, reasons) = classifyExecutionEligibility parse wall (cg_prior c) (ewa_current aeo hash)
                                      (cg_now c) (cg_consumed_nonces c)
          in if \<not> eligible then Inl (EXECUTION_NOT_ELIGIBLE, Some reasons)
             else Inr (Some
               \<lparr>lb_continuity_id = js_String_nullish (js_get v ''continuity_id''),
                lb_parent_continuity_id = js_String_nullish (js_get v ''parent_continuity_id''),
                lb_parent_executed_object_hash = js_String_nullish (js_get v ''parent_executed_object_hash'')\<rparr>)))"

definition ewa_evidence :: "jsval \<Rightarrow> jsval \<Rightarrow> (js_error + AdapterNullReason option)" where
  "ewa_evidence aeo evidence =
     (if \<not> js_truthy evidence then Inr (Some EXECUTOR_RETURNED_NULL)
      else if \<not> isNonBlankString (js_get evidence ''execution_id'') then Inr (Some EVIDENCE_MISSING_EXECUTION_ID)
      else if \<not> isNonBlankString (js_get evidence ''executed_at'') then Inr (Some EVIDENCE_MISSING_EXECUTED_AT)
      else if is_nullish (js_get aeo ''target'') then Inl TypeError
      else if \<not> js_strict_eq (js_get evidence ''adapter_surface'') (js_get (js_get aeo ''target'') ''system'')
        then Inr (Some EVIDENCE_SURFACE_MISMATCH)
      else if \<not> isPlainObject (js_get evidence ''adapter_specific'') then Inr (Some EVIDENCE_ADAPTER_SPECIFIC_NULL)
      else Inr None)"

definition lineage_js :: "LineageBinding option \<Rightarrow> (string \<times> jsval) list" where
  "lineage_js lb =
     (case lb of None \<Rightarrow> []
      | Some b \<Rightarrow>
         [(''continuity_id'', JStr (lb_continuity_id b)),
          (''parent_continuity_id'', JStr (lb_parent_continuity_id b)),
          (''parent_executed_object_hash'', JStr (lb_parent_executed_object_hash b)),
          (''lineage_eligibility'', JStr ''ELIGIBLE'')])"

text \<open>The body of the receipt, whose hash is the receipt id.\<close>

definition receipt_body :: "AdapterProofReceipt \<Rightarrow> jsval" where
  "receipt_body r = JObj
     ([(''validated_object_hash'', JStr (pr_validated_object_hash r)),
       (''executed_object_hash'', JStr (pr_executed_object_hash r)),
       (''execution_evidence_hash'', JStr (pr_execution_evidence_hash r)),
       (''adapter_surface'', pr_adapter_surface r),
       (''decision_id'', pr_decision_id r),
       (''replay_nonce'', pr_replay_nonce r),
       (''execution_result'', JStr (pr_execution_result r)),
       (''creates_authority'', JBool (pr_creates_authority r)),
       (''emitted_at'', JStr (pr_emitted_at r))] @ lineage_js (pr_lineage r))"

definition ewa_receipt ::
  "jsval \<Rightarrow> string \<Rightarrow> jsval \<Rightarrow> string \<Rightarrow> LineageBinding option \<Rightarrow> AdapterProofReceipt" where
  "ewa_receipt aeo recomputed evidence emitted_at lineageBinding =
     (let body =
        \<lparr>pr_receipt_id = [], pr_validated_object_hash = recomputed, pr_executed_object_hash = recomputed,
         pr_execution_evidence_hash = objectHash evidence,
         pr_adapter_surface = js_get evidence ''adapter_surface'',
         pr_decision_id = js_get (js_get aeo ''validation'') ''decision_id'',
         pr_replay_nonce = js_get (js_get aeo ''validation'') ''replay_nonce'',
         pr_execution_result = ''EXECUTED'', pr_creates_authority = False,
         pr_emitted_at = emitted_at, pr_lineage = lineageBinding\<rparr>
      in body\<lparr>pr_receipt_id := objectHash (receipt_body body)\<rparr>)"

definition executeWithAdapter ::
  "(string \<Rightarrow> int option) \<Rightarrow> int \<Rightarrow> jsval \<Rightarrow> jsval \<Rightarrow> 'w AdapterContract option \<Rightarrow> jsval
   \<Rightarrow> ContinuityGateContext option \<Rightarrow> 'w \<Rightarrow> 'w \<times> (js_error + AdapterExecutionOutcome)" where
  "executeWithAdapter parse wall aeo validated_object_hash executor emitted_at continuity w =
     (case ewa_guards aeo validated_object_hash executor emitted_at of
        Inl r \<Rightarrow> (w, Inr (AO_null r None))
      | Inr (hash, ex, emitted) \<Rightarrow>
          if is_nullish (js_get aeo ''validation'') then (w, Inl TypeError)
          else case ewa_gate parse wall aeo hash continuity of
            Inl (r, reasons) \<Rightarrow> (w, Inr (AO_null r reasons))
          | Inr lineageBinding \<Rightarrow>
             (case execute ex aeo \<lparr>ac_validated_object_hash = hash, ac_emitted_at = emitted\<rparr> w of
                (w', Inl e) \<Rightarrow> (w', Inl e)
              | (w', Inr evidence) \<Rightarrow>
                 (case ewa_evidence aeo evidence of
                    Inl e \<Rightarrow> (w', Inl e)
                  | Inr (Some r) \<Rightarrow> (w', Inr (AO_null r None))
                  | Inr None \<Rightarrow> (w', Inr (AO_receipt (ewa_receipt aeo hash evidence emitted lineageBinding))))))"

section \<open>The adapters\<close>

record FilesystemWriteResult =
  fw_execution_id :: string
  fw_executed_at :: string
  fw_bytes_written :: int

type_synonym 'w FilesystemWriter = "string \<Rightarrow> string \<Rightarrow> 'w \<Rightarrow> 'w \<times> FilesystemWriteResult option"

definition FILESYSTEM_ADAPTER_SURFACE :: string where
  "FILESYSTEM_ADAPTER_SURFACE = ''filesystem''"

definition fs_execute ::
  "string \<Rightarrow> 'w FilesystemWriter \<Rightarrow> jsval \<Rightarrow> AdapterExecutionContext \<Rightarrow> 'w \<Rightarrow> 'w \<times> (js_error + jsval)" where
  "fs_execute content writer aeo ctx w =
     (let target = js_get aeo ''target'' in
      if is_nullish target then (w, Inl TypeError)
      else if js_get target ''system'' \<noteq> JStr FILESYSTEM_ADAPTER_SURFACE then (w, Inr JNull)
      else case req_str target ''path'' of
        None \<Rightarrow> (w, Inr JNull)
      | Some path \<Rightarrow>
         (let operation = (case js_get target ''operation'' of JStr s \<Rightarrow> s | _ \<Rightarrow> ''write'') in
          case writer path content w of
            (w', None) \<Rightarrow> (w', Inr JNull)
          | (w', Some r) \<Rightarrow>
              (w', Inr (JObj
                 [(''execution_id'', JStr (fw_execution_id r)), (''executed_at'', JStr (fw_executed_at r)),
                  (''adapter_surface'', JStr FILESYSTEM_ADAPTER_SURFACE),
                  (''adapter_specific'', JObj
                     [(''bytes_written'', JNum (NInt (fw_bytes_written r))),
                      (''path'', JStr path), (''operation'', JStr operation)])]))))"

definition FilesystemExecutionAdapter :: "string \<Rightarrow> 'w FilesystemWriter \<Rightarrow> 'w AdapterContract" where
  "FilesystemExecutionAdapter content writer =
     \<lparr>adapter_surface = FILESYSTEM_ADAPTER_SURFACE, execute = fs_execute content writer\<rparr>"

text \<open>
  The entry points pass no continuity context, so the gate never reads a date or the clock and
  the two parameters of \<^const>\<open>executeWithAdapter\<close> are irrelevant.
\<close>

definition executeFilesystemAdapter ::
  "jsval \<Rightarrow> jsval \<Rightarrow> string \<Rightarrow> 'w FilesystemWriter \<Rightarrow> jsval
   \<Rightarrow> 'w \<Rightarrow> 'w \<times> (js_error + AdapterExecutionOutcome)" where
  "executeFilesystemAdapter aeo hash content writer emitted_at =
     executeWithAdapter (\<lambda>_. None) 0 aeo hash (Some (FilesystemExecutionAdapter content writer)) emitted_at None"

text \<open>
  The Cloudflare and D1 adapters hand the named target fields to an injected executor, a
  function on the world that answers with evidence or null.
\<close>

definition CLOUDFLARE_ADAPTER_SURFACE :: string where
  "CLOUDFLARE_ADAPTER_SURFACE = ''cloudflare_worker''"

definition isValidCloudflareTarget :: "jsval \<Rightarrow> bool" where
  "isValidCloudflareTarget target \<longleftrightarrow>
     js_get target ''system'' = JStr ''cloudflare_worker'' \<and>
     isNonBlankString (js_get target ''worker_url'') \<and>
     js_get target ''method'' \<in> {JStr ''GET'', JStr ''POST'', JStr ''PUT'', JStr ''DELETE''} \<and>
     isNonBlankString (js_get target ''path'') \<and> isNonBlankString (js_get target ''request_body_hash'')"

definition cloudflare_execute ::
  "(jsval \<Rightarrow> 'w \<Rightarrow> 'w \<times> jsval) \<Rightarrow> jsval \<Rightarrow> AdapterExecutionContext \<Rightarrow> 'w \<Rightarrow> 'w \<times> (js_error + jsval)" where
  "cloudflare_execute workerExecutor aeo ctx w =
     (let target = js_get aeo ''target'' in
      if is_nullish target then (w, Inl TypeError)
      else if \<not> isValidCloudflareTarget target then (w, Inr JNull)
      else map_prod id Inr (workerExecutor (JObj
             (map (\<lambda>k. (k, js_get target k)) [''worker_url'', ''method'', ''path'', ''request_body_hash''])) w))"

definition CloudflareAdapter :: "(jsval \<Rightarrow> 'w \<Rightarrow> 'w \<times> jsval) \<Rightarrow> 'w AdapterContract" where
  "CloudflareAdapter workerExecutor =
     \<lparr>adapter_surface = CLOUDFLARE_ADAPTER_SURFACE, execute = cloudflare_execute workerExecutor\<rparr>"

definition executeCloudflareAdapter ::
  "jsval \<Rightarrow> jsval \<Rightarrow> (jsval \<Rightarrow> 'w \<Rightarrow> 'w \<times> jsval) \<Rightarrow> jsval
   \<Rightarrow> 'w \<Rightarrow> 'w \<times> (js_error + AdapterExecutionOutcome)" where
  "executeCloudflareAdapter aeo hash executor emitted_at =
     executeWithAdapter (\<lambda>_. None) 0 aeo hash (Some (CloudflareAdapter executor)) emitted_at None"

definition D1_ADAPTER_SURFACE :: string where
  "D1_ADAPTER_SURFACE = ''d1''"

definition isValidD1Operation :: "jsval \<Rightarrow> bool" where
  "isValidD1Operation v \<longleftrightarrow> v \<in> {JStr ''INSERT'', JStr ''UPDATE'', JStr ''SELECT'', JStr ''DELETE''}"

definition isValidD1Target :: "jsval \<Rightarrow> bool" where
  "isValidD1Target target \<longleftrightarrow>
     js_get target ''system'' = JStr ''d1'' \<and> isNonBlankString (js_get target ''database_id'') \<and>
     isNonBlankString (js_get target ''table_name'') \<and> isValidD1Operation (js_get target ''operation'') \<and>
     isNonBlankString (js_get target ''parameter_hash'')"

definition d1_execute ::
  "(jsval \<Rightarrow> 'w \<Rightarrow> 'w \<times> jsval) \<Rightarrow> jsval \<Rightarrow> AdapterExecutionContext \<Rightarrow> 'w \<Rightarrow> 'w \<times> (js_error + jsval)" where
  "d1_execute d1Executor aeo ctx w =
     (let target = js_get aeo ''target'' in
      if is_nullish target then (w, Inl TypeError)
      else if \<not> isValidD1Target target then (w, Inr JNull)
      else map_prod id Inr (d1Executor (JObj
             (map (\<lambda>k. (k, js_get target k)) [''database_id'', ''table_name'', ''operation'', ''parameter_hash''])) w))"

definition D1StorageAdapter :: "(jsval \<Rightarrow> 'w \<Rightarrow> 'w \<times> jsval) \<Rightarrow> 'w AdapterContract" where
  "D1StorageAdapter d1Executor =
     \<lparr>adapter_surface = D1_ADAPTER_SURFACE, execute = d1_execute d1Executor\<rparr>"

definition executeD1Adapter ::
  "jsval \<Rightarrow> jsval \<Rightarrow> (jsval \<Rightarrow> 'w \<Rightarrow> 'w \<times> jsval) \<Rightarrow> jsval
   \<Rightarrow> 'w \<Rightarrow> 'w \<times> (js_error + AdapterExecutionOutcome)" where
  "executeD1Adapter aeo hash executor emitted_at =
     executeWithAdapter (\<lambda>_. None) 0 aeo hash (Some (D1StorageAdapter executor)) emitted_at None"

section \<open>Lemmas\<close>

lemma str_JStr [simp]: "str (JStr s) = s"
  by (simp add: str_def)

lemma reason_if_Nil [simp]: "reason_if c r = [] \<longleftrightarrow> \<not> c"
  by (simp add: reason_if_def)

lemma ewa_guards_Inr:
  "ewa_guards aeo h ex em = Inr (hash, x, e) \<longleftrightarrow>
     js_truthy aeo \<and> hash = objectHash aeo \<and> h = JStr hash \<and> ex = Some x \<and>
     em = JStr e \<and> nonblank e \<and> hasExactAEOShape aeo"
  by (cases em) (auto simp: ewa_guards_def computeAdapterAEOHash_def split: option.splits)

text \<open>What every receipt of the boundary satisfies.\<close>

definition receipt_sound :: "jsval \<Rightarrow> string \<Rightarrow> string \<Rightarrow> AdapterProofReceipt \<Rightarrow> bool" where
  "receipt_sound aeo hash emitted r \<longleftrightarrow>
     pr_validated_object_hash r = hash \<and> pr_executed_object_hash r = hash \<and> hash = objectHash aeo \<and>
     pr_receipt_id r = objectHash (receipt_body r) \<and>
     pr_decision_id r = js_get (js_get aeo ''validation'') ''decision_id'' \<and>
     pr_replay_nonce r = js_get (js_get aeo ''validation'') ''replay_nonce'' \<and>
     pr_adapter_surface r = js_get (js_get aeo ''target'') ''system'' \<and>
     pr_execution_result r = ''EXECUTED'' \<and> \<not> pr_creates_authority r \<and> pr_emitted_at r = emitted"

lemma js_strict_eqD: "js_strict_eq a b \<Longrightarrow> a = b"
  by (induction a b rule: js_strict_eq.induct) auto

lemma receipt_body_id [simp]: "receipt_body (r\<lparr>pr_receipt_id := x\<rparr>) = receipt_body r"
  by (simp add: receipt_body_def)

lemma ewa_receipt_sound:
  assumes "ewa_evidence aeo ev = Inr None"
  shows "receipt_sound aeo (objectHash aeo) em (ewa_receipt aeo (objectHash aeo) ev em lb)"
proof -
  have "js_strict_eq (js_get ev ''adapter_surface'') (js_get (js_get aeo ''target'') ''system'')"
    using assms by (auto simp: ewa_evidence_def split: if_splits)
  then have "js_get ev ''adapter_surface'' = js_get (js_get aeo ''target'') ''system''"
    by (rule js_strict_eqD)
  then show ?thesis by (simp add: receipt_sound_def ewa_receipt_def Let_def receipt_body_def)
qed

lemma executeWithAdapter_receipt:
  assumes "executeWithAdapter parse wall aeo h ex em cont w = (w', Inr (AO_receipt r))"
  obtains x e ev lb where
    "h = JStr (objectHash aeo)" "ex = Some x" "em = JStr e" "nonblank e"
    "hasExactAEOShape aeo" "js_truthy aeo" "ewa_gate parse wall aeo (objectHash aeo) cont = Inr lb"
    "execute x aeo \<lparr>ac_validated_object_hash = objectHash aeo, ac_emitted_at = e\<rparr> w = (w', Inr ev)"
    "ewa_evidence aeo ev = Inr None" "r = ewa_receipt aeo (objectHash aeo) ev e lb"
proof -
  obtain hash x e where G: "ewa_guards aeo h ex em = Inr (hash, x, e)"
    using assms by (cases "ewa_guards aeo h ex em") (auto simp: executeWithAdapter_def)
  note G' = G [unfolded ewa_guards_Inr]
  from assms G G' obtain lb where L: "ewa_gate parse wall aeo hash cont = Inr lb"
    by (auto simp: executeWithAdapter_def split: if_splits sum.splits)
  from assms G L obtain ev where
    "execute x aeo \<lparr>ac_validated_object_hash = hash, ac_emitted_at = e\<rparr> w = (w', Inr ev)"
    "ewa_evidence aeo ev = Inr None" "r = ewa_receipt aeo hash ev e lb"
    by (auto simp: executeWithAdapter_def split: if_splits sum.splits prod.splits option.splits)
  with G' L that show thesis by simp
qed

text \<open>
  The contract an adapter offers to the boundary: it acts on its own surface only. For an
  object targeted at another system it returns null and touches nothing.
\<close>

locale adapter =
  fixes a :: "'w AdapterContract"
  assumes own_surface:
    "\<not> is_nullish (js_get aeo ''target'') \<Longrightarrow>
     js_get (js_get aeo ''target'') ''system'' \<noteq> JStr (adapter_surface a) \<Longrightarrow>
     execute a aeo c w = (w, Inr JNull)"
begin

lemma foreign_surface_null:
  assumes "\<not> is_nullish (js_get aeo ''target'')"
    and "js_get (js_get aeo ''target'') ''system'' \<noteq> JStr (adapter_surface a)"
  shows "fst (executeWithAdapter parse wall aeo h (Some a) em cont w) = w \<and>
    (\<forall>r. snd (executeWithAdapter parse wall aeo h (Some a) em cont w) \<noteq> Inr (AO_receipt r))"
  using own_surface [OF assms]
  by (auto simp: executeWithAdapter_def ewa_evidence_def ewa_guards_Inr
           split: sum.splits if_splits prod.splits option.splits)

lemma receipt_surface:
  assumes "executeWithAdapter parse wall aeo h (Some a) em cont w = (w', Inr (AO_receipt r))"
  shows "pr_adapter_surface r = JStr (adapter_surface a)"
proof -
  from executeWithAdapter_receipt [OF assms] obtain e ev lb where
    E: "ewa_evidence aeo ev = Inr None" "r = ewa_receipt aeo (objectHash aeo) ev e lb" by metis
  then have "pr_adapter_surface r = js_get (js_get aeo ''target'') ''system''"
    using ewa_receipt_sound [OF E(1)] by (simp add: receipt_sound_def)
  moreover have "\<not> is_nullish (js_get aeo ''target'')"
    using E(1) by (auto simp: ewa_evidence_def split: if_splits)
  ultimately show ?thesis
    using foreign_surface_null [of aeo parse wall h em cont w] assms by auto
qed

end

interpretation fs_adapter: adapter "FilesystemExecutionAdapter content writer" for content writer
  by unfold_locales (simp add: FilesystemExecutionAdapter_def fs_execute_def)

interpretation cf_adapter: adapter "CloudflareAdapter exec" for exec
  by unfold_locales
     (simp add: CloudflareAdapter_def cloudflare_execute_def isValidCloudflareTarget_def
                CLOUDFLARE_ADAPTER_SURFACE_def)

interpretation d1_adapter: adapter "D1StorageAdapter exec" for exec
  by unfold_locales
     (simp add: D1StorageAdapter_def d1_execute_def isValidD1Target_def D1_ADAPTER_SURFACE_def)

text \<open>A concrete object, and a writer that records its calls.\<close>

definition sample_aeo :: jsval where
  "sample_aeo = JObj
     [(''intent'', JObj []), (''scope'', JObj []),
      (''validation'', JObj [(''decision_id'', JStr ''D''), (''replay_nonce'', JStr ''n1'')]),
      (''target'', JObj [(''system'', JStr ''filesystem''), (''path'', JStr ''a/b''), (''operation'', JStr ''modify'')]),
      (''finality'', JObj [])]"

definition sample_writer :: "(string \<times> string) list FilesystemWriter" where
  "sample_writer path content w =
     ((path, content) # w, Some \<lparr>fw_execution_id = ''id'', fw_executed_at = ''t'', fw_bytes_written = 1\<rparr>)"

lemma sample_run:
  "executeWithAdapter parse wall sample_aeo (JStr (objectHash sample_aeo))
     (Some (FilesystemExecutionAdapter ''x'' sample_writer)) (JStr ''now'') None [] =
   ([(''a/b'', ''x'')], Inr (AO_receipt (ewa_receipt sample_aeo (objectHash sample_aeo)
     (JObj [(''execution_id'', JStr ''id''), (''executed_at'', JStr ''t''),
            (''adapter_surface'', JStr ''filesystem''),
            (''adapter_specific'', JObj [(''bytes_written'', JNum (NInt 1)), (''path'', JStr ''a/b''),
               (''operation'', JStr ''modify'')])]) ''now'' None)))"
proof -
  have "ewa_guards sample_aeo (JStr (objectHash sample_aeo))
      (Some (FilesystemExecutionAdapter ''x'' sample_writer)) (JStr ''now'') =
      Inr (objectHash sample_aeo, FilesystemExecutionAdapter ''x'' sample_writer, ''now'')"
    unfolding ewa_guards_Inr
    by (simp add: sample_aeo_def hasExactAEOShape_def ADAPTER_AEO_REQUIRED_KEYS_def js_ws_def)
  moreover have "ewa_gate parse wall sample_aeo (objectHash sample_aeo) None = Inr None"
    by (simp add: ewa_gate_def ewa_lineage_key_def sample_aeo_def)
  ultimately show ?thesis
    by (simp add: executeWithAdapter_def FilesystemExecutionAdapter_def fs_execute_def sample_writer_def
        FILESYSTEM_ADAPTER_SURFACE_def ewa_evidence_def js_ws_def req_str_def sample_aeo_def Let_def)
qed

section \<open>Properties\<close>

text \<open>
  C9. The exact-object invariant of the execution boundary: a proof receipt is issued only for
  an object with exactly the five sections whose hash, recomputed at the boundary, is the
  validated hash; the receipt names that hash as validated and as executed, its id is the hash
  of its body, its ids come from the object, and it creates no authority. When the object
  declares a lineage, the continuity gate found it eligible.
\<close>

theorem executeWithAdapter_exact_object:
  assumes "executeWithAdapter parse wall aeo h ex em cont w = (w', Inr (AO_receipt r))"
  shows "h = JStr (objectHash aeo) \<and> hasExactAEOShape aeo \<and>
     (\<exists>e. em = JStr e \<and> receipt_sound aeo (objectHash aeo) e r) \<and>
     (if ewa_lineage_key aeo = [] then pr_lineage r = None
      else \<exists>c. cont = Some c \<and> pr_lineage r \<noteq> None \<and>
        fst (classifyExecutionEligibility parse wall (cg_prior c) (ewa_current aeo (objectHash aeo))
               (cg_now c) (cg_consumed_nonces c)))"
proof -
  from executeWithAdapter_receipt [OF assms] obtain e ev lb where
    A: "h = JStr (objectHash aeo)" "em = JStr e" "hasExactAEOShape aeo"
      "ewa_gate parse wall aeo (objectHash aeo) cont = Inr lb"
      "ewa_evidence aeo ev = Inr None" "r = ewa_receipt aeo (objectHash aeo) ev e lb" by metis
  have lb: "pr_lineage r = lb" using A(6) by (simp add: ewa_receipt_def Let_def)
  have "if ewa_lineage_key aeo = [] then lb = None
      else \<exists>c. cont = Some c \<and> lb \<noteq> None \<and>
        fst (classifyExecutionEligibility parse wall (cg_prior c) (ewa_current aeo (objectHash aeo))
               (cg_now c) (cg_consumed_nonces c))"
    using A(4) by (auto simp: ewa_gate_def Let_def split: if_splits option.splits prod.splits)
  then show ?thesis
    using A ewa_receipt_sound [OF A(5)] lb by auto
qed

theorem executeWithAdapter_exact_object_witness:
  "\<exists>w' r. executeWithAdapter (\<lambda>_. None) 0 sample_aeo (JStr (objectHash sample_aeo))
     (Some (FilesystemExecutionAdapter ''x'' sample_writer)) (JStr ''now'') None [] = (w', Inr (AO_receipt r)) \<and>
     hasExactAEOShape sample_aeo \<and> pr_executed_object_hash r = objectHash sample_aeo"
  using executeWithAdapter_exact_object [OF sample_run] sample_run
  by (auto simp: receipt_sound_def)

text \<open>
  C10. No execution without admission: unless all argument checks pass with the recomputed hash
  equal to the validated hash and the continuity gate lets the run through, the adapter is not
  called, whatever it is, and the world is unchanged.
\<close>

theorem executeWithAdapter_no_effect_unless_admitted:
  assumes "fst (executeWithAdapter parse wall aeo h ex em cont w) \<noteq> w"
  shows "hasExactAEOShape aeo \<and> h = JStr (objectHash aeo) \<and>
     (\<exists>lb. ewa_gate parse wall aeo (objectHash aeo) cont = Inr lb) \<and>
     (\<exists>x e. ex = Some x \<and> em = JStr e \<and>
        fst (executeWithAdapter parse wall aeo h ex em cont w) =
        fst (execute x aeo \<lparr>ac_validated_object_hash = objectHash aeo, ac_emitted_at = e\<rparr> w))"
proof -
  obtain hash x e where G: "ewa_guards aeo h ex em = Inr (hash, x, e)"
    using assms by (cases "ewa_guards aeo h ex em") (auto simp: executeWithAdapter_def)
  note G' = G [unfolded ewa_guards_Inr]
  from assms G G' obtain lb where L: "ewa_gate parse wall aeo hash cont = Inr lb"
    by (auto simp: executeWithAdapter_def split: if_splits sum.splits)
  from assms G have "\<not> is_nullish (js_get aeo ''validation'')"
    by (auto simp: executeWithAdapter_def)
  with G L have "fst (executeWithAdapter parse wall aeo h ex em cont w) =
      fst (execute x aeo \<lparr>ac_validated_object_hash = hash, ac_emitted_at = e\<rparr> w)"
    by (auto simp: executeWithAdapter_def split: sum.splits prod.splits option.splits)
  with G' L show ?thesis by auto
qed

theorem executeWithAdapter_no_effect_unless_admitted_witness:
  "fst (executeWithAdapter (\<lambda>_. None) 0 sample_aeo (JStr (objectHash sample_aeo))
     (Some (FilesystemExecutionAdapter ''x'' sample_writer)) (JStr ''now'') None []) \<noteq> [] \<and>
   hasExactAEOShape sample_aeo"
proof -
  let ?run = "executeWithAdapter (\<lambda>_. None) 0 sample_aeo (JStr (objectHash sample_aeo))
     (Some (FilesystemExecutionAdapter ''x'' sample_writer)) (JStr ''now'') None []"
  have "fst ?run \<noteq> []" by (simp add: sample_run)
  from this executeWithAdapter_no_effect_unless_admitted [OF this] show ?thesis by blast
qed

text \<open>
  An adapter acts on its own surface only: given an object targeted at another system, the
  filesystem, Cloudflare and D1 adapters leave the world as it is and no receipt is issued.
\<close>

theorem adapters_own_surface_only:
  assumes "js_get aeo ''target'' = JObj t" and "js_get (JObj t) ''system'' = JStr sys"
  shows "(sys \<noteq> ''filesystem'' \<longrightarrow>
       fst (executeFilesystemAdapter aeo h content writer em w) = w \<and>
       (\<forall>r. snd (executeFilesystemAdapter aeo h content writer em w) \<noteq> Inr (AO_receipt r))) \<and>
     (sys \<noteq> ''cloudflare_worker'' \<longrightarrow>
       fst (executeCloudflareAdapter aeo h cfx em w) = w \<and>
       (\<forall>r. snd (executeCloudflareAdapter aeo h cfx em w) \<noteq> Inr (AO_receipt r))) \<and>
     (sys \<noteq> ''d1'' \<longrightarrow>
       fst (executeD1Adapter aeo h dx em w) = w \<and>
       (\<forall>r. snd (executeD1Adapter aeo h dx em w) \<noteq> Inr (AO_receipt r)))"
  using assms
    fs_adapter.foreign_surface_null [of aeo content writer "\<lambda>_. None" 0 h em None w]
    cf_adapter.foreign_surface_null [of aeo cfx "\<lambda>_. None" 0 h em None w]
    d1_adapter.foreign_surface_null [of aeo dx "\<lambda>_. None" 0 h em None w]
  by (simp add: executeFilesystemAdapter_def executeCloudflareAdapter_def executeD1Adapter_def
      FilesystemExecutionAdapter_def FILESYSTEM_ADAPTER_SURFACE_def CloudflareAdapter_def
      CLOUDFLARE_ADAPTER_SURFACE_def D1StorageAdapter_def D1_ADAPTER_SURFACE_def)

theorem adapters_own_surface_only_witness:
  "fst (executeD1Adapter sample_aeo (JStr (objectHash sample_aeo))
     (\<lambda>t w. (Suc w, JNull)) (JStr ''now'') (0 :: nat)) = 0"
proof -
  have "js_get sample_aeo ''target'' =
      JObj [(''system'', JStr ''filesystem''), (''path'', JStr ''a/b''), (''operation'', JStr ''modify'')]"
    by (simp add: sample_aeo_def)
  from adapters_own_surface_only [OF this, of "''filesystem''" "JStr (objectHash sample_aeo)"
      "''x''" "\<lambda>p c w. (w, None)" "JStr ''now''" 0 "\<lambda>t w. (w, JNull)" "\<lambda>t w. (Suc w, JNull)"]
  show ?thesis by simp
qed

text \<open>
  The continuity gate admits a run exactly when the current object is validated, its
  asserted executed hash (if any) is the validated one, the prior run held validated equal to
  executed and is inherited by object hash and continuity id, the prior lineage is active,
  neither revoked nor expired, and the nonce is not consumed; and it lists a reason otherwise.
\<close>

theorem classifyExecutionEligibility_exactly:
  "let prior' = (if is_nullish prior then GENESIS_EXECUTION_STATE else prior);
       p = (\<lambda>k. str (js_get prior' k)); c = (\<lambda>k. str (js_get cur k));
       (ok, reasons) = classifyExecutionEligibility parse wall prior cur now consumed
   in (ok \<longleftrightarrow> reasons = []) \<and>
      (ok \<longleftrightarrow> c ''validated_object_hash'' \<noteq> [] \<and>
         c ''executed_object_hash'' \<in> {[], c ''validated_object_hash''} \<and>
         p ''validated_object_hash'' = p ''executed_object_hash'' \<and>
         c ''parent_executed_object_hash'' = p ''executed_object_hash'' \<and>
         c ''parent_continuity_id'' = p ''continuity_id'' \<and>
         p ''revoked_at'' = [] \<and>
         \<not> (js_truthy (js_get prior' ''status'') \<and> p ''status'' \<noteq> ''ACTIVE'') \<and>
         \<not> isExpired parse (js_get prior' ''expires_at'') (gate_now parse wall now) \<and>
         \<not> (c ''nonce'' \<noteq> [] \<and> c ''nonce'' \<in> set consumed))"
  by (auto simp: classifyExecutionEligibility_def Let_def)

text \<open>
  The carry a successful run persists is a legitimate base for the next run: a next run
  that names it as parent, is itself validated and brings a fresh nonce is admitted, and one
  that names any other executed object is not.
\<close>

theorem eligibilityCarry_admits_successor:
  assumes "fst (classifyExecutionEligibility parse wall prior cur now consumed)"
    and "js_get cur ''status'' = JUndef" "js_get cur ''expires_at'' = JUndef" "js_get cur ''revoked_at'' = JUndef"
    and "nxt = JObj [(''parent_continuity_id'', js_get cur ''continuity_id''),
                     (''parent_executed_object_hash'', JStr x), (''validated_object_hash'', JStr v),
                     (''nonce'', JStr n)]"
    and "v \<noteq> []" and "n \<notin> set consumed'"
  shows "fst (classifyExecutionEligibility parse wall (eligibilityCarry cur) nxt now' consumed')
     \<longleftrightarrow> x = str (js_get cur ''validated_object_hash'')"
proof -
  let ?c = "\<lambda>k. str (js_get cur k)"
  have ok: "?c ''validated_object_hash'' \<noteq> []" "?c ''executed_object_hash'' \<in> {[], ?c ''validated_object_hash''}"
    using assms(1) by (auto simp: classifyExecutionEligibility_def Let_def)
  have [simp]: "str JUndef = []" by (simp add: str_def)
  let ?e = "eligibilityCarry cur"
  have g: "js_get ?e ''executed_object_hash'' = JStr (?c ''validated_object_hash'')"
    "js_get ?e ''validated_object_hash'' = JStr (?c ''validated_object_hash'')"
    "js_get ?e ''continuity_id'' = JStr (?c ''continuity_id'')"
    "js_get ?e ''revoked_at'' = JStr []" "js_get ?e ''expires_at'' = JStr []"
    "js_get ?e ''status'' = JStr ''ACTIVE''" "is_nullish ?e = False"
    using ok(2) assms(2-4) by (auto simp: eligibilityCarry_def Let_def)
  show ?thesis
    using assms(5-7) by (auto simp: classifyExecutionEligibility_def Let_def g isExpired_def)
qed

theorem eligibilityCarry_admits_successor_witness:
  "let cur = JObj [(''continuity_id'', JStr ''c1''), (''parent_continuity_id'', JStr []),
                   (''parent_executed_object_hash'', JStr GENESIS_OBJECT_HASH),
                   (''validated_object_hash'', JStr ''h1''), (''nonce'', JStr ''n1'')];
       nxt = JObj [(''parent_continuity_id'', JStr ''c1''), (''parent_executed_object_hash'', JStr ''h1''),
                   (''validated_object_hash'', JStr ''h2''), (''nonce'', JStr ''n2'')]
   in fst (classifyExecutionEligibility (\<lambda>_. None) 0 JNull cur JUndef []) \<and>
      fst (classifyExecutionEligibility (\<lambda>_. None) 0 (eligibilityCarry cur) nxt JUndef [''n1''])"
proof -
  let ?cur = "JObj [(''continuity_id'', JStr ''c1''), (''parent_continuity_id'', JStr []),
                   (''parent_executed_object_hash'', JStr GENESIS_OBJECT_HASH),
                   (''validated_object_hash'', JStr ''h1''), (''nonce'', JStr ''n1'')]"
  have "fst (classifyExecutionEligibility (\<lambda>_. None) 0 JNull ?cur JUndef [])"
    by (simp add: classifyExecutionEligibility_def GENESIS_EXECUTION_STATE_def isExpired_def Let_def)
       (simp add: str_def)
  from this eligibilityCarry_admits_successor [OF this, of _ "''h1''" "''h2''" "''n2''" "[''n1'']" JUndef]
  show ?thesis by simp
qed

end
