(* ===== verification/Storage.thy ===== *)
theory Storage
  imports Adapter_Contract "HOL-Library.Sublist"
begin

text \<open>
  The storage boundary: the result types and ports of \<^verbatim>\<open>src/lib/storage-adapter.ts\<close> and the
  class \<^verbatim>\<open>D1RegistryAdapter\<close> of \<^verbatim>\<open>src/lib/d1-storage-adapter.ts\<close>. A table is the list of its
  rows in insertion order; a statement is one atomic access, and a \<^verbatim>\<open>db.batch\<close> is one
  transaction. The time stamps of \<^verbatim>\<open>new Date().toISOString()\<close> are arguments. The schema's
  CHECK and NOT NULL constraints reject a row by an exception.

  Interfaces: \<open>append_only\<close> (a keyed table that only grows, under every interleaving) and
  \<open>replay_registry_port\<close> (what a client may rely on when it asks for and consumes a nonce).
\<close>

section \<open>storage-adapter.ts\<close>

datatype AppendResult =
    APPENDED string string
  | ALREADY_EXISTS string string
  | REJECTED string

datatype 'a StorageReadResult =
    SR_FOUND 'a string
  | SR_NOT_FOUND
  | SR_BOUNDARY_DIVERGENCE string

record AuthorityRecord =
  au_authority_id :: string
  au_lineage_hash :: string
  au_valid_from :: string
  au_valid_until :: "string option"
  au_revoked :: bool

record LineageNode =
  ln_node_id :: string
  ln_parent_id :: "string option"
  ln_canonical_hash :: string
  ln_depth :: int

record ValidExecutionCommit =
  vc_replay_nonce :: string
  vc_decision_id :: string
  vc_lineage_node :: LineageNode
  vc_proof_receipt :: AdapterProofReceipt

record 's ReplayRegistryPort =
  isNonceUnused :: "string \<Rightarrow> ('s, bool) proc"
  markNonceConsumed :: "string \<Rightarrow> string \<Rightarrow> ('s, AppendResult) proc"

record FilesystemExecutionLineageNode =
  fl_node_id :: string
  fl_parent_id :: "string option"
  fl_canonical_aeo_hash :: string
  fl_receipt_id :: string
  fl_decision_id :: jsval
  fl_replay_nonce :: jsval
  fl_target_system :: string
  fl_target_action :: string
  fl_target_path :: string
  fl_status :: string

section \<open>Keyed tables\<close>

text \<open>\<^verbatim>\<open>INSERT OR IGNORE\<close> / \<^verbatim>\<open>ON CONFLICT(key) DO NOTHING\<close>: the new table and the number of changes.\<close>

definition insert_or_ignore :: "('r \<Rightarrow> 'k) \<Rightarrow> 'r \<Rightarrow> 'r list \<Rightarrow> 'r list \<times> nat" where
  "insert_or_ignore key r t = (if key r \<in> key ` set t then (t, 0) else (t @ [r], 1))"

text \<open>Plain \<^verbatim>\<open>INSERT\<close>: a duplicate key is a constraint violation.\<close>

definition insert_unique :: "('r \<Rightarrow> 'k) \<Rightarrow> 'r \<Rightarrow> 'r list \<Rightarrow> 'r list option" where
  "insert_unique key r t = (if key r \<in> key ` set t then None else Some (t @ [r]))"

text \<open>\<^verbatim>\<open>INSERT ... ON CONFLICT(key) DO UPDATE\<close>: the row with the key is replaced in place.\<close>

definition upsert :: "('r \<Rightarrow> 'k) \<Rightarrow> ('r \<Rightarrow> 'r) \<Rightarrow> 'r \<Rightarrow> 'r list \<Rightarrow> 'r list" where
  "upsert key upd r t =
     (if key r \<in> key ` set t then map (\<lambda>x. if key x = key r then upd x else x) t else t @ [r])"

text \<open>\<^verbatim>\<open>SELECT * ... WHERE key = ?\<close> with \<^verbatim>\<open>first()\<close>\<close>

definition lookup_row :: "('r \<Rightarrow> 'k) \<Rightarrow> 'k \<Rightarrow> 'r list \<Rightarrow> 'r option" where
  "lookup_row key k t = find (\<lambda>r. key r = k) t"

lemma lookup_row_None [db_simps]: "lookup_row key k t = None \<longleftrightarrow> k \<notin> key ` set t"
  by (auto simp: lookup_row_def find_None_iff)

lemma lookup_row_Some: "lookup_row key k t = Some r \<Longrightarrow> r \<in> set t \<and> key r = k"
  by (auto simp: lookup_row_def find_Some_iff)

lemma insert_or_ignore_grows: "prefix t (fst (insert_or_ignore key r t))"
  by (simp add: insert_or_ignore_def)

lemma insert_or_ignore_distinct:
  "distinct (map key t) \<Longrightarrow> distinct (map key (fst (insert_or_ignore key r t)))"
  by (auto simp: insert_or_ignore_def)

lemma insert_or_ignore_has: "key r \<in> key ` set (fst (insert_or_ignore key r t))"
  by (auto simp: insert_or_ignore_def)

lemma insert_unique_grows: "insert_unique key r t = Some t' \<Longrightarrow> prefix t t'"
  by (auto simp: insert_unique_def split: if_splits)

lemma insert_unique_distinct:
  "insert_unique key r t = Some t' \<Longrightarrow> distinct (map key t) \<Longrightarrow> distinct (map key t')"
  by (auto simp: insert_unique_def split: if_splits)

text \<open>
  The contract of an append-only registry: the table only grows and its keys stay distinct.
  As a relation between states it is a preorder, so it holds across every interleaving of
  programs whose accesses all respect it.
\<close>

locale append_only =
  fixes table :: "'s \<Rightarrow> 'r list" and key :: "'r \<Rightarrow> 'k" and step :: "'s \<Rightarrow> 's \<Rightarrow> bool"
  assumes step_grows: "step s t \<Longrightarrow> prefix (table s) (table t)"
    and step_distinct: "step s t \<Longrightarrow> distinct (map key (table s)) \<Longrightarrow> distinct (map key (table t))"
    and step_refl: "step s s"
    and step_trans: "step s t \<Longrightarrow> step t u \<Longrightarrow> step s u"
begin

sublocale guarantee step
  by unfold_locales (auto intro: step_refl step_trans)

lemma rows_permanent:
  assumes "scheds c c'" and "\<forall>p\<in>set (snd c). guar step p"
  shows "prefix (table (fst c)) (table (fst c')) \<and>
    (distinct (map key (table (fst c))) \<longrightarrow> distinct (map key (table (fst c'))))"
  using guar_scheds [OF assms] step_grows step_distinct by blast

end

section \<open>The D1 registries\<close>

record AuthorityRow =
  ar_authority_id :: jsval
  ar_delegation_lineage_hash :: jsval
  ar_created_at :: jsval
  ar_expiry :: jsval
  ar_status :: jsval

record NonceRow =
  nr_nonce :: string
  nr_nonce_domain :: string
  nr_candidate_hash :: string
  nr_created_at :: string

record LineageRow =
  lr_node :: LineageNode
  lr_created_at :: string

record ProofRow =
  pw_receipt :: AdapterProofReceipt
  pw_created_at :: string

record D1 =
  authority_registry :: "AuthorityRow list"
  govern_nonce_registry :: "NonceRow list"
  lineage_registry :: "LineageRow list"
  adapter_proof_registry :: "ProofRow list"

definition nonce_key :: "NonceRow \<Rightarrow> string \<times> string" where
  "nonce_key r = (nr_nonce r, nr_nonce_domain r)"

definition lineage_key :: "LineageRow \<Rightarrow> string" where
  "lineage_key r = ln_node_id (lr_node r)"

definition proof_key :: "ProofRow \<Rightarrow> string" where
  "proof_key r = pr_receipt_id (pw_receipt r)"

datatype d1_error = ConstraintFailed

text \<open>The columns of a receipt are NOT NULL and its result must be \<^verbatim>\<open>EXECUTED\<close>.\<close>

definition receipt_storable :: "AdapterProofReceipt \<Rightarrow> bool" where
  "receipt_storable r \<longleftrightarrow>
     as_str (pr_adapter_surface r) \<noteq> None \<and> as_str (pr_decision_id r) \<noteq> None \<and>
     as_str (pr_replay_nonce r) \<noteq> None \<and> pr_execution_result r = ''EXECUTED''"

definition readAuthority :: "string \<Rightarrow> (D1, AuthorityRecord option) proc" where
  "readAuthority authority_id =
     fetch (\<lambda>db. map_option (\<lambda>row.
       \<lparr>au_authority_id = js_String_or (ar_authority_id row) [],
        au_lineage_hash = js_String_or (ar_delegation_lineage_hash row) [],
        au_valid_from = js_String_or (ar_created_at row) [],
        au_valid_until =
          (if js_truthy (ar_expiry row) \<and> js_String (ar_expiry row) \<noteq> ''UNLIMITED'' \<and> js_String (ar_expiry row) \<noteq> []
           then Some (js_String (ar_expiry row)) else None),
        au_revoked = (js_String_or (ar_status row) [] = ''CONSUMED'' \<or> js_String_or (ar_status row) [] = ''REVOKED'')\<rparr>)
       (lookup_row ar_authority_id (JStr authority_id) (authority_registry db)))"

definition d1_isNonceUnused :: "string \<Rightarrow> (D1, bool) proc" where
  "d1_isNonceUnused replay_nonce =
     fetch (\<lambda>db. lookup_row nr_nonce replay_nonce (govern_nonce_registry db) = None)"

definition continuity_nonce_row :: "string \<Rightarrow> string \<Rightarrow> string \<Rightarrow> NonceRow" where
  "continuity_nonce_row replay_nonce decision_id now =
     \<lparr>nr_nonce = replay_nonce, nr_nonce_domain = ''continuity-core'',
      nr_candidate_hash = decision_id, nr_created_at = now\<rparr>"

definition d1_markNonceConsumed :: "string \<Rightarrow> string \<Rightarrow> string \<Rightarrow> (D1, AppendResult) proc" where
  "d1_markNonceConsumed now replay_nonce decision_id =
     atomically (\<lambda>db.
       let (t, changes) = insert_or_ignore nonce_key (continuity_nonce_row replay_nonce decision_id now)
                            (govern_nonce_registry db)
       in (db\<lparr>govern_nonce_registry := t\<rparr>,
           if changes > 0 then APPENDED replay_nonce decision_id else ALREADY_EXISTS replay_nonce decision_id))"

definition opt_js :: "string option \<Rightarrow> jsval" where
  "opt_js x = (case x of Some s \<Rightarrow> JStr s | None \<Rightarrow> JNull)"

definition lineage_node_js :: "LineageNode \<Rightarrow> jsval" where
  "lineage_node_js n = JObj
     [(''node_id'', JStr (ln_node_id n)), (''parent_id'', opt_js (ln_parent_id n)),
      (''canonical_hash'', JStr (ln_canonical_hash n)), (''depth'', JNum (NInt (ln_depth n)))]"

text \<open>\<^verbatim>\<open>row.parent_id ? String(row.parent_id) : null\<close> reads an empty parent as null.\<close>

definition stored_node :: "LineageNode \<Rightarrow> LineageNode" where
  "stored_node n = n\<lparr>ln_parent_id := (if ln_parent_id n = Some [] then None else ln_parent_id n)\<rparr>"

definition readLineageNode :: "string \<Rightarrow> (D1, LineageNode StorageReadResult) proc" where
  "readLineageNode node_id =
     fetch (\<lambda>db. case lookup_row lineage_key node_id (lineage_registry db) of
       None \<Rightarrow> SR_NOT_FOUND
     | Some row \<Rightarrow>
         (let record = stored_node (lr_node row)
          in SR_FOUND record (sha256Hex (canonicalize (lineage_node_js record)))))"

definition d1_appendLineageNode :: "string \<Rightarrow> LineageNode \<Rightarrow> (D1, AppendResult) proc" where
  "d1_appendLineageNode now node =
     atomically (\<lambda>db.
       let (t, changes) = insert_or_ignore lineage_key \<lparr>lr_node = node, lr_created_at = now\<rparr> (lineage_registry db);
           hash = sha256Hex (canonicalize (lineage_node_js node))
       in (db\<lparr>lineage_registry := t\<rparr>,
           if changes > 0 then APPENDED (ln_node_id node) hash else ALREADY_EXISTS (ln_node_id node) hash))"

definition insert_proof :: "string \<Rightarrow> AdapterProofReceipt \<Rightarrow> D1 \<Rightarrow> D1 option" where
  "insert_proof now receipt db =
     (if \<not> receipt_storable receipt then None
      else map_option (\<lambda>t. db\<lparr>adapter_proof_registry := t\<rparr>)
             (insert_unique proof_key \<lparr>pw_receipt = receipt, pw_created_at = now\<rparr> (adapter_proof_registry db)))"

definition appendProofReceipt :: "string \<Rightarrow> AdapterProofReceipt \<Rightarrow> (D1, d1_error + AppendResult) proc" where
  "appendProofReceipt now receipt =
     proc_bind (fetch (\<lambda>db. lookup_row proof_key (pr_receipt_id receipt) (adapter_proof_registry db))) (\<lambda>existing.
     if existing \<noteq> None then Ret (Inr (REJECTED ''duplicate_receipt_id''))
     else atomically (\<lambda>db. case insert_proof now receipt db of
         None \<Rightarrow> (db, Inl ConstraintFailed)
       | Some db' \<Rightarrow> (db', Inr (APPENDED (pr_receipt_id receipt) (pr_validated_object_hash receipt)))))"

text \<open>The three statements of the batch, in order; a failing statement rolls all back.\<close>

definition commit_batch :: "string \<Rightarrow> ValidExecutionCommit \<Rightarrow> D1 \<Rightarrow> D1 \<times> (d1_error + AppendResult)" where
  "commit_batch now rec db =
     (let (nt, nonceChanges) =
            insert_or_ignore nonce_key (continuity_nonce_row (vc_replay_nonce rec) (vc_decision_id rec) now)
              (govern_nonce_registry db);
          (lt, lineageChanges) =
            insert_or_ignore lineage_key \<lparr>lr_node = vc_lineage_node rec, lr_created_at = now\<rparr> (lineage_registry db);
          receipt = vc_proof_receipt rec
      in case insert_proof now receipt (db\<lparr>govern_nonce_registry := nt, lineage_registry := lt\<rparr>) of
           None \<Rightarrow> (db, Inl ConstraintFailed)
         | Some db' \<Rightarrow>
             (db', Inr (if nonceChanges = 0 \<and> lineageChanges = 0
                        then ALREADY_EXISTS (pr_receipt_id receipt) (pr_validated_object_hash receipt)
                        else APPENDED (pr_receipt_id receipt) (pr_validated_object_hash receipt))))"

definition commitValidatedExecution :: "string \<Rightarrow> ValidExecutionCommit \<Rightarrow> (D1, d1_error + AppendResult) proc" where
  "commitValidatedExecution now rec =
     proc_bind (fetch (\<lambda>db. lookup_row proof_key (pr_receipt_id (vc_proof_receipt rec)) (adapter_proof_registry db)))
       (\<lambda>existingProof.
          if existingProof \<noteq> None then Ret (Inr (REJECTED ''duplicate_receipt_id''))
          else atomically (commit_batch now rec))"

definition D1RegistryAdapter_replay :: "string \<Rightarrow> D1 ReplayRegistryPort" where
  "D1RegistryAdapter_replay now =
     \<lparr>isNonceUnused = d1_isNonceUnused, markNonceConsumed = d1_markNonceConsumed now\<rparr>"

section \<open>The registries only grow\<close>

definition grows :: "('r \<Rightarrow> 'k) \<Rightarrow> 'r list \<Rightarrow> 'r list \<Rightarrow> bool" where
  "grows key t t' \<longleftrightarrow> prefix t t' \<and> (distinct (map key t) \<longrightarrow> distinct (map key t'))"

lemma grows_refl [simp]: "grows key t t"
  by (simp add: grows_def)

lemma grows_trans: "grows key t t' \<Longrightarrow> grows key t' t'' \<Longrightarrow> grows key t t''"
  by (auto simp: grows_def)

lemma grows_insert_or_ignore [simp]: "grows key t (fst (insert_or_ignore key r t))"
  by (simp add: grows_def insert_or_ignore_grows insert_or_ignore_distinct)

lemma grows_insert_unique: "insert_unique key r t = Some t' \<Longrightarrow> grows key t t'"
  by (simp add: grows_def insert_unique_grows insert_unique_distinct)

definition d1_step :: "D1 \<Rightarrow> D1 \<Rightarrow> bool" where
  "d1_step db db' \<longleftrightarrow>
     authority_registry db' = authority_registry db \<and>
     grows nonce_key (govern_nonce_registry db) (govern_nonce_registry db') \<and>
     grows lineage_key (lineage_registry db) (lineage_registry db') \<and>
     grows proof_key (adapter_proof_registry db) (adapter_proof_registry db')"

lemma d1_step_refl: "d1_step db db"
  by (simp add: d1_step_def)

lemma d1_step_trans: "d1_step a b \<Longrightarrow> d1_step b c \<Longrightarrow> d1_step a c"
  by (auto simp: d1_step_def intro: grows_trans)

interpretation d1_proofs: append_only adapter_proof_registry proof_key d1_step
  by unfold_locales (auto simp: d1_step_def grows_def intro: grows_trans)

interpretation d1_lineage: append_only lineage_registry lineage_key d1_step
  by unfold_locales (auto simp: d1_step_def grows_def intro: grows_trans)

interpretation d1_nonces: append_only govern_nonce_registry nonce_key d1_step
  by unfold_locales (auto simp: d1_step_def grows_def intro: grows_trans)

lemma insert_proof_step: "insert_proof now r db = Some db' \<Longrightarrow> d1_step db db'"
  by (auto simp: insert_proof_def d1_step_def intro: grows_insert_unique split: if_splits)

lemma commit_batch_step: "d1_step db (fst (commit_batch now rec db))"
proof -
  let ?n = "insert_or_ignore nonce_key (continuity_nonce_row (vc_replay_nonce rec) (vc_decision_id rec) now)
              (govern_nonce_registry db)"
  let ?l = "insert_or_ignore lineage_key \<lparr>lr_node = vc_lineage_node rec, lr_created_at = now\<rparr> (lineage_registry db)"
  let ?db = "db\<lparr>govern_nonce_registry := fst ?n, lineage_registry := fst ?l\<rparr>"
  have "d1_step db ?db" by (simp add: d1_step_def)
  then show ?thesis
    by (auto simp: commit_batch_def Let_def case_prod_unfold d1_step_refl split: option.splits
             intro: d1_step_trans insert_proof_step)
qed

lemma guar_d1_ops:
  "guar d1_step (d1_isNonceUnused n)" "guar d1_step (d1_markNonceConsumed now n d)"
  "guar d1_step (readLineageNode i)" "guar d1_step (d1_appendLineageNode now node)"
  "guar d1_step (appendProofReceipt now r)" "guar d1_step (commitValidatedExecution now rec)"
  "guar d1_step (readAuthority a)"
proof -
  show "guar d1_step (d1_isNonceUnused n)" "guar d1_step (readLineageNode i)" "guar d1_step (readAuthority a)"
    by (simp_all add: d1_isNonceUnused_def readLineageNode_def readAuthority_def guar_fetch d1_step_refl)
  show "guar d1_step (d1_markNonceConsumed now n d)" "guar d1_step (d1_appendLineageNode now node)"
    unfolding d1_markNonceConsumed_def d1_appendLineageNode_def
    by (auto intro!: guar_atomically simp: Let_def case_prod_unfold d1_step_def)
  show "guar d1_step (appendProofReceipt now r)"
    unfolding appendProofReceipt_def
    by (auto intro!: guar_bind guar_fetch guar_atomically d1_step_refl simp: insert_proof_step
             split: option.splits)
  show "guar d1_step (commitValidatedExecution now rec)"
    unfolding commitValidatedExecution_def
    by (auto intro!: guar_bind guar_fetch guar_atomically d1_step_refl commit_batch_step)
qed

text \<open>A call of the adapter, as one of several concurrent programs.\<close>

datatype d1_call =
    Call_isNonceUnused string
  | Call_markNonceConsumed string string string
  | Call_appendLineageNode string LineageNode
  | Call_appendProofReceipt string AdapterProofReceipt
  | Call_commitValidatedExecution string ValidExecutionCommit

fun d1_program :: "d1_call \<Rightarrow> (D1, d1_error + AppendResult) proc" where
  "d1_program (Call_isNonceUnused n) =
     proc_bind (d1_isNonceUnused n) (\<lambda>b. Ret (Inr (if b then APPENDED n [] else REJECTED n)))"
| "d1_program (Call_markNonceConsumed now n d) = proc_bind (d1_markNonceConsumed now n d) (\<lambda>r. Ret (Inr r))"
| "d1_program (Call_appendLineageNode now node) = proc_bind (d1_appendLineageNode now node) (\<lambda>r. Ret (Inr r))"
| "d1_program (Call_appendProofReceipt now r) = appendProofReceipt now r"
| "d1_program (Call_commitValidatedExecution now rec) = commitValidatedExecution now rec"

lemma guar_d1_program: "guar d1_step (d1_program c)"
  by (cases c) (auto intro!: guar_bind guar_d1_ops)

section \<open>The replay port\<close>

text \<open>
  The client's protocol: test, act, consume, and the outcome of a sequence of such uses run one
  after another.
\<close>

definition use_nonce :: "'s ReplayRegistryPort \<Rightarrow> string \<times> string \<Rightarrow> ('s, bool) proc" where
  "use_nonce port nd = proc_bind (isNonceUnused port (fst nd)) (\<lambda>ok.
     if ok then proc_bind (markNonceConsumed port (fst nd) (snd nd)) (\<lambda>_. Ret True) else Ret False)"

primrec use_all :: "'s ReplayRegistryPort \<Rightarrow> (string \<times> string) list \<Rightarrow> 's \<Rightarrow> bool list" where
  "use_all port [] s = []"
| "use_all port (nd # nds) s = (case run (use_nonce port nd) s of (s', ok) \<Rightarrow> ok # use_all port nds s')"

text \<open>
  What \<^verbatim>\<open>storage-adapter.ts\<close> documents of a \<^verbatim>\<open>ReplayRegistryPort\<close>: the test answers whether the
  nonce was never consumed and changes nothing, consuming consumes, and consumption is final.
\<close>

locale replay_registry_port =
  fixes port :: "'s ReplayRegistryPort" and consumed :: "'s \<Rightarrow> string \<Rightarrow> bool"
  assumes unused: "run (isNonceUnused port n) s = (s, \<not> consumed s n)"
    and mark_consumes: "consumed (fst (run (markNonceConsumed port n d) s)) n"
    and mark_keeps: "consumed s m \<Longrightarrow> consumed (fst (run (markNonceConsumed port n d) s)) m"
begin

lemma use_nonce_run:
  "run (use_nonce port nd) s =
     (if consumed s (fst nd) then (s, False) else (fst (run (markNonceConsumed port (fst nd) (snd nd)) s), True))"
  by (simp add: use_nonce_def unused case_prod_unfold)

lemma use_all_consumed:
  "consumed s n \<Longrightarrow> (nd, True) \<in> set (zip nds (use_all port nds s)) \<Longrightarrow> fst nd \<noteq> n"
proof (induction nds arbitrary: s)
  case (Cons x nds)
  then show ?case by (auto simp: use_nonce_run split: if_splits) (metis mark_keeps)+
qed simp

lemma use_all_distinct:
  "distinct (map (\<lambda>p. fst (fst p)) (filter snd (zip nds (use_all port nds s))))"
proof (induction nds arbitrary: s)
  case (Cons x nds)
  show ?case
  proof (cases "consumed s (fst x)")
    case False
    let ?s' = "fst (run (markNonceConsumed port (fst x) (snd x)) s)"
    have "fst nd \<noteq> fst x" if "(nd, True) \<in> set (zip nds (use_all port nds ?s'))" for nd
      using use_all_consumed [OF mark_consumes that] .
    then show ?thesis using Cons.IH [of ?s'] False by (force simp: use_nonce_run)
  qed (use Cons.IH in \<open>simp add: use_nonce_run\<close>)
qed simp

end

definition d1_consumed :: "D1 \<Rightarrow> string \<Rightarrow> bool" where
  "d1_consumed db n \<longleftrightarrow> n \<in> nr_nonce ` set (govern_nonce_registry db)"

lemma d1_isNonceUnused_run [run_simps]: "run (d1_isNonceUnused n) db = (db, \<not> d1_consumed db n)"
  by (simp add: d1_isNonceUnused_def lookup_row_None d1_consumed_def)

lemma d1_markNonceConsumed_run [run_simps]:
  "run (d1_markNonceConsumed now n d) db =
     (let t = insert_or_ignore nonce_key (continuity_nonce_row n d now) (govern_nonce_registry db)
      in (db\<lparr>govern_nonce_registry := fst t\<rparr>,
          if snd t > 0 then APPENDED n d else ALREADY_EXISTS n d))"
  by (simp add: d1_markNonceConsumed_def Let_def case_prod_unfold)

lemma d1_mark_consumes: "d1_consumed (fst (run (d1_markNonceConsumed now n d) db)) n"
proof -
  have "nonce_key (continuity_nonce_row n d now) \<in> nonce_key `
      set (fst (insert_or_ignore nonce_key (continuity_nonce_row n d now) (govern_nonce_registry db)))"
    by (rule insert_or_ignore_has)
  then show ?thesis
    by (force simp: d1_markNonceConsumed_run Let_def d1_consumed_def nonce_key_def continuity_nonce_row_def)
qed

lemma d1_step_consumed: "d1_step db db' \<Longrightarrow> d1_consumed db n \<Longrightarrow> d1_consumed db' n"
  by (auto simp: d1_step_def grows_def d1_consumed_def prefix_def)

interpretation d1_replay: replay_registry_port "D1RegistryAdapter_replay now" d1_consumed for now
proof
  fix n d db m
  show "run (isNonceUnused (D1RegistryAdapter_replay now) n) db = (db, \<not> d1_consumed db n)"
    by (simp add: D1RegistryAdapter_replay_def d1_isNonceUnused_run)
  show "d1_consumed (fst (run (markNonceConsumed (D1RegistryAdapter_replay now) n d) db)) n"
    by (simp add: D1RegistryAdapter_replay_def d1_mark_consumes)
  show "d1_consumed (fst (run (markNonceConsumed (D1RegistryAdapter_replay now) n d) db)) m"
    if "d1_consumed db m"
    using that d1_step_consumed [OF d1_proofs.guar_run [OF guar_d1_ops(2)]]
    by (simp add: D1RegistryAdapter_replay_def)
qed

section \<open>Commit\<close>

lemma insert_proof_None:
  "insert_proof now r db = None \<longleftrightarrow>
     \<not> receipt_storable r \<or> pr_receipt_id r \<in> proof_key ` set (adapter_proof_registry db)"
  by (auto simp: insert_proof_def insert_unique_def proof_key_def)

lemma commitValidatedExecution_run:
  "run (commitValidatedExecution now rec) db =
     (if pr_receipt_id (vc_proof_receipt rec) \<in> proof_key ` set (adapter_proof_registry db)
      then (db, Inr (REJECTED ''duplicate_receipt_id'')) else commit_batch now rec db)"
  by (simp add: commitValidatedExecution_def lookup_row_None del: not_None_eq)

section \<open>Properties\<close>

text \<open>
  C26. The D1 registries are append-only under every interleaving: however the accesses of any
  number of concurrent calls of the adapter are interleaved, no nonce, lineage or proof row is
  changed or removed, a nonce that was consumed stays consumed, and receipt ids and lineage
  node ids stay unique.
\<close>

theorem d1_registries_append_only:
  assumes "scheds (db, map d1_program calls) (db', ps)"
  shows "prefix (adapter_proof_registry db) (adapter_proof_registry db') \<and>
     prefix (lineage_registry db) (lineage_registry db') \<and>
     prefix (govern_nonce_registry db) (govern_nonce_registry db') \<and>
     (\<forall>n. d1_consumed db n \<longrightarrow> d1_consumed db' n) \<and>
     (distinct (map proof_key (adapter_proof_registry db)) \<longrightarrow>
        distinct (map proof_key (adapter_proof_registry db'))) \<and>
     (distinct (map lineage_key (lineage_registry db)) \<longrightarrow>
        distinct (map lineage_key (lineage_registry db')))"
proof -
  have G: "\<forall>p\<in>set (snd (db, map d1_program calls)). guar d1_step p"
    by (simp add: guar_d1_program)
  have "d1_step db db'"
    using d1_proofs.guar_scheds [OF assms G] by simp
  then show ?thesis
    using d1_step_consumed [of db db'] by (simp add: d1_step_def grows_def)
qed

theorem d1_registries_append_only_witness:
  "let db = \<lparr>authority_registry = [], govern_nonce_registry = [], lineage_registry = [], adapter_proof_registry = []\<rparr>;
       c' = sched_run [0, 1] (db, map d1_program [Call_isNonceUnused ''n'', Call_markNonceConsumed ''t'' ''n'' ''d''])
   in scheds (db, map d1_program [Call_isNonceUnused ''n'', Call_markNonceConsumed ''t'' ''n'' ''d'']) c' \<and>
      d1_consumed (fst c') ''n'' \<and> prefix (govern_nonce_registry db) (govern_nonce_registry (fst c'))"
proof -
  let ?db = "\<lparr>authority_registry = [], govern_nonce_registry = [], lineage_registry = [], adapter_proof_registry = []\<rparr>"
  let ?c = "(?db, map d1_program [Call_isNonceUnused ''n'', Call_markNonceConsumed ''t'' ''n'' ''d''])"
  let ?c' = "sched_run [0, 1] ?c"
  have S: "scheds ?c ?c'" by (rule sched_run_scheds)
  have "d1_consumed (fst ?c') ''n''"
    by (simp add: d1_isNonceUnused_def d1_markNonceConsumed_def fetch_def atomically_def Let_def
        insert_or_ignore_def d1_consumed_def continuity_nonce_row_def)
  with S d1_registries_append_only [of ?db _ "fst ?c'" "snd ?c'"] show ?thesis by simp
qed

text \<open>
  A sequence of test-and-consume uses of the D1 replay port, run one after another, grants
  every nonce at most once.
\<close>

theorem d1_replay_port_grants_once:
  "distinct (map (\<lambda>p. fst (fst p)) (filter snd (zip nds (use_all (D1RegistryAdapter_replay now) nds db))))"
  by (rule d1_replay.use_all_distinct)


definition sample_commit :: ValidExecutionCommit where
  "sample_commit =
     \<lparr>vc_replay_nonce = ''n'', vc_decision_id = ''d'',
      vc_lineage_node = \<lparr>ln_node_id = ''l1'', ln_parent_id = None, ln_canonical_hash = ''h'', ln_depth = 0\<rparr>,
      vc_proof_receipt =
        \<lparr>pr_receipt_id = ''r1'', pr_validated_object_hash = ''h'', pr_executed_object_hash = ''h'',
         pr_execution_evidence_hash = ''e'', pr_adapter_surface = JStr ''d1'', pr_decision_id = JStr ''d'',
         pr_replay_nonce = JStr ''n'', pr_execution_result = ''EXECUTED'', pr_creates_authority = False,
         pr_emitted_at = ''t'', pr_lineage = None\<rparr>\<rparr>"

definition empty_d1 :: D1 where
  "empty_d1 = \<lparr>authority_registry = [], govern_nonce_registry = [], lineage_registry = [], adapter_proof_registry = []\<rparr>"


text \<open>
  The commit does not look at the nonce: with a nonce that is already consumed, a storable
  new receipt and a new lineage node it answers \<^verbatim>\<open>APPENDED\<close>; and when the lineage node exists
  too it answers \<^verbatim>\<open>ALREADY_EXISTS\<close> although it has appended the receipt.
\<close>

theorem commit_accepts_consumed_nonce:
  assumes "(vc_replay_nonce rec, ''continuity-core'') \<in> nonce_key ` set (govern_nonce_registry db)"
    and "receipt_storable (vc_proof_receipt rec)"
    and "pr_receipt_id (vc_proof_receipt rec) \<notin> proof_key ` set (adapter_proof_registry db)"
  shows "snd (run (commitValidatedExecution now rec) db) =
       Inr ((if ln_node_id (vc_lineage_node rec) \<in> lineage_key ` set (lineage_registry db)
             then ALREADY_EXISTS else APPENDED)
            (pr_receipt_id (vc_proof_receipt rec)) (pr_validated_object_hash (vc_proof_receipt rec))) \<and>
     length (adapter_proof_registry (fst (run (commitValidatedExecution now rec) db))) =
       Suc (length (adapter_proof_registry db))"
proof -
  have "nonce_key (continuity_nonce_row (vc_replay_nonce rec) (vc_decision_id rec) now)
      = (vc_replay_nonce rec, ''continuity-core'')"
    by (simp add: nonce_key_def continuity_nonce_row_def)
  with assms show ?thesis
    by (auto simp: commitValidatedExecution_run commit_batch_def Let_def insert_or_ignore_def
        insert_proof_def insert_unique_def proof_key_def lineage_key_def)
qed

theorem commit_accepts_consumed_nonce_witness:
  "let db = empty_d1\<lparr>govern_nonce_registry := [continuity_nonce_row ''n'' ''other'' ''t0'']\<rparr> in
   d1_consumed db ''n'' \<and>
   snd (run (commitValidatedExecution ''t'' sample_commit) db) = Inr (APPENDED ''r1'' ''h'')"
proof -
  let ?db = "empty_d1\<lparr>govern_nonce_registry := [continuity_nonce_row ''n'' ''other'' ''t0'']\<rparr>"
  have "snd (run (commitValidatedExecution ''t'' sample_commit) ?db) = Inr (APPENDED ''r1'' ''h'')"
    using commit_accepts_consumed_nonce [of sample_commit ?db "''t''"]
    by (simp add: sample_commit_def empty_d1_def nonce_key_def continuity_nonce_row_def receipt_storable_def)
  then show ?thesis by (simp add: d1_consumed_def continuity_nonce_row_def)
qed

end
