(* ===== verification/Filesystem_Gateway.thy ===== *)
theory Filesystem_Gateway
  imports Filesystem_Validator Storage
begin

text \<open>
  The governed write: \<^verbatim>\<open>src/lib/filesystem-write-gateway.ts\<close> (capture of the agent's proposal,
  compilation of the AEO, the older boundary \<^verbatim>\<open>executeFilesystemWrite\<close>),
  \<^verbatim>\<open>src/lib/compile-canonical-aeo.ts\<close> (projection to the canonical AEO) and
  \<^verbatim>\<open>src/lib/filesystem-write-runtime-gateway.ts\<close> (\<^verbatim>\<open>runFilesystemWriteGatewayAction\<close>, the
  eight stages). The gateway is an asynchronous program over the registries \<open>'s\<close>; the writer is
  synchronous and works on a world \<open>'w\<close> of its own, passed explicitly.
\<close>

section \<open>Capture\<close>

record FilesystemWriteATAO =
  at_atao_id :: string
  at_agent_id :: string
  at_session_id :: string
  at_intent :: string
  at_path :: string
  at_content :: string
  at_repo :: string
  at_root :: string
  at_timestamp :: string

text \<open>The body whose hash is the id; the constant fields of the type are written here.\<close>

definition ataoBody :: "FilesystemWriteATAO \<Rightarrow> jsval" where
  "ataoBody a = JObj
     [(''agent_id'', JStr (at_agent_id a)), (''session_id'', JStr (at_session_id a)),
      (''intent'', JStr (at_intent a)),
      (''proposed_action'', JObj
         [(''system'', JStr ''filesystem''), (''action'', JStr ''write_file''),
          (''parameters'', JObj [(''path'', JStr (at_path a)), (''content'', JStr (at_content a))])]),
      (''scope'', JObj [(''repo'', JStr (at_repo a)), (''root'', JStr (at_root a))]),
      (''risk_class'', JStr ''P2''), (''timestamp'', JStr (at_timestamp a)),
      (''creates_authority'', JBool False), (''creates_execution_eligibility'', JBool False)]"

text \<open>\<^verbatim>\<open>isNonBlankString(v.k)\<close>, with the string.\<close>

definition nonblank_field :: "jsval \<Rightarrow> string \<Rightarrow> string option" where
  "nonblank_field v k = (case js_get v k of JStr s \<Rightarrow> if nonblank s then Some s else None | _ \<Rightarrow> None)"

definition captureFilesystemWriteATAO :: "jsval \<Rightarrow> FilesystemWriteATAO option" where
  "captureFilesystemWriteATAO input = do {
     guard (js_truthy input);
     agent_id \<leftarrow> nonblank_field input ''agent_id'';
     session_id \<leftarrow> nonblank_field input ''session_id'';
     intent \<leftarrow> nonblank_field input ''intent'';
     path \<leftarrow> nonblank_field input ''path'';
     content \<leftarrow> as_str (js_get input ''content'');
     repo \<leftarrow> nonblank_field input ''repo'';
     root \<leftarrow> nonblank_field input ''root'';
     timestamp \<leftarrow> nonblank_field input ''timestamp'';
     let atao = \<lparr>at_atao_id = [], at_agent_id = agent_id, at_session_id = session_id, at_intent = intent,
                 at_path = path, at_content = content, at_repo = repo, at_root = root,
                 at_timestamp = timestamp\<rparr>;
     Some (atao\<lparr>at_atao_id := objectHash (ataoBody atao)\<rparr>) }"

section \<open>Compilation\<close>

definition as_arr :: "jsval \<Rightarrow> jsval list option" where
  "as_arr v = (case v of JArr xs \<Rightarrow> Some xs | _ \<Rightarrow> None)"

definition filesystem_write_finality :: FilesystemAEOFinality where
  "filesystem_write_finality =
     \<lparr>ff_proof_required = True, ff_proof_type = ''filesystem_write_execution'',
      ff_expected_result = ''single_bounded_file_mutation'',
      ff_proof_fields = map JStr [''decision_id'', ''aeo_hash'', ''target_path'', ''operation'',
        ''pre_write_hash'', ''post_write_hash'', ''diff_hash'', ''execution_id'', ''timestamp''],
      ff_registry_required = True, ff_reconciliation_required = True,
      ff_replay_state_after_success = ''CONSUMED''\<rparr>"

definition compileFilesystemWriteAEO :: "FilesystemWriteATAO option \<Rightarrow> jsval \<Rightarrow> FilesystemAEO option" where
  "compileFilesystemWriteAEO atao0 binding = do {
     atao \<leftarrow> atao0;
     guard (js_truthy binding);
     decision_id \<leftarrow> nonblank_field binding ''decision_id'';
     alh \<leftarrow> nonblank_field binding ''authority_lineage_hash'';
     policy_id \<leftarrow> nonblank_field binding ''policy_id'';
     policy_hash \<leftarrow> nonblank_field binding ''policy_hash'';
     replay_nonce \<leftarrow> nonblank_field binding ''replay_nonce'';
     pre \<leftarrow> as_str (js_get binding ''pre_write_hash'');
     diff \<leftarrow> as_str (js_get binding ''proposed_diff_hash'');
     ap \<leftarrow> as_arr (js_get binding ''allowed_paths'');
     guard (ap \<noteq> []);
     ao \<leftarrow> as_arr (js_get binding ''allowed_operations'');
     guard (ao \<noteq> []);
     dp \<leftarrow> as_arr (js_get binding ''denied_paths'');
     dops \<leftarrow> as_arr (js_get binding ''denied_operations'');
     mf \<leftarrow> req_num binding ''max_files'';
     md \<leftarrow> req_num binding ''max_diff_lines'';
     Some
       \<lparr>fa_intent = \<lparr>fi_action = ''write_file'', fi_purpose = at_intent atao\<rparr>,
        fa_scope =
          \<lparr>fs_repo = at_repo atao, fs_root = at_root atao, fs_allowed_paths = ap, fs_denied_paths = dp,
           fs_allowed_operations = ao, fs_denied_operations = dops,
           fs_max_files = mf, fs_max_diff_lines = md\<rparr>,
        fa_validation =
          \<lparr>fv_decision_id = decision_id, fv_authority_lineage_hash = alh, fv_policy_id = policy_id,
           fv_policy_hash = policy_hash, fv_canonicalization = ''json-canonical-v1'',
           fv_pre_write_hash = pre, fv_proposed_diff_hash = diff, fv_aeo_hash_required = True,
           fv_replay_nonce = replay_nonce, fv_requires_unused_nonce = True, fv_requires_scope_match = True,
           fv_requires_path_policy_match = True, fv_requires_pre_write_hash_match = True\<rparr>,
        fa_target =
          \<lparr>ft_operation = (if nonblank pre then ''modify'' else ''create''), ft_path = at_path atao,
           ft_normalized_path_required = True, ft_symlink_following_allowed = False\<rparr>,
        fa_finality = filesystem_write_finality\<rparr> }"

section \<open>executeFilesystemWrite\<close>

record FilesystemWriteExecutionProof =
  xp_proof_id :: string
  xp_atao_id :: string
  xp_aeo_hash :: string
  xp_validated_object_hash :: string
  xp_executed_object_hash :: string
  xp_target_surface :: string
  xp_target_path :: string
  xp_target_action :: string
  xp_execution_result :: string
  xp_null_reason :: "string option"
  xp_creates_authority :: bool
  xp_emitted_at :: string

definition proofBody :: "FilesystemWriteExecutionProof \<Rightarrow> jsval" where
  "proofBody p = JObj
     [(''atao_id'', JStr (xp_atao_id p)), (''aeo_hash'', JStr (xp_aeo_hash p)),
      (''validated_object_hash'', JStr (xp_validated_object_hash p)),
      (''executed_object_hash'', JStr (xp_executed_object_hash p)),
      (''target_surface'', JStr (xp_target_surface p)), (''target_path'', JStr (xp_target_path p)),
      (''target_action'', JStr (xp_target_action p)), (''execution_result'', JStr (xp_execution_result p)),
      (''null_reason'', opt_js (xp_null_reason p)), (''creates_authority'', JBool (xp_creates_authority p)),
      (''emitted_at'', JStr (xp_emitted_at p))]"

definition executeFilesystemWrite ::
  "FilesystemAEO option \<Rightarrow> jsval \<Rightarrow> FilesystemWriteATAO option \<Rightarrow> (string \<Rightarrow> string \<Rightarrow> 'w \<Rightarrow> 'w) option \<Rightarrow> jsval
   \<Rightarrow> 'w \<Rightarrow> 'w \<times> FilesystemWriteExecutionProof option" where
  "executeFilesystemWrite aeo0 validated_object_hash atao0 executor0 emitted_at w =
     (case (aeo0, atao0, executor0) of
        (Some aeo, Some atao, Some executor) \<Rightarrow>
          if \<not> isNonBlankString validated_object_hash \<or> \<not> isNonBlankString emitted_at then (w, None)
          else
            let recomputed = computeFilesystemAEOHash aeo;
                hashMatch = (JStr recomputed = validated_object_hash);
                targetPath = ft_path (fa_target aeo);
                p = \<lparr>xp_proof_id = [], xp_atao_id = at_atao_id atao, xp_aeo_hash = recomputed,
                     xp_validated_object_hash = str validated_object_hash, xp_executed_object_hash = recomputed,
                     xp_target_surface = ''filesystem'', xp_target_path = targetPath,
                     xp_target_action = ft_operation (fa_target aeo),
                     xp_execution_result = (if hashMatch then ''EXECUTED'' else ''NULL''),
                     xp_null_reason = (if hashMatch then None else Some ''OBJECT_HASH_MISMATCH''),
                     xp_creates_authority = False, xp_emitted_at = str emitted_at\<rparr>
            in (if hashMatch then executor targetPath (at_content atao) w else w,
                Some (p\<lparr>xp_proof_id := objectHash (proofBody p)\<rparr>))
      | _ \<Rightarrow> (w, None))"

section \<open>Projection to the canonical AEO\<close>

record CanonicalAEOFinality =
  cf_authority_id :: string
  cf_proof_required :: bool
  cf_proof_type :: string

record CanonicalAEOIntent =
  ci_authority_id :: string
  ci_value :: string

record CanonicalAEOScope =
  cs_authority_id :: string
  cs_bounds :: "string list"

record CanonicalAEOTarget =
  ct_action :: string
  ct_authority_id :: string
  ct_operation :: string
  ct_path :: string
  ct_system :: string

record CanonicalAEOValidation =
  cv_authority_id :: string
  cv_decision_id :: string
  cv_object_hash :: string
  cv_proposed_diff_hash :: string
  cv_replay_nonce :: string

record CanonicalAEO =
  ca_finality :: CanonicalAEOFinality
  ca_intent :: CanonicalAEOIntent
  ca_scope :: CanonicalAEOScope
  ca_target :: CanonicalAEOTarget
  ca_validation :: CanonicalAEOValidation

text \<open>The run-time object, with the given value of \<^verbatim>\<open>validation.object_hash\<close>.\<close>

definition canonical_aeo_with :: "CanonicalAEO \<Rightarrow> jsval \<Rightarrow> jsval" where
  "canonical_aeo_with c object_hash = JObj
     [(''finality'', JObj
         [(''authority_id'', JStr (cf_authority_id (ca_finality c))),
          (''proof_required'', JBool (cf_proof_required (ca_finality c))),
          (''proof_type'', JStr (cf_proof_type (ca_finality c)))]),
      (''intent'', JObj
         [(''authority_id'', JStr (ci_authority_id (ca_intent c))), (''value'', JStr (ci_value (ca_intent c)))]),
      (''scope'', JObj
         [(''authority_id'', JStr (cs_authority_id (ca_scope c))),
          (''bounds'', JArr (map JStr (cs_bounds (ca_scope c))))]),
      (''target'', JObj
         [(''action'', JStr (ct_action (ca_target c))), (''authority_id'', JStr (ct_authority_id (ca_target c))),
          (''operation'', JStr (ct_operation (ca_target c))), (''path'', JStr (ct_path (ca_target c))),
          (''system'', JStr (ct_system (ca_target c)))]),
      (''validation'', JObj
         [(''authority_id'', JStr (cv_authority_id (ca_validation c))),
          (''decision_id'', JStr (cv_decision_id (ca_validation c))),
          (''object_hash'', object_hash),
          (''proposed_diff_hash'', JStr (cv_proposed_diff_hash (ca_validation c))),
          (''replay_nonce'', JStr (cv_replay_nonce (ca_validation c)))])]"

definition canonical_js :: "CanonicalAEO \<Rightarrow> jsval" where
  "canonical_js c = canonical_aeo_with c (JStr (cv_object_hash (ca_validation c)))"

text \<open>
  The elements of \<^verbatim>\<open>allowed_operations\<close> are printed by a template literal, whatever they are.
\<close>

definition canonical_bounds :: "FilesystemAEO \<Rightarrow> string list" where
  "canonical_bounds aeo =
     (''system:'' @ ''filesystem'') # map (\<lambda>op. ''action:'' @ js_String op) (fs_allowed_operations (fa_scope aeo))"

definition compileCanonicalAEOFromFilesystem ::
  "FilesystemAEO option \<Rightarrow> string + (CanonicalAEO \<times> string \<times> AeoValidationContext)" where
  "compileCanonicalAEOFromFilesystem aeo0 =
     (case aeo0 of None \<Rightarrow> Inl ''NULL_FILESYSTEM_AEO''
      | Some aeo \<Rightarrow>
         (let aid = fv_authority_lineage_hash (fa_validation aeo) in
          if \<not> nonblank aid then Inl ''MISSING_CANONICAL_AUTHORITY_ID''
          else
            let bounds = canonical_bounds aeo;
                c = \<lparr>ca_finality =
                       \<lparr>cf_authority_id = aid, cf_proof_required = ff_proof_required (fa_finality aeo),
                        cf_proof_type = ff_proof_type (fa_finality aeo)\<rparr>,
                     ca_intent = \<lparr>ci_authority_id = aid, ci_value = fi_purpose (fa_intent aeo)\<rparr>,
                     ca_scope = \<lparr>cs_authority_id = aid, cs_bounds = bounds\<rparr>,
                     ca_target =
                       \<lparr>ct_action = ft_operation (fa_target aeo), ct_authority_id = aid,
                        ct_operation = ft_operation (fa_target aeo), ct_path = ft_path (fa_target aeo),
                        ct_system = ''filesystem''\<rparr>,
                     ca_validation =
                       \<lparr>cv_authority_id = aid, cv_decision_id = fv_decision_id (fa_validation aeo),
                        cv_object_hash = [], cv_proposed_diff_hash = fv_proposed_diff_hash (fa_validation aeo),
                        cv_replay_nonce = fv_replay_nonce (fa_validation aeo)\<rparr>\<rparr>;
                object_hash = sha256Hex (canonicalize (canonical_aeo_with c JNull));
                canonical_aeo = c\<lparr>ca_validation := (ca_validation c)\<lparr>cv_object_hash := object_hash\<rparr>\<rparr>
            in Inr (canonical_aeo, objectHash (canonical_js canonical_aeo),
                    \<lparr>expected_authority = aid, maximum_scope = bounds\<rparr>)))"

section \<open>runFilesystemWriteGatewayAction\<close>

record FilesystemWriteIntentInput =
  in_atao_input :: jsval
  in_binding :: jsval

record ('s, 'w) FilesystemWriteKernelContext =
  kc_validator_context :: "'s FilesystemValidatorContext option"
  kc_writer :: "'w FilesystemWriter option"
  kc_replay_registry :: "'s ReplayRegistryPort option"
  kc_emitted_at :: jsval

datatype FilesystemWriteGatewayActionResult =
    G_EXECUTED AdapterProofReceipt string
  | G_EXECUTED_UNCOMMITTED AdapterProofReceipt string
  | G_NULL string string "DenialResult option"

fun null_reason_string :: "AdapterNullReason \<Rightarrow> string" where
  "null_reason_string NULL_AEO_INPUT = ''NULL_AEO_INPUT''"
| "null_reason_string NULL_VALIDATED_HASH = ''NULL_VALIDATED_HASH''"
| "null_reason_string NULL_EXECUTOR = ''NULL_EXECUTOR''"
| "null_reason_string NULL_EMITTED_AT = ''NULL_EMITTED_AT''"
| "null_reason_string AEO_SHAPE_INVALID = ''AEO_SHAPE_INVALID''"
| "null_reason_string OBJECT_HASH_MISMATCH = ''OBJECT_HASH_MISMATCH''"
| "null_reason_string EXECUTOR_RETURNED_NULL = ''EXECUTOR_RETURNED_NULL''"
| "null_reason_string EVIDENCE_MISSING_EXECUTION_ID = ''EVIDENCE_MISSING_EXECUTION_ID''"
| "null_reason_string EVIDENCE_MISSING_EXECUTED_AT = ''EVIDENCE_MISSING_EXECUTED_AT''"
| "null_reason_string EVIDENCE_SURFACE_MISMATCH = ''EVIDENCE_SURFACE_MISMATCH''"
| "null_reason_string EVIDENCE_ADAPTER_SPECIFIC_NULL = ''EVIDENCE_ADAPTER_SPECIFIC_NULL''"
| "null_reason_string NULL_CONTINUITY_CONTEXT = ''NULL_CONTINUITY_CONTEXT''"
| "null_reason_string EXECUTION_NOT_ELIGIBLE = ''EXECUTION_NOT_ELIGIBLE''"
| "null_reason_string STORED_CHAIN_INVALID = ''STORED_CHAIN_INVALID''"

text \<open>The checks on the inputs, before stage 1.\<close>

definition gateway_guards ::
  "FilesystemWriteIntentInput option \<Rightarrow> ('s, 'w) FilesystemWriteKernelContext
   \<Rightarrow> FilesystemWriteGatewayActionResult +
      (FilesystemWriteIntentInput \<times> 's FilesystemValidatorContext \<times> 'w FilesystemWriter \<times> 's ReplayRegistryPort)" where
  "gateway_guards intent0 ctx =
     (case intent0 of None \<Rightarrow> Inl (G_NULL ''capture'' ''NULL_GATEWAY_INPUT'' None)
      | Some intent \<Rightarrow>
     (case kc_validator_context ctx of None \<Rightarrow> Inl (G_NULL ''validate'' ''NULL_VALIDATOR_CONTEXT'' None)
      | Some vctx \<Rightarrow>
     (case kc_writer ctx of None \<Rightarrow> Inl (G_NULL ''execute'' ''NULL_WRITER'' None)
      | Some writer \<Rightarrow>
     (case kc_replay_registry ctx of None \<Rightarrow> Inl (G_NULL ''replay'' ''NULL_REPLAY_REGISTRY'' None)
      | Some port \<Rightarrow>
          if \<not> isNonBlankString (kc_emitted_at ctx) then Inl (G_NULL ''capture'' ''NULL_EMITTED_AT'' None)
          else Inr (intent, vctx, writer, port)))))"

text \<open>Stages 1 to 4: capture, compile, project, validate canonically. All are pure.\<close>

definition gateway_prepare ::
  "FilesystemWriteIntentInput
   \<Rightarrow> FilesystemWriteGatewayActionResult + (FilesystemWriteATAO \<times> FilesystemAEO \<times> CanonicalAEO \<times> string)" where
  "gateway_prepare intent =
     (case captureFilesystemWriteATAO (in_atao_input intent) of
        None \<Rightarrow> Inl (G_NULL ''capture'' ''ATAO_CAPTURE_FAILED'' None)
      | Some atao \<Rightarrow>
     (case compileFilesystemWriteAEO (Some atao) (in_binding intent) of
        None \<Rightarrow> Inl (G_NULL ''compile'' ''AEO_COMPILE_FAILED'' None)
      | Some aeo \<Rightarrow>
     (case compileCanonicalAEOFromFilesystem (Some aeo) of
        Inl reason \<Rightarrow> Inl (G_NULL ''canonical'' reason None)
      | Inr (canonical_aeo, canonical_aeo_hash, context) \<Rightarrow>
          if validateAeo (canonical_js canonical_aeo) context \<noteq> AEO_VALID
          then Inl (G_NULL ''canonical'' ''CANONICAL_VALIDATION_NULL'' None)
          else Inr (atao, aeo, canonical_aeo, canonical_aeo_hash))))"

text \<open>Stages 7 and 8: the execution boundary and the consumption of the nonce.\<close>

definition gateway_commit ::
  "'s ReplayRegistryPort \<Rightarrow> string \<Rightarrow> string \<Rightarrow> 'w \<times> (js_error + AdapterExecutionOutcome)
   \<Rightarrow> ('s, 'w \<times> (js_error + FilesystemWriteGatewayActionResult)) proc" where
  "gateway_commit port replay_nonce atao_id wo =
     (case wo of
        (w', Inl e) \<Rightarrow> Ret (w', Inl e)
      | (w', Inr (AO_null r reasons)) \<Rightarrow> Ret (w', Inr (G_NULL ''execute'' (null_reason_string r) None))
      | (w', Inr (AO_receipt receipt)) \<Rightarrow>
          proc_bind (markNonceConsumed port replay_nonce (str (pr_decision_id receipt))) (\<lambda>commitResult.
            Ret (w', Inr (case commitResult of
                            REJECTED _ \<Rightarrow> G_EXECUTED_UNCOMMITTED receipt atao_id
                          | _ \<Rightarrow> G_EXECUTED receipt atao_id))))"

definition runFilesystemWriteGatewayAction ::
  "FilesystemWriteIntentInput option \<Rightarrow> ('s, 'w) FilesystemWriteKernelContext \<Rightarrow> 'w
   \<Rightarrow> ('s, 'w \<times> (js_error + FilesystemWriteGatewayActionResult)) proc" where
  "runFilesystemWriteGatewayAction intent0 ctx w =
     (case gateway_guards intent0 ctx of
        Inl r \<Rightarrow> Ret (w, Inr r)
      | Inr (intent, vctx, writer, port) \<Rightarrow>
     (case gateway_prepare intent of
        Inl r \<Rightarrow> Ret (w, Inr r)
      | Inr (atao, aeo, canonical_aeo, canonical_aeo_hash) \<Rightarrow>
         (let replay_nonce = cv_replay_nonce (ca_validation canonical_aeo) in
          proc_bind (isNonceUnused port replay_nonce) (\<lambda>nonceUnused.
          if \<not> nonceUnused then Ret (w, Inr (G_NULL ''replay'' ''REPLAY_NONCE_CONSUMED'' None))
          else proc_bind (validateFilesystemAEO (aeo_js aeo) vctx None) (\<lambda>omega.
          case omega of
            V_NULL denial \<Rightarrow> Ret (w, Inr (G_NULL ''validate'' (dn_denial_reason denial) (Some denial)))
          | V_VALID _ \<Rightarrow>
              gateway_commit port replay_nonce (at_atao_id atao)
                (executeFilesystemAdapter (canonical_js canonical_aeo) (JStr canonical_aeo_hash)
                   (at_content atao) writer (kc_emitted_at ctx) w))))))"

section \<open>The canonical projection is always valid\<close>

lemma canonical_aeo_with_get [simp]:
  "js_get (canonical_aeo_with c h) ''validation'' = JObj
     [(''authority_id'', JStr (cv_authority_id (ca_validation c))),
      (''decision_id'', JStr (cv_decision_id (ca_validation c))), (''object_hash'', h),
      (''proposed_diff_hash'', JStr (cv_proposed_diff_hash (ca_validation c))),
      (''replay_nonce'', JStr (cv_replay_nonce (ca_validation c)))]"
  "js_get (canonical_aeo_with c h) ''target'' = JObj
     [(''action'', JStr (ct_action (ca_target c))), (''authority_id'', JStr (ct_authority_id (ca_target c))),
      (''operation'', JStr (ct_operation (ca_target c))), (''path'', JStr (ct_path (ca_target c))),
      (''system'', JStr (ct_system (ca_target c)))]"
  by (simp_all add: canonical_aeo_with_def)

lemma sort_canonical_keys: "sort (js_keys (canonical_aeo_with c h)) = REQUIRED_AEO_FIELDS"
  by (simp add: canonical_aeo_with_def REQUIRED_AEO_FIELDS_def)

lemma json_clone_strings: "map json_clone (map JStr bs) = map JStr bs"
  by (induction bs) simp_all

lemma aeoObjectForHash_canonical:
  "aeoObjectForHash (canonical_aeo_with c (JStr h)) = canonical_aeo_with c JNull"
proof -
  have "json_clone (canonical_aeo_with c (JStr h)) = canonical_aeo_with c (JStr h)"
    using json_clone_strings [of "cs_bounds (ca_scope c)"] by (simp add: canonical_aeo_with_def)
  then show ?thesis by (simp add: aeoObjectForHash_def canonical_aeo_with_def Let_def)
qed

lemma canonical_aeo_with_hash [simp]:
  "canonical_aeo_with (c\<lparr>ca_validation := (ca_validation c)\<lparr>cv_object_hash := h\<rparr>\<rparr>) x = canonical_aeo_with c x"
  by (simp add: canonical_aeo_with_def)

lemma compileCanonical_valid:
  assumes "compileCanonicalAEOFromFilesystem (Some aeo) = Inr (c, h, ctx)"
  shows "h = objectHash (canonical_js c)"
    and "validateAeo (canonical_js c) ctx = AEO_VALID"
    and "ct_system (ca_target c) = ''filesystem''" "ct_path (ca_target c) = ft_path (fa_target aeo)"
    and "cv_replay_nonce (ca_validation c) = fv_replay_nonce (fa_validation aeo)"
    and "cv_decision_id (ca_validation c) = fv_decision_id (fa_validation aeo)"
proof -
  define aid where "aid = fv_authority_lineage_hash (fa_validation aeo)"
  define c0 where "c0 = c\<lparr>ca_validation := (ca_validation c)\<lparr>cv_object_hash := []\<rparr>\<rparr>"
  have A: "nonblank aid" "h = objectHash (canonical_js c)"
    "ctx = \<lparr>expected_authority = aid, maximum_scope = canonical_bounds aeo\<rparr>"
    "cv_object_hash (ca_validation c) = sha256Hex (canonicalize (canonical_aeo_with c JNull))"
    "cs_bounds (ca_scope c) = canonical_bounds aeo"
    "cf_authority_id (ca_finality c) = aid" "ci_authority_id (ca_intent c) = aid"
    "cs_authority_id (ca_scope c) = aid" "ct_authority_id (ca_target c) = aid"
    "cv_authority_id (ca_validation c) = aid"
    using assms by (auto simp: compileCanonicalAEOFromFilesystem_def Let_def aid_def canonical_aeo_with_def
                         split: if_splits)
  show "h = objectHash (canonical_js c)" by (rule A(2))
  show "ct_system (ca_target c) = ''filesystem''" "ct_path (ca_target c) = ft_path (fa_target aeo)"
    "cv_replay_nonce (ca_validation c) = fv_replay_nonce (fa_validation aeo)"
    "cv_decision_id (ca_validation c) = fv_decision_id (fa_validation aeo)"
    using assms by (auto simp: compileCanonicalAEOFromFilesystem_def Let_def split: if_splits)
  have "canonical_bounds aeo \<noteq> []" "list_all nonblank (canonical_bounds aeo)"
    by (auto simp: canonical_bounds_def list_all_iff js_ws_def)
  then have B: "boundsContained (canonical_js c) (canonical_bounds aeo)"
    unfolding boundsContained_iff canonical_js_def
    by (intro exI [of _ "canonical_bounds aeo"]) (simp add: canonical_aeo_with_def A(5))
  have S: "sectionsBound (canonical_js c) aid"
    by (simp add: sectionsBound_def REQUIRED_AEO_FIELDS_def canonical_js_def canonical_aeo_with_def A)
  have "isPlainObject (canonical_js c)" by (simp add: canonical_js_def canonical_aeo_with_def)
  moreover have "hasExactKeys (canonical_js c)"
    by (simp add: hasExactKeys_def canonical_js_def sort_canonical_keys)
  ultimately show "validateAeo (canonical_js c) ctx = AEO_VALID"
    unfolding validateAeo_VALID_iff using B S A(3,4)
    by (simp add: canonical_js_def aeoObjectForHash_canonical)
qed

section \<open>Capture and compilation\<close>

lemma nonblank_field_Some: "nonblank_field v k = Some s \<longleftrightarrow> js_get v k = JStr s \<and> nonblank s"
  by (auto simp: nonblank_field_def split: jsval.splits)

lemma as_str_Some [simp]: "as_str v = Some s \<longleftrightarrow> v = JStr s"
  by (cases v) auto

lemma as_arr_Some [simp]: "as_arr v = Some xs \<longleftrightarrow> v = JArr xs"
  by (cases v) (auto simp: as_arr_def)

lemma ataoBody_id [simp]: "ataoBody (a\<lparr>at_atao_id := x\<rparr>) = ataoBody a"
  by (simp add: ataoBody_def)

lemma capture_Some:
  "captureFilesystemWriteATAO v = Some a \<longleftrightarrow>
     js_truthy v \<and> js_get v ''agent_id'' = JStr (at_agent_id a) \<and> nonblank (at_agent_id a) \<and>
     js_get v ''session_id'' = JStr (at_session_id a) \<and> nonblank (at_session_id a) \<and>
     js_get v ''intent'' = JStr (at_intent a) \<and> nonblank (at_intent a) \<and>
     js_get v ''path'' = JStr (at_path a) \<and> nonblank (at_path a) \<and>
     js_get v ''content'' = JStr (at_content a) \<and>
     js_get v ''repo'' = JStr (at_repo a) \<and> nonblank (at_repo a) \<and>
     js_get v ''root'' = JStr (at_root a) \<and> nonblank (at_root a) \<and>
     js_get v ''timestamp'' = JStr (at_timestamp a) \<and> nonblank (at_timestamp a) \<and>
     at_atao_id a = objectHash (ataoBody a)"
  by (cases a)
     (auto simp: captureFilesystemWriteATAO_def bind_eq_Some_conv nonblank_field_Some Let_def ataoBody_def
           split: if_splits)

lemma if_None_Some: "(if b then x else None) = Some y \<longleftrightarrow> b \<and> x = Some y"
  by simp

lemma compile_Some_all:
  assumes "compileFilesystemWriteAEO (Some atao) b = Some aeo"
  shows "fa_intent aeo = \<lparr>fi_action = ''write_file'', fi_purpose = at_intent atao\<rparr> \<and>
    ft_path (fa_target aeo) = at_path atao \<and>
    (ft_operation (fa_target aeo) = (if nonblank (fv_pre_write_hash (fa_validation aeo)) then ''modify'' else ''create'')) \<and>
    js_get b ''decision_id'' = JStr (fv_decision_id (fa_validation aeo)) \<and>
    js_get b ''authority_lineage_hash'' = JStr (fv_authority_lineage_hash (fa_validation aeo)) \<and>
    js_get b ''policy_id'' = JStr (fv_policy_id (fa_validation aeo)) \<and>
    js_get b ''policy_hash'' = JStr (fv_policy_hash (fa_validation aeo)) \<and>
    js_get b ''replay_nonce'' = JStr (fv_replay_nonce (fa_validation aeo)) \<and>
    js_get b ''pre_write_hash'' = JStr (fv_pre_write_hash (fa_validation aeo)) \<and>
    js_get b ''proposed_diff_hash'' = JStr (fv_proposed_diff_hash (fa_validation aeo)) \<and>
    nonblank (fv_authority_lineage_hash (fa_validation aeo)) \<and>
    nonblank (fv_decision_id (fa_validation aeo)) \<and>
    nonblank (fv_replay_nonce (fa_validation aeo)) \<and>
    fa_finality aeo = filesystem_write_finality"
  using assms
  by (clarsimp simp: compileFilesystemWriteAEO_def bind_eq_Some_conv nonblank_field_Some if_None_Some)

lemmas compile_Some =
  compile_Some_all [THEN conjunct1]
  compile_Some_all [THEN conjunct2, THEN conjunct1]
  compile_Some_all [THEN conjunct2, THEN conjunct2, THEN conjunct1]
  compile_Some_all [THEN conjunct2, THEN conjunct2, THEN conjunct2, THEN conjunct1]
  compile_Some_all [THEN conjunct2, THEN conjunct2, THEN conjunct2, THEN conjunct2, THEN conjunct1]
  compile_Some_all [THEN conjunct2, THEN conjunct2, THEN conjunct2, THEN conjunct2, THEN conjunct2, THEN conjunct1]
  compile_Some_all [THEN conjunct2, THEN conjunct2, THEN conjunct2, THEN conjunct2, THEN conjunct2, THEN conjunct2, THEN conjunct1]
  compile_Some_all [THEN conjunct2, THEN conjunct2, THEN conjunct2, THEN conjunct2, THEN conjunct2, THEN conjunct2, THEN conjunct2, THEN conjunct1]
  compile_Some_all [THEN conjunct2, THEN conjunct2, THEN conjunct2, THEN conjunct2, THEN conjunct2, THEN conjunct2, THEN conjunct2, THEN conjunct2, THEN conjunct1]
  compile_Some_all [THEN conjunct2, THEN conjunct2, THEN conjunct2, THEN conjunct2, THEN conjunct2, THEN conjunct2, THEN conjunct2, THEN conjunct2, THEN conjunct2, THEN conjunct1]
  compile_Some_all [THEN conjunct2, THEN conjunct2, THEN conjunct2, THEN conjunct2, THEN conjunct2, THEN conjunct2, THEN conjunct2, THEN conjunct2, THEN conjunct2, THEN conjunct2, THEN conjunct1]
  compile_Some_all [THEN conjunct2, THEN conjunct2, THEN conjunct2, THEN conjunct2, THEN conjunct2, THEN conjunct2, THEN conjunct2, THEN conjunct2, THEN conjunct2, THEN conjunct2, THEN conjunct2, THEN conjunct1]
  compile_Some_all [THEN conjunct2, THEN conjunct2, THEN conjunct2, THEN conjunct2, THEN conjunct2, THEN conjunct2, THEN conjunct2, THEN conjunct2, THEN conjunct2, THEN conjunct2, THEN conjunct2, THEN conjunct2, THEN conjunct1]
  compile_Some_all [THEN conjunct2, THEN conjunct2, THEN conjunct2, THEN conjunct2, THEN conjunct2, THEN conjunct2, THEN conjunct2, THEN conjunct2, THEN conjunct2, THEN conjunct2, THEN conjunct2, THEN conjunct2, THEN conjunct2]

text \<open>Only the fields of the proposal other than its content enter the compiled object.\<close>

lemma compile_ignores_content:
  assumes "at_intent a = at_intent a'" "at_repo a = at_repo a'" "at_root a = at_root a'" "at_path a = at_path a'"
  shows "compileFilesystemWriteAEO (Some a) b = compileFilesystemWriteAEO (Some a') b"
  by (simp only: compileFilesystemWriteAEO_def Option.bind.simps assms)

lemma gateway_prepare_Inr:
  "gateway_prepare intent = Inr (atao, aeo, c, h) \<longleftrightarrow>
     captureFilesystemWriteATAO (in_atao_input intent) = Some atao \<and>
     compileFilesystemWriteAEO (Some atao) (in_binding intent) = Some aeo \<and>
     (\<exists>ctx. compileCanonicalAEOFromFilesystem (Some aeo) = Inr (c, h, ctx))"
  by (auto simp: gateway_prepare_def compileCanonical_valid split: option.splits sum.splits if_splits prod.splits)

lemma compileCanonical_total:
  "nonblank (fv_authority_lineage_hash (fa_validation aeo)) \<Longrightarrow>
     \<exists>c h ctx. compileCanonicalAEOFromFilesystem (Some aeo) = Inr (c, h, ctx)"
  by (simp add: compileCanonicalAEOFromFilesystem_def Let_def)

lemma gateway_prepare_Inl:
  assumes "gateway_prepare intent = Inl r"
  shows "r \<in> {G_NULL ''capture'' ''ATAO_CAPTURE_FAILED'' None, G_NULL ''compile'' ''AEO_COMPILE_FAILED'' None}"
proof (cases "captureFilesystemWriteATAO (in_atao_input intent)")
  case (Some atao)
  show ?thesis
  proof (cases "compileFilesystemWriteAEO (Some atao) (in_binding intent)")
    case (Some aeo)
    then obtain c h ctx where C: "compileCanonicalAEOFromFilesystem (Some aeo) = Inr (c, h, ctx)"
      using compile_Some(11) compileCanonical_total by metis
    then have "gateway_prepare intent = Inr (atao, aeo, c, h)"
      unfolding gateway_prepare_Inr using Some \<open>captureFilesystemWriteATAO _ = _\<close> by blast
    with assms show ?thesis by simp
  qed (use assms Some in \<open>simp add: gateway_prepare_def\<close>)
qed (use assms in \<open>simp add: gateway_prepare_def\<close>)

section \<open>The execution boundary on a canonical object\<close>

definition write_evidence :: "CanonicalAEO \<Rightarrow> FilesystemWriteResult \<Rightarrow> jsval" where
  "write_evidence c r = JObj
     [(''execution_id'', JStr (fw_execution_id r)), (''executed_at'', JStr (fw_executed_at r)),
      (''adapter_surface'', JStr ''filesystem''),
      (''adapter_specific'', JObj
         [(''bytes_written'', JNum (NInt (fw_bytes_written r))), (''path'', JStr (ct_path (ca_target c))),
          (''operation'', JStr (ct_operation (ca_target c)))])]"

definition gateway_receipt :: "CanonicalAEO \<Rightarrow> string \<Rightarrow> FilesystemWriteResult \<Rightarrow> AdapterProofReceipt" where
  "gateway_receipt c em r =
     ewa_receipt (canonical_js c) (objectHash (canonical_js c)) (write_evidence c r) em None"

lemma canonical_js_get [simp]:
  "js_get (canonical_js c) ''validation'' = js_get (canonical_aeo_with c (JStr (cv_object_hash (ca_validation c)))) ''validation''"
  "js_get (canonical_js c) ''target'' = js_get (canonical_aeo_with c JNull) ''target''"
  by (simp_all add: canonical_js_def)

lemma executeFilesystemAdapter_canonical:
  assumes "ct_system (ca_target c) = ''filesystem''" "ct_path (ca_target c) \<noteq> []" "nonblank em"
  shows "executeFilesystemAdapter (canonical_js c) (JStr (objectHash (canonical_js c))) content writer (JStr em) w =
    (case writer (ct_path (ca_target c)) content w of
       (w', None) \<Rightarrow> (w', Inr (AO_null EXECUTOR_RETURNED_NULL None))
     | (w', Some r) \<Rightarrow> (w', Inr
         (if \<not> nonblank (fw_execution_id r) then AO_null EVIDENCE_MISSING_EXECUTION_ID None
          else if \<not> nonblank (fw_executed_at r) then AO_null EVIDENCE_MISSING_EXECUTED_AT None
          else AO_receipt (gateway_receipt c em r))))"
proof -
  let ?x = "FilesystemExecutionAdapter content writer"
  have "ewa_guards (canonical_js c) (JStr (objectHash (canonical_js c))) (Some ?x) (JStr em) =
      Inr (objectHash (canonical_js c), ?x, em)"
    unfolding ewa_guards_Inr using assms(3) sort_canonical_keys
    by (simp add: hasExactAEOShape_def canonical_js_def ADAPTER_AEO_REQUIRED_KEYS_def REQUIRED_AEO_FIELDS_def)
       (simp add: canonical_aeo_with_def)
  moreover have "ewa_gate (\<lambda>_. None) 0 (canonical_js c) (objectHash (canonical_js c)) None = Inr None"
    by (simp add: ewa_gate_def ewa_lineage_key_def)
  moreover have "execute ?x (canonical_js c) ctx w =
      (case writer (ct_path (ca_target c)) content w of
         (w', None) \<Rightarrow> (w', Inr JNull) | (w', Some r) \<Rightarrow> (w', Inr (write_evidence c r)))" for ctx
    using assms(1,2)
    by (simp add: FilesystemExecutionAdapter_def fs_execute_def FILESYSTEM_ADAPTER_SURFACE_def req_str_def
        write_evidence_def Let_def split: prod.splits option.splits)
  moreover have "ewa_evidence (canonical_js c) (write_evidence c r) =
      Inr (if \<not> nonblank (fw_execution_id r) then Some EVIDENCE_MISSING_EXECUTION_ID
           else if \<not> nonblank (fw_executed_at r) then Some EVIDENCE_MISSING_EXECUTED_AT else None)" for r
    using assms(1) by (simp add: ewa_evidence_def write_evidence_def)
  moreover have "ewa_evidence (canonical_js c) JNull = Inr (Some EXECUTOR_RETURNED_NULL)"
    by (simp add: ewa_evidence_def)
  ultimately show ?thesis
    by (simp add: executeFilesystemAdapter_def executeWithAdapter_def gateway_receipt_def
        split: prod.splits option.splits)
qed

section \<open>The gateway in its environment\<close>

definition kernel ::
  "'s FilesystemValidatorContext \<Rightarrow> 'w FilesystemWriter \<Rightarrow> 's ReplayRegistryPort \<Rightarrow> string
   \<Rightarrow> ('s, 'w) FilesystemWriteKernelContext" where
  "kernel vctx writer port em =
     \<lparr>kc_validator_context = Some vctx, kc_writer = Some writer, kc_replay_registry = Some port,
      kc_emitted_at = JStr em\<rparr>"

text \<open>
  Everything an \<^verbatim>\<open>EXECUTED\<close> outcome implies: the nonce was unused, the compiled object was
  valid in the state the gateway found, the writer was called with the path and content of the
  proposal and succeeded, and the nonce is consumed afterwards.
\<close>

definition executed_facts :: "'s FilesystemValidatorContext \<Rightarrow> 's ReplayRegistryPort \<Rightarrow> ('s \<Rightarrow> string \<Rightarrow> bool)
    \<Rightarrow> FilesystemWriteIntentInput \<Rightarrow> 'w FilesystemWriter \<Rightarrow> string \<Rightarrow> 's \<Rightarrow> 'w \<Rightarrow> 's \<Rightarrow> 'w
    \<Rightarrow> AdapterProofReceipt \<Rightarrow> string \<Rightarrow> bool" where
  "executed_facts vctx port consumed intent writer em s w s' w' r aid \<longleftrightarrow>
     (\<exists>atao aeo c f np fr.
        gateway_prepare intent = Inr (atao, aeo, c, objectHash (canonical_js c)) \<and> aid = at_atao_id atao \<and>
        \<not> consumed s (fv_replay_nonce (fa_validation aeo)) \<and>
        omega_fields (aeo_js aeo) = Some f \<and> omega_authorized vctx f s np \<and>
        omega_fresh vctx (aeo_js aeo) f s np \<and> omega_diff_ok vctx (aeo_js aeo) f s np \<and>
        writer (at_path atao) (at_content atao) w = (w', Some fr) \<and>
        nonblank (fw_execution_id fr) \<and> nonblank (fw_executed_at fr) \<and>
        r = gateway_receipt c em fr \<and>
        s' = fst (run (markNonceConsumed port (fv_replay_nonce (fa_validation aeo)) (fv_decision_id (fa_validation aeo))) s))"

lemma gateway_receipt_decision [simp]:
  "pr_decision_id (gateway_receipt c em fr) = JStr (cv_decision_id (ca_validation c))"
  "pr_replay_nonce (gateway_receipt c em fr) = JStr (cv_replay_nonce (ca_validation c))"
  by (simp_all add: gateway_receipt_def ewa_receipt_def Let_def)

lemma prepared_path:
  assumes "gateway_prepare intent = Inr (atao, aeo, c, h)"
  shows "ct_system (ca_target c) = ''filesystem''" "ct_path (ca_target c) = at_path atao" "at_path atao \<noteq> []"
    "h = objectHash (canonical_js c)" "cv_replay_nonce (ca_validation c) = fv_replay_nonce (fa_validation aeo)"
    "cv_decision_id (ca_validation c) = fv_decision_id (fa_validation aeo)"
  using assms compile_Some(2) [of atao "in_binding intent" aeo] compileCanonical_valid [of aeo c h]
  by (auto simp: gateway_prepare_Inr capture_Some)

lemma prepared_execute:
  assumes "gateway_prepare intent = Inr (atao, aeo, c, h)" and "nonblank em"
  shows "executeFilesystemAdapter (canonical_js c) (JStr h) (at_content atao) writer (JStr em) w =
      (case writer (at_path atao) (at_content atao) w of
       (w', None) \<Rightarrow> (w', Inr (AO_null EXECUTOR_RETURNED_NULL None))
     | (w', Some r) \<Rightarrow> (w', Inr
         (if \<not> nonblank (fw_execution_id r) then AO_null EVIDENCE_MISSING_EXECUTION_ID None
          else if \<not> nonblank (fw_executed_at r) then AO_null EVIDENCE_MISSING_EXECUTED_AT None
          else AO_receipt (gateway_receipt c em r))))"
  using executeFilesystemAdapter_canonical [of c em "at_content atao" writer w] prepared_path [OF assms(1)] assms(2)
  by simp

text \<open>
  What the gateway relies on: a read-only validator context and a replay port that keeps its
  contract. The gateway's own guarantee follows.
\<close>

locale gateway_env =
  readonly_context vctx + replay_registry_port port consumed
  for vctx :: "'s FilesystemValidatorContext" and port :: "'s ReplayRegistryPort"
    and consumed :: "'s \<Rightarrow> string \<Rightarrow> bool"
begin

lemma run_gateway:
  assumes "nonblank em"
  shows "run (runFilesystemWriteGatewayAction (Some intent) (kernel vctx writer port em) w) s =
    (case gateway_prepare intent of
       Inl r \<Rightarrow> (s, w, Inr r)
     | Inr (atao, aeo, c, h) \<Rightarrow>
        (let n = cv_replay_nonce (ca_validation c) in
         if consumed s n then (s, w, Inr (G_NULL ''replay'' ''REPLAY_NONCE_CONSUMED'' None))
         else case observe (validateFilesystemAEO (aeo_js aeo) vctx None) s of
             V_NULL d \<Rightarrow> (s, w, Inr (G_NULL ''validate'' (dn_denial_reason d) (Some d)))
           | V_VALID _ \<Rightarrow>
               run (gateway_commit port n (at_atao_id atao)
                 (executeFilesystemAdapter (canonical_js c) (JStr h) (at_content atao) writer (JStr em) w)) s))"
  using assms
  by (simp add: runFilesystemWriteGatewayAction_def gateway_guards_def kernel_def unused Let_def
      run_readonly [OF readonly_validate] split: sum.splits prod.splits ValidatorResult.splits)

lemma gateway_executed:
  assumes "nonblank em"
    and "run (runFilesystemWriteGatewayAction (Some intent) (kernel vctx writer port em) w) s = (s', w', Inr res)"
    and "res \<in> {G_EXECUTED r aid, G_EXECUTED_UNCOMMITTED r aid}"
  shows "executed_facts vctx port consumed intent writer em s w s' w' r aid"
proof -
  note R = assms(2) [unfolded run_gateway [OF assms(1)]]
  obtain atao aeo c h where P: "gateway_prepare intent = Inr (atao, aeo, c, h)"
  proof (cases "gateway_prepare intent")
    case (Inl x)
    then show ?thesis using R assms(3) gateway_prepare_Inl [OF Inl] by auto
  qed auto
  note pp = prepared_path [OF P]
  from R P assms(3) have nc: "\<not> consumed s (cv_replay_nonce (ca_validation c))"
    by (auto simp: Let_def split: if_splits)
  from R P assms(3) nc obtain vh where V: "observe (validateFilesystemAEO (aeo_js aeo) vctx None) s = V_VALID vh"
    by (auto simp: Let_def split: ValidatorResult.splits)
  then have "run (validateFilesystemAEO (aeo_js aeo) vctx None) s = (s, V_VALID vh)"
    by (simp add: run_readonly [OF readonly_validate])
  then obtain f np where O: "omega_fields (aeo_js aeo) = Some f" "omega_authorized vctx f s np"
    "omega_fresh vctx (aeo_js aeo) f s np" "omega_diff_ok vctx (aeo_js aeo) f s np"
    unfolding validate_VALID_iff by blast
  note E = prepared_execute [OF P assms(1), of writer w]
  obtain wr fr where W: "writer (at_path atao) (at_content atao) w = (wr, Some fr)"
    "nonblank (fw_execution_id fr)" "nonblank (fw_executed_at fr)"
    using R P nc V E assms(3)
    by (auto simp: Let_def gateway_commit_def split: prod.splits option.splits if_splits)
  then have "(s', w', Inr res) = run (gateway_commit port (cv_replay_nonce (ca_validation c)) (at_atao_id atao)
      (wr, Inr (AO_receipt (gateway_receipt c em fr)))) s"
    using R P nc V E by (simp add: Let_def)
  then have "w' = wr" "r = gateway_receipt c em fr" "aid = at_atao_id atao"
    "s' = fst (run (markNonceConsumed port (cv_replay_nonce (ca_validation c)) (cv_decision_id (ca_validation c))) s)"
    using assms(3) by (auto simp: gateway_commit_def case_prod_unfold split: AppendResult.splits)
  then show ?thesis
    unfolding executed_facts_def using P pp nc O W by auto
qed

lemma gateway_uncommitted:
  assumes "nonblank em"
    and "run (runFilesystemWriteGatewayAction (Some intent) (kernel vctx writer port em) w) s =
           (s', w', Inr (G_EXECUTED_UNCOMMITTED r aid))"
  shows "\<exists>n d reason. snd (run (markNonceConsumed port n d) s) = REJECTED reason"
proof (cases "gateway_prepare intent")
  case (Inl x)
  then show ?thesis
    using assms(2) gateway_prepare_Inl [OF Inl] by (auto simp: run_gateway [OF assms(1)])
next
  case (Inr q)
  then show ?thesis
    using assms(2)
    by (auto simp: run_gateway [OF assms(1)] Let_def gateway_commit_def case_prod_unfold
             split: if_splits prod.splits ValidatorResult.splits sum.splits AdapterExecutionOutcome.splits
                    AppendResult.splits)
qed

lemma gateway_not_executed:
  assumes "nonblank em"
    and "run (runFilesystemWriteGatewayAction (Some intent) (kernel vctx writer port em) w) s = (s', w', res)"
    and "\<And>r aid. res \<noteq> Inr (G_EXECUTED r aid)" "\<And>r aid. res \<noteq> Inr (G_EXECUTED_UNCOMMITTED r aid)"
  shows "s' = s \<and> (\<exists>stage reason d. res = Inr (G_NULL stage reason d) \<and> (stage \<noteq> ''execute'' \<longrightarrow> w' = w))"
proof (cases "gateway_prepare intent")
  case (Inl r)
  then show ?thesis
    using assms(2) gateway_prepare_Inl [OF Inl] by (auto simp: run_gateway [OF assms(1)])
next
  case (Inr q)
  obtain atao aeo c h where q: "q = (atao, aeo, c, h)" by (cases q)
  note E = prepared_execute [OF Inr [unfolded q] assms(1), of writer w]
  show ?thesis
    using assms(2-4) Inr q E
    by (auto simp: run_gateway [OF assms(1)] Let_def gateway_commit_def case_prod_unfold
             split: if_splits ValidatorResult.splits option.splits AppendResult.splits) blast+
qed

end

section \<open>Properties\<close>

lemma map_of_alist_set: "map_of (alist_set kvs k v) k' = (if k' = k then Some v else map_of kvs k')"
  by (induction kvs) auto

lemma js_get_set: "isPlainObject v \<Longrightarrow> js_get (js_set v k x) k' = (if k' = k then x else js_get v k')"
  by (cases v) (auto simp: map_of_alist_set)

text \<open>A concrete proposal and binding.\<close>

definition sample_intent :: FilesystemWriteIntentInput where
  "sample_intent =
     \<lparr>in_atao_input = JObj (map (map_prod id JStr)
        [(''agent_id'', ''agent''), (''session_id'', ''s1''), (''intent'', ''update docs''),
         (''path'', ''docs/a.md''), (''content'', ''hello''), (''repo'', ''r''), (''root'', ''root''),
         (''timestamp'', ''t0'')]),
      in_binding = JObj (map (map_prod id JStr)
        [(''decision_id'', ''D1''), (''authority_lineage_hash'', ''L1''), (''policy_id'', ''P1''),
         (''policy_hash'', ''H1''), (''pre_write_hash'', ''pre''), (''proposed_diff_hash'', ''diff''),
         (''replay_nonce'', ''n1'')] @
        [(''allowed_paths'', JArr [JStr ''docs/**'']), (''denied_paths'', JArr []),
         (''allowed_operations'', JArr [JStr ''modify'']), (''denied_operations'', JArr []),
         (''max_files'', JNum (NInt 1)), (''max_diff_lines'', JNum (NInt 300))])\<rparr>"

lemma sample_intent_prepared: "\<exists>atao aeo c h. gateway_prepare sample_intent = Inr (atao, aeo, c, h)"
proof -
  have C: "captureFilesystemWriteATAO (in_atao_input sample_intent) \<noteq> None"
    by (simp add: sample_intent_def captureFilesystemWriteATAO_def nonblank_field_def js_ws_def Let_def)
  have D: "compileFilesystemWriteAEO (Some a) (in_binding sample_intent) \<noteq> None" for a
    by (simp add: sample_intent_def compileFilesystemWriteAEO_def nonblank_field_def js_ws_def as_arr_def req_num_def)
  from C obtain atao where "captureFilesystemWriteATAO (in_atao_input sample_intent) = Some atao" by blast
  moreover from D obtain aeo where A: "compileFilesystemWriteAEO (Some atao) (in_binding sample_intent) = Some aeo"
    by blast
  moreover obtain c h ctx where "compileCanonicalAEOFromFilesystem (Some aeo) = Inr (c, h, ctx)"
    using compileCanonical_total [OF compile_Some(11) [OF A]] by blast
  ultimately show ?thesis unfolding gateway_prepare_Inr by blast
qed

text \<open>
  The canonical stage never denies: whatever the agent proposes and whatever the binding
  says, the only denials before the replay check are a failed capture and a failed
  compilation; a compiled object always projects to a canonical object that passes
  \<^verbatim>\<open>validateAeo\<close>, and the hash handed to the execution boundary is the hash of that object.
\<close>

theorem canonical_projection_always_valid:
  "case gateway_prepare intent of
     Inl r \<Rightarrow> r = G_NULL ''capture'' ''ATAO_CAPTURE_FAILED'' None \<or> r = G_NULL ''compile'' ''AEO_COMPILE_FAILED'' None
   | Inr (atao, aeo, c, h) \<Rightarrow>
       h = objectHash (canonical_js c) \<and>
       (\<exists>ctx. compileCanonicalAEOFromFilesystem (Some aeo) = Inr (c, h, ctx) \<and>
              validateAeo (canonical_js c) ctx = AEO_VALID \<and>
              expected_authority ctx = fv_authority_lineage_hash (fa_validation aeo))"
proof (cases "gateway_prepare intent")
  case (Inl r)
  then show ?thesis using gateway_prepare_Inl [OF Inl] by auto
next
  case (Inr q)
  obtain atao aeo c h where q: "q = (atao, aeo, c, h)" by (cases q)
  with Inr obtain ctx where C: "compileCanonicalAEOFromFilesystem (Some aeo) = Inr (c, h, ctx)"
    by (auto simp: gateway_prepare_Inr)
  moreover have "expected_authority ctx = fv_authority_lineage_hash (fa_validation aeo)"
    using C by (auto simp: compileCanonicalAEOFromFilesystem_def Let_def split: if_splits)
  ultimately show ?thesis using Inr q compileCanonical_valid [OF C] by auto
qed

text \<open>
  The content of a write is not bound by what is validated: replacing the content of a
  proposal that compiles, with the same binding, gives the same filesystem AEO, the same
  canonical AEO and the same validated hash, while the writer receives the new content.
\<close>

theorem content_not_bound_by_validated_hash:
  assumes "gateway_prepare intent = Inr (atao, aeo, c, h)" and "isPlainObject (in_atao_input intent)"
  shows "\<exists>atao'. gateway_prepare (intent\<lparr>in_atao_input := js_set (in_atao_input intent) ''content'' (JStr new)\<rparr>)
      = Inr (atao', aeo, c, h) \<and> at_content atao' = new \<and> at_path atao' = at_path atao"
proof -
  let ?v = "in_atao_input intent"
  define body where "body = atao\<lparr>at_content := new\<rparr>"
  define atao' where "atao' = body\<lparr>at_atao_id := objectHash (ataoBody body)\<rparr>"
  have "captureFilesystemWriteATAO ?v = Some atao"
    and C: "compileFilesystemWriteAEO (Some atao) (in_binding intent) = Some aeo"
      "\<exists>ctx. compileCanonicalAEOFromFilesystem (Some aeo) = Inr (c, h, ctx)"
    using assms(1) by (auto simp: gateway_prepare_Inr)
  then have "captureFilesystemWriteATAO (js_set ?v ''content'' (JStr new)) = Some atao'"
    unfolding capture_Some using assms(2)
    by (auto simp: js_get_set atao'_def body_def ataoBody_def) (cases ?v; simp)
  moreover have "compileFilesystemWriteAEO (Some atao') (in_binding intent) = Some aeo"
    using C(1) compile_ignores_content [of atao' atao "in_binding intent"]
    by (simp add: atao'_def body_def)
  ultimately show ?thesis
    using C(2) by (intro exI [of _ atao']) (simp add: gateway_prepare_Inr atao'_def body_def)
qed

theorem content_not_bound_by_validated_hash_witness:
  "\<exists>a a' aeo c h. gateway_prepare sample_intent = Inr (a, aeo, c, h) \<and>
     gateway_prepare (sample_intent\<lparr>in_atao_input := js_set (in_atao_input sample_intent) ''content'' (JStr ''evil'')\<rparr>)
       = Inr (a', aeo, c, h) \<and> at_content a = ''hello'' \<and> at_content a' = ''evil''"
proof -
  obtain a aeo c h where P: "gateway_prepare sample_intent = Inr (a, aeo, c, h)"
    using sample_intent_prepared by blast
  have "isPlainObject (in_atao_input sample_intent)" by (simp add: sample_intent_def)
  from content_not_bound_by_validated_hash [OF P this, of "''evil''"] obtain a' where
    "gateway_prepare (sample_intent\<lparr>in_atao_input := js_set (in_atao_input sample_intent) ''content'' (JStr ''evil'')\<rparr>)
       = Inr (a', aeo, c, h)" "at_content a' = ''evil''" by blast
  moreover have "at_content a = ''hello''"
    using P by (simp add: gateway_prepare_Inr capture_Some) (simp add: sample_intent_def)
  ultimately show ?thesis using P by blast
qed

text \<open>
  The older write boundary: the executor runs exactly when the recomputed hash of the AEO
  is the validated hash, with the path of the AEO and the content of the proposal; a mismatch
  yields a proof of \<^verbatim>\<open>NULL\<close> without any effect, and no proof creates authority.
\<close>

theorem executeFilesystemWrite_exact_object:
  assumes "executeFilesystemWrite (Some aeo) h (Some atao) (Some ex) em w = (w', Some p)"
  shows "(if h = JStr (computeFilesystemAEOHash aeo)
     then xp_execution_result p = ''EXECUTED'' \<and> xp_null_reason p = None \<and>
          xp_validated_object_hash p = xp_executed_object_hash p \<and>
          w' = ex (ft_path (fa_target aeo)) (at_content atao) w
     else xp_execution_result p = ''NULL'' \<and> xp_null_reason p = Some ''OBJECT_HASH_MISMATCH'' \<and> w' = w) \<and>
     xp_executed_object_hash p = computeFilesystemAEOHash aeo \<and> \<not> xp_creates_authority p \<and>
     xp_proof_id p = objectHash (proofBody p)"
proof -
  have body: "proofBody (q\<lparr>xp_proof_id := x\<rparr>) = proofBody q" for q x
    by (simp add: proofBody_def)
  show ?thesis
    using assms by (auto simp: executeFilesystemWrite_def Let_def body str_def proofBody_def split: if_splits)
qed

theorem executeFilesystemWrite_exact_object_witness:
  "\<exists>p. executeFilesystemWrite (Some CANONICAL_FILESYSTEM_AEO_FIXTURE) (JStr ''sha256:stale'')
      (Some \<lparr>at_atao_id = ''id'', at_agent_id = ''a'', at_session_id = ''s'', at_intent = ''i'', at_path = ''p'',
             at_content = ''x'', at_repo = ''r'', at_root = ''t'', at_timestamp = ''now''\<rparr>)
      (Some (\<lambda>path content ws. (path, content) # ws)) (JStr ''now'') [] = ([], Some p) \<and>
     xp_executed_object_hash p = computeFilesystemAEOHash CANONICAL_FILESYSTEM_AEO_FIXTURE"
proof -
  let ?a = "\<lparr>at_atao_id = ''id'', at_agent_id = ''a'', at_session_id = ''s'', at_intent = ''i'', at_path = ''p'',
             at_content = ''x'', at_repo = ''r'', at_root = ''t'', at_timestamp = ''now''\<rparr>"
  let ?r = "executeFilesystemWrite (Some CANONICAL_FILESYSTEM_AEO_FIXTURE) (JStr ''sha256:stale'') (Some ?a)
      (Some (\<lambda>path content ws. (path, content) # ws)) (JStr ''now'') []"
  have "length (computeFilesystemAEOHash CANONICAL_FILESYSTEM_AEO_FIXTURE) \<noteq> length ''sha256:stale''"
    by (simp add: computeFilesystemAEOHash_def objectHash_def)
  then have ne: "computeFilesystemAEOHash CANONICAL_FILESYSTEM_AEO_FIXTURE \<noteq> ''sha256:stale''" by metis
  have "\<exists>p. ?r = (fst ?r, Some p)"
    by (auto simp: executeFilesystemWrite_def Let_def js_ws_def)
  then obtain p where p: "?r = (fst ?r, Some p)" ..
  from executeFilesystemWrite_exact_object [OF p] ne have "fst ?r = []" 
    "xp_executed_object_hash p = computeFilesystemAEOHash CANONICAL_FILESYSTEM_AEO_FIXTURE"
    by (auto split: if_splits)
  with p show ?thesis by metis
qed

end
