(* ===== verification/Null_Audit.thy ===== *)
theory Null_Audit
  imports Storage
begin

text \<open>
  \<^verbatim>\<open>src/lib/null-audit.ts\<close>: the bounded NULL response, the correlation id and the internal
  classification of a denial. The random bytes of \<^verbatim>\<open>crypto.getRandomValues\<close> are an argument.
\<close>

datatype ReasonClass = REPLAY_NULL | POLICY_NULL | MUTATION_NULL

record NullAuditRecord =
  na_correlation_id :: string
  na_reason_class :: ReasonClass
  na_stage :: "string option"
  na_denial_reason :: "string option"
  na_agent_id :: "string option"
  na_session_id :: "string option"
  na_atao_id :: "string option"
  na_canonical_aeo_hash :: "string option"
  na_decision_id :: "string option"
  na_replay_nonce :: "string option"
  na_validator_version :: string
  na_execution_performed :: bool
  na_proof_emitted :: bool
  na_created_at :: string

definition NULL_AUDIT_VALIDATOR_VERSION :: string where
  "NULL_AUDIT_VALIDATOR_VERSION = ''omega_fs_v1''"

definition CORRELATION_ID_PREFIX :: string where
  "CORRELATION_ID_PREFIX = ''null_evt_''"

text \<open>\<^verbatim>\<open>b.toString(16).padStart(2, "0")\<close> for a byte.\<close>

definition hex2 :: "nat \<Rightarrow> string" where
  "hex2 b = [hex_digit (b div 16), hex_digit (b mod 16)]"

definition generateCorrelationId :: "nat list \<Rightarrow> string" where
  "generateCorrelationId bytes = CORRELATION_ID_PREFIX @ concat (map hex2 bytes)"

definition REPLAY_VALUES :: "string list" where
  "REPLAY_VALUES =
     [''REPLAY_NONCE_CONSUMED'', ''REPLAY_NOT_ALLOWED'', ''REPLAY_NOT_DETERMINABLE'', ''REPLAY_STATE_UNKNOWN'',
      ''REPLAY_NONCE_MISSING'', ''REPLAY_NONCE_CONSUMED_OR_RESERVED'', ''AEO_ALREADY_CONSUMED'',
      ''replay_nonce_decision_mismatch'']"

definition MUTATION_VALUES :: "string list" where
  "MUTATION_VALUES =
     [''AEO_HASH_MISMATCH'', ''OBJECT_HASH_MISMATCH'', ''AEO_SHAPE_INVALID'', ''INVALID_AEO_SHAPE'',
      ''CANONICAL_VALIDATION_NULL'', ''ATAO_CAPTURE_FAILED'', ''AEO_COMPILE_FAILED'', ''NULL_GATEWAY_INPUT'',
      ''NULL_VALIDATOR_CONTEXT'', ''NULL_WRITER'', ''NULL_REPLAY_REGISTRY'', ''NULL_EMITTED_AT'',
      ''NULL_AEO_INPUT'', ''NULL_VALIDATED_HASH'', ''NULL_EXECUTOR'', ''EXTRA_FIELD_PRESENT'',
      ''MISSING_REQUIRED_FIELD'', ''PRE_WRITE_HASH_MISSING'', ''PRE_WRITE_HASH_MISMATCH'',
      ''TARGET_PRESTATE_UNOBSERVABLE'', ''OBSERVATION_DENIED'', ''OBSERVATION_TIMEOUT'',
      ''OBSERVATION_UNAVAILABLE'', ''STALE_PRESTATE'', ''DIFF_HASH_MISMATCH'', ''DIFF_INSPECTION_FAILED'',
      ''DIFF_NOT_APPLICABLE'', ''WRITER_CAPTURE_MISSING'', ''EVIDENCE_MISSING_EXECUTION_ID'',
      ''EVIDENCE_MISSING_EXECUTED_AT'', ''EVIDENCE_SURFACE_MISMATCH'', ''EVIDENCE_ADAPTER_SPECIFIC_NULL'',
      ''EXECUTOR_RETURNED_NULL'']"

text \<open>The loop over \<^verbatim>\<open>[failure_class, null_reason, reason, stage]\<close>; null and empty are skipped.\<close>

fun classify_candidates :: "string option list \<Rightarrow> ReasonClass" where
  "classify_candidates [] = POLICY_NULL"
| "classify_candidates (c # cs) =
     (case c of None \<Rightarrow> classify_candidates cs
      | Some s \<Rightarrow>
          if s = [] then classify_candidates cs
          else if s \<in> set REPLAY_VALUES then REPLAY_NULL
          else if s \<in> set MUTATION_VALUES then MUTATION_NULL
          else classify_candidates cs)"

definition classifyReasonClass ::
  "string option \<Rightarrow> string option \<Rightarrow> string option \<Rightarrow> string option \<Rightarrow> ReasonClass" where
  "classifyReasonClass stage reason failure_class null_reason =
     classify_candidates [failure_class, null_reason, reason, stage]"

definition buildBoundedNullResponse :: "string \<Rightarrow> (string \<times> jsval) list" where
  "buildBoundedNullResponse correlation_id =
     [(''result'', JStr ''NULL''), (''execution_performed'', JBool False), (''proof_emitted'', JBool False),
      (''correlation_id'', JStr correlation_id)]"

section \<open>Lemmas\<close>

lemma hex_digit_inj: "a < 16 \<Longrightarrow> b < 16 \<Longrightarrow> hex_digit a = hex_digit b \<Longrightarrow> a = b"
  by (metis hex_value_digit)

lemma hex2_inj: "a < 256 \<Longrightarrow> b < 256 \<Longrightarrow> hex2 a = hex2 b \<Longrightarrow> a = b"
proof -
  assume "a < 256" "b < 256" "hex2 a = hex2 b"
  then have "a div 16 = b div 16" "a mod 16 = b mod 16"
    by (auto simp: hex2_def dest: hex_digit_inj [rotated 2])
  then show "a = b" by (metis div_mult_mod_eq)
qed

lemma concat_hex2_inj:
  "list_all (\<lambda>b. b < 256) xs \<Longrightarrow> list_all (\<lambda>b. b < 256) ys \<Longrightarrow>
   concat (map hex2 xs) = concat (map hex2 ys) \<Longrightarrow> xs = ys"
proof (induction xs arbitrary: ys)
  case Nil
  then show ?case by (cases ys) (auto simp: hex2_def)
next
  case (Cons x xs)
  then obtain y ys' where ys: "ys = y # ys'" by (cases ys) (auto simp: hex2_def)
  have "hex2 x = hex2 y" "concat (map hex2 xs) = concat (map hex2 ys')"
    using Cons.prems(3) ys by (simp_all add: hex2_def [of x] hex2_def [of y])
  with Cons ys show ?case by (auto intro: hex2_inj)
qed

text \<open>
  The correlation ids of two denials differ whenever their random bytes differ: 16 bytes give
  32 hexadecimal characters, without loss.
\<close>

lemma generateCorrelationId_inj:
  "list_all (\<lambda>b. b < 256) xs \<Longrightarrow> list_all (\<lambda>b. b < 256) ys \<Longrightarrow>
   generateCorrelationId xs = generateCorrelationId ys \<longleftrightarrow> xs = ys"
  using concat_hex2_inj by (auto simp: generateCorrelationId_def)

lemma length_generateCorrelationId: "length (generateCorrelationId bytes) = 9 + 2 * length bytes"
proof -
  have "length (concat (map hex2 bytes)) = 2 * length bytes"
    by (induction bytes) (simp_all add: hex2_def)
  then show ?thesis by (simp add: generateCorrelationId_def CORRELATION_ID_PREFIX_def)
qed

end
