(* ===== verification/Route.thy ===== *)
theory Route
  imports Filesystem_Gateway Null_Audit
begin

text \<open>
  \<^verbatim>\<open>src/lib/filesystem-write-route-adapter.ts\<close>: the governed filesystem-write route with its
  six registries. A request is an asynchronous program over the database: every SQL statement
  is one atomic access, and other requests may run between two of them. The clock readings and
  the random bytes of one request are a record of arguments. Table creation and the
  append-only triggers are part of the initial state (no statement of the program updates or
  deletes a row of a table that has them).
\<close>

section \<open>Registries\<close>

record ObjectRow =
  ob_path :: string
  ob_content :: string
  ob_content_hash :: string
  ob_bytes_written :: int
  ob_updated_at :: string

record DecisionRow =
  de_decision_id :: string
  de_status :: string
  de_authority_lineage_hash :: string
  de_scope :: string
  de_expires_at :: "string option"
  de_created_at :: string

record WriteNonceRow =
  wn_replay_nonce :: string
  wn_decision_id :: string
  wn_state :: ReplayState
  wn_created_at :: string
  wn_consumed_at :: "string option"

record WriteProofRow =
  wp_receipt :: AdapterProofReceipt
  wp_atao_id :: string
  wp_target_path :: string
  wp_created_at :: string

record WriteLineageRow =
  wl_node :: FilesystemExecutionLineageNode
  wl_created_at :: string

record DB =
  objects :: "ObjectRow list"
  decisions :: "DecisionRow list"
  nonces :: "WriteNonceRow list"
  proofs :: "WriteProofRow list"
  lineage :: "WriteLineageRow list"
  null_audit :: "NullAuditRecord list"

definition wp_key :: "WriteProofRow \<Rightarrow> string" where
  "wp_key r = pr_receipt_id (wp_receipt r)"

definition wl_key :: "WriteLineageRow \<Rightarrow> string" where
  "wl_key r = fl_node_id (wl_node r)"

text \<open>The clock readings, in program order, and the random bytes of one request.\<close>

record RequestEnv =
  ev_seeded_at :: string
  ev_timestamp :: string
  ev_emitted_at :: string
  ev_executed_at :: string
  ev_consumed_at :: string
  ev_persisted_at :: string
  ev_lineage_at :: string
  ev_audited_at :: string
  ev_random :: "nat list"

section \<open>Constants and seed rows\<close>

definition FILESYSTEM_WRITE_ADAPTER_ROUTE :: string where
  "FILESYSTEM_WRITE_ADAPTER_ROUTE = ''/gateway/tool/filesystem-write''"

definition FILESYSTEM_WRITE_GATEWAY_DECISION_ID :: string where
  "FILESYSTEM_WRITE_GATEWAY_DECISION_ID = ''AUTH-filesystem-write-gateway-001''"

definition FILESYSTEM_WRITE_GATEWAY_POLICY_ID :: string where
  "FILESYSTEM_WRITE_GATEWAY_POLICY_ID = ''filesystem-write-gateway-policy-v1''"

definition FILESYSTEM_WRITE_GATEWAY_SEED_PATH :: string where
  "FILESYSTEM_WRITE_GATEWAY_SEED_PATH = ''governed/filesystem-write-gateway/seed.md''"

definition FILESYSTEM_WRITE_GATEWAY_SEED_CONTENT :: string where
  "FILESYSTEM_WRITE_GATEWAY_SEED_CONTENT =
     ''# Governed Filesystem Write Gateway'' @ [CHR 0x0A, CHR 0x0A] @
     ''Seed object for the runtime-enforced filesystem-write gateway action (issue #1890).'' @ [CHR 0x0A] @
     ''Every mutation to this registry passes through runFilesystemWriteGatewayAction.'' @ [CHR 0x0A]"

definition gateway_allowed_paths :: "string list" where
  "gateway_allowed_paths = [''governed/filesystem-write-gateway/**'']"

definition gateway_denied_paths :: "string list" where
  "gateway_denied_paths = [''governed/filesystem-write-gateway/secrets/**'']"

definition gateway_allowed_operations :: "string list" where
  "gateway_allowed_operations = [''create'', ''modify'']"

definition gateway_denied_operations :: "string list" where
  "gateway_denied_operations = [''delete'', ''chmod'', ''rename'', ''symlink'']"

definition FILESYSTEM_WRITE_GATEWAY_POLICY_BODY :: jsval where
  "FILESYSTEM_WRITE_GATEWAY_POLICY_BODY = JObj
     [(''policy_id'', JStr FILESYSTEM_WRITE_GATEWAY_POLICY_ID),
      (''allowed_paths'', JArr (map JStr gateway_allowed_paths)),
      (''denied_paths'', JArr (map JStr gateway_denied_paths)),
      (''allowed_operations'', JArr (map JStr gateway_allowed_operations)),
      (''denied_operations'', JArr (map JStr gateway_denied_operations)),
      (''max_files'', JNum (NInt 1)), (''max_diff_lines'', JNum (NInt 300))]"

definition filesystemWriteGatewayPolicyHash :: string where
  "filesystemWriteGatewayPolicyHash = objectHash FILESYSTEM_WRITE_GATEWAY_POLICY_BODY"

definition seed_decision :: "string \<Rightarrow> DecisionRow" where
  "seed_decision now =
     \<lparr>de_decision_id = FILESYSTEM_WRITE_GATEWAY_DECISION_ID, de_status = ''ACTIVE'',
      de_authority_lineage_hash = objectHash (JObj
        [(''decision_id'', JStr FILESYSTEM_WRITE_GATEWAY_DECISION_ID), (''surface'', JStr ''filesystem_write''),
         (''scope'', JStr ''repository'')]),
      de_scope = ''repository'', de_expires_at = None, de_created_at = now\<rparr>"

definition seed_object :: "string \<Rightarrow> ObjectRow" where
  "seed_object now =
     \<lparr>ob_path = FILESYSTEM_WRITE_GATEWAY_SEED_PATH, ob_content = FILESYSTEM_WRITE_GATEWAY_SEED_CONTENT,
      ob_content_hash = ''sha256:'' @ sha256Hex FILESYSTEM_WRITE_GATEWAY_SEED_CONTENT,
      ob_bytes_written = int (length FILESYSTEM_WRITE_GATEWAY_SEED_CONTENT), ob_updated_at = now\<rparr>"

definition ensureFilesystemWriteGatewayRegistry :: "string \<Rightarrow> (DB, unit) proc" where
  "ensureFilesystemWriteGatewayRegistry now =
     proc_bind (atomically (\<lambda>db.
       (db\<lparr>decisions := fst (insert_or_ignore de_decision_id (seed_decision now) (decisions db))\<rparr>, ()))) (\<lambda>_.
     atomically (\<lambda>db.
       (db\<lparr>objects := fst (insert_or_ignore ob_path (seed_object now) (objects db))\<rparr>, ())))"

section \<open>Ports\<close>

definition normalizeGovernedFilesystemPath :: "string \<Rightarrow> string ObservationResult" where
  "normalizeGovernedFilesystemPath path =
     (if \<not> nonblank path then unseen AMBIGUOUS_PATH
      else if js_starts_with path ''/'' \<or> js_includes path ''..'' \<or> js_includes path [CHR 0x5C]
        then unseen OUTSIDE_SCOPE
      else Obs path)"

definition route_isNonceUnused :: "string \<Rightarrow> (DB, bool) proc" where
  "route_isNonceUnused replay_nonce =
     fetch (\<lambda>db. case lookup_row wn_replay_nonce replay_nonce (nonces db) of
       None \<Rightarrow> True | Some row \<Rightarrow> wn_state row = RS_UNUSED)"

text \<open>The upsert changes one row in either case, so the port always answers \<^verbatim>\<open>APPENDED\<close>.\<close>

definition route_markNonceConsumed :: "string \<Rightarrow> string \<Rightarrow> string \<Rightarrow> (DB, AppendResult) proc" where
  "route_markNonceConsumed now replay_nonce decision_id =
     atomically (\<lambda>db.
       (db\<lparr>nonces := upsert wn_replay_nonce
              (\<lambda>row. row\<lparr>wn_state := RS_CONSUMED, wn_consumed_at := Some now\<rparr>)
              \<lparr>wn_replay_nonce = replay_nonce, wn_decision_id = decision_id, wn_state = RS_CONSUMED,
               wn_created_at = now, wn_consumed_at = Some now\<rparr> (nonces db)\<rparr>,
        APPENDED replay_nonce decision_id))"

definition buildD1ReplayRegistryPort :: "string \<Rightarrow> DB ReplayRegistryPort" where
  "buildD1ReplayRegistryPort now =
     \<lparr>isNonceUnused = route_isNonceUnused, markNonceConsumed = route_markNonceConsumed now\<rparr>"

definition route_appendLineageNode :: "string \<Rightarrow> FilesystemExecutionLineageNode \<Rightarrow> (DB, AppendResult) proc" where
  "route_appendLineageNode now node =
     atomically (\<lambda>db.
       let (t, changes) = insert_or_ignore wl_key \<lparr>wl_node = node, wl_created_at = now\<rparr> (lineage db)
       in (db\<lparr>lineage := t\<rparr>,
           if changes > 0 then APPENDED (fl_node_id node) (fl_canonical_aeo_hash node)
           else ALREADY_EXISTS (fl_node_id node) (fl_canonical_aeo_hash node)))"

fun reason_class_string :: "ReasonClass \<Rightarrow> string" where
  "reason_class_string REPLAY_NULL = ''REPLAY_NULL''"
| "reason_class_string POLICY_NULL = ''POLICY_NULL''"
| "reason_class_string MUTATION_NULL = ''MUTATION_NULL''"

definition route_appendNullAuditRecord :: "NullAuditRecord \<Rightarrow> (DB, AppendResult) proc" where
  "route_appendNullAuditRecord record =
     atomically (\<lambda>db.
       let (t, changes) = insert_or_ignore na_correlation_id record (null_audit db);
           rc = reason_class_string (na_reason_class record)
       in (db\<lparr>null_audit := t\<rparr>,
           if changes > 0 then APPENDED (na_correlation_id record) rc
           else ALREADY_EXISTS (na_correlation_id record) rc))"

definition filesystemWriteResponse :: "(string \<times> jsval) list \<Rightarrow> jsval" where
  "filesystemWriteResponse data = JObj
     ([(''route'', JStr FILESYSTEM_WRITE_ADAPTER_ROUTE), (''mutation_capability'', JBool True),
       (''execution_capability'', JBool True), (''proof_generating'', JBool True),
       (''creates_authority'', JBool False)] @ data)"

text \<open>What is known of a denied request; the record of \<^verbatim>\<open>respondBoundedNull\<close>.\<close>

record NullPartial =
  np_stage :: "string option"
  np_reason :: "string option"
  np_failure_class :: "string option"
  np_agent_id :: "string option"
  np_session_id :: "string option"
  np_atao_id :: "string option"
  np_canonical_aeo_hash :: "string option"
  np_decision_id :: "string option"
  np_replay_nonce :: "string option"

definition null_partial :: "string \<Rightarrow> string \<Rightarrow> NullPartial" where
  "null_partial stage reason =
     \<lparr>np_stage = Some stage, np_reason = Some reason, np_failure_class = None, np_agent_id = None,
      np_session_id = None, np_atao_id = None, np_canonical_aeo_hash = None, np_decision_id = None,
      np_replay_nonce = None\<rparr>"

definition null_audit_record :: "RequestEnv \<Rightarrow> NullPartial \<Rightarrow> NullAuditRecord" where
  "null_audit_record env p =
     \<lparr>na_correlation_id = generateCorrelationId (ev_random env),
      na_reason_class = classifyReasonClass (np_stage p) (np_reason p) (np_failure_class p) None,
      na_stage = np_stage p,
      na_denial_reason = (if np_failure_class p \<noteq> None then np_failure_class p else np_reason p),
      na_agent_id = np_agent_id p, na_session_id = np_session_id p, na_atao_id = np_atao_id p,
      na_canonical_aeo_hash = np_canonical_aeo_hash p, na_decision_id = np_decision_id p,
      na_replay_nonce = np_replay_nonce p, na_validator_version = NULL_AUDIT_VALIDATOR_VERSION,
      na_execution_performed = False, na_proof_emitted = False, na_created_at = ev_audited_at env\<rparr>"

datatype route_error = RouteTypeError | RouteConstraintFailed

definition respondBoundedNull :: "RequestEnv \<Rightarrow> NullPartial \<Rightarrow> (DB, route_error + jsval) proc" where
  "respondBoundedNull env p =
     proc_bind (route_appendNullAuditRecord (null_audit_record env p)) (\<lambda>_.
       Ret (Inr (filesystemWriteResponse (buildBoundedNullResponse (generateCorrelationId (ev_random env))))))"

definition gateway_policy :: "string \<Rightarrow> PolicyRecord" where
  "gateway_policy policy_hash =
     \<lparr>po_policy_id = FILESYSTEM_WRITE_GATEWAY_POLICY_ID, po_policy_hash = policy_hash,
      po_allowed_paths = gateway_allowed_paths, po_denied_paths = gateway_denied_paths,
      po_allowed_operations = gateway_allowed_operations, po_denied_operations = gateway_denied_operations,
      po_max_files = NInt 1, po_max_diff_lines = NInt 300\<rparr>"

definition buildD1FilesystemValidatorContext ::
  "string \<Rightarrow> string \<Rightarrow> DB ReplayRegistryPort \<Rightarrow> DB FilesystemValidatorContext" where
  "buildD1FilesystemValidatorContext now policy_hash replayPort =
     \<lparr>readDecision = (\<lambda>i. fetch (\<lambda>db. case lookup_row de_decision_id i (decisions db) of
          None \<Rightarrow> unseen REGISTRY_MISS
        | Some row \<Rightarrow> Obs \<lparr>dr_decision_id = de_decision_id row, dr_status = de_status row,
                           dr_authority_lineage_hash = de_authority_lineage_hash row, dr_scope = de_scope row,
                           dr_expires_at = (if de_expires_at row = Some [] then None else de_expires_at row)\<rparr>)),
      readAuthorityLineage = (\<lambda>i. fetch (\<lambda>db. case lookup_row de_decision_id i (decisions db) of
          None \<Rightarrow> unseen LINEAGE_MISMATCH
        | Some row \<Rightarrow> Obs \<lparr>al_lineage_hash = de_authority_lineage_hash row, al_status = de_status row\<rparr>)),
      readPolicy = (\<lambda>i. Ret (Obs (gateway_policy policy_hash))),
      readPolicyHash = (\<lambda>i. Ret (Obs policy_hash)),
      readNonceState = (\<lambda>n. proc_bind (isNonceUnused replayPort n) (\<lambda>unused.
          Ret (Obs (if unused then RS_UNUSED else RS_CONSUMED)))),
      readAeoState = (\<lambda>h. Ret (Obs ARS_UNUSED)),
      normalizePath = normalizeGovernedFilesystemPath,
      readHash = (\<lambda>p. fetch (\<lambda>db. case lookup_row ob_path p (objects db) of
          None \<Rightarrow> unseen NOT_FOUND | Some row \<Rightarrow> Obs (ob_content_hash row))),
      readMetadata = (\<lambda>p. fetch (\<lambda>db.
          Obs \<lparr>fm_exists = (lookup_row ob_path p (objects db) \<noteq> None), fm_is_symlink = False\<rparr>)),
      hashDiff = (\<lambda>d. Obs (''sha256:'' @ d)),
      inspectApplicability = (\<lambda>h p d. Ret (Obs \<lparr>di_applicable = True, di_post_write_hash = []\<rparr>)),
      clock_now = Obs now\<rparr>"

text \<open>The writer only records what it was given; the route persists it later.\<close>

type_synonym capture = "(string \<times> string \<times> int) option"

definition buildD1FilesystemWriter :: "string \<Rightarrow> capture FilesystemWriter" where
  "buildD1FilesystemWriter now path content w =
     (Some (path, content, int (length content)),
      Some \<lparr>fw_execution_id = ''fs-write:sha256:'' @ sha256Hex content, fw_executed_at = now,
            fw_bytes_written = int (length content)\<rparr>)"

section \<open>The handler\<close>

text \<open>The request fields after defaulting.\<close>

record RouteFields =
  rf_agent_id :: string
  rf_session_id :: string
  rf_intent :: string
  rf_path :: string
  rf_content :: string
  rf_decision_id :: string
  rf_replay_nonce :: string

fun isObjectOrArray :: "jsval \<Rightarrow> bool" where
  "isObjectOrArray (JObj _) = True"
| "isObjectOrArray (JArr _) = True"
| "isObjectOrArray _ = False"

definition route_fields :: "jsval \<Rightarrow> RouteFields" where
  "route_fields b =
     \<lparr>rf_agent_id = js_String_or (js_get b ''agent_id'') [],
      rf_session_id = js_String_or (js_get b ''session_id'') [],
      rf_intent = js_String_or (js_get b ''intent'') [],
      rf_path = js_String_or (js_get b ''path'') [],
      rf_content = (case js_get b ''content'' of JStr s \<Rightarrow> s | _ \<Rightarrow> []),
      rf_decision_id = js_String_or (js_get b ''decision_id'') FILESYSTEM_WRITE_GATEWAY_DECISION_ID,
      rf_replay_nonce = js_String_or (js_get b ''replay_nonce'') []\<rparr>"

definition route_missing :: "RouteFields \<Rightarrow> bool" where
  "route_missing f \<longleftrightarrow>
     rf_agent_id f = [] \<or> rf_session_id f = [] \<or> rf_intent f = [] \<or> rf_path f = [] \<or> rf_replay_nonce f = []"

text \<open>\<^verbatim>\<open>s || null\<close>\<close>

definition or_null :: "string \<Rightarrow> string option" where
  "or_null s = (if s = [] then None else Some s)"

definition denied :: "RouteFields \<Rightarrow> string \<Rightarrow> string \<Rightarrow> NullPartial" where
  "denied f stage reason = (null_partial stage reason)
     \<lparr>np_agent_id := Some (rf_agent_id f), np_session_id := Some (rf_session_id f),
      np_decision_id := Some (rf_decision_id f), np_replay_nonce := Some (rf_replay_nonce f)\<rparr>"

definition route_intent :: "RequestEnv \<Rightarrow> RouteFields \<Rightarrow> DecisionRow \<Rightarrow> string \<Rightarrow> FilesystemWriteIntentInput" where
  "route_intent env f row pre_write_hash =
     \<lparr>in_atao_input = JObj
        [(''agent_id'', JStr (rf_agent_id f)), (''session_id'', JStr (rf_session_id f)),
         (''intent'', JStr (rf_intent f)), (''path'', JStr (rf_path f)), (''content'', JStr (rf_content f)),
         (''repo'', JStr ''mindshift-demo''), (''root'', JStr ''repository''),
         (''timestamp'', JStr (ev_timestamp env))],
      in_binding = JObj
        [(''decision_id'', JStr (rf_decision_id f)),
         (''authority_lineage_hash'', JStr (de_authority_lineage_hash row)),
         (''policy_id'', JStr FILESYSTEM_WRITE_GATEWAY_POLICY_ID),
         (''policy_hash'', JStr filesystemWriteGatewayPolicyHash),
         (''pre_write_hash'', JStr pre_write_hash), (''proposed_diff_hash'', JStr []),
         (''replay_nonce'', JStr (rf_replay_nonce f)),
         (''allowed_paths'', JArr (map JStr gateway_allowed_paths)),
         (''denied_paths'', JArr (map JStr gateway_denied_paths)),
         (''allowed_operations'', JArr (map JStr gateway_allowed_operations)),
         (''denied_operations'', JArr (map JStr gateway_denied_operations)),
         (''max_files'', JNum (NInt 1)), (''max_diff_lines'', JNum (NInt 300))]\<rparr>"

definition route_kernel :: "RequestEnv \<Rightarrow> (DB, capture) FilesystemWriteKernelContext" where
  "route_kernel env =
     (let port = buildD1ReplayRegistryPort (ev_consumed_at env) in
      kernel (buildD1FilesystemValidatorContext (ev_executed_at env) filesystemWriteGatewayPolicyHash port)
        (buildD1FilesystemWriter (ev_executed_at env)) port (ev_emitted_at env))"

definition receipt_js :: "AdapterProofReceipt \<Rightarrow> jsval" where
  "receipt_js r = (case receipt_body r of
     JObj kvs \<Rightarrow> JObj ((''receipt_id'', JStr (pr_receipt_id r)) # kvs) | v \<Rightarrow> v)"

definition persist_object :: "RequestEnv \<Rightarrow> string \<times> string \<times> int \<Rightarrow> (DB, unit) proc" where
  "persist_object env cap = (case cap of (path, content, bytes) \<Rightarrow>
     let row = \<lparr>ob_path = path, ob_content = content, ob_content_hash = ''sha256:'' @ sha256Hex content,
                ob_bytes_written = bytes, ob_updated_at = ev_persisted_at env\<rparr>
     in atomically (\<lambda>db. (db\<lparr>objects := upsert ob_path (\<lambda>_. row) row (objects db)\<rparr>, ())))"

definition persist_proof ::
  "RequestEnv \<Rightarrow> AdapterProofReceipt \<Rightarrow> string \<Rightarrow> string \<Rightarrow> (DB, bool) proc" where
  "persist_proof env receipt atao_id path =
     atomically (\<lambda>db.
       case insert_unique wp_key \<lparr>wp_receipt = receipt, wp_atao_id = atao_id, wp_target_path = path,
              wp_created_at = ev_persisted_at env\<rparr> (proofs db) of
         None \<Rightarrow> (db, False)
       | Some t \<Rightarrow> (db\<lparr>proofs := t\<rparr>, True))"

definition lineage_node_of :: "AdapterProofReceipt \<Rightarrow> string \<Rightarrow> FilesystemExecutionLineageNode" where
  "lineage_node_of receipt path =
     \<lparr>fl_node_id = ''lineage:'' @ pr_receipt_id receipt, fl_parent_id = None,
      fl_canonical_aeo_hash = pr_validated_object_hash receipt, fl_receipt_id = pr_receipt_id receipt,
      fl_decision_id = pr_decision_id receipt, fl_replay_nonce = pr_replay_nonce receipt,
      fl_target_system = ''filesystem'', fl_target_action = ''write_file'', fl_target_path = path,
      fl_status = ''EXECUTED''\<rparr>"

fun append_status :: "AppendResult \<Rightarrow> string" where
  "append_status (APPENDED _ _) = ''APPENDED''"
| "append_status (ALREADY_EXISTS _ _) = ''ALREADY_EXISTS''"
| "append_status (REJECTED _) = ''REJECTED''"

definition executed_response ::
  "string \<Rightarrow> AdapterProofReceipt \<Rightarrow> string \<times> string \<times> int \<Rightarrow> string option \<Rightarrow> jsval" where
  "executed_response result receipt cap lineage_append_status = (case cap of (path, content, bytes) \<Rightarrow>
     filesystemWriteResponse
       ([(''status'', JStr result), (''result'', JStr result), (''receipt'', receipt_js receipt),
         (''target_path'', JStr path), (''bytes_written'', JNum (NInt bytes)),
         (''content_hash'', JStr (''sha256:'' @ sha256Hex content))] @
        (case lineage_append_status of None \<Rightarrow> [] | Some st \<Rightarrow> [(''lineage_append_status'', JStr st)])))"

text \<open>After the gateway: persist the object, the proof and, when executed, the lineage node.\<close>

definition route_persist ::
  "RequestEnv \<Rightarrow> bool \<Rightarrow> AdapterProofReceipt \<Rightarrow> string \<Rightarrow> string \<times> string \<times> int \<Rightarrow> (DB, route_error + jsval) proc" where
  "route_persist env executed receipt atao_id cap =
     (let path = fst cap;
          result = (if executed then ''EXECUTED'' else ''EXECUTED_UNCOMMITTED'') in
      proc_bind (persist_object env cap) (\<lambda>_.
      proc_bind (persist_proof env receipt atao_id path) (\<lambda>inserted.
      if \<not> inserted then Ret (Inl RouteConstraintFailed)
      else if executed then
        proc_bind (route_appendLineageNode (ev_lineage_at env) (lineage_node_of receipt path)) (\<lambda>lineageResult.
          Ret (Inr (executed_response result receipt cap (Some (append_status lineageResult)))))
      else Ret (Inr (executed_response result receipt cap None)))))"

definition route_captured ::
  "RequestEnv \<Rightarrow> RouteFields \<Rightarrow> bool \<Rightarrow> AdapterProofReceipt \<Rightarrow> string \<Rightarrow> capture \<Rightarrow> (DB, route_error + jsval) proc" where
  "route_captured env f executed receipt atao_id captured =
     (case captured of
        None \<Rightarrow> respondBoundedNull env ((denied f ''execute'' ''WRITER_CAPTURE_MISSING'')
                  \<lparr>np_atao_id := Some atao_id, np_canonical_aeo_hash := Some (pr_validated_object_hash receipt)\<rparr>)
      | Some cap \<Rightarrow> route_persist env executed receipt atao_id cap)"

definition route_finish ::
  "RequestEnv \<Rightarrow> RouteFields \<Rightarrow> capture \<times> (js_error + FilesystemWriteGatewayActionResult)
   \<Rightarrow> (DB, route_error + jsval) proc" where
  "route_finish env f wo =
     (case snd wo of
        Inl _ \<Rightarrow> Ret (Inl RouteTypeError)
      | Inr (G_NULL stage reason d) \<Rightarrow>
          respondBoundedNull env ((denied f stage reason)
            \<lparr>np_failure_class := map_option dn_failure_class d,
             np_canonical_aeo_hash := (case d of None \<Rightarrow> None | Some d \<Rightarrow> dn_aeo_hash d)\<rparr>)
      | Inr (G_EXECUTED receipt atao_id) \<Rightarrow> route_captured env f True receipt atao_id (fst wo)
      | Inr (G_EXECUTED_UNCOMMITTED receipt atao_id) \<Rightarrow> route_captured env f False receipt atao_id (fst wo))"

text \<open>The three reads before the gateway, and the gateway.\<close>

definition route_execute :: "RequestEnv \<Rightarrow> RouteFields \<Rightarrow> (DB, route_error + jsval) proc" where
  "route_execute env f =
     proc_bind (fetch (\<lambda>db. lookup_row de_decision_id (rf_decision_id f) (decisions db))) (\<lambda>decisionRow.
     case decisionRow of
       None \<Rightarrow> respondBoundedNull env (denied f ''validate'' ''decision_not_found'')
     | Some row \<Rightarrow>
         proc_bind (fetch (\<lambda>db. lookup_row wn_replay_nonce (rf_replay_nonce f) (nonces db))) (\<lambda>nonceRow.
         if (case nonceRow of None \<Rightarrow> False | Some nr \<Rightarrow> wn_decision_id nr \<noteq> rf_decision_id f)
         then respondBoundedNull env (denied f ''validate'' ''replay_nonce_decision_mismatch'')
         else
           proc_bind (fetch (\<lambda>db. lookup_row ob_path (rf_path f) (objects db))) (\<lambda>existingObject.
           let pre_write_hash = (case existingObject of None \<Rightarrow> [] | Some ob \<Rightarrow> ob_content_hash ob) in
           proc_bind (runFilesystemWriteGatewayAction (Some (route_intent env f row pre_write_hash))
                        (route_kernel env) None)
             (route_finish env f))))"

definition handleFilesystemWriteRoute :: "RequestEnv \<Rightarrow> jsval \<Rightarrow> (DB, route_error + jsval) proc" where
  "handleFilesystemWriteRoute env b =
     proc_bind (ensureFilesystemWriteGatewayRegistry (ev_seeded_at env)) (\<lambda>_.
     if \<not> isObjectOrArray b then respondBoundedNull env (null_partial ''capture'' ''malformed_request'')
     else let f = route_fields b in
       if route_missing f then
         respondBoundedNull env ((null_partial ''capture'' ''missing_required_fields'')
           \<lparr>np_agent_id := or_null (rf_agent_id f), np_session_id := or_null (rf_session_id f)\<rparr>)
       else route_execute env f)"

end
