(* ===== verification/Route_Facts.thy ===== *)
theory Route_Facts
  imports Route
begin

text \<open>
  What the governed filesystem-write route guarantees: the ports satisfy the contracts of the
  validator and the gateway; a request run on its own either writes exactly the validated object
  or leaves every registry but the audit log as it was; and what survives every interleaving of
  concurrent requests.
\<close>

section \<open>Tables\<close>

lemma lookup_row_upsert:
  assumes "\<And>x. key x = key r \<Longrightarrow> key (upd x) = key r"
  shows "lookup_row key k (upsert key upd r t) =
     (if k = key r then Some (case lookup_row key k t of None \<Rightarrow> r | Some x \<Rightarrow> upd x) else lookup_row key k t)"
proof (cases "key r \<in> key ` set t")
  case False
  have "lookup_row key k (t @ [r]) =
      (case lookup_row key k t of Some x \<Rightarrow> Some x | None \<Rightarrow> if key r = k then Some r else None)"
    by (induction t) (auto simp: lookup_row_def)
  moreover have "upsert key upd r t = t @ [r]" "lookup_row key (key r) t = None"
    using False by (simp_all add: upsert_def lookup_row_None)
  ultimately show ?thesis by (auto split: option.splits)
next
  case True
  have "lookup_row key k (map (\<lambda>x. if key x = key r then upd x else x) t) =
      (if k = key r then map_option upd (lookup_row key k t) else lookup_row key k t)"
    by (induction t) (auto simp: lookup_row_def assms)
  moreover have "lookup_row key (key r) t \<noteq> None" using True by (simp add: lookup_row_None del: not_None_eq)
  ultimately show ?thesis using True by (auto simp: upsert_def)
qed

section \<open>The ports keep their contracts\<close>

definition route_consumed :: "DB \<Rightarrow> string \<Rightarrow> bool" where
  "route_consumed db n \<longleftrightarrow>
     (case lookup_row wn_replay_nonce n (nonces db) of None \<Rightarrow> False | Some r \<Rightarrow> wn_state r \<noteq> RS_UNUSED)"

lemma route_isNonceUnused_run: "run (route_isNonceUnused n) db = (db, \<not> route_consumed db n)"
  by (simp add: route_isNonceUnused_def route_consumed_def split: option.splits)

lemma route_mark_nonces:
  "lookup_row wn_replay_nonce m (nonces (fst (run (route_markNonceConsumed t n d) db))) =
     (if m = n then Some (case lookup_row wn_replay_nonce n (nonces db) of
         None \<Rightarrow> \<lparr>wn_replay_nonce = n, wn_decision_id = d, wn_state = RS_CONSUMED, wn_created_at = t,
                  wn_consumed_at = Some t\<rparr>
       | Some row \<Rightarrow> row\<lparr>wn_state := RS_CONSUMED, wn_consumed_at := Some t\<rparr>)
      else lookup_row wn_replay_nonce m (nonces db))"
  by (simp add: route_markNonceConsumed_def lookup_row_upsert)

interpretation route_port: replay_registry_port "buildD1ReplayRegistryPort t" route_consumed for t
proof
  fix n d s m
  show "run (isNonceUnused (buildD1ReplayRegistryPort t) n) s = (s, \<not> route_consumed s n)"
    by (simp add: buildD1ReplayRegistryPort_def route_isNonceUnused_run)
  show "route_consumed (fst (run (markNonceConsumed (buildD1ReplayRegistryPort t) n d) s)) n"
    by (simp add: buildD1ReplayRegistryPort_def route_consumed_def route_mark_nonces split: option.splits)
  show "route_consumed (fst (run (markNonceConsumed (buildD1ReplayRegistryPort t) n d) s)) m"
    if "route_consumed s m"
    using that
    by (auto simp: buildD1ReplayRegistryPort_def route_consumed_def route_mark_nonces split: option.splits)
qed

lemma route_isNonceUnused_readonly: "readonly (route_isNonceUnused n)"
  by (simp add: route_isNonceUnused_def)

interpretation route_reads: readonly_context
  "buildD1FilesystemValidatorContext now ph (buildD1ReplayRegistryPort t)" for now ph t
  by unfold_locales
     (simp add: readonly_ctx_def buildD1FilesystemValidatorContext_def buildD1ReplayRegistryPort_def,
      simp add: readonly_def route_isNonceUnused_run)

interpretation route_gateway: gateway_env
  "buildD1FilesystemValidatorContext now ph (buildD1ReplayRegistryPort t)"
  "buildD1ReplayRegistryPort t" route_consumed for now ph t
  by unfold_locales

section \<open>The gateway on the route\<close>

abbreviation route_vctx :: "RequestEnv \<Rightarrow> DB FilesystemValidatorContext" where
  "route_vctx env \<equiv> buildD1FilesystemValidatorContext (ev_executed_at env) filesystemWriteGatewayPolicyHash
     (buildD1ReplayRegistryPort (ev_consumed_at env))"

lemma route_kernel_eq:
  "route_kernel env = kernel (route_vctx env) (buildD1FilesystemWriter (ev_executed_at env))
     (buildD1ReplayRegistryPort (ev_consumed_at env)) (ev_emitted_at env)"
  by (simp add: route_kernel_def Let_def)

lemma route_gateway_cases:
  assumes "run (runFilesystemWriteGatewayAction (Some intent) (route_kernel env) w) s = (s', w', res)"
  shows "(s' = s \<and> (\<exists>stage reason d. res = Inr (G_NULL stage reason d))) \<or>
     (\<exists>r aid. res = Inr (G_EXECUTED r aid) \<and> nonblank (ev_emitted_at env) \<and>
        executed_facts (route_vctx env) (buildD1ReplayRegistryPort (ev_consumed_at env)) route_consumed
          intent (buildD1FilesystemWriter (ev_executed_at env)) (ev_emitted_at env) s w s' w' r aid)"
proof (cases "nonblank (ev_emitted_at env)")
  case False
  then show ?thesis
    using assms by (auto simp: runFilesystemWriteGatewayAction_def gateway_guards_def route_kernel_eq kernel_def)
next
  case True
  note R = assms [unfolded route_kernel_eq]
  have no_unc: "res \<noteq> Inr (G_EXECUTED_UNCOMMITTED r aid)" for r aid
    using route_gateway.gateway_uncommitted [OF True, of intent _ _ _ _ w s s' w' r aid] R
    by (auto simp: buildD1ReplayRegistryPort_def route_markNonceConsumed_def)
  show ?thesis
  proof (cases "\<exists>r aid. res = Inr (G_EXECUTED r aid)")
    case True
    then obtain r aid where "res = Inr (G_EXECUTED r aid)" by blast
    then show ?thesis
      using route_gateway.gateway_executed [OF \<open>nonblank (ev_emitted_at env)\<close> R [unfolded \<open>res = _\<close>]]
        \<open>nonblank (ev_emitted_at env)\<close> by blast
  next
    case False
    then show ?thesis
      using route_gateway.gateway_not_executed [OF True R] no_unc by blast
  qed
qed

section \<open>A request on its own\<close>

definition seeded :: "RequestEnv \<Rightarrow> DB \<Rightarrow> DB" where
  "seeded env db = db
     \<lparr>decisions := fst (insert_or_ignore de_decision_id (seed_decision (ev_seeded_at env)) (decisions db)),
      objects := fst (insert_or_ignore ob_path (seed_object (ev_seeded_at env)) (objects db))\<rparr>"

lemma run_ensure: "run (ensureFilesystemWriteGatewayRegistry (ev_seeded_at env)) db = (seeded env db, ())"
  by (simp add: ensureFilesystemWriteGatewayRegistry_def seeded_def)

definition null_response :: "RequestEnv \<Rightarrow> jsval" where
  "null_response env = filesystemWriteResponse (buildBoundedNullResponse (generateCorrelationId (ev_random env)))"

definition audited :: "RequestEnv \<Rightarrow> NullPartial \<Rightarrow> DB \<Rightarrow> DB" where
  "audited env p db = db
     \<lparr>null_audit := fst (insert_or_ignore na_correlation_id (null_audit_record env p) (null_audit db))\<rparr>"

lemma run_respondBoundedNull: "run (respondBoundedNull env p) db = (audited env p db, Inr (null_response env))"
  by (simp add: respondBoundedNull_def route_appendNullAuditRecord_def audited_def null_response_def Let_def
      case_prod_unfold)

text \<open>The object row and the registries after an executed write.\<close>

definition written_row :: "RequestEnv \<Rightarrow> string \<Rightarrow> string \<Rightarrow> ObjectRow" where
  "written_row env path content =
     \<lparr>ob_path = path, ob_content = content, ob_content_hash = ''sha256:'' @ sha256Hex content,
      ob_bytes_written = int (length content), ob_updated_at = ev_persisted_at env\<rparr>"

definition proof_row :: "RequestEnv \<Rightarrow> AdapterProofReceipt \<Rightarrow> string \<Rightarrow> string \<Rightarrow> WriteProofRow" where
  "proof_row env r aid path =
     \<lparr>wp_receipt = r, wp_atao_id = aid, wp_target_path = path, wp_created_at = ev_persisted_at env\<rparr>"

definition consumed_db :: "RequestEnv \<Rightarrow> string \<Rightarrow> string \<Rightarrow> DB \<Rightarrow> DB" where
  "consumed_db env n d db = fst (run (route_markNonceConsumed (ev_consumed_at env) n d) db)"

definition object_written :: "RequestEnv \<Rightarrow> string \<Rightarrow> string \<Rightarrow> DB \<Rightarrow> DB" where
  "object_written env path content db = db
     \<lparr>objects := upsert ob_path (\<lambda>_. written_row env path content) (written_row env path content) (objects db)\<rparr>"

definition write_recorded :: "RequestEnv \<Rightarrow> AdapterProofReceipt \<Rightarrow> string \<Rightarrow> string \<Rightarrow> DB \<Rightarrow> DB" where
  "write_recorded env r aid path db = db
     \<lparr>proofs := proofs db @ [proof_row env r aid path],
      lineage := fst (insert_or_ignore wl_key
        \<lparr>wl_node = lineage_node_of r path, wl_created_at = ev_lineage_at env\<rparr> (lineage db))\<rparr>"

lemma run_route_persist:
  "run (route_persist env True r aid (path, content, int (length content))) db =
     (let db1 = object_written env path content db in
      if pr_receipt_id r \<in> wp_key ` set (proofs db) then (db1, Inl RouteConstraintFailed)
      else (write_recorded env r aid path db1,
            Inr (executed_response ''EXECUTED'' r (path, content, int (length content))
              (Some (if ''lineage:'' @ pr_receipt_id r \<in> wl_key ` set (lineage db) then ''ALREADY_EXISTS'' else ''APPENDED'')))))"
  by (auto simp: route_persist_def persist_object_def persist_proof_def route_appendLineageNode_def Let_def
      insert_unique_def insert_or_ignore_def wp_key_def wl_key_def lineage_node_of_def object_written_def
      written_row_def write_recorded_def proof_row_def)

text \<open>
  What an executed request did. \<open>db0\<close> is the database after seeding; \<open>c\<close> is the canonical AEO.
\<close>

definition executed_write :: "RequestEnv \<Rightarrow> RouteFields \<Rightarrow> DB \<Rightarrow> CanonicalAEO \<Rightarrow> AdapterProofReceipt \<Rightarrow> string \<Rightarrow> bool" where
  "executed_write env f db0 c r aid \<longleftrightarrow>
     (\<exists>row ob atao aeo np fr.
        lookup_row de_decision_id (rf_decision_id f) (decisions db0) = Some row \<and> de_status row = ''ACTIVE'' \<and>
        lookup_row ob_path (rf_path f) (objects db0) = Some ob \<and>
        gateway_prepare (route_intent env f row (ob_content_hash ob)) = Inr (atao, aeo, c, objectHash (canonical_js c)) \<and>
        aid = at_atao_id atao \<and> \<not> route_consumed db0 (rf_replay_nonce f) \<and>
        normalizeGovernedFilesystemPath (rf_path f) = Obs np \<and> np = rf_path f \<and>
        path_authorized (gateway_policy filesystemWriteGatewayPolicyHash) np (ft_operation (fa_target aeo)) \<and>
        r = gateway_receipt c (ev_emitted_at env) fr)"

lemma route_intent_prepared:
  assumes "gateway_prepare (route_intent env f row pre) = Inr (atao, aeo, c, h)"
  shows "at_path atao = rf_path f" "at_content atao = rf_content f"
    "fv_replay_nonce (fa_validation aeo) = rf_replay_nonce f"
    "fv_decision_id (fa_validation aeo) = rf_decision_id f" "fv_pre_write_hash (fa_validation aeo) = pre"
    "ft_operation (fa_target aeo) = (if nonblank pre then ''modify'' else ''create'')"
    "ft_path (fa_target aeo) = rf_path f"
    "fv_authority_lineage_hash (fa_validation aeo) = de_authority_lineage_hash row"
proof -
  have C: "captureFilesystemWriteATAO (in_atao_input (route_intent env f row pre)) = Some atao"
    and A: "compileFilesystemWriteAEO (Some atao) (in_binding (route_intent env f row pre)) = Some aeo"
    using assms by (auto simp: gateway_prepare_Inr)
  show P: "at_path atao = rf_path f" and "at_content atao = rf_content f"
    using C unfolding capture_Some by (simp_all add: route_intent_def)
  note B = compile_Some [OF A]
  show N: "fv_pre_write_hash (fa_validation aeo) = pre" "fv_replay_nonce (fa_validation aeo) = rf_replay_nonce f"
    "fv_decision_id (fa_validation aeo) = rf_decision_id f"
    "fv_authority_lineage_hash (fa_validation aeo) = de_authority_lineage_hash row"
    using B(4,5,8,9) by (simp_all add: route_intent_def)
  show "ft_operation (fa_target aeo) = (if nonblank pre then ''modify'' else ''create'')"
    "ft_path (fa_target aeo) = rf_path f"
    using B(2,3) N P by simp_all
qed

lemma omega_fields_aeo_js:
  assumes "omega_fields (aeo_js aeo) = Some f"
  shows "of_decision_id f = fv_decision_id (fa_validation aeo)" "of_path f = ft_path (fa_target aeo)"
    "of_operation f = ft_operation (fa_target aeo)" "of_nonce f = fv_replay_nonce (fa_validation aeo)"
    "of_pre f = fv_pre_write_hash (fa_validation aeo)" "fv_pre_write_hash (fa_validation aeo) \<noteq> []"
    "of_lineage f = fv_authority_lineage_hash (fa_validation aeo)"
  using assms
  by (simp_all add: omega_fields_Some req_str_Some validation_js_def target_js_def)

lemma gateway_executed_write:
  assumes "executed_facts (route_vctx env) (buildD1ReplayRegistryPort (ev_consumed_at env)) route_consumed
      (route_intent env f row pre) (buildD1FilesystemWriter (ev_executed_at env)) (ev_emitted_at env) db0 w db1 w' r aid"
    and "lookup_row de_decision_id (rf_decision_id f) (decisions db0) = Some row"
    and "pre = (case lookup_row ob_path (rf_path f) (objects db0) of None \<Rightarrow> [] | Some ob \<Rightarrow> ob_content_hash ob)"
  shows "db1 = consumed_db env (rf_replay_nonce f) (rf_decision_id f) db0 \<and>
     w' = Some (rf_path f, rf_content f, int (length (rf_content f))) \<and> (\<exists>c. executed_write env f db0 c r aid)"
proof -
  from assms(1) obtain atao aeo c g np fr where
    P: "gateway_prepare (route_intent env f row pre) = Inr (atao, aeo, c, objectHash (canonical_js c))"
    and id: "aid = at_atao_id atao" and nc: "\<not> route_consumed db0 (fv_replay_nonce (fa_validation aeo))"
    and F: "omega_fields (aeo_js aeo) = Some g" and Au: "omega_authorized (route_vctx env) g db0 np"
    and Fr: "omega_fresh (route_vctx env) (aeo_js aeo) g db0 np"
    and W: "buildD1FilesystemWriter (ev_executed_at env) (at_path atao) (at_content atao) w = (w', Some fr)"
    and r: "r = gateway_receipt c (ev_emitted_at env) fr"
    and db1: "db1 = fst (run (markNonceConsumed (buildD1ReplayRegistryPort (ev_consumed_at env))
        (fv_replay_nonce (fa_validation aeo)) (fv_decision_id (fa_validation aeo))) db0)"
    unfolding executed_facts_def by auto
  note I = route_intent_prepared [OF P] and O = omega_fields_aeo_js [OF F]
  have "pre \<noteq> []" using I O by simp
  with assms(3) obtain ob where ob: "lookup_row ob_path (rf_path f) (objects db0) = Some ob" "pre = ob_content_hash ob"
    by (auto split: option.splits)
  have np: "normalizeGovernedFilesystemPath (rf_path f) = Obs np" "np = rf_path f"
    using Au I O by (auto simp: omega_authorized_def buildD1FilesystemValidatorContext_def
        normalizeGovernedFilesystemPath_def unseen_def split: if_splits)
  have act: "de_status row = ''ACTIVE''" "path_authorized (gateway_policy filesystemWriteGatewayPolicyHash) np (of_operation g)"
    using Au I O assms(2) by (auto simp: omega_authorized_def buildD1FilesystemValidatorContext_def)
  have "\<exists>c. executed_write env f db0 c r aid"
    unfolding executed_write_def
    using assms(2) act ob P id nc np r I O by auto
  moreover have "db1 = consumed_db env (rf_replay_nonce f) (rf_decision_id f) db0"
    using db1 I by (simp add: consumed_db_def buildD1ReplayRegistryPort_def)
  moreover have "w' = Some (rf_path f, rf_content f, int (length (rf_content f)))"
    using W I by (simp add: buildD1FilesystemWriter_def)
  ultimately show ?thesis by blast
qed

text \<open>
  A request on its own: a bounded denial that touches the audit log only, or an executed write.
  In the second case the write is recorded unless its receipt id is already in the proof
  registry, when the insertion of the proof throws.
\<close>

definition denied_outcome :: "RequestEnv \<Rightarrow> DB \<Rightarrow> DB \<times> (route_error + jsval) \<Rightarrow> bool" where
  "denied_outcome env db0 out \<longleftrightarrow> (\<exists>p. out = (audited env p db0, Inr (null_response env)))"

definition executed_outcome :: "RequestEnv \<Rightarrow> RouteFields \<Rightarrow> DB \<Rightarrow> DB \<times> (route_error + jsval) \<Rightarrow> bool" where
  "executed_outcome env f db0 out \<longleftrightarrow>
     (\<exists>c r aid st. executed_write env f db0 c r aid \<and>
        (let db1 = consumed_db env (rf_replay_nonce f) (rf_decision_id f) db0;
             db2 = object_written env (rf_path f) (rf_content f) db1 in
         out = (if pr_receipt_id r \<in> wp_key ` set (proofs db0) then (db2, Inl RouteConstraintFailed)
                else (write_recorded env r aid (rf_path f) db2,
                      Inr (executed_response ''EXECUTED'' r
                        (rf_path f, rf_content f, int (length (rf_content f))) (Some st))))))"

lemma consumed_db_tables [simp]:
  "proofs (consumed_db env n d db) = proofs db" "lineage (consumed_db env n d db) = lineage db"
  "objects (consumed_db env n d db) = objects db" "null_audit (consumed_db env n d db) = null_audit db"
  "decisions (consumed_db env n d db) = decisions db"
  by (simp_all add: consumed_db_def route_markNonceConsumed_def)

definition nonce_mismatch :: "RouteFields \<Rightarrow> DB \<Rightarrow> bool" where
  "nonce_mismatch f db \<longleftrightarrow>
     (case lookup_row wn_replay_nonce (rf_replay_nonce f) (nonces db) of
        None \<Rightarrow> False | Some nr \<Rightarrow> wn_decision_id nr \<noteq> rf_decision_id f)"

definition pre_hash :: "RouteFields \<Rightarrow> DB \<Rightarrow> string" where
  "pre_hash f db = (case lookup_row ob_path (rf_path f) (objects db) of None \<Rightarrow> [] | Some ob \<Rightarrow> ob_content_hash ob)"

lemma run_route_execute_Some:
  assumes "lookup_row de_decision_id (rf_decision_id f) (decisions db0) = Some row"
  shows "run (route_execute env f) db0 =
    (if nonce_mismatch f db0
     then (audited env (denied f ''validate'' ''replay_nonce_decision_mismatch'') db0, Inr (null_response env))
     else case run (runFilesystemWriteGatewayAction (Some (route_intent env f row (pre_hash f db0))) (route_kernel env) None) db0 of
       (db1, wo) \<Rightarrow> run (route_finish env f wo) db1)"
  using assms by (simp add: route_execute_def run_respondBoundedNull nonce_mismatch_def pre_hash_def Let_def)

lemma route_execute_executed:
  assumes "lookup_row de_decision_id (rf_decision_id f) (decisions db0) = Some row" and "\<not> nonce_mismatch f db0"
    and G: "run (runFilesystemWriteGatewayAction (Some (route_intent env f row (pre_hash f db0))) (route_kernel env) None) db0
      = (db1, w', Inr (G_EXECUTED r aid))"
  shows "executed_outcome env f db0 (run (route_execute env f) db0)"
proof -
  from route_gateway_cases [OF G] have
    X: "executed_facts (route_vctx env) (buildD1ReplayRegistryPort (ev_consumed_at env)) route_consumed
          (route_intent env f row (pre_hash f db0)) (buildD1FilesystemWriter (ev_executed_at env)) (ev_emitted_at env)
          db0 None db1 w' r aid" by auto
  from gateway_executed_write [OF X assms(1) pre_hash_def] obtain c where
    E: "db1 = consumed_db env (rf_replay_nonce f) (rf_decision_id f) db0"
      "w' = Some (rf_path f, rf_content f, int (length (rf_content f)))" "executed_write env f db0 c r aid"
    by blast
  then show ?thesis
    unfolding executed_outcome_def run_route_execute_Some [OF assms(1)] G
    using assms(2)
    by (intro exI [of _ c] exI [of _ r] exI [of _ aid]
        exI [of _ "if ''lineage:'' @ pr_receipt_id r \<in> wl_key ` set (lineage db0) then ''ALREADY_EXISTS'' else ''APPENDED''"])
       (simp add: route_finish_def route_captured_def run_route_persist Let_def)
qed

lemma run_route_execute:
  "denied_outcome env db0 (run (route_execute env f) db0) \<or> executed_outcome env f db0 (run (route_execute env f) db0)"
proof (cases "lookup_row de_decision_id (rf_decision_id f) (decisions db0)")
  case None
  then show ?thesis by (auto simp: route_execute_def run_respondBoundedNull denied_outcome_def)
next
  case (Some row)
  obtain db1 w' res where G: "run (runFilesystemWriteGatewayAction (Some (route_intent env f row (pre_hash f db0))) (route_kernel env) None) db0
      = (db1, w', res)" by (metis prod_cases3)
  note R = run_route_execute_Some [OF Some, of env]
  consider (mis) "nonce_mismatch f db0"
    | (null) stage reason d where "\<not> nonce_mismatch f db0" "db1 = db0" "res = Inr (G_NULL stage reason d)"
    | (exec) r aid where "\<not> nonce_mismatch f db0" "res = Inr (G_EXECUTED r aid)"
    using route_gateway_cases [OF G] by blast
  then show ?thesis
  proof cases
    case mis
    then show ?thesis by (auto simp: R denied_outcome_def)
  next
    case null
    then show ?thesis
      using G by (auto simp: R route_finish_def run_respondBoundedNull denied_outcome_def)
  next
    case exec
    then show ?thesis using route_execute_executed [OF Some exec(1)] G by simp
  qed
qed

lemma handle_outcome:
  "denied_outcome env (seeded env db) (run (handleFilesystemWriteRoute env b) db) \<or>
   (isObjectOrArray b \<and> \<not> route_missing (route_fields b) \<and>
    executed_outcome env (route_fields b) (seeded env db) (run (handleFilesystemWriteRoute env b) db))"
proof (cases "isObjectOrArray b \<and> \<not> route_missing (route_fields b)")
  case True
  then have "run (handleFilesystemWriteRoute env b) db = run (route_execute env (route_fields b)) (seeded env db)"
    by (simp add: handleFilesystemWriteRoute_def run_ensure Let_def)
  with True run_route_execute [of env "seeded env db" "route_fields b"] show ?thesis by auto
next
  case False
  then show ?thesis
    by (auto simp: handleFilesystemWriteRoute_def run_ensure run_respondBoundedNull denied_outcome_def Let_def)
qed

section \<open>Consequences of the two outcomes\<close>

lemma null_response_result [simp]: "js_get (null_response env) ''result'' = JStr ''NULL''"
  by (simp add: null_response_def filesystemWriteResponse_def buildBoundedNullResponse_def)

lemma executed_response_result [simp]:
  "js_get (executed_response x r cap st) ''result'' = JStr x"
  by (cases cap) (simp add: executed_response_def filesystemWriteResponse_def)

lemma lookup_object_written:
  "lookup_row ob_path p (objects (object_written env path content db)) =
     (if p = path then Some (written_row env path content) else lookup_row ob_path p (objects db))"
  by (simp add: object_written_def lookup_row_upsert written_row_def split: option.splits)

lemma object_written_tables [simp]:
  "proofs (object_written env p c db) = proofs db" "lineage (object_written env p c db) = lineage db"
  "nonces (object_written env p c db) = nonces db" "null_audit (object_written env p c db) = null_audit db"
  "decisions (object_written env p c db) = decisions db"
  by (simp_all add: object_written_def)

lemma write_recorded_tables [simp]:
  "proofs (write_recorded env r aid p db) = proofs db @ [proof_row env r aid p]"
  "nonces (write_recorded env r aid p db) = nonces db" "objects (write_recorded env r aid p db) = objects db"
  "null_audit (write_recorded env r aid p db) = null_audit db" "decisions (write_recorded env r aid p db) = decisions db"
  by (simp_all add: write_recorded_def)

lemma audited_tables [simp]:
  "nonces (audited env p db) = nonces db" "objects (audited env p db) = objects db"
  "proofs (audited env p db) = proofs db" "lineage (audited env p db) = lineage db"
  "decisions (audited env p db) = decisions db"
  by (simp_all add: audited_def)

lemma seeded_tables [simp]:
  "nonces (seeded env db) = nonces db" "proofs (seeded env db) = proofs db" "lineage (seeded env db) = lineage db"
  "null_audit (seeded env db) = null_audit db"
  by (simp_all add: seeded_def)

lemma route_consumed_nonces: "nonces db = nonces db' \<Longrightarrow> route_consumed db = route_consumed db'"
  by (simp add: route_consumed_def fun_eq_iff)

lemma consumed_db_consumed: "route_consumed (consumed_db env n d db) m \<longleftrightarrow> m = n \<or> route_consumed db m"
  by (auto simp: consumed_db_def route_consumed_def route_mark_nonces split: option.splits)

lemma gateway_receipt_sound:
  "pr_validated_object_hash (gateway_receipt c em fr) = objectHash (canonical_js c)"
  "pr_executed_object_hash (gateway_receipt c em fr) = objectHash (canonical_js c)"
  "pr_receipt_id (gateway_receipt c em fr) = objectHash (receipt_body (gateway_receipt c em fr))"
  "\<not> pr_creates_authority (gateway_receipt c em fr)"
  by (simp_all add: gateway_receipt_def ewa_receipt_def Let_def receipt_body_def)

lemma executed_outcome_consumes:
  assumes "executed_outcome env f db0 (db', res)"
  shows "\<not> route_consumed db0 (rf_replay_nonce f)"
    and "route_consumed db' m \<longleftrightarrow> m = rf_replay_nonce f \<or> route_consumed db0 m"
proof -
  show "\<not> route_consumed db0 (rf_replay_nonce f)"
    using assms by (auto simp: executed_outcome_def executed_write_def)
  let ?db1 = "consumed_db env (rf_replay_nonce f) (rf_decision_id f) db0"
  have "nonces db' = nonces ?db1"
    using assms by (auto simp: executed_outcome_def Let_def split: if_splits)
  then show "route_consumed db' m \<longleftrightarrow> m = rf_replay_nonce f \<or> route_consumed db0 m"
    by (simp add: route_consumed_nonces [of db' ?db1] consumed_db_consumed)
qed

section \<open>Acceptance\<close>

text \<open>The conditions under which a request is executed.\<close>

definition env_ok :: "RequestEnv \<Rightarrow> bool" where
  "env_ok env \<longleftrightarrow> nonblank (ev_timestamp env) \<and> nonblank (ev_emitted_at env) \<and> nonblank (ev_executed_at env)"

definition acceptable :: "RouteFields \<Rightarrow> DB \<Rightarrow> bool" where
  "acceptable f db0 \<longleftrightarrow>
     nonblank (rf_agent_id f) \<and> nonblank (rf_session_id f) \<and> nonblank (rf_intent f) \<and> nonblank (rf_path f) \<and>
     nonblank (rf_decision_id f) \<and> nonblank (rf_replay_nonce f) \<and>
     (\<exists>row. lookup_row de_decision_id (rf_decision_id f) (decisions db0) = Some row \<and> de_status row = ''ACTIVE'' \<and>
            nonblank (de_authority_lineage_hash row)) \<and>
     (\<exists>ob. lookup_row ob_path (rf_path f) (objects db0) = Some ob \<and> nonblank (ob_content_hash ob)) \<and>
     \<not> nonce_mismatch f db0 \<and> \<not> route_consumed db0 (rf_replay_nonce f) \<and>
     normalizeGovernedFilesystemPath (rf_path f) = Obs (rf_path f) \<and>
     path_authorized (gateway_policy filesystemWriteGatewayPolicyHash) (rf_path f) ''modify''"

lemma nonblank_policy_hash: "nonblank filesystemWriteGatewayPolicyHash"
  by (simp add: filesystemWriteGatewayPolicyHash_def)

lemma route_intent_prepares:
  assumes "env_ok env" "acceptable f db0"
    and "lookup_row de_decision_id (rf_decision_id f) (decisions db0) = Some row"
  obtains atao aeo c where
    "gateway_prepare (route_intent env f row pre) = Inr (atao, aeo, c, objectHash (canonical_js c))"
    "omega_fields (aeo_js aeo) = (if pre = [] then None else Some
       \<lparr>of_decision_id = rf_decision_id f, of_lineage = de_authority_lineage_hash row,
        of_policy_id = FILESYSTEM_WRITE_GATEWAY_POLICY_ID, of_policy_hash = filesystemWriteGatewayPolicyHash,
        of_path = rf_path f, of_operation = (if nonblank pre then ''modify'' else ''create''),
        of_nonce = rf_replay_nonce f, of_pre = pre\<rparr>)"
    "fv_proposed_diff_hash (fa_validation aeo) = []"
proof -
  have nb: "nonblank (rf_agent_id f)" "nonblank (rf_session_id f)" "nonblank (rf_intent f)" "nonblank (rf_path f)"
    "nonblank (rf_decision_id f)" "nonblank (rf_replay_nonce f)" "nonblank (de_authority_lineage_hash row)"
    using assms(2,3) by (auto simp: acceptable_def)
  have C: "captureFilesystemWriteATAO (in_atao_input (route_intent env f row pre)) \<noteq> None"
    using nb assms(1)
    by (simp add: captureFilesystemWriteATAO_def route_intent_def nonblank_field_def env_ok_def js_ws_def Let_def)
  then obtain atao where atao: "captureFilesystemWriteATAO (in_atao_input (route_intent env f row pre)) = Some atao" by blast
  have "compileFilesystemWriteAEO (Some atao) (in_binding (route_intent env f row pre)) \<noteq> None"
    using nb nonblank_policy_hash
    by (simp add: compileFilesystemWriteAEO_def route_intent_def nonblank_field_def as_arr_def req_num_def
        gateway_allowed_paths_def gateway_allowed_operations_def FILESYSTEM_WRITE_GATEWAY_POLICY_ID_def js_ws_def)
  then obtain aeo where aeo: "compileFilesystemWriteAEO (Some atao) (in_binding (route_intent env f row pre)) = Some aeo" by blast
  obtain c h ctx where c: "compileCanonicalAEOFromFilesystem (Some aeo) = Inr (c, h, ctx)"
    using compileCanonical_total [OF compile_Some(11) [OF aeo]] by blast
  have P: "gateway_prepare (route_intent env f row pre) = Inr (atao, aeo, c, objectHash (canonical_js c))"
    unfolding gateway_prepare_Inr using atao aeo c compileCanonical_valid(1) [OF c] by blast
  note B = compile_Some [OF aeo] and I = route_intent_prepared [OF P]
  have D: "fv_policy_id (fa_validation aeo) = FILESYSTEM_WRITE_GATEWAY_POLICY_ID"
    "fv_policy_hash (fa_validation aeo) = filesystemWriteGatewayPolicyHash"
    "fv_proposed_diff_hash (fa_validation aeo) = []"
    using B(6,7,10) by (simp_all add: route_intent_def)
  have nn: "rf_decision_id f \<noteq> []" "de_authority_lineage_hash row \<noteq> []" "rf_path f \<noteq> []" "rf_replay_nonce f \<noteq> []"
    "filesystemWriteGatewayPolicyHash \<noteq> []" "FILESYSTEM_WRITE_GATEWAY_POLICY_ID \<noteq> []"
    using nb nonblank_policy_hash by (auto simp: FILESYSTEM_WRITE_GATEWAY_POLICY_ID_def)
  have "omega_fields (aeo_js aeo) = (if pre = [] then None else Some
       \<lparr>of_decision_id = rf_decision_id f, of_lineage = de_authority_lineage_hash row,
        of_policy_id = FILESYSTEM_WRITE_GATEWAY_POLICY_ID, of_policy_hash = filesystemWriteGatewayPolicyHash,
        of_path = rf_path f, of_operation = (if nonblank pre then ''modify'' else ''create''),
        of_nonce = rf_replay_nonce f, of_pre = pre\<rparr>)"
    using I D nn B(14)
    by (simp add: omega_fields_def req_str_def validation_js_def target_js_def finality_js_def
        filesystem_write_finality_def Let_def)
  with P D(3) that show thesis by blast
qed

lemma gateway_verdict:
  assumes "env_ok env" "acceptable f db0"
    and row: "lookup_row de_decision_id (rf_decision_id f) (decisions db0) = Some row"
  obtains atao aeo c where
    "gateway_prepare (route_intent env f row (pre_hash f db0)) = Inr (atao, aeo, c, objectHash (canonical_js c))"
    "observe (validateFilesystemAEO (aeo_js aeo) (route_vctx env) None) db0 = V_VALID (objectHash (aeo_js aeo))"
    "\<not> route_consumed db0 (cv_replay_nonce (ca_validation c))"
proof -
  let ?pre = "pre_hash f db0"
  obtain ob where ob: "lookup_row ob_path (rf_path f) (objects db0) = Some ob" "nonblank (ob_content_hash ob)"
    using assms(2) by (auto simp: acceptable_def)
  then have pre: "?pre = ob_content_hash ob" "nonblank ?pre" "?pre \<noteq> []" by (auto simp: pre_hash_def)
  from route_intent_prepares [OF assms, of ?pre] obtain atao aeo c where
    P: "gateway_prepare (route_intent env f row ?pre) = Inr (atao, aeo, c, objectHash (canonical_js c))"
    and F: "omega_fields (aeo_js aeo) = Some
       \<lparr>of_decision_id = rf_decision_id f, of_lineage = de_authority_lineage_hash row,
        of_policy_id = FILESYSTEM_WRITE_GATEWAY_POLICY_ID, of_policy_hash = filesystemWriteGatewayPolicyHash,
        of_path = rf_path f, of_operation = ''modify'', of_nonce = rf_replay_nonce f, of_pre = ?pre\<rparr>" (is "_ = Some ?g")
    and diff: "fv_proposed_diff_hash (fa_validation aeo) = []"
    using pre(2,3) by auto
  have Ac: "de_status row = ''ACTIVE''" "\<not> route_consumed db0 (rf_replay_nonce f)"
    "normalizeGovernedFilesystemPath (rf_path f) = Obs (rf_path f)"
    "path_authorized (gateway_policy filesystemWriteGatewayPolicyHash) (rf_path f) ''modify''"
    using assms(2) row by (auto simp: acceptable_def)
  have "omega_authorized (route_vctx env) ?g db0 (rf_path f)"
    using Ac row by (simp add: omega_authorized_def buildD1FilesystemValidatorContext_def gateway_policy_def)
  moreover have "omega_fresh (route_vctx env) (aeo_js aeo) ?g db0 (rf_path f)"
    using Ac(2) ob pre
    by (simp add: omega_fresh_def buildD1FilesystemValidatorContext_def buildD1ReplayRegistryPort_def
        observe_def route_isNonceUnused_run)
  moreover have "omega_diff_ok (route_vctx env) (aeo_js aeo) ?g db0 (rf_path f)"
    by (simp add: omega_diff_ok_def buildD1FilesystemValidatorContext_def)
  ultimately have V: "observe (validateFilesystemAEO (aeo_js aeo) (route_vctx env) None) db0 = V_VALID (objectHash (aeo_js aeo))"
    using F route_reads.validate_VALID_iff [of "aeo_js aeo" "ev_executed_at env" filesystemWriteGatewayPolicyHash
        "ev_consumed_at env" None db0 db0 "objectHash (aeo_js aeo)"]
    by (auto simp: observe_def)
  have N: "\<not> route_consumed db0 (cv_replay_nonce (ca_validation c))"
    using Ac(2) prepared_path(5) [OF P] route_intent_prepared(3) [OF P] by simp
  with that P V show thesis by blast
qed

lemma gateway_accepts:
  assumes "env_ok env" "acceptable f db0"
    and row: "lookup_row de_decision_id (rf_decision_id f) (decisions db0) = Some row"
  shows "\<exists>db1 w' r aid. run (runFilesystemWriteGatewayAction (Some (route_intent env f row (pre_hash f db0)))
           (route_kernel env) None) db0 = (db1, w', Inr (G_EXECUTED r aid))"
proof -
  obtain atao aeo c where
    P: "gateway_prepare (route_intent env f row (pre_hash f db0)) = Inr (atao, aeo, c, objectHash (canonical_js c))"
    and V: "observe (validateFilesystemAEO (aeo_js aeo) (route_vctx env) None) db0 = V_VALID (objectHash (aeo_js aeo))"
    and N: "\<not> route_consumed db0 (cv_replay_nonce (ca_validation c))"
    using gateway_verdict [OF assms] by blast
  have em: "nonblank (ev_emitted_at env)" "nonblank (ev_executed_at env)" using assms(1) by (simp_all add: env_ok_def)
  show ?thesis
    unfolding route_kernel_eq route_gateway.run_gateway [OF em(1)]
    using P N V em(2) prepared_execute [OF P em(1), of "buildD1FilesystemWriter (ev_executed_at env)" None]
    by (simp add: Let_def buildD1FilesystemWriter_def gateway_commit_def buildD1ReplayRegistryPort_def
        route_markNonceConsumed_def js_ws_def)
qed

lemma route_execute_accepts:
  assumes "env_ok env" "acceptable f db0"
  shows "executed_outcome env f db0 (run (route_execute env f) db0)"
proof -
  obtain row where row: "lookup_row de_decision_id (rf_decision_id f) (decisions db0) = Some row"
    using assms(2) by (auto simp: acceptable_def)
  moreover have "\<not> nonce_mismatch f db0" using assms(2) by (simp add: acceptable_def)
  ultimately show ?thesis
    using gateway_accepts [OF assms row] route_execute_executed by blast
qed

section \<open>A concrete request\<close>

definition empty_db :: DB where
  "empty_db = \<lparr>objects = [], decisions = [], nonces = [], proofs = [], lineage = [], null_audit = []\<rparr>"

definition sample_env :: RequestEnv where
  "sample_env =
     \<lparr>ev_seeded_at = ''t0'', ev_timestamp = ''t1'', ev_emitted_at = ''t2'', ev_executed_at = ''t3'',
      ev_consumed_at = ''t4'', ev_persisted_at = ''t5'', ev_lineage_at = ''t6'', ev_audited_at = ''t7'',
      ev_random = [0, 255]\<rparr>"

definition sample_body :: "string \<Rightarrow> string \<Rightarrow> jsval" where
  "sample_body path content = JObj (map (map_prod id JStr)
     [(''agent_id'', ''agent''), (''session_id'', ''s''), (''intent'', ''update''), (''path'', path),
      (''content'', content), (''replay_nonce'', ''n1'')])"

lemma sample_fields:
  assumes "path \<noteq> []"
  shows "route_fields (sample_body path content) =
     \<lparr>rf_agent_id = ''agent'', rf_session_id = ''s'', rf_intent = ''update'', rf_path = path,
      rf_content = content, rf_decision_id = FILESYSTEM_WRITE_GATEWAY_DECISION_ID, rf_replay_nonce = ''n1''\<rparr>"
  using assms by (simp add: route_fields_def sample_body_def js_String_or_def)

lemma seed_path_ok:
  "normalizeGovernedFilesystemPath FILESYSTEM_WRITE_GATEWAY_SEED_PATH = Obs FILESYSTEM_WRITE_GATEWAY_SEED_PATH"
  "path_authorized (gateway_policy h) FILESYSTEM_WRITE_GATEWAY_SEED_PATH ''modify''"
proof -
  show "normalizeGovernedFilesystemPath FILESYSTEM_WRITE_GATEWAY_SEED_PATH = Obs FILESYSTEM_WRITE_GATEWAY_SEED_PATH"
    by code_simp
  show "path_authorized (gateway_policy h) FILESYSTEM_WRITE_GATEWAY_SEED_PATH ''modify''"
    unfolding path_authorized_def gateway_policy_def PolicyRecord.simps by code_simp
qed

lemma sample_acceptable:
  "acceptable (route_fields (sample_body FILESYSTEM_WRITE_GATEWAY_SEED_PATH content)) (seeded env empty_db)"
proof -
  have "FILESYSTEM_WRITE_GATEWAY_SEED_PATH \<noteq> []" by (simp add: FILESYSTEM_WRITE_GATEWAY_SEED_PATH_def)
  note F = sample_fields [OF this, of content]
  have "nonblank FILESYSTEM_WRITE_GATEWAY_SEED_PATH" "nonblank FILESYSTEM_WRITE_GATEWAY_DECISION_ID"
    by (simp_all add: FILESYSTEM_WRITE_GATEWAY_SEED_PATH_def FILESYSTEM_WRITE_GATEWAY_DECISION_ID_def js_ws_def)
  then show ?thesis
    unfolding acceptable_def F
    by (simp add: seed_path_ok nonce_mismatch_def route_consumed_def seeded_def empty_db_def lookup_row_def
        insert_or_ignore_def seed_decision_def seed_object_def js_ws_def)
qed

lemma sample_env_ok: "env_ok sample_env"
  by (simp add: env_ok_def sample_env_def js_ws_def)

lemma sample_not_missing:
  "isObjectOrArray (sample_body FILESYSTEM_WRITE_GATEWAY_SEED_PATH content) \<and>
   \<not> route_missing (route_fields (sample_body FILESYSTEM_WRITE_GATEWAY_SEED_PATH content))"
proof -
  have "FILESYSTEM_WRITE_GATEWAY_SEED_PATH \<noteq> []" by (simp add: FILESYSTEM_WRITE_GATEWAY_SEED_PATH_def)
  then show ?thesis by (simp add: sample_fields route_missing_def) (simp add: sample_body_def)
qed

lemma sample_run_executed:
  "\<exists>db' resp. run (handleFilesystemWriteRoute sample_env (sample_body FILESYSTEM_WRITE_GATEWAY_SEED_PATH content)) empty_db
     = (db', Inr resp) \<and> js_get resp ''result'' = JStr ''EXECUTED''"
proof -
  let ?b = "sample_body FILESYSTEM_WRITE_GATEWAY_SEED_PATH content"
  have "run (handleFilesystemWriteRoute sample_env ?b) empty_db =
      run (route_execute sample_env (route_fields ?b)) (seeded sample_env empty_db)"
    using sample_not_missing by (simp add: handleFilesystemWriteRoute_def run_ensure Let_def)
  with route_execute_accepts [OF sample_env_ok sample_acceptable]
  have "executed_outcome sample_env (route_fields ?b) (seeded sample_env empty_db)
      (run (handleFilesystemWriteRoute sample_env ?b) empty_db)" by simp
  then show ?thesis by (auto simp: executed_outcome_def Let_def empty_db_def split: if_splits)
qed

section \<open>Properties of a request on its own\<close>

text \<open>
  C1. The exact-object guarantee of the route: an \<^verbatim>\<open>EXECUTED\<close> response means that one proof was
  appended whose validated hash and executed hash are both the hash of one canonical AEO for
  the requested path, nonce and decision, that the decision is active, that the nonce was
  unused before and is consumed afterwards, that exactly the object at the requested path
  changed and now holds the requested content with its hash, and that nothing was audited.
\<close>

theorem route_executed_exact_object:
  assumes "run (handleFilesystemWriteRoute env b) db = (db', Inr resp)"
    and "js_get resp ''result'' = JStr ''EXECUTED''"
    and "f = route_fields b" and "db0 = seeded env db"
  shows "(\<exists>c r aid. proofs db' = proofs db0 @ [proof_row env r aid (rf_path f)] \<and>
       pr_validated_object_hash r = objectHash (canonical_js c) \<and>
       pr_executed_object_hash r = objectHash (canonical_js c) \<and>
       pr_receipt_id r = objectHash (receipt_body r) \<and> \<not> pr_creates_authority r \<and>
       ct_path (ca_target c) = rf_path f \<and> cv_replay_nonce (ca_validation c) = rf_replay_nonce f \<and>
       cv_decision_id (ca_validation c) = rf_decision_id f) \<and>
     (\<exists>row. lookup_row de_decision_id (rf_decision_id f) (decisions db0) = Some row \<and> de_status row = ''ACTIVE'') \<and>
     \<not> route_consumed db0 (rf_replay_nonce f) \<and> route_consumed db' (rf_replay_nonce f) \<and>
     lookup_row ob_path (rf_path f) (objects db') = Some (written_row env (rf_path f) (rf_content f)) \<and>
     (\<forall>p. p = rf_path f \<or> lookup_row ob_path p (objects db') = lookup_row ob_path p (objects db0)) \<and>
     null_audit db' = null_audit db0"
proof -
  have O: "executed_outcome env f db0 (db', Inr resp)"
    using handle_outcome [of env db b] assms by (auto simp: denied_outcome_def)
  then obtain c r aid where W: "executed_write env f db0 c r aid"
    and db': "db' = write_recorded env r aid (rf_path f)
        (object_written env (rf_path f) (rf_content f) (consumed_db env (rf_replay_nonce f) (rf_decision_id f) db0))"
    by (auto simp: executed_outcome_def Let_def split: if_splits)
  from W obtain row ob atao aeo fr where
    row: "lookup_row de_decision_id (rf_decision_id f) (decisions db0) = Some row" "de_status row = ''ACTIVE''"
    and "lookup_row ob_path (rf_path f) (objects db0) = Some ob"
    and P: "gateway_prepare (route_intent env f row (ob_content_hash ob)) = Inr (atao, aeo, c, objectHash (canonical_js c))"
    and r: "r = gateway_receipt c (ev_emitted_at env) fr"
    unfolding executed_write_def by blast
  have "ct_path (ca_target c) = rf_path f" "cv_replay_nonce (ca_validation c) = rf_replay_nonce f"
    "cv_decision_id (ca_validation c) = rf_decision_id f"
    using prepared_path [OF P] route_intent_prepared [OF P] by simp_all
  moreover note gateway_receipt_sound [of c "ev_emitted_at env" fr, folded r]
  moreover have "proofs db' = proofs db0 @ [proof_row env r aid (rf_path f)]" by (simp add: db')
  ultimately show ?thesis
    using row executed_outcome_consumes [OF O] by (auto simp: db' lookup_object_written)
qed

theorem route_executed_exact_object_witness:
  "\<exists>db' resp. run (handleFilesystemWriteRoute sample_env (sample_body FILESYSTEM_WRITE_GATEWAY_SEED_PATH ''new'')) empty_db
     = (db', Inr resp) \<and> route_consumed db' ''n1'' \<and>
     lookup_row ob_path FILESYSTEM_WRITE_GATEWAY_SEED_PATH (objects db') =
       Some (written_row sample_env FILESYSTEM_WRITE_GATEWAY_SEED_PATH ''new'')"
proof -
  let ?b = "sample_body FILESYSTEM_WRITE_GATEWAY_SEED_PATH ''new''"
  obtain db' resp where R: "run (handleFilesystemWriteRoute sample_env ?b) empty_db = (db', Inr resp)"
    "js_get resp ''result'' = JStr ''EXECUTED''" using sample_run_executed by blast
  have "route_fields ?b = \<lparr>rf_agent_id = ''agent'', rf_session_id = ''s'', rf_intent = ''update'',
      rf_path = FILESYSTEM_WRITE_GATEWAY_SEED_PATH, rf_content = ''new'',
      rf_decision_id = FILESYSTEM_WRITE_GATEWAY_DECISION_ID, rf_replay_nonce = ''n1''\<rparr>"
    by (rule sample_fields) (simp add: FILESYSTEM_WRITE_GATEWAY_SEED_PATH_def)
  with R route_executed_exact_object [OF R refl refl] show ?thesis by auto
qed




text \<open>
  A file cannot be created through the route: when the requested path is not in the object
  registry the response is \<^verbatim>\<open>NULL\<close>, although the policy allows the operation create.
\<close>

theorem route_never_creates:
  assumes "lookup_row ob_path (rf_path (route_fields b)) (objects (seeded env db)) = None"
  shows "''create'' \<in> set gateway_allowed_operations \<and>
     (\<exists>resp. snd (run (handleFilesystemWriteRoute env b) db) = Inr resp \<and> js_get resp ''result'' = JStr ''NULL'')"
  using handle_outcome [of env db b] assms
  by (auto simp: denied_outcome_def executed_outcome_def executed_write_def gateway_allowed_operations_def)

theorem route_never_creates_witness:
  "\<exists>resp. snd (run (handleFilesystemWriteRoute sample_env
       (sample_body ''governed/filesystem-write-gateway/new.md'' ''x'')) empty_db) = Inr resp \<and>
     js_get resp ''result'' = JStr ''NULL''"
proof -
  let ?b = "sample_body ''governed/filesystem-write-gateway/new.md'' ''x''"
  have "lookup_row ob_path (rf_path (route_fields ?b)) (objects (seeded sample_env empty_db)) = None"
    by (simp add: sample_fields seeded_def empty_db_def insert_or_ignore_def lookup_row_def seed_object_def
        FILESYSTEM_WRITE_GATEWAY_SEED_PATH_def)
  from route_never_creates [OF this] show ?thesis by blast
qed

text \<open>
  C7. Path confinement: whatever path a request names, an executed write is to the governed
  directory or below it, not to its \<^verbatim>\<open>secrets\<close> directory, and the path contains no \<^verbatim>\<open>..\<close>, no
  backslash and no leading slash.
\<close>

theorem route_path_confined:
  assumes "run (handleFilesystemWriteRoute env b) db = (db', Inr resp)"
    and "js_get resp ''result'' = JStr ''EXECUTED''" and "path = rf_path (route_fields b)"
  shows "(path = ''governed/filesystem-write-gateway'' \<or>
          (\<exists>rest. path = ''governed/filesystem-write-gateway/'' @ rest)) \<and>
     path \<noteq> ''governed/filesystem-write-gateway/secrets'' \<and>
     \<not> (\<exists>rest. path = ''governed/filesystem-write-gateway/secrets/'' @ rest) \<and>
     \<not> (\<exists>x y. path = x @ ''..'' @ y) \<and> \<not> (\<exists>x y. path = x @ [CHR 0x5C] @ y) \<and> \<not> (\<exists>y. path = ''/'' @ y)"
proof -
  let ?f = "route_fields b"
  have "executed_outcome env ?f (seeded env db) (db', Inr resp)"
    using handle_outcome [of env db b] assms by (auto simp: denied_outcome_def)
  then obtain op np where
    A: "path_authorized (gateway_policy filesystemWriteGatewayPolicyHash) path op"
    and N: "normalizeGovernedFilesystemPath path = Obs np"
    using assms(3) by (auto simp: executed_outcome_def executed_write_def)
  have "path = ''governed/filesystem-write-gateway'' \<or> js_starts_with path ''governed/filesystem-write-gateway/''"
    "\<not> (path = ''governed/filesystem-write-gateway/secrets'' \<or>
        js_starts_with path ''governed/filesystem-write-gateway/secrets/'')"
    using A by (auto simp: path_authorized_def gateway_policy_def gateway_allowed_paths_def
        gateway_denied_paths_def pathMatchesAny_def matchesGlob_def js_ends_with_def)
  moreover have "\<not> js_starts_with path ''/''" "\<not> js_includes path ''..''" "\<not> js_includes path [CHR 0x5C]"
    using N by (auto simp: normalizeGovernedFilesystemPath_def unseen_def split: if_splits)
  ultimately show ?thesis
    by (simp add: js_starts_with_iff js_includes_iff)
qed

theorem route_path_confined_witness:
  "\<exists>db' resp. run (handleFilesystemWriteRoute sample_env (sample_body FILESYSTEM_WRITE_GATEWAY_SEED_PATH ''new'')) empty_db
     = (db', Inr resp) \<and>
     \<not> (\<exists>x y. rf_path (route_fields (sample_body FILESYSTEM_WRITE_GATEWAY_SEED_PATH ''new'')) = x @ ''..'' @ y)"
  using sample_run_executed [of "''new''"] route_path_confined [OF _ _ refl] by blast

text \<open>
  C6. The route is live: a request for an existing governed object, with an active decision and
  a fresh nonce, is executed, whatever else the registries hold, unless the id of its receipt
  is already in the proof registry.
\<close>

theorem route_executes_acceptable:
  assumes "env_ok env" and "isObjectOrArray b" and "acceptable (route_fields b) (seeded env db)"
  shows "\<exists>c r aid. executed_write env (route_fields b) (seeded env db) c r aid \<and>
     (if pr_receipt_id r \<in> wp_key ` set (proofs db)
      then snd (run (handleFilesystemWriteRoute env b) db) = Inl RouteConstraintFailed
      else \<exists>resp. snd (run (handleFilesystemWriteRoute env b) db) = Inr resp \<and>
                  js_get resp ''result'' = JStr ''EXECUTED'' \<and> js_get resp ''receipt'' = receipt_js r)"
proof -
  let ?f = "route_fields b"
  have "\<not> route_missing ?f" using assms(3) by (auto simp: acceptable_def route_missing_def)
  then have "run (handleFilesystemWriteRoute env b) db = run (route_execute env ?f) (seeded env db)"
    using assms(2) by (simp add: handleFilesystemWriteRoute_def run_ensure Let_def)
  moreover have "js_get (executed_response x r cap st) ''receipt'' = receipt_js r" for x r cap st
    by (cases cap) (simp add: executed_response_def filesystemWriteResponse_def)
  ultimately show ?thesis
    using route_execute_accepts [OF assms(1,3)] unfolding executed_outcome_def Let_def by fastforce
qed

theorem route_executes_acceptable_witness:
  "\<exists>resp. snd (run (handleFilesystemWriteRoute sample_env (sample_body FILESYSTEM_WRITE_GATEWAY_SEED_PATH ''new'')) empty_db)
     = Inr resp \<and> js_get resp ''result'' = JStr ''EXECUTED''"
proof -
  have "proofs empty_db = []" by (simp add: empty_db_def)
  then show ?thesis
    using route_executes_acceptable [OF sample_env_ok conjunct1 [OF sample_not_missing] sample_acceptable]
    by (auto split: if_splits)
qed

section \<open>Requests one after another\<close>

primrec serve :: "(RequestEnv \<times> jsval) list \<Rightarrow> DB \<Rightarrow> (route_error + jsval) list" where
  "serve [] db = []"
| "serve (q # qs) db =
     (case run (handleFilesystemWriteRoute (fst q) (snd q)) db of (db', res) \<Rightarrow> res # serve qs db')"

definition was_executed :: "route_error + jsval \<Rightarrow> bool" where
  "was_executed res \<longleftrightarrow> (case res of Inl _ \<Rightarrow> False | Inr resp \<Rightarrow> js_get resp ''result'' = JStr ''EXECUTED'')"

definition request_nonce :: "RequestEnv \<times> jsval \<Rightarrow> string" where
  "request_nonce q = rf_replay_nonce (route_fields (snd q))"

definition executed_requests :: "(RequestEnv \<times> jsval) list \<Rightarrow> DB \<Rightarrow> (RequestEnv \<times> jsval) list" where
  "executed_requests qs db = map fst (filter (\<lambda>p. was_executed (snd p)) (zip qs (serve qs db)))"

lemma route_consumed_seeded [simp]: "route_consumed (seeded env db) = route_consumed db"
  by (rule route_consumed_nonces) simp

lemma handle_consumed:
  assumes "run (handleFilesystemWriteRoute env b) db = (db', res)"
  shows "route_consumed db m \<Longrightarrow> route_consumed db' m"
    and "was_executed res \<Longrightarrow> \<not> route_consumed db (rf_replay_nonce (route_fields b)) \<and>
           route_consumed db' (rf_replay_nonce (route_fields b))"
proof -
  note H = handle_outcome [of env db b, unfolded assms]
  show "route_consumed db m \<Longrightarrow> route_consumed db' m"
    using H executed_outcome_consumes(2) [of env "route_fields b" "seeded env db" db' res m]
    by (auto simp: denied_outcome_def route_consumed_nonces [of "audited _ _ _" "seeded env db"])
  show "\<not> route_consumed db (rf_replay_nonce (route_fields b)) \<and> route_consumed db' (rf_replay_nonce (route_fields b))"
    if "was_executed res"
    using H that executed_outcome_consumes [of env "route_fields b" "seeded env db" db' res]
    by (auto simp: denied_outcome_def was_executed_def)
qed

lemma executed_requests_fresh:
  "q \<in> set (executed_requests qs db) \<Longrightarrow> \<not> route_consumed db (request_nonce q)"
proof (induction qs arbitrary: db)
  case (Cons x qs)
  obtain db' res where R: "run (handleFilesystemWriteRoute (fst x) (snd x)) db = (db', res)"
    by (cases "run (handleFilesystemWriteRoute (fst x) (snd x)) db")
  from Cons.prems R consider "q = x" "was_executed res" | "q \<in> set (executed_requests qs db')"
    by (auto simp: executed_requests_def split: if_splits)
  then show ?case
  proof cases
    case 1
    then show ?thesis using handle_consumed(2) [OF R] by (simp add: request_nonce_def)
  next
    case 2
    then show ?thesis using Cons.IH handle_consumed(1) [OF R] by blast
  qed
qed (simp add: executed_requests_def)

text \<open>
  C5. Replay safety of requests served one after another: among any sequence of requests, from
  any state of the registries, every nonce is executed at most once, and never when it was
  consumed before the sequence started.
\<close>

theorem route_sequential_replay_safe:
  "distinct (map request_nonce (executed_requests qs db)) \<and>
   list_all (\<lambda>q. \<not> route_consumed db (request_nonce q)) (executed_requests qs db)"
proof
  show "list_all (\<lambda>q. \<not> route_consumed db (request_nonce q)) (executed_requests qs db)"
    using executed_requests_fresh by (auto simp: list_all_iff)
  show "distinct (map request_nonce (executed_requests qs db))"
  proof (induction qs arbitrary: db)
    case (Cons x qs)
    obtain db' res where R: "run (handleFilesystemWriteRoute (fst x) (snd x)) db = (db', res)"
      by (cases "run (handleFilesystemWriteRoute (fst x) (snd x)) db")
    have E: "executed_requests (x # qs) db =
        (if was_executed res then x # executed_requests qs db' else executed_requests qs db')"
      using R by (simp add: executed_requests_def)
    have "request_nonce x \<notin> request_nonce ` set (executed_requests qs db')" if "was_executed res"
      using handle_consumed(2) [OF R that] executed_requests_fresh [of _ qs db'] by (auto simp: request_nonce_def)
    with Cons.IH [of db'] show ?case by (simp add: E)
  qed (simp add: executed_requests_def)
qed

end
