(* ===== verification/Scheduling.thy ===== *)
theory Scheduling
  imports Prelude
begin

text \<open>
  Building schedules: one program of several runs some of its accesses on its own, and such runs
  compose to an interleaving.
\<close>

section \<open>Running one program of several\<close>

text \<open>\<open>advances p s p' s'\<close>: on its own, \<open>p\<close> can make some of its accesses and go on as \<open>p'\<close>.\<close>

inductive advances :: "('s, 'a) proc \<Rightarrow> 's \<Rightarrow> ('s, 'a) proc \<Rightarrow> 's \<Rightarrow> bool" where
  advances_refl: "advances p s p s"
| advances_step: "g s = (s1, p1) \<Longrightarrow> advances p1 s1 p' s' \<Longrightarrow> advances (Await g) s p' s'"

lemma advances_trans: "advances p s q t \<Longrightarrow> advances q t r u \<Longrightarrow> advances p s r u"
  by (induction rule: advances.induct) (auto intro: advances_step)

lemma advances_bind: "advances p s p' s' \<Longrightarrow> advances (proc_bind p k) s (proc_bind p' k) s'"
  by (induction rule: advances.induct) (auto intro: advances_refl advances_step)

lemma advances_run: "run p s = (s', a) \<Longrightarrow> advances p s (Ret a) s'"
proof (induction p arbitrary: s)
  case (Ret x)
  then show ?case by (simp add: advances_refl)
next
  case (Await g)
  have "advances (snd (g s)) (fst (g s)) (Ret a) s'"
    using Await.prems by (intro Await.IH [OF rangeI snd_snds]) (simp add: case_prod_unfold)
  then show ?case by (rule advances_step [rotated]) simp
qed

lemma advances_first: "run p s = (s', a) \<Longrightarrow> advances (proc_bind p k) s (k a) s'"
  using advances_bind [OF advances_run, of p s s' a k] by simp

lemma scheds_trans [trans]: "scheds a b \<Longrightarrow> scheds b c \<Longrightarrow> scheds a c"
  by (induction rule: scheds.induct) (auto intro: scheds_step)

lemma advances_scheds:
  "advances p s p' s' \<Longrightarrow> i < length ps \<Longrightarrow> ps ! i = p \<Longrightarrow> scheds (s, ps) (s', ps[i := p'])"
proof (induction arbitrary: ps rule: advances.induct)
  case (advances_refl p s)
  then have "ps[i := p] = ps" by (metis list_update_id)
  then show ?case by (simp add: scheds_refl)
next
  case (advances_step g s s1 p1 p' s')
  have "sched (s, ps) (s1, ps[i := p1])"
    using advances_step by (intro sched_step)
  moreover have "scheds (s1, ps[i := p1]) (s', (ps[i := p1])[i := p'])"
    by (rule advances_step.IH) (use advances_step.prems in simp_all)
  ultimately show ?case by (auto intro: scheds_step)
qed

lemma advances_fetch: "advances (f (h s)) s p s' \<Longrightarrow> advances (proc_bind (fetch h) f) s p s'"
  by (rule advances_trans [OF advances_first]) (simp_all add: fetch_def)

end
