(* ===== verification/Route_Concurrency.thy ===== *)
theory Route_Concurrency
  imports Route_Facts Scheduling
begin

text \<open>
  Concurrent requests on the governed filesystem-write route. Every SQL statement is atomic and
  any other request may run between two statements. Part one: what holds under every
  interleaving, by the guarantee \<open>route_step\<close> that every access of every request keeps. Part
  two: the replay check is not atomic with the consumption of the nonce, and an interleaving
  of two requests executes the same nonce twice.
\<close>

section \<open>What every access guarantees\<close>

text \<open>The paths the route may write, and the rows it may leave behind.\<close>

definition governed_path :: "string \<Rightarrow> bool" where
  "governed_path path \<longleftrightarrow>
     pathMatchesAny path gateway_allowed_paths \<and> \<not> pathMatchesAny path gateway_denied_paths \<and>
     normalizeGovernedFilesystemPath path = Obs path"

definition object_ok :: "ObjectRow \<Rightarrow> bool" where
  "object_ok row \<longleftrightarrow>
     governed_path (ob_path row) \<and> ob_content_hash row = ''sha256:'' @ sha256Hex (ob_content row) \<and>
     ob_bytes_written row = int (length (ob_content row))"

definition proof_ok :: "WriteProofRow \<Rightarrow> bool" where
  "proof_ok row \<longleftrightarrow>
     pr_validated_object_hash (wp_receipt row) = pr_executed_object_hash (wp_receipt row) \<and>
     \<not> pr_creates_authority (wp_receipt row) \<and> governed_path (wp_target_path row)"

definition route_step :: "DB \<Rightarrow> DB \<Rightarrow> bool" where
  "route_step db db' \<longleftrightarrow>
     grows wp_key (proofs db) (proofs db') \<and> grows wl_key (lineage db) (lineage db') \<and>
     grows na_correlation_id (null_audit db) (null_audit db') \<and>
     grows de_decision_id (decisions db) (decisions db') \<and>
     (\<forall>n. route_consumed db n \<longrightarrow> route_consumed db' n) \<and>
     (\<forall>row\<in>set (objects db'). row \<in> set (objects db) \<or> object_ok row) \<and>
     (\<forall>row\<in>set (proofs db'). row \<in> set (proofs db) \<or> proof_ok row)"

lemma route_step_refl: "route_step db db"
  by (simp add: route_step_def)

lemma route_step_trans: "route_step a b \<Longrightarrow> route_step b c \<Longrightarrow> route_step a c"
  unfolding route_step_def by (blast intro: grows_trans)

interpretation route_proofs: append_only proofs wp_key route_step
  by unfold_locales (auto simp: route_step_refl route_step_def grows_def intro: route_step_trans)

interpretation route_lineage: append_only lineage wl_key route_step
  by unfold_locales (auto simp: route_step_refl route_step_def grows_def intro: route_step_trans)

interpretation route_audit: append_only null_audit na_correlation_id route_step
  by unfold_locales (auto simp: route_step_refl route_step_def grows_def intro: route_step_trans)

section \<open>Every access of a request keeps the guarantee\<close>

lemma guarq_or_deny:
  "(d = None \<Longrightarrow> guarq R Q k) \<Longrightarrow> (\<And>d'. Q (V_NULL d')) \<Longrightarrow> guarq R Q (or_deny d k)"
  by (auto simp: or_deny_def split: option.splits)

lemma guarq_or_deny_with:
  "(\<And>a. d = Inr a \<Longrightarrow> guarq R Q (k a)) \<Longrightarrow> (\<And>d'. Q (V_NULL d')) \<Longrightarrow> guarq R Q (or_deny_with d k)"
  by (auto simp: or_deny_with_def split: sum.splits)

lemma guarq_True: "guar R p \<Longrightarrow> (\<And>a. Q a) \<Longrightarrow> guarq R Q p"
  unfolding guar_def by (erule guarq_mono) auto

lemma guar_or_deny: "guar R k \<Longrightarrow> guar R (or_deny d k)"
  by (auto simp: or_deny_def split: option.splits)

lemma guar_or_deny_with: "(\<And>a. guar R (k a)) \<Longrightarrow> guar R (or_deny_with d k)"
  by (auto simp: or_deny_with_def split: sum.splits)

lemma guar_reads:
  "guar route_step (readDecision (route_vctx env) i)" "guar route_step (readPolicy (route_vctx env) i)"
  "guar route_step (readNonceState (route_vctx env) n)" "guar route_step (readAeoState (route_vctx env) h)"
  "guar route_step (readHash (route_vctx env) p)"
  "guar route_step (inspectApplicability (route_vctx env) pre p d)"
  by (simp_all add: buildD1FilesystemValidatorContext_def buildD1ReplayRegistryPort_def route_isNonceUnused_def
      guar_fetch guar_bind route_step_refl)

lemma guar_tail: "guar route_step (validate_replay_and_prestate aeo (route_vctx env) i h np op)"
  unfolding validate_replay_and_prestate_def validate_diff_and_finality_def Let_def
  by (auto intro!: guar_or_deny guar_or_deny_with guar_bind guar_reads split: option.splits)

lemma governed_path_authorized:
  assumes "path_authorized (gateway_policy h) np op" "normalizeGovernedFilesystemPath p = Obs np"
  shows "governed_path p"
proof -
  have "np = p" using assms(2) by (auto simp: normalizeGovernedFilesystemPath_def unseen_def split: if_splits)
  with assms show ?thesis by (simp add: governed_path_def path_authorized_def gateway_policy_def)
qed

text \<open>What a verdict of the validator says about the target of the object.\<close>

definition vouches :: "jsval \<Rightarrow> ValidatorResult \<Rightarrow> bool" where
  "vouches aeo res \<longleftrightarrow>
     (\<forall>h p. res = V_VALID h \<longrightarrow> req_str (js_get aeo ''target'') ''path'' = Some p \<longrightarrow> governed_path p)"

lemma vouches_NULL [simp]: "vouches aeo (V_NULL d)"
  by (simp add: vouches_def)

lemma guarq_validator: "guarq route_step (vouches aeo) (validateFilesystemAEO aeo (route_vctx env) None)"
proof -
  have pol: "guarq route_step (\<lambda>obs. obs = Obs (gateway_policy filesystemWriteGatewayPolicyHash)) (readPolicy (route_vctx env) i)" for i
    by (simp add: buildD1FilesystemValidatorContext_def)
  have tail: "guarq route_step (vouches aeo) (validate_replay_and_prestate aeo (route_vctx env) i h np op)"
    if "vf_target_fields aeo i = Inr (p, op)" "vf_normalize i (normalizePath (route_vctx env) p) = Inr np"
      "vf_scope i (gateway_policy filesystemWriteGatewayPolicyHash) np op = None" for i np op h p
  proof -
    have "governed_path p"
      using that by (intro governed_path_authorized [of filesystemWriteGatewayPolicyHash np op])
         (auto simp: vf_scope_None vf_normalize_Inr buildD1FilesystemValidatorContext_def)
    with that(1) show ?thesis by (intro guarq_True guar_tail) (simp add: vf_target_fields_Inr vouches_def)
  qed
  show ?thesis
    unfolding validateFilesystemAEO_def
    by (auto intro!: guarq_or_deny guarq_or_deny_with guarq_bind [OF guar_reads(1) [unfolded guar_def]]
        guarq_bind [OF pol] simp: vf_policy_Inr intro: tail)
qed

text \<open>What the gateway hands to the route: an executed result has a sound receipt and a governed capture.\<close>

definition sound_result :: "capture \<times> (js_error + FilesystemWriteGatewayActionResult) \<Rightarrow> bool" where
  "sound_result wo \<longleftrightarrow>
     (\<forall>r aid. snd wo \<in> {Inr (G_EXECUTED r aid), Inr (G_EXECUTED_UNCOMMITTED r aid)} \<longrightarrow>
        pr_validated_object_hash r = pr_executed_object_hash r \<and> \<not> pr_creates_authority r \<and>
        (\<exists>path content. fst wo = Some (path, content, int (length content)) \<and> governed_path path))"

lemma guarq_commit:
  assumes "\<And>r. snd wo = Inr (AO_receipt r) \<Longrightarrow> sound_result (fst wo, Inr (G_EXECUTED r aid)) \<and>
      sound_result (fst wo, Inr (G_EXECUTED_UNCOMMITTED r aid))"
  shows "guarq route_step sound_result (gateway_commit (buildD1ReplayRegistryPort t) n aid wo)"
proof -
  have mark: "guarq route_step (\<lambda>_. True) (route_markNonceConsumed t n d)" for d
    unfolding route_markNonceConsumed_def
    by (rule guarq_atomically)
       (auto simp: route_step_def route_consumed_def lookup_row_upsert split: option.splits)
  show ?thesis
    using assms
    by (cases wo) (auto simp: gateway_commit_def buildD1ReplayRegistryPort_def intro!: guarq_bind [OF mark]
        split: sum.splits AdapterExecutionOutcome.splits AppendResult.splits, auto simp: sound_result_def)
qed

lemma guarq_gateway:
  "guarq route_step sound_result (runFilesystemWriteGatewayAction (Some intent) (route_kernel env) None)"
proof (cases "nonblank (ev_emitted_at env)")
  case False
  then show ?thesis
    by (simp add: runFilesystemWriteGatewayAction_def gateway_guards_def route_kernel_eq kernel_def sound_result_def)
next
  case True
  show ?thesis
  proof (cases "gateway_prepare intent")
    case (Inl x)
    then show ?thesis
      using True gateway_prepare_Inl [OF Inl]
      by (auto simp: runFilesystemWriteGatewayAction_def gateway_guards_def route_kernel_eq kernel_def sound_result_def)
  next
    case (Inr q)
    obtain atao aeo c h where P: "gateway_prepare intent = Inr (atao, aeo, c, h)" using Inr by (cases q) auto
    have A: "compileFilesystemWriteAEO (Some atao) (in_binding intent) = Some aeo" using P by (auto simp: gateway_prepare_Inr)
    have path: "req_str (js_get (aeo_js aeo) ''target'') ''path'' = Some (at_path atao)"
      using compile_Some(2) [OF A] prepared_path(3) [OF P] by (simp add: req_str_def target_js_def)
    have commit: "guarq route_step sound_result (gateway_commit (buildD1ReplayRegistryPort (ev_consumed_at env)) n (at_atao_id atao)
        (executeFilesystemAdapter (canonical_js c) (JStr h) (at_content atao)
           (buildD1FilesystemWriter (ev_executed_at env)) (JStr (ev_emitted_at env)) None))"
      if "governed_path (at_path atao)" for n
      using that unfolding prepared_execute [OF P True]
      by (intro guarq_commit)
         (auto simp: buildD1FilesystemWriter_def sound_result_def gateway_receipt_sound split: if_splits)
    have unused: "guarq route_step (\<lambda>_. True) (route_isNonceUnused n)" for n
      by (simp add: route_isNonceUnused_def guarq_fetch route_step_refl)
    have null: "sound_result (w, Inr (G_NULL st re d))" for w st re d by (simp add: sound_result_def)
    show ?thesis
      using True P path
      by (auto simp: runFilesystemWriteGatewayAction_def gateway_guards_def route_kernel_eq kernel_def
          buildD1ReplayRegistryPort_def Let_def vouches_def null intro!: guarq_bind [OF unused]
          guarq_bind [OF guarq_validator [unfolded buildD1ReplayRegistryPort_def]]
          commit [unfolded buildD1ReplayRegistryPort_def] split: ValidatorResult.splits)
  qed
qed

lemma guar_respondBoundedNull: "guar route_step (respondBoundedNull env p)"
  unfolding respondBoundedNull_def route_appendNullAuditRecord_def
  by (intro guar_bind guar_atomically guar_Ret)
     (auto simp: route_step_def route_consumed_def Let_def case_prod_unfold)

lemma set_upsert: "x \<in> set (upsert key (\<lambda>_. r) r t) \<Longrightarrow> x = r \<or> x \<in> set t"
  by (auto simp: upsert_def split: if_splits)

lemma insert_unique_facts:
  "insert_unique key r t = Some t' \<Longrightarrow> grows key t t' \<and> set t' = insert r (set t)"
  using grows_insert_unique by (fastforce simp: insert_unique_def split: if_splits)

lemma guar_route_persist:
  assumes "governed_path path" "pr_validated_object_hash r = pr_executed_object_hash r" "\<not> pr_creates_authority r"
  shows "guar route_step (route_persist env executed r aid (path, content, int (length content)))"
proof -
  have "guar route_step (persist_object env (path, content, int (length content)))"
    unfolding persist_object_def using assms(1)
    by (auto simp: Let_def route_step_def route_consumed_def object_ok_def intro!: guar_atomically dest!: set_upsert)
  moreover have "guar route_step (persist_proof env r aid path)"
    unfolding persist_proof_def using assms
    by (auto simp: route_step_def route_consumed_def proof_ok_def intro!: guar_atomically
        dest!: insert_unique_facts split: option.splits)
  moreover have "guar route_step (route_appendLineageNode t nd)" for t nd
    unfolding route_appendLineageNode_def
    by (auto simp: route_step_def route_consumed_def Let_def case_prod_unfold intro!: guar_atomically)
  ultimately show ?thesis
    unfolding route_persist_def Let_def by (auto intro!: guar_bind)
qed

lemma guar_route_finish: "sound_result wo \<Longrightarrow> guar route_step (route_finish env f wo)"
  unfolding route_finish_def route_captured_def sound_result_def
  by (cases wo) (auto intro!: guar_respondBoundedNull guar_route_persist
      split: sum.splits FilesystemWriteGatewayActionResult.splits option.splits)

lemma seed_object_ok: "object_ok (seed_object now)"
proof -
  have "governed_path FILESYSTEM_WRITE_GATEWAY_SEED_PATH"
    by (rule governed_path_authorized [OF seed_path_ok(2) seed_path_ok(1)])
  then show ?thesis by (simp add: object_ok_def seed_object_def)
qed

lemma set_insert_or_ignore: "x \<in> set (fst (insert_or_ignore key r t)) \<Longrightarrow> x = r \<or> x \<in> set t"
  by (auto simp: insert_or_ignore_def split: if_splits)

lemma guar_ensure: "guar route_step (ensureFilesystemWriteGatewayRegistry now)"
  unfolding ensureFilesystemWriteGatewayRegistry_def
  by (intro guar_bind guar_atomically)
     (auto simp: route_step_def route_consumed_def seed_object_ok dest!: set_insert_or_ignore)

lemma guar_handle: "guar route_step (handleFilesystemWriteRoute env b)"
proof -
  have finish: "guar route_step (proc_bind (runFilesystemWriteGatewayAction (Some intent) (route_kernel env) None)
      (route_finish env f))" for intent f
    unfolding guar_def
    by (rule guarq_bind [OF guarq_gateway]) (use guar_route_finish in \<open>simp add: guar_def\<close>)
  show ?thesis
    unfolding handleFilesystemWriteRoute_def route_execute_def Let_def
    by (auto intro!: guar_bind guar_ensure guar_fetch guar_respondBoundedNull finish
        simp: route_step_refl split: option.splits)
qed

text \<open>
  C3. Under every interleaving of any number of requests, at every moment: the proof, lineage,
  audit and decision registries have only grown and keep unique keys, a consumed nonce stays
  consumed, every object row that was not there before has a governed path and the hash and
  length of its content, and every new proof has equal validated and executed hashes, a
  governed target and no authority.
\<close>

theorem route_registries_under_interleaving:
  assumes "scheds (db, map (\<lambda>q. handleFilesystemWriteRoute (fst q) (snd q)) requests) (db', ps)"
  shows "grows wp_key (proofs db) (proofs db') \<and> grows wl_key (lineage db) (lineage db') \<and>
     grows na_correlation_id (null_audit db) (null_audit db') \<and>
     grows de_decision_id (decisions db) (decisions db') \<and>
     (\<forall>n. route_consumed db n \<longrightarrow> route_consumed db' n) \<and>
     (\<forall>row\<in>set (objects db'). row \<in> set (objects db) \<or> object_ok row) \<and>
     (\<forall>row\<in>set (proofs db'). row \<in> set (proofs db) \<or> proof_ok row)"
  using route_proofs.guar_scheds [OF assms] by (auto simp: guar_handle route_step_def)

theorem route_registries_under_interleaving_witness:
  "\<exists>db' ps. scheds (empty_db, [handleFilesystemWriteRoute sample_env (sample_body FILESYSTEM_WRITE_GATEWAY_SEED_PATH ''new''),
        handleFilesystemWriteRoute sample_env JNull]) (db', ps) \<and>
     proofs db' \<noteq> [] \<and> (\<forall>row\<in>set (proofs db'). proof_ok row) \<and> (\<forall>row\<in>set (objects db'). object_ok row)"
proof -
  let ?b = "sample_body FILESYSTEM_WRITE_GATEWAY_SEED_PATH ''new''"
  let ?ps = "map (\<lambda>q. handleFilesystemWriteRoute (fst q) (snd q)) [(sample_env, ?b), (sample_env, JNull)]"
  obtain db' resp where R: "run (handleFilesystemWriteRoute sample_env ?b) empty_db = (db', Inr resp)"
    "js_get resp ''result'' = JStr ''EXECUTED''" using sample_run_executed by blast
  then have "proofs db' \<noteq> []"
    using handle_outcome [of sample_env empty_db ?b]
    by (auto simp: denied_outcome_def executed_outcome_def Let_def split: if_splits)
  moreover have S: "scheds (empty_db, ?ps) (db', ?ps[0 := Ret (Inr resp)])"
    by (rule advances_scheds [OF advances_run [OF R(1)]]) simp_all
  ultimately show ?thesis
    using route_registries_under_interleaving [OF S] by (auto simp: empty_db_def)
qed

section \<open>Two requests with one nonce\<close>

text \<open>The moment before the nonce is marked: everything has been checked.\<close>

definition pending_commit :: "RequestEnv \<Rightarrow> RouteFields \<Rightarrow> AdapterProofReceipt \<Rightarrow> string \<Rightarrow> (DB, route_error + jsval) proc" where
  "pending_commit env f r aid =
     proc_bind (route_markNonceConsumed (ev_consumed_at env) (rf_replay_nonce f) (rf_decision_id f)) (\<lambda>_.
       route_persist env True r aid (rf_path f, rf_content f, int (length (rf_content f))))"

lemma insert_or_ignore_again:
  "key r' = key r \<Longrightarrow> fst (insert_or_ignore key r' (fst (insert_or_ignore key r t))) = fst (insert_or_ignore key r t)"
  by (auto simp: insert_or_ignore_def)

lemma seeded_seeded: "seeded env' (seeded env db) = seeded env db"
proof -
  have "de_decision_id (seed_decision x) = de_decision_id (seed_decision y)"
    "ob_path (seed_object x) = ob_path (seed_object y)" for x y
    by (simp_all add: seed_decision_def seed_object_def)
  then show ?thesis by (simp add: seeded_def insert_or_ignore_again)
qed

lemma run_pending_commit:
  "run (pending_commit env f r aid) db =
     (let db1 = consumed_db env (rf_replay_nonce f) (rf_decision_id f) db;
          db2 = object_written env (rf_path f) (rf_content f) db1 in
      if pr_receipt_id r \<in> wp_key ` set (proofs db) then (db2, Inl RouteConstraintFailed)
      else (write_recorded env r aid (rf_path f) db2,
            Inr (executed_response ''EXECUTED'' r (rf_path f, rf_content f, int (length (rf_content f)))
              (Some (if ''lineage:'' @ pr_receipt_id r \<in> wl_key ` set (lineage db) then ''ALREADY_EXISTS'' else ''APPENDED'')))))"
  by (simp add: pending_commit_def consumed_db_def case_prod_unfold run_route_persist Let_def)
     (simp add: route_markNonceConsumed_def)

text \<open>The gateway on a prepared object, before the replay check and after it.\<close>

definition after_replay_check ::
  "'s FilesystemValidatorContext \<Rightarrow> FilesystemAEO \<Rightarrow> ('s, capture \<times> (js_error + FilesystemWriteGatewayActionResult)) proc
   \<Rightarrow> ('s, capture \<times> (js_error + FilesystemWriteGatewayActionResult)) proc" where
  "after_replay_check vctx aeo commit =
     proc_bind (validateFilesystemAEO (aeo_js aeo) vctx None) (\<lambda>omega. case omega of
       V_NULL d \<Rightarrow> Ret (None, Inr (G_NULL ''validate'' (dn_denial_reason d) (Some d)))
     | V_VALID _ \<Rightarrow> commit)"

lemma gateway_prepared:
  assumes "nonblank em" "gateway_prepare intent = Inr (atao, aeo, c, h)"
  shows "runFilesystemWriteGatewayAction (Some intent) (kernel vctx writer port em) None =
    proc_bind (isNonceUnused port (cv_replay_nonce (ca_validation c))) (\<lambda>u.
      if \<not> u then Ret (None, Inr (G_NULL ''replay'' ''REPLAY_NONCE_CONSUMED'' None))
      else after_replay_check vctx aeo
        (gateway_commit port (cv_replay_nonce (ca_validation c)) (at_atao_id atao)
          (executeFilesystemAdapter (canonical_js c) (JStr h) (at_content atao) writer (JStr em) None)))"
  using assms
  by (simp add: runFilesystemWriteGatewayAction_def gateway_guards_def kernel_def after_replay_check_def Let_def
      cong: if_cong)

lemma gateway_advances:
  fixes writer :: "capture FilesystemWriter"
  assumes "nonblank em" "gateway_prepare intent = Inr (atao, aeo, c, h)"
    and "run (isNonceUnused port (cv_replay_nonce (ca_validation c))) s = (s, True)"
    and "run (validateFilesystemAEO (aeo_js aeo) vctx None) s = (s, V_VALID vh)"
  shows "advances (runFilesystemWriteGatewayAction (Some intent) (kernel vctx writer port em) None) s
    (gateway_commit port (cv_replay_nonce (ca_validation c)) (at_atao_id atao)
       (executeFilesystemAdapter (canonical_js c) (JStr h) (at_content atao) writer (JStr em) None)) s" (is "advances _ s ?commit s")
proof -
  have "advances (runFilesystemWriteGatewayAction (Some intent) (kernel vctx writer port em) None) s
      (after_replay_check vctx aeo ?commit) s"
    unfolding gateway_prepared [OF assms(1,2)]
    by (rule advances_trans [OF advances_first [OF assms(3)]]) (simp add: advances_refl)
  moreover have "advances (after_replay_check vctx aeo ?commit) s ?commit s"
    unfolding after_replay_check_def
    by (rule advances_trans [OF advances_first [OF assms(4)]]) (simp add: advances_refl)
  ultimately show ?thesis by (rule advances_trans)
qed

lemma route_execute_advances:
  assumes "lookup_row de_decision_id (rf_decision_id f) (decisions db) = Some row" "\<not> nonce_mismatch f db"
  shows "advances (route_execute env f) db
     (proc_bind (runFilesystemWriteGatewayAction (Some (route_intent env f row (pre_hash f db))) (route_kernel env) None)
        (route_finish env f)) db"
  unfolding route_execute_def
  using assms(1)
  apply (intro advances_trans [OF advances_first [OF run_fetch]])
  apply simp
  apply (intro advances_trans [OF advances_first [OF run_fetch]])
  using assms(2) [unfolded nonce_mismatch_def]
  apply (simp cong: if_cong)
  apply (intro advances_trans [OF advances_first [OF run_fetch]])
  apply (simp add: pre_hash_def Let_def advances_refl)
  done

lemma advances_to_commit:
  assumes "env_ok env" and "isObjectOrArray b" and "f = route_fields b" and "acceptable f (seeded env db)"
  obtains c fr aid where
    "advances (handleFilesystemWriteRoute env b) db
       (pending_commit env f (gateway_receipt c (ev_emitted_at env) fr) aid) (seeded env db)"
    "cv_replay_nonce (ca_validation c) = rf_replay_nonce f"
proof -
  let ?db = "seeded env db" and ?port = "buildD1ReplayRegistryPort (ev_consumed_at env)"
  obtain row where row: "lookup_row de_decision_id (rf_decision_id f) (decisions ?db) = Some row"
    using assms(4) by (auto simp: acceptable_def)
  let ?intent = "route_intent env f row (pre_hash f ?db)"
  obtain atao aeo c where
    P: "gateway_prepare ?intent = Inr (atao, aeo, c, objectHash (canonical_js c))"
    and V: "observe (validateFilesystemAEO (aeo_js aeo) (route_vctx env) None) ?db = V_VALID (objectHash (aeo_js aeo))"
    and N: "\<not> route_consumed ?db (cv_replay_nonce (ca_validation c))"
    using gateway_verdict [OF assms(1,4) row] by blast
  let ?n = "cv_replay_nonce (ca_validation c)" and ?f = "route_finish env f"
  let ?commit = "gateway_commit ?port ?n (at_atao_id atao)
     (executeFilesystemAdapter (canonical_js c) (JStr (objectHash (canonical_js c))) (at_content atao)
        (buildD1FilesystemWriter (ev_executed_at env)) (JStr (ev_emitted_at env)) None)"
  have em: "nonblank (ev_emitted_at env)" "nonblank (ev_executed_at env)" using assms(1) by (simp_all add: env_ok_def)
  note I = route_intent_prepared [OF P] and C = prepared_path [OF P]
  have pending: "\<exists>fr. proc_bind ?commit ?f = pending_commit env f (gateway_receipt c (ev_emitted_at env) fr) (at_atao_id atao)"
    unfolding prepared_execute [OF P em(1)]
    using I C em(2)
    by (simp add: buildD1FilesystemWriter_def js_ws_def gateway_commit_def buildD1ReplayRegistryPort_def
        pending_commit_def route_markNonceConsumed_def atomically_def route_finish_def route_captured_def str_def)
       blast
  then obtain fr where pend: "proc_bind ?commit ?f = pending_commit env f (gateway_receipt c (ev_emitted_at env) fr) (at_atao_id atao)" ..
  have "advances (runFilesystemWriteGatewayAction (Some ?intent) (route_kernel env) None) ?db ?commit ?db"
    unfolding route_kernel_eq
    using V N by (intro gateway_advances [OF em(1) P])
      (simp_all add: route_port.unused run_readonly [OF route_reads.readonly_validate])
  then have gw: "advances (proc_bind (runFilesystemWriteGatewayAction (Some ?intent) (route_kernel env) None) ?f) ?db
      (pending_commit env f (gateway_receipt c (ev_emitted_at env) fr) (at_atao_id atao)) ?db"
    unfolding pend [symmetric] by (rule advances_bind)
  have "\<not> nonce_mismatch f ?db" using assms(4) by (simp add: acceptable_def)
  note ex = route_execute_advances [OF row this, of env]
  have "\<not> route_missing f" using assms(4) by (auto simp: acceptable_def route_missing_def)
  then have "advances (handleFilesystemWriteRoute env b) db (route_execute env f) ?db"
    using advances_first [OF run_ensure] assms(2,3)
    by (fastforce simp: handleFilesystemWriteRoute_def Let_def)
  then have "advances (handleFilesystemWriteRoute env b) db
      (pending_commit env f (gateway_receipt c (ev_emitted_at env) fr) (at_atao_id atao)) ?db"
    using gw ex by (blast intro: advances_trans)
  with that I C show thesis by metis
qed

lemma receipts_differ:
  assumes "em1 \<noteq> em2"
  shows "receipt_body (gateway_receipt c1 em1 fr1) \<noteq> receipt_body (gateway_receipt c2 em2 fr2)"
proof -
  have "js_get (receipt_body (gateway_receipt c em fr)) ''emitted_at'' = JStr em" for c em fr
    by (simp add: gateway_receipt_def ewa_receipt_def receipt_body_def Let_def)
  with assms show ?thesis by (metis jsval.inject(3))
qed

text \<open>
  C4. The replay check is not atomic with the consumption of the nonce. Take two requests that
  would each be executed and that carry the same nonce, on a database without proofs. There is
  an interleaving in which both are executed: both writes reach the object registry and, unless
  SHA-256 gives their two different receipt bodies the same receipt id, both answer
  \<^verbatim>\<open>EXECUTED\<close> and two proofs with the same nonce are recorded.
\<close>

theorem concurrent_double_execution:
  assumes "env_ok env1" "env_ok env2" "isObjectOrArray b1" "isObjectOrArray b2"
    and "acceptable (route_fields b1) (seeded env1 db)" "acceptable (route_fields b2) (seeded env1 db)"
    and "rf_replay_nonce (route_fields b1) = rf_replay_nonce (route_fields b2)"
    and "ev_emitted_at env1 \<noteq> ev_emitted_at env2" and "proofs db = []"
  shows "\<exists>r1 r2 db' res1 res2.
     scheds (db, [handleFilesystemWriteRoute env1 b1, handleFilesystemWriteRoute env2 b2]) (db', [Ret res1, Ret res2]) \<and>
     pr_replay_nonce r1 = pr_replay_nonce r2 \<and> receipt_body r1 \<noteq> receipt_body r2 \<and> was_executed res1 \<and>
     lookup_row ob_path (rf_path (route_fields b2)) (objects db') =
       Some (written_row env2 (rf_path (route_fields b2)) (rf_content (route_fields b2))) \<and>
     (objectHash (receipt_body r1) = objectHash (receipt_body r2) \<or>
      was_executed res2 \<and> map wp_receipt (proofs db') = [r1, r2])"
proof -
  let ?f1 = "route_fields b1" and ?f2 = "route_fields b2" and ?db = "seeded env1 db"
  obtain c1 fr1 a1 where 1: "advances (handleFilesystemWriteRoute env1 b1) db
       (pending_commit env1 ?f1 (gateway_receipt c1 (ev_emitted_at env1) fr1) a1) ?db"
    "cv_replay_nonce (ca_validation c1) = rf_replay_nonce ?f1"
    using advances_to_commit [OF assms(1,3) refl assms(5)] by blast
  have "acceptable ?f2 (seeded env2 ?db)" using assms(6) by (simp add: seeded_seeded)
  then obtain c2 fr2 a2 where 2: "advances (handleFilesystemWriteRoute env2 b2) ?db
       (pending_commit env2 ?f2 (gateway_receipt c2 (ev_emitted_at env2) fr2) a2) ?db"
    "cv_replay_nonce (ca_validation c2) = rf_replay_nonce ?f2"
    using advances_to_commit [OF assms(2,4) refl, of ?db] by (auto simp: seeded_seeded)
  define r1 r2 where r: "r1 = gateway_receipt c1 (ev_emitted_at env1) fr1" "r2 = gateway_receipt c2 (ev_emitted_at env2) fr2"
  let ?p1 = "pending_commit env1 ?f1 r1 a1" and ?p2 = "pending_commit env2 ?f2 r2 a2"
  obtain db1 res1 where R1: "run ?p1 ?db = (db1, res1)" by (cases "run ?p1 ?db")
  obtain db' res2 where R2: "run ?p2 db1 = (db', res2)" by (cases "run ?p2 db1")
  let ?h1 = "handleFilesystemWriteRoute env1 b1" and ?h2 = "handleFilesystemWriteRoute env2 b2"
  have "scheds (db, [?h1, ?h2]) (?db, [?p1, ?h2])" using advances_scheds [OF 1(1), of 0 "[?h1, ?h2]"] r by simp
  moreover have "scheds (?db, [?p1, ?h2]) (?db, [?p1, ?p2])"
    using advances_scheds [OF 2(1), of 1 "[?p1, ?h2]"] r by simp
  moreover have "scheds (?db, [?p1, ?p2]) (db1, [Ret res1, ?p2])"
    using advances_scheds [OF advances_run [OF R1], of 0 "[?p1, ?p2]"] by simp
  moreover have "scheds (db1, [Ret res1, ?p2]) (db', [Ret res1, Ret res2])"
    using advances_scheds [OF advances_run [OF R2], of 1 "[Ret res1, ?p2]"] by simp
  ultimately have S: "scheds (db, [?h1, ?h2]) (db', [Ret res1, Ret res2])"
    by (blast intro: scheds_trans)
  have P1: "was_executed res1" "map wp_receipt (proofs db1) = [r1]"
    using R1 assms(9) by (auto simp: run_pending_commit Let_def was_executed_def proof_row_def)
  have P2: "lookup_row ob_path (rf_path ?f2) (objects db') = Some (written_row env2 (rf_path ?f2) (rf_content ?f2))"
    "pr_receipt_id r1 = pr_receipt_id r2 \<or> was_executed res2 \<and> map wp_receipt (proofs db') = [r1, r2]"
    using R2 P1(2) by (auto simp: run_pending_commit Let_def was_executed_def proof_row_def wp_key_def
        lookup_object_written split: if_splits)
  have "receipt_body r1 \<noteq> receipt_body r2" using receipts_differ [OF assms(8)] r by simp
  moreover have "pr_replay_nonce r1 = pr_replay_nonce r2" using 1(2) 2(2) assms(7) r by simp
  moreover have "pr_receipt_id r1 = objectHash (receipt_body r1)" "pr_receipt_id r2 = objectHash (receipt_body r2)"
    using gateway_receipt_sound(3) r by blast+
  ultimately show ?thesis using S P1 P2 by metis
qed

theorem concurrent_double_execution_witness:
  "\<exists>r1 r2 db' res1 res2.
     scheds (empty_db, [handleFilesystemWriteRoute sample_env (sample_body FILESYSTEM_WRITE_GATEWAY_SEED_PATH ''one''),
       handleFilesystemWriteRoute (sample_env\<lparr>ev_emitted_at := ''t9''\<rparr>) (sample_body FILESYSTEM_WRITE_GATEWAY_SEED_PATH ''two'')])
       (db', [Ret res1, Ret res2]) \<and> was_executed res1 \<and> receipt_body r1 \<noteq> receipt_body r2 \<and>
     (objectHash (receipt_body r1) = objectHash (receipt_body r2) \<or>
      was_executed res2 \<and> map wp_receipt (proofs db') = [r1, r2])"
proof -
  let ?env = "sample_env\<lparr>ev_emitted_at := ''t9''\<rparr>" and ?p = FILESYSTEM_WRITE_GATEWAY_SEED_PATH
  have E: "env_ok ?env" by (simp add: env_ok_def sample_env_def js_ws_def)
  have "?p \<noteq> []" by (simp add: FILESYSTEM_WRITE_GATEWAY_SEED_PATH_def)
  then have N: "rf_replay_nonce (route_fields (sample_body ?p ''one'')) = rf_replay_nonce (route_fields (sample_body ?p ''two''))"
    by (simp add: sample_fields)
  have D: "ev_emitted_at sample_env \<noteq> ev_emitted_at ?env" by (simp add: sample_env_def)
  have "proofs empty_db = []" by (simp add: empty_db_def)
  note concurrent_double_execution [OF sample_env_ok E conjunct1 [OF sample_not_missing] conjunct1 [OF sample_not_missing]
      sample_acceptable sample_acceptable N D this]
  then show ?thesis by (elim exE conjE) (intro exI conjI)
qed

end
