(* ===== verification/Evidence.thy ===== *)
theory Evidence
  imports Prelude "HOL-Library.Multiset"
begin

text \<open>
  Interfaces shared by the distributed-legitimacy modules under \<^verbatim>\<open>src/lib\<close>: tie-breaks by
  sorting and taking the first candidate, anti-entropy merges that keep the first record of
  every key, and transition tables with states that cannot be left. Each contract is a
  locale; the modules interpret it on their own operations.
\<close>

section \<open>Deterministic tie-breaks\<close>

lemma mset_js_insort [simp]: "mset (js_insort le x ys) = add_mset x (mset ys)"
  by (induction ys) auto

lemma mset_js_sort [simp]: "mset (js_sort le xs) = mset xs"
  by (induction xs) auto

text \<open>A comparator that only ties equal values: the sorted array is a function of the multiset.\<close>

locale linear_comparator = comparator +
  assumes le_antisym: "le x y \<Longrightarrow> le y x \<Longrightarrow> x = y"
begin

lemma sorted_insort: "sorted_wrt le ys \<Longrightarrow> sorted_wrt le (js_insort le x ys)"
proof (induction ys)
  case (Cons y ys)
  show ?case
  proof (cases "le x y")
    case True
    then show ?thesis using Cons.prems le_trans by auto
  next
    case False
    then have "le y x" using le_total by blast
    with Cons False show ?thesis by simp
  qed
qed simp

lemma sorted_sort: "sorted_wrt le (js_sort le xs)"
  by (induction xs) (simp_all add: sorted_insort)

lemma sorted_unique: "sorted_wrt le xs \<Longrightarrow> sorted_wrt le ys \<Longrightarrow> mset xs = mset ys \<Longrightarrow> xs = ys"
proof (induction xs arbitrary: ys)
  case (Cons x xs)
  then obtain y ys' where ys: "ys = y # ys'" by (cases ys) auto
  have "x \<in> set ys" "y \<in> set (x # xs)"
    using Cons.prems(3) ys by (metis list.set_intros(1) set_mset_mset)+
  then have "x = y"
    using Cons.prems(1,2) ys le_antisym by auto
  with Cons ys show ?case by simp
qed simp

lemma sort_perm: "mset xs = mset ys \<Longrightarrow> js_sort le xs = js_sort le ys"
  by (rule sorted_unique [OF sorted_sort sorted_sort]) simp

lemma second_minimal: "js_sort le xs = x # y # zs \<Longrightarrow> z \<in># mset xs - {#x#} \<Longrightarrow> le y z"
proof -
  assume s: "js_sort le xs = x # y # zs" and z: "z \<in># mset xs - {#x#}"
  have "mset xs = mset (x # y # zs)" using mset_js_sort [of le xs] s by simp
  then have "z = y \<or> z \<in> set zs" using z by simp
  then show "le y z" using sorted_sort [of xs] s le_refl by auto
qed

end

section \<open>Anti-entropy merges\<close>

text \<open>
  The contract of a merge of two observed sets: records are compared by a key, the first record
  of a key is kept and nothing else is dropped.
\<close>

locale keyed_merge =
  fixes merge :: "'a list \<Rightarrow> 'a list \<Rightarrow> 'a list" and key :: "'a \<Rightarrow> 'k"
  assumes merge_dedup: "merge xs ys = dedup_loop key [] (xs @ ys)"
begin

lemma merge_subset: "set (merge xs ys) \<subseteq> set xs \<union> set ys"
  using dedup_loop_subset [of key "[]" "xs @ ys"] by (simp add: merge_dedup)

lemma merge_keys: "key ` set (merge xs ys) = key ` set xs \<union> key ` set ys"
  by (simp add: merge_dedup dedup_loop_keys image_Un)

lemma merge_distinct: "distinct (map key (merge xs ys))"
  by (simp add: merge_dedup dedup_loop_distinct)

lemma merge_idem: "distinct (map key xs) \<Longrightarrow> merge xs [] = xs"
  by (simp add: merge_dedup dedup_loop_id)

text \<open>Nothing that the key determines is lost.\<close>

lemma merge_keeps:
  assumes "\<And>x y. x \<in> set xs \<union> set ys \<Longrightarrow> y \<in> set xs \<union> set ys \<Longrightarrow> key x = key y \<Longrightarrow> f x = f y"
  shows "f ` set (merge xs ys) = f ` set xs \<union> f ` set ys"
proof
  show "f ` set (merge xs ys) \<subseteq> f ` set xs \<union> f ` set ys" using merge_subset by blast
  show "f ` set xs \<union> f ` set ys \<subseteq> f ` set (merge xs ys)"
  proof
    fix v assume "v \<in> f ` set xs \<union> f ` set ys"
    then obtain x where x: "x \<in> set xs \<union> set ys" "v = f x" by blast
    then have "key x \<in> key ` set (merge xs ys)" by (auto simp: merge_keys)
    then obtain y where y: "y \<in> set (merge xs ys)" "key x = key y" by blast
    then have "f x = f y" using assms x(1) merge_subset by blast
    with x(2) y(1) show "v \<in> f ` set (merge xs ys)" by blast
  qed
qed

end

section \<open>Transition tables\<close>

text \<open>A set of states that no legal transition leaves.\<close>

locale absorbing =
  fixes legal :: "'s \<Rightarrow> 's \<Rightarrow> bool" and T :: "'s set"
  assumes closed: "s \<in> T \<Longrightarrow> legal s t \<Longrightarrow> t \<in> T"
begin

lemma stays: "legal\<^sup>*\<^sup>* s t \<Longrightarrow> s \<in> T \<Longrightarrow> t \<in> T"
  by (induction rule: rtranclp_induct) (auto intro: closed)

end

end
