(* ===== verification/Epoch.thy ===== *)
theory Epoch
  imports Canonical_Facts Evidence
begin

text \<open>
  \<^verbatim>\<open>src/lib/epoch-substrate.ts\<close> (the nine epoch states, their classification and their
  transition table) and \<^verbatim>\<open>src/lib/topology-epoch.ts\<close> (the admission of a topology epoch
  against the epoch registry).

  \<^verbatim>\<open>Number(v)\<close> of a string is the parameter \<open>num\<close>: its numerals include fractions and
  exponents, which the numbers of the model do not have.
\<close>

section \<open>Epoch states\<close>

datatype EpochFinalityStatus =
    EPOCH_LOCAL | EPOCH_GLOBAL_CANDIDATE | EPOCH_GLOBAL_AUTHORITATIVE | EPOCH_AMBIGUOUS
  | EPOCH_STALE_VISIBLE | EPOCH_PARTITION_SUSPENDED | EPOCH_CONFLICTED | EPOCH_REVOKED | EPOCH_NULL

record EpochRecord =
  ep_epoch_id :: string
  ep_epoch_scope :: string
  ep_epoch_finality_status :: EpochFinalityStatus
  ep_quorum_attestation_id :: "string option"
  ep_epoch_quorum_profile :: "string option"
  ep_epoch_causal_frontier :: "int option"
  ep_epoch_replay_frontier :: "string option"
  ep_epoch_reconciliation_frontier :: "string option"
  ep_epoch_revocation_frontier :: "string option"
  ep_finality_classification_id :: "string option"
  ep_supersedes_epoch_id :: "string option"
  ep_reason_code :: string
  ep_created_at :: string

definition buildEpochId :: "string \<Rightarrow> string \<Rightarrow> string \<Rightarrow> string" where
  "buildEpochId epoch_scope created_at reason_code =
     ''epoch_'' @ hashCanonical (JObj [(''epoch_scope'', JStr epoch_scope), (''created_at'', JStr created_at),
                                       (''reason_code'', JStr reason_code)])"

definition isEpochGloballyAuthoritative :: "EpochFinalityStatus \<Rightarrow> bool" where
  "isEpochGloballyAuthoritative status \<longleftrightarrow> status = EPOCH_GLOBAL_AUTHORITATIVE"

definition isEpochLocallyValid :: "EpochFinalityStatus \<Rightarrow> bool" where
  "isEpochLocallyValid status \<longleftrightarrow>
     status = EPOCH_LOCAL \<or> status = EPOCH_GLOBAL_CANDIDATE \<or> status = EPOCH_GLOBAL_AUTHORITATIVE"

definition isEpochTerminal :: "EpochFinalityStatus \<Rightarrow> bool" where
  "isEpochTerminal status \<longleftrightarrow> status = EPOCH_NULL"

definition isEpochBlocking :: "EpochFinalityStatus \<Rightarrow> bool" where
  "isEpochBlocking status \<longleftrightarrow>
     status = EPOCH_AMBIGUOUS \<or> status = EPOCH_PARTITION_SUSPENDED \<or> status = EPOCH_CONFLICTED \<or>
     status = EPOCH_REVOKED \<or> status = EPOCH_NULL"

definition classifyEpochFinality :: "bool \<Rightarrow> bool \<Rightarrow> bool \<Rightarrow> bool \<Rightarrow> bool \<Rightarrow> EpochFinalityStatus" where
  "classifyEpochFinality topology_present quorum_met revocation_live has_competing_head is_revoked =
     (if is_revoked then EPOCH_REVOKED
      else if \<not> topology_present then EPOCH_PARTITION_SUSPENDED
      else if has_competing_head then EPOCH_CONFLICTED
      else if \<not> quorum_met then EPOCH_LOCAL
      else if \<not> revocation_live then EPOCH_STALE_VISIBLE
      else EPOCH_GLOBAL_AUTHORITATIVE)"

definition epochFinalityToEpochValidPredicate :: "EpochFinalityStatus \<Rightarrow> bool \<Rightarrow> bool" where
  "epochFinalityToEpochValidPredicate status require_global =
     (if status = EPOCH_GLOBAL_AUTHORITATIVE then True
      else if \<not> require_global \<and> (status = EPOCH_LOCAL \<or> status = EPOCH_GLOBAL_CANDIDATE) then True
      else False)"

fun epoch_allowed :: "EpochFinalityStatus \<Rightarrow> EpochFinalityStatus list" where
  "epoch_allowed EPOCH_LOCAL = [EPOCH_GLOBAL_CANDIDATE, EPOCH_AMBIGUOUS, EPOCH_PARTITION_SUSPENDED, EPOCH_NULL]"
| "epoch_allowed EPOCH_GLOBAL_CANDIDATE =
     [EPOCH_GLOBAL_AUTHORITATIVE, EPOCH_AMBIGUOUS, EPOCH_PARTITION_SUSPENDED, EPOCH_NULL]"
| "epoch_allowed EPOCH_GLOBAL_AUTHORITATIVE =
     [EPOCH_STALE_VISIBLE, EPOCH_CONFLICTED, EPOCH_REVOKED, EPOCH_AMBIGUOUS, EPOCH_NULL]"
| "epoch_allowed EPOCH_AMBIGUOUS = [EPOCH_LOCAL, EPOCH_GLOBAL_AUTHORITATIVE, EPOCH_NULL]"
| "epoch_allowed EPOCH_STALE_VISIBLE = [EPOCH_GLOBAL_AUTHORITATIVE, EPOCH_LOCAL, EPOCH_NULL]"
| "epoch_allowed EPOCH_PARTITION_SUSPENDED =
     [EPOCH_LOCAL, EPOCH_GLOBAL_CANDIDATE, EPOCH_GLOBAL_AUTHORITATIVE, EPOCH_NULL]"
| "epoch_allowed EPOCH_CONFLICTED = [EPOCH_GLOBAL_AUTHORITATIVE, EPOCH_AMBIGUOUS, EPOCH_NULL]"
| "epoch_allowed EPOCH_REVOKED = [EPOCH_NULL]"
| "epoch_allowed EPOCH_NULL = []"

definition isValidEpochTransition :: "EpochFinalityStatus \<Rightarrow> EpochFinalityStatus \<Rightarrow> bool" where
  "isValidEpochTransition from to = (if from = EPOCH_NULL then False else to \<in> set (epoch_allowed from))"

section \<open>Admission of a topology epoch\<close>

datatype TopologyEpochState = TE_EPOCH_CURRENT | TE_EPOCH_STALE | TE_EPOCH_FORK | TE_EPOCH_AMBIGUOUS | TE_NULL

datatype TopologyEpochAdmissionReason =
    missing_topology_epoch | missing_epoch_lineage_parent | stale_epoch | forked_epoch_parent
  | non_canonical_epoch_jump | duplicate_epoch_nonce_replay | topology_visibility_loss | epoch_ambiguity

datatype TopologyEpochAdmission =
    TE_admitted string
  | TE_denied TopologyEpochState TopologyEpochAdmissionReason

text \<open>The two tables that are read.\<close>

record EpochRow =
  er_epoch_id :: string
  er_epoch_scope :: string
  er_topology_epoch :: jsval
  er_epoch_lineage_parent :: jsval
  er_created_at :: string

record EpochDB =
  invocation_nonces :: "string list"
  epoch_registry :: "EpochRow list"

text \<open>\<^verbatim>\<open>Number(v)\<close>\<close>

fun js_Number :: "(string \<Rightarrow> jsnum) \<Rightarrow> jsval \<Rightarrow> jsnum" where
  "js_Number num JUndef = NNaN"
| "js_Number num JNull = NInt 0"
| "js_Number num (JBool b) = NInt (if b then 1 else 0)"
| "js_Number num (JNum n) = n"
| "js_Number num (JStr s) = num s"
| "js_Number num v = num (js_String v)"

text \<open>
  \<^verbatim>\<open>toUpperCase\<close> on ASCII letters; the result is only compared with the empty string and
  \<^verbatim>\<open>VISIBLE\<close>, which other letters cannot produce.
\<close>

definition js_upper :: "string \<Rightarrow> string" where
  "js_upper s = map (\<lambda>c. let n = of_char c :: nat in if 97 \<le> n \<and> n \<le> 122 then char_of (n - 32) else c) s"

text \<open>\<^verbatim>\<open>ORDER BY created_at DESC, epoch_id DESC\<close>\<close>

definition epoch_row_order :: "EpochRow \<Rightarrow> EpochRow \<Rightarrow> bool" where
  "epoch_row_order a b \<longleftrightarrow>
     (if er_created_at a \<noteq> er_created_at b then er_created_at b < er_created_at a
      else er_epoch_id b \<le> er_epoch_id a)"

definition lineage_rows :: "string \<Rightarrow> EpochDB \<Rightarrow> EpochRow list" where
  "lineage_rows scope db =
     take 2 (js_sort epoch_row_order (filter (\<lambda>r. er_epoch_scope r = scope) (epoch_registry db)))"

definition epoch_ordering_hash :: "string \<Rightarrow> int \<Rightarrow> string \<Rightarrow> string \<Rightarrow> string" where
  "epoch_ordering_hash scope topologyEpoch epochParent epochNonce = hashCanonical (JObj
     [(''scope'', JStr scope), (''topology_epoch'', JNum (NInt topologyEpoch)),
      (''epoch_lineage_parent'', JStr epochParent), (''epoch_nonce'', JStr epochNonce)])"

text \<open>The decision against the head of the scope.\<close>

definition against_head ::
  "(string \<Rightarrow> jsnum) \<Rightarrow> string \<Rightarrow> int \<Rightarrow> string \<Rightarrow> string \<Rightarrow> EpochRow list \<Rightarrow> TopologyEpochAdmission" where
  "against_head num scope topologyEpoch epochParent epochNonce rows =
     (case rows of
        [] \<Rightarrow> if topologyEpoch \<noteq> 0 then TE_denied TE_NULL non_canonical_epoch_jump
              else TE_admitted (epoch_ordering_hash scope topologyEpoch epochParent epochNonce)
      | head # _ \<Rightarrow>
          (case js_Number num (er_topology_epoch head) of
             NInt currentEpoch \<Rightarrow>
               if topologyEpoch \<le> currentEpoch then TE_denied TE_EPOCH_STALE stale_epoch
               else if topologyEpoch \<noteq> currentEpoch + 1 then TE_denied TE_NULL non_canonical_epoch_jump
               else if epochParent \<noteq> js_String_or (er_epoch_lineage_parent head) []
                 then TE_denied TE_EPOCH_FORK forked_epoch_parent
               else TE_admitted (epoch_ordering_hash scope topologyEpoch epochParent epochNonce)
           | _ \<Rightarrow> TE_denied TE_EPOCH_AMBIGUOUS epoch_ambiguity))"

definition classifyTopologyEpochAdmission :: "(string \<Rightarrow> jsnum) \<Rightarrow> jsval \<Rightarrow> (EpochDB, TopologyEpochAdmission) proc" where
  "classifyTopologyEpochAdmission num inp =
     (let epochParent = js_String_or (js_get inp ''epoch_lineage_parent'') [];
          epochNonce = js_String_or (js_get inp ''epoch_nonce'') [];
          topologyVisibility = js_upper (js_String_or (js_get inp ''topology_visibility_state'') []);
          scope = js_String_or (js_get inp ''scope'') ''GLOBAL'' in
      case js_Number num (js_get inp ''topology_epoch'') of
        NInt topologyEpoch \<Rightarrow>
          if epochParent = [] then Ret (TE_denied TE_NULL missing_epoch_lineage_parent)
          else if epochNonce = [] then Ret (TE_denied TE_NULL epoch_ambiguity)
          else if topologyVisibility \<noteq> [] \<and> topologyVisibility \<noteq> ''VISIBLE''
            then Ret (TE_denied TE_EPOCH_AMBIGUOUS topology_visibility_loss)
          else
            proc_bind (fetch (\<lambda>db. epochNonce \<in> set (invocation_nonces db))) (\<lambda>nonceReplay.
            if nonceReplay then Ret (TE_denied TE_NULL duplicate_epoch_nonce_replay)
            else proc_bind (fetch (lineage_rows scope)) (\<lambda>rows.
              Ret (against_head num scope topologyEpoch epochParent epochNonce rows)))
      | _ \<Rightarrow> Ret (TE_denied TE_NULL missing_topology_epoch))"

section \<open>The transition table\<close>

interpretation epoch_null: absorbing isValidEpochTransition "{EPOCH_NULL}"
  by unfold_locales (auto simp: isValidEpochTransition_def)

interpretation epoch_revoked: absorbing isValidEpochTransition "{EPOCH_REVOKED, EPOCH_NULL}"
  by unfold_locales (auto simp: isValidEpochTransition_def split: if_splits)

lemma epoch_can_be_nulled: "s \<noteq> EPOCH_NULL \<Longrightarrow> isValidEpochTransition s EPOCH_NULL"
  by (cases s) (simp_all add: isValidEpochTransition_def)

text \<open>
  The epoch transition table: a revoked epoch can only become \<^verbatim>\<open>EPOCH_NULL\<close> and never valid
  again by any sequence of transitions, \<^verbatim>\<open>EPOCH_NULL\<close> cannot be left, every other state can be
  nulled, no state can be repeated, a local epoch needs at least two transitions to become
  globally authoritative, and an epoch is revoked only from the authoritative state.
\<close>

theorem epoch_transitions:
  "(isValidEpochTransition\<^sup>*\<^sup>* EPOCH_REVOKED s \<longrightarrow> s = EPOCH_REVOKED \<or> s = EPOCH_NULL) \<and>
   (isValidEpochTransition\<^sup>*\<^sup>* EPOCH_NULL s \<longrightarrow> s = EPOCH_NULL) \<and>
   (s \<noteq> EPOCH_NULL \<longrightarrow> isValidEpochTransition s EPOCH_NULL) \<and>
   \<not> isValidEpochTransition s s \<and> \<not> isValidEpochTransition EPOCH_LOCAL EPOCH_GLOBAL_AUTHORITATIVE \<and>
   (isValidEpochTransition s EPOCH_REVOKED \<longrightarrow> isEpochGloballyAuthoritative s)"
  using epoch_revoked.stays [of EPOCH_REVOKED s] epoch_null.stays [of EPOCH_NULL s] epoch_can_be_nulled [of s]
  by (cases s) (auto simp: isValidEpochTransition_def isEpochGloballyAuthoritative_def)

theorem epoch_transitions_witness:
  "isValidEpochTransition\<^sup>*\<^sup>* EPOCH_REVOKED EPOCH_NULL \<and> isValidEpochTransition EPOCH_GLOBAL_AUTHORITATIVE EPOCH_REVOKED \<and>
   isValidEpochTransition EPOCH_REVOKED EPOCH_NULL \<and> isEpochGloballyAuthoritative EPOCH_GLOBAL_AUTHORITATIVE"
  using epoch_transitions [of EPOCH_REVOKED] epoch_transitions [of EPOCH_GLOBAL_AUTHORITATIVE]
  by (auto simp: isValidEpochTransition_def)

section \<open>Properties of the admission\<close>

interpretation epoch_rows: comparator epoch_row_order
  by unfold_locales (auto simp: epoch_row_order_def split: if_splits)

text \<open>The newest row of the scope.\<close>

lemma lineage_rows_head:
  assumes "lineage_rows scope db = head # rest"
  shows "head \<in> set (epoch_registry db) \<and> er_epoch_scope head = scope \<and>
    (\<forall>r\<in>set (epoch_registry db). er_epoch_scope r = scope \<longrightarrow> epoch_row_order head r)"
proof -
  let ?xs = "filter (\<lambda>r. er_epoch_scope r = scope) (epoch_registry db)"
  have hd: "head = hd (js_sort epoch_row_order ?xs)" and ne: "?xs \<noteq> []"
    using assms unfolding lineage_rows_def by (cases "js_sort epoch_row_order ?xs"; force)+
  have "head \<in> set ?xs" unfolding hd by (rule epoch_rows.hd_sort_in [OF ne])
  moreover have "epoch_row_order head r" if "r \<in> set ?xs" for r
    unfolding hd by (rule epoch_rows.hd_sort_minimal [OF that])
  ultimately show ?thesis by auto
qed

lemma lineage_rows_Nil: "lineage_rows scope db = [] \<longleftrightarrow> (\<forall>r\<in>set (epoch_registry db). er_epoch_scope r \<noteq> scope)"
  by (auto simp: lineage_rows_def filter_empty_conv)

text \<open>
  A topology epoch is admitted exactly when its number is finite, its lineage parent and its
  nonce are not empty, its topology is not declared invisible, its nonce is not in the
  invocation registry, and either the scope has no epoch yet and the number is 0, or the newest
  epoch of the scope has the preceding number and the same lineage parent. The registries are
  not changed.
\<close>

theorem classifyTopologyEpochAdmission_exactly:
  assumes "scope = js_String_or (js_get inp ''scope'') ''GLOBAL''"
    and "parent = js_String_or (js_get inp ''epoch_lineage_parent'') []"
    and "nonce = js_String_or (js_get inp ''epoch_nonce'') []"
  shows "run (classifyTopologyEpochAdmission num inp) db = (db', TE_admitted h) \<longleftrightarrow>
     db' = db \<and> parent \<noteq> [] \<and> nonce \<noteq> [] \<and> nonce \<notin> set (invocation_nonces db) \<and>
     js_upper (js_String_or (js_get inp ''topology_visibility_state'') []) \<in> {[], ''VISIBLE''} \<and>
     (\<exists>n. js_Number num (js_get inp ''topology_epoch'') = NInt n \<and> h = epoch_ordering_hash scope n parent nonce \<and>
        ((\<forall>r\<in>set (epoch_registry db). er_epoch_scope r \<noteq> scope) \<and> n = 0 \<or>
         (\<exists>head rest. lineage_rows scope db = head # rest \<and> js_Number num (er_topology_epoch head) = NInt (n - 1) \<and>
            parent = js_String_or (er_epoch_lineage_parent head) [] \<and>
            (\<forall>r\<in>set (epoch_registry db). er_epoch_scope r = scope \<longrightarrow> epoch_row_order head r))))"
proof (cases "js_Number num (js_get inp ''topology_epoch'')")
  case (NInt n)
  have A: "against_head num scope n parent nonce rows = TE_admitted h \<longleftrightarrow>
      h = epoch_ordering_hash scope n parent nonce \<and>
      (rows = [] \<and> n = 0 \<or>
       (\<exists>head rest. rows = head # rest \<and> js_Number num (er_topology_epoch head) = NInt (n - 1) \<and>
                     parent = js_String_or (er_epoch_lineage_parent head) []))" for rows
    by (auto simp: against_head_def split: list.splits jsnum.splits)
  have "run (classifyTopologyEpochAdmission num inp) db = (db', TE_admitted h) \<longleftrightarrow>
      db' = db \<and> parent \<noteq> [] \<and> nonce \<noteq> [] \<and> nonce \<notin> set (invocation_nonces db) \<and>
      js_upper (js_String_or (js_get inp ''topology_visibility_state'') []) \<in> {[], ''VISIBLE''} \<and>
      against_head num scope n parent nonce (lineage_rows scope db) = TE_admitted h"
    using NInt assms by (auto simp: classifyTopologyEpochAdmission_def Let_def)
  moreover have "lineage_rows scope db = [] \<and> n = 0 \<or>
      (\<exists>head rest. lineage_rows scope db = head # rest \<and> js_Number num (er_topology_epoch head) = NInt (n - 1) \<and>
         parent = js_String_or (er_epoch_lineage_parent head) []) \<longleftrightarrow>
      (\<forall>r\<in>set (epoch_registry db). er_epoch_scope r \<noteq> scope) \<and> n = 0 \<or>
      (\<exists>head rest. lineage_rows scope db = head # rest \<and> js_Number num (er_topology_epoch head) = NInt (n - 1) \<and>
         parent = js_String_or (er_epoch_lineage_parent head) [] \<and>
         (\<forall>r\<in>set (epoch_registry db). er_epoch_scope r = scope \<longrightarrow> epoch_row_order head r))"
    using lineage_rows_head [of scope db] unfolding lineage_rows_Nil by blast
  ultimately show ?thesis unfolding A NInt by simp
qed (simp_all add: classifyTopologyEpochAdmission_def Let_def)

definition sample_epoch_db :: EpochDB where
  "sample_epoch_db = \<lparr>invocation_nonces = [''n0''], epoch_registry =
     [\<lparr>er_epoch_id = ''e0'', er_epoch_scope = ''GLOBAL'', er_topology_epoch = JNum (NInt 0),
       er_epoch_lineage_parent = JStr ''p'', er_created_at = ''t0''\<rparr>,
      \<lparr>er_epoch_id = ''e1'', er_epoch_scope = ''GLOBAL'', er_topology_epoch = JNum (NInt 1),
       er_epoch_lineage_parent = JStr ''p'', er_created_at = ''t1''\<rparr>]\<rparr>"

theorem classifyTopologyEpochAdmission_exactly_witness:
  "\<exists>h. run (classifyTopologyEpochAdmission (\<lambda>_. NNaN) (JObj
      [(''topology_epoch'', JNum (NInt 2)), (''epoch_lineage_parent'', JStr ''p''), (''epoch_nonce'', JStr ''n1'')]))
      sample_epoch_db = (sample_epoch_db, TE_admitted h)"
proof -
  let ?i = "JObj [(''topology_epoch'', JNum (NInt 2)), (''epoch_lineage_parent'', JStr ''p''), (''epoch_nonce'', JStr ''n1'')]"
  have "lineage_rows ''GLOBAL'' sample_epoch_db = rev (epoch_registry sample_epoch_db)" by code_simp
  then show ?thesis
    unfolding classifyTopologyEpochAdmission_exactly [OF refl refl refl]
    by (simp add: js_String_or_def sample_epoch_db_def js_upper_def epoch_row_order_def)
qed

end
