(* ===== verification/Finality.thy ===== *)
theory Finality
  imports Epoch
begin

text \<open>
  Finality of legitimacy decisions: \<^verbatim>\<open>src/lib/finality-classification.ts\<close>,
  \<^verbatim>\<open>src/lib/topology-visibility.ts\<close>, \<^verbatim>\<open>src/lib/revocation-liveness.ts\<close> and
  \<^verbatim>\<open>src/lib/proof-finality-metadata.ts\<close>.

  \<^verbatim>\<open>Date.parse\<close> is the parameter \<open>parse\<close> (\<open>None\<close> for \<^verbatim>\<open>NaN\<close>), \<^verbatim>\<open>Number\<close> of a string the
  parameter \<open>num\<close> and \<^verbatim>\<open>Date.now()\<close> the parameter \<open>wall\<close>.
\<close>

section \<open>finality-classification.ts\<close>

datatype FinalityClassification =
    LOCAL_VALID | CONVERGENCE_VALID | GLOBAL_VALID | AMBIGUOUS | STALE_VISIBLE | PARTITION_SUSPENDED | FC_NULL

fun classification_string :: "FinalityClassification \<Rightarrow> string" where
  "classification_string LOCAL_VALID = ''LOCAL_VALID''"
| "classification_string CONVERGENCE_VALID = ''CONVERGENCE_VALID''"
| "classification_string GLOBAL_VALID = ''GLOBAL_VALID''"
| "classification_string AMBIGUOUS = ''AMBIGUOUS''"
| "classification_string STALE_VISIBLE = ''STALE_VISIBLE''"
| "classification_string PARTITION_SUSPENDED = ''PARTITION_SUSPENDED''"
| "classification_string FC_NULL = ''NULL''"

datatype PartitionAdmissionDecision = PA_ok string | PA_denied string

definition finite_or :: "jsval \<Rightarrow> int \<Rightarrow> int" where
  "finite_or v d = (case v of JNum (NInt i) \<Rightarrow> i | _ \<Rightarrow> d)"

definition partition_closure :: "int \<Rightarrow> string \<Rightarrow> string" where
  "partition_closure epoch canonicalLineage = hashCanonical (JObj
     [(''partition_epoch'', JNum (NInt epoch)), (''canonical_lineage_hash'', JStr canonicalLineage)])"

definition settlement_stale :: "(string \<Rightarrow> int option) \<Rightarrow> int \<Rightarrow> jsval \<Rightarrow> bool" where
  "settlement_stale parse wall inp =
     (case parse (js_String_or (js_get inp ''settlement_observed_at'') []) of
        None \<Rightarrow> True
      | Some observedAtMs \<Rightarrow>
          finite_or (js_get inp ''now_ms'') wall - observedAtMs
            > finite_or (js_get inp ''freshness_window_ms'') (5 * 60000))"

definition classifyPartitionFinalityAdmission ::
  "(string \<Rightarrow> int option) \<Rightarrow> (string \<Rightarrow> jsnum) \<Rightarrow> int \<Rightarrow> jsval \<Rightarrow> PartitionAdmissionDecision" where
  "classifyPartitionFinalityAdmission parse num wall inp =
     (let state = js_String_or (js_get inp ''partition_finality_state'') [];
          closureHash = js_String_or (js_get inp ''partition_closure_hash'') [];
          canonicalLineage = js_String_or (js_get inp ''canonical_lineage_hash'') [];
          partitionLineage = js_String_or (js_get inp ''partition_lineage_hash'') [] in
      case js_Number num (js_get inp ''partition_epoch'') of
        NInt epoch \<Rightarrow>
          if state = [] \<or> closureHash = [] \<or> canonicalLineage = [] \<or> partitionLineage = []
            then PA_denied ''missing_partition_metadata''
          else if js_get inp ''topology_visible'' \<noteq> JBool True then PA_denied ''partition_visibility_loss''
          else if js_get inp ''reconciliation_ordering_deterministic'' \<noteq> JBool True
            then PA_denied ''ambiguous_partition_ordering''
          else if js_get inp ''reconciliation_deterministic'' \<noteq> JBool True
            then PA_denied ''non_deterministic_partition_reconciliation''
          else if settlement_stale parse wall inp then PA_denied ''stale_partition_settlement_evidence''
          else if canonicalLineage \<noteq> partitionLineage then PA_denied ''detached_lineage''
          else if closureHash \<noteq> partition_closure epoch canonicalLineage then PA_denied ''finality_hash_drift''
          else if state = ''PARTITION_DRIFT'' then PA_denied ''partition_drift''
          else if state = ''PARTITION_OPEN'' \<or> state = ''PARTITION_PENDING_SETTLEMENT''
            then PA_denied ''partition_unsettled''
          else if state = ''NULL'' then PA_denied ''reconciliation_ambiguity''
          else if state = ''PARTITION_SETTLED'' \<or> state = ''PARTITION_RECONCILED'' then PA_ok state
          else PA_denied ''reconciliation_ambiguity''
      | _ \<Rightarrow> PA_denied ''missing_partition_metadata'')"

record PredicateSnapshot =
  p_V :: bool
  p_A :: bool
  p_U :: bool
  p_P :: bool
  p_R :: bool
  p_T :: bool
  p_C :: bool
  p_Q :: bool
  p_G :: bool
  p_L :: bool
  p_X :: bool

definition buildFinClassId :: "string \<Rightarrow> FinalityClassification \<Rightarrow> string \<Rightarrow> string" where
  "buildFinClassId object_hash classification created_at =
     ''fcr_'' @ hashCanonical (JObj
       [(''object_hash'', JStr object_hash), (''classification'', JStr (classification_string classification)),
        (''created_at'', JStr created_at)])"

record EvidenceFlags =
  has_quorum_evidence :: int
  has_global_consensus_evidence :: int
  has_lineage_freshness_evidence :: int
  has_cryptographic_integrity_evidence :: int

definition evidenceFlagsFromPredicates :: "PredicateSnapshot \<Rightarrow> EvidenceFlags" where
  "evidenceFlagsFromPredicates p =
     \<lparr>has_quorum_evidence = (if p_Q p then 1 else 0),
      has_global_consensus_evidence = (if p_G p then 1 else 0),
      has_lineage_freshness_evidence = (if p_L p then 1 else 0),
      has_cryptographic_integrity_evidence = (if p_X p then 1 else 0)\<rparr>"

definition base_predicates :: "PredicateSnapshot \<Rightarrow> bool" where
  "base_predicates p \<longleftrightarrow> p_V p \<and> p_A p \<and> p_U p \<and> p_P p \<and> p_R p \<and> p_T p \<and> p_C p"

definition classifyFromPredicates ::
  "PredicateSnapshot \<Rightarrow> bool \<Rightarrow> EpochFinalityStatus option \<Rightarrow> FinalityClassification option \<Rightarrow> FinalityClassification" where
  "classifyFromPredicates p topologyPresent epochStatus causalOverride =
     (if \<not> topologyPresent then PARTITION_SUSPENDED
      else if epochStatus = Some EPOCH_PARTITION_SUSPENDED then PARTITION_SUSPENDED
      else if epochStatus = Some EPOCH_STALE_VISIBLE then STALE_VISIBLE
      else if (case epochStatus of None \<Rightarrow> False | Some e \<Rightarrow> isEpochBlocking e) then FC_NULL
      else if \<not> base_predicates p then FC_NULL
      else if p_Q p \<and> p_G p \<and> p_L p \<and> p_X p then
        (if causalOverride = Some AMBIGUOUS then AMBIGUOUS
         else if causalOverride = Some FC_NULL then FC_NULL
         else if (case epochStatus of None \<Rightarrow> False | Some e \<Rightarrow> isEpochGloballyAuthoritative e) then GLOBAL_VALID
         else CONVERGENCE_VALID)
      else if p_L p then LOCAL_VALID
      else STALE_VISIBLE)"

section \<open>topology-visibility.ts\<close>

datatype TopologyVisibilityState =
    TOPOLOGY_VISIBLE | TOPOLOGY_PARTIAL | TOPOLOGY_STALE | TOPOLOGY_INVISIBLE | TOPOLOGY_AMBIGUOUS | TOPOLOGY_NULL

record TopologySnapshot =
  ts_topology_snapshot_id :: string
  ts_topology_snapshot_hash :: string
  ts_observed_nodes :: "string list"
  ts_missing_nodes :: "string list"
  ts_stale_nodes :: "string list"
  ts_partitioned_nodes :: "string list"
  ts_observed_at :: string
  ts_epoch_id :: string
  ts_visibility_classification :: TopologyVisibilityState

datatype VisibilityClass = VISIBLE | DEGRADED | BLOCKING

record TopologyVisibilityResult =
  tv_topology_visibility :: TopologyVisibilityState
  tv_finality_guard :: bool
  tv_classification :: VisibilityClass
  tv_missing_nodes :: "string list"
  tv_stale_nodes :: "string list"

definition topology_snapshot_body :: "TopologySnapshot \<Rightarrow> jsval" where
  "topology_snapshot_body opts = JObj
     [(''observed_nodes'', JArr (map JStr (sort (ts_observed_nodes opts)))),
      (''missing_nodes'', JArr (map JStr (sort (ts_missing_nodes opts)))),
      (''stale_nodes'', JArr (map JStr (sort (ts_stale_nodes opts)))),
      (''partitioned_nodes'', JArr (map JStr (sort (ts_partitioned_nodes opts)))),
      (''epoch_id'', JStr (ts_epoch_id opts)), (''observed_at'', JStr (ts_observed_at opts))]"

definition buildTopologySnapshotHash :: "TopologySnapshot \<Rightarrow> string" where
  "buildTopologySnapshotHash opts = sha256Hex (canonicalize (topology_snapshot_body opts))"

definition buildTopologySnapshotId :: "string \<Rightarrow> string \<Rightarrow> string" where
  "buildTopologySnapshotId topology_snapshot_hash epoch_id =
     ''tsn_'' @ hashCanonical (JObj
       [(''topology_snapshot_hash'', JStr topology_snapshot_hash), (''epoch_id'', JStr epoch_id)])"

definition visibility ::
  "TopologyVisibilityState \<Rightarrow> bool \<Rightarrow> VisibilityClass \<Rightarrow> string list \<Rightarrow> string list \<Rightarrow> TopologyVisibilityResult" where
  "visibility state guard cls missing stale =
     \<lparr>tv_topology_visibility = state, tv_finality_guard = guard, tv_classification = cls,
      tv_missing_nodes = missing, tv_stale_nodes = stale\<rparr>"

definition classifyTopologyVisibility :: "TopologySnapshot option \<Rightarrow> TopologyVisibilityResult" where
  "classifyTopologyVisibility snapshot =
     (case snapshot of
        None \<Rightarrow> visibility TOPOLOGY_NULL False BLOCKING [] []
      | Some s \<Rightarrow>
          if ts_visibility_classification s = TOPOLOGY_NULL
            then visibility TOPOLOGY_NULL False BLOCKING (ts_missing_nodes s) (ts_stale_nodes s)
          else if ts_observed_nodes s = []
            then visibility TOPOLOGY_INVISIBLE False BLOCKING (ts_missing_nodes s) (ts_stale_nodes s)
          else if ts_stale_nodes s \<noteq> []
            then visibility TOPOLOGY_STALE False DEGRADED (ts_missing_nodes s) (ts_stale_nodes s)
          else if ts_partitioned_nodes s \<noteq> []
            then visibility TOPOLOGY_AMBIGUOUS False BLOCKING (ts_missing_nodes s) []
          else if ts_missing_nodes s \<noteq> []
            then visibility TOPOLOGY_PARTIAL False BLOCKING (ts_missing_nodes s) []
          else visibility TOPOLOGY_VISIBLE True VISIBLE [] [])"

fun is_array :: "jsval \<Rightarrow> bool" where
  "is_array (JArr _) = True"
| "is_array _ = False"

definition validateTopologySnapshot :: "jsval \<Rightarrow> string option" where
  "validateTopologySnapshot s =
     (if is_nullish s then Some ''topology snapshot is null or missing''
      else if \<not> (isPlainObject s \<or> is_array s) then Some ''topology snapshot must be an object''
      else if \<not> isNonEmptyString (js_get s ''topology_snapshot_hash'')
        then Some ''topology_snapshot_hash is missing or empty''
      else if \<not> is_array (js_get s ''observed_nodes'') then Some ''observed_nodes must be an array''
      else if \<not> is_array (js_get s ''missing_nodes'') then Some ''missing_nodes must be an array''
      else if \<not> is_array (js_get s ''stale_nodes'') then Some ''stale_nodes must be an array''
      else if \<not> is_array (js_get s ''partitioned_nodes'') then Some ''partitioned_nodes must be an array''
      else if \<not> isNonEmptyString (js_get s ''epoch_id'') then Some ''epoch_id is missing''
      else if \<not> isNonEmptyString (js_get s ''observed_at'') then Some ''observed_at is missing''
      else None)"

definition topologyVisibilityToFinalityGuard :: "TopologyVisibilityState \<Rightarrow> bool" where
  "topologyVisibilityToFinalityGuard state \<longleftrightarrow> state = TOPOLOGY_VISIBLE"

fun topologyVisibilityToFinalityClassification :: "TopologyVisibilityState \<Rightarrow> FinalityClassification option" where
  "topologyVisibilityToFinalityClassification TOPOLOGY_VISIBLE = None"
| "topologyVisibilityToFinalityClassification TOPOLOGY_PARTIAL = Some PARTITION_SUSPENDED"
| "topologyVisibilityToFinalityClassification TOPOLOGY_STALE = Some STALE_VISIBLE"
| "topologyVisibilityToFinalityClassification TOPOLOGY_INVISIBLE = Some FC_NULL"
| "topologyVisibilityToFinalityClassification TOPOLOGY_AMBIGUOUS = Some AMBIGUOUS"
| "topologyVisibilityToFinalityClassification TOPOLOGY_NULL = Some FC_NULL"

definition topologyEvidenceFlags :: "TopologyVisibilityResult \<Rightarrow> int \<times> TopologyVisibilityState" where
  "topologyEvidenceFlags result = (if tv_finality_guard result then 1 else 0, tv_topology_visibility result)"

section \<open>revocation-liveness.ts\<close>

definition buildRevocationLivenessId :: "string \<Rightarrow> string \<Rightarrow> string \<Rightarrow> string" where
  "buildRevocationLivenessId channel_id last_observed_at created_at =
     ''rlr_'' @ hashCanonical (JObj
       [(''channel_id'', JStr channel_id), (''last_observed_at'', JStr last_observed_at),
        (''created_at'', JStr created_at)])"

text \<open>The observed silence and the flag \<^verbatim>\<open>within_sla\<close>.\<close>

definition evaluateLiveness :: "(string \<Rightarrow> int option) \<Rightarrow> string \<Rightarrow> int \<Rightarrow> int \<Rightarrow> int \<times> bool" where
  "evaluateLiveness parse last_observed_at max_allowed_silence_ms now_ms =
     (case parse last_observed_at of
        None \<Rightarrow> (max_allowed_silence_ms + 1, False)
      | Some last_ms \<Rightarrow>
          let observed_silence_ms = max 0 (now_ms - last_ms)
          in (observed_silence_ms, observed_silence_ms \<le> max_allowed_silence_ms))"

definition evaluateLPredicate :: "bool list \<Rightarrow> bool" where
  "evaluateLPredicate records = (if records = [] then False else list_all id records)"

section \<open>proof-finality-metadata.ts\<close>

record ProofEvent =
  pe_event_id :: string
  pe_proof_id :: string
  pe_from_classification :: FinalityClassification
  pe_to_classification :: FinalityClassification
  pe_reason_code :: string
  pe_timestamp_utc :: string
  pe_evidence_ref :: "string option"

datatype DetachReason =
    missing_continuity_lineage | missing_validated_object_hash | missing_execution_lineage | stale_proof_reuse

record ProofFinalityClassificationResult =
  pf_classification :: FinalityClassification
  pf_detached :: bool
  pf_detach_reason :: "DetachReason option"
  pf_downgrade_events :: "ProofEvent list"
  pf_upgrade_events :: "ProofEvent list"

definition proof_event_body :: "string \<Rightarrow> FinalityClassification \<Rightarrow> FinalityClassification \<Rightarrow> string \<Rightarrow> jsval" where
  "proof_event_body proof_id from_classification to_classification timestamp_utc = JObj
     [(''proof_id'', JStr proof_id), (''from_classification'', JStr (classification_string from_classification)),
      (''to_classification'', JStr (classification_string to_classification)), (''timestamp_utc'', JStr timestamp_utc)]"

definition buildProofDowngradeEventId :: "string \<Rightarrow> FinalityClassification \<Rightarrow> FinalityClassification \<Rightarrow> string \<Rightarrow> string" where
  "buildProofDowngradeEventId i a b t = ''pde_'' @ hashCanonical (proof_event_body i a b t)"

definition buildProofUpgradeEventId :: "string \<Rightarrow> FinalityClassification \<Rightarrow> FinalityClassification \<Rightarrow> string \<Rightarrow> string" where
  "buildProofUpgradeEventId i a b t = ''pue_'' @ hashCanonical (proof_event_body i a b t)"

definition isProofDetached :: "bool \<Rightarrow> bool \<Rightarrow> bool \<Rightarrow> bool \<Rightarrow> bool \<times> DetachReason option" where
  "isProofDetached continuity_lineage_present validated_object_hash_present execution_lineage_present stale_reuse =
     (if \<not> continuity_lineage_present then (True, Some missing_continuity_lineage)
      else if \<not> validated_object_hash_present then (True, Some missing_validated_object_hash)
      else if \<not> execution_lineage_present then (True, Some missing_execution_lineage)
      else if stale_reuse then (True, Some stale_proof_reuse)
      else (False, None))"

definition appendProofDowngradeEvent :: "ProofEvent list \<Rightarrow> ProofEvent \<Rightarrow> ProofEvent list" where
  "appendProofDowngradeEvent existing event = existing @ [event]"

definition appendProofUpgradeEvent :: "ProofEvent list \<Rightarrow> ProofEvent \<Rightarrow> ProofEvent list" where
  "appendProofUpgradeEvent existing event = existing @ [event]"

definition classifyProofFinality ::
  "bool \<Rightarrow> bool \<Rightarrow> bool \<Rightarrow> bool \<Rightarrow> bool \<Rightarrow> FinalityClassification \<Rightarrow> ProofEvent list \<Rightarrow> ProofEvent list
   \<Rightarrow> ProofFinalityClassificationResult" where
  "classifyProofFinality topology_present continuity_lineage_present validated_object_hash_present
     execution_lineage_present stale_reuse current_classification downgrade_events upgrade_events =
     (let (detached, detach_reason) = isProofDetached continuity_lineage_present validated_object_hash_present
            execution_lineage_present stale_reuse;
          result = (\<lambda>c d r. \<lparr>pf_classification = c, pf_detached = d, pf_detach_reason = r,
                      pf_downgrade_events = downgrade_events, pf_upgrade_events = upgrade_events\<rparr>) in
      if detached then result (if detach_reason = Some stale_proof_reuse then STALE_VISIBLE else FC_NULL) True detach_reason
      else if \<not> topology_present then result PARTITION_SUSPENDED False None
      else result current_classification False None)"

section \<open>Properties\<close>

text \<open>
  When a decision becomes final: \<^verbatim>\<open>GLOBAL_VALID\<close> exactly when the topology is present, the
  epoch is globally authoritative, all eleven predicates hold and causal order is not in doubt;
  \<^verbatim>\<open>CONVERGENCE_VALID\<close> exactly under the same conditions with another non-blocking epoch, or
  none; and \<^verbatim>\<open>LOCAL_VALID\<close> exactly when the topology is present, the epoch is not blocking, the
  seven base predicates and the freshness of the lineage hold, and a distributed predicate fails.
\<close>

theorem classifyFromPredicates_exactly:
  "(classifyFromPredicates p topo ep causal = GLOBAL_VALID \<longleftrightarrow>
      topo \<and> ep = Some EPOCH_GLOBAL_AUTHORITATIVE \<and> base_predicates p \<and> p_Q p \<and> p_G p \<and> p_L p \<and> p_X p \<and>
      causal \<notin> {Some AMBIGUOUS, Some FC_NULL}) \<and>
   (classifyFromPredicates p topo ep causal = CONVERGENCE_VALID \<longleftrightarrow>
      topo \<and> ep \<in> {None, Some EPOCH_LOCAL, Some EPOCH_GLOBAL_CANDIDATE} \<and> base_predicates p \<and>
      p_Q p \<and> p_G p \<and> p_L p \<and> p_X p \<and> causal \<notin> {Some AMBIGUOUS, Some FC_NULL}) \<and>
   (classifyFromPredicates p topo ep causal = LOCAL_VALID \<longleftrightarrow>
      topo \<and> ep \<in> {None, Some EPOCH_LOCAL, Some EPOCH_GLOBAL_CANDIDATE, Some EPOCH_GLOBAL_AUTHORITATIVE} \<and>
      base_predicates p \<and> p_L p \<and> \<not> (p_Q p \<and> p_G p \<and> p_X p))"
proof (cases ep)
  case None
  then show ?thesis by (auto simp: classifyFromPredicates_def)
next
  case (Some e)
  then show ?thesis
    by (cases e) (auto simp: classifyFromPredicates_def isEpochBlocking_def isEpochGloballyAuthoritative_def)
qed

text \<open>
  The finality guard of the topology is closed on failure: it is open exactly when a snapshot
  is present, is not declared null, has observed nodes and has no stale, partitioned or missing
  node; then and only then the visibility forces no classification; and the guard is what the
  classification of the visibility state says.
\<close>

theorem topology_guard_exactly:
  "(tv_finality_guard (classifyTopologyVisibility snap) \<longleftrightarrow>
      (\<exists>s. snap = Some s \<and> ts_visibility_classification s \<noteq> TOPOLOGY_NULL \<and> ts_observed_nodes s \<noteq> [] \<and>
           ts_stale_nodes s = [] \<and> ts_partitioned_nodes s = [] \<and> ts_missing_nodes s = [])) \<and>
   (tv_finality_guard (classifyTopologyVisibility snap) \<longleftrightarrow>
      topologyVisibilityToFinalityGuard (tv_topology_visibility (classifyTopologyVisibility snap))) \<and>
   (tv_finality_guard (classifyTopologyVisibility snap) \<longleftrightarrow>
      topologyVisibilityToFinalityClassification (tv_topology_visibility (classifyTopologyVisibility snap)) = None) \<and>
   (tv_finality_guard (classifyTopologyVisibility snap) \<longleftrightarrow>
      tv_classification (classifyTopologyVisibility snap) = VISIBLE)"
  by (auto simp: classifyTopologyVisibility_def visibility_def topologyVisibilityToFinalityGuard_def split: option.splits)

lemma map_JStr_inj: "map JStr xs = map JStr ys \<longleftrightarrow> xs = ys"
  by (simp add: inj_map_eq_map inj_def)

lemma sort_eq_mset: "sort xs = sort ys \<longleftrightarrow> mset xs = mset (ys :: string list)"
  by (metis mset_sort properties_for_sort sorted_sort)

lemma map_normalize_JStr [simp]: "map (normalize \<circ> JStr) xs = map JStr xs"
  by simp

text \<open>
  The hashed text of a topology snapshot identifies the snapshot up to the order of the nodes:
  two snapshots have the same text exactly when they have the same nodes of each kind (with
  multiplicities), the same epoch and the same observation time; in particular the order in
  which nodes were observed never changes the hash.
\<close>

theorem topology_snapshot_identity:
  "(canonicalize (topology_snapshot_body a) = canonicalize (topology_snapshot_body b) \<longleftrightarrow>
     mset (ts_observed_nodes a) = mset (ts_observed_nodes b) \<and> mset (ts_missing_nodes a) = mset (ts_missing_nodes b) \<and>
     mset (ts_stale_nodes a) = mset (ts_stale_nodes b) \<and>
     mset (ts_partitioned_nodes a) = mset (ts_partitioned_nodes b) \<and>
     ts_epoch_id a = ts_epoch_id b \<and> ts_observed_at a = ts_observed_at b) \<and>
   buildTopologySnapshotHash a = sha256Hex (canonicalize (topology_snapshot_body a))"
  unfolding canonicalize_inj
  by (simp add: topology_snapshot_body_def proto_key_def map_JStr_inj sort_eq_mset buildTopologySnapshotHash_def)
     blast

text \<open>
  Admission of a settled partition: exactly the inputs that carry all metadata, are visible,
  deterministically ordered and reconciled, observed within the freshness window, of the
  canonical lineage, and whose closure hash is the hash of their own epoch and lineage, in the
  state settled or reconciled.
\<close>

theorem classifyPartitionFinalityAdmission_exactly:
  "classifyPartitionFinalityAdmission parse num wall inp = PA_ok st \<longleftrightarrow>
     st \<in> {''PARTITION_SETTLED'', ''PARTITION_RECONCILED''} \<and>
     js_String_or (js_get inp ''partition_finality_state'') [] = st \<and>
     js_get inp ''topology_visible'' = JBool True \<and> js_get inp ''reconciliation_deterministic'' = JBool True \<and>
     js_get inp ''reconciliation_ordering_deterministic'' = JBool True \<and>
     (\<exists>t. parse (js_String_or (js_get inp ''settlement_observed_at'') []) = Some t \<and>
        finite_or (js_get inp ''now_ms'') wall - t \<le> finite_or (js_get inp ''freshness_window_ms'') 300000) \<and>
     (\<exists>lin epoch. lin \<noteq> [] \<and> js_String_or (js_get inp ''canonical_lineage_hash'') [] = lin \<and>
        js_String_or (js_get inp ''partition_lineage_hash'') [] = lin \<and>
        js_Number num (js_get inp ''partition_epoch'') = NInt epoch \<and>
        js_String_or (js_get inp ''partition_closure_hash'') [] = partition_closure epoch lin)"
proof (cases "js_Number num (js_get inp ''partition_epoch'')")
  case (NInt epoch)
  have "settlement_stale parse wall inp \<longleftrightarrow>
      \<not> (\<exists>t. parse (js_String_or (js_get inp ''settlement_observed_at'') []) = Some t \<and>
        finite_or (js_get inp ''now_ms'') wall - t \<le> finite_or (js_get inp ''freshness_window_ms'') 300000)"
    by (auto simp: settlement_stale_def split: option.splits)
  moreover have "partition_closure epoch l \<noteq> []" for l
    by (simp add: partition_closure_def hashCanonical_def)
  ultimately show ?thesis
    using NInt by (auto simp: classifyPartitionFinalityAdmission_def Let_def)
qed (simp_all add: classifyPartitionFinalityAdmission_def Let_def)

lemma classifyProofFinality_never_raises:
  "pf_classification (classifyProofFinality topo c v e s cur ds us) \<in> {cur, FC_NULL, STALE_VISIBLE, PARTITION_SUSPENDED} \<and>
   (pf_detached (classifyProofFinality topo c v e s cur ds us) \<longleftrightarrow> \<not> (c \<and> v \<and> e) \<or> s) \<and>
   pf_downgrade_events (classifyProofFinality topo c v e s cur ds us) = ds \<and>
   pf_upgrade_events (classifyProofFinality topo c v e s cur ds us) = us"
  by (auto simp: classifyProofFinality_def isProofDetached_def Let_def)

text \<open>A liveness timestamp in the future counts as fresh; one that cannot be read never does.\<close>

lemma evaluateLiveness_within:
  "snd (evaluateLiveness parse t m now) \<longleftrightarrow> (\<exists>l. parse t = Some l \<and> now - l \<le> m \<and> 0 \<le> m)"
  by (auto simp: evaluateLiveness_def Let_def max_def split: option.splits)

end
