(* ===== verification/Quorum.thy ===== *)
theory Quorum
  imports Complex_Main Finality
begin

text \<open>
  \<^verbatim>\<open>src/lib/quorum-attestation.ts\<close>: weighted quorum and the classification of a set of
  validator attestations. Weights and thresholds are rational numbers; the rounding of floating
  point is outside the model.
\<close>

record MemberAttestation =
  ma_member_id :: string
  ma_member_weight :: rat
  ma_attested_hash :: string
  ma_attested_at :: string
  ma_signature_present :: bool

datatype ValidatorAttestationType = EVIDENCE | OBSERVATION

record ValidatorAttestationEnvelope =
  va_validator_attestation_id :: string
  va_validator_id :: string
  va_epoch_id :: string
  va_object_hash :: string
  va_classification :: FinalityClassification
  va_topology_snapshot_hash :: string
  va_causal_clock_json :: string
  va_attestation_type :: ValidatorAttestationType
  va_timestamp_utc :: string
  va_signature :: string
  va_is_epoch_stale :: bool
  va_is_topology_visible :: bool

definition buildQuorumAttestationId :: "string \<Rightarrow> string \<Rightarrow> string \<Rightarrow> string" where
  "buildQuorumAttestationId federation_profile_id attested_object_hash created_at =
     ''qar_'' @ hashCanonical (JObj
       [(''federation_profile_id'', JStr federation_profile_id),
        (''attested_object_hash'', JStr attested_object_hash), (''created_at'', JStr created_at)])"

definition buildValidatorAttestationId :: "string \<Rightarrow> string \<Rightarrow> string \<Rightarrow> string" where
  "buildValidatorAttestationId validator_id object_hash timestamp_utc =
     ''vae_'' @ hashCanonical (JObj
       [(''validator_id'', JStr validator_id), (''object_hash'', JStr object_hash),
        (''timestamp_utc'', JStr timestamp_utc)])"

definition isAttestationEpochStale :: "ValidatorAttestationEnvelope \<Rightarrow> string \<Rightarrow> bool" where
  "isAttestationEpochStale envelope active_epoch_id \<longleftrightarrow> va_epoch_id envelope \<noteq> active_epoch_id"

definition isAttestationTopologyVisible :: "ValidatorAttestationEnvelope \<Rightarrow> bool" where
  "isAttestationTopologyVisible envelope \<longleftrightarrow> length (va_topology_snapshot_hash envelope) > 0"

text \<open>\<^verbatim>\<open>weight_total\<close>, \<^verbatim>\<open>weight_approved\<close> and \<^verbatim>\<open>quorum_met\<close>.\<close>

definition evaluateWeightedQuorum :: "MemberAttestation list \<Rightarrow> string \<Rightarrow> rat \<Rightarrow> rat \<times> rat \<times> bool" where
  "evaluateWeightedQuorum members target_hash threshold_fraction =
     (let weight_total = foldl (\<lambda>sum m. sum + ma_member_weight m) 0 members;
          weight_approved = foldl (\<lambda>sum m. sum + ma_member_weight m) 0
            (filter (\<lambda>m. ma_attested_hash m = target_hash) members)
      in (weight_total, weight_approved, weight_total > 0 \<and> weight_approved \<ge> weight_total * threshold_fraction))"

definition evidence_envelopes :: "ValidatorAttestationEnvelope list \<Rightarrow> ValidatorAttestationEnvelope list" where
  "evidence_envelopes envelopes =
     filter (\<lambda>e. va_attestation_type e = EVIDENCE \<and> va_is_topology_visible e) envelopes"

definition member_of :: "ValidatorAttestationEnvelope \<Rightarrow> MemberAttestation" where
  "member_of e = \<lparr>ma_member_id = va_validator_id e, ma_member_weight = 1, ma_attested_hash = va_object_hash e,
     ma_attested_at = va_timestamp_utc e, ma_signature_present = (length (va_signature e) > 0)\<rparr>"

definition full_predicates :: "PredicateSnapshot \<Rightarrow> PredicateSnapshot" where
  "full_predicates base = base\<lparr>p_Q := True, p_G := True, p_L := True, p_X := True\<rparr>"

definition classifyFromValidatorAttestations ::
  "ValidatorAttestationEnvelope list \<Rightarrow> PredicateSnapshot \<Rightarrow> rat \<Rightarrow> EpochFinalityStatus option \<Rightarrow> FinalityClassification" where
  "classifyFromValidatorAttestations envelopes base quorum_threshold_fraction epochStatus =
     (if envelopes = [] then FC_NULL
      else if list_ex va_is_epoch_stale envelopes then STALE_VISIBLE
      else if list_all (\<lambda>e. \<not> va_is_topology_visible e) envelopes then PARTITION_SUSPENDED
      else let evidence = evidence_envelopes envelopes in
        if length (remdups (map va_object_hash evidence)) > 1 then AMBIGUOUS
        else if length evidence \<le> 1 then LOCAL_VALID
        else let targetHash = va_object_hash (hd evidence);
                 (weight_total, weight_approved, quorum_met) =
                   evaluateWeightedQuorum (map member_of evidence) targetHash quorum_threshold_fraction in
          if \<not> quorum_met then LOCAL_VALID
          else classifyFromPredicates (full_predicates base) True epochStatus None)"

section \<open>The quorum\<close>

lemma foldl_weights: "foldl (\<lambda>sum m. sum + ma_member_weight m) a ms = a + (\<Sum>m\<leftarrow>ms. ma_member_weight m)"
  by (induction ms arbitrary: a) (simp_all add: algebra_simps)

lemma sum_unit_weights: "(\<Sum>e\<leftarrow>es. ma_member_weight (member_of e)) = rat_of_nat (length es)"
  by (induction es) (simp_all add: member_of_def)

lemma remdups_le_1:
  assumes "length (remdups xs) \<le> 1" and "x \<in> set xs" and "y \<in> set xs"
  shows "x = y"
proof (cases "remdups xs")
  case Nil
  with assms(2) show ?thesis by simp
next
  case (Cons z zs)
  with assms(1) have "remdups xs = [z]" by simp
  then have "set xs = {z}" by (metis empty_set list.simps(15) set_remdups)
  with assms show ?thesis by auto
qed

lemma agreeing_filter:
  assumes "length (remdups (map va_object_hash es)) \<le> 1" and "es \<noteq> []"
  shows "filter (\<lambda>m. ma_attested_hash m = va_object_hash (hd es)) (map member_of es) = map member_of es"
proof -
  have "va_object_hash e = va_object_hash (hd es)" if "e \<in> set es" for e
    using remdups_le_1 [OF assms(1), of "va_object_hash e" "va_object_hash (hd es)"] that assms(2) by auto
  then show ?thesis by (auto simp: member_of_def filter_id_conv)
qed

text \<open>Once the envelopes agree, every one of them counts, so the threshold is compared with 1.\<close>

lemma quorum_of_agreement:
  assumes "length (remdups (map va_object_hash es)) \<le> 1" and "es \<noteq> []"
  shows "snd (snd (evaluateWeightedQuorum (map member_of es) (va_object_hash (hd es)) th)) \<longleftrightarrow> th \<le> 1"
proof -
  let ?n = "rat_of_nat (length es)"
  have "?n > 0" using assms(2) by simp
  then have "?n \<ge> ?n * th \<longleftrightarrow> th \<le> 1" by (simp add: mult_le_cancel_left1)
  then show ?thesis
    unfolding evaluateWeightedQuorum_def Let_def agreeing_filter [OF assms] foldl_weights
    using assms(2) by (simp add: sum_unit_weights o_def)
qed

text \<open>
  The quorum threshold has no effect on the classification of attestations: disagreement
  among the evidence envelopes is answered before the quorum is evaluated, so the approved
  weight always is the total weight and every threshold up to 1 is met. For two thresholds up
  to 1 the classification is the same, whatever the envelopes are.
\<close>

theorem quorum_threshold_has_no_effect:
  assumes "t1 \<le> 1" and "t2 \<le> 1"
  shows "classifyFromValidatorAttestations es base t1 ep = classifyFromValidatorAttestations es base t2 ep"
proof -
  let ?ev = "evidence_envelopes es"
  have "snd (snd (evaluateWeightedQuorum (map member_of ?ev) (va_object_hash (hd ?ev)) t1)) =
      snd (snd (evaluateWeightedQuorum (map member_of ?ev) (va_object_hash (hd ?ev)) t2))"
    if "length (remdups (map va_object_hash ?ev)) \<le> 1" "\<not> length ?ev \<le> 1"
  proof -
    have "?ev \<noteq> []" using that(2) by auto
    then show ?thesis using quorum_of_agreement [OF that(1)] assms by simp
  qed
  then show ?thesis
    unfolding classifyFromValidatorAttestations_def Let_def case_prod_unfold
    by (cases "length (remdups (map va_object_hash ?ev)) \<le> 1"; cases "length ?ev \<le> 1") simp_all
qed

text \<open>
  What a \<^verbatim>\<open>GLOBAL_VALID\<close> or \<^verbatim>\<open>CONVERGENCE_VALID\<close> verdict on attestations guarantees: no
  envelope is epoch-stale, at least two topology-visible evidence envelopes exist and all of
  them attest the same hash, the threshold is at most 1, the base predicates hold, and the
  verdict is global exactly for a globally authoritative epoch.
\<close>

theorem attestation_verdict_sound:
  assumes "classifyFromValidatorAttestations es base th ep \<in> {GLOBAL_VALID, CONVERGENCE_VALID}"
  shows "list_all (\<lambda>e. \<not> va_is_epoch_stale e) es \<and> 2 \<le> length (evidence_envelopes es) \<and>
     (\<exists>h. \<forall>e\<in>set (evidence_envelopes es). va_object_hash e = h) \<and> th \<le> 1 \<and> base_predicates base \<and>
     (classifyFromValidatorAttestations es base th ep = GLOBAL_VALID \<longleftrightarrow> ep = Some EPOCH_GLOBAL_AUTHORITATIVE)"
proof -
  let ?ev = "evidence_envelopes es"
  have split: "list_all (\<lambda>e. \<not> va_is_epoch_stale e) es" "length (remdups (map va_object_hash ?ev)) \<le> 1"
    "\<not> length ?ev \<le> 1"
    "snd (snd (evaluateWeightedQuorum (map member_of ?ev) (va_object_hash (hd ?ev)) th))"
    "classifyFromValidatorAttestations es base th ep = classifyFromPredicates (full_predicates base) True ep None"
    using assms
    by (auto simp: classifyFromValidatorAttestations_def Let_def case_prod_unfold list_ex_iff list_all_iff split: if_splits)
  have ne: "?ev \<noteq> []" using split(3) by auto
  have "\<forall>e\<in>set ?ev. va_object_hash e = va_object_hash (hd ?ev)"
    using remdups_le_1 [OF split(2)] ne by (auto simp: hd_in_set)
  moreover have "th \<le> 1" using split(4) quorum_of_agreement [OF split(2) ne] by simp
  moreover have "base_predicates base" "classifyFromPredicates (full_predicates base) True ep None = GLOBAL_VALID \<longleftrightarrow>
      ep = Some EPOCH_GLOBAL_AUTHORITATIVE"
    using assms split(5) unfolding classifyFromPredicates_def
    by (auto simp: full_predicates_def base_predicates_def isEpochBlocking_def isEpochGloballyAuthoritative_def
        split: if_splits option.splits)
  ultimately show ?thesis using split by auto
qed

definition sample_envelope :: "string \<Rightarrow> ValidatorAttestationEnvelope" where
  "sample_envelope sig =
     \<lparr>va_validator_attestation_id = ''vae_1'', va_validator_id = ''v1'', va_epoch_id = ''e1'', va_object_hash = ''h'',
      va_classification = LOCAL_VALID, va_topology_snapshot_hash = ''t'', va_causal_clock_json = [],
      va_attestation_type = EVIDENCE, va_timestamp_utc = ''now'', va_signature = sig, va_is_epoch_stale = False,
      va_is_topology_visible = True\<rparr>"

definition all_base :: PredicateSnapshot where
  "all_base = \<lparr>p_V = True, p_A = True, p_U = True, p_P = True, p_R = True, p_T = True, p_C = True,
     p_Q = False, p_G = False, p_L = False, p_X = False\<rparr>"

lemma one_validator_twice:
  "classifyFromValidatorAttestations [sample_envelope [], sample_envelope []] all_base (2/3)
     (Some EPOCH_GLOBAL_AUTHORITATIVE) = GLOBAL_VALID"
  by (simp add: classifyFromValidatorAttestations_def sample_envelope_def evidence_envelopes_def
      evaluateWeightedQuorum_def member_of_def full_predicates_def all_base_def classifyFromPredicates_def
      base_predicates_def isEpochBlocking_def isEpochGloballyAuthoritative_def)

theorem quorum_threshold_has_no_effect_witness:
  "(0::rat) \<le> 1 \<and> classifyFromValidatorAttestations [sample_envelope [], sample_envelope []] all_base 0
     (Some EPOCH_GLOBAL_AUTHORITATIVE) = GLOBAL_VALID"
  using quorum_threshold_has_no_effect [of 0 "2/3" "[sample_envelope [], sample_envelope []]" all_base
      "Some EPOCH_GLOBAL_AUTHORITATIVE"] one_validator_twice by simp

theorem attestation_verdict_sound_witness:
  "2 \<le> length (evidence_envelopes [sample_envelope [], sample_envelope []]) \<and> base_predicates all_base"
  using attestation_verdict_sound [of "[sample_envelope [], sample_envelope []]" all_base "2/3"
      "Some EPOCH_GLOBAL_AUTHORITATIVE"] one_validator_twice by simp

text \<open>
  Quorum counts envelopes, not validators, and does not look at signatures: two envelopes of
  one and the same validator without a signature make an object \<^verbatim>\<open>GLOBAL_VALID\<close>. For every
  unsigned evidence envelope, repeating it reaches the highest verdict.
\<close>

theorem one_unsigned_validator_reaches_quorum:
  assumes "va_attestation_type e = EVIDENCE" "va_is_topology_visible e" "\<not> va_is_epoch_stale e"
    and "base_predicates base" "th \<le> 1"
  shows "classifyFromValidatorAttestations [e, e] base th (Some EPOCH_GLOBAL_AUTHORITATIVE) = GLOBAL_VALID"
  using assms
  by (auto simp: classifyFromValidatorAttestations_def evidence_envelopes_def evaluateWeightedQuorum_def member_of_def
      full_predicates_def classifyFromPredicates_def base_predicates_def isEpochBlocking_def isEpochGloballyAuthoritative_def)

theorem one_unsigned_validator_reaches_quorum_witness:
  "va_signature (sample_envelope []) = [] \<and>
   classifyFromValidatorAttestations [sample_envelope [], sample_envelope []] all_base 1 (Some EPOCH_GLOBAL_AUTHORITATIVE) = GLOBAL_VALID"
  using one_unsigned_validator_reaches_quorum [of "sample_envelope []" all_base 1]
  by (simp add: sample_envelope_def all_base_def base_predicates_def)

end
