(* ===== verification/Causal_Clocks.thy ===== *)
theory Causal_Clocks
  imports Finality
begin

text \<open>
  \<^verbatim>\<open>src/lib/causal-clock.ts\<close> (Lamport indices over legitimacy events) and
  \<^verbatim>\<open>src/lib/causal-legitimacy-clock.ts\<close> (vector clocks, their comparison and the finality
  override they give).

  A vector \<^verbatim>\<open>Record<string, number>\<close> is the list of its properties with integer counters;
  node ids that name a property of \<^verbatim>\<open>Object.prototype\<close> are outside the model. The textual
  descriptor of a causal inversion is represented by its four components.
\<close>

section \<open>causal-clock.ts\<close>

datatype CausalClockObjectType =
    CO_session | CO_continuity | CO_authority | CO_aeo | CO_validation | CO_execution | CO_proof

fun object_type_string :: "CausalClockObjectType \<Rightarrow> string" where
  "object_type_string CO_session = ''session''"
| "object_type_string CO_continuity = ''continuity''"
| "object_type_string CO_authority = ''authority''"
| "object_type_string CO_aeo = ''aeo''"
| "object_type_string CO_validation = ''validation''"
| "object_type_string CO_execution = ''execution''"
| "object_type_string CO_proof = ''proof''"

definition CAUSAL_OBJECT_TYPE_ORDER :: "CausalClockObjectType list" where
  "CAUSAL_OBJECT_TYPE_ORDER =
     [CO_session, CO_continuity, CO_authority, CO_aeo, CO_validation, CO_execution, CO_proof]"

record CausalClockEntry =
  cc_object_id :: string
  cc_object_type :: CausalClockObjectType
  cc_causal_index :: int
  cc_parent_object_id :: "string option"
  cc_parent_causal_index :: "int option"
  cc_lineage_hash :: string
  cc_created_at :: string

definition assignCausalIndex :: "CausalClockEntry list \<Rightarrow> int" where
  "assignCausalIndex prior_events =
     (if prior_events = [] then 1 else Max (set (map cc_causal_index prior_events)) + 1)"

definition happensBefore :: "CausalClockEntry \<Rightarrow> CausalClockEntry \<Rightarrow> bool" where
  "happensBefore a b =
     (if cc_parent_object_id b = Some (cc_object_id a) then True
      else if (case cc_parent_causal_index b of None \<Rightarrow> False | Some i \<Rightarrow> cc_causal_index a \<le> i) then True
      else cc_causal_index a < cc_causal_index b)"

definition opt_str_js :: "string option \<Rightarrow> jsval" where
  "opt_str_js v = (case v of None \<Rightarrow> JNull | Some s \<Rightarrow> JStr s)"

definition opt_int_js :: "int option \<Rightarrow> jsval" where
  "opt_int_js v = (case v of None \<Rightarrow> JNull | Some i \<Rightarrow> JNum (NInt i))"

definition clock_entry_js :: "CausalClockEntry \<Rightarrow> jsval" where
  "clock_entry_js entry = JObj
     [(''object_id'', JStr (cc_object_id entry)), (''object_type'', JStr (object_type_string (cc_object_type entry))),
      (''causal_index'', JNum (NInt (cc_causal_index entry))),
      (''parent_object_id'', opt_str_js (cc_parent_object_id entry)),
      (''parent_causal_index'', opt_int_js (cc_parent_causal_index entry)),
      (''lineage_hash'', JStr (cc_lineage_hash entry)), (''created_at'', JStr (cc_created_at entry))]"

text \<open>\<^verbatim>\<open>JSON.stringify\<close> prints the properties in the order in which they were written.\<close>

definition buildCausalClockJson :: "CausalClockEntry \<Rightarrow> string" where
  "buildCausalClockJson entry = print_json (clock_entry_js entry)"

definition buildCausalClockEntryId :: "CausalClockEntry \<Rightarrow> string" where
  "buildCausalClockEntryId entry = ''ccl_'' @ hashCanonical (JObj
     [(''object_id'', JStr (cc_object_id entry)), (''causal_index'', JNum (NInt (cc_causal_index entry))),
      (''created_at'', JStr (cc_created_at entry))])"

text \<open>\<^verbatim>\<open>new Map(events.map((e) => [e.object_id, e]))\<close>: the last event of an id wins.\<close>

definition by_id :: "CausalClockEntry list \<Rightarrow> string \<Rightarrow> CausalClockEntry option" where
  "by_id events i = map_of (rev (map (\<lambda>e. (cc_object_id e, e)) events)) i"

definition detectCausalInversions :: "CausalClockEntry list \<Rightarrow> (string \<times> int \<times> string \<times> int) list" where
  "detectCausalInversions events =
     List.map_filter (\<lambda>event.
       case cc_parent_object_id event of None \<Rightarrow> None
       | Some pid \<Rightarrow>
           if cc_parent_causal_index event = None then None
           else (case by_id events pid of None \<Rightarrow> None
             | Some parent \<Rightarrow>
                 if cc_causal_index parent \<ge> cc_causal_index event
                 then Some (pid, cc_causal_index parent, cc_object_id event, cc_causal_index event)
                 else None)) events"

fun rank_in :: "'a list \<Rightarrow> 'a \<Rightarrow> nat" where
  "rank_in [] t = 0"
| "rank_in (x # xs) t = (if x = t then 0 else Suc (rank_in xs t))"

definition verifyCausalTypeOrder :: "CausalClockEntry list \<Rightarrow> bool" where
  "verifyCausalTypeOrder events =
     list_all (\<lambda>event.
       case cc_parent_object_id event of None \<Rightarrow> True
       | Some pid \<Rightarrow>
           if pid = [] then True
           else (case by_id events pid of None \<Rightarrow> True
             | Some parent \<Rightarrow>
                 \<not> rank_in CAUSAL_OBJECT_TYPE_ORDER (cc_object_type event)
                     < rank_in CAUSAL_OBJECT_TYPE_ORDER (cc_object_type parent))) events"

section \<open>causal-legitimacy-clock.ts\<close>

datatype CausalOrderingResult = CO_BEFORE | CO_AFTER | CO_CONCURRENT | CO_AMBIGUOUS | CO_NULL

record CausalLegitimacyClock =
  cl_clock_id :: string
  cl_epoch_id :: string
  cl_node_id :: string
  cl_vector :: "(string \<times> int) list"
  cl_observed_events :: "string list"
  cl_happens_before :: "string list"
  cl_concurrent_with :: "string list"
  cl_ambiguity_detected :: bool
  cl_topology_snapshot_hash :: "string option"
  cl_created_at :: string

definition buildCausalLegitimacyClockId :: "string \<Rightarrow> string \<Rightarrow> string \<Rightarrow> string" where
  "buildCausalLegitimacyClockId node_id epoch_id created_at =
     ''clc_'' @ hashCanonical (JObj
       [(''node_id'', JStr node_id), (''epoch_id'', JStr epoch_id), (''created_at'', JStr created_at)])"

definition component :: "(string \<times> int) list \<Rightarrow> string \<Rightarrow> int" where
  "component v n = (case map_of v n of None \<Rightarrow> 0 | Some i \<Rightarrow> i)"

text \<open>The loop over the nodes of both vectors, with its early return.\<close>

fun compare_loop :: "(string \<times> int) list \<Rightarrow> (string \<times> int) list \<Rightarrow> string list \<Rightarrow> bool \<Rightarrow> bool \<Rightarrow> CausalOrderingResult" where
  "compare_loop va vb [] aLtB bLtA =
     (if aLtB \<and> \<not> bLtA then CO_BEFORE else if bLtA \<and> \<not> aLtB then CO_AFTER else CO_CONCURRENT)"
| "compare_loop va vb (n # ns) aLtB bLtA =
     (let aLtB' = (aLtB \<or> component va n < component vb n);
          bLtA' = (bLtA \<or> component vb n < component va n) in
      if aLtB' \<and> bLtA' then CO_CONCURRENT else compare_loop va vb ns aLtB' bLtA')"

definition vectorClockCompare :: "(string \<times> int) list \<Rightarrow> (string \<times> int) list \<Rightarrow> CausalOrderingResult" where
  "vectorClockCompare va vb =
     compare_loop va vb (dedup_loop id [] (map fst va @ map fst vb)) False False"

definition compareCausalClocks ::
  "CausalLegitimacyClock option \<Rightarrow> CausalLegitimacyClock option \<Rightarrow> CausalOrderingResult" where
  "compareCausalClocks a b =
     (case (a, b) of
        (Some a, Some b) \<Rightarrow>
          if cl_ambiguity_detected a \<or> cl_ambiguity_detected b then CO_AMBIGUOUS
          else vectorClockCompare (cl_vector a) (cl_vector b)
      | _ \<Rightarrow> CO_NULL)"

text \<open>The double loop over the pairs \<^verbatim>\<open>i < j\<close>.\<close>

definition undecided :: "CausalLegitimacyClock \<Rightarrow> CausalLegitimacyClock \<Rightarrow> bool" where
  "undecided a b \<longleftrightarrow> compareCausalClocks (Some a) (Some b) \<in> {CO_CONCURRENT, CO_AMBIGUOUS}"

fun some_pair :: "('a \<Rightarrow> 'a \<Rightarrow> bool) \<Rightarrow> 'a list \<Rightarrow> bool" where
  "some_pair P [] = False"
| "some_pair P (x # xs) = (list_ex (P x) xs \<or> some_pair P xs)"

definition detectCausalAmbiguity :: "CausalLegitimacyClock option list \<Rightarrow> bool" where
  "detectCausalAmbiguity clocks =
     (let valid = List.map_filter id clocks in
      if list_ex cl_ambiguity_detected valid then True else some_pair undecided valid)"

definition computeHappensBefore :: "CausalLegitimacyClock \<Rightarrow> CausalLegitimacyClock option list \<Rightarrow> string list" where
  "computeHappensBefore target candidates =
     (if cl_ambiguity_detected target then []
      else map cl_clock_id (filter (\<lambda>c. cl_clock_id c \<noteq> cl_clock_id target \<and>
             compareCausalClocks (Some c) (Some target) = CO_BEFORE) (List.map_filter id candidates)))"

definition computeConcurrentLegitimacy :: "CausalLegitimacyClock \<Rightarrow> CausalLegitimacyClock option list \<Rightarrow> string list" where
  "computeConcurrentLegitimacy target candidates =
     (let others = filter (\<lambda>c. cl_clock_id c \<noteq> cl_clock_id target) (List.map_filter id candidates) in
      if cl_ambiguity_detected target then map cl_clock_id others
      else map cl_clock_id (filter (\<lambda>c. compareCausalClocks (Some target) (Some c) = CO_CONCURRENT) others))"

fun causalClockToClassification :: "CausalOrderingResult \<Rightarrow> FinalityClassification option" where
  "causalClockToClassification CO_BEFORE = None"
| "causalClockToClassification CO_AFTER = None"
| "causalClockToClassification CO_CONCURRENT = Some AMBIGUOUS"
| "causalClockToClassification CO_AMBIGUOUS = Some AMBIGUOUS"
| "causalClockToClassification CO_NULL = Some FC_NULL"

definition classifyCausalLegitimacyClocks :: "CausalLegitimacyClock option list \<Rightarrow> FinalityClassification option" where
  "classifyCausalLegitimacyClocks clocks =
     (if clocks = [] then None
      else if None \<in> set clocks then Some FC_NULL
      else if detectCausalAmbiguity clocks then Some AMBIGUOUS
      else None)"

definition buildCausalClockHash :: "CausalLegitimacyClock \<Rightarrow> string" where
  "buildCausalClockHash clock = hashCanonical (JObj
     [(''clock_id'', JStr (cl_clock_id clock)), (''epoch_id'', JStr (cl_epoch_id clock)),
      (''node_id'', JStr (cl_node_id clock)),
      (''vector'', JObj (map (map_prod id (\<lambda>i. JNum (NInt i))) (cl_vector clock))),
      (''ambiguity_detected'', JBool (cl_ambiguity_detected clock)), (''created_at'', JStr (cl_created_at clock))])"

section \<open>The comparison is the order of vectors\<close>

lemma compare_loop_outcome:
  "\<not> (x \<and> y) \<Longrightarrow> compare_loop va vb ns x y =
     (let lt = (x \<or> (\<exists>n\<in>set ns. component va n < component vb n));
          gt = (y \<or> (\<exists>n\<in>set ns. component vb n < component va n)) in
      if lt \<and> \<not> gt then CO_BEFORE else if gt \<and> \<not> lt then CO_AFTER else CO_CONCURRENT)"
  by (induction ns arbitrary: x y) (auto simp: Let_def)

lemma component_outside: "n \<notin> fst ` set v \<Longrightarrow> component v n = 0"
  by (simp add: component_def map_of_eq_None_iff [THEN iffD2])

text \<open>The strict order of vector clocks.\<close>

definition dominated :: "(string \<times> int) list \<Rightarrow> (string \<times> int) list \<Rightarrow> bool" where
  "dominated va vb \<longleftrightarrow> (\<forall>n. component va n \<le> component vb n) \<and> (\<exists>n. component va n < component vb n)"

lemma differs_in_domain:
  "(\<exists>n\<in>set (dedup_loop id [] (map fst va @ map fst vb)). component va n < component vb n) \<longleftrightarrow>
   (\<exists>n. component va n < component vb n)"
proof
  assume "\<exists>n. component va n < component vb n"
  then obtain n where n: "component va n < component vb n" ..
  then have "n \<in> fst ` set va \<union> fst ` set vb"
    using component_outside [of n va] component_outside [of n vb] by fastforce
  moreover have "set (dedup_loop id [] (map fst va @ map fst vb)) = fst ` set va \<union> fst ` set vb"
    using dedup_loop_keys [of id "[]" "map fst va @ map fst vb"] by simp
  ultimately show "\<exists>n\<in>set (dedup_loop id [] (map fst va @ map fst vb)). component va n < component vb n"
    using n by auto
qed blast

lemma differs_in_domain':
  "(\<exists>n\<in>set (dedup_loop id [] (map fst va @ map fst vb)). component vb n < component va n) \<longleftrightarrow>
   (\<exists>n. component vb n < component va n)"
proof -
  have "set (dedup_loop id [] (map fst vb @ map fst va)) = set (dedup_loop id [] (map fst va @ map fst vb))"
    using dedup_loop_keys [of id "[]" "map fst va @ map fst vb"] dedup_loop_keys [of id "[]" "map fst vb @ map fst va"]
    by (simp add: Un_commute)
  then show ?thesis using differs_in_domain [of vb va] by simp
qed

lemma vectorClockCompare_iff:
  "vectorClockCompare va vb =
     (if dominated va vb then CO_BEFORE else if dominated vb va then CO_AFTER else CO_CONCURRENT)"
proof -
  let ?lt = "\<exists>n. component va n < component vb n" and ?gt = "\<exists>n. component vb n < component va n"
  have "vectorClockCompare va vb =
      (if ?lt \<and> \<not> ?gt then CO_BEFORE else if ?gt \<and> \<not> ?lt then CO_AFTER else CO_CONCURRENT)"
    unfolding vectorClockCompare_def
    by (subst compare_loop_outcome) (simp_all only: differs_in_domain differs_in_domain' Let_def simp_thms)
  then show ?thesis by (simp add: dominated_def not_less [symmetric])
qed




definition sample_clock :: "string \<Rightarrow> (string \<times> int) list \<Rightarrow> CausalLegitimacyClock" where
  "sample_clock i v =
     \<lparr>cl_clock_id = i, cl_epoch_id = ''e'', cl_node_id = ''n'', cl_vector = v, cl_observed_events = [],
      cl_happens_before = [], cl_concurrent_with = [], cl_ambiguity_detected = False,
      cl_topology_snapshot_hash = None, cl_created_at = ''t''\<rparr>"


section \<open>Sets of clocks\<close>

lemma some_pair_iff: "some_pair P xs \<longleftrightarrow> (\<exists>i j. i < j \<and> j < length xs \<and> P (xs ! i) (xs ! j))"
proof (induction xs)
  case (Cons x xs)
  show ?case (is "?l \<longleftrightarrow> ?r")
  proof
    assume ?l
    then consider y where "y \<in> set xs" "P x y" | "some_pair P xs" by (auto simp: list_ex_iff)
    then show ?r
    proof cases
      case 1
      then obtain j where "j < length xs" "xs ! j = y" by (auto simp: in_set_conv_nth)
      with 1 show ?thesis by (intro exI [of _ 0] exI [of _ "Suc j"]) simp
    next
      case 2
      then obtain i j where "i < j" "j < length xs" "P (xs ! i) (xs ! j)" using Cons.IH by blast
      then show ?thesis by (intro exI [of _ "Suc i"] exI [of _ "Suc j"]) simp
    qed
  next
    assume ?r
    then obtain i j where ij: "i < j" "j < length (x # xs)" "P ((x # xs) ! i) ((x # xs) ! j)" by blast
    then obtain k where k: "j = Suc k" by (cases j) auto
    show ?l
    proof (cases i)
      case 0
      with ij k show ?thesis by (auto simp: list_ex_iff)
    next
      case (Suc m)
      with ij k have "\<exists>i j. i < j \<and> j < length xs \<and> P (xs ! i) (xs ! j)" by auto
      with Cons.IH show ?thesis by simp
    qed
  qed
qed simp

lemma map_filter_Some: "List.map_filter id (map Some ks) = ks"
  by (induction ks) (simp_all add: map_filter_simps)

lemma all_present: "None \<notin> set cs \<longleftrightarrow> (\<exists>ks. cs = map Some ks)"
proof
  assume "None \<notin> set cs"
  then have "cs = map Some (map the cs)" by (induction cs) auto
  then show "\<exists>ks. cs = map Some ks" ..
qed auto

text \<open>
  A set of clocks gives no finality override exactly when every clock is present and unflagged
  and any two of them are strictly ordered, one way or the other; the override is null exactly
  when a clock is missing. So a causal override is never lost: with \<^verbatim>\<open>classifyFromPredicates\<close>, an
  unordered pair of clocks keeps a decision from becoming convergent or global.
\<close>

theorem classifyCausalLegitimacyClocks_exactly:
  "(classifyCausalLegitimacyClocks cs = None \<longleftrightarrow>
     (\<exists>ks. cs = map Some ks \<and> list_all (\<lambda>k. \<not> cl_ambiguity_detected k) ks \<and>
        (\<forall>i j. i < j \<and> j < length ks \<longrightarrow>
           dominated (cl_vector (ks ! i)) (cl_vector (ks ! j)) \<or> dominated (cl_vector (ks ! j)) (cl_vector (ks ! i))))) \<and>
   (classifyCausalLegitimacyClocks cs = Some FC_NULL \<longleftrightarrow> None \<in> set cs) \<and>
   (classifyCausalLegitimacyClocks cs \<noteq> None \<longrightarrow>
      classifyFromPredicates p topo ep (classifyCausalLegitimacyClocks cs) \<notin> {CONVERGENCE_VALID, GLOBAL_VALID})"
proof (intro conjI)
  have U: "undecided a b \<longleftrightarrow> cl_ambiguity_detected a \<or> cl_ambiguity_detected b \<or>
      \<not> (dominated (cl_vector a) (cl_vector b) \<or> dominated (cl_vector b) (cl_vector a))" for a b
    by (auto simp: undecided_def compareCausalClocks_def vectorClockCompare_iff)
  have D: "\<not> detectCausalAmbiguity (map Some ks) \<longleftrightarrow> list_all (\<lambda>k. \<not> cl_ambiguity_detected k) ks \<and>
      (\<forall>i j. i < j \<and> j < length ks \<longrightarrow>
         dominated (cl_vector (ks ! i)) (cl_vector (ks ! j)) \<or> dominated (cl_vector (ks ! j)) (cl_vector (ks ! i)))" for ks
  proof (cases "list_all (\<lambda>k. \<not> cl_ambiguity_detected k) ks")
    case True
    then have "\<not> cl_ambiguity_detected (ks ! i)" if "i < length ks" for i using that by (simp add: list_all_length)
    then have "some_pair undecided ks \<longleftrightarrow> (\<exists>i j. i < j \<and> j < length ks \<and>
        \<not> (dominated (cl_vector (ks ! i)) (cl_vector (ks ! j)) \<or> dominated (cl_vector (ks ! j)) (cl_vector (ks ! i))))"
      unfolding some_pair_iff U by (meson order.strict_trans)
    with True show ?thesis
      by (auto simp: detectCausalAmbiguity_def map_filter_Some list_ex_iff list_all_iff)
  next
    case False
    then show ?thesis by (auto simp: detectCausalAmbiguity_def map_filter_Some list_ex_iff list_all_iff)
  qed
  have C: "classifyCausalLegitimacyClocks cs = None \<longleftrightarrow> (\<exists>ks. cs = map Some ks \<and> \<not> detectCausalAmbiguity (map Some ks))"
    using all_present [of cs] by (auto simp: classifyCausalLegitimacyClocks_def detectCausalAmbiguity_def map_filter_simps)
  then show "classifyCausalLegitimacyClocks cs = None \<longleftrightarrow>
     (\<exists>ks. cs = map Some ks \<and> list_all (\<lambda>k. \<not> cl_ambiguity_detected k) ks \<and>
        (\<forall>i j. i < j \<and> j < length ks \<longrightarrow>
           dominated (cl_vector (ks ! i)) (cl_vector (ks ! j)) \<or> dominated (cl_vector (ks ! j)) (cl_vector (ks ! i))))"
    unfolding D .
  show "classifyCausalLegitimacyClocks cs = Some FC_NULL \<longleftrightarrow> None \<in> set cs"
    by (auto simp: classifyCausalLegitimacyClocks_def)
  have "classifyCausalLegitimacyClocks cs \<in> {None, Some FC_NULL, Some AMBIGUOUS}"
    by (simp add: classifyCausalLegitimacyClocks_def)
  then show "classifyCausalLegitimacyClocks cs \<noteq> None \<longrightarrow>
      classifyFromPredicates p topo ep (classifyCausalLegitimacyClocks cs) \<notin> {CONVERGENCE_VALID, GLOBAL_VALID}"
    by (auto simp: classifyFromPredicates_def)
qed

theorem classifyCausalLegitimacyClocks_exactly_witness:
  "classifyFromPredicates \<lparr>p_V = True, p_A = True, p_U = True, p_P = True, p_R = True, p_T = True, p_C = True,
      p_Q = True, p_G = True, p_L = True, p_X = True\<rparr> True (Some EPOCH_GLOBAL_AUTHORITATIVE)
     (classifyCausalLegitimacyClocks [Some (sample_clock ''a'' [(''x'', 1)]), Some (sample_clock ''b'' [(''y'', 1)])])
   \<notin> {CONVERGENCE_VALID, GLOBAL_VALID}" (is "classifyFromPredicates ?p True ?ep (classifyCausalLegitimacyClocks ?cs) \<notin> _")
proof -
  have "classifyCausalLegitimacyClocks ?cs \<noteq> None"
    by (simp add: classifyCausalLegitimacyClocks_def detectCausalAmbiguity_def map_filter_def sample_clock_def
        undecided_def compareCausalClocks_def vectorClockCompare_def component_def)
  moreover note classifyCausalLegitimacyClocks_exactly [of ?cs ?p True ?ep]
  ultimately show ?thesis by argo
qed

section \<open>Lamport indices\<close>

text \<open>The logs that arise when every event takes the next index and names an earlier event as parent.\<close>

inductive clock_log :: "CausalClockEntry list \<Rightarrow> bool" where
  log_empty: "clock_log []"
| log_event: "clock_log es \<Longrightarrow> cc_object_id e \<notin> cc_object_id ` set es \<Longrightarrow> cc_causal_index e = assignCausalIndex es \<Longrightarrow>
     (\<And>pid. cc_parent_object_id e = Some pid \<Longrightarrow> \<exists>p\<in>set es. cc_object_id p = pid) \<Longrightarrow> clock_log (es @ [e])"

lemma next_index: "map cc_causal_index es = [1..int (length es)] \<Longrightarrow> assignCausalIndex es = int (length es) + 1"
proof -
  assume I: "map cc_causal_index es = [1..int (length es)]"
  show ?thesis
  proof (cases "es = []")
    case False
    then have "Max (set (map cc_causal_index es)) = int (length es)"
      unfolding I set_upto by (intro Max_eqI) (auto simp: Suc_leI)
    with False show ?thesis by (simp add: assignCausalIndex_def)
  qed (simp add: assignCausalIndex_def)
qed

lemma clock_log_indices: "clock_log es \<Longrightarrow> map cc_causal_index es = [1..int (length es)]"
proof (induction rule: clock_log.induct)
  case (log_event es e)
  then show ?case by (simp add: next_index upto_rec2 add.commute)
qed simp

lemma clock_log_index_le: "clock_log es \<Longrightarrow> p \<in> set es \<Longrightarrow> cc_causal_index p \<le> int (length es)"
  using clock_log_indices [of es] by (metis atLeastAtMost_iff imageI list.set_map set_upto)

lemma clock_log_distinct: "clock_log es \<Longrightarrow> distinct (map cc_object_id es)"
  by (induction rule: clock_log.induct) auto

lemma clock_log_parents:
  "clock_log es \<Longrightarrow> e \<in> set es \<Longrightarrow> cc_parent_object_id e = Some pid \<Longrightarrow>
     \<exists>p\<in>set es. cc_object_id p = pid \<and> cc_causal_index p < cc_causal_index e"
proof (induction arbitrary: e rule: clock_log.induct)
  case (log_event es x)
  show ?case
  proof (cases "e = x")
    case True
    then obtain p where p: "p \<in> set es" "cc_object_id p = pid" using log_event by blast
    have "cc_causal_index x = int (length es) + 1"
      using log_event.hyps(1,3) by (simp add: next_index clock_log_indices)
    then show ?thesis using True p clock_log_index_le [OF log_event.hyps(1) p(1)] by auto
  next
    case False
    then show ?thesis using log_event.IH [of e] log_event.prems by auto
  qed
qed simp

lemma by_id_distinct:
  assumes "distinct (map cc_object_id es)" and "p \<in> set es"
  shows "by_id es (cc_object_id p) = Some p"
  unfolding by_id_def
  by (rule map_of_is_SomeI) (use assms in \<open>auto simp: rev_map [symmetric] comp_def\<close>)

text \<open>
  Lamport indices: in every log in which each event takes the next causal index and names an
  earlier event as parent, the indices are 1, 2, 3, ... in order of creation, no causal inversion
  is detected, and the parent of every event happens before it.
\<close>

theorem clock_log_causal:
  assumes "clock_log es"
  shows "map cc_causal_index es = [1..int (length es)] \<and> detectCausalInversions es = [] \<and>
     (\<forall>e\<in>set es. \<forall>pid. cc_parent_object_id e = Some pid \<longrightarrow>
        (\<exists>p\<in>set es. by_id es pid = Some p \<and> cc_causal_index p < cc_causal_index e \<and> happensBefore p e))"
proof -
  have P: "\<exists>p\<in>set es. by_id es pid = Some p \<and> cc_causal_index p < cc_causal_index e \<and> cc_object_id p = pid"
    if "e \<in> set es" "cc_parent_object_id e = Some pid" for e pid
    using clock_log_parents [OF assms that] by_id_distinct [OF clock_log_distinct [OF assms]] by blast
  have "detectCausalInversions es = []"
    unfolding detectCausalInversions_def List.map_filter_def using P
    by (fastforce simp: filter_empty_conv split: option.splits)
  moreover have "happensBefore p e" if "cc_causal_index p < cc_causal_index e" for p e
    using that by (simp add: happensBefore_def)
  ultimately show ?thesis using clock_log_indices [OF assms] P by blast
qed

definition sample_event :: "string \<Rightarrow> int \<Rightarrow> string option \<Rightarrow> CausalClockEntry" where
  "sample_event i n p =
     \<lparr>cc_object_id = i, cc_object_type = CO_aeo, cc_causal_index = n, cc_parent_object_id = p,
      cc_parent_causal_index = map_option (\<lambda>_. n - 1) p, cc_lineage_hash = ''h'', cc_created_at = ''t''\<rparr>"

theorem clock_log_causal_witness:
  "detectCausalInversions ([] @ [sample_event ''a'' 1 None] @ [sample_event ''b'' 2 (Some ''a'')]) = []"
proof -
  have "clock_log ([] @ [sample_event ''a'' 1 None])"
    by (rule log_event) (auto simp: log_empty sample_event_def assignCausalIndex_def)
  then have "clock_log (([] @ [sample_event ''a'' 1 None]) @ [sample_event ''b'' 2 (Some ''a'')])"
    by (rule log_event) (auto simp: sample_event_def assignCausalIndex_def)
  from clock_log_causal [OF this] show ?thesis by simp
qed

end
