(* ===== verification/Reconciliation_SM.thy ===== *)
theory Reconciliation_SM
  imports Canonical_Facts Evidence
begin

text \<open>
  \<^verbatim>\<open>src/lib/reconciliation-state-machine.ts\<close>: the reconciliation states, the table of legal
  transitions, the classification from evidence, and the two operations that move a
  reconciliation without a transition request: the downgrade on revocation and the collapse of
  stale lineage. The flags \<^verbatim>\<open>creates_authority\<close> and \<^verbatim>\<open>restores_replay\<close>, which are the constant
  \<^verbatim>\<open>false\<close> in every result, are left out of the records.
\<close>

datatype ReconciliationState =
    RC_OBSERVED | RC_PENDING | RC_PARTITIONED | RC_RECONCILING | RC_CONFLICTED | RC_SETTLEMENT_CANDIDATE
  | RC_CONVERGED | RC_FINALIZED | RC_REVOKED | RC_STALE_VISIBLE | RC_NULL

fun state_string :: "ReconciliationState \<Rightarrow> string" where
  "state_string RC_OBSERVED = ''OBSERVED''"
| "state_string RC_PENDING = ''PENDING''"
| "state_string RC_PARTITIONED = ''PARTITIONED''"
| "state_string RC_RECONCILING = ''RECONCILING''"
| "state_string RC_CONFLICTED = ''CONFLICTED''"
| "state_string RC_SETTLEMENT_CANDIDATE = ''SETTLEMENT_CANDIDATE''"
| "state_string RC_CONVERGED = ''CONVERGED''"
| "state_string RC_FINALIZED = ''FINALIZED''"
| "state_string RC_REVOKED = ''REVOKED''"
| "state_string RC_STALE_VISIBLE = ''STALE_VISIBLE''"
| "state_string RC_NULL = ''NULL''"

definition TERMINAL_STATES :: "ReconciliationState list" where
  "TERMINAL_STATES = [RC_NULL]"

definition DOWNGRADE_ONLY_STATES :: "ReconciliationState list" where
  "DOWNGRADE_ONLY_STATES = [RC_REVOKED]"

fun LEGAL_TRANSITIONS :: "ReconciliationState \<Rightarrow> ReconciliationState list" where
  "LEGAL_TRANSITIONS RC_OBSERVED = [RC_PENDING, RC_PARTITIONED, RC_STALE_VISIBLE, RC_NULL]"
| "LEGAL_TRANSITIONS RC_PENDING = [RC_RECONCILING, RC_PARTITIONED, RC_CONFLICTED, RC_STALE_VISIBLE, RC_NULL]"
| "LEGAL_TRANSITIONS RC_PARTITIONED = [RC_PENDING, RC_RECONCILING, RC_CONFLICTED, RC_STALE_VISIBLE, RC_NULL]"
| "LEGAL_TRANSITIONS RC_RECONCILING =
     [RC_CONFLICTED, RC_SETTLEMENT_CANDIDATE, RC_CONVERGED, RC_STALE_VISIBLE, RC_REVOKED, RC_NULL]"
| "LEGAL_TRANSITIONS RC_CONFLICTED = [RC_SETTLEMENT_CANDIDATE, RC_STALE_VISIBLE, RC_REVOKED, RC_NULL]"
| "LEGAL_TRANSITIONS RC_SETTLEMENT_CANDIDATE =
     [RC_CONVERGED, RC_CONFLICTED, RC_STALE_VISIBLE, RC_REVOKED, RC_NULL]"
| "LEGAL_TRANSITIONS RC_CONVERGED = [RC_FINALIZED, RC_STALE_VISIBLE, RC_REVOKED, RC_NULL]"
| "LEGAL_TRANSITIONS RC_FINALIZED = [RC_STALE_VISIBLE, RC_REVOKED, RC_NULL]"
| "LEGAL_TRANSITIONS RC_REVOKED = [RC_NULL]"
| "LEGAL_TRANSITIONS RC_STALE_VISIBLE = [RC_RECONCILING, RC_REVOKED, RC_NULL]"
| "LEGAL_TRANSITIONS RC_NULL = []"

section \<open>Events\<close>

record ReconciliationEvent =
  re_event_id :: string
  re_reconciliation_id :: string
  re_from_state :: ReconciliationState
  re_to_state :: ReconciliationState
  re_reason_code :: string
  re_timestamp_utc :: string
  re_evidence_refs :: "string list"

definition event_body :: "string \<Rightarrow> ReconciliationState \<Rightarrow> ReconciliationState \<Rightarrow> string \<Rightarrow> jsval" where
  "event_body reconciliation_id from_state to_state timestamp_utc = JObj
     [(''reconciliation_id'', JStr reconciliation_id), (''from_state'', JStr (state_string from_state)),
      (''to_state'', JStr (state_string to_state)), (''timestamp_utc'', JStr timestamp_utc)]"

definition buildReconciliationDowngradeEventId ::
  "string \<Rightarrow> ReconciliationState \<Rightarrow> ReconciliationState \<Rightarrow> string \<Rightarrow> string" where
  "buildReconciliationDowngradeEventId i a b t = ''rde_'' @ hashCanonical (event_body i a b t)"

definition buildReconciliationUpgradeEventId ::
  "string \<Rightarrow> ReconciliationState \<Rightarrow> ReconciliationState \<Rightarrow> string \<Rightarrow> string" where
  "buildReconciliationUpgradeEventId i a b t = ''rue_'' @ hashCanonical (event_body i a b t)"

definition appendReconciliationDowngradeEvent ::
  "ReconciliationEvent list \<Rightarrow> ReconciliationEvent \<Rightarrow> ReconciliationEvent list" where
  "appendReconciliationDowngradeEvent existing event = existing @ [event]"

definition appendReconciliationUpgradeEvent ::
  "ReconciliationEvent list \<Rightarrow> ReconciliationEvent \<Rightarrow> ReconciliationEvent list" where
  "appendReconciliationUpgradeEvent existing event = existing @ [event]"

section \<open>Transitions\<close>

text \<open>\<open>None\<close> for a valid transition, otherwise which of the three reasons refuses it.\<close>

datatype TransitionRefusal = terminal_state | downgrade_only | forbidden

definition validateReconciliationTransition ::
  "ReconciliationState \<Rightarrow> ReconciliationState \<Rightarrow> TransitionRefusal option" where
  "validateReconciliationTransition from_state to_state =
     (if from_state \<in> set TERMINAL_STATES then Some terminal_state
      else if from_state \<in> set DOWNGRADE_ONLY_STATES \<and> to_state \<notin> set (LEGAL_TRANSITIONS from_state)
        then Some downgrade_only
      else if to_state \<notin> set (LEGAL_TRANSITIONS from_state) then Some forbidden
      else None)"

definition transitionReconciliationState ::
  "ReconciliationState \<Rightarrow> ReconciliationState \<Rightarrow> ReconciliationState \<times> TransitionRefusal option" where
  "transitionReconciliationState from_state to_state =
     (case validateReconciliationTransition from_state to_state of
        Some reason \<Rightarrow> (RC_NULL, Some reason)
      | None \<Rightarrow> (to_state, None))"

section \<open>Classification\<close>

record ReconciliationStateInput =
  ri_lineage_stale :: bool
  ri_has_revocation :: bool
  ri_replay_divergent :: bool
  ri_conflict_set_unresolved :: bool
  ri_proof_lineage_detached :: bool
  ri_topology_visible :: bool
  ri_epoch_stale :: bool
  ri_epoch_mismatched :: bool
  ri_convergence_evidence_present :: bool
  ri_partition_detected :: bool
  ri_settlement_candidate :: bool
  ri_finalized :: bool

definition classified_state :: "ReconciliationStateInput \<Rightarrow> ReconciliationState \<times> string list" where
  "classified_state inp =
     (if ri_has_revocation inp then (RC_REVOKED, [''revocation_evidence''])
      else if ri_replay_divergent inp then (RC_NULL, [''replay_divergence_evidence''])
      else if ri_lineage_stale inp then (RC_STALE_VISIBLE, [''stale_lineage_evidence''])
      else if ri_epoch_stale inp \<or> ri_epoch_mismatched inp then (RC_STALE_VISIBLE, [''epoch_mismatch_evidence''])
      else if ri_proof_lineage_detached inp then (RC_NULL, [''detached_proof_evidence''])
      else if ri_partition_detected inp \<or> \<not> ri_topology_visible inp then (RC_PARTITIONED, [''partition_evidence''])
      else if ri_conflict_set_unresolved inp then (RC_CONFLICTED, [''conflict_set_evidence''])
      else if ri_settlement_candidate inp then (RC_SETTLEMENT_CANDIDATE, [''settlement_evidence''])
      else if ri_convergence_evidence_present inp then (RC_CONVERGED, [''convergence_evidence''])
      else if ri_finalized inp then (RC_FINALIZED, [''finality_evidence''])
      else (RC_PENDING, []))"

definition reconciliationStateToClassification :: "ReconciliationState \<Rightarrow> string" where
  "reconciliationStateToClassification state =
     (case state of
        RC_FINALIZED \<Rightarrow> ''FINALIZED_NON_EXECUTABLE''
      | RC_REVOKED \<Rightarrow> ''REVOKED_NON_EXECUTABLE''
      | s \<Rightarrow> state_string s)"

record ReconciliationClassificationResult =
  rr_reconciliation_state :: ReconciliationState
  rr_classification :: string
  rr_downgrade_events :: "ReconciliationEvent list"
  rr_upgrade_events :: "ReconciliationEvent list"
  rr_evidence_refs :: "string list"

definition classifyReconciliationState :: "ReconciliationStateInput \<Rightarrow> ReconciliationClassificationResult" where
  "classifyReconciliationState inp =
     (let (state, evidence_refs) = classified_state inp in
      \<lparr>rr_reconciliation_state = state, rr_classification = reconciliationStateToClassification state,
       rr_downgrade_events = [], rr_upgrade_events = [], rr_evidence_refs = evidence_refs\<rparr>)"

section \<open>Revocation and stale lineage\<close>

record RevocationDowngradeInput =
  rd_reconciliation_id :: string
  rd_current_state :: ReconciliationState
  rd_revocation_evidence_ref :: string
  rd_timestamp_utc :: string
  rd_within_sla :: bool

definition downgrade_event ::
  "string \<Rightarrow> ReconciliationState \<Rightarrow> ReconciliationState \<Rightarrow> string \<Rightarrow> string \<Rightarrow> string list \<Rightarrow> ReconciliationEvent" where
  "downgrade_event i from_state to_state reason t refs =
     \<lparr>re_event_id = buildReconciliationDowngradeEventId i from_state to_state t, re_reconciliation_id = i,
      re_from_state = from_state, re_to_state = to_state, re_reason_code = reason, re_timestamp_utc = t,
      re_evidence_refs = refs\<rparr>"

definition propagateRevocationLivenessDowngrade ::
  "RevocationDowngradeInput \<Rightarrow> ReconciliationState \<times> ReconciliationEvent option" where
  "propagateRevocationLivenessDowngrade inp =
     (if rd_current_state inp = RC_NULL then (RC_NULL, None)
      else let target_state = (if rd_within_sla inp then RC_REVOKED else RC_STALE_VISIBLE);
               effective_state =
                 (if validateReconciliationTransition (rd_current_state inp) target_state = None
                  then target_state else RC_REVOKED) in
        (effective_state,
         Some (downgrade_event (rd_reconciliation_id inp) (rd_current_state inp) effective_state
                 ''REVOCATION_LIVENESS_DOWNGRADE'' (rd_timestamp_utc inp) [rd_revocation_evidence_ref inp])))"

record StaleLineageCollapseInput =
  sl_reconciliation_id :: string
  sl_current_state :: ReconciliationState
  sl_lineage_epoch_advanced :: bool
  sl_lineage_renewal_present :: bool
  sl_timestamp_utc :: string
  sl_evidence_refs :: "string list option"

definition collapseStaleLineage :: "StaleLineageCollapseInput \<Rightarrow> ReconciliationState \<times> ReconciliationEvent option" where
  "collapseStaleLineage inp =
     (if \<not> (sl_lineage_epoch_advanced inp \<and> \<not> sl_lineage_renewal_present inp) then (sl_current_state inp, None)
      else (RC_STALE_VISIBLE,
            Some (downgrade_event (sl_reconciliation_id inp) (sl_current_state inp) RC_STALE_VISIBLE
                    ''STALE_LINEAGE_COLLAPSE'' (sl_timestamp_utc inp)
                    (case sl_evidence_refs inp of None \<Rightarrow> [] | Some refs \<Rightarrow> refs))))"

section \<open>The transition machine\<close>

definition legal :: "ReconciliationState \<Rightarrow> ReconciliationState \<Rightarrow> bool" where
  "legal s t \<longleftrightarrow> validateReconciliationTransition s t = None"

lemma legal_iff: "legal s t \<longleftrightarrow> t \<in> set (LEGAL_TRANSITIONS s)"
  by (cases s) (auto simp: legal_def validateReconciliationTransition_def TERMINAL_STATES_def DOWNGRADE_ONLY_STATES_def)

interpretation rec_null: absorbing legal "{RC_NULL}"
  by unfold_locales (auto simp: legal_iff)

interpretation rec_revoked: absorbing legal "{RC_REVOKED, RC_NULL}"
  by unfold_locales (auto simp: legal_iff)

text \<open>What every path to \<open>FINALIZED\<close> has passed.\<close>

lemma into_finalized: "legal s RC_FINALIZED \<Longrightarrow> s = RC_CONVERGED"
  by (cases s) (auto simp: legal_iff)

lemma into_converged: "legal s RC_CONVERGED \<Longrightarrow> s = RC_RECONCILING \<or> s = RC_SETTLEMENT_CANDIDATE"
  by (cases s) (auto simp: legal_iff)

text \<open>
  C32. The reconciliation machine driven by transition requests: a request is granted exactly when
  the table allows it and otherwise leads to \<^verbatim>\<open>NULL\<close>; \<^verbatim>\<open>NULL\<close> is final; a revoked
  reconciliation can only become \<^verbatim>\<open>NULL\<close>, whatever sequence of transitions follows; finalization
  is reached from the converged state only, and that from reconciling or from a settlement
  candidate only; and every state but \<^verbatim>\<open>NULL\<close> can be nulled.
\<close>

theorem reconciliation_transitions:
  "transitionReconciliationState s t = (if t \<in> set (LEGAL_TRANSITIONS s) then (t, None)
      else (RC_NULL, validateReconciliationTransition s t)) \<and>
   (legal\<^sup>*\<^sup>* RC_NULL s \<longrightarrow> s = RC_NULL) \<and> (legal\<^sup>*\<^sup>* RC_REVOKED s \<longrightarrow> s = RC_REVOKED \<or> s = RC_NULL) \<and>
   (legal s RC_FINALIZED \<longrightarrow> s = RC_CONVERGED) \<and>
   (legal s RC_CONVERGED \<longrightarrow> s = RC_RECONCILING \<or> s = RC_SETTLEMENT_CANDIDATE) \<and>
   (s \<noteq> RC_NULL \<longrightarrow> legal s RC_NULL)"
proof -
  have "transitionReconciliationState s t = (if t \<in> set (LEGAL_TRANSITIONS s) then (t, None)
      else (RC_NULL, validateReconciliationTransition s t))"
    using legal_iff [of s t] by (auto simp: transitionReconciliationState_def legal_def split: option.splits)
  moreover have "s \<noteq> RC_NULL \<longrightarrow> legal s RC_NULL" by (cases s) (auto simp: legal_iff)
  ultimately show ?thesis
    using rec_null.stays [of RC_NULL s] rec_revoked.stays [of RC_REVOKED s] into_finalized into_converged by blast
qed

theorem reconciliation_transitions_witness:
  "legal\<^sup>*\<^sup>* RC_REVOKED RC_NULL \<and> transitionReconciliationState RC_REVOKED RC_FINALIZED = (RC_NULL, Some downgrade_only)"
proof -
  have "legal RC_REVOKED RC_NULL" using reconciliation_transitions [of RC_REVOKED] by simp
  moreover have "transitionReconciliationState RC_REVOKED RC_FINALIZED = (RC_NULL, Some downgrade_only)"
    using reconciliation_transitions [of RC_REVOKED RC_FINALIZED]
    by (simp add: validateReconciliationTransition_def TERMINAL_STATES_def DOWNGRADE_ONLY_STATES_def)
  ultimately show ?thesis by blast
qed

text \<open>
  The collapse of stale lineage does not look at the state it collapses: a nulled or revoked
  reconciliation whose epoch advanced without renewal becomes \<^verbatim>\<open>STALE_VISIBLE\<close>, and from there a
  sequence of legal transitions reaches \<^verbatim>\<open>FINALIZED\<close>. The states that no transition leaves are left
  this way, and the recorded event is not a legal transition.
\<close>

theorem collapse_resurrects_terminal_states:
  assumes "sl_current_state inp \<in> {RC_NULL, RC_REVOKED}"
    and "sl_lineage_epoch_advanced inp" and "\<not> sl_lineage_renewal_present inp"
  shows "fst (collapseStaleLineage inp) = RC_STALE_VISIBLE \<and> legal\<^sup>*\<^sup>* (fst (collapseStaleLineage inp)) RC_FINALIZED \<and>
     (\<exists>e. snd (collapseStaleLineage inp) = Some e \<and> re_from_state e = sl_current_state inp \<and>
        \<not> legal (re_from_state e) (re_to_state e))"
proof -
  have "legal RC_STALE_VISIBLE RC_RECONCILING" "legal RC_RECONCILING RC_CONVERGED" "legal RC_CONVERGED RC_FINALIZED"
    by (simp_all add: legal_iff)
  then have "legal\<^sup>*\<^sup>* RC_STALE_VISIBLE RC_FINALIZED"
    by (meson converse_rtranclp_into_rtranclp rtranclp.rtrancl_refl)
  with assms show ?thesis by (auto simp: collapseStaleLineage_def downgrade_event_def legal_iff)
qed

theorem collapse_resurrects_terminal_states_witness:
  "fst (collapseStaleLineage \<lparr>sl_reconciliation_id = ''r'', sl_current_state = RC_NULL, sl_lineage_epoch_advanced = True,
      sl_lineage_renewal_present = False, sl_timestamp_utc = ''t'', sl_evidence_refs = None\<rparr>) = RC_STALE_VISIBLE"
  using collapse_resurrects_terminal_states [of "\<lparr>sl_reconciliation_id = ''r'', sl_current_state = RC_NULL,
      sl_lineage_epoch_advanced = True, sl_lineage_renewal_present = False, sl_timestamp_utc = ''t'', sl_evidence_refs = None\<rparr>"]
  by simp

text \<open>
  The revocation downgrade is safe: whatever the state, the result is not executable, namely
  \<^verbatim>\<open>NULL\<close> (only from \<^verbatim>\<open>NULL\<close>, without an event), \<^verbatim>\<open>REVOKED\<close> or \<^verbatim>\<open>STALE_VISIBLE\<close>; within the
  service level it always is \<^verbatim>\<open>REVOKED\<close>; a revoked reconciliation stays revoked; and the event
  records the step taken and is identified by the hash of it.
\<close>

theorem revocation_downgrade_safe:
  assumes "propagateRevocationLivenessDowngrade inp = (st, ev)"
  shows "(rd_current_state inp = RC_NULL \<longleftrightarrow> st = RC_NULL) \<and> (st = RC_NULL \<longleftrightarrow> ev = None) \<and>
     st \<in> {RC_NULL, RC_REVOKED, RC_STALE_VISIBLE} \<and>
     (rd_within_sla inp \<and> rd_current_state inp \<noteq> RC_NULL \<longrightarrow> st = RC_REVOKED) \<and>
     (rd_current_state inp = RC_REVOKED \<longrightarrow> st = RC_REVOKED) \<and>
     (\<forall>e. ev = Some e \<longrightarrow> re_from_state e = rd_current_state inp \<and> re_to_state e = st \<and>
        re_event_id e = ''rde_'' @ hashCanonical (event_body (re_reconciliation_id e) (re_from_state e) st (re_timestamp_utc e)))"
proof -
  have R: "\<not> legal RC_REVOKED RC_STALE_VISIBLE" "\<not> legal RC_REVOKED RC_REVOKED" by (simp_all add: legal_iff)
  then show ?thesis
    using assms by (auto simp: propagateRevocationLivenessDowngrade_def Let_def legal_def downgrade_event_def
        buildReconciliationDowngradeEventId_def split: if_splits)
qed

theorem revocation_downgrade_safe_witness:
  "fst (propagateRevocationLivenessDowngrade \<lparr>rd_reconciliation_id = ''r'', rd_current_state = RC_FINALIZED,
      rd_revocation_evidence_ref = ''ev'', rd_timestamp_utc = ''t'', rd_within_sla = True\<rparr>) = RC_REVOKED"
  using revocation_downgrade_safe [of "\<lparr>rd_reconciliation_id = ''r'', rd_current_state = RC_FINALIZED,
      rd_revocation_evidence_ref = ''ev'', rd_timestamp_utc = ''t'', rd_within_sla = True\<rparr>", OF surjective_pairing]
  by simp

text \<open>The strongest state evidence can give, and what it excludes.\<close>

lemma classified_finalized:
  "rr_reconciliation_state (classifyReconciliationState inp) = RC_FINALIZED \<Longrightarrow>
     ri_finalized inp \<and> \<not> ri_convergence_evidence_present inp \<and> \<not> ri_has_revocation inp \<and> \<not> ri_replay_divergent inp"
  by (auto simp: classifyReconciliationState_def classified_state_def Let_def split: if_splits)

end
