(* ===== verification/Replay_Convergence.thy ===== *)
theory Replay_Convergence
  imports Canonical_Facts Evidence
begin

text \<open>
  \<^verbatim>\<open>src/lib/replay-convergence.ts\<close>: evidence that a nonce was consumed on some shard, the
  anti-entropy merge of such evidence across partitions, the tie-break between conflicting
  records and the classification of the replay state. The flags that are the constant \<^verbatim>\<open>false\<close>
  in every result are left out of the records.
\<close>

section \<open>Conflict classes\<close>

datatype ReplayConflictClass =
    DUPLICATE_NONCE_OBSERVED | PARTITION_REPLAY_DIVERGENCE | STALE_PROOF_REUSE | DETACHED_REPLAY_LINEAGE
  | REPLAY_CHRONOLOGY_CONFLICT | REPLAY_ANTI_ENTROPY_REQUIRED | REPLAY_CONVERGENCE_NULL | REPLAY_RESURRECTION

datatype ReplayConflictClassification = RX_NULL | RX_AMBIGUOUS | RX_STALE_VISIBLE | RX_PARTITION_SUSPENDED

fun REPLAY_CONFLICT_CLASS_MAP :: "ReplayConflictClass \<Rightarrow> ReplayConflictClassification" where
  "REPLAY_CONFLICT_CLASS_MAP DUPLICATE_NONCE_OBSERVED = RX_NULL"
| "REPLAY_CONFLICT_CLASS_MAP PARTITION_REPLAY_DIVERGENCE = RX_PARTITION_SUSPENDED"
| "REPLAY_CONFLICT_CLASS_MAP STALE_PROOF_REUSE = RX_STALE_VISIBLE"
| "REPLAY_CONFLICT_CLASS_MAP DETACHED_REPLAY_LINEAGE = RX_NULL"
| "REPLAY_CONFLICT_CLASS_MAP REPLAY_CHRONOLOGY_CONFLICT = RX_AMBIGUOUS"
| "REPLAY_CONFLICT_CLASS_MAP REPLAY_ANTI_ENTROPY_REQUIRED = RX_PARTITION_SUSPENDED"
| "REPLAY_CONFLICT_CLASS_MAP REPLAY_CONVERGENCE_NULL = RX_NULL"
| "REPLAY_CONFLICT_CLASS_MAP REPLAY_RESURRECTION = RX_NULL"

record ReplayConflictResult =
  rx_classification :: ReplayConflictClassification
  rx_conflict_class :: ReplayConflictClass
  rx_consumed_set :: "string list"
  rx_evidence_refs :: "string list"

definition classifyReplayConflict :: "ReplayConflictClass \<Rightarrow> string list \<Rightarrow> string list \<Rightarrow> ReplayConflictResult" where
  "classifyReplayConflict conflict_class consumed_nonces evidence_refs =
     \<lparr>rx_classification = REPLAY_CONFLICT_CLASS_MAP conflict_class, rx_conflict_class = conflict_class,
      rx_consumed_set = consumed_nonces, rx_evidence_refs = evidence_refs\<rparr>"

section \<open>Evidence\<close>

record NonceConsumptionEvidence =
  nc_invocation_nonce :: string
  nc_decision_id :: string
  nc_consumed_at :: string
  nc_shard_id :: string
  nc_causal_index :: int

definition buildNonceConsumptionId :: "string \<Rightarrow> string \<Rightarrow> string \<Rightarrow> string" where
  "buildNonceConsumptionId invocation_nonce decision_id consumed_at =
     ''nce_'' @ hashCanonical (JObj
       [(''invocation_nonce'', JStr invocation_nonce), (''decision_id'', JStr decision_id),
        (''consumed_at'', JStr consumed_at)])"

definition isNonceConsumedGlobally :: "string \<Rightarrow> NonceConsumptionEvidence list \<Rightarrow> bool" where
  "isNonceConsumedGlobally nonce evidence = list_ex (\<lambda>e. nc_invocation_nonce e = nonce) evidence"

definition hasReplayDivergence ::
  "string \<Rightarrow> NonceConsumptionEvidence list \<Rightarrow> NonceConsumptionEvidence list \<Rightarrow> bool" where
  "hasReplayDivergence nonce local remote \<longleftrightarrow>
     isNonceConsumedGlobally nonce local \<noteq> isNonceConsumedGlobally nonce remote"

definition evidence_key :: "NonceConsumptionEvidence \<Rightarrow> string" where
  "evidence_key e = nc_invocation_nonce e @ '':'' @ nc_decision_id e @ '':'' @ nc_shard_id e"

definition mergeConsumptionEvidence ::
  "NonceConsumptionEvidence list \<Rightarrow> NonceConsumptionEvidence list \<Rightarrow> NonceConsumptionEvidence list" where
  "mergeConsumptionEvidence local remote = dedup_loop evidence_key [] (local @ remote)"

definition mergeConsumedReplayState :: "NonceConsumptionEvidence list list \<Rightarrow> NonceConsumptionEvidence list" where
  "mergeConsumedReplayState partition_sets = foldl mergeConsumptionEvidence [] partition_sets"

text \<open>\<^verbatim>\<open>cmp(a, b) <= 0\<close>\<close>

definition evidence_order :: "NonceConsumptionEvidence \<Rightarrow> NonceConsumptionEvidence \<Rightarrow> bool" where
  "evidence_order a b \<longleftrightarrow>
     (if nc_causal_index a \<noteq> nc_causal_index b then nc_causal_index a < nc_causal_index b
      else nc_consumed_at a \<le> nc_consumed_at b)"

definition resolveReplayConflict :: "NonceConsumptionEvidence list \<Rightarrow> NonceConsumptionEvidence option" where
  "resolveReplayConflict evidence = (if evidence = [] then None else Some (hd (js_sort evidence_order evidence)))"

record AntiEntropyReplayRepairResult =
  ae_classification :: ReplayConflictClassification
  ae_conflict_class :: ReplayConflictClass
  ae_consumed_set :: "string list"
  ae_evidence_refs :: "string list"
  ae_nonce_permanently_consumed :: bool

definition antiEntropyReplayRepair ::
  "string \<Rightarrow> NonceConsumptionEvidence list \<Rightarrow> NonceConsumptionEvidence list \<Rightarrow> bool \<Rightarrow> AntiEntropyReplayRepairResult" where
  "antiEntropyReplayRepair invocation_nonce partition_a partition_b partition_healed =
     (let merged = mergeConsumptionEvidence partition_a partition_b;
          consumed = isNonceConsumedGlobally invocation_nonce merged;
          conflict_class = (if consumed
            then (if partition_healed then REPLAY_RESURRECTION else PARTITION_REPLAY_DIVERGENCE)
            else REPLAY_ANTI_ENTROPY_REQUIRED) in
      \<lparr>ae_classification = REPLAY_CONFLICT_CLASS_MAP conflict_class, ae_conflict_class = conflict_class,
       ae_consumed_set = map nc_invocation_nonce merged,
       ae_evidence_refs = map (\<lambda>e. buildNonceConsumptionId (nc_invocation_nonce e) (nc_decision_id e) (nc_consumed_at e)) merged,
       ae_nonce_permanently_consumed = consumed\<rparr>)"

datatype ReplayConvergenceState =
    REPLAY_SAFE | REPLAY_CONSUMED | REPLAY_DIVERGENT | REPLAY_PARTITION_SUSPENDED | RS_NULL

definition classifyReplayConvergence ::
  "string \<Rightarrow> NonceConsumptionEvidence list \<Rightarrow> NonceConsumptionEvidence list \<Rightarrow> bool \<Rightarrow> ReplayConvergenceState" where
  "classifyReplayConvergence nonce local remote topology_present =
     (if \<not> topology_present then REPLAY_PARTITION_SUSPENDED
      else let localConsumed = isNonceConsumedGlobally nonce local;
               remoteConsumed = isNonceConsumedGlobally nonce remote in
        if localConsumed \<and> remoteConsumed then REPLAY_CONSUMED
        else if \<not> localConsumed \<and> \<not> remoteConsumed then REPLAY_SAFE
        else if localConsumed \<noteq> remoteConsumed then REPLAY_DIVERGENT
        else RS_NULL)"

definition replayStateToUnusedPredicate :: "ReplayConvergenceState \<Rightarrow> bool" where
  "replayStateToUnusedPredicate state \<longleftrightarrow> state = REPLAY_SAFE"

section \<open>The merge\<close>

interpretation consumption: keyed_merge mergeConsumptionEvidence evidence_key
  by unfold_locales (simp add: mergeConsumptionEvidence_def)

interpretation evidence_rank: comparator evidence_order
  by unfold_locales (auto simp: evidence_order_def split: if_splits)

definition colon_free :: "string \<Rightarrow> bool" where
  "colon_free s \<longleftrightarrow> CHR '':'' \<notin> set s"

lemma colon_split:
  "colon_free a \<Longrightarrow> colon_free b \<Longrightarrow> a @ CHR '':'' # x = b @ CHR '':'' # y \<longleftrightarrow> a = b \<and> x = y"
  unfolding colon_free_def
proof (induction a arbitrary: b)
  case Nil
  then show ?case by (cases b) auto
next
  case (Cons c a)
  then show ?case by (cases b) auto
qed

lemma evidence_key_inj:
  assumes "colon_free (nc_invocation_nonce x)" "colon_free (nc_decision_id x)"
    "colon_free (nc_invocation_nonce y)" "colon_free (nc_decision_id y)" "evidence_key x = evidence_key y"
  shows "nc_invocation_nonce x = nc_invocation_nonce y \<and> nc_decision_id x = nc_decision_id y \<and> nc_shard_id x = nc_shard_id y"
  using assms by (simp add: evidence_key_def colon_split)

definition plain_evidence :: "NonceConsumptionEvidence list \<Rightarrow> bool" where
  "plain_evidence es \<longleftrightarrow> list_all (\<lambda>e. colon_free (nc_invocation_nonce e) \<and> colon_free (nc_decision_id e)) es"

lemma consumed_iff: "isNonceConsumedGlobally n es \<longleftrightarrow> n \<in> nc_invocation_nonce ` set es"
  by (auto simp: isNonceConsumedGlobally_def list_ex_iff)

lemma merge_consumed:
  assumes "plain_evidence a" "plain_evidence b"
  shows "nc_invocation_nonce ` set (mergeConsumptionEvidence a b) = nc_invocation_nonce ` set a \<union> nc_invocation_nonce ` set b"
  by (rule consumption.merge_keeps)
     (use assms evidence_key_inj in \<open>auto simp: plain_evidence_def list_all_iff\<close>)

lemma plain_merge: "plain_evidence a \<Longrightarrow> plain_evidence b \<Longrightarrow> plain_evidence (mergeConsumptionEvidence a b)"
  using consumption.merge_subset [of a b] by (auto simp: plain_evidence_def list_all_iff)

lemma merge_all_consumed:
  assumes "plain_evidence m" and "list_all plain_evidence ps"
  shows "nc_invocation_nonce ` set (foldl mergeConsumptionEvidence m ps) =
     nc_invocation_nonce ` set m \<union> (\<Union>p\<in>set ps. nc_invocation_nonce ` set p)"
  using assms
proof (induction ps arbitrary: m)
  case (Cons p ps)
  then show ?case using Cons.IH [of "mergeConsumptionEvidence m p"] by (simp add: merge_consumed plain_merge Un_assoc)
qed simp

text \<open>
  Anti-entropy never unconsumes a nonce, for nonces and decision ids without a colon: after
  merging any number of partitions, in any order, a nonce counts as consumed exactly when some
  partition has evidence for it; the repair classifies such a nonce as consumed, and after the
  partition healed as a resurrection attempt, never as safe.
\<close>

theorem merge_never_unconsumes:
  assumes "list_all plain_evidence ps" and "plain_evidence a" and "plain_evidence b"
  shows "(isNonceConsumedGlobally n (mergeConsumedReplayState ps) \<longleftrightarrow> list_ex (isNonceConsumedGlobally n) ps) \<and>
     (ae_nonce_permanently_consumed (antiEntropyReplayRepair n a b healed) \<longleftrightarrow>
        isNonceConsumedGlobally n a \<or> isNonceConsumedGlobally n b) \<and>
     (isNonceConsumedGlobally n a \<or> isNonceConsumedGlobally n b \<longrightarrow>
        ae_classification (antiEntropyReplayRepair n a b healed) = (if healed then RX_NULL else RX_PARTITION_SUSPENDED))"
proof -
  have "plain_evidence []" by (simp add: plain_evidence_def)
  from merge_all_consumed [OF this assms(1)] have
    "isNonceConsumedGlobally n (mergeConsumedReplayState ps) \<longleftrightarrow> list_ex (isNonceConsumedGlobally n) ps"
    by (auto simp: consumed_iff mergeConsumedReplayState_def list_ex_iff)
  moreover have "isNonceConsumedGlobally n (mergeConsumptionEvidence a b) \<longleftrightarrow>
      isNonceConsumedGlobally n a \<or> isNonceConsumedGlobally n b"
    by (simp add: consumed_iff merge_consumed [OF assms(2,3)])
  ultimately show ?thesis by (auto simp: antiEntropyReplayRepair_def Let_def)
qed

definition sample_evidence :: "string \<Rightarrow> string \<Rightarrow> NonceConsumptionEvidence" where
  "sample_evidence n d = \<lparr>nc_invocation_nonce = n, nc_decision_id = d, nc_consumed_at = ''t'', nc_shard_id = ''s'', nc_causal_index = 1\<rparr>"

theorem merge_never_unconsumes_witness:
  "isNonceConsumedGlobally ''n2'' (mergeConsumedReplayState [[sample_evidence ''n1'' ''d''], [sample_evidence ''n2'' ''d'']])"
proof -
  have P: "plain_evidence [sample_evidence ''n1'' ''d'']" "plain_evidence [sample_evidence ''n2'' ''d'']"
    by (simp_all add: plain_evidence_def sample_evidence_def colon_free_def)
  then have "list_all plain_evidence [[sample_evidence ''n1'' ''d''], [sample_evidence ''n2'' ''d'']]" by simp
  from merge_never_unconsumes [OF this P] show ?thesis by (simp add: isNonceConsumedGlobally_def sample_evidence_def)
qed

text \<open>
  With colons in the ids the merge loses consumption evidence: the key joins nonce, decision
  and shard with a colon, so two different records can have one key, and a nonce that a
  partition reports as consumed is unconsumed after the merge; the repair then asks for more
  anti-entropy instead of refusing the nonce.
\<close>

theorem merge_can_unconsume:
  "isNonceConsumedGlobally n [sample_evidence n (d1 @ '':'' @ d2)] \<and>
     \<not> isNonceConsumedGlobally n
        (mergeConsumptionEvidence [sample_evidence (n @ '':'' @ d1) d2] [sample_evidence n (d1 @ '':'' @ d2)]) \<and>
     ae_conflict_class (antiEntropyReplayRepair n [sample_evidence (n @ '':'' @ d1) d2]
        [sample_evidence n (d1 @ '':'' @ d2)] True) = REPLAY_ANTI_ENTROPY_REQUIRED"
proof -
  have "evidence_key (sample_evidence (n @ '':'' @ d1) d2) = evidence_key (sample_evidence n (d1 @ '':'' @ d2))"
    by (simp add: evidence_key_def sample_evidence_def)
  then have "mergeConsumptionEvidence [sample_evidence (n @ '':'' @ d1) d2] [sample_evidence n (d1 @ '':'' @ d2)] =
      [sample_evidence (n @ '':'' @ d1) d2]"
    by (simp add: mergeConsumptionEvidence_def)
  then show ?thesis
    by (simp add: antiEntropyReplayRepair_def isNonceConsumedGlobally_def Let_def) (simp add: sample_evidence_def)
qed

text \<open>
  The tie-break between conflicting consumption records: the winner is one of the records, no
  record has a smaller causal index, and none with the same index was consumed earlier; when no
  two different records share index and time, the winner does not depend on the order in which
  the records arrived. There is a winner exactly when there is a record.
\<close>

theorem resolveReplayConflict_minimal:
  assumes "set xs = set ys"
    and "\<And>x y. x \<in> set xs \<Longrightarrow> y \<in> set xs \<Longrightarrow> nc_causal_index x = nc_causal_index y \<Longrightarrow>
           nc_consumed_at x = nc_consumed_at y \<Longrightarrow> x = y"
  shows "(resolveReplayConflict xs = None \<longleftrightarrow> xs = []) \<and> resolveReplayConflict xs = resolveReplayConflict ys \<and>
     (\<forall>w. resolveReplayConflict xs = Some w \<longrightarrow> w \<in> set xs \<and>
        list_all (\<lambda>e. nc_causal_index w < nc_causal_index e \<or>
           nc_causal_index w = nc_causal_index e \<and> nc_consumed_at w \<le> nc_consumed_at e) xs)"
proof -
  have "hd (js_sort evidence_order xs) = hd (js_sort evidence_order ys)" if "xs \<noteq> []"
    by (rule evidence_rank.hd_sort_set_invariant [OF that assms(1)])
       (use assms(2) in \<open>auto simp: evidence_order_def split: if_splits\<close>)
  moreover have "xs = [] \<longleftrightarrow> ys = []" using assms(1) by auto
  ultimately have "resolveReplayConflict xs = resolveReplayConflict ys" by (simp add: resolveReplayConflict_def)
  moreover have "w \<in> set xs \<and> list_all (\<lambda>e. evidence_order w e) xs" if "resolveReplayConflict xs = Some w" for w
    using that evidence_rank.hd_sort_in [of xs] evidence_rank.hd_sort_minimal [of _ xs]
    by (auto simp: resolveReplayConflict_def list_all_iff split: if_splits)
  ultimately show ?thesis
    by (auto simp: resolveReplayConflict_def evidence_order_def list_all_iff split: if_splits)
qed

theorem resolveReplayConflict_minimal_witness:
  "resolveReplayConflict [sample_evidence ''a'' ''d'', (sample_evidence ''b'' ''d'')\<lparr>nc_causal_index := 0\<rparr>] =
   resolveReplayConflict [(sample_evidence ''b'' ''d'')\<lparr>nc_causal_index := 0\<rparr>, sample_evidence ''a'' ''d'']"
proof -
  define x where "x = sample_evidence ''a'' ''d''"
  define y where "y = (sample_evidence ''b'' ''d'')\<lparr>nc_causal_index := 0\<rparr>"
  have index: "nc_causal_index x = 1" "nc_causal_index y = 0" by (simp_all add: x_def y_def sample_evidence_def)
  have "u = v" if "u \<in> set [x, y]" "v \<in> set [x, y]" "nc_causal_index u = nc_causal_index v" for u v
    using that index by auto
  moreover have "set [x, y] = set [y, x]" by auto
  ultimately have "resolveReplayConflict [x, y] = resolveReplayConflict [y, x]"
    using resolveReplayConflict_minimal [of "[x, y]" "[y, x]"] by blast
  then show ?thesis unfolding x_def y_def .
qed

lemma unused_predicate_iff:
  "replayStateToUnusedPredicate (classifyReplayConvergence n l r topo) \<longleftrightarrow>
     topo \<and> \<not> isNonceConsumedGlobally n l \<and> \<not> isNonceConsumedGlobally n r"
  by (auto simp: replayStateToUnusedPredicate_def classifyReplayConvergence_def Let_def)

end
