(* ===== verification/Conflict_Set.thy ===== *)
theory Conflict_Set
  imports Complex_Main Canonical_Facts Evidence "HOL-Library.Product_Lexorder"
begin

text \<open>
  \<^verbatim>\<open>src/lib/conflict-set.ts\<close> (competing heads, their tie-break, and the conflict envelope with its
  settlement) and \<^verbatim>\<open>src/lib/reconciliation-determinism.ts\<close> (registry heads of several shards).
  Scores and weights are rational numbers; \<^verbatim>\<open>NaN\<close> is outside the model. The flags that are the
  constant \<^verbatim>\<open>false\<close> in every result are left out of the records; \<^verbatim>\<open>Date.parse\<close> and the clock are
  parameters.
\<close>

section \<open>Competing heads\<close>

datatype ConflictState = CS_OPEN | CS_RESOLVED | CS_SUPERSEDED | CS_NULL

datatype CollapseRule = RECONCILIABILITY | QUORUM_WEIGHT | CAUSAL_CLOCK | LEXICOGRAPHIC | UNRESOLVED

record CompetingHead =
  ch_head_hash :: string
  ch_reconciliability_score :: rat
  ch_quorum_weight :: rat
  ch_causal_clock_index :: int

text \<open>\<^verbatim>\<open>LegitimacyConflictResult\<close> is a string; only two of its values are distinguished.\<close>

definition conflictStateFromResult :: "string \<Rightarrow> ConflictState option" where
  "conflictStateFromResult result =
     (if result = ''CONFLICT_NONE'' then None
      else if result = ''CONFLICT_UNRESOLVABLE'' then Some CS_NULL
      else Some CS_OPEN)"

definition buildConflictSetId :: "string \<Rightarrow> string \<Rightarrow> string \<Rightarrow> string" where
  "buildConflictSetId lineage_scope competing_heads_json created_at =
     ''csr_'' @ hashCanonical (JObj
       [(''lineage_scope'', JStr lineage_scope), (''competing_heads_json'', JStr competing_heads_json),
        (''created_at'', JStr created_at)])"

text \<open>
  The comparator of \<^verbatim>\<open>selectWinningHead\<close>. On two heads that agree in all four fields the source
  answers 1 in both directions; such heads are equal values, so their order does not matter.
\<close>

definition head_order :: "CompetingHead \<Rightarrow> CompetingHead \<Rightarrow> bool" where
  "head_order a b \<longleftrightarrow>
     (if ch_reconciliability_score b \<noteq> ch_reconciliability_score a
        then ch_reconciliability_score b - ch_reconciliability_score a \<le> 0
      else if ch_quorum_weight b \<noteq> ch_quorum_weight a then ch_quorum_weight b - ch_quorum_weight a \<le> 0
      else if ch_causal_clock_index a \<noteq> ch_causal_clock_index b
        then ch_causal_clock_index a - ch_causal_clock_index b \<le> 0
      else ch_head_hash a \<le> ch_head_hash b)"

definition collapse_rule_of :: "CompetingHead \<Rightarrow> CompetingHead \<Rightarrow> CollapseRule" where
  "collapse_rule_of winner second =
     (if ch_reconciliability_score winner \<noteq> ch_reconciliability_score second then RECONCILIABILITY
      else if ch_quorum_weight winner \<noteq> ch_quorum_weight second then QUORUM_WEIGHT
      else if ch_causal_clock_index winner \<noteq> ch_causal_clock_index second then CAUSAL_CLOCK
      else LEXICOGRAPHIC)"

definition selectWinningHead :: "CompetingHead list \<Rightarrow> (CompetingHead \<times> CollapseRule) option" where
  "selectWinningHead competing_heads =
     (case competing_heads of
        [] \<Rightarrow> None
      | [h] \<Rightarrow> Some (h, RECONCILIABILITY)
      | _ \<Rightarrow> (let sorted = js_sort head_order competing_heads; winner = sorted ! 0; second = sorted ! 1
              in Some (winner, collapse_rule_of winner second)))"

section \<open>Conflict envelopes\<close>

datatype ConflictSettlementState = CE_DETECTING | CE_CONFLICTED | CE_SETTLEMENT_CANDIDATE | CE_SETTLED | CE_UNSETTLEABLE | CE_NULL

record CompetingRoot =
  cr_root_hash :: string
  cr_proof_id :: string
  cr_validator_attestations :: "jsval list"
  cr_causal_clock :: jsval
  cr_branch_evidence :: jsval

record ConflictSetEnvelope =
  ce_conflict_id :: string
  ce_detected_at :: string
  ce_competing_roots :: "CompetingRoot list"
  ce_winning_root :: "string option"
  ce_losing_roots :: "string list"
  ce_settlement_state :: ConflictSettlementState
  ce_settlement_evidence :: "(string \<times> jsval) list"
  ce_epoch_id :: string

datatype UnsettleableReason =
    IDENTICAL_CAUSAL_CLOCKS | MISSING_EPOCH | STALE_EPOCH | REPLAY_RESURRECTION_CONFLICT | DETACHED_PROOF
  | TOPOLOGY_AMBIGUITY | MISSING_PROOF_LINEAGE | WOULD_ERASE_EVIDENCE

fun unsettleable_string :: "UnsettleableReason \<Rightarrow> string" where
  "unsettleable_string IDENTICAL_CAUSAL_CLOCKS = ''IDENTICAL_CAUSAL_CLOCKS''"
| "unsettleable_string MISSING_EPOCH = ''MISSING_EPOCH''"
| "unsettleable_string STALE_EPOCH = ''STALE_EPOCH''"
| "unsettleable_string REPLAY_RESURRECTION_CONFLICT = ''REPLAY_RESURRECTION_CONFLICT''"
| "unsettleable_string DETACHED_PROOF = ''DETACHED_PROOF''"
| "unsettleable_string TOPOLOGY_AMBIGUITY = ''TOPOLOGY_AMBIGUITY''"
| "unsettleable_string MISSING_PROOF_LINEAGE = ''MISSING_PROOF_LINEAGE''"
| "unsettleable_string WOULD_ERASE_EVIDENCE = ''WOULD_ERASE_EVIDENCE''"

definition buildConflictEnvelopeId :: "string list \<Rightarrow> string \<Rightarrow> string \<Rightarrow> string" where
  "buildConflictEnvelopeId competing_root_hashes epoch_id detected_at =
     ''cse_'' @ hashCanonical (JObj
       [(''competing_root_hashes'', JArr (map JStr (sort competing_root_hashes))), (''epoch_id'', JStr epoch_id),
        (''detected_at'', JStr detected_at)])"

definition detectConflictSet :: "CompetingRoot list \<Rightarrow> string \<Rightarrow> string \<Rightarrow> ConflictSetEnvelope" where
  "detectConflictSet competing_roots epoch_id detected_at =
     (let env = (\<lambda>st. \<lparr>ce_conflict_id = buildConflictEnvelopeId (map cr_root_hash competing_roots) epoch_id detected_at,
            ce_detected_at = detected_at, ce_competing_roots = competing_roots, ce_winning_root = None,
            ce_losing_roots = [], ce_settlement_state = st, ce_settlement_evidence = [], ce_epoch_id = epoch_id\<rparr>) in
      if length competing_roots = 0 then env CE_NULL
      else if length competing_roots = 1 then env CE_DETECTING
      else env CE_CONFLICTED)"

definition classifyConflictSet :: "ConflictSetEnvelope \<Rightarrow> ConflictSettlementState" where
  "classifyConflictSet envelope = ce_settlement_state envelope"

definition preserveLosingBranchEvidence :: "ConflictSetEnvelope \<Rightarrow> string list" where
  "preserveLosingBranchEvidence envelope = ce_losing_roots envelope"

text \<open>A clock that is null or undefined compares as \<^verbatim>\<open>null\<close>.\<close>

definition clock_text :: "CompetingRoot \<Rightarrow> string option" where
  "clock_text r = (if is_nullish (cr_causal_clock r) then None else Some (canonicalize (cr_causal_clock r)))"

definition hasIdenticalCausalClocks :: "CompetingRoot list \<Rightarrow> bool" where
  "hasIdenticalCausalClocks roots =
     (if length roots < 2 then False
      else list_all (\<lambda>c. c = clock_text (hd roots)) (map clock_text roots))"

record SettlementOpts =
  so_epoch_id_present :: bool
  so_epoch_stale :: bool
  so_has_replay_resurrection_conflict :: bool
  so_topology_ambiguous :: bool
  so_has_detached_proof :: bool
  so_has_missing_proof_lineage :: bool

text \<open>\<open>None\<close> when the settlement is deterministic.\<close>

definition isSettlementDeterministic :: "CompetingRoot list \<Rightarrow> SettlementOpts \<Rightarrow> UnsettleableReason option" where
  "isSettlementDeterministic competing_roots opts =
     (if length competing_roots < 2 then Some MISSING_PROOF_LINEAGE
      else if \<not> so_epoch_id_present opts then Some MISSING_EPOCH
      else if so_epoch_stale opts then Some STALE_EPOCH
      else if so_has_replay_resurrection_conflict opts then Some REPLAY_RESURRECTION_CONFLICT
      else if so_has_detached_proof opts then Some DETACHED_PROOF
      else if so_topology_ambiguous opts then Some TOPOLOGY_AMBIGUITY
      else if so_has_missing_proof_lineage opts then Some MISSING_PROOF_LINEAGE
      else if hasIdenticalCausalClocks competing_roots then Some IDENTICAL_CAUSAL_CLOCKS
      else None)"

text \<open>\<^verbatim>\<open>{...evidence, unsettleable_reason: r}\<close>: an existing property of that name is overwritten.\<close>

definition with_reason :: "(string \<times> jsval) list \<Rightarrow> UnsettleableReason \<Rightarrow> (string \<times> jsval) list" where
  "with_reason evidence r = (let v = JStr (unsettleable_string r) in
     if ''unsettleable_reason'' \<in> fst ` set evidence
     then map (\<lambda>kv. if fst kv = ''unsettleable_reason'' then (fst kv, v) else kv) evidence
     else evidence @ [(''unsettleable_reason'', v)])"

definition settleConflictSet ::
  "ConflictSetEnvelope \<Rightarrow> string \<Rightarrow> (string \<times> jsval) list \<Rightarrow> SettlementOpts \<Rightarrow> ConflictSetEnvelope" where
  "settleConflictSet envelope winning_root_hash settlement_evidence opts =
     (let env = envelope\<lparr>ce_winning_root := None\<rparr>;
          hashes = map cr_root_hash (ce_competing_roots envelope) in
      if ce_competing_roots envelope = []
        then env\<lparr>ce_settlement_state := CE_NULL, ce_settlement_evidence := settlement_evidence\<rparr>
      else case isSettlementDeterministic (ce_competing_roots envelope) opts of
        Some reason \<Rightarrow> env\<lparr>ce_settlement_state := CE_UNSETTLEABLE,
                           ce_settlement_evidence := with_reason settlement_evidence reason\<rparr>
      | None \<Rightarrow>
          if winning_root_hash \<notin> set hashes
            then env\<lparr>ce_settlement_state := CE_UNSETTLEABLE,
                      ce_settlement_evidence := with_reason settlement_evidence WOULD_ERASE_EVIDENCE\<rparr>
          else env\<lparr>ce_winning_root := Some winning_root_hash,
                    ce_losing_roots := dedup_loop id [] (ce_losing_roots envelope @ filter (\<lambda>h. h \<noteq> winning_root_hash) hashes),
                    ce_settlement_state := CE_SETTLED, ce_settlement_evidence := settlement_evidence\<rparr>)"

section \<open>Registry heads\<close>

datatype ReconciliationFinality =
    LOCAL_RECONCILED | GLOBAL_RECONCILED_CANDIDATE | AMBIGUOUS_RECONCILIATION | AMBIGUOUS_REQUIRES_EPOCH
  | NULL_RECONCILIATION

record RegistryHead =
  rh_head_hash :: string
  rh_shard_id :: string
  rh_causal_index :: int
  rh_quorum_weight :: rat
  rh_reconciliability_score :: rat
  rh_observed_at :: string
  rh_epoch_id :: "string option"

definition buildReconciliationHeadId :: "string \<Rightarrow> string \<Rightarrow> string \<Rightarrow> string" where
  "buildReconciliationHeadId head_hash shard_id observed_at =
     ''rch_'' @ hashCanonical (JObj
       [(''head_hash'', JStr head_hash), (''shard_id'', JStr shard_id), (''observed_at'', JStr observed_at)])"

definition headSortKey :: "RegistryHead \<Rightarrow> rat \<times> rat \<times> int \<times> string \<times> string" where
  "headSortKey h = (- rh_reconciliability_score h, - rh_quorum_weight h, rh_causal_index h, rh_observed_at h, rh_head_hash h)"

text \<open>The loop over the five components of the keys.\<close>

definition key_order :: "rat \<times> rat \<times> int \<times> string \<times> string \<Rightarrow> rat \<times> rat \<times> int \<times> string \<times> string \<Rightarrow> bool" where
  "key_order ka kb = (case (ka, kb) of ((a1, a2, a3, a4, a5), (b1, b2, b3, b4, b5)) \<Rightarrow>
     if a1 \<noteq> b1 then a1 - b1 \<le> 0
     else if a2 \<noteq> b2 then a2 - b2 \<le> 0
     else if a3 \<noteq> b3 then a3 - b3 \<le> 0
     else if a4 < b4 then True
     else if a4 > b4 then False
     else if a5 < b5 then True
     else if a5 > b5 then False
     else True)"

definition registry_order :: "RegistryHead \<Rightarrow> RegistryHead \<Rightarrow> bool" where
  "registry_order a b = key_order (headSortKey a) (headSortKey b)"

definition selectCanonicalHead :: "RegistryHead list \<Rightarrow> RegistryHead option" where
  "selectCanonicalHead heads = (if heads = [] then None else Some (hd (js_sort registry_order heads)))"

definition isReconciliationStale :: "(string \<Rightarrow> int option) \<Rightarrow> int \<Rightarrow> RegistryHead \<Rightarrow> int \<Rightarrow> int option \<Rightarrow> bool" where
  "isReconciliationStale parse wall head staleness_horizon_ms now_ms =
     (case parse (rh_observed_at head) of
        None \<Rightarrow> True
      | Some observed \<Rightarrow> (case now_ms of None \<Rightarrow> wall | Some n \<Rightarrow> n) - observed > staleness_horizon_ms)"

definition registry_key :: "RegistryHead \<Rightarrow> string" where
  "registry_key h = rh_head_hash h @ '':'' @ rh_shard_id h"

definition mergeRegistryHeads :: "RegistryHead list \<Rightarrow> RegistryHead list \<Rightarrow> RegistryHead list" where
  "mergeRegistryHeads local remote = dedup_loop registry_key [] (local @ remote)"

text \<open>The number of groups of \<^verbatim>\<open>groupByHash\<close>.\<close>

definition unique_hashes :: "RegistryHead list \<Rightarrow> nat" where
  "unique_hashes heads = length (dedup_loop id [] (map rh_head_hash heads))"

definition classifyReconciliationFinality :: "RegistryHead list \<Rightarrow> bool \<Rightarrow> ReconciliationFinality" where
  "classifyReconciliationFinality heads topology_present =
     (if heads = [] then NULL_RECONCILIATION
      else if unique_hashes heads = 1
        then (if topology_present then GLOBAL_RECONCILED_CANDIDATE else LOCAL_RECONCILED)
      else let epochIds = dedup_loop id [] (map rh_epoch_id heads) in
        if length epochIds > 1 \<and> None \<notin> set epochIds then AMBIGUOUS_REQUIRES_EPOCH
        else AMBIGUOUS_RECONCILIATION)"

definition reconciliationFinalityToReconcilablePredicate :: "ReconciliationFinality \<Rightarrow> bool \<Rightarrow> bool" where
  "reconciliationFinalityToReconcilablePredicate finality require_global =
     (if finality = GLOBAL_RECONCILED_CANDIDATE then True
      else if finality = LOCAL_RECONCILED \<and> \<not> require_global then True
      else False)"

section \<open>The tie-breaks are orders\<close>

interpretation heads: linear_comparator head_order
proof
  fix x y z :: CompetingHead
  show "head_order x y \<or> head_order y x" by (auto simp: head_order_def)
  show "head_order x z" if "head_order x y" "head_order y z"
    using that by (auto simp: head_order_def split: if_splits)
  show "x = y" if "head_order x y" "head_order y x"
    using that by (intro CompetingHead.equality) (auto simp: head_order_def split: if_splits)
qed

interpretation registry: comparator registry_order
proof
  fix x y z :: RegistryHead
  show "registry_order x y \<or> registry_order y x"
    by (auto simp: registry_order_def key_order_def headSortKey_def)
  show "registry_order x z" if "registry_order x y" "registry_order y z"
    using that by (auto simp: registry_order_def key_order_def headSortKey_def split: if_splits)
qed

interpretation registry_merge: keyed_merge mergeRegistryHeads registry_key
  by unfold_locales (simp add: mergeRegistryHeads_def)

section \<open>Winning heads\<close>

lemma selectWinningHead_sorted:
  "length hs \<ge> 2 \<Longrightarrow> selectWinningHead hs =
     Some (js_sort head_order hs ! 0, collapse_rule_of (js_sort head_order hs ! 0) (js_sort head_order hs ! 1))"
  by (auto simp: selectWinningHead_def Let_def split: list.splits)

lemma selectWinningHead_hd: "selectWinningHead hs = Some (w, r) \<Longrightarrow> w = hd (js_sort head_order hs) \<and> hs \<noteq> []"
proof (cases "length hs \<ge> 2")
  case True
  moreover assume "selectWinningHead hs = Some (w, r)"
  moreover have "js_sort head_order hs \<noteq> []"
    using True mset_js_sort [of head_order hs] by (metis list.size(3) mset_zero_iff not_numeral_le_zero)
  ultimately show ?thesis by (auto simp: selectWinningHead_sorted hd_conv_nth)
next
  case False
  moreover assume "selectWinningHead hs = Some (w, r)"
  ultimately show ?thesis by (auto simp: selectWinningHead_def split: list.splits)
qed

lemma selectWinningHead_perm:
  assumes "mset xs = mset ys"
  shows "selectWinningHead xs = selectWinningHead ys"
proof (cases "length xs \<ge> 2")
  case True
  moreover have "length ys = length xs" using assms by (metis size_mset)
  ultimately show ?thesis using heads.sort_perm [OF assms] by (simp add: selectWinningHead_sorted)
next
  case False
  then have "xs = [] \<or> (\<exists>x. xs = [x])" by (cases xs) (auto simp: not_le less_Suc_eq_le)
  then have "xs = ys" using assms by auto
  then show ?thesis by simp
qed

lemma head_order_iff:
  "head_order w h \<longleftrightarrow> ch_reconciliability_score h < ch_reconciliability_score w \<or>
     ch_reconciliability_score h = ch_reconciliability_score w \<and>
       (ch_quorum_weight h < ch_quorum_weight w \<or>
        ch_quorum_weight h = ch_quorum_weight w \<and>
          (ch_causal_clock_index w < ch_causal_clock_index h \<or>
           ch_causal_clock_index w = ch_causal_clock_index h \<and> ch_head_hash w \<le> ch_head_hash h))"
  by (auto simp: head_order_def)

text \<open>
  C33. The winner of a conflict is a function of the multiset of competing heads, so partitions that
  saw the heads in different orders choose the same head by the same rule. There is a winner
  exactly when there is a head; the winner is one of them and beats each of them: a higher
  reconciliability score, or an equal score and a higher quorum weight, or equal weight and an
  earlier causal index, or all equal and a hash that is not greater.
\<close>

theorem selectWinningHead_deterministic:
  assumes "mset xs = mset ys"
  shows "selectWinningHead xs = selectWinningHead ys \<and> (selectWinningHead xs = None \<longleftrightarrow> xs = []) \<and>
     (\<forall>w r. selectWinningHead xs = Some (w, r) \<longrightarrow> w \<in> set xs \<and>
        list_all (\<lambda>h. ch_reconciliability_score h < ch_reconciliability_score w \<or>
          ch_reconciliability_score h = ch_reconciliability_score w \<and>
            (ch_quorum_weight h < ch_quorum_weight w \<or>
             ch_quorum_weight h = ch_quorum_weight w \<and>
               (ch_causal_clock_index w < ch_causal_clock_index h \<or>
                ch_causal_clock_index w = ch_causal_clock_index h \<and> ch_head_hash w \<le> ch_head_hash h))) xs)"
proof -
  have "w \<in> set xs \<and> list_all (head_order w) xs" if "selectWinningHead xs = Some (w, r)" for w r
    using selectWinningHead_hd [OF that] heads.hd_sort_in [of xs] heads.hd_sort_minimal [of _ xs]
    by (auto simp: list_all_iff)
  moreover have "selectWinningHead xs = None \<longleftrightarrow> xs = []"
    by (auto simp: selectWinningHead_def Let_def split: list.splits)
  ultimately show ?thesis
    using selectWinningHead_perm [OF assms] unfolding head_order_iff [symmetric] by blast
qed

definition sample_head :: "string \<Rightarrow> rat \<Rightarrow> CompetingHead" where
  "sample_head h w = \<lparr>ch_head_hash = h, ch_reconciliability_score = 1, ch_quorum_weight = w, ch_causal_clock_index = 0\<rparr>"

theorem selectWinningHead_deterministic_witness:
  "selectWinningHead [sample_head ''a'' 1, sample_head ''b'' 2] = selectWinningHead [sample_head ''b'' 2, sample_head ''a'' 1]"
proof -
  have "mset [sample_head ''a'' 1, sample_head ''b'' 2] = mset [sample_head ''b'' 2, sample_head ''a'' 1]" by simp
  from selectWinningHead_deterministic [OF this] show ?thesis by (rule conjunct1)
qed

section \<open>Settlement keeps the evidence\<close>

lemma settle_cases:
  "settleConflictSet env w ev opts =
     (if ce_competing_roots env = [] then env\<lparr>ce_winning_root := None, ce_settlement_state := CE_NULL, ce_settlement_evidence := ev\<rparr>
      else case isSettlementDeterministic (ce_competing_roots env) opts of
        Some r \<Rightarrow> env\<lparr>ce_winning_root := None, ce_settlement_state := CE_UNSETTLEABLE, ce_settlement_evidence := with_reason ev r\<rparr>
      | None \<Rightarrow> if w \<in> cr_root_hash ` set (ce_competing_roots env)
         then env\<lparr>ce_winning_root := Some w,
                ce_losing_roots := dedup_loop id [] (ce_losing_roots env @ filter (\<lambda>h. h \<noteq> w) (map cr_root_hash (ce_competing_roots env))),
                ce_settlement_state := CE_SETTLED, ce_settlement_evidence := ev\<rparr>
         else env\<lparr>ce_winning_root := None, ce_settlement_state := CE_UNSETTLEABLE,
                ce_settlement_evidence := with_reason ev WOULD_ERASE_EVIDENCE\<rparr>)"
  by (simp add: settleConflictSet_def Let_def split: option.split)

text \<open>
  Settling a conflict keeps every branch on record, whatever the outcome: the competing roots,
  the conflict id, the epoch and the detection time are unchanged and no losing root recorded
  earlier is dropped. The outcome is SETTLED exactly when there are two competing roots or more,
  the epoch is present and not stale, no resurrection, detached proof, topology ambiguity or
  missing lineage is reported, the clocks of the roots are not all the same and the named winner
  competes; then the winner is that root and every competing root is the winner or recorded as
  losing. In every other case there is no winner and the losing roots are unchanged.
\<close>

theorem settleConflictSet_preserves_evidence:
  "let out = settleConflictSet env w ev opts;
       settles = (length (ce_competing_roots env) \<ge> 2 \<and> so_epoch_id_present opts \<and> \<not> so_epoch_stale opts \<and>
          \<not> so_has_replay_resurrection_conflict opts \<and> \<not> so_has_detached_proof opts \<and> \<not> so_topology_ambiguous opts \<and>
          \<not> so_has_missing_proof_lineage opts \<and> \<not> hasIdenticalCausalClocks (ce_competing_roots env) \<and>
          w \<in> cr_root_hash ` set (ce_competing_roots env))
   in ce_competing_roots out = ce_competing_roots env \<and> ce_conflict_id out = ce_conflict_id env \<and>
      ce_epoch_id out = ce_epoch_id env \<and> ce_detected_at out = ce_detected_at env \<and>
      (ce_settlement_state out = CE_SETTLED \<longleftrightarrow> settles) \<and>
      ce_winning_root out = (if settles then Some w else None) \<and>
      set (ce_losing_roots out) =
        (if settles then set (ce_losing_roots env) \<union> (cr_root_hash ` set (ce_competing_roots env) - {w})
         else set (ce_losing_roots env))"
proof -
  define settles where "settles = (isSettlementDeterministic (ce_competing_roots env) opts = None \<and>
     w \<in> cr_root_hash ` set (ce_competing_roots env))"
  have eq: "settles = (length (ce_competing_roots env) \<ge> 2 \<and> so_epoch_id_present opts \<and> \<not> so_epoch_stale opts \<and>
      \<not> so_has_replay_resurrection_conflict opts \<and> \<not> so_has_detached_proof opts \<and> \<not> so_topology_ambiguous opts \<and>
      \<not> so_has_missing_proof_lineage opts \<and> \<not> hasIdenticalCausalClocks (ce_competing_roots env) \<and>
      w \<in> cr_root_hash ` set (ce_competing_roots env))"
    by (auto simp: settles_def isSettlementDeterministic_def)
  show ?thesis
    unfolding Let_def eq [symmetric] settle_cases
    by (auto simp: settles_def set_dedup isSettlementDeterministic_def split: option.split if_split_asm)
qed

section \<open>Canonical registry heads\<close>

text \<open>
  The canonical head of a registry is one of its heads and no head has a better sort key;
  when different heads have different keys it is the same for every order in which the heads
  arrive. Better is lexicographic: reconciliability, quorum weight, causal index, observation
  time, hash.
\<close>

theorem selectCanonicalHead_minimal:
  assumes "set xs = set ys" and "inj_on headSortKey (set xs)"
  shows "selectCanonicalHead xs = selectCanonicalHead ys \<and> (selectCanonicalHead xs = None \<longleftrightarrow> xs = []) \<and>
     (\<forall>h. selectCanonicalHead xs = Some h \<longrightarrow> h \<in> set xs \<and> list_all (\<lambda>g. headSortKey h \<le> headSortKey g) xs)"
proof -
  have le: "registry_order a b \<longleftrightarrow> headSortKey a \<le> headSortKey b" for a b
    by (auto simp: registry_order_def key_order_def headSortKey_def less_eq_prod_def less_prod_def)
  have "hd (js_sort registry_order xs) = hd (js_sort registry_order ys)" if "xs \<noteq> []"
    by (rule registry.hd_sort_set_invariant [OF that assms(1)])
       (use assms(2) in \<open>auto simp: le inj_on_def\<close>)
  moreover have "xs = [] \<longleftrightarrow> ys = []" using assms(1) by auto
  ultimately have "selectCanonicalHead xs = selectCanonicalHead ys" by (simp add: selectCanonicalHead_def)
  moreover have "h \<in> set xs \<and> list_all (\<lambda>g. headSortKey h \<le> headSortKey g) xs" if "selectCanonicalHead xs = Some h" for h
    using that registry.hd_sort_in [of xs] registry.hd_sort_minimal [of _ xs]
    by (auto simp: selectCanonicalHead_def le list_all_iff split: if_splits)
  ultimately show ?thesis by (auto simp: selectCanonicalHead_def split: if_splits)
qed

definition sample_registry_head :: "string \<Rightarrow> string option \<Rightarrow> RegistryHead" where
  "sample_registry_head h e = \<lparr>rh_head_hash = h, rh_shard_id = ''s'', rh_causal_index = 0, rh_quorum_weight = 1,
     rh_reconciliability_score = 1, rh_observed_at = ''t'', rh_epoch_id = e\<rparr>"

theorem selectCanonicalHead_minimal_witness:
  "selectCanonicalHead [sample_registry_head ''b'' None, sample_registry_head ''a'' None] =
   selectCanonicalHead [sample_registry_head ''a'' None, sample_registry_head ''b'' None]"
proof -
  have "set [sample_registry_head ''b'' None, sample_registry_head ''a'' None] =
      set [sample_registry_head ''a'' None, sample_registry_head ''b'' None]" by auto
  moreover have "inj_on headSortKey (set [sample_registry_head ''b'' None, sample_registry_head ''a'' None])"
    by (auto simp: headSortKey_def sample_registry_head_def)
  ultimately show ?thesis using selectCanonicalHead_minimal by blast
qed

lemma dedup_singleton: "xs \<noteq> [] \<Longrightarrow> length (dedup_loop id [] xs) = 1 \<longleftrightarrow> set xs = {hd xs}"
proof -
  assume "xs \<noteq> []"
  have d: "distinct (dedup_loop id [] xs)" using dedup_loop_distinct [of id "[]" xs] by simp
  have "length (dedup_loop id [] xs) = card (set xs)"
    using distinct_card [OF d] by (simp add: set_dedup)
  moreover have "hd xs \<in> set xs" using \<open>xs \<noteq> []\<close> by simp
  ultimately show ?thesis by (metis One_nat_def card_1_singletonE is_singletonI is_singleton_altdef singletonD)
qed

lemma dedup_agree:
  assumes "xs \<noteq> []"
  shows "length (dedup_loop id [] (map f xs)) = 1 \<longleftrightarrow> list_all (\<lambda>x. f x = f (hd xs)) xs"
proof -
  have "hd xs \<in> set xs" using assms by simp
  then have "f ` set xs = {f (hd xs)} \<longleftrightarrow> (\<forall>x\<in>set xs. f x = f (hd xs))" by blast
  moreover have "map f xs \<noteq> []" using assms by simp
  ultimately show ?thesis
    using dedup_singleton [of "map f xs"] unfolding hd_map [OF assms] set_map list_all_iff by blast
qed

text \<open>
  Finality of a set of registry heads: none without heads; when all heads carry one hash it is
  a global candidate if the topology is known and local otherwise; when hashes differ it is
  ambiguous, and it asks for an epoch exactly when every head names an epoch and the epochs
  differ. The reconcilable predicate holds exactly for agreeing heads, and under required
  global finality exactly for agreeing heads with known topology.
\<close>

theorem classifyReconciliationFinality_exactly:
  "(classifyReconciliationFinality hs topo = NULL_RECONCILIATION \<longleftrightarrow> hs = []) \<and>
   (classifyReconciliationFinality hs topo = GLOBAL_RECONCILED_CANDIDATE \<longleftrightarrow>
      hs \<noteq> [] \<and> list_all (\<lambda>h. rh_head_hash h = rh_head_hash (hd hs)) hs \<and> topo) \<and>
   (classifyReconciliationFinality hs topo = LOCAL_RECONCILED \<longleftrightarrow>
      hs \<noteq> [] \<and> list_all (\<lambda>h. rh_head_hash h = rh_head_hash (hd hs)) hs \<and> \<not> topo) \<and>
   (classifyReconciliationFinality hs topo = AMBIGUOUS_REQUIRES_EPOCH \<longleftrightarrow>
      list_ex (\<lambda>h. rh_head_hash h \<noteq> rh_head_hash (hd hs)) hs \<and> list_ex (\<lambda>h. rh_epoch_id h \<noteq> rh_epoch_id (hd hs)) hs \<and>
      list_all (\<lambda>h. rh_epoch_id h \<noteq> None) hs) \<and>
   (reconciliationFinalityToReconcilablePredicate (classifyReconciliationFinality hs topo) glob \<longleftrightarrow>
      hs \<noteq> [] \<and> list_all (\<lambda>h. rh_head_hash h = rh_head_hash (hd hs)) hs \<and> \<not> (glob \<and> \<not> topo))"
proof (cases "hs = []")
  case True
  then show ?thesis
    by (simp add: classifyReconciliationFinality_def reconciliationFinalityToReconcilablePredicate_def)
next
  case False
  have one: "unique_hashes hs = 1 \<longleftrightarrow> list_all (\<lambda>h. rh_head_hash h = rh_head_hash (hd hs)) hs"
    unfolding unique_hashes_def by (rule dedup_agree [OF False])
  have "dedup_loop id [] (map rh_epoch_id hs) \<noteq> []"
    using set_dedup [of "map rh_epoch_id hs"] False by (metis list.map_disc_iff set_empty)
  then have "length (dedup_loop id [] (map rh_epoch_id hs)) > 1 \<longleftrightarrow> length (dedup_loop id [] (map rh_epoch_id hs)) \<noteq> 1"
    by (cases "dedup_loop id [] (map rh_epoch_id hs)") auto
  also have "\<dots> \<longleftrightarrow> list_ex (\<lambda>h. rh_epoch_id h \<noteq> rh_epoch_id (hd hs)) hs"
    unfolding dedup_agree [OF False] by (simp add: list_ex_iff list_all_iff)
  finally have many: "length (dedup_loop id [] (map rh_epoch_id hs)) > 1 \<longleftrightarrow>
    list_ex (\<lambda>h. rh_epoch_id h \<noteq> rh_epoch_id (hd hs)) hs" .
  have none: "None \<in> set (dedup_loop id [] (map rh_epoch_id hs)) \<longleftrightarrow> \<not> list_all (\<lambda>h. rh_epoch_id h \<noteq> None) hs"
    unfolding set_dedup set_map list_all_iff image_iff by metis
  have ex: "list_ex (\<lambda>h. rh_head_hash h \<noteq> rh_head_hash (hd hs)) hs \<longleftrightarrow> \<not> list_all (\<lambda>h. rh_head_hash h = rh_head_hash (hd hs)) hs"
    by (auto simp: list_ex_iff list_all_iff)
  have eq: "classifyReconciliationFinality hs topo =
     (if list_all (\<lambda>h. rh_head_hash h = rh_head_hash (hd hs)) hs then if topo then GLOBAL_RECONCILED_CANDIDATE else LOCAL_RECONCILED
      else if list_ex (\<lambda>h. rh_epoch_id h \<noteq> rh_epoch_id (hd hs)) hs \<and> list_all (\<lambda>h. rh_epoch_id h \<noteq> None) hs
        then AMBIGUOUS_REQUIRES_EPOCH
      else AMBIGUOUS_RECONCILIATION)"
    unfolding classifyReconciliationFinality_def Let_def one many none using False by (simp only: if_False not_not)
  show ?thesis
    unfolding ex eq reconciliationFinalityToReconcilablePredicate_def
    using False
    by (cases "list_all (\<lambda>h. rh_head_hash h = rh_head_hash (hd hs)) hs"; cases topo; cases glob;
        cases "list_ex (\<lambda>h. rh_epoch_id h \<noteq> rh_epoch_id (hd hs)) hs \<and> list_all (\<lambda>h. rh_epoch_id h \<noteq> None) hs")
       (simp_all only: simp_thms if_True if_False ReconciliationFinality.distinct)
qed

end
