(* ===== verification/Lineage.thy ===== *)
theory Lineage
  imports Canonical "HOL-Library.AList" "HOL-Library.While_Combinator"
begin

text \<open>
  What the lineage reports under \<^verbatim>\<open>src/\<close> share: the defensive readers of untyped input, the
  \<^verbatim>\<open>Map\<close> of a registry in insertion order (an association list, on which \<^verbatim>\<open>set\<close> is
  \<^const>\<open>AList.update\<close>), the parent and children of a lineage entry, and the theory of lineage
  forests: every entry names at most one parent, so ancestors are iterated parents and
  descendants the entries that have the root as an ancestor.
\<close>

section \<open>Reading untyped input\<close>

definition FORBIDDEN_FIELDS :: "string list" where
  "FORBIDDEN_FIELDS =
     [''creates_authority'', ''creates_execution'', ''creates_proof'', ''mutates_registry'', ''authority_grant'',
      ''execution_token'', ''proof_signature'', ''deployment_trigger'', ''lineage_repair'', ''auto_repair'',
      ''majority_as_authority'', ''implicit_consensus'', ''auto_consensus'', ''registry_mutation'', ''break_glass'']"

definition hasForbiddenField :: "jsval \<Rightarrow> bool" where
  "hasForbiddenField obj \<longleftrightarrow> list_ex (\<lambda>f. f \<in> set (js_keys obj)) FORBIDDEN_FIELDS"

definition safeObj :: "jsval \<Rightarrow> jsval" where
  "safeObj v = (if isPlainObject v then v else JObj [])"

definition is_hex64 :: "string \<Rightarrow> bool" where
  "is_hex64 s \<longleftrightarrow> length s = 64 \<and> list_all (\<lambda>c. c \<in> set ''0123456789abcdef'') s"

fun isValidSha256 :: "jsval \<Rightarrow> bool" where
  "isValidSha256 (JStr s) = is_hex64 s"
| "isValidSha256 _ = False"

text \<open>\<^verbatim>\<open>Array.isArray(v) ? v : []\<close>\<close>

fun js_array :: "jsval \<Rightarrow> jsval list" where
  "js_array (JArr xs) = xs"
| "js_array _ = []"

text \<open>\<^verbatim>\<open>String(obj.k || "")\<close> and \<^verbatim>\<open>obj.k != null ? String(obj.k) : null\<close>.\<close>

definition str_field :: "jsval \<Rightarrow> string \<Rightarrow> string" where
  "str_field obj k = js_String_or (js_get obj k) []"

definition opt_field :: "jsval \<Rightarrow> string \<Rightarrow> string option" where
  "opt_field obj k = (if is_nullish (js_get obj k) then None else Some (js_String (js_get obj k)))"

definition js_opt :: "string option \<Rightarrow> jsval" where
  "js_opt x = (case x of None \<Rightarrow> JNull | Some s \<Rightarrow> JStr s)"

definition js_nat :: "nat \<Rightarrow> jsval" where
  "js_nat n = JNum (NInt (int n))"

text \<open>\<^verbatim>\<open>String(x || "").trim()\<close> of an optional string.\<close>

definition trim_opt :: "string option \<Rightarrow> string" where
  "trim_opt x = (case x of None \<Rightarrow> [] | Some s \<Rightarrow> js_trim s)"

section \<open>Lineage forests\<close>

text \<open>The \<open>n\<close>-th ancestor.\<close>

primrec anc :: "('a \<Rightarrow> 'a option) \<Rightarrow> nat \<Rightarrow> 'a \<Rightarrow> 'a option" where
  "anc par 0 x = Some x"
| "anc par (Suc n) x = Option.bind (anc par n x) par"

lemma anc_add: "anc par (m + n) x = Option.bind (anc par m x) (anc par n)"
proof (induction n)
  case (Suc n)
  then show ?case by (cases "anc par m x") auto
qed (cases "anc par m x"; simp)

lemma anc_Suc_left: "anc par (Suc n) x = Option.bind (par x) (anc par n)"
  using anc_add [of par 1 n x] by simp

text \<open>The distance of \<open>x\<close> from the root: the least number of parent steps.\<close>

definition level :: "('a \<Rightarrow> 'a option) \<Rightarrow> 'a \<Rightarrow> nat \<Rightarrow> 'a \<Rightarrow> bool" where
  "level par root n x \<longleftrightarrow> anc par n x = Some root \<and> (\<forall>m<n. anc par m x \<noteq> Some root)"

definition descends :: "('a \<Rightarrow> 'a option) \<Rightarrow> 'a \<Rightarrow> 'a \<Rightarrow> bool" where
  "descends par root x \<longleftrightarrow> (\<exists>n. anc par (Suc n) x = Some root)"

lemma level_unique: "level par r m x \<Longrightarrow> level par r n x \<Longrightarrow> m = n"
  by (metis level_def linorder_neqE_nat)

lemma level_exists: "anc par n x = Some r \<Longrightarrow> \<exists>m\<le>n. level par r m x"
proof -
  assume a: "anc par n x = Some r"
  have "level par r (LEAST m. anc par m x = Some r) x"
    using LeastI [of "\<lambda>m. anc par m x = Some r", OF a] not_less_Least by (auto simp: level_def)
  moreover have "(LEAST m. anc par m x = Some r) \<le> n" using a by (simp add: Least_le)
  ultimately show ?thesis by blast
qed

lemma level_0 [simp]: "level par r 0 x \<longleftrightarrow> x = r"
  by (auto simp: level_def)

lemma level_child:
  assumes "par c = Some x" "c \<noteq> r"
  shows "level par r (Suc n) c \<longleftrightarrow> level par r n x"
proof -
  have shift: "anc par (Suc m) c = anc par m x" for m using assms(1) by (simp only: anc_Suc_left) simp
  show ?thesis
  proof
    assume l: "level par r (Suc n) c"
    have "anc par m x \<noteq> Some r" if "m < n" for m
      using l that shift [of m] unfolding level_def by (metis Suc_less_eq)
    then show "level par r n x" using l shift [of n] by (simp add: level_def del: anc.simps)
  next
    assume l: "level par r n x"
    have "anc par m c \<noteq> Some r" if "m < Suc n" for m
      using l that shift assms(2) by (cases m) (auto simp: level_def simp del: anc.simps(2))
    then show "level par r (Suc n) c" using l shift [of n] by (simp add: level_def del: anc.simps)
  qed
qed

lemma level_Suc_parent: "level par r (Suc n) c \<Longrightarrow> \<exists>x. par c = Some x \<and> level par r n x \<and> c \<noteq> r"
proof -
  assume l: "level par r (Suc n) c"
  have r: "c \<noteq> r" using l by (auto simp: level_def)
  have "anc par (Suc n) c = Some r" using l by (simp add: level_def)
  then obtain x where x: "par c = Some x" by (cases "par c") (auto simp: anc_Suc_left simp del: anc.simps(2))
  with level_child [where par = par and c = c and x = x, OF _ r] l r show ?thesis by blast
qed

lemma descends_level: "descends par r x \<Longrightarrow> x \<noteq> r \<Longrightarrow> \<exists>n. level par r (Suc n) x"
proof -
  assume "descends par r x" "x \<noteq> r"
  then obtain n m where "level par r m x" using level_exists by (metis descends_def)
  with \<open>x \<noteq> r\<close> show ?thesis by (cases m) auto
qed

text \<open>
  The contract between the children map of a registry and the parents it was built from.
\<close>

locale forest =
  fixes kids :: "string \<Rightarrow> string list" and par :: "string \<Rightarrow> string option"
  assumes kids_iff: "c \<in> set (kids x) \<longleftrightarrow> par c = Some x"
    and distinct_kids: "distinct (kids x)"
    and finite_dom: "finite (dom par)"
begin

lemma kids_dom: "set (kids x) \<subseteq> dom par"
  by (auto simp: kids_iff)

end

end
