(* ===== verification/Revocation.thy ===== *)
theory Revocation
  imports Lineage
begin

text \<open>
  \<^verbatim>\<open>src/recursive-revocation-propagation.ts\<close>: the report on the revocation state of a lineage
  registry that several nodes observed. From untyped input it merges the views of the nodes,
  walks down from every revoked entry, lists active descendants of revoked entries, audits the
  ancestors of every entry, judges replays and proofs, compares the views and classifies the
  result.

  The three \<^verbatim>\<open>while\<close> loops are \<^const>\<open>while_option\<close>: a loop that does not end would give \<open>None\<close>.
  \<^verbatim>\<open>break\<close> clears the loop variable. \<^verbatim>\<open>Date.parse\<close> (\<open>None\<close> for \<^verbatim>\<open>NaN\<close>), the clock \<open>now\<close> and
  \<^verbatim>\<open>a.localeCompare(b) <= 0\<close> (\<open>loc\<close>) are parameters; the code is synchronous, so one run reads
  one time.
\<close>

section \<open>Data\<close>

datatype RevocationPropagationResult =
  PROPAGATION_COMPLETE | PROPAGATION_INCOMPLETE | PROPAGATION_COLLAPSED | PROPAGATION_STALE
| PROPAGATION_CONVERGENCE_FAILED | PROPAGATION_NULL

datatype RevocationDescendantFailure = CYCLE_DETECTED | DEPTH_EXCEEDED

fun descendant_failure_string :: "RevocationDescendantFailure \<Rightarrow> string" where
  "descendant_failure_string CYCLE_DETECTED = ''cycle_detected''"
| "descendant_failure_string DEPTH_EXCEEDED = ''depth_exceeded''"

datatype RevocationDriftClass =
  DESCENDANT_PROPAGATION_INCOMPLETE | STALE_LINEAGE_RESURRECTION | PROOF_REVOCATION_BARRIER_VIOLATED
| REPLAY_REVOCATION_BARRIER_VIOLATED | ANCESTOR_REVOCATION_UNRESOLVED | DISTRIBUTED_REVOCATION_DRIFT
| REVOCATION_LINEAGE_CYCLE | REVOCATION_DEPTH_EXCEEDED | REVOCATION_CONVERGENCE_MISSING

fun drift_class_string :: "RevocationDriftClass \<Rightarrow> string" where
  "drift_class_string DESCENDANT_PROPAGATION_INCOMPLETE = ''descendant_propagation_incomplete''"
| "drift_class_string STALE_LINEAGE_RESURRECTION = ''stale_lineage_resurrection''"
| "drift_class_string PROOF_REVOCATION_BARRIER_VIOLATED = ''proof_revocation_barrier_violated''"
| "drift_class_string REPLAY_REVOCATION_BARRIER_VIOLATED = ''replay_revocation_barrier_violated''"
| "drift_class_string ANCESTOR_REVOCATION_UNRESOLVED = ''ancestor_revocation_unresolved''"
| "drift_class_string DISTRIBUTED_REVOCATION_DRIFT = ''distributed_revocation_drift''"
| "drift_class_string REVOCATION_LINEAGE_CYCLE = ''revocation_lineage_cycle''"
| "drift_class_string REVOCATION_DEPTH_EXCEEDED = ''revocation_depth_exceeded''"
| "drift_class_string REVOCATION_CONVERGENCE_MISSING = ''revocation_convergence_missing''"

datatype RevocationRepairClass =
  PROPAGATE_REVOCATION_TO_DESCENDANTS | INVALIDATE_STALE_REPLAY | INVALIDATE_PROOF_CONTINUITY
| RECONCILE_REVOCATION_VIEWS | REVOCATION_PERMANENTLY_INVALID

datatype RevocationConvergenceResult = CONVERGENCE_REACHED | CONVERGENCE_PARTIAL | CONVERGENCE_FAILED | CONVERGENCE_NULL

fun convergence_string :: "RevocationConvergenceResult \<Rightarrow> string" where
  "convergence_string CONVERGENCE_REACHED = ''CONVERGENCE_REACHED''"
| "convergence_string CONVERGENCE_PARTIAL = ''CONVERGENCE_PARTIAL''"
| "convergence_string CONVERGENCE_FAILED = ''CONVERGENCE_FAILED''"
| "convergence_string CONVERGENCE_NULL = ''NULL''"

record RevocationLineageEntry =
  rl_continuity_id :: string
  rl_session_id :: string
  rl_parent_continuity_id :: "string option"
  rl_continuity_hash :: string
  rl_status :: string
  rl_revoked_at :: "string option"
  rl_expires_at :: "string option"

record RevocationRegistryView =
  rv_node_id :: string
  rv_registry_epoch :: string
  rv_lineage_root_id :: string
  rv_entries :: "RevocationLineageEntry list"
  rv_registry_hash :: string

record RevocationEvidence =
  rr_revocation_id :: string
  rr_root_continuity_id :: string
  rr_revoked_at :: string
  rr_propagated_ids :: "string list"

record RevocationProofRecord =
  rp_proof_id :: string
  rp_continuity_id :: string
  rp_proof_hash :: string
  rp_lineage_hash :: string

record RevocationReplayRecord =
  rx_replay_id :: string
  rx_continuity_id :: string
  rx_continuity_hash :: string
  rx_lineage_hash :: string

record RevocationDescendantResult =
  ds_traversal_id :: string
  ds_root_continuity_id :: string
  ds_descendant_ids :: "string list"
  ds_descendant_count :: nat
  ds_depth_reached :: nat
  ds_ok :: bool
  ds_failure_reason :: "RevocationDescendantFailure option"
  ds_topology_hash :: string

record StaleLineageCollapse =
  sc_collapse_id :: string
  sc_revoked_root_id :: string
  sc_active_descendant_ids :: "string list"
  sc_collapse_hash :: string

record RevocationChronologyEntry =
  cy_sequence_index :: nat
  cy_revocation_id :: string
  cy_root_continuity_id :: string
  cy_revoked_at :: string
  cy_chronology_hash :: string

record RevocationAncestryAudit =
  aa_audit_id :: string
  aa_continuity_id :: string
  aa_ancestor_revoked :: bool
  aa_revoked_ancestor_id :: "string option"
  aa_ancestry_chain :: "string list"
  aa_ancestry_hash :: string

record ReplayRevocationEligibility =
  el_replay_id :: string
  el_continuity_id :: string
  el_eligible :: bool
  el_ineligibility_reason :: "string option"

record ProofContinuityValidation =
  pv_proof_id :: string
  pv_continuity_id :: string
  pv_valid :: bool
  pv_invalidity_reason :: "string option"
  pv_proof_hash :: string

record DistributedRevocationConvergence =
  cv_convergence_id :: string
  cv_convergence_result :: RevocationConvergenceResult
  cv_converged_count :: nat
  cv_diverged_count :: nat
  cv_canonical_epoch :: "string option"
  cv_canonical_revocation_hash :: "string option"
  cv_revocation_topology_hash :: string

record RevocationDriftObservation =
  ob_observation_id :: string
  ob_drift_class :: RevocationDriftClass
  ob_affected_continuity_id :: "string option"
  ob_severity :: string
  ob_detail :: string

record RevocationRepairDiagnostic =
  dg_diagnostic_id :: string
  dg_affected_continuity_id :: "string option"
  dg_repair_class :: RevocationRepairClass
  dg_repairable :: bool
  dg_detail :: string

record RevocationPropagationAuditSurface =
  au_audit_id :: string
  au_propagation_id :: string
  au_revocation_topology_hash :: string
  au_total_entry_count :: nat
  au_revoked_count :: nat
  au_propagation_complete :: bool
  au_drift_count :: nat
  au_convergence_result :: RevocationConvergenceResult

record RevocationLineagePropagation =
  rg_propagation_id :: string
  rg_propagation_result :: RevocationPropagationResult
  rg_revocation_topology_hash :: string
  rg_entry_count :: nat
  rg_descendant_traversal_results :: "RevocationDescendantResult list"
  rg_incomplete_propagations :: "string list"
  rg_stale_lineage_collapses :: "StaleLineageCollapse list"
  rg_chronology :: "RevocationChronologyEntry list"
  rg_ancestry_audits :: "RevocationAncestryAudit list"
  rg_replay_eligibility :: "ReplayRevocationEligibility list"
  rg_proof_continuity_validations :: "ProofContinuityValidation list"
  rg_convergence :: DistributedRevocationConvergence
  rg_drift_observations :: "RevocationDriftObservation list"
  rg_repair_diagnostics :: "RevocationRepairDiagnostic list"
  rg_audit_surface :: RevocationPropagationAuditSurface

text \<open>
  The helpers on entries apply to every extension of the record: the report on lineage closure
  uses the same code on entries with one field more.
\<close>

type_synonym 'a entry_map = "(string \<times> 'a RevocationLineageEntry_scheme) list"

type_synonym lineage_index = "(string \<times> RevocationLineageEntry) list"

section \<open>Helpers\<close>

definition SYSTEM_MAX_DESCENT_DEPTH :: nat where
  "SYSTEM_MAX_DESCENT_DEPTH = 32"

definition isActiveStatus :: "string \<Rightarrow> bool" where
  "isActiveStatus status \<longleftrightarrow> status = ''ACTIVE''"

text \<open>A null or empty string is falsy.\<close>

definition set_field :: "string option \<Rightarrow> bool" where
  "set_field x \<longleftrightarrow> x \<noteq> None \<and> x \<noteq> Some []"

definition isRevocationBarriered :: "(string \<Rightarrow> int option) \<Rightarrow> int \<Rightarrow> 'a RevocationLineageEntry_scheme \<Rightarrow> bool" where
  "isRevocationBarriered parse now entry =
     (if \<not> isActiveStatus (rl_status entry) \<or> set_field (rl_revoked_at entry) then True
      else case rl_expires_at entry of
        None \<Rightarrow> False
      | Some t \<Rightarrow> t \<noteq> [] \<and> (case parse t of None \<Rightarrow> False | Some ms \<Rightarrow> ms \<le> now))"

text \<open>\<^verbatim>\<open>isActiveStatus(entry.status) && !entry.revoked_at\<close>\<close>

definition still_active :: "'a RevocationLineageEntry_scheme \<Rightarrow> bool" where
  "still_active e \<longleftrightarrow> isActiveStatus (rl_status e) \<and> \<not> set_field (rl_revoked_at e)"

definition parent_id :: "'a RevocationLineageEntry_scheme \<Rightarrow> string" where
  "parent_id e = trim_opt (rl_parent_continuity_id e)"

text \<open>\<^verbatim>\<open>map.get(k) ?? []\<close>\<close>

definition get_kids :: "(string \<times> string list) list \<Rightarrow> string \<Rightarrow> string list" where
  "get_kids m k = (case map_of m k of None \<Rightarrow> [] | Some xs \<Rightarrow> xs)"

fun buildChildrenMap_loop :: "(string \<times> string list) list \<Rightarrow> 'a RevocationLineageEntry_scheme list \<Rightarrow> (string \<times> string list) list" where
  "buildChildrenMap_loop m [] = m"
| "buildChildrenMap_loop m (entry # entries) = buildChildrenMap_loop
     (if parent_id entry \<noteq> [] then AList.update (parent_id entry) (get_kids m (parent_id entry) @ [rl_continuity_id entry]) m else m)
     entries"

definition buildChildrenMap :: "'a RevocationLineageEntry_scheme list \<Rightarrow> (string \<times> string list) list" where
  "buildChildrenMap entries = buildChildrenMap_loop [] entries"

definition computeRevocationTopologyHash :: "(string \<Rightarrow> string \<Rightarrow> bool) \<Rightarrow> RevocationLineageEntry list \<Rightarrow> string" where
  "computeRevocationTopologyHash loc entries = hashCanonical (JArr (map (\<lambda>e. JObj
       [(''continuity_hash'', JStr (rl_continuity_hash e)), (''continuity_id'', JStr (rl_continuity_id e)),
        (''parent_continuity_id'', js_opt (rl_parent_continuity_id e)), (''revoked_at'', js_opt (rl_revoked_at e)),
        (''status'', JStr (rl_status e))])
     (js_sort (\<lambda>a b. loc (rl_continuity_id a) (rl_continuity_id b)) entries)))"

section \<open>Descendants of a revoked entry\<close>

record Traversal =
  tr_queue :: "(string \<times> nat) list"
  tr_visited :: "string list"
  tr_descendants :: "string list"
  tr_depth_reached :: nat
  tr_cycle :: bool
  tr_exceeded :: bool

definition visit_child :: "nat \<Rightarrow> nat \<Rightarrow> Traversal \<Rightarrow> string \<Rightarrow> Traversal" where
  "visit_child maxDepth depth s childId =
     (if childId \<in> set (tr_visited s) then s\<lparr>tr_cycle := True\<rparr>
      else if depth + 1 > maxDepth then s\<lparr>tr_exceeded := True\<rparr>
      else s\<lparr>tr_visited := tr_visited s @ [childId], tr_descendants := tr_descendants s @ [childId],
             tr_queue := tr_queue s @ [(childId, depth + 1)]\<rparr>)"

definition traversal_step :: "(string \<Rightarrow> string list) \<Rightarrow> nat \<Rightarrow> Traversal \<Rightarrow> Traversal" where
  "traversal_step kids maxDepth s = (case tr_queue s of
       [] \<Rightarrow> s
     | (i, depth) # queue \<Rightarrow>
         foldl (visit_child maxDepth depth)
           (s\<lparr>tr_queue := queue, tr_depth_reached := (if depth > tr_depth_reached s then depth else tr_depth_reached s)\<rparr>)
           (kids i))"

definition traversal_loop :: "(string \<Rightarrow> string list) \<Rightarrow> nat \<Rightarrow> string \<Rightarrow> Traversal option" where
  "traversal_loop kids maxDepth rootId =
     while_option (\<lambda>s. tr_queue s \<noteq> []) (traversal_step kids maxDepth)
       \<lparr>tr_queue = [(rootId, 0)], tr_visited = [rootId], tr_descendants = [], tr_depth_reached = 0,
        tr_cycle = False, tr_exceeded = False\<rparr>"

definition traverseDescendantRevocation :: "string \<Rightarrow> lineage_index \<Rightarrow> nat \<Rightarrow> RevocationDescendantResult option" where
  "traverseDescendantRevocation rootId index maxDepth =
     (case traversal_loop (get_kids (buildChildrenMap (map snd index))) maxDepth rootId of
        None \<Rightarrow> None
      | Some s \<Rightarrow>
          (let failureReason = (if tr_cycle s then Some CYCLE_DETECTED else if tr_exceeded s then Some DEPTH_EXCEEDED else None);
               topologyPayload = JObj
                 [(''depth_reached'', js_nat (tr_depth_reached s)), (''descendant_ids'', JArr (map JStr (sort (tr_descendants s)))),
                  (''failure_reason'', js_opt (map_option descendant_failure_string failureReason)),
                  (''root_continuity_id'', JStr rootId)]
           in Some \<lparr>ds_traversal_id = hashCanonical (JObj [(''root'', JStr rootId), (''topology'', topologyPayload)]),
                ds_root_continuity_id = rootId, ds_descendant_ids = tr_descendants s,
                ds_descendant_count = length (tr_descendants s), ds_depth_reached = tr_depth_reached s,
                ds_ok = (failureReason = None), ds_failure_reason = failureReason,
                ds_topology_hash = hashCanonical topologyPayload\<rparr>))"

text \<open>The inner loop of the completeness check: the state is \<^verbatim>\<open>seenDescendants\<close> and \<^verbatim>\<open>incompleteIds\<close>.\<close>

fun incomplete_loop :: "lineage_index \<Rightarrow> string list \<times> string list \<Rightarrow> string list \<Rightarrow> string list \<times> string list" where
  "incomplete_loop index st [] = st"
| "incomplete_loop index (seen, inc) (d # ds) =
     (if d \<in> set seen then incomplete_loop index (seen, inc) ds
      else incomplete_loop index
        (d # seen, case map_of index d of None \<Rightarrow> inc | Some entry \<Rightarrow> if still_active entry then inc @ [d] else inc) ds)"

fun completeness_loop :: "string list \<Rightarrow> lineage_index \<Rightarrow> string list \<times> string list \<Rightarrow> RevocationDescendantResult list \<Rightarrow> string list \<times> string list" where
  "completeness_loop revokedRoots index st [] = st"
| "completeness_loop revokedRoots index st (r # rs) = completeness_loop revokedRoots index
     (if ds_root_continuity_id r \<in> set revokedRoots then incomplete_loop index st (ds_descendant_ids r) else st) rs"

definition verifyRevocationPropagationCompleteness ::
  "RevocationDescendantResult list \<Rightarrow> RevocationEvidence list \<Rightarrow> lineage_index \<Rightarrow> bool \<times> string list" where
  "verifyRevocationPropagationCompleteness traversalResults revocationRecords index =
     (let incompleteIds = snd (completeness_loop (map rr_root_continuity_id revocationRecords) index ([], []) traversalResults)
      in (incompleteIds = [], incompleteIds))"

section \<open>Stale lineage\<close>

record Collapse =
  cl_queue :: "string list"
  cl_visited :: "string list"
  cl_active :: "string list"

definition collapse_child :: "lineage_index \<Rightarrow> Collapse \<Rightarrow> string \<Rightarrow> Collapse" where
  "collapse_child index s childId =
     (if childId \<in> set (cl_visited s) then s
      else s\<lparr>cl_visited := cl_visited s @ [childId],
             cl_active := (case map_of index childId of None \<Rightarrow> cl_active s
                | Some e \<Rightarrow> if still_active e then cl_active s @ [childId] else cl_active s),
             cl_queue := cl_queue s @ [childId]\<rparr>)"

definition collapse_step :: "(string \<Rightarrow> string list) \<Rightarrow> lineage_index \<Rightarrow> Collapse \<Rightarrow> Collapse" where
  "collapse_step kids index s = (case cl_queue s of
       [] \<Rightarrow> s
     | current # queue \<Rightarrow> foldl (collapse_child index) (s\<lparr>cl_queue := queue\<rparr>) (kids current))"

definition collapse_loop :: "(string \<Rightarrow> string list) \<Rightarrow> lineage_index \<Rightarrow> string \<Rightarrow> Collapse option" where
  "collapse_loop kids index rootId =
     while_option (\<lambda>s. cl_queue s \<noteq> []) (collapse_step kids index)
       \<lparr>cl_queue = [rootId], cl_visited = [rootId], cl_active = []\<rparr>"

definition collapse_record :: "string \<Rightarrow> string list \<Rightarrow> StaleLineageCollapse" where
  "collapse_record rootId activeDescendants =
     (let collapsePayload = JObj [(''active_descendant_ids'', JArr (map JStr (sort activeDescendants))),
                                  (''revoked_root_id'', JStr rootId)]
      in \<lparr>sc_collapse_id = hashCanonical (JObj [(''collapse'', collapsePayload)]), sc_revoked_root_id = rootId,
          sc_active_descendant_ids = sort activeDescendants, sc_collapse_hash = hashCanonical collapsePayload\<rparr>)"

text \<open>The roots of the outer loop: barriered entries, the first of every id.\<close>

definition collapse_roots :: "(string \<Rightarrow> int option) \<Rightarrow> int \<Rightarrow> RevocationLineageEntry list \<Rightarrow> string list" where
  "collapse_roots parse now entries =
     dedup_loop id [] (map rl_continuity_id (filter (isRevocationBarriered parse now) entries))"

definition enforceStaleLineageCollapse ::
  "(string \<Rightarrow> int option) \<Rightarrow> int \<Rightarrow> RevocationLineageEntry list \<Rightarrow> lineage_index \<Rightarrow> StaleLineageCollapse list option" where
  "enforceStaleLineageCollapse parse now entries index =
     map_option (\<lambda>ss. map (\<lambda>(rootId, s). collapse_record rootId (cl_active s)) (filter (\<lambda>(rootId, s). cl_active s \<noteq> []) ss))
       (those (map (\<lambda>rootId. map_option (Pair rootId) (collapse_loop (get_kids (buildChildrenMap entries)) index rootId))
          (collapse_roots parse now entries)))"

section \<open>Chronology and ancestry\<close>

definition chronology_order :: "(string \<Rightarrow> string \<Rightarrow> bool) \<Rightarrow> RevocationEvidence \<Rightarrow> RevocationEvidence \<Rightarrow> bool" where
  "chronology_order loc a b =
     (if rr_revoked_at a < rr_revoked_at b then True
      else if rr_revoked_at a > rr_revoked_at b then False
      else loc (rr_revocation_id a) (rr_revocation_id b))"

definition chronology_entry :: "RevocationEvidence \<Rightarrow> nat \<Rightarrow> RevocationChronologyEntry" where
  "chronology_entry record sequenceIndex =
     \<lparr>cy_sequence_index = sequenceIndex, cy_revocation_id = rr_revocation_id record,
      cy_root_continuity_id = rr_root_continuity_id record, cy_revoked_at = rr_revoked_at record,
      cy_chronology_hash = hashCanonical (JObj
        [(''revocation_id'', JStr (rr_revocation_id record)), (''revoked_at'', JStr (rr_revoked_at record)),
         (''root_continuity_id'', JStr (rr_root_continuity_id record)), (''sequence_index'', js_nat sequenceIndex)])\<rparr>"

definition reconstructRevocationChronology ::
  "(string \<Rightarrow> string \<Rightarrow> bool) \<Rightarrow> RevocationEvidence list \<Rightarrow> RevocationChronologyEntry list" where
  "reconstructRevocationChronology loc revocationRecords =
     (let sorted = js_sort (chronology_order loc) revocationRecords in map2 chronology_entry sorted [0..<length sorted])"

record Ancestry =
  an_current :: "string option"
  an_chain :: "string list"
  an_revoked :: "string option"

text \<open>\<^verbatim>\<open>visited\<close> and \<^verbatim>\<open>chain\<close> receive the same ids until the loop ends, so one list stands for both.\<close>

definition ancestry_step ::
  "(string \<Rightarrow> int option) \<Rightarrow> int \<Rightarrow> lineage_index \<Rightarrow> nat \<Rightarrow> Ancestry \<Rightarrow> Ancestry" where
  "ancestry_step parse now index maxDepth s = (case an_current s of
       None \<Rightarrow> s
     | Some current \<Rightarrow>
         if current \<in> set (an_chain s) then s\<lparr>an_current := None\<rparr>
         else let chain = an_chain s @ [current]; s' = s\<lparr>an_chain := chain\<rparr> in
           if length chain > maxDepth then s'\<lparr>an_current := None\<rparr>
           else case map_of index current of
             None \<Rightarrow> s'\<lparr>an_current := None\<rparr>
           | Some node \<Rightarrow>
               if parent_id node = [] then s'\<lparr>an_current := None\<rparr>
               else case map_of index (parent_id node) of
                 None \<Rightarrow> s'\<lparr>an_current := Some (parent_id node)\<rparr>
               | Some parentNode \<Rightarrow>
                   if isRevocationBarriered parse now parentNode
                   then s'\<lparr>an_chain := chain @ [parent_id node], an_revoked := Some (parent_id node), an_current := None\<rparr>
                   else s'\<lparr>an_current := Some (parent_id node)\<rparr>)"

definition ancestry_loop ::
  "(string \<Rightarrow> int option) \<Rightarrow> int \<Rightarrow> lineage_index \<Rightarrow> nat \<Rightarrow> string \<Rightarrow> Ancestry option" where
  "ancestry_loop parse now index maxDepth continuityId =
     while_option (\<lambda>s. an_current s \<noteq> None) (ancestry_step parse now index maxDepth)
       \<lparr>an_current = Some continuityId, an_chain = [], an_revoked = None\<rparr>"

definition auditRevocationAncestry ::
  "(string \<Rightarrow> int option) \<Rightarrow> int \<Rightarrow> string \<Rightarrow> lineage_index \<Rightarrow> nat \<Rightarrow> RevocationAncestryAudit option" where
  "auditRevocationAncestry parse now continuityId index maxDepth =
     map_option (\<lambda>s.
       (let auditPayload = JObj
              [(''ancestor_revoked'', JBool (an_revoked s \<noteq> None)), (''ancestry_chain'', JArr (map JStr (an_chain s))),
               (''continuity_id'', JStr continuityId), (''revoked_ancestor_id'', js_opt (an_revoked s))]
        in \<lparr>aa_audit_id = hashCanonical (JObj [(''audit'', auditPayload)]), aa_continuity_id = continuityId,
            aa_ancestor_revoked = (an_revoked s \<noteq> None), aa_revoked_ancestor_id = an_revoked s,
            aa_ancestry_chain = an_chain s, aa_ancestry_hash = hashCanonical auditPayload\<rparr>))
       (ancestry_loop parse now index maxDepth continuityId)"

section \<open>Replays and proofs\<close>

definition in_cascade :: "RevocationEvidence list \<Rightarrow> string \<Rightarrow> bool" where
  "in_cascade revocationRecords continuity_id \<longleftrightarrow>
     list_ex (\<lambda>r. rr_root_continuity_id r = continuity_id \<or> continuity_id \<in> set (rr_propagated_ids r)) revocationRecords"

definition validateRevokedReplayIneligibility ::
  "(string \<Rightarrow> int option) \<Rightarrow> int \<Rightarrow> RevocationReplayRecord \<Rightarrow> lineage_index \<Rightarrow> RevocationEvidence list \<Rightarrow> bool \<times> string option" where
  "validateRevokedReplayIneligibility parse now replay index revocationRecords =
     (case map_of index (rx_continuity_id replay) of
        None \<Rightarrow> (False, Some ''continuity_not_found'')
      | Some entry \<Rightarrow>
          if isRevocationBarriered parse now entry then (False, Some ''continuity_revoked_or_non_active'')
          else if in_cascade revocationRecords (rx_continuity_id replay) then (False, Some ''revocation_cascade_detected'')
          else if is_hex64 (rl_continuity_hash entry) \<and> is_hex64 (rx_continuity_hash replay) \<and>
              rl_continuity_hash entry \<noteq> rx_continuity_hash replay
            then (False, Some ''continuity_hash_mismatch'')
          else (True, None))"

definition validateRevokedProofContinuity ::
  "(string \<Rightarrow> int option) \<Rightarrow> int \<Rightarrow> RevocationProofRecord \<Rightarrow> lineage_index \<Rightarrow> RevocationEvidence list \<Rightarrow> bool \<times> string option" where
  "validateRevokedProofContinuity parse now proof index revocationRecords =
     (case map_of index (rp_continuity_id proof) of
        None \<Rightarrow> (False, Some ''proof_continuity_not_found'')
      | Some entry \<Rightarrow>
          if isRevocationBarriered parse now entry then (False, Some ''proof_continuity_revoked'')
          else if in_cascade revocationRecords (rp_continuity_id proof) then (False, Some ''proof_continuity_in_revocation_cascade'')
          else (True, None))"

section \<open>Convergence of the views\<close>

text \<open>The last entry of an id wins; its place is that of the first.\<close>

fun merge_loop :: "'a entry_map \<Rightarrow> 'a RevocationLineageEntry_scheme list \<Rightarrow> 'a entry_map" where
  "merge_loop index [] = index"
| "merge_loop index (entry # entries) = merge_loop (AList.update (rl_continuity_id entry) entry index) entries"

definition merge_entries :: "RevocationRegistryView list \<Rightarrow> lineage_index" where
  "merge_entries views = merge_loop [] (concat (map rv_entries views))"

fun count_loop :: "(string \<times> nat) list \<Rightarrow> string list \<Rightarrow> (string \<times> nat) list" where
  "count_loop m [] = m"
| "count_loop m (h # hs) = count_loop (AList.update h ((case map_of m h of None \<Rightarrow> 0 | Some n \<Rightarrow> n) + 1) m) hs"

fun top_loop :: "string \<times> nat \<Rightarrow> (string \<times> nat) list \<Rightarrow> string \<times> nat" where
  "top_loop t [] = t"
| "top_loop (topHash, topCount) ((h, count) # m) =
     (if count > topCount then top_loop (h, count) m else top_loop (topHash, topCount) m)"

definition null_convergence :: "string \<Rightarrow> DistributedRevocationConvergence" where
  "null_convergence propagationId =
     \<lparr>cv_convergence_id = hashCanonical (JObj [(''null_convergence'', JBool True), (''propagation_id'', JStr propagationId)]),
      cv_convergence_result = CONVERGENCE_NULL, cv_converged_count = 0, cv_diverged_count = 0,
      cv_canonical_epoch = None, cv_canonical_revocation_hash = None,
      cv_revocation_topology_hash = hashCanonical (JObj [(''null'', JBool True), (''propagation_id'', JStr propagationId)])\<rparr>"

definition verifyDistributedRevocationConvergence ::
  "(string \<Rightarrow> string \<Rightarrow> bool) \<Rightarrow> RevocationRegistryView list \<Rightarrow> string \<Rightarrow> DistributedRevocationConvergence" where
  "verifyDistributedRevocationConvergence loc views propagationId =
     (if views = [] then null_convergence propagationId
      else let (topHash, topCount) = top_loop ([], 0) (count_loop [] (map rv_registry_hash views));
               canonicalEpoch = map_option rv_registry_epoch (find (\<lambda>v. rv_registry_hash v = topHash) views);
               revocationTopologyHash = computeRevocationTopologyHash loc (map snd (merge_entries views));
               divergedCount = length views - topCount;
               convergenceResult = (if topCount = length views then CONVERGENCE_REACHED
                  else if 2 * topCount > length views then CONVERGENCE_PARTIAL else CONVERGENCE_FAILED)
           in \<lparr>cv_convergence_id = hashCanonical (JObj
                 [(''canonical_epoch'', js_opt canonicalEpoch), (''canonical_revocation_hash'', JStr topHash),
                  (''convergence_result'', JStr (convergence_string convergenceResult)),
                  (''converged_count'', js_nat topCount), (''diverged_count'', js_nat divergedCount),
                  (''propagation_id'', JStr propagationId), (''revocation_topology_hash'', JStr revocationTopologyHash)]),
               cv_convergence_result = convergenceResult, cv_converged_count = topCount, cv_diverged_count = divergedCount,
               cv_canonical_epoch = canonicalEpoch, cv_canonical_revocation_hash = Some topHash,
               cv_revocation_topology_hash = revocationTopologyHash\<rparr>)"

section \<open>Drift and repair\<close>

text \<open>
  The observations in order, without their ids; an id is the hash of the position in the list.
\<close>

definition traversal_drift :: "RevocationDescendantResult list \<Rightarrow> (RevocationDriftClass \<times> string option \<times> string) list" where
  "traversal_drift results = map (\<lambda>r.
     (if ds_failure_reason r = Some CYCLE_DETECTED then REVOCATION_LINEAGE_CYCLE else REVOCATION_DEPTH_EXCEEDED,
      Some (ds_root_continuity_id r),
      ''revocation traversal failed for root '' @ ds_root_continuity_id r @ '': '' @
        (case ds_failure_reason r of None \<Rightarrow> ''null'' | Some f \<Rightarrow> descendant_failure_string f) @
        '' at depth '' @ nat_dec (ds_depth_reached r)))
     (filter (\<lambda>r. \<not> ds_ok r) results)"

definition incomplete_drift :: "string list \<Rightarrow> (RevocationDriftClass \<times> string option \<times> string) list" where
  "incomplete_drift ids = map (\<lambda>i. (DESCENDANT_PROPAGATION_INCOMPLETE, Some i,
     ''continuity_id '' @ i @ '' is a descendant of a revoked root but remains ACTIVE; propagation is incomplete'')) ids"

definition collapse_drift :: "StaleLineageCollapse list \<Rightarrow> (RevocationDriftClass \<times> string option \<times> string) list" where
  "collapse_drift collapses = map (\<lambda>c. (STALE_LINEAGE_RESURRECTION, Some (sc_revoked_root_id c),
     ''revoked root '' @ sc_revoked_root_id c @ '' has '' @ nat_dec (length (sc_active_descendant_ids c)) @
     '' active descendant(s); stale lineage collapse required'')) collapses"

definition ancestry_drift :: "RevocationAncestryAudit list \<Rightarrow> (RevocationDriftClass \<times> string option \<times> string) list" where
  "ancestry_drift audits = map (\<lambda>a. (ANCESTOR_REVOCATION_UNRESOLVED, Some (aa_continuity_id a),
     ''continuity_id '' @ aa_continuity_id a @ '' has revoked ancestor '' @
     (case aa_revoked_ancestor_id a of None \<Rightarrow> ''null'' | Some r \<Rightarrow> r) @ ''; lineage legitimacy is invalidated''))
     (filter aa_ancestor_revoked audits)"

definition replay_drift :: "ReplayRevocationEligibility list \<Rightarrow> (RevocationDriftClass \<times> string option \<times> string) list" where
  "replay_drift es = map (\<lambda>e. (REPLAY_REVOCATION_BARRIER_VIOLATED, Some (el_continuity_id e),
     ''replay_id '' @ el_replay_id e @ '' is ineligible for continuity_id '' @ el_continuity_id e @ '': '' @
     (case el_ineligibility_reason e of None \<Rightarrow> ''null'' | Some r \<Rightarrow> r)))
     (filter (\<lambda>e. \<not> el_eligible e) es)"

definition proof_drift :: "ProofContinuityValidation list \<Rightarrow> (RevocationDriftClass \<times> string option \<times> string) list" where
  "proof_drift pvs = map (\<lambda>p. (PROOF_REVOCATION_BARRIER_VIOLATED, Some (pv_continuity_id p),
     ''proof_id '' @ pv_proof_id p @ '' has invalid continuity for continuity_id '' @ pv_continuity_id p @ '': '' @
     (case pv_invalidity_reason p of None \<Rightarrow> ''null'' | Some r \<Rightarrow> r)))
     (filter (\<lambda>p. \<not> pv_valid p) pvs)"

definition convergence_drift :: "DistributedRevocationConvergence \<Rightarrow> (RevocationDriftClass \<times> string option \<times> string) list" where
  "convergence_drift c =
     (if cv_convergence_result c \<noteq> CONVERGENCE_REACHED \<and> cv_convergence_result c \<noteq> CONVERGENCE_NULL
      then [(DISTRIBUTED_REVOCATION_DRIFT, None,
        ''distributed revocation convergence failed ('' @ convergence_string (cv_convergence_result c) @ ''): '' @
        nat_dec (cv_converged_count c) @ '' converged, '' @ nat_dec (cv_diverged_count c) @ '' diverged'')]
      else [])"

definition classifyRevocationDrift ::
  "RevocationDescendantResult list \<Rightarrow> string list \<Rightarrow> StaleLineageCollapse list \<Rightarrow> RevocationAncestryAudit list \<Rightarrow>
   ReplayRevocationEligibility list \<Rightarrow> ProofContinuityValidation list \<Rightarrow> DistributedRevocationConvergence \<Rightarrow> string \<Rightarrow>
   RevocationDriftObservation list" where
  "classifyRevocationDrift traversalResults incompleteIds staleCollapses ancestryAudits replayEligibility
       proofValidations convergence propagationId =
     (let obs = traversal_drift traversalResults @ incomplete_drift incompleteIds @ collapse_drift staleCollapses @
            ancestry_drift ancestryAudits @ replay_drift replayEligibility @ proof_drift proofValidations @
            convergence_drift convergence
      in map2 (\<lambda>(dc, affected, detail) i.
           \<lparr>ob_observation_id = hashCanonical (JObj [(''obs_index'', js_nat i), (''propagation_id'', JStr propagationId)]),
            ob_drift_class = dc, ob_affected_continuity_id = affected, ob_severity = ''fatal'', ob_detail = detail\<rparr>)
         obs [0..<length obs])"

definition js_opt_text :: "string option \<Rightarrow> string" where
  "js_opt_text x = (case x of None \<Rightarrow> ''null'' | Some s \<Rightarrow> s)"

definition with_class :: "RevocationDriftClass list \<Rightarrow> RevocationDriftObservation list \<Rightarrow> RevocationDriftObservation list" where
  "with_class cs obs = filter (\<lambda>o'. ob_drift_class o' \<in> set cs) obs"

definition repair_items ::
  "RevocationDriftObservation list \<Rightarrow> string list \<Rightarrow> StaleLineageCollapse list \<Rightarrow>
   (string option \<times> RevocationRepairClass \<times> bool \<times> string) list" where
  "repair_items driftObservations incompleteIds staleCollapses =
     map (\<lambda>o'. (ob_affected_continuity_id o', REVOCATION_PERMANENTLY_INVALID, False,
          ''revocation traversal failure ('' @ drift_class_string (ob_drift_class o') @ '') for '' @
          js_opt_text (ob_affected_continuity_id o') @ ''; lineage is permanently invalid''))
       (with_class [REVOCATION_LINEAGE_CYCLE, REVOCATION_DEPTH_EXCEEDED] driftObservations) @
     map (\<lambda>i. (Some i, PROPAGATE_REVOCATION_TO_DESCENDANTS, True,
          ''continuity_id '' @ i @ '' must receive revocation propagation from its revoked ancestor'')) incompleteIds @
     map (\<lambda>c. (Some (sc_revoked_root_id c), PROPAGATE_REVOCATION_TO_DESCENDANTS, True,
          ''revoked root '' @ sc_revoked_root_id c @ '' has '' @ nat_dec (length (sc_active_descendant_ids c)) @
          '' active descendant(s) that require collapse'')) staleCollapses @
     map (\<lambda>o'. (ob_affected_continuity_id o', INVALIDATE_STALE_REPLAY, False,
          ''replay for continuity_id '' @ js_opt_text (ob_affected_continuity_id o') @
          '' must be invalidated; revocation barrier was violated''))
       (with_class [REPLAY_REVOCATION_BARRIER_VIOLATED] driftObservations) @
     map (\<lambda>o'. (ob_affected_continuity_id o', INVALIDATE_PROOF_CONTINUITY, False,
          ''proof for continuity_id '' @ js_opt_text (ob_affected_continuity_id o') @
          '' must be invalidated; revocation barrier was violated''))
       (with_class [PROOF_REVOCATION_BARRIER_VIOLATED] driftObservations) @
     map (\<lambda>o'. (None, RECONCILE_REVOCATION_VIEWS, True,
          ''distributed revocation views are divergent; reconcile registry views to reach convergence''))
       (with_class [DISTRIBUTED_REVOCATION_DRIFT] driftObservations)"

definition computeRevocationRepairDiagnostics ::
  "RevocationDriftObservation list \<Rightarrow> string list \<Rightarrow> StaleLineageCollapse list \<Rightarrow> string \<Rightarrow> RevocationRepairDiagnostic list" where
  "computeRevocationRepairDiagnostics driftObservations incompleteIds staleCollapses propagationId =
     (let items = repair_items driftObservations incompleteIds staleCollapses
      in map2 (\<lambda>(affected, rc, repairable, detail) i.
           \<lparr>dg_diagnostic_id = hashCanonical (JObj [(''diag_index'', js_nat i), (''propagation_id'', JStr propagationId)]),
            dg_affected_continuity_id = affected, dg_repair_class = rc, dg_repairable = repairable, dg_detail = detail\<rparr>)
         items [0..<length items])"

definition buildRevocationPropagationAuditSurface ::
  "string \<Rightarrow> string \<Rightarrow> nat \<Rightarrow> nat \<Rightarrow> bool \<Rightarrow> nat \<Rightarrow> RevocationConvergenceResult \<Rightarrow> RevocationPropagationAuditSurface" where
  "buildRevocationPropagationAuditSurface propagationId revocationTopologyHash totalEntryCount revokedCount
       propagationComplete driftCount convergenceResult =
     \<lparr>au_audit_id = hashCanonical (JObj
        [(''convergence_result'', JStr (convergence_string convergenceResult)), (''drift_count'', js_nat driftCount),
         (''propagation_complete'', JBool propagationComplete), (''propagation_id'', JStr propagationId),
         (''revocation_topology_hash'', JStr revocationTopologyHash), (''revoked_count'', js_nat revokedCount),
         (''total_entry_count'', js_nat totalEntryCount)]),
      au_propagation_id = propagationId, au_revocation_topology_hash = revocationTopologyHash,
      au_total_entry_count = totalEntryCount, au_revoked_count = revokedCount,
      au_propagation_complete = propagationComplete, au_drift_count = driftCount,
      au_convergence_result = convergenceResult\<rparr>"

definition buildNullPropagation :: "string \<Rightarrow> RevocationLineagePropagation" where
  "buildNullPropagation propagationId =
     (let nullHash = hashCanonical (JObj [(''null'', JBool True), (''propagation_id'', JStr propagationId)])
      in \<lparr>rg_propagation_id = propagationId, rg_propagation_result = PROPAGATION_NULL,
          rg_revocation_topology_hash = nullHash, rg_entry_count = 0, rg_descendant_traversal_results = [],
          rg_incomplete_propagations = [], rg_stale_lineage_collapses = [], rg_chronology = [], rg_ancestry_audits = [],
          rg_replay_eligibility = [], rg_proof_continuity_validations = [], rg_convergence = null_convergence propagationId,
          rg_drift_observations = [], rg_repair_diagnostics = [],
          rg_audit_surface = buildRevocationPropagationAuditSurface propagationId nullHash 0 0 False 0 CONVERGENCE_NULL\<rparr>)"

section \<open>The report\<close>

definition read_entry :: "jsval \<Rightarrow> RevocationLineageEntry" where
  "read_entry e =
     \<lparr>rl_continuity_id = js_trim (str_field e ''continuity_id''), rl_session_id = str_field e ''session_id'',
      rl_parent_continuity_id = opt_field e ''parent_continuity_id'', rl_continuity_hash = str_field e ''continuity_hash'',
      rl_status = str_field e ''status'', rl_revoked_at = opt_field e ''revoked_at'', rl_expires_at = opt_field e ''expires_at''\<rparr>"

text \<open>\<open>None\<close>: a forbidden field was met and the report is the null report.\<close>

fun read_entries :: "jsval list \<Rightarrow> RevocationLineageEntry list option" where
  "read_entries [] = Some []"
| "read_entries (re # res) =
     (let e = safeObj re in
      if hasForbiddenField e then None
      else if js_trim (str_field e ''continuity_id'') = [] then read_entries res
      else map_option (Cons (read_entry e)) (read_entries res))"

fun read_views :: "jsval list \<Rightarrow> RevocationRegistryView list option" where
  "read_views [] = Some []"
| "read_views (rv # rvs) =
     (let v = safeObj rv in
      if hasForbiddenField v then None
      else if js_trim (str_field v ''node_id'') = [] \<or> js_trim (str_field v ''registry_epoch'') = [] \<or>
          js_trim (str_field v ''lineage_root_id'') = [] \<or> \<not> isValidSha256 (js_get v ''registry_hash'')
        then read_views rvs
      else case read_entries (js_array (js_get v ''entries'')) of
          None \<Rightarrow> None
        | Some entries \<Rightarrow> map_option (Cons
            \<lparr>rv_node_id = js_String (js_get v ''node_id''), rv_registry_epoch = js_String (js_get v ''registry_epoch''),
             rv_lineage_root_id = js_String (js_get v ''lineage_root_id''), rv_entries = entries,
             rv_registry_hash = js_String (js_get v ''registry_hash'')\<rparr>) (read_views rvs))"

fun is_nonblank_str :: "jsval \<Rightarrow> bool" where
  "is_nonblank_str (JStr s) = (js_trim s \<noteq> [])"
| "is_nonblank_str _ = False"

definition read_record :: "jsval \<Rightarrow> RevocationEvidence option" where
  "read_record rr = (let r = safeObj rr in
     if js_trim (str_field r ''revocation_id'') = [] \<or> js_trim (str_field r ''root_continuity_id'') = [] \<or>
        js_trim (str_field r ''revoked_at'') = []
     then None
     else Some \<lparr>rr_revocation_id = js_String (js_get r ''revocation_id''),
        rr_root_continuity_id = js_String (js_get r ''root_continuity_id''), rr_revoked_at = js_String (js_get r ''revoked_at''),
        rr_propagated_ids = map js_String (filter is_nonblank_str (js_array (js_get r ''propagated_ids'')))\<rparr>)"

definition read_proof :: "jsval \<Rightarrow> RevocationProofRecord option" where
  "read_proof rp = (let p = safeObj rp; proofId = js_trim (str_field p ''proof_id'');
       continuityId = js_trim (str_field p ''continuity_id'') in
     if proofId = [] \<or> continuityId = [] then None
     else Some \<lparr>rp_proof_id = proofId, rp_continuity_id = continuityId, rp_proof_hash = str_field p ''proof_hash'',
        rp_lineage_hash = str_field p ''lineage_hash''\<rparr>)"

definition read_replay :: "jsval \<Rightarrow> RevocationReplayRecord option" where
  "read_replay rr = (let r = safeObj rr; replayId = js_trim (str_field r ''replay_id'');
       continuityId = js_trim (str_field r ''continuity_id'') in
     if replayId = [] \<or> continuityId = [] then None
     else Some \<lparr>rx_replay_id = replayId, rx_continuity_id = continuityId, rx_continuity_hash = str_field r ''continuity_hash'',
        rx_lineage_hash = str_field r ''lineage_hash''\<rparr>)"

definition read_max_depth :: "jsval \<Rightarrow> nat" where
  "read_max_depth v = (case v of JNum (NInt i) \<Rightarrow> if i > 0 then nat i else SYSTEM_MAX_DESCENT_DEPTH | _ \<Rightarrow> SYSTEM_MAX_DESCENT_DEPTH)"

text \<open>The input as the report uses it.\<close>

record PropagationInput =
  pi_views :: "RevocationRegistryView list"
  pi_records :: "RevocationEvidence list"
  pi_proofs :: "RevocationProofRecord list"
  pi_replays :: "RevocationReplayRecord list"
  pi_max_depth :: nat

definition revoked_root_ids ::
  "(string \<Rightarrow> int option) \<Rightarrow> int \<Rightarrow> RevocationLineageEntry list \<Rightarrow> RevocationEvidence list \<Rightarrow> string list" where
  "revoked_root_ids parse now entries records =
     dedup_loop id [] (map rl_continuity_id (filter (isRevocationBarriered parse now) entries) @ map rr_root_continuity_id records)"

definition propagation_result_of ::
  "RevocationDescendantResult list \<Rightarrow> bool \<Rightarrow> StaleLineageCollapse list \<Rightarrow> RevocationRegistryView list \<Rightarrow>
   DistributedRevocationConvergence \<Rightarrow> RevocationPropagationResult" where
  "propagation_result_of results complete staleCollapses views convergence =
     (if list_ex (\<lambda>r. ds_failure_reason r = Some CYCLE_DETECTED) results \<or>
         list_ex (\<lambda>r. ds_failure_reason r = Some DEPTH_EXCEEDED) results then PROPAGATION_COLLAPSED
      else if \<not> complete then PROPAGATION_INCOMPLETE
      else if length staleCollapses > 0 then PROPAGATION_STALE
      else if length views > 1 \<and> cv_convergence_result convergence \<noteq> CONVERGENCE_REACHED then PROPAGATION_CONVERGENCE_FAILED
      else PROPAGATION_COMPLETE)"

definition propagation_report ::
  "(string \<Rightarrow> int option) \<Rightarrow> int \<Rightarrow> (string \<Rightarrow> string \<Rightarrow> bool) \<Rightarrow> string \<Rightarrow> PropagationInput \<Rightarrow>
   RevocationLineagePropagation option" where
  "propagation_report parse now loc propagationId inp =
     (let views = pi_views inp; index = merge_entries views; allEntries = map snd index;
          records = pi_records inp; maxDepth = pi_max_depth inp;
          revocationTopologyHash = computeRevocationTopologyHash loc allEntries;
          roots = revoked_root_ids parse now allEntries records
      in case (those (map (\<lambda>rootId. traverseDescendantRevocation rootId index maxDepth) roots),
               enforceStaleLineageCollapse parse now allEntries index,
               those (map (\<lambda>e. auditRevocationAncestry parse now (rl_continuity_id e) index maxDepth) allEntries)) of
          (Some results, Some staleCollapses, Some audits) \<Rightarrow>
            (let (complete, incompleteIds) = verifyRevocationPropagationCompleteness results records index;
                 proofs = map (\<lambda>p. case validateRevokedProofContinuity parse now p index records of (valid, reason) \<Rightarrow>
                   \<lparr>pv_proof_id = rp_proof_id p, pv_continuity_id = rp_continuity_id p, pv_valid = valid,
                    pv_invalidity_reason = reason, pv_proof_hash = rp_proof_hash p\<rparr>) (pi_proofs inp);
                 replays = map (\<lambda>r. case validateRevokedReplayIneligibility parse now r index records of (eligible, reason) \<Rightarrow>
                   \<lparr>el_replay_id = rx_replay_id r, el_continuity_id = rx_continuity_id r, el_eligible = eligible,
                    el_ineligibility_reason = reason\<rparr>) (pi_replays inp);
                 convergence = verifyDistributedRevocationConvergence loc views propagationId;
                 drift = classifyRevocationDrift results incompleteIds staleCollapses audits replays proofs convergence propagationId
             in Some
               \<lparr>rg_propagation_id = propagationId,
                rg_propagation_result = propagation_result_of results complete staleCollapses views convergence,
                rg_revocation_topology_hash = revocationTopologyHash, rg_entry_count = length allEntries,
                rg_descendant_traversal_results = results, rg_incomplete_propagations = incompleteIds,
                rg_stale_lineage_collapses = staleCollapses, rg_chronology = reconstructRevocationChronology loc records,
                rg_ancestry_audits = audits, rg_replay_eligibility = replays, rg_proof_continuity_validations = proofs,
                rg_convergence = convergence, rg_drift_observations = drift,
                rg_repair_diagnostics = computeRevocationRepairDiagnostics drift incompleteIds staleCollapses propagationId,
                rg_audit_surface = buildRevocationPropagationAuditSurface propagationId revocationTopologyHash
                  (length allEntries) (length roots) complete (length drift) (cv_convergence_result convergence)\<rparr>)
        | _ \<Rightarrow> None)"

text \<open>
  The guards in front of the report: the propagation id, and the input unless the answer is the
  null report.
\<close>

definition read_propagation :: "jsval \<Rightarrow> string \<times> PropagationInput option" where
  "read_propagation input = (let safeInput = safeObj input in
     if \<not> is_nonblank_str (js_get safeInput ''propagation_id'') then (''unknown'', None)
     else let propagationId = js_trim (js_String (js_get safeInput ''propagation_id'')) in
       if js_get safeInput ''evidence_only'' \<noteq> JBool True then (propagationId, None)
       else if hasForbiddenField safeInput then (propagationId, None)
       else if js_array (js_get safeInput ''registry_views'') = [] then (propagationId, None)
       else case read_views (js_array (js_get safeInput ''registry_views'')) of
           None \<Rightarrow> (propagationId, None)
         | Some views \<Rightarrow>
             if views = [] \<or> merge_entries views = [] then (propagationId, None)
             else (propagationId, Some
               \<lparr>pi_views = views,
                pi_records = List.map_filter read_record (js_array (js_get safeInput ''revocation_records'')),
                pi_proofs = List.map_filter read_proof (js_array (js_get safeInput ''proof_records'')),
                pi_replays = List.map_filter read_replay (js_array (js_get safeInput ''replay_records'')),
                pi_max_depth = read_max_depth (js_get safeInput ''max_descent_depth'')\<rparr>))"

definition propagateRevocationLineage ::
  "(string \<Rightarrow> int option) \<Rightarrow> int \<Rightarrow> (string \<Rightarrow> string \<Rightarrow> bool) \<Rightarrow> jsval \<Rightarrow> RevocationLineagePropagation option" where
  "propagateRevocationLineage parse now loc input = (case read_propagation input of
       (propagationId, None) \<Rightarrow> Some (buildNullPropagation propagationId)
     | (propagationId, Some inp) \<Rightarrow> propagation_report parse now loc propagationId inp)"

end
