(* ===== verification/Revocation_Facts.thy ===== *)
theory Revocation_Facts
  imports Revocation
begin

text \<open>
  Facts on \<^verbatim>\<open>src/recursive-revocation-propagation.ts\<close>: the loops end, the traversals compute
  ancestors and descendants exactly, and what the result of the report guarantees. The graph
  algorithms are verified once over the interface \<open>forest\<close>, which the merged registry meets.
\<close>

section \<open>The registry is a forest\<close>

definition parent_in :: "'a entry_map \<Rightarrow> string \<Rightarrow> string option" where
  "parent_in index c = (case map_of index c of
     None \<Rightarrow> None | Some e \<Rightarrow> if parent_id e = [] then None else Some (parent_id e))"

definition wf_index :: "'a entry_map \<Rightarrow> bool" where
  "wf_index index \<longleftrightarrow> distinct (map fst index) \<and> list_all (\<lambda>(k, e). k = rl_continuity_id e) index"

lemma wf_update: "wf_index index \<Longrightarrow> wf_index (AList.update (rl_continuity_id e) e index)"
proof -
  assume wf: "wf_index index"
  have "distinct (map fst (AList.update (rl_continuity_id e) e index))"
    using wf by (simp add: wf_index_def distinct_update)
  moreover have "list_all (\<lambda>(k, e). k = rl_continuity_id e) (AList.update (rl_continuity_id e) e xs)"
    if "list_all (\<lambda>(k, e). k = rl_continuity_id e) xs" for xs
    using that by (induction xs) auto
  ultimately show ?thesis using wf by (simp add: wf_index_def)
qed

lemma wf_merge_loop: "wf_index index \<Longrightarrow> wf_index (merge_loop index es)"
  by (induction index es rule: merge_loop.induct) (simp_all add: wf_update)

lemma wf_merge [simp]: "wf_index (merge_entries views)"
  unfolding merge_entries_def by (rule wf_merge_loop) (simp add: wf_index_def)

lemma get_kids_update: "get_kids (AList.update k v m) x = (if x = k then v else get_kids m x)"
  by (simp add: get_kids_def update_conv')

lemma get_kids_build_loop:
  "x \<noteq> [] \<Longrightarrow> get_kids (buildChildrenMap_loop m es) x =
     get_kids m x @ map rl_continuity_id (filter (\<lambda>e. parent_id e = x) es)"
  by (induction m es rule: buildChildrenMap_loop.induct) (auto simp: get_kids_update)

lemma get_kids_build_blank: "get_kids (buildChildrenMap_loop m es) [] = get_kids m []"
  by (induction m es rule: buildChildrenMap_loop.induct) (auto simp: get_kids_update)

lemma get_kids_build:
  "get_kids (buildChildrenMap es) x = (if x = [] then [] else map rl_continuity_id (filter (\<lambda>e. parent_id e = x) es))"
  using get_kids_build_blank [of "[]" es] get_kids_build_loop [of x "[]" es]
  by (auto simp: buildChildrenMap_def get_kids_def)

lemma wf_map_of: "wf_index index \<Longrightarrow> map_of index c = Some e \<longleftrightarrow> e \<in> snd ` set index \<and> rl_continuity_id e = c"
  by (force simp: wf_index_def list_all_iff)

lemma wf_ids: "wf_index index \<Longrightarrow> map rl_continuity_id (map snd index) = map fst index"
  by (auto simp: wf_index_def list_all_iff)

lemma forest_index:
  assumes wf: "wf_index index"
  shows "forest (get_kids (buildChildrenMap (map snd index))) (parent_in index)"
proof
  fix c x
  show "c \<in> set (get_kids (buildChildrenMap (map snd index)) x) \<longleftrightarrow> parent_in index c = Some x"
  proof -
    have "c \<in> set (get_kids (buildChildrenMap (map snd index)) x) \<longleftrightarrow>
        x \<noteq> [] \<and> (\<exists>e. (e \<in> snd ` set index \<and> rl_continuity_id e = c) \<and> parent_id e = x)"
      by (auto simp: get_kids_build)
    also have "\<dots> \<longleftrightarrow> x \<noteq> [] \<and> (\<exists>e. map_of index c = Some e \<and> parent_id e = x)"
      by (simp only: wf_map_of [OF wf])
    finally show ?thesis by (auto simp: parent_in_def split: option.split)
  qed
  have "distinct (map rl_continuity_id (filter P (map snd index)))" for P
    using wf wf_ids [OF wf] by (metis distinct_map_filter wf_index_def)
  then show "distinct (get_kids (buildChildrenMap (map snd index)) x)" by (simp add: get_kids_build)
next
  have "dom (parent_in index) \<subseteq> fst ` set index"
    by (auto simp: parent_in_def split: option.splits dest: map_of_SomeD) (metis fst_conv image_eqI map_of_SomeD)
  then show "finite (dom (parent_in index))" by (rule finite_subset) simp
qed

interpretation registry_forest: forest "get_kids (buildChildrenMap (map snd (merge_entries views)))" "parent_in (merge_entries views)"
  for views
  by (rule forest_index) simp

section \<open>One step of the traversals\<close>

lemma fold_visit:
  assumes "distinct cs"
  shows "foldl (visit_child M d) s cs =
    s\<lparr>tr_visited := tr_visited s @ (if d < M then filter (\<lambda>c. c \<notin> set (tr_visited s)) cs else []),
      tr_descendants := tr_descendants s @ (if d < M then filter (\<lambda>c. c \<notin> set (tr_visited s)) cs else []),
      tr_queue := tr_queue s @ map (\<lambda>c. (c, d + 1)) (if d < M then filter (\<lambda>c. c \<notin> set (tr_visited s)) cs else []),
      tr_cycle := tr_cycle s \<or> list_ex (\<lambda>c. c \<in> set (tr_visited s)) cs,
      tr_exceeded := tr_exceeded s \<or> (\<not> d < M \<and> list_ex (\<lambda>c. c \<notin> set (tr_visited s)) cs)\<rparr>"
  using assms
proof (induction cs arbitrary: s)
  case (Cons c cs)
  have "filter (\<lambda>a. a \<noteq> c \<and> a \<notin> set (tr_visited s)) cs = filter (\<lambda>a. a \<notin> set (tr_visited s)) cs"
    using Cons.prems by (intro filter_cong) auto
  moreover have "list_ex (\<lambda>a. a = c \<or> a \<in> set (tr_visited s)) cs = list_ex (\<lambda>a. a \<in> set (tr_visited s)) cs"
    using Cons.prems by (auto simp: list_ex_iff)
  ultimately show ?case
    using Cons by (simp add: visit_child_def)
qed simp

definition active_in :: "lineage_index \<Rightarrow> string \<Rightarrow> bool" where
  "active_in index c = (case map_of index c of None \<Rightarrow> False | Some e \<Rightarrow> still_active e)"

lemma fold_collapse:
  assumes "distinct cs"
  shows "foldl (collapse_child index) s cs =
    s\<lparr>cl_visited := cl_visited s @ filter (\<lambda>c. c \<notin> set (cl_visited s)) cs,
      cl_active := cl_active s @ filter (active_in index)
         (filter (\<lambda>c. c \<notin> set (cl_visited s)) cs),
      cl_queue := cl_queue s @ filter (\<lambda>c. c \<notin> set (cl_visited s)) cs\<rparr>"
  using assms
proof (induction cs arbitrary: s)
  case (Cons c cs)
  have "filter (\<lambda>a. a \<noteq> c \<and> a \<notin> set (cl_visited s)) cs = filter (\<lambda>a. a \<notin> set (cl_visited s)) cs"
    using Cons.prems by (intro filter_cong) auto
  moreover have "collapse_child index s c = (if c \<in> set (cl_visited s) then s
      else s\<lparr>cl_visited := cl_visited s @ [c], cl_active := cl_active s @ filter (active_in index) [c], cl_queue := cl_queue s @ [c]\<rparr>)"
    by (simp add: collapse_child_def active_in_def split: option.split)
  moreover have "filter (\<lambda>a. a \<noteq> c \<and> a \<notin> set (cl_visited s) \<and> active_in index a) cs =
      filter (\<lambda>a. a \<notin> set (cl_visited s) \<and> active_in index a) cs"
    using Cons.prems by (intro filter_cong) auto
  ultimately show ?case
    using Cons by (simp add: conj_ac)
qed simp

section \<open>The traversal of the descendants\<close>

text \<open>
  The entries that have left the queue are done: their children were examined. The invariant
  ties the visited entries to their distance from the root.
\<close>

definition tr_done :: "Traversal \<Rightarrow> string set" where
  "tr_done s = set (tr_visited s) - fst ` set (tr_queue s)"

definition traversal_inv :: "(string \<Rightarrow> string option) \<Rightarrow> nat \<Rightarrow> string \<Rightarrow> Traversal \<Rightarrow> bool" where
  "traversal_inv par M root s \<longleftrightarrow>
     tr_visited s = root # tr_descendants s \<and> distinct (tr_visited s) \<and>
     distinct (map fst (tr_queue s)) \<and> fst ` set (tr_queue s) \<subseteq> set (tr_visited s) \<and>
     (\<forall>(x, d)\<in>set (tr_queue s). level par root d x \<and> d \<le> M) \<and>
     (\<forall>x\<in>set (tr_visited s). \<exists>d\<le>M. level par root d x) \<and>
     (\<forall>x\<in>tr_done s. \<forall>d c. level par root d x \<and> par c = Some x \<and> d < M \<longrightarrow> c \<in> set (tr_visited s)) \<and>
     (\<forall>c\<in>set (tr_descendants s). \<exists>x\<in>tr_done s. par c = Some x) \<and>
     (tr_cycle s \<longleftrightarrow> (\<exists>x\<in>tr_done s. par root = Some x)) \<and>
     (tr_exceeded s \<longleftrightarrow> (\<exists>x\<in>tr_done s. level par root M x \<and> (\<exists>c. par c = Some x \<and> c \<noteq> root)))"

context forest
begin

lemma traversal_step_eq:
  assumes "tr_queue s = (x, d) # q"
  shows "traversal_step kids M s =
    s\<lparr>tr_visited := tr_visited s @ (if d < M then filter (\<lambda>c. c \<notin> set (tr_visited s)) (kids x) else []),
      tr_descendants := tr_descendants s @ (if d < M then filter (\<lambda>c. c \<notin> set (tr_visited s)) (kids x) else []),
      tr_queue := q @ map (\<lambda>c. (c, d + 1)) (if d < M then filter (\<lambda>c. c \<notin> set (tr_visited s)) (kids x) else []),
      tr_depth_reached := (if d > tr_depth_reached s then d else tr_depth_reached s),
      tr_cycle := tr_cycle s \<or> list_ex (\<lambda>c. c \<in> set (tr_visited s)) (kids x),
      tr_exceeded := tr_exceeded s \<or> (\<not> d < M \<and> list_ex (\<lambda>c. c \<notin> set (tr_visited s)) (kids x))\<rparr>"
  using assms by (simp add: traversal_step_def fold_visit [OF distinct_kids])

lemma traversal_step_inv:
  assumes inv: "traversal_inv par M root s" and "tr_queue s \<noteq> []"
  shows "traversal_inv par M root (traversal_step kids M s)"
proof -
  obtain x d q where q: "tr_queue s = (x, d) # q" using assms(2) by (cases "tr_queue s") auto
  define new where "new = (if d < M then filter (\<lambda>c. c \<notin> set (tr_visited s)) (kids x) else [])"
  define t where "t = traversal_step kids M s"
  have t: "tr_visited t = tr_visited s @ new" "tr_descendants t = tr_descendants s @ new"
      "tr_queue t = q @ map (\<lambda>c. (c, d + 1)) new"
      "tr_cycle t \<longleftrightarrow> tr_cycle s \<or> list_ex (\<lambda>c. c \<in> set (tr_visited s)) (kids x)"
      "tr_exceeded t \<longleftrightarrow> tr_exceeded s \<or> (\<not> d < M \<and> list_ex (\<lambda>c. c \<notin> set (tr_visited s)) (kids x))"
    by (simp_all add: t_def traversal_step_eq [OF q] new_def)
  have vis: "tr_visited s = root # tr_descendants s" and dvis: "distinct (tr_visited s)"
    and dq: "distinct (map fst (tr_queue s))" and sub: "fst ` set (tr_queue s) \<subseteq> set (tr_visited s)"
    and lev: "\<And>x d. (x, d) \<in> set (tr_queue s) \<Longrightarrow> level par root d x \<and> d \<le> M"
    and viss: "\<And>x. x \<in> set (tr_visited s) \<Longrightarrow> \<exists>d\<le>M. level par root d x"
    and closed: "\<And>x d c. x \<in> tr_done s \<Longrightarrow> level par root d x \<Longrightarrow> par c = Some x \<Longrightarrow> d < M \<Longrightarrow> c \<in> set (tr_visited s)"
    and parents: "\<And>c. c \<in> set (tr_descendants s) \<Longrightarrow> \<exists>x\<in>tr_done s. par c = Some x"
    and cyc: "tr_cycle s \<longleftrightarrow> (\<exists>x\<in>tr_done s. par root = Some x)"
    and exc: "tr_exceeded s \<longleftrightarrow> (\<exists>x\<in>tr_done s. level par root M x \<and> (\<exists>c. par c = Some x \<and> c \<noteq> root))"
    using inv unfolding traversal_inv_def by blast+
  have x: "level par root d x" "d \<le> M" "x \<in> set (tr_visited s)" "x \<notin> tr_done s"
    using lev [of x d] sub q by (auto simp: tr_done_def)
  have new: "set new = (if d < M then {c. par c = Some x} - set (tr_visited s) else {})" "distinct new"
    using distinct_kids by (auto simp: new_def kids_iff)
  have fin: "tr_done t = insert x (tr_done s)"
    using x(3) dq sub new(1) q by (auto simp: tr_done_def t image_Un image_image)
  have fresh: "c = root" if "par c = Some x" "c \<in> set (tr_visited s)" for c
    using that x(4) vis parents [of c] by auto
  have newlev: "level par root (Suc d) c" if "c \<in> set new" for c
    using that new(1) vis x(1) level_child [of par c x root d] by (auto split: if_splits)
  show ?thesis
    unfolding t_def [symmetric] traversal_inv_def
  proof (intro conjI ballI allI impI)
    show "tr_visited t = root # tr_descendants t" using vis by (simp add: t)
    show "distinct (tr_visited t)" using dvis new by (auto simp: t)
    show "distinct (map fst (tr_queue t))" using dq sub new q by (auto simp: t comp_def)
    show "fst ` set (tr_queue t) \<subseteq> set (tr_visited t)" using sub q by (auto simp: t)
    show "case y of (x, d) \<Rightarrow> level par root d x \<and> d \<le> M" if "y \<in> set (tr_queue t)" for y
      using that lev q newlev new(1) by (auto simp: t split: if_splits)
    show "\<exists>d\<le>M. level par root d y" if "y \<in> set (tr_visited t)" for y
      using that viss newlev new(1) by (auto simp: t split: if_splits) (meson Suc_leI)
    show "c \<in> set (tr_visited t)" if "y \<in> tr_done t" "level par root e y \<and> par c = Some y \<and> e < M" for y e c
      using that closed [of y e c] level_unique [OF x(1), of e] new(1) by (auto simp: fin t)
    show "\<exists>y\<in>tr_done t. par c = Some y" if "c \<in> set (tr_descendants t)" for c
      using that parents new(1) by (auto simp: fin t split: if_splits)
    have "root \<in> set (tr_visited s)" using vis by simp
    then have "list_ex (\<lambda>c. c \<in> set (tr_visited s)) (kids x) \<longleftrightarrow> par root = Some x"
      unfolding list_ex_iff using fresh kids_iff by blast
    then show "tr_cycle t \<longleftrightarrow> (\<exists>y\<in>tr_done t. par root = Some y)" using cyc by (auto simp: fin t)
    have "list_ex (\<lambda>c. c \<notin> set (tr_visited s)) (kids x) \<longleftrightarrow> (\<exists>c. par c = Some x \<and> c \<noteq> root)"
      unfolding list_ex_iff using fresh kids_iff \<open>root \<in> set (tr_visited s)\<close> by blast
    moreover have "level par root M x \<longleftrightarrow> \<not> d < M" using x(1,2) level_unique by force
    ultimately show "tr_exceeded t \<longleftrightarrow> (\<exists>y\<in>tr_done t. level par root M y \<and> (\<exists>c. par c = Some y \<and> c \<noteq> root))"
      using exc by (auto simp: fin t)
  qed
qed

text \<open>Every round takes one entry off the queue, and what enters the queue was not visited before.\<close>

lemma new_entries_measure:
  assumes "distinct new" "set new \<subseteq> dom par - V"
  shows "length new + card (dom par - (V \<union> set new)) = card (dom par - V)"
proof -
  have "card (dom par - V - set new) + card (set new) = card (dom par - V)"
    using assms(2) finite_dom by (metis card_Diff_subset card_mono finite_Diff finite_set le_add_diff_inverse2)
  moreover have "dom par - (V \<union> set new) = dom par - V - set new" by auto
  ultimately show ?thesis using assms(1) by (simp add: distinct_card)
qed

lemma traversal_step_measure:
  assumes "tr_queue s \<noteq> []"
  shows "length (tr_queue (traversal_step kids M s)) + card (dom par - set (tr_visited (traversal_step kids M s)))
     < length (tr_queue s) + card (dom par - set (tr_visited s))"
proof -
  obtain x d q where q: "tr_queue s = (x, d) # q" using assms by (cases "tr_queue s") auto
  define new where "new = (if d < M then filter (\<lambda>c. c \<notin> set (tr_visited s)) (kids x) else [])"
  have "distinct new" "set new \<subseteq> dom par - set (tr_visited s)"
    using distinct_kids kids_dom by (auto simp: new_def)
  from new_entries_measure [OF this] show ?thesis
    using q by (simp add: traversal_step_eq [OF q] new_def [symmetric])
qed

lemma traversal_ends: "\<exists>s. traversal_loop kids M root = Some s"
  unfolding traversal_loop_def
  by (rule measure_while_option_Some [where P = "\<lambda>_. True"]) (use traversal_step_measure in auto)

lemma traversal_result:
  assumes "traversal_loop kids M root = Some s"
  shows "traversal_inv par M root s" "tr_queue s = []"
proof -
  have "level par root 0 root" by simp
  then have "traversal_inv par M root \<lparr>tr_queue = [(root, 0)], tr_visited = [root], tr_descendants = [],
      tr_depth_reached = 0, tr_cycle = False, tr_exceeded = False\<rparr>"
    unfolding traversal_inv_def tr_done_def by (auto simp del: level_0)
  then show "traversal_inv par M root s"
    using while_option_rule [OF _ assms [unfolded traversal_loop_def], of "traversal_inv par M root"]
      traversal_step_inv by blast
  show "tr_queue s = []" using while_option_stop [OF assms [unfolded traversal_loop_def]] by simp
qed

text \<open>At the end every visited entry is done.\<close>

lemma traversal_visits:
  assumes inv: "traversal_inv par M root s" and "tr_queue s = []"
  shows "level par root n x \<Longrightarrow> n \<le> M \<Longrightarrow> x \<in> set (tr_visited s)"
proof (induction n arbitrary: x)
  case 0
  then show ?case using inv by (simp add: traversal_inv_def)
next
  case (Suc n)
  obtain p where p: "par x = Some p" "level par root n p" using level_Suc_parent [OF Suc.prems(1)] by blast
  then have "p \<in> tr_done s" using Suc.IH [of p] Suc.prems(2) assms(2) by (simp add: tr_done_def)
  with p Suc.prems(2) inv show ?case unfolding traversal_inv_def by (meson Suc_le_lessD)
qed

lemma traversal_descendants:
  assumes inv: "traversal_inv par M root s" and "tr_queue s = []"
  shows "set (tr_descendants s) = {y. y \<noteq> root \<and> (\<exists>n\<le>M. anc par n y = Some root)}"
    and "tr_cycle s \<longleftrightarrow> (\<exists>n\<le>M. anc par (Suc n) root = Some root)"
    and "tr_exceeded s \<longleftrightarrow> (\<exists>y. level par root (Suc M) y)"
proof -
  have fin: "tr_done s = set (tr_visited s)" using assms(2) by (simp add: tr_done_def)
  have vis: "set (tr_visited s) = {y. \<exists>n\<le>M. anc par n y = Some root}"
  proof -
    have "\<exists>n\<le>M. anc par n y = Some root" if "y \<in> set (tr_visited s)" for y
      using that inv unfolding traversal_inv_def level_def by blast
    moreover have "y \<in> set (tr_visited s)" if "n \<le> M" "anc par n y = Some root" for n y
      using traversal_visits [OF assms] level_exists [OF that(2)] that(1) by (meson le_trans)
    ultimately show ?thesis by blast
  qed
  have *: "tr_visited s = root # tr_descendants s" "distinct (tr_visited s)"
    "tr_cycle s \<longleftrightarrow> (\<exists>x\<in>set (tr_visited s). par root = Some x)"
    "tr_exceeded s \<longleftrightarrow> (\<exists>x\<in>set (tr_visited s). level par root M x \<and> (\<exists>c. par c = Some x \<and> c \<noteq> root))"
    using inv fin unfolding traversal_inv_def by auto
  show "set (tr_descendants s) = {y. y \<noteq> root \<and> (\<exists>n\<le>M. anc par n y = Some root)}"
    using vis *(1,2) by auto
  show "tr_cycle s \<longleftrightarrow> (\<exists>n\<le>M. anc par (Suc n) root = Some root)"
    unfolding *(3) vis anc_Suc_left by (cases "par root") auto
  have "(\<exists>x\<in>set (tr_visited s). level par root M x \<and> (\<exists>c. par c = Some x \<and> c \<noteq> root)) \<longleftrightarrow> (\<exists>y. level par root (Suc M) y)"
    using level_Suc_parent level_child traversal_visits [OF assms] by (metis order_refl)
  then show "tr_exceeded s \<longleftrightarrow> (\<exists>y. level par root (Suc M) y)" unfolding *(4) .
qed

lemma no_deeper_level: "\<not> (\<exists>y. level par root (Suc M) y) \<Longrightarrow> level par root n y \<Longrightarrow> n \<le> M"
proof (induction n arbitrary: y)
  case (Suc n)
  obtain p where "level par root n p" using level_Suc_parent [OF Suc.prems(2)] by blast
  then have "n \<le> M" using Suc.IH Suc.prems(1) by blast
  with Suc.prems show ?case by (metis Suc_leI le_neq_implies_less)
qed simp

lemma traversal_ok:
  assumes "traversal_inv par M root s" and "tr_queue s = []"
  shows "\<not> tr_cycle s \<and> \<not> tr_exceeded s \<longleftrightarrow> set (tr_descendants s) = Collect (descends par root)"
proof
  assume ok: "\<not> tr_cycle s \<and> \<not> tr_exceeded s"
  then have deep: "n \<le> M" if "level par root n y" for n y
    using no_deeper_level [of root M n y] traversal_descendants(3) [OF assms] that by blast
  have "\<not> descends par root root"
  proof
    assume "descends par root root"
    then obtain n p where "par root = Some p" "anc par n p = Some root"
      by (cases "par root") (auto simp: descends_def anc_Suc_left simp del: anc.simps(2))
    then obtain m where "level par root m p" "par root = Some p"
      using level_exists [where par = par and n = n and x = p and r = root] by blast
    then have "m \<le> M" "anc par (Suc m) root = Some root"
      using deep by (auto simp: level_def anc_Suc_left simp del: anc.simps(2))
    with ok traversal_descendants(2) [OF assms] show False by blast
  qed
  moreover have "\<exists>n\<le>M. anc par n y = Some root" if "descends par root y" "y \<noteq> root" for y
    using descends_level [OF that] deep unfolding level_def by blast
  moreover have "descends par root y" if "y \<noteq> root" "anc par n y = Some root" for n y
    using that by (cases n) (auto simp: descends_def simp del: anc.simps(2))
  ultimately show "set (tr_descendants s) = Collect (descends par root)"
    unfolding traversal_descendants(1) [OF assms] by blast
next
  assume eq: "set (tr_descendants s) = Collect (descends par root)"
  have "\<not> descends par root root" using eq traversal_descendants(1) [OF assms] by blast
  then have "\<not> tr_cycle s" unfolding traversal_descendants(2) [OF assms] descends_def by blast
  moreover have False if "level par root (Suc M) y" for y
  proof -
    have "descends par root y" using that unfolding level_def descends_def by blast
    then obtain n where "n \<le> M" "anc par n y = Some root" using eq traversal_descendants(1) [OF assms] by blast
    with that show False by (auto simp: level_def simp del: anc.simps(2))
  qed
  ultimately show "\<not> tr_cycle s \<and> \<not> tr_exceeded s" unfolding traversal_descendants(3) [OF assms] by blast
qed

end

section \<open>The collapse of stale lineage\<close>

definition collapse_inv :: "(string \<Rightarrow> string option) \<Rightarrow> lineage_index \<Rightarrow> string \<Rightarrow> Collapse \<Rightarrow> bool" where
  "collapse_inv par index root s \<longleftrightarrow>
     (\<exists>ds. cl_visited s = root # ds \<and> distinct (root # ds) \<and> cl_active s = filter (active_in index) ds \<and>
        (\<forall>y\<in>set ds. descends par root y)) \<and>
     (\<forall>x\<in>set (cl_visited s) - set (cl_queue s). \<forall>c. par c = Some x \<longrightarrow> c \<in> set (cl_visited s)) \<and>
     set (cl_queue s) \<subseteq> set (cl_visited s)"

lemma descends_child: "par c = Some x \<Longrightarrow> x = root \<or> descends par root x \<Longrightarrow> descends par root c"
proof -
  assume "par c = Some x" "x = root \<or> descends par root x"
  then obtain n where "anc par n x = Some root" unfolding descends_def by (metis anc.simps(1))
  then have "anc par (Suc n) c = Some root" using \<open>par c = Some x\<close> by (simp add: anc_Suc_left del: anc.simps(2))
  then show ?thesis unfolding descends_def ..
qed

context forest
begin

lemma collapse_step_eq:
  assumes "cl_queue s = x # q"
  shows "collapse_step kids index s =
    s\<lparr>cl_visited := cl_visited s @ filter (\<lambda>c. c \<notin> set (cl_visited s)) (kids x),
      cl_active := cl_active s @ filter (active_in index) (filter (\<lambda>c. c \<notin> set (cl_visited s)) (kids x)),
      cl_queue := q @ filter (\<lambda>c. c \<notin> set (cl_visited s)) (kids x)\<rparr>"
  using assms by (simp add: collapse_step_def fold_collapse [OF distinct_kids])

lemma collapse_step_inv:
  assumes inv: "collapse_inv par index root s" and "cl_queue s \<noteq> []"
  shows "collapse_inv par index root (collapse_step kids index s)"
proof -
  obtain x q where q: "cl_queue s = x # q" using assms(2) by (cases "cl_queue s") auto
  define new where "new = filter (\<lambda>c. c \<notin> set (cl_visited s)) (kids x)"
  define t where "t = collapse_step kids index s"
  have t: "cl_visited t = cl_visited s @ new" "cl_queue t = q @ new" "cl_active t = cl_active s @ filter (active_in index) new"
    by (simp_all add: t_def collapse_step_eq [OF q] new_def)
  obtain ds where ds: "cl_visited s = root # ds" "distinct (root # ds)" "cl_active s = filter (active_in index) ds"
      "\<And>y. y \<in> set ds \<Longrightarrow> descends par root y"
    using inv unfolding collapse_inv_def by blast
  have closed: "\<And>x c. x \<in> set (cl_visited s) \<Longrightarrow> x \<notin> set (cl_queue s) \<Longrightarrow> par c = Some x \<Longrightarrow> c \<in> set (cl_visited s)"
    and sub: "set (cl_queue s) \<subseteq> set (cl_visited s)"
    using inv unfolding collapse_inv_def by blast+
  have new: "set new = {c. par c = Some x} - set (cl_visited s)" "distinct new"
    using distinct_kids by (auto simp: new_def kids_iff)
  have "x = root \<or> descends par root x" using sub q ds(1,4) by auto
  then have dn: "descends par root c" if "c \<in> set new" for c
    using that new(1) descends_child [where par = par and c = c and x = x] by simp
  have "\<forall>y\<in>set (ds @ new). descends par root y" using ds(4) dn by auto
  moreover have "cl_visited t = root # (ds @ new)" "cl_active t = filter (active_in index) (ds @ new)"
    using ds by (simp_all add: t)
  moreover have "distinct (root # ds @ new)" using ds(1,2) new by auto
  moreover have "set (cl_queue t) \<subseteq> set (cl_visited t)" using sub q by (auto simp: t)
  moreover have "c \<in> set (cl_visited t)" if "y \<in> set (cl_visited t)" "y \<notin> set (cl_queue t)" "par c = Some y" for y c
    using that closed [of y c] new(1) q by (cases "y = x") (auto simp: t)
  ultimately show ?thesis unfolding t_def [symmetric] collapse_inv_def by blast
qed

lemma collapse_step_measure:
  assumes "cl_queue s \<noteq> []"
  shows "length (cl_queue (collapse_step kids index s)) + card (dom par - set (cl_visited (collapse_step kids index s)))
     < length (cl_queue s) + card (dom par - set (cl_visited s))"
proof -
  obtain x q where q: "cl_queue s = x # q" using assms by (cases "cl_queue s") auto
  define new where "new = filter (\<lambda>c. c \<notin> set (cl_visited s)) (kids x)"
  have "distinct new" "set new \<subseteq> dom par - set (cl_visited s)"
    using distinct_kids kids_dom by (auto simp: new_def)
  from new_entries_measure [OF this] show ?thesis
    using q by (simp add: collapse_step_eq [OF q] new_def [symmetric])
qed

lemma collapse_ends: "\<exists>s. collapse_loop kids index root = Some s"
  unfolding collapse_loop_def
  by (rule measure_while_option_Some [where P = "\<lambda>_. True"]) (use collapse_step_measure in auto)

lemma collapse_result:
  assumes "collapse_loop kids index root = Some s"
  shows "distinct (cl_active s)"
    "set (cl_active s) = {y. y \<noteq> root \<and> descends par root y \<and> active_in index y}"
proof -
  have "collapse_inv par index root \<lparr>cl_queue = [root], cl_visited = [root], cl_active = []\<rparr>"
    by (simp add: collapse_inv_def)
  then have inv: "collapse_inv par index root s"
    using while_option_rule [OF _ assms [unfolded collapse_loop_def], of "collapse_inv par index root"]
      collapse_step_inv by blast
  have q: "cl_queue s = []" using while_option_stop [OF assms [unfolded collapse_loop_def]] by simp
  obtain ds where ds: "cl_visited s = root # ds" "distinct (root # ds)" "cl_active s = filter (active_in index) ds"
      "\<And>y. y \<in> set ds \<Longrightarrow> descends par root y"
    using inv unfolding collapse_inv_def by blast
  have closed: "c \<in> set (root # ds)" if "x \<in> set (root # ds)" "par c = Some x" for x c
    using inv that unfolding collapse_inv_def q ds(1) by auto
  have "y \<in> set (root # ds)" if "anc par n y = Some root" for n y
    using that
  proof (induction n arbitrary: y)
    case (Suc n)
    then obtain p where "par y = Some p" "anc par n p = Some root"
      by (cases "par y") (auto simp: anc_Suc_left simp del: anc.simps(2))
    with Suc.IH closed show ?case by blast
  qed simp
  then have "set ds = {y. y \<noteq> root \<and> descends par root y}"
    using ds(2,4) unfolding descends_def by (auto simp del: anc.simps(2))
  then show "set (cl_active s) = {y. y \<noteq> root \<and> descends par root y \<and> active_in index y}"
    by (auto simp: ds(3))
  show "distinct (cl_active s)" using ds(2,3) by simp
qed

end

section \<open>The ancestry audit\<close>

definition barred :: "(string \<Rightarrow> int option) \<Rightarrow> int \<Rightarrow> 'a entry_map \<Rightarrow> string \<Rightarrow> bool" where
  "barred parse now index c = (case map_of index c of None \<Rightarrow> False | Some e \<Rightarrow> isRevocationBarriered parse now e)"

lemma ancestry_step_eq:
  assumes "an_current s = Some c"
  shows "ancestry_step parse now index M s =
    (if c \<in> set (an_chain s) then s\<lparr>an_current := None\<rparr>
     else if length (an_chain s) \<ge> M then s\<lparr>an_chain := an_chain s @ [c], an_current := None\<rparr>
     else case parent_in index c of
         None \<Rightarrow> s\<lparr>an_chain := an_chain s @ [c], an_current := None\<rparr>
       | Some p \<Rightarrow> if barred parse now index p
           then s\<lparr>an_chain := an_chain s @ [c, p], an_revoked := Some p, an_current := None\<rparr>
           else s\<lparr>an_chain := an_chain s @ [c], an_current := Some p\<rparr>)"
  using assms by (auto simp: ancestry_step_def Let_def parent_in_def barred_def less_Suc_eq_le split: option.split)

definition clear_ancestors :: "(string \<Rightarrow> string option) \<Rightarrow> (string \<Rightarrow> bool) \<Rightarrow> string \<Rightarrow> nat \<Rightarrow> bool" where
  "clear_ancestors par B i n \<longleftrightarrow> (\<forall>m. 1 \<le> m \<and> m \<le> n \<longrightarrow> (\<forall>p. anc par m i = Some p \<longrightarrow> \<not> B p))"

definition ancestry_inv :: "(string \<Rightarrow> string option) \<Rightarrow> (string \<Rightarrow> bool) \<Rightarrow> nat \<Rightarrow> string \<Rightarrow> Ancestry \<Rightarrow> bool" where
  "ancestry_inv par B M i s \<longleftrightarrow>
     (\<forall>k<length (an_chain s). anc par k i = Some (an_chain s ! k)) \<and>
     (case an_current s of
        Some c \<Rightarrow> an_revoked s = None \<and> anc par (length (an_chain s)) i = Some c \<and> clear_ancestors par B i (length (an_chain s))
      | None \<Rightarrow> (case an_revoked s of
            None \<Rightarrow> clear_ancestors par B i M
          | Some p \<Rightarrow> (\<exists>n<M. clear_ancestors par B i n \<and> anc par (Suc n) i = Some p \<and> B p)))"

lemma clear_cycle:
  assumes "anc par j i = anc par n i" "j < n" "clear_ancestors par B i n"
  shows "clear_ancestors par B i m"
proof -
  have "\<not> B p" if "1 \<le> k" "anc par k i = Some p" for k p
    using that
  proof (induction k rule: less_induct)
    case (less k)
    show ?case
    proof (cases "k \<le> n")
      case True
      with less assms(3) show ?thesis by (simp add: clear_ancestors_def)
    next
      case False
      then obtain l where l: "k = n + l" "l \<ge> 1" by (metis add_diff_inverse_nat less_imp_le_nat not_le_imp_less less_one le_add_diff_inverse zero_less_diff not_less_eq_eq One_nat_def Suc_leI)
      then have "anc par (j + l) i = Some p" using less.prems(2) assms(1) by (simp add: anc_add)
      with less.IH [of "j + l"] l assms(2) show ?thesis by simp
    qed
  qed
  then show ?thesis by (auto simp: clear_ancestors_def)
qed

lemma clear_end:
  assumes "anc par (Suc n) i = None" "clear_ancestors par B i n"
  shows "clear_ancestors par B i m"
proof -
  have "anc par k i = None" if "Suc n \<le> k" for k
    using that assms(1) anc_add [of par "Suc n" "k - Suc n" i] by simp
  with assms(2) show ?thesis unfolding clear_ancestors_def by (metis not_less_eq_eq option.distinct(1))
qed

lemma ancestry_step_inv:
  assumes inv: "ancestry_inv (parent_in index) (barred parse now index) M i s" and cur: "an_current s = Some c"
  shows "ancestry_inv (parent_in index) (barred parse now index) M i (ancestry_step parse now index M s)"
proof -
  let ?P = "parent_in index" and ?B = "barred parse now index" and ?n = "length (an_chain s)"
  have chain: "\<And>k. k < ?n \<Longrightarrow> anc ?P k i = Some (an_chain s ! k)" and c: "anc ?P ?n i = Some c"
    and rev: "an_revoked s = None" and clear: "clear_ancestors ?P ?B i ?n"
    using inv cur by (auto simp: ancestry_inv_def)
  have chain': "anc ?P k i = Some ((an_chain s @ [c]) ! k)" if "k < Suc ?n" for k
    using that chain c by (auto simp: nth_append less_Suc_eq)
  have up: "anc ?P (Suc ?n) i = ?P c" using c by simp
  consider (cycle) "c \<in> set (an_chain s)" | (deep) "c \<notin> set (an_chain s)" "M \<le> ?n"
    | (root) "c \<notin> set (an_chain s)" "\<not> M \<le> ?n" "?P c = None"
    | (found) p where "c \<notin> set (an_chain s)" "\<not> M \<le> ?n" "?P c = Some p" "?B p"
    | (up) p where "c \<notin> set (an_chain s)" "\<not> M \<le> ?n" "?P c = Some p" "\<not> ?B p"
    by (cases "?P c") blast+
  then show ?thesis
  proof cases
    case cycle
    then obtain j where "j < ?n" "an_chain s ! j = c" by (auto simp: in_set_conv_nth)
    then have "anc ?P j i = anc ?P ?n i" using chain c by simp
    from clear_cycle [OF this \<open>j < ?n\<close> clear] show ?thesis
      using cycle chain rev by (simp add: ancestry_step_eq [OF cur] ancestry_inv_def)
  next
    case deep
    have "clear_ancestors ?P ?B i M" using clear deep(2) unfolding clear_ancestors_def by (meson le_trans)
    then show ?thesis using deep chain' rev by (simp add: ancestry_step_eq [OF cur] ancestry_inv_def)
  next
    case root
    then have "clear_ancestors ?P ?B i M" using clear_end [OF _ clear] up by simp
    then show ?thesis using root chain' rev by (simp add: ancestry_step_eq [OF cur] ancestry_inv_def)
  next
    case (found p)
    have "anc ?P k i = Some ((an_chain s @ [c, p]) ! k)" if "k < Suc (Suc ?n)" for k
    proof (cases "k = Suc ?n")
      case True
      then show ?thesis using up found(3) by (simp add: nth_append)
    next
      case False
      then have "k < Suc ?n" using that by simp
      then show ?thesis using chain' [of k] by (simp add: nth_append split: if_splits)
    qed
    moreover have "\<exists>n<M. clear_ancestors ?P ?B i n \<and> anc ?P (Suc n) i = Some p \<and> ?B p"
      using found clear up by (intro exI [of _ ?n]) simp
    ultimately show ?thesis using found by (simp add: ancestry_step_eq [OF cur] ancestry_inv_def)
  next
    case (up p)
    have "clear_ancestors ?P ?B i (Suc ?n)"
      using clear up c by (auto simp: clear_ancestors_def le_Suc_eq)
    then show ?thesis using up chain' rev c by (simp add: ancestry_step_eq [OF cur] ancestry_inv_def)
  qed
qed

lemma ancestry_ends: "\<exists>s. ancestry_loop parse now index M i = Some s"
  unfolding ancestry_loop_def
proof (rule measure_while_option_Some [where P = "\<lambda>_. True" and f = "\<lambda>s. case an_current s of None \<Rightarrow> 0 | Some c \<Rightarrow> Suc M - length (an_chain s) + 1"])
  show "True \<and> (case an_current (ancestry_step parse now index M s) of None \<Rightarrow> 0
        | Some c \<Rightarrow> Suc M - length (an_chain (ancestry_step parse now index M s)) + 1)
      < (case an_current s of None \<Rightarrow> 0 | Some c \<Rightarrow> Suc M - length (an_chain s) + 1)"
    if "an_current s \<noteq> None" for s
    using that by (auto simp: ancestry_step_eq split: option.split)
qed simp

lemma ancestry_result:
  assumes "ancestry_loop parse now index M i = Some s"
  shows "ancestry_inv (parent_in index) (barred parse now index) M i s" "an_current s = None"
proof -
  have "ancestry_inv (parent_in index) (barred parse now index) M i \<lparr>an_current = Some i, an_chain = [], an_revoked = None\<rparr>"
    by (simp add: ancestry_inv_def clear_ancestors_def)
  then show "ancestry_inv (parent_in index) (barred parse now index) M i s"
    using while_option_rule [OF _ assms [unfolded ancestry_loop_def], of "ancestry_inv (parent_in index) (barred parse now index) M i"]
      ancestry_step_inv by blast
  show "an_current s = None" using while_option_stop [OF assms [unfolded ancestry_loop_def]] by simp
qed

end
