(* ===== verification/Revocation_Report.thy ===== *)
theory Revocation_Report
  imports Revocation_Facts
begin

text \<open>
  What the revocation report of \<^verbatim>\<open>src/recursive-revocation-propagation.ts\<close> guarantees, over the
  merged registry of the observed views.
\<close>

section \<open>The parts of the report\<close>

lemma those_map: "(\<And>x. x \<in> set xs \<Longrightarrow> \<exists>y. f x = Some y) \<Longrightarrow> those (map f xs) = Some (map (\<lambda>x. the (f x)) xs)"
proof (induction xs)
  case (Cons x xs)
  then obtain y where "f x = Some y" by auto
  with Cons show ?case by simp
qed simp

lemma traverse_loop:
  obtains s where "traverseDescendantRevocation root (merge_entries views) M \<noteq> None"
    "traversal_inv (parent_in (merge_entries views)) M root s" "tr_queue s = []"
    "ds_descendant_ids (the (traverseDescendantRevocation root (merge_entries views) M)) = tr_descendants s"
    "ds_root_continuity_id (the (traverseDescendantRevocation root (merge_entries views) M)) = root"
    "ds_failure_reason (the (traverseDescendantRevocation root (merge_entries views) M)) =
       (if tr_cycle s then Some CYCLE_DETECTED else if tr_exceeded s then Some DEPTH_EXCEEDED else None)"
    "ds_ok (the (traverseDescendantRevocation root (merge_entries views) M)) \<longleftrightarrow> \<not> tr_cycle s \<and> \<not> tr_exceeded s"
proof -
  obtain s where s: "traversal_loop (get_kids (buildChildrenMap (map snd (merge_entries views)))) M root = Some s"
    using registry_forest.traversal_ends by blast
  note registry_forest.traversal_result [OF s]
  with s show thesis by (intro that [of s]) (auto simp: traverseDescendantRevocation_def Let_def)
qed

lemma traverse_eq:
  fixes root views M
  defines "r \<equiv> the (traverseDescendantRevocation root (merge_entries views) M)" and "P \<equiv> parent_in (merge_entries views)"
  shows "set (ds_descendant_ids r) = {y. y \<noteq> root \<and> (\<exists>n\<le>M. anc P n y = Some root)}"
    and "ds_failure_reason r = None \<longleftrightarrow> set (ds_descendant_ids r) = Collect (descends P root)"
    and "ds_root_continuity_id r = root"
    and "ds_failure_reason r = Some CYCLE_DETECTED \<longleftrightarrow> (\<exists>n\<le>M. anc P (Suc n) root = Some root)"
    and "distinct (ds_descendant_ids r)"
    and "ds_ok r \<longleftrightarrow> ds_failure_reason r = None"
proof -
  obtain s where s: "traversal_inv P M root s" "tr_queue s = []" "ds_descendant_ids r = tr_descendants s"
      "ds_root_continuity_id r = root"
      "ds_failure_reason r = (if tr_cycle s then Some CYCLE_DETECTED else if tr_exceeded s then Some DEPTH_EXCEEDED else None)"
      "ds_ok r \<longleftrightarrow> \<not> tr_cycle s \<and> \<not> tr_exceeded s"
    using traverse_loop [of root views M] unfolding r_def P_def by metis
  have t: "set (tr_descendants s) = {y. y \<noteq> root \<and> (\<exists>n\<le>M. anc P n y = Some root)}"
      "tr_cycle s \<longleftrightarrow> (\<exists>n\<le>M. anc P (Suc n) root = Some root)"
      "\<not> tr_cycle s \<and> \<not> tr_exceeded s \<longleftrightarrow> set (tr_descendants s) = Collect (descends P root)"
    using registry_forest.traversal_descendants(1,2) [OF s(1,2) [unfolded P_def]]
      registry_forest.traversal_ok [OF s(1,2) [unfolded P_def]] unfolding P_def by blast+
  show "set (ds_descendant_ids r) = {y. y \<noteq> root \<and> (\<exists>n\<le>M. anc P n y = Some root)}" using s(3) t(1) by simp
  show "ds_failure_reason r = None \<longleftrightarrow> set (ds_descendant_ids r) = Collect (descends P root)"
    unfolding s(3,5) t(3) [symmetric] by simp
  show "ds_failure_reason r = Some CYCLE_DETECTED \<longleftrightarrow> (\<exists>n\<le>M. anc P (Suc n) root = Some root)"
    using s(5) t(2) by simp
  show "ds_root_continuity_id r = root" by (rule s(4))
  show "distinct (ds_descendant_ids r)" using s(1,3) unfolding traversal_inv_def by (metis distinct.simps(2))
  show "ds_ok r \<longleftrightarrow> ds_failure_reason r = None" using s(5,6) by simp
qed

lemma incomplete_loop_set:
  "list_all (\<lambda>d. \<not> active_in index d \<or> d \<in> set (snd st)) (fst st) \<Longrightarrow>
   set (snd (incomplete_loop index st ds)) = set (snd st) \<union> {d\<in>set ds. active_in index d} \<and>
   list_all (\<lambda>d. \<not> active_in index d \<or> d \<in> set (snd (incomplete_loop index st ds))) (fst (incomplete_loop index st ds))"
proof (induction index st ds rule: incomplete_loop.induct)
  case (2 index seen inc d ds)
  show ?case
  proof (cases "d \<in> set seen")
    case True
    with 2 show ?thesis by (auto simp: list_all_iff)
  next
    case False
    have eq: "(case map_of index d of None \<Rightarrow> inc | Some entry \<Rightarrow> if still_active entry then inc @ [d] else inc) =
        (if active_in index d then inc @ [d] else inc)"
      by (simp add: active_in_def split: option.split)
    have "list_all (\<lambda>a. \<not> active_in index a \<or> a \<in> set (if active_in index d then inc @ [d] else inc)) (d # seen)"
      using 2(3) by (auto simp: list_all_iff)
    with 2(2) [OF False] False show ?thesis by (auto simp: eq)
  qed
qed simp

lemma completeness_loop_set:
  "list_all (\<lambda>d. \<not> active_in index d \<or> d \<in> set (snd st)) (fst st) \<Longrightarrow>
   set (snd (completeness_loop roots index st rs)) =
     set (snd st) \<union> {d. active_in index d \<and> (\<exists>r\<in>set rs. ds_root_continuity_id r \<in> set roots \<and> d \<in> set (ds_descendant_ids r))}"
proof (induction roots index st rs rule: completeness_loop.induct)
  case (2 roots index st r rs)
  show ?case
  proof (cases "ds_root_continuity_id r \<in> set roots")
    case True
    note i = incomplete_loop_set [OF "2.prems", of "ds_descendant_ids r"]
    have "set (snd (completeness_loop roots index (incomplete_loop index st (ds_descendant_ids r)) rs)) =
        set (snd (incomplete_loop index st (ds_descendant_ids r))) \<union>
        {d. active_in index d \<and> (\<exists>r\<in>set rs. ds_root_continuity_id r \<in> set roots \<and> d \<in> set (ds_descendant_ids r))}"
      using "2.IH" True conjunct2 [OF i] by simp
    with True show ?thesis unfolding conjunct1 [OF i] by auto
  next
    case False
    with 2 show ?thesis by auto
  qed
qed simp

lemma verify_complete:
  "fst (verifyRevocationPropagationCompleteness rs records index) \<longleftrightarrow>
     (\<forall>r\<in>set rs. ds_root_continuity_id r \<in> rr_root_continuity_id ` set records \<longrightarrow>
        (\<forall>d\<in>set (ds_descendant_ids r). \<not> active_in index d))"
proof -
  have "fst (verifyRevocationPropagationCompleteness rs records index) \<longleftrightarrow>
      set (snd (completeness_loop (map rr_root_continuity_id records) index ([], []) rs)) = {}"
    by (simp add: verifyRevocationPropagationCompleteness_def Let_def)
  then show ?thesis by (simp add: completeness_loop_set) blast
qed

lemma stale_collapse_eq:
  fixes views parse now
  defines "index \<equiv> merge_entries views"
  obtains cs where "enforceStaleLineageCollapse parse now (map snd index) index = Some cs"
    "\<And>c. c \<in> set cs \<Longrightarrow> sc_revoked_root_id c \<in> set (collapse_roots parse now (map snd index)) \<and>
       sc_active_descendant_ids c \<noteq> [] \<and>
       set (sc_active_descendant_ids c) = {y. y \<noteq> sc_revoked_root_id c \<and> descends (parent_in index) (sc_revoked_root_id c) y \<and> active_in index y}"
    "\<And>root y. root \<in> set (collapse_roots parse now (map snd index)) \<Longrightarrow> y \<noteq> root \<Longrightarrow> descends (parent_in index) root y \<Longrightarrow>
       active_in index y \<Longrightarrow> \<exists>c\<in>set cs. sc_revoked_root_id c = root"
proof -
  let ?k = "get_kids (buildChildrenMap (map snd index))"
  define A where "A root = cl_active (the (collapse_loop ?k index root))" for root
  have ends: "\<exists>s. collapse_loop ?k index root = Some s" for root
    unfolding index_def by (rule registry_forest.collapse_ends)
  have A: "set (A root) = {y. y \<noteq> root \<and> descends (parent_in index) root y \<and> active_in index y}" for root
  proof -
    obtain s where "collapse_loop ?k index root = Some s" using ends by blast
    then show ?thesis
      using registry_forest.collapse_result(2) [of views index root s] by (simp add: A_def index_def)
  qed
  let ?roots = "collapse_roots parse now (map snd index)"
  have "those (map (\<lambda>root. map_option (Pair root) (collapse_loop ?k index root)) ?roots) =
      Some (map (\<lambda>root. the (map_option (Pair root) (collapse_loop ?k index root))) ?roots)"
    by (rule those_map) (use ends in fastforce)
  also have "map (\<lambda>root. the (map_option (Pair root) (collapse_loop ?k index root))) ?roots =
      map (\<lambda>root. (root, the (collapse_loop ?k index root))) ?roots"
    using ends by (intro map_cong) (auto simp: option.map_sel)
  finally have eq: "enforceStaleLineageCollapse parse now (map snd index) index =
      Some (map (\<lambda>root. collapse_record root (A root)) (filter (\<lambda>root. A root \<noteq> []) ?roots))"
    by (simp add: enforceStaleLineageCollapse_def filter_map comp_def A_def)
  show thesis
  proof (rule that [OF eq])
    fix c assume "c \<in> set (map (\<lambda>root. collapse_record root (A root)) (filter (\<lambda>root. A root \<noteq> []) ?roots))"
    then obtain root where root: "root \<in> set ?roots" "A root \<noteq> []" and c: "c = collapse_record root (A root)" by auto
    have f: "sc_revoked_root_id c = root" "sc_active_descendant_ids c = sort (A root)"
      by (simp_all add: c collapse_record_def Let_def)
    have "set (sort (A root)) \<noteq> {}" using root(2) by simp
    then have "sort (A root) \<noteq> []" unfolding set_empty .
    then show "sc_revoked_root_id c \<in> set ?roots \<and> sc_active_descendant_ids c \<noteq> [] \<and>
       set (sc_active_descendant_ids c) = {y. y \<noteq> sc_revoked_root_id c \<and> descends (parent_in index) (sc_revoked_root_id c) y \<and> active_in index y}"
      unfolding f set_sort A using root(1) by blast
  next
    fix root y assume "root \<in> set ?roots" "y \<noteq> root" "descends (parent_in index) root y" "active_in index y"
    moreover from this have "y \<in> set (A root)" unfolding A by blast
    then have "A root \<noteq> []" by auto
    ultimately show "\<exists>c\<in>set (map (\<lambda>root. collapse_record root (A root)) (filter (\<lambda>root. A root \<noteq> []) ?roots)). sc_revoked_root_id c = root"
      by (auto simp: collapse_record_def Let_def)
  qed
qed

lemma audit_returns: "\<exists>a. auditRevocationAncestry parse now i index M = Some a"
  using ancestry_ends [of parse now index M i] by (auto simp: auditRevocationAncestry_def)

text \<open>The report, in terms of its three traversals.\<close>

lemma report_parts:
  fixes inp parse now
  defines "index \<equiv> merge_entries (pi_views inp)"
  defines "roots \<equiv> revoked_root_ids parse now (map snd index) (pi_records inp)"
  obtains r stale where "propagation_report parse now loc pid inp = Some r"
    "enforceStaleLineageCollapse parse now (map snd index) index = Some stale"
    "rg_stale_lineage_collapses r = stale"
    "rg_descendant_traversal_results r = map (\<lambda>root. the (traverseDescendantRevocation root index (pi_max_depth inp))) roots"
    "rg_ancestry_audits r = map (\<lambda>e. the (auditRevocationAncestry parse now (rl_continuity_id e) index (pi_max_depth inp))) (map snd index)"
    "rg_replay_eligibility r = map (\<lambda>r. case validateRevokedReplayIneligibility parse now r index (pi_records inp) of (eligible, reason) \<Rightarrow>
         \<lparr>el_replay_id = rx_replay_id r, el_continuity_id = rx_continuity_id r, el_eligible = eligible, el_ineligibility_reason = reason\<rparr>)
       (pi_replays inp)"
    "rg_propagation_result r = propagation_result_of (rg_descendant_traversal_results r)
       (fst (verifyRevocationPropagationCompleteness (rg_descendant_traversal_results r) (pi_records inp) index))
       stale (pi_views inp) (rg_convergence r)"
    "rg_propagation_id r = pid"
proof -
  have "traverseDescendantRevocation root index (pi_max_depth inp) \<noteq> None" for root
    unfolding index_def using traverse_loop by blast
  then have t: "those (map (\<lambda>root. traverseDescendantRevocation root index (pi_max_depth inp)) roots) =
      Some (map (\<lambda>root. the (traverseDescendantRevocation root index (pi_max_depth inp))) roots)"
    by (intro those_map) auto
  have a: "those (map (\<lambda>e. auditRevocationAncestry parse now (rl_continuity_id e) index (pi_max_depth inp)) (map snd index)) =
      Some (map (\<lambda>e. the (auditRevocationAncestry parse now (rl_continuity_id e) index (pi_max_depth inp))) (map snd index))"
    by (rule those_map) (rule audit_returns)
  obtain stale where st: "enforceStaleLineageCollapse parse now (map snd index) index = Some stale"
    using stale_collapse_eq unfolding index_def by metis
  obtain r where r: "propagation_report parse now loc pid inp = Some r"
    unfolding propagation_report_def Let_def index_def [symmetric] roots_def [symmetric] t a st
    by (simp add: case_prod_unfold)
  from r show thesis
    unfolding propagation_report_def Let_def index_def [symmetric] roots_def [symmetric] t a st
    by (intro that [OF r st]) (auto simp: case_prod_unfold)
qed

section \<open>Termination and exactness\<close>

lemma ends: "\<exists>r. propagateRevocationLineage parse now loc input = Some r"
proof (cases "read_propagation input")
  case (Pair pid inp)
  then show ?thesis
    by (cases inp) (auto simp: propagateRevocationLineage_def intro: report_parts [of parse now loc pid])
qed


text \<open>
  C36. The descendants listed for a revoked root are, without repetition, exactly the entries other
  than the root that reach it by at most the maximal number of parent steps. A cycle is reported
  exactly when the root is its own ancestor within one step more, and the traversal is reported
  as successful exactly when the list is the set of all descendants of the root.
\<close>

theorem traverseDescendantRevocation_exact:
  "\<exists>r. traverseDescendantRevocation root (merge_entries views) M = Some r \<and> distinct (ds_descendant_ids r) \<and>
     set (ds_descendant_ids r) = {y. y \<noteq> root \<and> (\<exists>n\<le>M. anc (parent_in (merge_entries views)) n y = Some root)} \<and>
     (ds_failure_reason r = Some CYCLE_DETECTED \<longleftrightarrow> (\<exists>n\<le>M. anc (parent_in (merge_entries views)) (Suc n) root = Some root)) \<and>
     (ds_ok r \<longleftrightarrow> set (ds_descendant_ids r) = Collect (descends (parent_in (merge_entries views)) root))"
proof -
  obtain r where r: "traverseDescendantRevocation root (merge_entries views) M = Some r"
    using traverse_loop [of root views M] by auto
  then have "the (traverseDescendantRevocation root (merge_entries views) M) = r" by simp
  note t = traverse_eq [of root views M, unfolded this]
  show ?thesis by (intro exI [of _ r] conjI r t(5) t(1) t(4)) (simp only: t(6) t(2))
qed

lemma find_first: "\<forall>x\<in>set xs. \<not> P x \<Longrightarrow> P y \<Longrightarrow> find P (xs @ y # ys) = Some y"
  by (induction xs) auto

text \<open>
  C38. The ancestry audit finds the nearest revoked, inactive or expired ancestor among the first
  ancestors up to the maximal depth, if there is one, and nothing otherwise; cycles and missing
  parents do not hide one.
\<close>

theorem auditRevocationAncestry_nearest:
  "\<exists>a. auditRevocationAncestry parse now i index M = Some a \<and>
     aa_revoked_ancestor_id a =
       find (barred parse now index) (List.map_filter (\<lambda>n. anc (parent_in index) n i) [1..<Suc M]) \<and>
     (aa_ancestor_revoked a \<longleftrightarrow> aa_revoked_ancestor_id a \<noteq> None)"
proof -
  let ?P = "parent_in index" and ?B = "barred parse now index"
  obtain s where s: "ancestry_loop parse now index M i = Some s" using ancestry_ends by blast
  have inv: "case an_revoked s of None \<Rightarrow> clear_ancestors ?P ?B i M
      | Some p \<Rightarrow> \<exists>n<M. clear_ancestors ?P ?B i n \<and> anc ?P (Suc n) i = Some p \<and> ?B p"
    using ancestry_result [OF s] by (simp add: ancestry_inv_def)
  have clear: "\<forall>p\<in>set (List.map_filter (\<lambda>n. anc ?P n i) [1..<Suc n]). \<not> ?B p" if "clear_ancestors ?P ?B i n" for n
    using that by (auto simp: clear_ancestors_def map_filter_def less_Suc_eq_le)
  have "an_revoked s = find ?B (List.map_filter (\<lambda>n. anc ?P n i) [1..<Suc M])"
  proof (cases "an_revoked s")
    case None
    then have "\<forall>p\<in>set (List.map_filter (\<lambda>n. anc ?P n i) [1..<Suc M]). \<not> ?B p" using inv clear by simp
    then have "find ?B (List.map_filter (\<lambda>n. anc ?P n i) [1..<Suc M]) = None" unfolding find_None_iff by blast
    with None show ?thesis by simp
  next
    case (Some p)
    then obtain n where n: "n < M" "clear_ancestors ?P ?B i n" "anc ?P (Suc n) i = Some p" "?B p" using inv by auto
    have "[1..<Suc M] = [1..<Suc n] @ Suc n # [Suc (Suc n)..<Suc M]"
    proof -
      have "[1..<Suc M] = [1..<Suc n] @ [Suc n..<Suc M]"
        using upt_add_eq_append [of 1 "Suc n" "M - n"] n(1) by simp
      also have "[Suc n..<Suc M] = Suc n # [Suc (Suc n)..<Suc M]" using n(1) by (simp add: upt_conv_Cons del: upt_Suc)
      finally show ?thesis .
    qed
    then have "List.map_filter (\<lambda>n. anc ?P n i) [1..<Suc M] =
        List.map_filter (\<lambda>n. anc ?P n i) [1..<Suc n] @ p # List.map_filter (\<lambda>n. anc ?P n i) [Suc (Suc n)..<Suc M]"
      using n(3) by (simp add: map_filter_def del: upt_Suc anc.simps(2))
    with find_first [OF clear [OF n(2)] n(4)] Some show ?thesis by (simp only:)
  qed
  with s show ?thesis by (simp add: auditRevocationAncestry_def Let_def)
qed

section \<open>What a complete propagation means\<close>

lemma set_roots: "set (revoked_root_ids parse now es rs) = set (collapse_roots parse now es) \<union> rr_root_continuity_id ` set rs"
  by (simp add: revoked_root_ids_def collapse_roots_def set_dedup)

lemma stale_empty_iff:
  assumes "index = merge_entries views"
    and "enforceStaleLineageCollapse parse now (map snd index) index = Some stale"
  shows "stale = [] \<longleftrightarrow> (\<forall>root\<in>set (collapse_roots parse now (map snd index)).
     \<forall>y. y \<noteq> root \<and> descends (parent_in index) root y \<longrightarrow> \<not> active_in index y)"
proof -
  obtain cs where cs: "enforceStaleLineageCollapse parse now (map snd index) index = Some cs" and
    c1: "\<And>c. c \<in> set cs \<Longrightarrow> sc_revoked_root_id c \<in> set (collapse_roots parse now (map snd index)) \<and>
     sc_active_descendant_ids c \<noteq> [] \<and>
     set (sc_active_descendant_ids c) = {y. y \<noteq> sc_revoked_root_id c \<and> descends (parent_in index) (sc_revoked_root_id c) y \<and> active_in index y}"
    and c2: "\<And>root y. root \<in> set (collapse_roots parse now (map snd index)) \<Longrightarrow> y \<noteq> root \<Longrightarrow> descends (parent_in index) root y \<Longrightarrow>
     active_in index y \<Longrightarrow> \<exists>c\<in>set cs. sc_revoked_root_id c = root"
    unfolding assms(1) by (rule stale_collapse_eq [of parse now views]) blast
  then have cs: "stale = cs" using assms(2) by simp
  show ?thesis
  proof
    assume "stale = []"
    then show "\<forall>root\<in>set (collapse_roots parse now (map snd index)). \<forall>y. y \<noteq> root \<and> descends (parent_in index) root y \<longrightarrow> \<not> active_in index y"
      using c2 cs by fastforce
  next
    assume none: "\<forall>root\<in>set (collapse_roots parse now (map snd index)). \<forall>y. y \<noteq> root \<and> descends (parent_in index) root y \<longrightarrow> \<not> active_in index y"
    have False if "c \<in> set cs" for c
    proof -
      note c = c1 [OF that]
      obtain y where y: "y \<in> set (sc_active_descendant_ids c)"
        using conjunct1 [OF conjunct2 [OF c]] hd_in_set by blast
      have "y \<noteq> sc_revoked_root_id c \<and> descends (parent_in index) (sc_revoked_root_id c) y \<and> active_in index y"
        using y unfolding conjunct2 [OF conjunct2 [OF c]] by (rule CollectD)
      then show False using none conjunct1 [OF c] by blast
    qed
    then show "stale = []" using cs by (metis list.set_intros(1) neq_Nil_conv)
  qed
qed

lemma result_sound_iff:
  "propagation_result_of rs complete stale views c \<in> {PROPAGATION_COMPLETE, PROPAGATION_CONVERGENCE_FAILED} \<longleftrightarrow>
     (\<forall>r\<in>set rs. ds_failure_reason r = None) \<and> complete \<and> stale = []"
proof -
  have "(\<not> (list_ex (\<lambda>r. ds_failure_reason r = Some CYCLE_DETECTED) rs \<or>
        list_ex (\<lambda>r. ds_failure_reason r = Some DEPTH_EXCEEDED) rs)) \<longleftrightarrow> (\<forall>r\<in>set rs. ds_failure_reason r = None)"
    by (auto simp: list_ex_iff) (metis RevocationDescendantFailure.exhaust not_None_eq)
  then show ?thesis unfolding propagation_result_of_def by (auto split: if_splits)
qed

lemma complete_iff:
  assumes "read_propagation input = (pid, Some inp)"
    and "propagateRevocationLineage parse now loc input = Some r"
  shows "rg_propagation_result r \<in> {PROPAGATION_COMPLETE, PROPAGATION_CONVERGENCE_FAILED} \<longleftrightarrow>
     (\<forall>root\<in>set (revoked_root_ids parse now (map snd (merge_entries (pi_views inp))) (pi_records inp)).
        \<forall>y. descends (parent_in (merge_entries (pi_views inp))) root y \<longrightarrow>
          y \<noteq> root \<and> (\<exists>n\<le>pi_max_depth inp. anc (parent_in (merge_entries (pi_views inp))) n y = Some root) \<and>
          \<not> active_in (merge_entries (pi_views inp)) y)"
proof -
  define index where "index = merge_entries (pi_views inp)"
  define roots where "roots = revoked_root_ids parse now (map snd index) (pi_records inp)"
  define T where "T root = the (traverseDescendantRevocation root index (pi_max_depth inp))" for root
  define S where "S root = set (ds_descendant_ids (T root))" for root
  define D where "D root = Collect (descends (parent_in index) root)" for root
  have "propagation_report parse now loc pid inp = Some r"
    using assms by (simp add: propagateRevocationLineage_def)
  moreover obtain r' stale where rep': "propagation_report parse now loc pid inp = Some r'"
      "enforceStaleLineageCollapse parse now (map snd index) index = Some stale"
      "rg_descendant_traversal_results r' = map T roots"
      "rg_propagation_result r' = propagation_result_of (rg_descendant_traversal_results r')
         (fst (verifyRevocationPropagationCompleteness (rg_descendant_traversal_results r') (pi_records inp) index))
         stale (pi_views inp) (rg_convergence r')"
    unfolding index_def roots_def T_def by (rule report_parts [of parse now loc pid inp])
  ultimately have "r' = r" by simp
  note rep = rep'(2-4) [unfolded this]
  note t = traverse_eq [where views = "pi_views inp" and M = "pi_max_depth inp", folded index_def, folded T_def]
  have "rg_propagation_result r \<in> {PROPAGATION_COMPLETE, PROPAGATION_CONVERGENCE_FAILED} \<longleftrightarrow>
      (\<forall>root\<in>set roots. ds_failure_reason (T root) = None) \<and>
      (\<forall>root\<in>set roots. root \<in> rr_root_continuity_id ` set (pi_records inp) \<longrightarrow> (\<forall>d\<in>set (ds_descendant_ids (T root)). \<not> active_in index d)) \<and>
      stale = []"
    unfolding rep(3) rep(2) result_sound_iff verify_complete by (auto simp: t(3))
  also have "stale = [] \<longleftrightarrow> (\<forall>root\<in>set (collapse_roots parse now (map snd index)). \<forall>y. y \<noteq> root \<and> descends (parent_in index) root y \<longrightarrow> \<not> active_in index y)"
    using stale_empty_iff rep(1) unfolding index_def by blast
  finally have step: "rg_propagation_result r \<in> {PROPAGATION_COMPLETE, PROPAGATION_CONVERGENCE_FAILED} \<longleftrightarrow>
      (\<forall>root\<in>set roots. S root = D root) \<and> (\<forall>root\<in>set roots. root \<in> rr_root_continuity_id ` set (pi_records inp) \<longrightarrow> (\<forall>d\<in>S root. \<not> active_in index d)) \<and>
      (\<forall>root\<in>set (collapse_roots parse now (map snd index)). \<forall>y. y \<noteq> root \<and> y \<in> D root \<longrightarrow> \<not> active_in index y)"
    unfolding t(2) unfolding S_def [symmetric] D_def by simp
  have S: "S root = {y. y \<noteq> root \<and> (\<exists>n\<le>pi_max_depth inp. anc (parent_in index) n y = Some root)}" for root
    unfolding S_def by (rule t(1))
  have sub: "S root \<subseteq> D root" for root
    unfolding S D_def descends_def by (auto simp del: anc.simps(2)) (metis anc.simps(1) not0_implies_Suc option.inject)
  have split: "root \<in> set roots \<longleftrightarrow> root \<in> set (collapse_roots parse now (map snd index)) \<or> root \<in> rr_root_continuity_id ` set (pi_records inp)" for root
    unfolding roots_def set_roots by blast
  have "rg_propagation_result r \<in> {PROPAGATION_COMPLETE, PROPAGATION_CONVERGENCE_FAILED} \<longleftrightarrow>
      (\<forall>root\<in>set roots. \<forall>y\<in>D root. y \<in> S root \<and> \<not> active_in index y)"
    (is "?L \<longleftrightarrow> ?R")
  proof
    assume ?L
    then have L: "\<And>root. root \<in> set roots \<Longrightarrow> S root = D root"
      "\<And>root d. root \<in> set roots \<Longrightarrow> root \<in> rr_root_continuity_id ` set (pi_records inp) \<Longrightarrow> d \<in> S root \<Longrightarrow> \<not> active_in index d"
      "\<And>root d. root \<in> set (collapse_roots parse now (map snd index)) \<Longrightarrow> d \<noteq> root \<Longrightarrow> d \<in> D root \<Longrightarrow> \<not> active_in index d"
      unfolding step by blast+
    have "root \<notin> S root" for root unfolding S by simp
    then show ?R using L split by metis
  next
    assume R: ?R
    then have "S root = D root" if "root \<in> set roots" for root using that sub by blast
    then show ?L unfolding step using R split by blast
  qed
  then show ?thesis
    unfolding index_def [symmetric] roots_def [symmetric] S D_def by blast
qed


definition sample_entry_json :: "string \<Rightarrow> string \<Rightarrow> string \<Rightarrow> jsval" where
  "sample_entry_json i p st = JObj [(''continuity_id'', JStr i), (''parent_continuity_id'', JStr p), (''status'', JStr st)]"

definition sample_input :: "jsval list \<Rightarrow> jsval list \<Rightarrow> jsval list \<Rightarrow> jsval" where
  "sample_input entries records replays = JObj
     [(''propagation_id'', JStr ''p''), (''evidence_only'', JBool True),
      (''registry_views'', JArr [JObj [(''node_id'', JStr ''n''), (''registry_epoch'', JStr ''e''), (''lineage_root_id'', JStr ''r''),
         (''registry_hash'', JStr (replicate 64 CHR ''a'')), (''entries'', JArr entries)]]),
      (''revocation_records'', JArr records), (''replay_records'', JArr replays)]"

definition sample_entry :: "string \<Rightarrow> string \<Rightarrow> string \<Rightarrow> RevocationLineageEntry" where
  "sample_entry i p st = \<lparr>rl_continuity_id = i, rl_session_id = [], rl_parent_continuity_id = Some p,
     rl_continuity_hash = [], rl_status = st, rl_revoked_at = None, rl_expires_at = None\<rparr>"

definition sample_view :: "RevocationLineageEntry list \<Rightarrow> RevocationRegistryView" where
  "sample_view es = \<lparr>rv_node_id = ''n'', rv_registry_epoch = ''e'', rv_lineage_root_id = ''r'', rv_entries = es,
     rv_registry_hash = replicate 64 CHR ''a''\<rparr>"

lemma trim_eqs: "js_trim ''a'' = ''a''" "js_trim ''b'' = ''b''" "js_trim ''p'' = ''p''" "js_trim ''n'' = ''n''"
    "js_trim ''e'' = ''e''" "js_trim ''r'' = ''r''" "js_trim ''x'' = ''x''" "js_trim [] = []"
  by (simp_all add: js_trim_def js_ws_def)

lemma read_sample_entries:
  "read_entries [sample_entry_json ''a'' [] sa, sample_entry_json ''b'' ''a'' sb] = Some [sample_entry ''a'' [] sa, sample_entry ''b'' ''a'' sb]"
  by (simp add: Let_def sample_entry_json_def sample_entry_def safeObj_def hasForbiddenField_def FORBIDDEN_FIELDS_def
      str_field_def opt_field_def js_String_or_def read_entry_def trim_eqs)

lemma read_sample:
  assumes "read_entries es = Some es'" "es' \<noteq> []"
  shows "read_propagation (sample_input es rs xs) = (''p'', Some
    \<lparr>pi_views = [sample_view es'], pi_records = List.map_filter read_record rs, pi_proofs = [],
     pi_replays = List.map_filter read_replay xs, pi_max_depth = 32\<rparr>)"
proof -
  have hex: "is_hex64 (replicate 64 CHR ''a'')" by (simp add: is_hex64_def list_all_iff)
  have "merge_entries [sample_view es'] \<noteq> []"
  proof -
    obtain e l where "es' = e # l" using assms(2) by (cases es') auto
    moreover have "merge_loop m l \<noteq> []" if "m \<noteq> []" for m
      using that by (induction m l rule: merge_loop.induct) (auto simp: update_nonempty)
    ultimately show ?thesis by (simp add: merge_entries_def sample_view_def)
  qed
  then show ?thesis
    using assms(1) hex
    by (simp add: read_propagation_def sample_input_def Let_def safeObj_def hasForbiddenField_def FORBIDDEN_FIELDS_def
        str_field_def js_String_or_def trim_eqs read_max_depth_def SYSTEM_MAX_DESCENT_DEPTH_def map_filter_def sample_view_def)
qed

lemma sample_parents:
  "parent_in (merge_entries [sample_view [sample_entry ''a'' [] sa, sample_entry ''b'' ''a'' sb]]) y = (if y = ''b'' then Some ''a'' else None)"
  by (simp add: parent_in_def merge_entries_def sample_view_def sample_entry_def parent_id_def trim_opt_def trim_eqs)

lemma sample_descends:
  "descends (parent_in (merge_entries [sample_view [sample_entry ''a'' [] sa, sample_entry ''b'' ''a'' sb]])) root y \<longleftrightarrow> root = ''a'' \<and> y = ''b''"
proof -
  let ?P = "parent_in (merge_entries [sample_view [sample_entry ''a'' [] sa, sample_entry ''b'' ''a'' sb]])"
  have "anc ?P (Suc n) y = (if n = 0 \<and> y = ''b'' then Some ''a'' else None)" for n y
    by (induction n) (simp_all add: sample_parents)
  then show ?thesis unfolding descends_def by (auto split: if_splits)
qed


text \<open>
  The verdicts on single replays do not look at the ancestors: with a revoked entry and an
  active entry below it the audit of the latter names the revoked ancestor, and still a replay
  of the latter is eligible.
\<close>

theorem replay_eligible_below_revoked:
  "\<exists>r. propagateRevocationLineage parse now loc
        (sample_input [sample_entry_json ''a'' [] ''REVOKED'', sample_entry_json ''b'' ''a'' ''ACTIVE''] []
          [JObj [(''replay_id'', JStr ''x''), (''continuity_id'', JStr ''b'')]]) = Some r \<and>
     map el_eligible (rg_replay_eligibility r) = [True] \<and>
     map aa_revoked_ancestor_id (rg_ancestry_audits r) = [None, Some ''a'']"
proof -
  let ?es = "[sample_entry ''a'' [] ''REVOKED'', sample_entry ''b'' ''a'' ''ACTIVE'']"
  let ?xs = "[JObj [(''replay_id'', JStr ''x''), (''continuity_id'', JStr ''b'')]]"
  define index where "index = merge_entries [sample_view ?es]"
  define inp where "inp = \<lparr>pi_views = [sample_view ?es], pi_records = [], pi_proofs = [],
     pi_replays = [\<lparr>rx_replay_id = ''x'', rx_continuity_id = ''b'', rx_continuity_hash = [], rx_lineage_hash = []\<rparr>], pi_max_depth = 32\<rparr>"
  have index: "index = [(''a'', sample_entry ''a'' [] ''REVOKED''), (''b'', sample_entry ''b'' ''a'' ''ACTIVE'')]"
    by (simp add: index_def merge_entries_def sample_view_def sample_entry_def)
  have "read_replay (hd ?xs) = Some \<lparr>rx_replay_id = ''x'', rx_continuity_id = ''b'', rx_continuity_hash = [], rx_lineage_hash = []\<rparr>"
    by (simp add: read_replay_def Let_def safeObj_def str_field_def js_String_or_def trim_eqs)
  then have rd: "read_propagation (sample_input [sample_entry_json ''a'' [] ''REVOKED'', sample_entry_json ''b'' ''a'' ''ACTIVE''] [] ?xs) = (''p'', Some inp)"
    using read_sample [OF read_sample_entries [of "''REVOKED''" "''ACTIVE''"], of "[]" ?xs] by (simp add: inp_def map_filter_def)
  obtain r where r: "propagation_report parse now loc ''p'' inp = Some r"
      "rg_ancestry_audits r = map (\<lambda>e. the (auditRevocationAncestry parse now (rl_continuity_id e) index (pi_max_depth inp))) (map snd index)"
      "rg_replay_eligibility r = map (\<lambda>r. case validateRevokedReplayIneligibility parse now r index (pi_records inp) of (eligible, reason) \<Rightarrow>
         \<lparr>el_replay_id = rx_replay_id r, el_continuity_id = rx_continuity_id r, el_eligible = eligible, el_ineligibility_reason = reason\<rparr>)
       (pi_replays inp)"
    by (rule report_parts [of parse now loc "''p''" inp]) (simp add: index_def inp_def)
  have "validateRevokedReplayIneligibility parse now (hd (pi_replays inp)) index [] = (True, None)"
    by (simp add: validateRevokedReplayIneligibility_def index inp_def sample_entry_def isRevocationBarriered_def isActiveStatus_def
        set_field_def in_cascade_def is_hex64_def)
  then have "map el_eligible (rg_replay_eligibility r) = [True]" using r(3) by (simp add: inp_def)
  moreover have "ancestry_loop parse now index 32 ''a'' = Some \<lparr>an_current = None, an_chain = [''a''], an_revoked = None\<rparr>"
      "ancestry_loop parse now index 32 ''b'' = Some \<lparr>an_current = None, an_chain = [''b'', ''a''], an_revoked = Some ''a''\<rparr>"
    by (simp_all add: ancestry_loop_def while_option_unfold ancestry_step_def Let_def index sample_entry_def parent_id_def trim_opt_def trim_eqs
        isRevocationBarriered_def isActiveStatus_def)
  then have "map aa_revoked_ancestor_id (rg_ancestry_audits r) = [None, Some ''a'']"
    using r(2) by (simp add: auditRevocationAncestry_def index inp_def sample_entry_def Let_def)
  ultimately show ?thesis using r(1) rd by (simp add: propagateRevocationLineage_def)
qed

section \<open>Revocations without effect\<close>

lemma trim_trim [simp]: "js_trim (js_trim s) = js_trim s"
proof -
  have ends: "dropWhile js_ws (rev (dropWhile js_ws (rev xs))) = rev (dropWhile js_ws (rev xs))"
    if "xs = [] \<or> \<not> js_ws (hd xs)" for xs
  proof (cases "dropWhile js_ws (rev xs) = []")
    case False
    then obtain ys where "xs = rev (dropWhile js_ws (rev xs)) @ ys"
      by (metis rev_append rev_rev_ident takeWhile_dropWhile_id)
    with False that have "\<not> js_ws (hd (rev (dropWhile js_ws (rev xs))))" by (metis append_is_Nil_conv hd_append2 rev_is_Nil_conv)
    with False show ?thesis by (metis dropWhile_eq_self_iff)
  next
    case True
    show ?thesis unfolding True by simp
  qed
  have "dropWhile js_ws s = [] \<or> \<not> js_ws (hd (dropWhile js_ws s))" using hd_dropWhile by blast
  from ends [OF this] show ?thesis by (simp add: js_trim_def)
qed

lemma parent_trimmed: "parent_in index c = Some p \<Longrightarrow> js_trim p = p"
  by (auto simp: parent_in_def parent_id_def trim_opt_def split: option.splits if_splits)

lemma read_entries_trimmed: "read_entries es = Some rs \<Longrightarrow> e \<in> set rs \<Longrightarrow> js_trim (rl_continuity_id e) = rl_continuity_id e"
  by (induction es arbitrary: rs rule: read_entries.induct) (auto simp: Let_def read_entry_def split: if_splits)

lemma read_views_Cons:
  assumes "read_views (rv # rvs) = Some views"
  obtains "read_views rvs = Some views"
    | w ws where "views = w # ws" "read_views rvs = Some ws" "read_entries (js_array (js_get (safeObj rv) ''entries'')) = Some (rv_entries w)"
proof -
  have "read_views rvs = Some views \<or>
    (\<exists>w ws. views = w # ws \<and> read_views rvs = Some ws \<and> read_entries (js_array (js_get (safeObj rv) ''entries'')) = Some (rv_entries w))"
    using assms by (auto simp: Let_def split: if_splits option.splits)
  then show thesis using that by blast
qed

lemma read_views_trimmed:
  "read_views vs = Some views \<Longrightarrow> v \<in> set views \<Longrightarrow> e \<in> set (rv_entries v) \<Longrightarrow> js_trim (rl_continuity_id e) = rl_continuity_id e"
proof (induction vs arbitrary: views)
  case (Cons rv rvs)
  from Cons.prems(1) show ?case
  proof (cases rule: read_views_Cons)
    case 1
    then show ?thesis using Cons by blast
  next
    case (2 w ws)
    then show ?thesis using Cons read_entries_trimmed by (cases "v = w") auto
  qed
qed simp

lemma merge_loop_values: "snd ` set (merge_loop index es) \<subseteq> snd ` set index \<union> set es"
proof (induction index es rule: merge_loop.induct)
  case (2 index e es)
  have "snd ` set (AList.update k v al) \<subseteq> insert v (snd ` set al)" for k v al
    by (induction al) auto
  from this [of "rl_continuity_id e" e index] 2 show ?case by simp blast
qed simp

text \<open>
  A revocation record whose root id has white space around it is accepted and revokes nothing:
  the ids of the entries and the parents are trimmed, the root of the record is not.
\<close>

theorem padded_revocation_ignored:
  assumes "read_propagation input = (pid, Some inp)" and "js_trim root \<noteq> root"
  shows "\<not> descends (parent_in (merge_entries (pi_views inp))) root y \<and> map_of (merge_entries (pi_views inp)) root = None \<and>
     list_all (\<lambda>x. rx_continuity_id x \<noteq> root) (pi_replays inp)"
proof (intro conjI)
  show "\<not> descends (parent_in (merge_entries (pi_views inp))) root y"
    using assms(2) parent_trimmed by (auto simp: descends_def bind_eq_Some_conv)
  obtain vs where vs: "read_views vs = Some (pi_views inp)"
    using assms(1) by (auto simp: read_propagation_def Let_def split: if_splits option.splits)
  have "js_trim (rl_continuity_id e) = rl_continuity_id e" if "e \<in> snd ` set (merge_entries (pi_views inp))" for e
    using that merge_loop_values [of "[]"] read_views_trimmed [OF vs] by (fastforce simp: merge_entries_def)
  then show "map_of (merge_entries (pi_views inp)) root = None"
    using assms(2) iffD1 [OF wf_map_of [OF wf_merge, of "pi_views inp" root]]
    by (cases "map_of (merge_entries (pi_views inp)) root") auto
  have "js_trim (rx_continuity_id x) = rx_continuity_id x" if "read_replay v = Some x" for v x
    using that by (auto simp: read_replay_def Let_def split: if_splits)
  then show "list_all (\<lambda>x. rx_continuity_id x \<noteq> root) (pi_replays inp)"
    using assms by (auto simp: read_propagation_def Let_def list_all_iff map_filter_def split: if_splits option.splits)
qed

text \<open>
  A revocation record for an entry that the registry still lists as active does not make the
  propagation incomplete: only the descendants of the recorded root are examined.
\<close>

theorem revoked_root_stays_active:
  "\<exists>r. propagateRevocationLineage (\<lambda>_. None) now loc
      (sample_input [sample_entry_json ''a'' [] ''ACTIVE'', sample_entry_json ''b'' ''a'' ''REVOKED'']
        [JObj [(''revocation_id'', JStr ''x''), (''root_continuity_id'', JStr ''a''), (''revoked_at'', JStr ''p'')]] []) = Some r \<and>
     rg_propagation_result r \<in> {PROPAGATION_COMPLETE, PROPAGATION_CONVERGENCE_FAILED}"
proof -
  let ?rs = "[JObj [(''revocation_id'', JStr ''x''), (''root_continuity_id'', JStr ''a''), (''revoked_at'', JStr ''p'')]]"
  let ?in = "sample_input [sample_entry_json ''a'' [] ''ACTIVE'', sample_entry_json ''b'' ''a'' ''REVOKED''] ?rs []"
  let ?es = "[sample_entry ''a'' [] ''ACTIVE'', sample_entry ''b'' ''a'' ''REVOKED'']"
  note rd = read_sample [OF read_sample_entries [of "''ACTIVE''" "''REVOKED''"], of ?rs "[]", simplified]
  obtain r where r: "propagateRevocationLineage (\<lambda>_. None) now loc ?in = Some r" using ends by blast
  have "\<not> active_in (merge_entries [sample_view ?es]) ''b''"
    by (simp add: active_in_def merge_entries_def sample_view_def sample_entry_def still_active_def isActiveStatus_def)
  moreover have "anc (parent_in (merge_entries [sample_view ?es])) 1 ''b'' = Some ''a''" by (simp add: sample_parents)
  ultimately have "\<forall>y. descends (parent_in (merge_entries [sample_view ?es])) root y \<longrightarrow> y \<noteq> root \<and>
      (\<exists>n\<le>32. anc (parent_in (merge_entries [sample_view ?es])) n y = Some root) \<and> \<not> active_in (merge_entries [sample_view ?es]) y" for root
    unfolding sample_descends by (intro allI impI conjI exI [of _ 1]) auto
  then show ?thesis using complete_iff [OF rd r] r by simp
qed

end
