(* ===== verification/Closure.thy ===== *)
theory Closure
  imports Revocation
begin

text \<open>
  \<^verbatim>\<open>src/continuity-lineage-closure-hardening.ts\<close>: the report on the closure of a lineage registry.
  It merges the observed views, walks from every entry to its root, collects the subtrees below
  missing parents, compares the hashes of the views, checks freshness and classifies the result.
  The helpers that the file repeats from \<^verbatim>\<open>src/recursive-revocation-propagation.ts\<close> are shared with
  \<open>Revocation\<close>; the conventions on loops, \<^verbatim>\<open>Date.parse\<close>, clock and \<^verbatim>\<open>localeCompare\<close> are the same.
\<close>

section \<open>Data\<close>

datatype ContinuityClosureResult =
  CLOSURE_VERIFIED | CLOSURE_BROKEN_ORPHAN | CLOSURE_BROKEN_DETACHED | CLOSURE_BROKEN_CYCLE
| CLOSURE_BROKEN_DEPTH | CLOSURE_PARTIAL_VISIBILITY | CLOSURE_NULL

datatype AncestryFailureReason = AF_CYCLE_DETECTED | AF_DEPTH_EXCEEDED | AF_DETACHED_LINEAGE | AF_REVOKED_ANCESTOR | AF_EXPIRED_ANCESTOR

fun ancestry_failure_string :: "AncestryFailureReason \<Rightarrow> string" where
  "ancestry_failure_string AF_CYCLE_DETECTED = ''cycle_detected''"
| "ancestry_failure_string AF_DEPTH_EXCEEDED = ''depth_exceeded''"
| "ancestry_failure_string AF_DETACHED_LINEAGE = ''detached_lineage''"
| "ancestry_failure_string AF_REVOKED_ANCESTOR = ''revoked_ancestor''"
| "ancestry_failure_string AF_EXPIRED_ANCESTOR = ''expired_ancestor''"

datatype ClosureDriftClass =
  DETACHED_CONTINUITY | ORPHANED_SUBTREE | ANCESTRY_CYCLE | ANCESTRY_DEPTH_EXCEEDED | FRESHNESS_CHAIN_VIOLATION
| LINEAGE_EQUIVALENCE_DRIFT | PARTIAL_VISIBILITY_COLLAPSE | REVOKED_ANCESTOR_PROPAGATION | RECONSTRUCTION_FAILURE
| CROSS_REGISTRY_HASH_DIVERGENCE

datatype RepairClass =
  FETCH_MISSING_ANCESTOR | LINEAGE_PERMANENTLY_INVALID | REDUCE_ANCESTRY_DEPTH | REVOKE_EXPIRED_CHAIN | RECONCILE_REGISTRY_VIEWS

fun repair_class_string :: "RepairClass \<Rightarrow> string" where
  "repair_class_string FETCH_MISSING_ANCESTOR = ''fetch_missing_ancestor''"
| "repair_class_string LINEAGE_PERMANENTLY_INVALID = ''lineage_permanently_invalid''"
| "repair_class_string REDUCE_ANCESTRY_DEPTH = ''reduce_ancestry_depth''"
| "repair_class_string REVOKE_EXPIRED_CHAIN = ''revoke_expired_chain''"
| "repair_class_string RECONCILE_REGISTRY_VIEWS = ''reconcile_registry_views''"

datatype Severity = fatal | degraded | observation

text \<open>\<^verbatim>\<open>ClosureEntry\<close> has the fields of a revocation entry and the identity.\<close>

record ClosureEntry = RevocationLineageEntry +
  cn_identity_id :: "string option"

type_synonym closure_index = "(string \<times> ClosureEntry) list"

record ClosureRegistryView =
  cw_node_id :: string
  cw_registry_epoch :: string
  cw_lineage_root_id :: string
  cw_entries :: "ClosureEntry list"
  cw_registry_hash :: string

record AncestryTraversalResult =
  at_traversal_id :: string
  at_start_continuity_id :: string
  at_ok :: bool
  at_failure_reason :: "AncestryFailureReason option"
  at_depth :: nat
  at_root_continuity_id :: "string option"
  at_ancestry_chain :: "string list"
  at_ancestry_hash :: string

record CollapsedSubtree =
  sb_subtree_id :: string
  sb_orphan_root_id :: string
  sb_missing_parent_id :: string
  sb_affected_ids :: "string list"
  sb_subtree_hash :: string

record LineageEquivalenceAudit =
  qa_audit_id :: string
  qa_equivalent :: bool
  qa_total_entries :: nat
  qa_reference_topology_hash :: "string option"
  qa_divergent_entry_ids :: "string list"
  qa_divergent_count :: nat

record LineageRepairDiagnostic =
  ld_diagnostic_id :: string
  ld_affected_continuity_id :: string
  ld_repair_class :: RepairClass
  ld_repairable :: bool
  ld_detail :: string

record LineageReconstructionValidation =
  lv_validation_id :: string
  lv_continuity_id :: string
  lv_reconstructable :: bool
  lv_reconstruction_hash :: "string option"
  lv_expected_hash :: string
  lv_failure_reason :: "string option"

record LineageDriftClassification =
  lc_classification_id :: string
  lc_drift_class :: ClosureDriftClass
  lc_affected_continuity_id :: "string option"
  lc_severity :: Severity
  lc_detail :: string

record ContinuityLineageClosureVerification =
  cc_closure_id :: string
  cc_closure_result :: ContinuityClosureResult
  cc_lineage_topology_hash :: string
  cc_entry_count :: nat
  cc_traversal_results :: "AncestryTraversalResult list"
  cc_detached_ids :: "string list"
  cc_collapsed_subtrees :: "CollapsedSubtree list"
  cc_equivalence_audit :: LineageEquivalenceAudit
  cc_repair_diagnostics :: "LineageRepairDiagnostic list"
  cc_reconstruction_validations :: "LineageReconstructionValidation list"
  cc_drift_classifications :: "LineageDriftClassification list"

section \<open>Helpers\<close>

definition SYSTEM_MAX_ANCESTRY_DEPTH :: nat where
  "SYSTEM_MAX_ANCESTRY_DEPTH = 32"

definition isRevokedOrExpired :: "(string \<Rightarrow> int option) \<Rightarrow> int \<Rightarrow> ClosureEntry \<Rightarrow> bool" where
  "isRevokedOrExpired parse now entry =
     (if \<not> isActiveStatus (rl_status entry) \<or> set_field (rl_revoked_at entry) then True
      else case rl_expires_at entry of
        None \<Rightarrow> False
      | Some t \<Rightarrow> t \<noteq> [] \<and> (case parse t of None \<Rightarrow> False | Some ms \<Rightarrow> ms \<le> now))"

definition isExpiredOnly :: "(string \<Rightarrow> int option) \<Rightarrow> int \<Rightarrow> ClosureEntry \<Rightarrow> bool" where
  "isExpiredOnly parse now entry =
     (if \<not> isActiveStatus (rl_status entry) \<or> set_field (rl_revoked_at entry) then False
      else case rl_expires_at entry of
        None \<Rightarrow> False
      | Some t \<Rightarrow> t \<noteq> [] \<and> (case parse t of None \<Rightarrow> False | Some ms \<Rightarrow> ms \<le> now))"

text \<open>
  \<^verbatim>\<open>collectSubtree\<close>: ids may enter the queue twice and are skipped when they are taken out;
  \<^verbatim>\<open>visited\<close> and \<^verbatim>\<open>result\<close> receive the same ids.
\<close>

definition collect_step :: "(string \<Rightarrow> string list) \<Rightarrow> string list \<times> string list \<Rightarrow> string list \<times> string list" where
  "collect_step kids s = (case s of
       ([], result) \<Rightarrow> s
     | (i # queue, result) \<Rightarrow> if i \<in> set result then (queue, result) else (queue @ kids i, result @ [i]))"

definition collectSubtree :: "string \<Rightarrow> (string \<Rightarrow> string list) \<Rightarrow> string list option" where
  "collectSubtree startId kids =
     map_option snd (while_option (\<lambda>s. fst s \<noteq> []) (collect_step kids) ([startId], []))"

definition computeClosureTopologyHash :: "(string \<Rightarrow> string \<Rightarrow> bool) \<Rightarrow> ClosureEntry list \<Rightarrow> string" where
  "computeClosureTopologyHash loc entries = hashCanonical (JArr (map (\<lambda>e. JObj
       [(''continuity_hash'', JStr (rl_continuity_hash e)), (''continuity_id'', JStr (rl_continuity_id e)),
        (''identity_id'', js_opt (cn_identity_id e)), (''parent_continuity_id'', js_opt (rl_parent_continuity_id e)),
        (''session_id'', JStr (rl_session_id e)), (''status'', JStr (rl_status e))])
     (js_sort (\<lambda>a b. loc (rl_continuity_id a) (rl_continuity_id b)) entries)))"

section \<open>The walk to the root\<close>

record Walk =
  wk_current :: "string option"
  wk_chain :: "string list"
  wk_failure :: "AncestryFailureReason option"

text \<open>A return or break clears the loop variable; \<open>wk_failure\<close> remembers which return was taken.\<close>

definition walk_step :: "(string \<Rightarrow> int option) \<Rightarrow> int \<Rightarrow> closure_index \<Rightarrow> nat \<Rightarrow> Walk \<Rightarrow> Walk" where
  "walk_step parse now index maxDepth s = (case wk_current s of
       None \<Rightarrow> s
     | Some current \<Rightarrow>
         if current \<in> set (wk_chain s) then s\<lparr>wk_current := None, wk_failure := Some AF_CYCLE_DETECTED\<rparr>
         else let chain = wk_chain s @ [current]; s' = s\<lparr>wk_chain := chain, wk_current := None\<rparr> in
           if length chain > maxDepth then s'\<lparr>wk_failure := Some AF_DEPTH_EXCEEDED\<rparr>
           else case map_of index current of
             None \<Rightarrow> if length chain > 1 then s'\<lparr>wk_failure := Some AF_DETACHED_LINEAGE\<rparr> else s'
           | Some node \<Rightarrow>
               if isRevokedOrExpired parse now node
               then s'\<lparr>wk_failure := Some (if isExpiredOnly parse now node then AF_EXPIRED_ANCESTOR else AF_REVOKED_ANCESTOR)\<rparr>
               else s'\<lparr>wk_current := (if parent_id node = [] then None else Some (parent_id node))\<rparr>)"

definition walk_loop :: "(string \<Rightarrow> int option) \<Rightarrow> int \<Rightarrow> closure_index \<Rightarrow> nat \<Rightarrow> string \<Rightarrow> Walk option" where
  "walk_loop parse now index maxDepth startId =
     while_option (\<lambda>s. set_field (wk_current s)) (walk_step parse now index maxDepth)
       \<lparr>wk_current = Some startId, wk_chain = [], wk_failure = None\<rparr>"

fun outcome_string :: "AncestryFailureReason option \<Rightarrow> string" where
  "outcome_string None = ''ok''"
| "outcome_string (Some AF_CYCLE_DETECTED) = ''cycle''"
| "outcome_string (Some AF_DEPTH_EXCEEDED) = ''depth''"
| "outcome_string (Some AF_DETACHED_LINEAGE) = ''detached''"
| "outcome_string (Some f) = ancestry_failure_string f"

definition traversal_result :: "string \<Rightarrow> string list \<Rightarrow> AncestryFailureReason option \<Rightarrow> AncestryTraversalResult" where
  "traversal_result startId chain failure =
     \<lparr>at_traversal_id = hashCanonical (JObj [(''outcome'', JStr (outcome_string failure)), (''start'', JStr startId),
        (''chain'', JArr (map JStr chain))]),
      at_start_continuity_id = startId, at_ok = (failure = None), at_failure_reason = failure, at_depth = length chain,
      at_root_continuity_id = (if failure = None \<and> chain \<noteq> [] then Some (last chain) else None),
      at_ancestry_chain = chain,
      at_ancestry_hash = hashCanonical (JObj [(''chain'', JArr (map JStr chain)),
        (case failure of None \<Rightarrow> (''ok'', JBool True) | Some f \<Rightarrow> (''failure'', JStr (ancestry_failure_string f)))])\<rparr>"

definition traverseContinuityAncestry ::
  "(string \<Rightarrow> int option) \<Rightarrow> int \<Rightarrow> string \<Rightarrow> closure_index \<Rightarrow> nat \<Rightarrow> AncestryTraversalResult option" where
  "traverseContinuityAncestry parse now startId index maxDepth =
     map_option (\<lambda>s. traversal_result startId (wk_chain s) (wk_failure s)) (walk_loop parse now index maxDepth startId)"

definition detectDetachedContinuities :: "AncestryTraversalResult list \<Rightarrow> string list" where
  "detectDetachedContinuities traversalResults =
     map at_start_continuity_id (filter (\<lambda>r. \<not> at_ok r \<and> at_failure_reason r = Some AF_DETACHED_LINEAGE) traversalResults)"

definition enforceLineageFreshnessBarrier ::
  "(string \<Rightarrow> int option) \<Rightarrow> int \<Rightarrow> string list \<Rightarrow> closure_index \<Rightarrow> int \<Rightarrow> bool \<times> string list" where
  "enforceLineageFreshnessBarrier parse now chain index freshnessHorizonMs =
     (let staleIds = filter (\<lambda>i. case map_of index i of
            None \<Rightarrow> False
          | Some node \<Rightarrow> (case rl_expires_at node of
              None \<Rightarrow> False
            | Some t \<Rightarrow> t \<noteq> [] \<and> (case parse t of None \<Rightarrow> False | Some ms \<Rightarrow> ms > 0 \<and> ms - now < freshnessHorizonMs))) chain
      in (staleIds = [], staleIds))"

section \<open>Orphaned subtrees\<close>

definition orphan :: "closure_index \<Rightarrow> ClosureEntry \<Rightarrow> bool" where
  "orphan index entry \<longleftrightarrow> parent_id entry \<noteq> [] \<and> map_of index (parent_id entry) = None"

definition subtree_record :: "string \<Rightarrow> string \<Rightarrow> string list \<Rightarrow> CollapsedSubtree" where
  "subtree_record i parentId affected =
     (let subtreePayload = JObj [(''affected_ids'', JArr (map JStr (sort affected))), (''missing_parent_id'', JStr parentId),
            (''orphan_root_id'', JStr i)]
      in \<lparr>sb_subtree_id = hashCanonical (JObj [(''subtree'', subtreePayload)]), sb_orphan_root_id = i,
          sb_missing_parent_id = parentId, sb_affected_ids = sort affected, sb_subtree_hash = hashCanonical subtreePayload\<rparr>)"

definition collapseOrphanedSubtrees :: "ClosureEntry list \<Rightarrow> closure_index \<Rightarrow> CollapsedSubtree list option" where
  "collapseOrphanedSubtrees entries index =
     those (map (\<lambda>e. map_option (subtree_record (rl_continuity_id e) (parent_id e))
         (collectSubtree (rl_continuity_id e) (get_kids (buildChildrenMap entries))))
       (filter (orphan index) entries))"

section \<open>Equivalence of the views\<close>

fun hash_sets :: "(string \<times> string list) list \<Rightarrow> ClosureEntry list \<Rightarrow> (string \<times> string list) list" where
  "hash_sets m [] = m"
| "hash_sets m (e # es) = hash_sets
     (if rl_continuity_id e = [] then m
      else let hashes = get_kids m (rl_continuity_id e)
           in AList.update (rl_continuity_id e)
                (if rl_continuity_hash e \<in> set hashes then hashes else hashes @ [rl_continuity_hash e]) m) es"

definition auditLineageEquivalence :: "ClosureRegistryView list \<Rightarrow> LineageEquivalenceAudit" where
  "auditLineageEquivalence views =
     (let hashSetByEntryId = hash_sets [] (concat (map cw_entries views));
          divergentIds = map fst (filter (\<lambda>(i, hashes). length hashes > 1) hashSetByEntryId);
          equivalent = (divergentIds = []);
          referenceTopologyHash = (case views of [] \<Rightarrow> None | v # _ \<Rightarrow> Some (cw_registry_hash v))
      in \<lparr>qa_audit_id = hashCanonical (JObj
            [(''divergent_count'', js_nat (length divergentIds)), (''divergent_entry_ids'', JArr (map JStr (sort divergentIds))),
             (''equivalent'', JBool equivalent), (''reference_topology_hash'', js_opt referenceTopologyHash),
             (''total_entries'', js_nat (length hashSetByEntryId))]),
          qa_equivalent = equivalent, qa_total_entries = length hashSetByEntryId,
          qa_reference_topology_hash = referenceTopologyHash, qa_divergent_entry_ids = sort divergentIds,
          qa_divergent_count = length divergentIds\<rparr>)"

section \<open>Diagnostics, reconstruction and drift\<close>

fun repair_of :: "AncestryFailureReason \<Rightarrow> string \<Rightarrow> nat \<Rightarrow> RepairClass \<times> bool \<times> string" where
  "repair_of AF_DETACHED_LINEAGE i d = (FETCH_MISSING_ANCESTOR, True,
     ''continuity_id '' @ i @ '' has a detached ancestry chain at depth '' @ nat_dec d @
     ''; fetch missing ancestor from other registry views'')"
| "repair_of AF_CYCLE_DETECTED i d = (LINEAGE_PERMANENTLY_INVALID, False,
     ''continuity_id '' @ i @ '' has a cycle in its ancestry chain at depth '' @ nat_dec d @
     ''; lineage is permanently invalid'')"
| "repair_of AF_DEPTH_EXCEEDED i d = (REDUCE_ANCESTRY_DEPTH, True,
     ''continuity_id '' @ i @ '' ancestry depth '' @ nat_dec d @
     '' exceeds configured maximum; reduce ancestry depth or increase the depth limit'')"
| "repair_of AF_EXPIRED_ANCESTOR i d = (REVOKE_EXPIRED_CHAIN, False,
     ''continuity_id '' @ i @ '' has an expired ancestor at depth '' @ nat_dec d @
     ''; lineage requires a fresh continuity chain'')"
| "repair_of AF_REVOKED_ANCESTOR i d = (LINEAGE_PERMANENTLY_INVALID, False,
     ''continuity_id '' @ i @ '' has a revoked ancestor at depth '' @ nat_dec d @
     ''; lineage is permanently invalid'')"

text \<open>The items in order, as functions of the running index.\<close>

definition traversal_diagnostic :: "AncestryTraversalResult \<Rightarrow> nat \<Rightarrow> LineageRepairDiagnostic" where
  "traversal_diagnostic result diagIndex =
     (let affectedId = at_start_continuity_id result;
          (repairClass, repairable, detail) = (case at_failure_reason result of
             Some f \<Rightarrow> repair_of f affectedId (at_depth result)
           | None \<Rightarrow> (LINEAGE_PERMANENTLY_INVALID, False,
               ''continuity_id '' @ affectedId @ '' has an unresolvable ancestry failure''))
      in \<lparr>ld_diagnostic_id = hashCanonical (JObj [(''affected_continuity_id'', JStr affectedId), (''index'', js_nat diagIndex),
             (''repair_class'', JStr (repair_class_string repairClass))]),
          ld_affected_continuity_id = affectedId, ld_repair_class = repairClass, ld_repairable = repairable, ld_detail = detail\<rparr>)"

definition subtree_diagnostic :: "CollapsedSubtree \<Rightarrow> nat \<Rightarrow> LineageRepairDiagnostic" where
  "subtree_diagnostic subtree diagIndex =
     \<lparr>ld_diagnostic_id = hashCanonical (JObj [(''index'', js_nat diagIndex),
        (''repair_class'', JStr (repair_class_string FETCH_MISSING_ANCESTOR)), (''subtree_id'', JStr (sb_subtree_id subtree))]),
      ld_affected_continuity_id = sb_orphan_root_id subtree, ld_repair_class = FETCH_MISSING_ANCESTOR, ld_repairable = True,
      ld_detail = ''orphaned subtree rooted at '' @ sb_orphan_root_id subtree @ '' references missing parent '' @
        sb_missing_parent_id subtree @ ''; affects '' @ nat_dec (length (sb_affected_ids subtree)) @ '' entries''\<rparr>"

definition computeLineageRepairDiagnostics ::
  "AncestryTraversalResult list \<Rightarrow> CollapsedSubtree list \<Rightarrow> LineageRepairDiagnostic list" where
  "computeLineageRepairDiagnostics traversalResults collapsedSubtrees =
     (let items = map traversal_diagnostic (filter (\<lambda>r. \<not> at_ok r) traversalResults) @ map subtree_diagnostic collapsedSubtrees
      in map2 (\<lambda>item i. item i) items [0..<length items])"

definition reconstruction :: "AncestryTraversalResult list \<Rightarrow> ClosureEntry \<Rightarrow> nat \<Rightarrow> LineageReconstructionValidation" where
  "reconstruction traversalResults entry valIndex =
     (let i = rl_continuity_id entry;
          traversal = map_of (rev (map (\<lambda>r. (at_start_continuity_id r, r)) traversalResults)) i;
          validationId = hashCanonical (JObj [(''entry_id'', JStr i), (''val_index'', js_nat valIndex)]);
          failed = (\<lambda>reason. \<lparr>lv_validation_id = validationId, lv_continuity_id = i, lv_reconstructable = False,
             lv_reconstruction_hash = None, lv_expected_hash = rl_continuity_hash entry, lv_failure_reason = Some reason\<rparr>)
      in case traversal of
          None \<Rightarrow> failed ''no_traversal_result''
        | Some t \<Rightarrow>
            if \<not> at_ok t
            then failed (case at_failure_reason t of None \<Rightarrow> ''no_traversal_result'' | Some f \<Rightarrow> ancestry_failure_string f)
            else \<lparr>lv_validation_id = validationId, lv_continuity_id = i, lv_reconstructable = True,
               lv_reconstruction_hash = Some (hashCanonical (JObj
                 [(''ancestry_chain'', JArr (map JStr (at_ancestry_chain t))), (''session_id'', JStr (rl_session_id entry)),
                  (''start_continuity_id'', JStr i)])),
               lv_expected_hash = rl_continuity_hash entry, lv_failure_reason = None\<rparr>)"

definition validateLineageReconstructability ::
  "ClosureEntry list \<Rightarrow> AncestryTraversalResult list \<Rightarrow> LineageReconstructionValidation list" where
  "validateLineageReconstructability entries traversalResults =
     map2 (reconstruction traversalResults) entries [0..<length entries]"

fun drift_of :: "AncestryFailureReason \<Rightarrow> ClosureDriftClass \<times> Severity" where
  "drift_of AF_CYCLE_DETECTED = (ANCESTRY_CYCLE, fatal)"
| "drift_of AF_DEPTH_EXCEEDED = (ANCESTRY_DEPTH_EXCEEDED, fatal)"
| "drift_of AF_DETACHED_LINEAGE = (DETACHED_CONTINUITY, fatal)"
| "drift_of AF_REVOKED_ANCESTOR = (REVOKED_ANCESTOR_PROPAGATION, fatal)"
| "drift_of AF_EXPIRED_ANCESTOR = (FRESHNESS_CHAIN_VIOLATION, degraded)"

definition drift_items ::
  "AncestryTraversalResult list \<Rightarrow> CollapsedSubtree list \<Rightarrow> LineageEquivalenceAudit \<Rightarrow> string list \<Rightarrow>
   ((ClosureDriftClass \<times> Severity) \<times> string option \<times> string) list" where
  "drift_items traversalResults collapsedSubtrees equivalenceAudit freshnessViolationIds =
     map (\<lambda>r. (case at_failure_reason r of None \<Rightarrow> (DETACHED_CONTINUITY, fatal) | Some f \<Rightarrow> drift_of f,
          Some (at_start_continuity_id r),
          ''ancestry traversal failed: '' @ (case at_failure_reason r of None \<Rightarrow> ''null'' | Some f \<Rightarrow> ancestry_failure_string f) @
          '' at depth '' @ nat_dec (at_depth r) @ '' for continuity_id '' @ at_start_continuity_id r))
       (filter (\<lambda>r. \<not> at_ok r) traversalResults) @
     map (\<lambda>s. ((ORPHANED_SUBTREE, fatal), Some (sb_orphan_root_id s),
          ''orphaned subtree: '' @ nat_dec (length (sb_affected_ids s)) @ '' entries cannot reach a valid root (missing parent '' @
          sb_missing_parent_id s @ '')'')) collapsedSubtrees @
     (if qa_equivalent equivalenceAudit then []
      else [((CROSS_REGISTRY_HASH_DIVERGENCE, fatal), None,
          nat_dec (qa_divergent_count equivalenceAudit) @ '' continuity entries have divergent hashes across registry views'')]) @
     map (\<lambda>i. ((FRESHNESS_CHAIN_VIOLATION, degraded), Some i,
          ''continuity_id '' @ i @ '' violates the freshness barrier in its ancestry chain'')) (dedup_loop id [] freshnessViolationIds)"

definition classifyLineageDrift ::
  "AncestryTraversalResult list \<Rightarrow> CollapsedSubtree list \<Rightarrow> LineageEquivalenceAudit \<Rightarrow> string list \<Rightarrow> string \<Rightarrow>
   LineageDriftClassification list" where
  "classifyLineageDrift traversalResults collapsedSubtrees equivalenceAudit freshnessViolationIds closureId =
     (let items = drift_items traversalResults collapsedSubtrees equivalenceAudit freshnessViolationIds
      in map2 (\<lambda>((dc, sev), affected, detail) i.
           \<lparr>lc_classification_id = hashCanonical (JObj [(''class_index'', js_nat i), (''closure_id'', JStr closureId)]),
            lc_drift_class = dc, lc_affected_continuity_id = affected, lc_severity = sev, lc_detail = detail\<rparr>)
         items [0..<length items])"

definition buildNullClosure :: "string \<Rightarrow> ContinuityLineageClosureVerification" where
  "buildNullClosure closureId =
     \<lparr>cc_closure_id = closureId, cc_closure_result = CLOSURE_NULL,
      cc_lineage_topology_hash = hashCanonical (JObj [(''closure_id'', JStr closureId), (''null'', JBool True)]),
      cc_entry_count = 0, cc_traversal_results = [], cc_detached_ids = [], cc_collapsed_subtrees = [],
      cc_equivalence_audit =
        \<lparr>qa_audit_id = hashCanonical (JObj [(''closure_id'', JStr closureId), (''null_audit'', JBool True)]),
         qa_equivalent = False, qa_total_entries = 0, qa_reference_topology_hash = None, qa_divergent_entry_ids = [],
         qa_divergent_count = 0\<rparr>,
      cc_repair_diagnostics = [], cc_reconstruction_validations = [], cc_drift_classifications = []\<rparr>"

section \<open>The report\<close>

definition read_closure_entry :: "jsval \<Rightarrow> ClosureEntry" where
  "read_closure_entry e =
     \<lparr>rl_continuity_id = js_trim (str_field e ''continuity_id''), rl_session_id = str_field e ''session_id'',
      rl_parent_continuity_id = opt_field e ''parent_continuity_id'', rl_continuity_hash = str_field e ''continuity_hash'',
      rl_status = str_field e ''status'', rl_revoked_at = opt_field e ''revoked_at'', rl_expires_at = opt_field e ''expires_at'',
      cn_identity_id = opt_field e ''identity_id''\<rparr>"

fun read_closure_entries :: "jsval list \<Rightarrow> ClosureEntry list option" where
  "read_closure_entries [] = Some []"
| "read_closure_entries (re # res) =
     (let e = safeObj re in
      if hasForbiddenField e then None
      else if js_trim (str_field e ''continuity_id'') = [] then read_closure_entries res
      else map_option (Cons (read_closure_entry e)) (read_closure_entries res))"

fun read_closure_views :: "jsval list \<Rightarrow> ClosureRegistryView list option" where
  "read_closure_views [] = Some []"
| "read_closure_views (rv # rvs) =
     (let v = safeObj rv in
      if hasForbiddenField v then None
      else if js_trim (str_field v ''node_id'') = [] \<or> js_trim (str_field v ''registry_epoch'') = [] \<or>
          js_trim (str_field v ''lineage_root_id'') = [] \<or> \<not> isValidSha256 (js_get v ''registry_hash'')
        then read_closure_views rvs
      else case read_closure_entries (js_array (js_get v ''entries'')) of
          None \<Rightarrow> None
        | Some entries \<Rightarrow> map_option (Cons
            \<lparr>cw_node_id = js_String (js_get v ''node_id''), cw_registry_epoch = js_String (js_get v ''registry_epoch''),
             cw_lineage_root_id = js_String (js_get v ''lineage_root_id''), cw_entries = entries,
             cw_registry_hash = js_String (js_get v ''registry_hash'')\<rparr>) (read_closure_views rvs))"

definition closure_entries :: "ClosureRegistryView list \<Rightarrow> closure_index" where
  "closure_entries views = merge_loop [] (concat (map cw_entries views))"

definition read_max_ancestry_depth :: "jsval \<Rightarrow> nat" where
  "read_max_ancestry_depth v =
     (case v of JNum (NInt i) \<Rightarrow> if i > 0 then nat i else SYSTEM_MAX_ANCESTRY_DEPTH | _ \<Rightarrow> SYSTEM_MAX_ANCESTRY_DEPTH)"

definition read_horizon :: "jsval \<Rightarrow> int option" where
  "read_horizon v = (case v of JNum (NInt i) \<Rightarrow> if i > 0 then Some i else None | _ \<Rightarrow> None)"

record ClosureInput =
  ci_views :: "ClosureRegistryView list"
  ci_max_depth :: nat
  ci_horizon :: "int option"

definition closure_result_of ::
  "AncestryTraversalResult list \<Rightarrow> string list \<Rightarrow> CollapsedSubtree list \<Rightarrow> LineageEquivalenceAudit \<Rightarrow> nat \<Rightarrow>
   ContinuityClosureResult" where
  "closure_result_of results detachedIds collapsedSubtrees audit viewCount =
     (if list_ex (\<lambda>r. at_failure_reason r = Some AF_CYCLE_DETECTED) results then CLOSURE_BROKEN_CYCLE
      else if list_ex (\<lambda>r. at_failure_reason r = Some AF_DEPTH_EXCEEDED) results then CLOSURE_BROKEN_DEPTH
      else if length detachedIds > 0 then CLOSURE_BROKEN_DETACHED
      else if length collapsedSubtrees > 0 then CLOSURE_BROKEN_ORPHAN
      else if \<not> qa_equivalent audit \<and> viewCount > 1 then CLOSURE_PARTIAL_VISIBILITY
      else CLOSURE_VERIFIED)"

definition freshness_violations ::
  "(string \<Rightarrow> int option) \<Rightarrow> int \<Rightarrow> closure_index \<Rightarrow> int option \<Rightarrow> AncestryTraversalResult list \<Rightarrow> string list" where
  "freshness_violations parse now index horizon results = (case horizon of
       None \<Rightarrow> []
     | Some h \<Rightarrow> dedup_loop id [] (concat (map (\<lambda>r. snd (enforceLineageFreshnessBarrier parse now (at_ancestry_chain r) index h))
         (filter at_ok results))))"

definition closure_report ::
  "(string \<Rightarrow> int option) \<Rightarrow> int \<Rightarrow> (string \<Rightarrow> string \<Rightarrow> bool) \<Rightarrow> string \<Rightarrow> ClosureInput \<Rightarrow>
   ContinuityLineageClosureVerification option" where
  "closure_report parse now loc closureId inp =
     (let index = closure_entries (ci_views inp); allEntries = map snd index; maxDepth = ci_max_depth inp
      in case (those (map (\<lambda>e. traverseContinuityAncestry parse now (rl_continuity_id e) index maxDepth) allEntries),
               collapseOrphanedSubtrees allEntries index) of
          (Some results, Some subtrees) \<Rightarrow>
            (let detachedIds = detectDetachedContinuities results;
                 audit = auditLineageEquivalence (ci_views inp);
                 stale = freshness_violations parse now index (ci_horizon inp) results
             in Some
               \<lparr>cc_closure_id = closureId,
                cc_closure_result = closure_result_of results detachedIds subtrees audit (length (ci_views inp)),
                cc_lineage_topology_hash = computeClosureTopologyHash loc allEntries, cc_entry_count = length allEntries,
                cc_traversal_results = results, cc_detached_ids = detachedIds, cc_collapsed_subtrees = subtrees,
                cc_equivalence_audit = audit,
                cc_repair_diagnostics = computeLineageRepairDiagnostics results subtrees,
                cc_reconstruction_validations = validateLineageReconstructability allEntries results,
                cc_drift_classifications = classifyLineageDrift results subtrees audit stale closureId\<rparr>)
        | _ \<Rightarrow> None)"

definition read_closure :: "jsval \<Rightarrow> string \<times> ClosureInput option" where
  "read_closure input = (let safeInput = safeObj input in
     if \<not> is_nonblank_str (js_get safeInput ''closure_id'') then (''unknown'', None)
     else let closureId = js_trim (js_String (js_get safeInput ''closure_id'')) in
       if js_get safeInput ''evidence_only'' \<noteq> JBool True then (closureId, None)
       else if hasForbiddenField safeInput then (closureId, None)
       else if js_array (js_get safeInput ''registry_views'') = [] then (closureId, None)
       else case read_closure_views (js_array (js_get safeInput ''registry_views'')) of
           None \<Rightarrow> (closureId, None)
         | Some views \<Rightarrow>
             if views = [] \<or> closure_entries views = [] then (closureId, None)
             else (closureId, Some
               \<lparr>ci_views = views, ci_max_depth = read_max_ancestry_depth (js_get safeInput ''max_ancestry_depth''),
                ci_horizon = read_horizon (js_get safeInput ''freshness_horizon_ms'')\<rparr>))"

definition verifyDistributedContinuityLineageClosure ::
  "(string \<Rightarrow> int option) \<Rightarrow> int \<Rightarrow> (string \<Rightarrow> string \<Rightarrow> bool) \<Rightarrow> jsval \<Rightarrow> ContinuityLineageClosureVerification option" where
  "verifyDistributedContinuityLineageClosure parse now loc input = (case read_closure input of
       (closureId, None) \<Rightarrow> Some (buildNullClosure closureId)
     | (closureId, Some inp) \<Rightarrow> closure_report parse now loc closureId inp)"

end
