(* ===== verification/Closure_Facts.thy ===== *)
theory Closure_Facts
  imports Closure Revocation_Report
begin

text \<open>
  Facts on \<^verbatim>\<open>src/continuity-lineage-closure-hardening.ts\<close>: the walks and the subtree collection end,
  what they compute in terms of iterated parents, and what a verified closure means.
\<close>

section \<open>The registry is a forest\<close>

lemma wf_closure [simp]: "wf_index (closure_entries views)"
  unfolding closure_entries_def by (rule wf_merge_loop) (simp add: wf_index_def)

interpretation closure_forest: forest "get_kids (buildChildrenMap (map snd (closure_entries views)))" "parent_in (closure_entries views)"
  for views
  by (rule forest_index) simp

lemma revoked_is_barriered: "isRevokedOrExpired parse now e = isRevocationBarriered parse now e"
  by (simp add: isRevokedOrExpired_def isRevocationBarriered_def split: option.split)

section \<open>Subtrees\<close>

lemma self_or_descends: "y = r \<or> descends par r y \<longleftrightarrow> (\<exists>n. anc par n y = Some r)"
proof
  assume "\<exists>n. anc par n y = Some r"
  then obtain n where "anc par n y = Some r" ..
  then show "y = r \<or> descends par r y" by (cases n) (auto simp: descends_def)
qed (auto simp: descends_def simp del: anc.simps(2) intro: anc.simps(1))

definition collect_inv :: "(string \<Rightarrow> string option) \<Rightarrow> string \<Rightarrow> string list \<times> string list \<Rightarrow> bool" where
  "collect_inv par start s \<longleftrightarrow> (case s of (queue, result) \<Rightarrow>
     distinct result \<and> start \<in> set queue \<union> set result \<and>
     (\<forall>y\<in>set queue \<union> set result. y = start \<or> descends par start y) \<and>
     (\<forall>x\<in>set result. \<forall>c. par c = Some x \<longrightarrow> c \<in> set queue \<union> set result))"

context forest
begin

lemma collect_step_inv: "collect_inv par start s \<Longrightarrow> fst s \<noteq> [] \<Longrightarrow> collect_inv par start (collect_step kids s)"
proof -
  assume inv: "collect_inv par start s" and "fst s \<noteq> []"
  then obtain i queue result where s: "s = (i # queue, result)" by (metis neq_Nil_conv prod.collapse)
  have "descends par start c" if "par c = Some i" for c
    using descends_child [where par = par and c = c and x = i and root = start] that inv by (simp add: s collect_inv_def)
  with inv show ?thesis by (auto simp: s collect_inv_def collect_step_def kids_iff)
qed

lemma card_pending:
  assumes "x \<notin> V"
  shows "length (kids x) + card {c. \<exists>y. par c = Some y \<and> y \<notin> insert x V} = card {c. \<exists>y. par c = Some y \<and> y \<notin> V}"
proof -
  have "{c. \<exists>y. par c = Some y \<and> y \<notin> V} = set (kids x) \<union> {c. \<exists>y. par c = Some y \<and> y \<notin> insert x V}"
    using assms by (auto simp: kids_iff)
  moreover have "finite {c. \<exists>y. par c = Some y \<and> y \<notin> insert x V}" by (rule finite_subset [OF _ finite_dom]) auto
  moreover have "set (kids x) \<inter> {c. \<exists>y. par c = Some y \<and> y \<notin> insert x V} = {}" by (auto simp: kids_iff)
  ultimately show ?thesis using distinct_card [OF distinct_kids, of x] by (simp add: card_Un_disjoint)
qed

lemma collect_step_measure:
  assumes "fst s \<noteq> []"
  shows "length (fst (collect_step kids s)) + card {c. \<exists>y. par c = Some y \<and> y \<notin> set (snd (collect_step kids s))}
     < length (fst s) + card {c. \<exists>y. par c = Some y \<and> y \<notin> set (snd s)}"
proof -
  obtain i queue result where s: "s = (i # queue, result)" using assms by (metis neq_Nil_conv prod.collapse)
  show ?thesis using card_pending [of i "set result"] by (auto simp: s collect_step_def)
qed

lemma collect_exact:
  obtains ys where "collectSubtree start kids = Some ys" "distinct ys" "set ys = {y. y = start \<or> descends par start y}"
proof -
  obtain s where s: "while_option (\<lambda>s. fst s \<noteq> []) (collect_step kids) ([start], []) = Some s"
    using measure_while_option_Some [where P = "\<lambda>_. True" and b = "\<lambda>s. fst s \<noteq> []" and c = "collect_step kids"
        and f = "\<lambda>s. length (fst s) + card {c. \<exists>y. par c = Some y \<and> y \<notin> set (snd s)}"]
      collect_step_measure by blast
  have "collect_inv par start ([start], [])" by (simp add: collect_inv_def)
  then have inv: "collect_inv par start s"
    using while_option_rule [OF _ s, of "collect_inv par start"] collect_step_inv by blast
  have "fst s = []" using while_option_stop [OF s] by simp
  then obtain ys where ys: "s = ([], ys)" by (metis prod.collapse)
  have closed: "\<And>x c. x \<in> set ys \<Longrightarrow> par c = Some x \<Longrightarrow> c \<in> set ys" and st: "start \<in> set ys"
    and sub: "\<And>y. y \<in> set ys \<Longrightarrow> y = start \<or> descends par start y" and dist: "distinct ys"
    using inv by (auto simp: ys collect_inv_def)
  have "y \<in> set ys" if "anc par n y = Some start" for n y
    using that
  proof (induction n arbitrary: y)
    case (Suc n)
    then obtain p where "par y = Some p" "anc par n p = Some start"
      by (cases "par y") (auto simp: anc_Suc_left simp del: anc.simps(2))
    with Suc.IH closed show ?case by blast
  qed (use st in simp)
  then have "set ys = {y. y = start \<or> descends par start y}" using sub st unfolding descends_def by blast
  with s ys dist show thesis by (intro that [of ys]) (simp_all add: collectSubtree_def)
qed

end

section \<open>The walk to the root\<close>

text \<open>Where a walk stops: at an id that is not registered, at a barriered entry or at a root.\<close>

definition stops :: "(string \<Rightarrow> int option) \<Rightarrow> int \<Rightarrow> closure_index \<Rightarrow> string \<Rightarrow> bool" where
  "stops parse now index x \<longleftrightarrow> map_of index x = None \<or> barred parse now index x \<or> parent_in index x = None"

definition walks_on :: "(string \<Rightarrow> int option) \<Rightarrow> int \<Rightarrow> closure_index \<Rightarrow> string \<Rightarrow> nat \<Rightarrow> bool" where
  "walks_on parse now index i n \<longleftrightarrow> (\<forall>k<n. \<exists>x. anc (parent_in index) k i = Some x \<and> \<not> stops parse now index x)"

lemma walk_step_eq:
  assumes "wk_current s = Some c"
  shows "walk_step parse now index M s =
    (if c \<in> set (wk_chain s) then s\<lparr>wk_current := None, wk_failure := Some AF_CYCLE_DETECTED\<rparr>
     else if length (wk_chain s) \<ge> M then s\<lparr>wk_chain := wk_chain s @ [c], wk_current := None, wk_failure := Some AF_DEPTH_EXCEEDED\<rparr>
     else case map_of index c of
         None \<Rightarrow> if wk_chain s = [] then s\<lparr>wk_chain := [c], wk_current := None\<rparr>
                 else s\<lparr>wk_chain := wk_chain s @ [c], wk_current := None, wk_failure := Some AF_DETACHED_LINEAGE\<rparr>
       | Some node \<Rightarrow> if barred parse now index c
           then s\<lparr>wk_chain := wk_chain s @ [c], wk_current := None,
                  wk_failure := Some (if isExpiredOnly parse now node then AF_EXPIRED_ANCESTOR else AF_REVOKED_ANCESTOR)\<rparr>
           else s\<lparr>wk_chain := wk_chain s @ [c], wk_current := parent_in index c\<rparr>)"
  using assms
  by (auto simp: walk_step_def Let_def parent_in_def barred_def revoked_is_barriered less_Suc_eq_le Suc_le_eq split: option.split)

text \<open>What each outcome says about the ancestors of the start.\<close>

fun walk_outcome :: "(string \<Rightarrow> int option) \<Rightarrow> int \<Rightarrow> closure_index \<Rightarrow> nat \<Rightarrow> string \<Rightarrow> AncestryFailureReason option \<Rightarrow> bool" where
  "walk_outcome parse now index M i (Some AF_CYCLE_DETECTED) = (\<forall>n. walks_on parse now index i n)"
| "walk_outcome parse now index M i (Some AF_DEPTH_EXCEEDED) = walks_on parse now index i M"
| "walk_outcome parse now index M i (Some AF_DETACHED_LINEAGE) =
     (\<exists>n<M. \<exists>x. n > 0 \<and> walks_on parse now index i n \<and> anc (parent_in index) n i = Some x \<and> map_of index x = None)"
| "walk_outcome parse now index M i (Some _) =
     (\<exists>n<M. \<exists>x. walks_on parse now index i n \<and> anc (parent_in index) n i = Some x \<and> barred parse now index x)"
| "walk_outcome parse now index M i None = (i = [] \<or> (\<exists>n<M. \<exists>x. walks_on parse now index i n \<and>
     anc (parent_in index) n i = Some x \<and> \<not> barred parse now index x \<and> parent_in index x = None \<and> (n = 0 \<or> map_of index x \<noteq> None)))"

definition walk_inv :: "(string \<Rightarrow> int option) \<Rightarrow> int \<Rightarrow> closure_index \<Rightarrow> nat \<Rightarrow> string \<Rightarrow> Walk \<Rightarrow> bool" where
  "walk_inv parse now index M i s \<longleftrightarrow>
     (\<forall>k<length (wk_chain s). anc (parent_in index) k i = Some (wk_chain s ! k)) \<and>
     (case wk_current s of
        Some c \<Rightarrow> wk_failure s = None \<and> anc (parent_in index) (length (wk_chain s)) i = Some c \<and>
          walks_on parse now index i (length (wk_chain s)) \<and> (c = [] \<longrightarrow> i = [])
      | None \<Rightarrow> walk_outcome parse now index M i (wk_failure s))"

lemma walks_cycle:
  assumes "anc (parent_in index) j i = anc (parent_in index) n i" "j < n" "walks_on parse now index i n"
  shows "walks_on parse now index i m"
proof -
  have "\<exists>x. anc (parent_in index) k i = Some x \<and> \<not> stops parse now index x" for k
  proof (induction k rule: less_induct)
    case (less k)
    show ?case
    proof (cases "k < n")
      case True
      with assms(3) show ?thesis by (simp add: walks_on_def)
    next
      case False
      then obtain l where l: "k = n + l" by (metis le_add_diff_inverse not_less)
      then have "anc (parent_in index) k i = anc (parent_in index) (j + l) i" using assms(1) by (simp add: anc_add)
      with less.IH [of "j + l"] l assms(2) show ?thesis by simp
    qed
  qed
  then show ?thesis by (simp add: walks_on_def)
qed

lemma parent_nonempty: "parent_in index c = Some p \<Longrightarrow> p \<noteq> []"
  by (auto simp: parent_in_def split: option.splits if_splits)

lemma walk_step_inv:
  assumes inv: "walk_inv parse now index M i s" and cur: "wk_current s = Some c" and "c \<noteq> []"
  shows "walk_inv parse now index M i (walk_step parse now index M s)"
proof -
  let ?P = "parent_in index" and ?n = "length (wk_chain s)"
  have chain: "\<And>k. k < ?n \<Longrightarrow> anc ?P k i = Some (wk_chain s ! k)" and c: "anc ?P ?n i = Some c"
    and ok: "wk_failure s = None" and on: "walks_on parse now index i ?n"
    using inv cur by (auto simp: walk_inv_def)
  have chain': "anc ?P k i = Some ((wk_chain s @ [c]) ! k)" if "k < Suc ?n" for k
    using that chain c by (auto simp: nth_append less_Suc_eq)
  consider (cycle) "c \<in> set (wk_chain s)" | (deep) "c \<notin> set (wk_chain s)" "M \<le> ?n"
    | (absent) "c \<notin> set (wk_chain s)" "\<not> M \<le> ?n" "map_of index c = None"
    | (bar) node where "c \<notin> set (wk_chain s)" "\<not> M \<le> ?n" "map_of index c = Some node" "barred parse now index c"
    | (root) node where "c \<notin> set (wk_chain s)" "\<not> M \<le> ?n" "map_of index c = Some node" "\<not> barred parse now index c" "?P c = None"
    | (up) node p where "c \<notin> set (wk_chain s)" "\<not> M \<le> ?n" "map_of index c = Some node" "\<not> barred parse now index c" "?P c = Some p"
    by (cases "map_of index c"; cases "?P c") blast+
  then show ?thesis
  proof cases
    case cycle
    then obtain j where "j < ?n" "wk_chain s ! j = c" by (auto simp: in_set_conv_nth)
    then have "anc ?P j i = anc ?P ?n i" using chain c by simp
    then have "\<forall>m. walks_on parse now index i m" using walks_cycle [OF _ \<open>j < ?n\<close> on] by blast
    then show ?thesis using cycle chain by (simp add: walk_step_eq [OF cur] walk_inv_def)
  next
    case deep
    have "walks_on parse now index i M" using on deep(2) by (simp add: walks_on_def)
    then show ?thesis using deep chain' by (simp add: walk_step_eq [OF cur] walk_inv_def)
  next
    case absent
    have "walk_outcome parse now index M i (if wk_chain s = [] then None else Some AF_DETACHED_LINEAGE)"
      using absent on c by (auto simp: parent_in_def barred_def intro!: exI [of _ ?n])
    then show ?thesis using absent chain' ok by (auto simp: walk_step_eq [OF cur] walk_inv_def)
  next
    case (bar node)
    have "walk_outcome parse now index M i (Some f)" if "f = AF_EXPIRED_ANCESTOR \<or> f = AF_REVOKED_ANCESTOR" for f
      using bar on c that by (auto intro!: exI [of _ ?n])
    then show ?thesis using bar chain' by (auto simp: walk_step_eq [OF cur] walk_inv_def)
  next
    case (root node)
    have "walk_outcome parse now index M i None" using root on c by (auto intro!: exI [of _ ?n])
    then show ?thesis using root chain' ok by (auto simp: walk_step_eq [OF cur] walk_inv_def)
  next
    case (up node p)
    have "walks_on parse now index i (Suc ?n)" using on up c by (auto simp: walks_on_def stops_def less_Suc_eq)
    then show ?thesis using up chain' ok c parent_nonempty [OF up(5)] by (simp add: walk_step_eq [OF cur] walk_inv_def)
  qed
qed

lemma walk_ends: "\<exists>s. walk_loop parse now index M i = Some s"
  unfolding walk_loop_def
proof (rule measure_while_option_Some [where P = "\<lambda>_. True" and f = "\<lambda>s. case wk_current s of None \<Rightarrow> 0 | Some c \<Rightarrow> Suc M - length (wk_chain s) + 1"])
  show "True \<and> (case wk_current (walk_step parse now index M s) of None \<Rightarrow> 0
        | Some c \<Rightarrow> Suc M - length (wk_chain (walk_step parse now index M s)) + 1)
      < (case wk_current s of None \<Rightarrow> 0 | Some c \<Rightarrow> Suc M - length (wk_chain s) + 1)"
    if "set_field (wk_current s)" for s
    using that by (auto simp: set_field_def walk_step_eq split: option.split)
qed simp

lemma walk_result:
  assumes "walk_loop parse now index M i = Some s"
  shows "walk_outcome parse now index M i (wk_failure s)"
    and "\<forall>k<length (wk_chain s). anc (parent_in index) k i = Some (wk_chain s ! k)"
proof -
  have init: "walk_inv parse now index M i \<lparr>wk_current = Some i, wk_chain = [], wk_failure = None\<rparr>"
    by (simp add: walk_inv_def walks_on_def)
  have step: "walk_inv parse now index M i (walk_step parse now index M s)"
    if "walk_inv parse now index M i s" "set_field (wk_current s)" for s
    using that walk_step_inv [OF that(1)] by (auto simp: set_field_def)
  have inv: "walk_inv parse now index M i s"
    using while_option_rule [OF _ assms [unfolded walk_loop_def], of "walk_inv parse now index M i"] step init by blast
  have "\<not> set_field (wk_current s)" using while_option_stop [OF assms [unfolded walk_loop_def]] by simp
  then have "wk_current s = None \<or> wk_current s = Some []" by (auto simp: set_field_def)
  with inv show "walk_outcome parse now index M i (wk_failure s)" by (auto simp: walk_inv_def)
  show "\<forall>k<length (wk_chain s). anc (parent_in index) k i = Some (wk_chain s ! k)" using inv by (simp add: walk_inv_def)
qed

lemma traverse_closure:
  obtains r where "traverseContinuityAncestry parse now i index M = Some r" "at_start_continuity_id r = i"
    "walk_outcome parse now index M i (at_failure_reason r)" "at_ok r \<longleftrightarrow> at_failure_reason r = None"
proof -
  obtain s where s: "walk_loop parse now index M i = Some s" using walk_ends by blast
  with walk_result(1) [OF s] show thesis
    by (intro that [of "traversal_result i (wk_chain s) (wk_failure s)"]) (simp_all add: traverseContinuityAncestry_def traversal_result_def)
qed

section \<open>The report\<close>

lemma orphans_exact:
  fixes views
  defines "index \<equiv> closure_entries views"
  obtains ts where "collapseOrphanedSubtrees (map snd index) index = Some ts"
    "map sb_orphan_root_id ts = map rl_continuity_id (filter (orphan index) (map snd index))"
    "\<And>t. t \<in> set ts \<Longrightarrow> set (sb_affected_ids t) =
       {y. y = sb_orphan_root_id t \<or> descends (parent_in index) (sb_orphan_root_id t) y}"
proof -
  let ?k = "get_kids (buildChildrenMap (map snd index))"
  define C where "C i = the (collectSubtree i ?k)" for i
  have C: "collectSubtree i ?k = Some (C i)" "set (C i) = {y. y = i \<or> descends (parent_in index) i y}" for i
    using closure_forest.collect_exact [of i views] unfolding C_def index_def by (metis option.sel)+
  let ?os = "filter (orphan index) (map snd index)"
  have "those (map (\<lambda>e. map_option (subtree_record (rl_continuity_id e) (parent_id e)) (collectSubtree (rl_continuity_id e) ?k)) ?os) =
      Some (map (\<lambda>e. subtree_record (rl_continuity_id e) (parent_id e) (C (rl_continuity_id e))) ?os)"
    by (subst those_map) (simp_all add: C(1))
  then have "collapseOrphanedSubtrees (map snd index) index =
      Some (map (\<lambda>e. subtree_record (rl_continuity_id e) (parent_id e) (C (rl_continuity_id e))) ?os)"
    by (simp add: collapseOrphanedSubtrees_def)
  then show thesis
  proof (rule that)
    show "map sb_orphan_root_id (map (\<lambda>e. subtree_record (rl_continuity_id e) (parent_id e) (C (rl_continuity_id e))) ?os) = map rl_continuity_id ?os"
      by (simp add: subtree_record_def Let_def)
    show "set (sb_affected_ids t) = {y. y = sb_orphan_root_id t \<or> descends (parent_in index) (sb_orphan_root_id t) y}"
      if "t \<in> set (map (\<lambda>e. subtree_record (rl_continuity_id e) (parent_id e) (C (rl_continuity_id e))) ?os)" for t
    proof -
      have "t \<in> (\<lambda>e. subtree_record (rl_continuity_id e) (parent_id e) (C (rl_continuity_id e))) ` set ?os" using that by (simp only: set_map)
      then obtain e :: ClosureEntry where "t = subtree_record (rl_continuity_id e) (parent_id e) (C (rl_continuity_id e))" by (rule imageE)
      then have "sb_orphan_root_id t = rl_continuity_id e" "sb_affected_ids t = sort (C (rl_continuity_id e))"
        by (simp_all add: subtree_record_def Let_def)
      then show ?thesis by (simp add: C(2))
    qed
  qed
qed

lemma closure_parts:
  fixes inp parse now
  defines "index \<equiv> closure_entries (ci_views inp)"
  obtains r ts where "closure_report parse now loc cid inp = Some r" "cc_closure_id r = cid"
    "collapseOrphanedSubtrees (map snd index) index = Some ts" "cc_collapsed_subtrees r = ts"
    "cc_traversal_results r = map (\<lambda>e. the (traverseContinuityAncestry parse now (rl_continuity_id e) index (ci_max_depth inp))) (map snd index)"
    "cc_closure_result r = closure_result_of (cc_traversal_results r) (detectDetachedContinuities (cc_traversal_results r))
       ts (auditLineageEquivalence (ci_views inp)) (length (ci_views inp))"
proof -
  have t: "those (map (\<lambda>e. traverseContinuityAncestry parse now (rl_continuity_id e) index (ci_max_depth inp)) (map snd index)) =
      Some (map (\<lambda>e. the (traverseContinuityAncestry parse now (rl_continuity_id e) index (ci_max_depth inp))) (map snd index))"
    by (rule those_map) (metis traverse_closure)
  obtain ts where ts: "collapseOrphanedSubtrees (map snd index) index = Some ts"
    unfolding index_def using orphans_exact by blast
  obtain r where r: "closure_report parse now loc cid inp = Some r"
    unfolding closure_report_def Let_def index_def [symmetric] t ts by simp
  from r show thesis
    unfolding closure_report_def Let_def index_def [symmetric] t ts
    by (intro that [OF r _ ts]) auto
qed

lemma closure_ends: "\<exists>r. verifyDistributedContinuityLineageClosure parse now loc input = Some r \<and>
    (cc_closure_result r = CLOSURE_NULL \<longleftrightarrow> snd (read_closure input) = None)"
proof (cases "read_closure input")
  case (Pair cid inp)
  show ?thesis
  proof (cases inp)
    case None
    then show ?thesis using Pair by (simp add: verifyDistributedContinuityLineageClosure_def buildNullClosure_def)
  next
    case (Some i)
    obtain r ts where "closure_report parse now loc cid i = Some r"
        "cc_closure_result r = closure_result_of (cc_traversal_results r) (detectDetachedContinuities (cc_traversal_results r))
           ts (auditLineageEquivalence (ci_views i)) (length (ci_views i))"
      by (rule closure_parts [of parse now loc cid i]) blast
    then show ?thesis using Pair Some by (auto simp: verifyDistributedContinuityLineageClosure_def closure_result_of_def)
  qed
qed

text \<open>
  A walk that neither runs in a circle nor exceeds the depth stops within the depth; when all
  parents are registered it cannot be detached.
\<close>

lemma outcome_stops:
  assumes "walk_outcome parse now index M i f" "i \<noteq> []"
  shows "f \<notin> {Some AF_CYCLE_DETECTED, Some AF_DEPTH_EXCEEDED} \<longleftrightarrow>
     (\<exists>n<M. \<exists>x. anc (parent_in index) n i = Some x \<and> stops parse now index x)"
proof -
  have none: "\<not> (\<exists>n<M. \<exists>x. anc (parent_in index) n i = Some x \<and> stops parse now index x)" if "walks_on parse now index i M"
    using that by (auto simp: walks_on_def)
  show ?thesis
  proof (cases f)
    case None
    then show ?thesis using assms by (auto simp: stops_def)
  next
    case (Some r)
    then show ?thesis using assms none by (cases r) (auto simp: stops_def)
  qed
qed

lemma detached_orphan:
  assumes wf: "wf_index index" and "walk_outcome parse now index M i (Some AF_DETACHED_LINEAGE)"
  shows "\<exists>e\<in>snd ` set index. orphan index e"
proof -
  obtain n x where "n > 0" "anc (parent_in index) n i = Some x" and x: "map_of index x = None" using assms(2) by auto
  then obtain y where "parent_in index y = Some x" by (cases n) (auto simp: bind_eq_Some_conv)
  then obtain e where "map_of index y = Some e" "parent_id e = x" "x \<noteq> []"
    by (auto simp: parent_in_def split: option.splits if_splits)
  with x wf_map_of [OF wf] show ?thesis by (auto simp: orphan_def)
qed

lemma read_closure_entries_ids: "read_closure_entries es = Some rs \<Longrightarrow> e \<in> set rs \<Longrightarrow> rl_continuity_id e \<noteq> []"
proof (induction es arbitrary: rs)
  case (Cons re res)
  have "read_closure_entries res = Some rs \<or> (\<exists>ws. rs = read_closure_entry (safeObj re) # ws \<and> read_closure_entries res = Some ws \<and>
      js_trim (str_field (safeObj re) ''continuity_id'') \<noteq> [])"
    using Cons.prems(1) by (auto simp: Let_def split: if_splits)
  then show ?case using Cons by (auto simp: read_closure_entry_def)
qed simp

lemma read_closure_views_ids:
  "read_closure_views vs = Some views \<Longrightarrow> v \<in> set views \<Longrightarrow> e \<in> set (cw_entries v) \<Longrightarrow> rl_continuity_id e \<noteq> []"
proof (induction vs arbitrary: views)
  case (Cons rv rvs)
  have "read_closure_views rvs = Some views \<or> (\<exists>w ws. views = w # ws \<and> read_closure_views rvs = Some ws \<and>
      read_closure_entries (js_array (js_get (safeObj rv) ''entries'')) = Some (cw_entries w))"
    using Cons.prems(1) by (auto simp: Let_def split: if_splits option.splits)
  then show ?case using Cons read_closure_entries_ids by (metis set_ConsD)
qed simp

lemma read_closure_ids:
  assumes "read_closure input = (cid, Some inp)" "e \<in> snd ` set (closure_entries (ci_views inp))"
  shows "rl_continuity_id e \<noteq> []"
proof -
  obtain vs where "read_closure_views vs = Some (ci_views inp)"
    using assms(1) by (auto simp: read_closure_def Let_def split: if_splits option.splits)
  with assms(2) merge_loop_values [of "[]" "concat (map cw_entries (ci_views inp))"] read_closure_views_ids
  show ?thesis by (auto simp: closure_entries_def)
qed

lemma closure_result_sound:
  "closure_result_of rs ds ts audit n \<in> {CLOSURE_VERIFIED, CLOSURE_PARTIAL_VISIBILITY} \<longleftrightarrow>
     (\<forall>r\<in>set rs. at_failure_reason r \<notin> {Some AF_CYCLE_DETECTED, Some AF_DEPTH_EXCEEDED}) \<and> ds = [] \<and> ts = []"
  unfolding closure_result_of_def list_ex_iff by (auto split: if_splits)

lemma closure_sound_iff:
  assumes "read_closure input = (cid, Some inp)"
    and "verifyDistributedContinuityLineageClosure parse now loc input = Some r"
    and index: "index = closure_entries (ci_views inp)"
  shows "cc_closure_result r \<in> {CLOSURE_VERIFIED, CLOSURE_PARTIAL_VISIBILITY} \<longleftrightarrow>
     (\<forall>e\<in>snd ` set index. \<not> orphan index e) \<and>
     (\<forall>e\<in>snd ` set index. \<exists>n<ci_max_depth inp. \<exists>x. anc (parent_in index) n (rl_continuity_id e) = Some x \<and> stops parse now index x)"
proof -
  define T where "T e = the (traverseContinuityAncestry parse now (rl_continuity_id e) index (ci_max_depth inp))" for e :: ClosureEntry
  have "closure_report parse now loc cid inp = Some r"
    using assms by (simp add: verifyDistributedContinuityLineageClosure_def)
  moreover obtain r' ts where p: "closure_report parse now loc cid inp = Some r'"
      "collapseOrphanedSubtrees (map snd index) index = Some ts"
      "cc_traversal_results r' = map T (map snd index)"
      "cc_closure_result r' = closure_result_of (cc_traversal_results r') (detectDetachedContinuities (cc_traversal_results r'))
         ts (auditLineageEquivalence (ci_views inp)) (length (ci_views inp))"
    unfolding index T_def by (rule closure_parts [of parse now loc cid inp])
  ultimately have r: "r' = r" by simp
  have T: "walk_outcome parse now index (ci_max_depth inp) (rl_continuity_id e) (at_failure_reason (T e))"
      "at_ok (T e) \<longleftrightarrow> at_failure_reason (T e) = None" for e
    using traverse_closure [of parse now "rl_continuity_id e" index "ci_max_depth inp"] unfolding T_def by (metis option.sel)+
  have orphans: "ts = [] \<longleftrightarrow> (\<forall>e\<in>snd ` set index. \<not> orphan index e)"
  proof -
    obtain ts' where "collapseOrphanedSubtrees (map snd index) index = Some ts'"
        "map sb_orphan_root_id ts' = map rl_continuity_id (filter (orphan index) (map snd index))"
      using orphans_exact [of "ci_views inp"] unfolding index by blast
    then have "ts = [] \<longleftrightarrow> filter (orphan index) (map snd index) = []" using p(2) by (metis map_is_Nil_conv option.inject)
    then show ?thesis by (auto simp: filter_empty_conv)
  qed
  have detached: "detectDetachedContinuities (map T (map snd index)) = []" if "\<forall>e\<in>snd ` set index. \<not> orphan index e"
  proof -
    have "at_failure_reason (T e) \<noteq> Some AF_DETACHED_LINEAGE" for e
    proof
      assume "at_failure_reason (T e) = Some AF_DETACHED_LINEAGE"
      with T(1) [of e] have "walk_outcome parse now index (ci_max_depth inp) (rl_continuity_id e) (Some AF_DETACHED_LINEAGE)" by (simp only:)
      from detached_orphan [OF wf_closure [of "ci_views inp", folded index] this] that show False by blast
    qed
    then show ?thesis by (simp add: detectDetachedContinuities_def)
  qed
  have ids: "rl_continuity_id e \<noteq> []" if "e \<in> snd ` set index" for e
    using that read_closure_ids [OF assms(1)] index by simp
  have "cc_closure_result r \<in> {CLOSURE_VERIFIED, CLOSURE_PARTIAL_VISIBILITY} \<longleftrightarrow>
      (\<forall>e\<in>snd ` set index. at_failure_reason (T e) \<notin> {Some AF_CYCLE_DETECTED, Some AF_DEPTH_EXCEEDED}) \<and> ts = []"
  proof -
    have img: "(\<forall>t\<in>T ` snd ` set index. P t) \<longleftrightarrow> (\<forall>e\<in>snd ` set index. P (T e))" for P by blast
    have "cc_closure_result r \<in> {CLOSURE_VERIFIED, CLOSURE_PARTIAL_VISIBILITY} \<longleftrightarrow>
        (\<forall>t\<in>T ` snd ` set index. at_failure_reason t \<notin> {Some AF_CYCLE_DETECTED, Some AF_DEPTH_EXCEEDED}) \<and>
        detectDetachedContinuities (map T (map snd index)) = [] \<and> ts = []"
      unfolding p(4) [unfolded r] p(3) [unfolded r] closure_result_sound set_map ..
    then show ?thesis unfolding img using detached orphans by (cases "ts = []") (simp_all only: simp_thms)
  qed
  also have "\<dots> \<longleftrightarrow> ts = [] \<and> (\<forall>e\<in>snd ` set index. \<exists>n<ci_max_depth inp. \<exists>x. anc (parent_in index) n (rl_continuity_id e) = Some x \<and> stops parse now index x)"
    using outcome_stops [OF T(1) ids] by blast
  finally show ?thesis unfolding orphans .
qed

text \<open>
  C40. The closure of a lineage is VERIFIED, or PARTIAL_VISIBILITY when only the hashes of the
  views disagree, exactly when every named parent is registered and from every entry fewer
  parent steps than the maximal depth lead to an entry that has no parent or is revoked,
  inactive or expired.
\<close>

theorem closure_verified_exactly:
  assumes "read_closure input = (cid, Some inp)"
    and "verifyDistributedContinuityLineageClosure parse now loc input = Some r"
  shows "cc_closure_result r \<in> {CLOSURE_VERIFIED, CLOSURE_PARTIAL_VISIBILITY} \<longleftrightarrow>
     (\<forall>e\<in>snd ` set (closure_entries (ci_views inp)).
        (parent_id e = [] \<or> parent_id e \<in> fst ` set (closure_entries (ci_views inp))) \<and>
        (\<exists>n<ci_max_depth inp. \<exists>x. anc (parent_in (closure_entries (ci_views inp))) n (rl_continuity_id e) = Some x \<and>
           (barred parse now (closure_entries (ci_views inp)) x \<or> parent_in (closure_entries (ci_views inp)) x = None)))"
proof -
  define index where "index = closure_entries (ci_views inp)"
  have o: "orphan index e \<longleftrightarrow> \<not> (parent_id e = [] \<or> parent_id e \<in> fst ` set index)" for e
    by (auto simp: orphan_def map_of_eq_None_iff)
  have "stops parse now index x \<longleftrightarrow> barred parse now index x \<or> parent_in index x = None" for x
    by (auto simp: stops_def parent_in_def)
  then show ?thesis
    unfolding closure_sound_iff [OF assms index_def] o unfolding index_def by blast
qed

text \<open>
  The collapsed subtrees hold exactly the entries that cannot be traced to a root: those with
  an ancestor, at any distance, that is not registered.
\<close>

theorem orphaned_subtrees_exact:
  "\<exists>ts. collapseOrphanedSubtrees (map snd (closure_entries views)) (closure_entries views) = Some ts \<and>
     (\<Union>t\<in>set ts. set (sb_affected_ids t)) =
       {y. \<exists>n x. anc (parent_in (closure_entries views)) (Suc n) y = Some x \<and> map_of (closure_entries views) x = None}"
proof -
  define index where "index = closure_entries views"
  obtain ts where ts: "collapseOrphanedSubtrees (map snd index) index = Some ts"
    "map sb_orphan_root_id ts = map rl_continuity_id (filter (orphan index) (map snd index))"
    "\<And>t. t \<in> set ts \<Longrightarrow> set (sb_affected_ids t) = {y. y = sb_orphan_root_id t \<or> descends (parent_in index) (sb_orphan_root_id t) y}"
    unfolding index_def by (rule orphans_exact [of views]) blast
  have roots: "sb_orphan_root_id ` set ts = {i. \<exists>p. parent_in index i = Some p \<and> map_of index p = None}"
  proof -
    have "sb_orphan_root_id ` set ts = {i. \<exists>e. (e \<in> snd ` set index \<and> rl_continuity_id e = i) \<and> orphan index e}"
      using arg_cong [OF ts(2), of set] by auto
    also have "\<dots> = {i. \<exists>e. map_of index i = Some e \<and> orphan index e}"
      using wf_map_of [OF wf_closure [of views, folded index_def]] by simp
    also have "\<dots> = {i. \<exists>p. parent_in index i = Some p \<and> map_of index p = None}"
      by (auto simp: orphan_def parent_in_def split: option.splits if_splits)
    finally show ?thesis .
  qed
  have "(\<Union>t\<in>set ts. set (sb_affected_ids t)) = {y. \<exists>i\<in>sb_orphan_root_id ` set ts. y = i \<or> descends (parent_in index) i y}"
    using ts(3) by auto
  also have "\<dots> = {y. \<exists>i\<in>sb_orphan_root_id ` set ts. \<exists>n. anc (parent_in index) n y = Some i}"
    unfolding self_or_descends ..
  also have "\<dots> = {y. \<exists>n x. anc (parent_in index) (Suc n) y = Some x \<and> map_of index x = None}"
    unfolding roots by (auto simp: bind_eq_Some_conv)
  finally show ?thesis using ts(1) unfolding index_def by blast
qed

section \<open>A verified closure without a live entry\<close>

definition sample_closure_input :: "jsval list \<Rightarrow> jsval" where
  "sample_closure_input entries = JObj
     [(''closure_id'', JStr ''p''), (''evidence_only'', JBool True),
      (''registry_views'', JArr [JObj [(''node_id'', JStr ''n''), (''registry_epoch'', JStr ''e''), (''lineage_root_id'', JStr ''r''),
         (''registry_hash'', JStr (replicate 64 CHR ''a'')), (''entries'', JArr entries)]])]"

definition sample_closure_entry :: "string \<Rightarrow> string \<Rightarrow> string \<Rightarrow> ClosureEntry" where
  "sample_closure_entry i p st = \<lparr>rl_continuity_id = i, rl_session_id = [], rl_parent_continuity_id = Some p,
     rl_continuity_hash = [], rl_status = st, rl_revoked_at = None, rl_expires_at = None, cn_identity_id = None\<rparr>"

lemma sample_closure_index:
  "closure_entries [\<lparr>cw_node_id = ''n'', cw_registry_epoch = ''e'', cw_lineage_root_id = ''r'',
       cw_entries = [sample_closure_entry ''a'' pa sa, sample_closure_entry ''b'' pb sb], cw_registry_hash = h\<rparr>] =
     [(''a'', sample_closure_entry ''a'' pa sa), (''b'', sample_closure_entry ''b'' pb sb)]"
  by (simp add: closure_entries_def sample_closure_entry_def)

lemma read_sample_closure:
  "read_closure (sample_closure_input [sample_entry_json ''a'' ''b'' sa, sample_entry_json ''b'' ''a'' sb]) = (''p'', Some
    \<lparr>ci_views = [\<lparr>cw_node_id = ''n'', cw_registry_epoch = ''e'', cw_lineage_root_id = ''r'',
        cw_entries = [sample_closure_entry ''a'' ''b'' sa, sample_closure_entry ''b'' ''a'' sb],
        cw_registry_hash = replicate 64 CHR ''a''\<rparr>],
     ci_max_depth = 32, ci_horizon = None\<rparr>)"
proof -
  have hex: "is_hex64 (replicate 64 CHR ''a'')" by (simp add: is_hex64_def list_all_iff)
  have "read_closure_entries [sample_entry_json ''a'' ''b'' sa, sample_entry_json ''b'' ''a'' sb] =
      Some [sample_closure_entry ''a'' ''b'' sa, sample_closure_entry ''b'' ''a'' sb]"
    by (simp add: Let_def sample_entry_json_def sample_closure_entry_def safeObj_def hasForbiddenField_def FORBIDDEN_FIELDS_def
        str_field_def opt_field_def js_String_or_def read_closure_entry_def trim_eqs)
  with hex show ?thesis
    by (simp add: read_closure_def sample_closure_input_def Let_def safeObj_def hasForbiddenField_def FORBIDDEN_FIELDS_def
        str_field_def js_String_or_def trim_eqs read_max_ancestry_depth_def SYSTEM_MAX_ANCESTRY_DEPTH_def read_horizon_def
        sample_closure_index)
qed

theorem closure_verified_exactly_witness:
  "\<exists>r. verifyDistributedContinuityLineageClosure (\<lambda>_. None) 0 (\<le>)
      (sample_closure_input [sample_entry_json ''a'' ''b'' ''REVOKED'', sample_entry_json ''b'' ''a'' ''ACTIVE'']) = Some r \<and>
     cc_closure_result r \<in> {CLOSURE_VERIFIED, CLOSURE_PARTIAL_VISIBILITY}"
proof -
  let ?in = "sample_closure_input [sample_entry_json ''a'' ''b'' ''REVOKED'', sample_entry_json ''b'' ''a'' ''ACTIVE'']"
  define index where "index = [(''a'', sample_closure_entry ''a'' ''b'' ''REVOKED''), (''b'', sample_closure_entry ''b'' ''a'' ''ACTIVE'')]"
  obtain r where r: "verifyDistributedContinuityLineageClosure (\<lambda>_. None) 0 (\<le>) ?in = Some r" using closure_ends by blast
  have bar: "barred (\<lambda>_. None) 0 index ''a''"
    by (simp add: barred_def index_def sample_closure_entry_def isRevocationBarriered_def isActiveStatus_def)
  have "anc (parent_in index) 1 ''b'' = Some ''a''"
    by (simp add: parent_in_def index_def sample_closure_entry_def parent_id_def trim_opt_def trim_eqs)
  then have "\<exists>n<32. \<exists>x. anc (parent_in index) n i = Some x \<and> (barred (\<lambda>_. None) 0 index x \<or> parent_in index x = None)"
    if "i = ''a'' \<or> i = ''b''" for i
    using that bar by (metis anc.simps(1) one_less_numeral_iff semiring_norm(76) zero_less_numeral)
  moreover have "cc_closure_result r \<in> {CLOSURE_VERIFIED, CLOSURE_PARTIAL_VISIBILITY} \<longleftrightarrow>
     (\<forall>e\<in>snd ` set index. (parent_id e = [] \<or> parent_id e \<in> fst ` set index) \<and>
        (\<exists>n<32. \<exists>x. anc (parent_in index) n (rl_continuity_id e) = Some x \<and> (barred (\<lambda>_. None) 0 index x \<or> parent_in index x = None)))"
    using closure_verified_exactly [OF read_sample_closure r] by (simp only: ClosureInput.simps sample_closure_index index_def)
  moreover have "parent_id e \<in> fst ` set index \<and> (rl_continuity_id e = ''a'' \<or> rl_continuity_id e = ''b'')" if "e \<in> snd ` set index" for e
    using that by (auto simp: index_def sample_closure_entry_def parent_id_def trim_opt_def trim_eqs)
  ultimately show ?thesis using r by blast
qed

text \<open>
  A registry of two revoked entries that are each other's parent is reported as
  CLOSURE_VERIFIED: the walk stops at a revoked entry before it notices the cycle, and revoked
  ancestors do not enter the result, although the header of the source makes continuity
  lineage the condition of authority.
\<close>

theorem revoked_cycle_verified:
  "\<exists>r. verifyDistributedContinuityLineageClosure parse now loc
      (sample_closure_input [sample_entry_json ''a'' ''b'' ''REVOKED'', sample_entry_json ''b'' ''a'' ''REVOKED'']) = Some r \<and>
     cc_closure_result r = CLOSURE_VERIFIED"
proof -
  let ?in = "sample_closure_input [sample_entry_json ''a'' ''b'' ''REVOKED'', sample_entry_json ''b'' ''a'' ''REVOKED'']"
  define view where "view = \<lparr>cw_node_id = ''n'', cw_registry_epoch = ''e'', cw_lineage_root_id = ''r'',
        cw_entries = [sample_closure_entry ''a'' ''b'' ''REVOKED'', sample_closure_entry ''b'' ''a'' ''REVOKED''],
        cw_registry_hash = replicate 64 CHR ''a''\<rparr>"
  define inp where "inp = \<lparr>ci_views = [view], ci_max_depth = 32, ci_horizon = None\<rparr>"
  note rd = read_sample_closure [of "''REVOKED''" "''REVOKED''", folded view_def, folded inp_def]
  have index: "closure_entries (ci_views inp) = [(''a'', sample_closure_entry ''a'' ''b'' ''REVOKED''), (''b'', sample_closure_entry ''b'' ''a'' ''REVOKED'')]"
    (is "_ = ?index")
    by (simp add: inp_def view_def sample_closure_index)
  obtain r ts where r: "closure_report parse now loc ''p'' inp = Some r"
      "cc_closure_result r = closure_result_of (cc_traversal_results r) (detectDetachedContinuities (cc_traversal_results r))
         ts (auditLineageEquivalence (ci_views inp)) (length (ci_views inp))"
    by (rule closure_parts [of parse now loc "''p''" inp]) blast
  then have v: "verifyDistributedContinuityLineageClosure parse now loc ?in = Some r"
    by (simp add: verifyDistributedContinuityLineageClosure_def rd)
  have "\<not> orphan ?index e \<and> (\<exists>n<32. \<exists>x. anc (parent_in ?index) n (rl_continuity_id e) = Some x \<and> stops parse now ?index x)"
    if "e \<in> snd ` set ?index" for e
  proof
    show "\<not> orphan ?index e"
      using that by (auto simp: orphan_def sample_closure_entry_def parent_id_def trim_opt_def trim_eqs)
    have "stops parse now ?index (rl_continuity_id e)"
      using that by (auto simp: stops_def barred_def sample_closure_entry_def isRevocationBarriered_def isActiveStatus_def)
    then show "\<exists>n<32. \<exists>x. anc (parent_in ?index) n (rl_continuity_id e) = Some x \<and> stops parse now ?index x"
      by (intro exI [of _ 0]) simp
  qed
  then have "cc_closure_result r \<in> {CLOSURE_VERIFIED, CLOSURE_PARTIAL_VISIBILITY}"
    using closure_sound_iff [OF rd v index [symmetric]] by (simp add: inp_def)
  moreover have "cc_closure_result r \<noteq> CLOSURE_PARTIAL_VISIBILITY"
    unfolding r(2) by (simp add: closure_result_of_def inp_def)
  ultimately show ?thesis using v by auto
qed

end
