(* ===== verification/Topology_Convergence.thy ===== *)
theory Topology_Convergence
  imports Lineage Continuity_Core
begin

text \<open>
  \<^verbatim>\<open>src/distributed-topology-convergence.ts\<close>: participants report their view of the topology, and
  the report says whether the current ones agree under a quorum. Evidence only.

  The artifacts are objects that are hashed and passed on as untyped values, so they are \<open>jsval\<close>s
  here too. \<^verbatim>\<open>safeObj\<close> and \<^verbatim>\<open>isValidSha256Hex\<close> are copies of those of the revocation report, modelled
  in \<open>Lineage\<close>. An object inside a view is an object of its own: a \<^verbatim>\<open>Set\<close> identifies equal
  primitive values and never two objects.
\<close>

section \<open>Results and classes\<close>

datatype DistributedTopologyResult =
  DT_TOPOLOGY_CONVERGED | DT_TOPOLOGY_DIVERGED | DT_QUORUM_COLLAPSED | DT_CONFLICT_ESCALATED | DT_NULL

fun topology_result_str :: "DistributedTopologyResult \<Rightarrow> string" where
  "topology_result_str DT_TOPOLOGY_CONVERGED = ''TOPOLOGY_CONVERGED''"
| "topology_result_str DT_TOPOLOGY_DIVERGED = ''TOPOLOGY_DIVERGED''"
| "topology_result_str DT_QUORUM_COLLAPSED = ''QUORUM_COLLAPSED''"
| "topology_result_str DT_CONFLICT_ESCALATED = ''CONFLICT_ESCALATED''"
| "topology_result_str DT_NULL = ''NULL''"

datatype QuorumLegitimacyResult = QL_SATISFIED | QL_NOT_SATISFIED | QL_COLLAPSED | QL_NULL

fun quorum_result_str :: "QuorumLegitimacyResult \<Rightarrow> string" where
  "quorum_result_str QL_SATISFIED = ''QUORUM_SATISFIED''"
| "quorum_result_str QL_NOT_SATISFIED = ''QUORUM_NOT_SATISFIED''"
| "quorum_result_str QL_COLLAPSED = ''QUORUM_COLLAPSED''"
| "quorum_result_str QL_NULL = ''NULL''"

datatype TopologyParticipantState = TP_CURRENT | TP_STALE | TP_DIVERGENT | TP_UNTRUSTED | TP_NULL

fun participant_state_str :: "TopologyParticipantState \<Rightarrow> string" where
  "participant_state_str TP_CURRENT = ''PARTICIPANT_CURRENT''"
| "participant_state_str TP_STALE = ''PARTICIPANT_STALE''"
| "participant_state_str TP_DIVERGENT = ''PARTICIPANT_DIVERGENT''"
| "participant_state_str TP_UNTRUSTED = ''PARTICIPANT_UNTRUSTED''"
| "participant_state_str TP_NULL = ''PARTICIPANT_NULL''"

datatype DistributedTopologyClass =
    DC_CONVERGED | DC_DIVERGED | DC_QUORUM_SATISFIED | DC_QUORUM_NOT_SATISFIED | DC_QUORUM_COLLAPSED
  | DC_CONFLICT_ESCALATED | DC_PARTICIPANT_STALE | DC_PARTICIPANT_DIVERGENT | DC_PARTICIPANT_UNTRUSTED
  | DC_EPOCH_MISMATCH | DC_HASH_MISMATCH | DC_QUORUM_THRESHOLD_MISSING | DC_SPLIT_BRAIN_DETECTED
  | DC_CONFLICT_UNRESOLVED | DC_BOUNDARY_VIOLATION | DC_AUTHORITY_ATTEMPT | DC_EXECUTION_ATTEMPT | DC_PROOF_ATTEMPT
  | DC_REGISTRY_MUTATION | DC_IMPLICIT_CONSENSUS_FORBIDDEN | DC_BREAK_GLASS_NORMALIZATION | DC_HASH_INVALID

fun topology_class_str :: "DistributedTopologyClass \<Rightarrow> string" where
  "topology_class_str DC_CONVERGED = ''distributed_topology_converged''"
| "topology_class_str DC_DIVERGED = ''distributed_topology_diverged''"
| "topology_class_str DC_QUORUM_SATISFIED = ''quorum_satisfied''"
| "topology_class_str DC_QUORUM_NOT_SATISFIED = ''quorum_not_satisfied''"
| "topology_class_str DC_QUORUM_COLLAPSED = ''quorum_collapsed''"
| "topology_class_str DC_CONFLICT_ESCALATED = ''conflict_escalated''"
| "topology_class_str DC_PARTICIPANT_STALE = ''topology_participant_stale''"
| "topology_class_str DC_PARTICIPANT_DIVERGENT = ''topology_participant_divergent''"
| "topology_class_str DC_PARTICIPANT_UNTRUSTED = ''topology_participant_untrusted''"
| "topology_class_str DC_EPOCH_MISMATCH = ''topology_epoch_mismatch''"
| "topology_class_str DC_HASH_MISMATCH = ''topology_hash_mismatch''"
| "topology_class_str DC_QUORUM_THRESHOLD_MISSING = ''topology_quorum_threshold_missing''"
| "topology_class_str DC_SPLIT_BRAIN_DETECTED = ''topology_split_brain_detected''"
| "topology_class_str DC_CONFLICT_UNRESOLVED = ''topology_conflict_unresolved''"
| "topology_class_str DC_BOUNDARY_VIOLATION = ''topology_boundary_violation''"
| "topology_class_str DC_AUTHORITY_ATTEMPT = ''topology_authority_attempt''"
| "topology_class_str DC_EXECUTION_ATTEMPT = ''topology_execution_attempt''"
| "topology_class_str DC_PROOF_ATTEMPT = ''topology_proof_attempt''"
| "topology_class_str DC_REGISTRY_MUTATION = ''topology_registry_mutation''"
| "topology_class_str DC_IMPLICIT_CONSENSUS_FORBIDDEN = ''topology_implicit_consensus_forbidden''"
| "topology_class_str DC_BREAK_GLASS_NORMALIZATION = ''topology_break_glass_normalization''"
| "topology_class_str DC_HASH_INVALID = ''topology_hash_invalid''"

section \<open>Boundary\<close>

definition js_in :: "string \<Rightarrow> jsval \<Rightarrow> bool" where
  "js_in k obj \<longleftrightarrow> k \<in> set (js_keys obj)"

definition topologyBoundaryViolation :: "jsval \<Rightarrow> DistributedTopologyClass option" where
  "topologyBoundaryViolation obj =
     (if js_get obj ''creates_authority'' = JBool True then Some DC_AUTHORITY_ATTEMPT
      else if js_get obj ''creates_execution'' = JBool True then Some DC_EXECUTION_ATTEMPT
      else if js_get obj ''creates_proof'' = JBool True then Some DC_PROOF_ATTEMPT
      else if js_get obj ''mutates_registry'' = JBool True then Some DC_REGISTRY_MUTATION
      else if js_in ''registry_mutation'' obj then Some DC_REGISTRY_MUTATION
      else if js_in ''authority_grant'' obj then Some DC_AUTHORITY_ATTEMPT
      else if js_in ''execution_token'' obj then Some DC_EXECUTION_ATTEMPT
      else if js_in ''proof_signature'' obj then Some DC_PROOF_ATTEMPT
      else if js_in ''deployment_trigger'' obj then Some DC_BOUNDARY_VIOLATION
      else if js_in ''lineage_repair'' obj then Some DC_BOUNDARY_VIOLATION
      else if js_in ''implicit_consensus'' obj then Some DC_IMPLICIT_CONSENSUS_FORBIDDEN
      else if js_in ''auto_consensus'' obj then Some DC_IMPLICIT_CONSENSUS_FORBIDDEN
      else if js_in ''auto_repair'' obj then Some DC_BOUNDARY_VIOLATION
      else if js_in ''majority_as_authority'' obj then Some DC_AUTHORITY_ATTEMPT
      else if js_in ''stale_state_preferred'' obj then Some DC_BOUNDARY_VIOLATION
      else if js_in ''break_glass'' obj then Some DC_BREAK_GLASS_NORMALIZATION
      else if js_in ''is_break_glass'' obj then Some DC_BREAK_GLASS_NORMALIZATION
      else if js_in ''break_glass_normalized'' obj then Some DC_BREAK_GLASS_NORMALIZATION
      else None)"

section \<open>Hashes\<close>

text \<open>\<^verbatim>\<open>const { k: _excluded, ...rest } = fields\<close>\<close>

fun js_without :: "string \<Rightarrow> jsval \<Rightarrow> jsval" where
  "js_without k (JObj kvs) = JObj (filter (\<lambda>kv. fst kv \<noteq> k) kvs)"
| "js_without k _ = JObj []"

definition computeTopologyParticipantHash :: "jsval \<Rightarrow> string" where
  "computeTopologyParticipantHash flds = sha256Hex (canonicalize (js_without ''participant_hash'' flds))"

text \<open>\<^verbatim>\<open>Array.isArray(x) ? [...x].sort() : x\<close> in the order of the texts, \<^verbatim>\<open>undefined\<close> last.\<close>

fun sorted_array :: "jsval \<Rightarrow> jsval" where
  "sorted_array (JArr xs) = JArr (js_sort (\<lambda>a b. b = JUndef \<or> (a \<noteq> JUndef \<and> js_String a \<le> js_String b)) xs)"
| "sorted_array v = v"

definition computeDistributedTopologyHash :: "jsval \<Rightarrow> string" where
  "computeDistributedTopologyHash flds =
     (let rest = js_without ''distributed_topology_hash'' flds;
          payload = foldl (\<lambda>p k. js_set p k (sorted_array (js_get rest k))) rest
            [''convergence_classes'', ''participant_hashes'', ''surface_graph_hashes'']
      in sha256Hex (canonicalize payload))"

definition validateDistributedTopologyBoundary :: "jsval \<Rightarrow> DistributedTopologyClass option" where
  "validateDistributedTopologyBoundary input =
     (if \<not> isPlainObject input then None else topologyBoundaryViolation input)"

section \<open>Participant views\<close>

definition str_or_null :: "jsval \<Rightarrow> jsval" where
  "str_or_null v = (case v of JStr s \<Rightarrow> JStr s | _ \<Rightarrow> JNull)"

definition participant_fields :: "jsval \<Rightarrow> jsval \<Rightarrow> jsval \<Rightarrow> jsval \<Rightarrow> string \<Rightarrow> jsval \<Rightarrow> (string \<times> jsval) list" where
  "participant_fields participant_id topology_epoch surface_graph_hash arbitration_hash participant_state observed_at =
     [(''artifact'', JStr ''TOPOLOGY_PARTICIPANT_VIEW''), (''evidence_only'', JBool True),
      (''creates_authority'', JBool False), (''creates_execution'', JBool False), (''creates_proof'', JBool False),
      (''mutates_registry'', JBool False), (''participant_id'', participant_id), (''topology_epoch'', topology_epoch),
      (''surface_graph_hash'', surface_graph_hash), (''arbitration_hash'', arbitration_hash),
      (''participant_state'', JStr participant_state), (''observed_at'', observed_at),
      (''participant_hash_alg'', JStr ''sha256'')]"

definition buildNullParticipantView :: "jsval \<Rightarrow> jsval" where
  "buildNullParticipantView obj = JObj
     (participant_fields (str_or_null (js_get obj ''participant_id'')) (str_or_null (js_get obj ''topology_epoch'')) JNull JNull
        (participant_state_str TP_NULL) (str_or_null (js_get obj ''observed_at'')) @ [(''participant_hash'', JNull)])"

definition KNOWN_PARTICIPANT_STATES :: "string list" where
  "KNOWN_PARTICIPANT_STATES = map participant_state_str [TP_CURRENT, TP_STALE, TP_DIVERGENT, TP_UNTRUSTED, TP_NULL]"

definition buildTopologyParticipantView :: "jsval \<Rightarrow> jsval" where
  "buildTopologyParticipantView input =
     (let obj = safeObj input;
          participant_id = js_get obj ''participant_id''; topology_epoch = js_get obj ''topology_epoch'';
          observed_at = js_get obj ''observed_at''; surface_graph_hash = js_get obj ''surface_graph_hash'';
          arbitration_hash = str_or_null (js_get obj ''arbitration_hash''); participant_state = js_get obj ''participant_state''
      in
      if topologyBoundaryViolation obj \<noteq> None then buildNullParticipantView obj
      else if \<not> isNonEmptyString participant_id \<or> \<not> isNonEmptyString topology_epoch \<or> \<not> isNonEmptyString observed_at
      then buildNullParticipantView obj
      else if \<not> isValidSha256 surface_graph_hash then buildNullParticipantView obj
      else if arbitration_hash \<noteq> JNull \<and> \<not> isValidSha256 arbitration_hash then buildNullParticipantView obj
      else case participant_state of
        JStr st \<Rightarrow>
          if st = [] \<or> st \<notin> set KNOWN_PARTICIPANT_STATES \<or> st = participant_state_str TP_NULL then buildNullParticipantView obj
          else
            let flds = participant_fields participant_id topology_epoch surface_graph_hash arbitration_hash st observed_at
            in JObj (flds @ [(''participant_hash'', JStr (computeTopologyParticipantHash (JObj flds)))])
      | _ \<Rightarrow> buildNullParticipantView obj)"

section \<open>Quorum\<close>

record QuorumAssessment =
  qa_quorum_result :: QuorumLegitimacyResult
  qa_participant_count :: nat
  qa_current_count :: nat
  qa_stale_count :: nat
  qa_divergent_count :: nat
  qa_untrusted_count :: nat
  qa_quorum_threshold :: int

definition view_state :: "TopologyParticipantState \<Rightarrow> jsval \<Rightarrow> bool" where
  "view_state st v \<longleftrightarrow> js_get (safeObj v) ''participant_state'' = JStr (participant_state_str st)"

text \<open>The loop over the views: the counts of the four states.\<close>

fun quorum_counts :: "jsval list \<Rightarrow> nat \<times> nat \<times> nat \<times> nat \<Rightarrow> nat \<times> nat \<times> nat \<times> nat" where
  "quorum_counts [] cs = cs"
| "quorum_counts (v # vs) (cur, stale, dvg, unt) = quorum_counts vs
     (if view_state TP_CURRENT v then (cur + 1, stale, dvg, unt)
      else if view_state TP_STALE v then (cur, stale + 1, dvg, unt)
      else if view_state TP_DIVERGENT v then (cur, stale, dvg + 1, unt)
      else if view_state TP_UNTRUSTED v then (cur, stale, dvg, unt + 1)
      else (cur, stale, dvg, unt))"

definition positive_integer :: "jsval \<Rightarrow> int" where
  "positive_integer v = (case v of JNum (NInt i) \<Rightarrow> if i > 0 then i else 0 | _ \<Rightarrow> 0)"

definition evaluateTopologyQuorum :: "jsval \<Rightarrow> jsval \<Rightarrow> QuorumAssessment" where
  "evaluateTopologyQuorum views quorum_threshold =
     (let threshold = positive_integer quorum_threshold in
      case views of
        JArr (v # vs) \<Rightarrow>
          if threshold = 0 then
            \<lparr>qa_quorum_result = QL_COLLAPSED, qa_participant_count = length (v # vs), qa_current_count = 0, qa_stale_count = 0,
             qa_divergent_count = 0, qa_untrusted_count = 0, qa_quorum_threshold = threshold\<rparr>
          else (case quorum_counts (v # vs) (0, 0, 0, 0) of (cur, stale, dvg, unt) \<Rightarrow>
            \<lparr>qa_quorum_result =
               (if int cur \<ge> threshold then QL_SATISFIED
                else if cur + stale + dvg + unt = 0 then QL_COLLAPSED else QL_NOT_SATISFIED),
             qa_participant_count = length (v # vs), qa_current_count = cur, qa_stale_count = stale,
             qa_divergent_count = dvg, qa_untrusted_count = unt, qa_quorum_threshold = threshold\<rparr>)
      | _ \<Rightarrow>
          \<lparr>qa_quorum_result = QL_COLLAPSED, qa_participant_count = 0, qa_current_count = 0, qa_stale_count = 0,
           qa_divergent_count = 0, qa_untrusted_count = 0, qa_quorum_threshold = threshold\<rparr>)"

section \<open>Outputs\<close>

text \<open>\<^verbatim>\<open>[...new Set(xs)].sort()\<close> on strings\<close>

definition unique_sorted :: "string list \<Rightarrow> string list" where
  "unique_sorted xs = sort (remdups xs)"

definition state_count :: "TopologyParticipantState \<Rightarrow> jsval list \<Rightarrow> nat" where
  "state_count st views = length (filter (\<lambda>v. js_get v ''participant_state'' = JStr (participant_state_str st)) views)"

definition view_hashes :: "string \<Rightarrow> jsval list \<Rightarrow> string list" where
  "view_hashes k views =
     unique_sorted (map (\<lambda>v. case js_get v k of JStr h \<Rightarrow> h | _ \<Rightarrow> []) (filter (\<lambda>v. isValidSha256 (js_get v k)) views))"

definition convergence_fields ::
  "DistributedTopologyResult \<Rightarrow> QuorumLegitimacyResult \<Rightarrow> DistributedTopologyClass list \<Rightarrow> jsval list \<Rightarrow> int \<Rightarrow> jsval
   \<Rightarrow> (string \<times> jsval) list" where
  "convergence_fields convergence_result quorum_result convergence_classes views quorum_threshold topology_epoch =
     [(''artifact'', JStr ''DISTRIBUTED_TOPOLOGY_CONVERGENCE''), (''evidence_only'', JBool True),
      (''creates_authority'', JBool False), (''creates_execution'', JBool False), (''creates_proof'', JBool False),
      (''mutates_registry'', JBool False), (''convergence_result'', JStr (topology_result_str convergence_result)),
      (''quorum_result'', JStr (quorum_result_str quorum_result)),
      (''convergence_classes'', JArr (map JStr (unique_sorted (map topology_class_str convergence_classes)))),
      (''participant_count'', JNum (NInt (int (length views)))),
      (''current_count'', JNum (NInt (int (state_count TP_CURRENT views)))),
      (''stale_count'', JNum (NInt (int (state_count TP_STALE views)))),
      (''divergent_count'', JNum (NInt (int (state_count TP_DIVERGENT views)))),
      (''untrusted_count'', JNum (NInt (int (state_count TP_UNTRUSTED views)))),
      (''quorum_threshold'', JNum (NInt quorum_threshold)), (''topology_epoch'', topology_epoch),
      (''surface_graph_hashes'', JArr (map JStr (view_hashes ''surface_graph_hash'' views))),
      (''participant_hashes'', JArr (map JStr (view_hashes ''participant_hash'' views))),
      (''distributed_topology_hash_alg'', JStr ''sha256'')]"

definition with_topology_hash :: "(string \<times> jsval) list \<Rightarrow> jsval" where
  "with_topology_hash flds =
     JObj (flds @ [(''distributed_topology_hash'', JStr (computeDistributedTopologyHash (JObj flds)))])"

definition buildConvergenceOutput ::
  "DistributedTopologyResult \<Rightarrow> QuorumLegitimacyResult \<Rightarrow> DistributedTopologyClass list \<Rightarrow> jsval list \<Rightarrow> int \<Rightarrow> jsval
   \<Rightarrow> jsval" where
  "buildConvergenceOutput convergence_result quorum_result convergence_classes views quorum_threshold topology_epoch =
     with_topology_hash
       (convergence_fields convergence_result quorum_result convergence_classes views quorum_threshold topology_epoch)"

definition buildNullConvergence :: "DistributedTopologyClass list \<Rightarrow> int \<Rightarrow> jsval" where
  "buildNullConvergence convergence_classes quorum_threshold =
     with_topology_hash (convergence_fields DT_NULL QL_NULL convergence_classes [] quorum_threshold JNull)"

section \<open>Convergence\<close>

text \<open>One view of the input: the class for which it is refused.\<close>

definition view_refused :: "jsval \<Rightarrow> DistributedTopologyClass option" where
  "view_refused vObj =
     (case topologyBoundaryViolation vObj of
        Some c \<Rightarrow> Some c
      | None \<Rightarrow>
          if js_get vObj ''artifact'' \<noteq> JStr ''TOPOLOGY_PARTICIPANT_VIEW'' then Some DC_BOUNDARY_VIOLATION
          else if js_get vObj ''evidence_only'' \<noteq> JBool True then Some DC_BOUNDARY_VIOLATION
          else if js_get vObj ''participant_state'' = JStr (participant_state_str TP_NULL) then Some DC_BOUNDARY_VIOLATION
          else if \<not> isValidSha256 (js_get vObj ''participant_hash'') then Some DC_HASH_INVALID
          else if JStr (computeTopologyParticipantHash (js_without ''participant_hash'' vObj)) \<noteq> js_get vObj ''participant_hash''
          then Some DC_HASH_MISMATCH
          else if \<not> isValidSha256 (js_get vObj ''surface_graph_hash'') then Some DC_HASH_INVALID
          else None)"

fun validate_views :: "jsval list \<Rightarrow> jsval list \<Rightarrow> DistributedTopologyClass + jsval list" where
  "validate_views [] validatedViews = Inr validatedViews"
| "validate_views (view # rest) validatedViews =
     (case view_refused (safeObj view) of
        Some c \<Rightarrow> Inl c
      | None \<Rightarrow> validate_views rest (validatedViews @ [safeObj view]))"

text \<open>The members of \<^verbatim>\<open>new Set(xs)\<close>: a primitive value once, every object.\<close>

fun is_object_or_array :: "jsval \<Rightarrow> bool" where
  "is_object_or_array (JObj _) = True"
| "is_object_or_array (JArr _) = True"
| "is_object_or_array _ = False"

fun js_set_members :: "jsval list \<Rightarrow> jsval list" where
  "js_set_members [] = []"
| "js_set_members (x # xs) =
     x # (if is_object_or_array x then js_set_members xs else js_set_members (filter (\<lambda>y. y \<noteq> x) xs))"

definition arbitration_outcome :: "jsval \<Rightarrow> DistributedTopologyClass + bool" where
  "arbitration_outcome evidence =
     (if is_nullish evidence then Inr False
      else
        let arbObj = safeObj evidence in
        case topologyBoundaryViolation arbObj of
          Some c \<Rightarrow> Inl c
        | None \<Rightarrow> Inr (js_get arbObj ''arbitration_result'' \<in>
            {JStr ''CONFLICT_REQUIRES_HUMAN_REVIEW'', JStr ''CONFLICT_UNRESOLVABLE''}))"

definition state_classes :: "QuorumAssessment \<Rightarrow> DistributedTopologyClass list" where
  "state_classes quorum =
     (if qa_stale_count quorum > 0 then [DC_PARTICIPANT_STALE] else []) @
     (if qa_divergent_count quorum > 0 then [DC_PARTICIPANT_DIVERGENT] else []) @
     (if qa_untrusted_count quorum > 0 then [DC_PARTICIPANT_UNTRUSTED] else [])"

text \<open>From the quorum on: collapsed, diverged or converged.\<close>

definition quorum_convergence :: "jsval list \<Rightarrow> int \<Rightarrow> jsval" where
  "quorum_convergence validatedViews quorum_threshold =
     (let quorum = evaluateTopologyQuorum (JArr validatedViews) (JNum (NInt quorum_threshold));
          stateClasses = state_classes quorum in
      if qa_quorum_result quorum \<noteq> QL_SATISFIED then
        buildConvergenceOutput DT_QUORUM_COLLAPSED (qa_quorum_result quorum)
          ([DC_QUORUM_COLLAPSED,
            if qa_quorum_result quorum = QL_NOT_SATISFIED then DC_QUORUM_NOT_SATISFIED else DC_QUORUM_COLLAPSED] @ stateClasses)
          validatedViews quorum_threshold JNull
      else
        let currentViews = filter (\<lambda>v. js_get v ''participant_state'' = JStr (participant_state_str TP_CURRENT)) validatedViews;
            uniqueEpochs = js_set_members (map (\<lambda>v. js_get v ''topology_epoch'') currentViews);
            uniqueHashes = js_set_members (map (\<lambda>v. js_get v ''surface_graph_hash'') currentViews);
            hasEpochMismatch = length uniqueEpochs > 1;
            hasHashMismatch = length uniqueHashes > 1
        in
        if hasEpochMismatch \<or> hasHashMismatch then
          buildConvergenceOutput DT_TOPOLOGY_DIVERGED QL_SATISFIED
            ([DC_DIVERGED, DC_QUORUM_SATISFIED, DC_SPLIT_BRAIN_DETECTED] @
             (if hasEpochMismatch then [DC_EPOCH_MISMATCH] else []) @
             (if hasHashMismatch then [DC_HASH_MISMATCH] else []) @ stateClasses)
            validatedViews quorum_threshold JNull
        else
          buildConvergenceOutput DT_TOPOLOGY_CONVERGED QL_SATISFIED ([DC_CONVERGED, DC_QUORUM_SATISFIED] @ stateClasses)
            validatedViews quorum_threshold (if length uniqueEpochs = 1 then uniqueEpochs ! 0 else JNull))"

definition evaluateDistributedTopologyConvergence :: "jsval \<Rightarrow> jsval" where
  "evaluateDistributedTopologyConvergence input =
     (let obj = safeObj input in
      case topologyBoundaryViolation obj of
        Some violation \<Rightarrow> buildNullConvergence [violation] 0
      | None \<Rightarrow>
          let quorum_threshold = positive_integer (js_get obj ''quorum_threshold'') in
          if quorum_threshold = 0 then buildNullConvergence [DC_QUORUM_THRESHOLD_MISSING] 0
          else (case js_get obj ''participant_views'' of
            JArr (v # vs) \<Rightarrow>
              (case validate_views (v # vs) [] of
                 Inl c \<Rightarrow> buildNullConvergence [c] quorum_threshold
               | Inr validatedViews \<Rightarrow>
                   (case arbitration_outcome (js_get obj ''arbitration_evidence'') of
                      Inl c \<Rightarrow> buildNullConvergence [c] quorum_threshold
                    | Inr True \<Rightarrow> buildConvergenceOutput DT_CONFLICT_ESCALATED QL_NULL
                        [DC_CONFLICT_ESCALATED, DC_CONFLICT_UNRESOLVED] validatedViews quorum_threshold JNull
                    | Inr False \<Rightarrow> quorum_convergence validatedViews quorum_threshold))
          | _ \<Rightarrow> buildNullConvergence [DC_BOUNDARY_VIOLATION] quorum_threshold))"

section \<open>Telemetry\<close>

record TopologyMetrics =
  tmx_topology_converged_total :: int
  tmx_topology_diverged_total :: int
  tmx_quorum_satisfied_total :: int
  tmx_quorum_not_satisfied_total :: int
  tmx_quorum_collapsed_total :: int
  tmx_conflict_escalated_total :: int
  tmx_participant_stale_total :: jsval
  tmx_participant_divergent_total :: jsval
  tmx_participant_untrusted_total :: jsval
  tmx_split_brain_detected_total :: int

definition zero_metrics :: TopologyMetrics where
  "zero_metrics = \<lparr>tmx_topology_converged_total = 0, tmx_topology_diverged_total = 0, tmx_quorum_satisfied_total = 0,
     tmx_quorum_not_satisfied_total = 0, tmx_quorum_collapsed_total = 0, tmx_conflict_escalated_total = 0,
     tmx_participant_stale_total = JNum (NInt 0), tmx_participant_divergent_total = JNum (NInt 0),
     tmx_participant_untrusted_total = JNum (NInt 0), tmx_split_brain_detected_total = 0\<rparr>"

definition number_or_zero :: "jsval \<Rightarrow> jsval" where
  "number_or_zero v = (case v of JNum n \<Rightarrow> JNum n | _ \<Rightarrow> JNum (NInt 0))"

definition readDistributedTopologyTelemetry :: "jsval \<Rightarrow> TopologyMetrics" where
  "readDistributedTopologyTelemetry convergence =
     (let obj = safeObj convergence;
          result = \<lambda>r. (if js_get obj ''convergence_result'' = JStr (topology_result_str r) then 1 else 0 :: int);
          quorum = \<lambda>q. (if js_get obj ''quorum_result'' = JStr (quorum_result_str q) then 1 else 0 :: int);
          classes = (case js_get obj ''convergence_classes'' of JArr xs \<Rightarrow> xs | _ \<Rightarrow> [])
      in
      if js_get obj ''artifact'' \<noteq> JStr ''DISTRIBUTED_TOPOLOGY_CONVERGENCE'' then zero_metrics
      else if js_in ''distributed_topology_hash'' obj \<and> \<not> isValidSha256 (js_get obj ''distributed_topology_hash'') then zero_metrics
      else
        \<lparr>tmx_topology_converged_total = result DT_TOPOLOGY_CONVERGED, tmx_topology_diverged_total = result DT_TOPOLOGY_DIVERGED,
         tmx_quorum_satisfied_total = quorum QL_SATISFIED, tmx_quorum_not_satisfied_total = quorum QL_NOT_SATISFIED,
         tmx_quorum_collapsed_total = result DT_QUORUM_COLLAPSED, tmx_conflict_escalated_total = result DT_CONFLICT_ESCALATED,
         tmx_participant_stale_total = number_or_zero (js_get obj ''stale_count''),
         tmx_participant_divergent_total = number_or_zero (js_get obj ''divergent_count''),
         tmx_participant_untrusted_total = number_or_zero (js_get obj ''untrusted_count''),
         tmx_split_brain_detected_total =
           (if JStr (topology_class_str DC_SPLIT_BRAIN_DETECTED) \<in> set classes then 1 else 0)\<rparr>)"

end
