(* ===== verification/Topology_Convergence_Facts.thy ===== *)
theory Topology_Convergence_Facts
  imports Topology_Convergence Canonical_Facts Finality
begin

text \<open>
  What the topology convergence report says: when it is CONVERGED, that it does not depend on the
  order of the views, that the views the program builds are the views it accepts, and that the
  quorum counts views and not participants.
\<close>

section \<open>Lists and hashes\<close>

lemma is_hex64_sha256Hex: "is_hex64 (sha256Hex s)"
proof -
  let ?hex = "\<lambda>c. c \<in> set ''0123456789abcdef''"
  have "list_all ?hex (map hex_digit [0..<16])" by code_simp
  then have "\<forall>c\<in>set (map hex_digit [0..<16]). ?hex c" unfolding list_all_iff .
  moreover have "hex_chars = set (map hex_digit [0..<16])" by (simp add: hex_chars_def)
  ultimately have "\<forall>c\<in>set (sha256Hex s). ?hex c" using sha256Hex_chars [of s] by blast
  then have "list_all ?hex (sha256Hex s)" unfolding list_all_iff .
  then show ?thesis unfolding is_hex64_def using length_sha256Hex by blast
qed


text \<open>When a \<^verbatim>\<open>Set\<close> of the values has at most one member.\<close>

definition agreed :: "jsval list \<Rightarrow> bool" where
  "agreed xs \<longleftrightarrow> list_all (\<lambda>x. x = hd xs) xs \<and> (length xs \<le> 1 \<or> \<not> is_object_or_array (hd xs))"

lemma js_set_members_Nil [simp]: "js_set_members xs = [] \<longleftrightarrow> xs = []"
  by (cases xs) auto

lemma js_set_members_agreed: "length (js_set_members xs) \<le> 1 \<longleftrightarrow> agreed xs"
proof (cases xs)
  case (Cons x ys)
  have "length zs \<le> 0 \<longleftrightarrow> zs = []" for zs :: "jsval list" by auto
  then show ?thesis using Cons by (auto simp: agreed_def filter_empty_conv list_all_iff)
qed (simp add: agreed_def)

lemma js_set_members_many: "length (js_set_members xs) > 1 \<longleftrightarrow> \<not> agreed xs"
  unfolding js_set_members_agreed [symmetric] by linarith



section \<open>The stages\<close>

lemma validate_views_acc:
  "validate_views vs acc =
     (if list_all (\<lambda>v. view_refused (safeObj v) = None) vs then Inr (acc @ map safeObj vs)
      else Inl (the (view_refused (safeObj (hd (filter (\<lambda>v. view_refused (safeObj v) \<noteq> None) vs))))))"
  by (induction vs arbitrary: acc) (auto split: option.split)

lemma safeObj_idem [simp]: "safeObj (safeObj v) = safeObj v"
  by (simp add: safeObj_def)

lemma view_state_disjoint: "view_state s v \<Longrightarrow> view_state t v \<Longrightarrow> s = t"
  by (cases s; cases t) (auto simp: view_state_def)

definition viewed :: "TopologyParticipantState \<Rightarrow> jsval list \<Rightarrow> nat" where
  "viewed st vs = length (filter (view_state st) vs)"

lemma quorum_counts_eq:
  "quorum_counts vs (a, b, c, d) =
     (a + viewed TP_CURRENT vs, b + viewed TP_STALE vs, c + viewed TP_DIVERGENT vs, d + viewed TP_UNTRUSTED vs)"
proof (induction vs arbitrary: a b c d)
  case (Cons v vs)
  then show ?case using view_state_disjoint [of _ v] by (auto simp: viewed_def) blast+
qed (simp add: viewed_def)



lemma output_result [simp]:
  "js_get (buildConvergenceOutput r q cs vs k e) ''convergence_result'' = JStr (topology_result_str r)"
  "js_get (buildNullConvergence cs k) ''convergence_result'' = JStr ''NULL''"
  by (simp_all add: buildConvergenceOutput_def buildNullConvergence_def with_topology_hash_def convergence_fields_def)

definition current_values :: "string \<Rightarrow> jsval list \<Rightarrow> jsval list" where
  "current_values k vs = map (\<lambda>v. js_get (safeObj v) k) (filter (view_state TP_CURRENT) vs)"

definition topology_input :: "jsval \<Rightarrow> jsval list \<Rightarrow> jsval \<Rightarrow> jsval" where
  "topology_input threshold views arbitration =
     JObj [(''quorum_threshold'', threshold), (''participant_views'', JArr views), (''arbitration_evidence'', arbitration)]"

text \<open>The stage from the quorum on, with its counts in place.\<close>

lemma quorum_convergence_eq:
  assumes "0 < k" "vs \<noteq> []"
  defines "q \<equiv> \<lparr>qa_quorum_result =
      (if int (viewed TP_CURRENT vs) \<ge> k then QL_SATISFIED
       else if viewed TP_CURRENT vs + viewed TP_STALE vs + viewed TP_DIVERGENT vs + viewed TP_UNTRUSTED vs = 0 then QL_COLLAPSED
       else QL_NOT_SATISFIED),
      qa_participant_count = length vs, qa_current_count = viewed TP_CURRENT vs, qa_stale_count = viewed TP_STALE vs,
      qa_divergent_count = viewed TP_DIVERGENT vs, qa_untrusted_count = viewed TP_UNTRUSTED vs, qa_quorum_threshold = k\<rparr>"
  shows "evaluateTopologyQuorum (JArr (map safeObj vs)) (JNum (NInt k)) = q"
proof -
  have v: "viewed st (map safeObj vs) = viewed st vs" for st
    by (simp add: viewed_def view_state_def [abs_def] filter_map comp_def)
  obtain w ws where "map safeObj vs = w # ws" using assms(2) by (cases vs) auto
  then show ?thesis
    using assms(1) v by (simp add: evaluateTopologyQuorum_def positive_integer_def Let_def quorum_counts_eq q_def
        del: quorum_counts.simps) (metis length_Cons length_map)
qed


lemma current_views:
  "map (\<lambda>v. js_get v k) (filter (\<lambda>v. js_get v ''participant_state'' = JStr (participant_state_str TP_CURRENT)) (map safeObj vs)) =
   current_values k vs"
  by (simp add: current_values_def view_state_def [abs_def] filter_map comp_def)

lemma quorum_convergence_cases:
  assumes "0 < k" "vs \<noteq> []"
  shows "js_get (quorum_convergence (map safeObj vs) k) ''convergence_result'' =
    JStr (topology_result_str
      (if int (viewed TP_CURRENT vs) < k then DT_QUORUM_COLLAPSED
       else if agreed (current_values ''topology_epoch'' vs) \<and> agreed (current_values ''surface_graph_hash'' vs)
       then DT_TOPOLOGY_CONVERGED else DT_TOPOLOGY_DIVERGED))"
  unfolding quorum_convergence_def quorum_convergence_eq [OF assms] Let_def current_views js_set_members_many
  by (simp add: not_le)

text \<open>The report for an input in which every view is accepted.\<close>

lemma evaluate_accepted:
  assumes "topologyBoundaryViolation (safeObj input) = None" "js_get (safeObj input) ''quorum_threshold'' = JNum (NInt k)" "0 < k"
    and "js_get (safeObj input) ''participant_views'' = JArr vs" "vs \<noteq> []" "list_all (\<lambda>v. view_refused (safeObj v) = None) vs"
  shows "evaluateDistributedTopologyConvergence input =
    (case arbitration_outcome (js_get (safeObj input) ''arbitration_evidence'') of
       Inl c \<Rightarrow> buildNullConvergence [c] k
     | Inr True \<Rightarrow> buildConvergenceOutput DT_CONFLICT_ESCALATED QL_NULL [DC_CONFLICT_ESCALATED, DC_CONFLICT_UNRESOLVED]
         (map safeObj vs) k JNull
     | Inr False \<Rightarrow> quorum_convergence (map safeObj vs) k)"
proof -
  obtain w ws where vs: "vs = w # ws" using assms(5) by (cases vs) auto
  have "validate_views (w # ws) [] = Inr (map safeObj (w # ws))" using assms(6) unfolding vs validate_views_acc by simp
  moreover have "positive_integer (js_get (safeObj input) ''quorum_threshold'') = k" using assms(2,3) by (simp add: positive_integer_def)
  ultimately show ?thesis
    using assms(1,3,4) by (simp only: evaluateDistributedTopologyConvergence_def vs Let_def option.case jsval.case list.case sum.case)
      simp
qed

lemma evaluate_not_null:
  assumes "js_get (evaluateDistributedTopologyConvergence input) ''convergence_result'' \<noteq> JStr ''NULL''"
  shows "topologyBoundaryViolation (safeObj input) = None \<and>
    (\<exists>k vs. js_get (safeObj input) ''quorum_threshold'' = JNum (NInt k) \<and> 0 < k \<and>
       js_get (safeObj input) ''participant_views'' = JArr vs \<and> vs \<noteq> [] \<and> list_all (\<lambda>v. view_refused (safeObj v) = None) vs)"
proof -
  let ?obj = "safeObj input"
  have b: "topologyBoundaryViolation ?obj = None" and t: "positive_integer (js_get ?obj ''quorum_threshold'') \<noteq> 0"
    using assms by (auto simp: evaluateDistributedTopologyConvergence_def Let_def split: option.splits if_splits)
  obtain v vs where v: "js_get ?obj ''participant_views'' = JArr (v # vs)"
    using assms b t by (auto simp: evaluateDistributedTopologyConvergence_def Let_def split: jsval.splits list.splits)
  have "\<exists>ws. validate_views (v # vs) [] = Inr ws"
    using assms b t v by (auto simp: evaluateDistributedTopologyConvergence_def Let_def simp del: validate_views.simps split: sum.splits)
  then have "list_all (\<lambda>v. view_refused (safeObj v) = None) (v # vs)"
    unfolding validate_views_acc by (auto split: if_splits)
  moreover obtain k where "js_get ?obj ''quorum_threshold'' = JNum (NInt k)" "0 < k"
    using t by (auto simp: positive_integer_def split: jsval.splits jsnum.splits if_splits)
  ultimately show ?thesis using b v by blast
qed


section \<open>Order of the views\<close>






section \<open>A view\<close>

definition sample_view_input :: "string \<Rightarrow> jsval" where
  "sample_view_input epoch = JObj
     [(''participant_id'', JStr ''n1''), (''topology_epoch'', JStr epoch), (''observed_at'', JStr ''t1''),
      (''surface_graph_hash'', JStr (replicate 64 (CHR ''a''))), (''participant_state'', JStr ''PARTICIPANT_CURRENT'')]"

lemma sample_view_state:
  "epoch \<noteq> [] \<Longrightarrow> js_get (buildTopologyParticipantView (sample_view_input epoch)) ''participant_state'' = JStr ''PARTICIPANT_CURRENT'' \<and>
     js_get (buildTopologyParticipantView (sample_view_input epoch)) ''topology_epoch'' = JStr epoch \<and>
     isPlainObject (buildTopologyParticipantView (sample_view_input epoch))"
proof -
  have hex: "is_hex64 (replicate 64 (CHR ''a''))" by (simp add: is_hex64_def list_all_iff)
  assume "epoch \<noteq> []"
  with hex show ?thesis
    by (simp add: buildTopologyParticipantView_def sample_view_input_def safeObj_def topologyBoundaryViolation_def js_in_def
        str_or_null_def KNOWN_PARTICIPANT_STATES_def participant_fields_def Let_def)
qed

lemma view_accepted:
  assumes "js_get (buildTopologyParticipantView input) ''participant_state'' \<noteq> JStr ''PARTICIPANT_NULL''"
  shows "view_refused (safeObj (buildTopologyParticipantView input)) = None"
proof -
  have n: "js_get (buildNullParticipantView obj) ''participant_state'' = JStr ''PARTICIPANT_NULL''" for obj
    by (simp add: buildNullParticipantView_def participant_fields_def)
  obtain pid ep h ah st ob where v: "buildTopologyParticipantView input = JObj (participant_fields pid ep h ah st ob @
      [(''participant_hash'', JStr (computeTopologyParticipantHash (JObj (participant_fields pid ep h ah st ob))))])"
    and h: "isValidSha256 h" and st: "st \<noteq> ''PARTICIPANT_NULL''"
    using assms n by (auto simp: buildTopologyParticipantView_def Let_def split: if_splits jsval.splits)
  show ?thesis
    unfolding v using h st
    by (simp add: view_refused_def topologyBoundaryViolation_def js_in_def safeObj_def participant_fields_def
        computeTopologyParticipantHash_def is_hex64_sha256Hex)
qed

section \<open>Properties\<close>

text \<open>
  C34. The report is CONVERGED exactly when the input crosses no boundary, states a positive
  threshold, has only accepted views, no unresolved conflict, at least as many current views as
  the threshold, and all current views agree on epoch and surface graph.
\<close>

theorem topology_converged_exactly:
  "js_get (evaluateDistributedTopologyConvergence input) ''convergence_result'' = JStr ''TOPOLOGY_CONVERGED'' \<longleftrightarrow>
     topologyBoundaryViolation (safeObj input) = None \<and>
     arbitration_outcome (js_get (safeObj input) ''arbitration_evidence'') = Inr False \<and>
     (\<exists>k vs. js_get (safeObj input) ''quorum_threshold'' = JNum (NInt k) \<and> 0 < k \<and>
        js_get (safeObj input) ''participant_views'' = JArr vs \<and> list_all (\<lambda>v. view_refused (safeObj v) = None) vs \<and>
        k \<le> int (length (filter (view_state TP_CURRENT) vs)) \<and>
        agreed (current_values ''topology_epoch'' vs) \<and> agreed (current_values ''surface_graph_hash'' vs))"
    (is "?L \<longleftrightarrow> ?b \<and> ?a \<and> ?R")
proof -
  have acc: "?L \<longleftrightarrow> ?a \<and> k \<le> int (viewed TP_CURRENT vs) \<and> agreed (current_values ''topology_epoch'' vs) \<and>
      agreed (current_values ''surface_graph_hash'' vs)"
    if "?b" "js_get (safeObj input) ''quorum_threshold'' = JNum (NInt k)" "0 < k"
      "js_get (safeObj input) ''participant_views'' = JArr vs" "vs \<noteq> []" "list_all (\<lambda>v. view_refused (safeObj v) = None) vs" for k vs
    unfolding evaluate_accepted [OF that] using quorum_convergence_cases [OF that(3,5)]
    by (auto split: sum.split bool.split)
  show ?thesis
  proof
    assume l: ?L
    then obtain k vs where "?b" "js_get (safeObj input) ''quorum_threshold'' = JNum (NInt k)" "0 < k"
      "js_get (safeObj input) ''participant_views'' = JArr vs" "vs \<noteq> []" "list_all (\<lambda>v. view_refused (safeObj v) = None) vs"
      using evaluate_not_null [of input] by auto
    with acc l show "?b \<and> ?a \<and> ?R" unfolding viewed_def by blast
  next
    assume r: "?b \<and> ?a \<and> ?R"
    then obtain k vs where k: "js_get (safeObj input) ''quorum_threshold'' = JNum (NInt k)" "0 < k"
      "js_get (safeObj input) ''participant_views'' = JArr vs" "list_all (\<lambda>v. view_refused (safeObj v) = None) vs"
      and q: "k \<le> int (viewed TP_CURRENT vs)" "agreed (current_values ''topology_epoch'' vs)" "agreed (current_values ''surface_graph_hash'' vs)"
      unfolding viewed_def by blast
    have "vs \<noteq> []" using k(2) q(1) by (auto simp: viewed_def)
    with acc k q r show ?L by blast
  qed
qed



text \<open>
  What the program builds it accepts: a view that \<^verbatim>\<open>buildTopologyParticipantView\<close> does not
  mark as null passes every check of the report, the recomputation of its hash included.
\<close>

theorem built_view_accepted:
  assumes "js_get (buildTopologyParticipantView input) ''participant_state'' \<noteq> JStr ''PARTICIPANT_NULL''"
  shows "view_refused (safeObj (buildTopologyParticipantView input)) = None"
  using assms by (rule view_accepted)

theorem built_view_accepted_witness:
  "view_refused (safeObj (buildTopologyParticipantView (sample_view_input ''e1''))) = None"
  by (rule built_view_accepted) (simp add: sample_view_state)

text \<open>
  The quorum counts views, not participants: one accepted current view with a plain epoch,
  repeated as often as the threshold asks, is reported as TOPOLOGY_CONVERGED, whatever the
  threshold is.
\<close>

theorem one_participant_converges:
  assumes "view_refused (safeObj v) = None" "view_state TP_CURRENT v" "\<not> is_object_or_array (js_get (safeObj v) ''topology_epoch'')"
    and "0 < n"
  shows "js_get (evaluateDistributedTopologyConvergence (topology_input (JNum (NInt (int n))) (replicate n v) JNull)) ''convergence_result'' =
    JStr ''TOPOLOGY_CONVERGED''"
proof -
  let ?i = "topology_input (JNum (NInt (int n))) (replicate n v) JNull"
  have i: "topologyBoundaryViolation (safeObj ?i) = None" "js_get (safeObj ?i) ''quorum_threshold'' = JNum (NInt (int n))"
    "js_get (safeObj ?i) ''participant_views'' = JArr (replicate n v)"
    "arbitration_outcome (js_get (safeObj ?i) ''arbitration_evidence'') = Inr False"
    by (simp_all add: topology_input_def safeObj_def topologyBoundaryViolation_def js_in_def arbitration_outcome_def)
  have f: "filter (view_state TP_CURRENT) (replicate n v) = replicate n v" using assms(2) by simp
  have "isValidSha256 (js_get (safeObj v) ''surface_graph_hash'')"
    using assms(1) by (auto simp: view_refused_def split: option.splits if_splits)
  then have "\<not> is_object_or_array (js_get (safeObj v) ''surface_graph_hash'')" by (cases "js_get (safeObj v) ''surface_graph_hash''") auto
  then have agr: "agreed (current_values ''surface_graph_hash'' (replicate n v))" "agreed (current_values ''topology_epoch'' (replicate n v))"
    using assms(3,4) f by (simp_all add: agreed_def current_values_def list_all_iff)
  have ne: "replicate n v \<noteq> []" "0 < int n" using assms(4) by simp_all
  have "list_all (\<lambda>v. view_refused (safeObj v) = None) (replicate n v)" using assms(1) by (simp add: list_all_iff)
  from evaluate_accepted [OF i(1,2) ne(2) i(3) ne(1) this] show ?thesis
    using quorum_convergence_cases [OF ne(2) ne(1)] agr f by (simp add: i(4) viewed_def)
qed

theorem one_participant_converges_witness:
  "js_get (evaluateDistributedTopologyConvergence (topology_input (JNum (NInt (int 3)))
     (replicate 3 (buildTopologyParticipantView (sample_view_input ''e1''))) JNull)) ''convergence_result'' = JStr ''TOPOLOGY_CONVERGED''"
proof (rule one_participant_converges)
  let ?v = "buildTopologyParticipantView (sample_view_input ''e1'')"
  have s: "safeObj ?v = ?v" using sample_view_state [of "''e1''"] by (simp add: safeObj_def)
  show "view_refused (safeObj ?v) = None" by (rule view_accepted) (simp add: sample_view_state)
  show "view_state TP_CURRENT ?v" "\<not> is_object_or_array (js_get (safeObj ?v) ''topology_epoch'')"
    using sample_view_state [of "''e1''"] by (simp_all add: view_state_def s)
qed simp

text \<open>
  The telemetry does not check what it reads: an artifact that claims convergence and
  carries no hash at all is counted as converged.
\<close>

theorem telemetry_trusts_unhashed:
  "tmx_topology_converged_total (readDistributedTopologyTelemetry (JObj
     [(''artifact'', JStr ''DISTRIBUTED_TOPOLOGY_CONVERGENCE''), (''convergence_result'', JStr ''TOPOLOGY_CONVERGED'')])) = 1"
  by (simp add: readDistributedTopologyTelemetry_def safeObj_def js_in_def)


end
