(* ===== verification/Lineage_Reconciliation.thy ===== *)
theory Lineage_Reconciliation
  imports Closure
begin

text \<open>
  \<^verbatim>\<open>src/distributed-continuity-lineage-reconciliation.ts\<close>: the reconciliation of lineage registries
  observed at several nodes. It merges the views, looks for orphans, cycles, stale entries and
  revocations that did not reach the children, judges replay records, compares the registry hashes
  and classifies the whole. Evidence only.

  An entry and a view have the fields of the closure report, so its records are used; the readers
  and the list of forbidden fields are copies of those of the revocation report. \<^verbatim>\<open>Date.parse\<close>, the
  clock (one instant for the whole report) and \<^verbatim>\<open>localeCompare\<close> are arguments; numbers are integers.
  Observations get their ids from a running index, so they are collected first and numbered at
  the end.
\<close>

section \<open>Data\<close>

datatype ContinuityLineageReconciliationOutcome =
  LINEAGE_RECONCILED | LINEAGE_DIVERGED | LINEAGE_ORPHANED | LINEAGE_REVOKED | LINEAGE_STALE | LINEAGE_COLLAPSED | LINEAGE_NULL

datatype ContinuityLineageDriftClass =
  LD_ORPHAN_LINEAGE_DETECTED | LD_DETACHED_REPLAY_DETECTED | LD_STALE_LINEAGE_RESURRECTION
| LD_REVOCATION_PROPAGATION_INCOMPLETE | LD_DISTRIBUTED_LINEAGE_DRIFT | LD_REPLAY_LINEAGE_MISMATCH
| LD_LINEAGE_HASH_MISMATCH | LD_ANCESTRY_CYCLE_DETECTED | LD_ANCESTRY_DEPTH_EXCEEDED | LD_FRESHNESS_BARRIER_VIOLATED
| LD_REVOCATION_AMBIGUITY_DETECTED | LD_BOUNDARY_VIOLATION_DETECTED

datatype ContinuityConvergenceResult = CCR_REACHED | CCR_DIVERGED | CCR_COLLAPSED | CCR_NULL

record ContinuityReplayRecord =
  cy_replay_id :: string
  cy_continuity_id :: string
  cy_continuity_hash :: string
  cy_lineage_hash :: string

record ContinuityRevocationEvidence =
  ce_revocation_id :: string
  ce_root_continuity_id :: string
  ce_revoked_at :: string
  ce_propagated_to_ids :: "string list"

record ContinuityLineageDriftObservation =
  do_observation_id :: string
  do_drift_class :: ContinuityLineageDriftClass
  do_affected_continuity_id :: "string option"
  do_detail :: string

record ContinuityReplayEligibilityEntry =
  re_replay_id :: string
  re_continuity_id :: string
  re_eligible :: bool
  re_ineligibility_reason :: "string option"

record ContinuityLineageAuditSurface =
  ls_audit_id :: string
  ls_lineage_topology_hash :: string
  ls_participant_count :: nat
  ls_converged_count :: nat
  ls_orphaned_count :: nat
  ls_revocation_complete :: bool
  ls_drift_count :: nat

record DistributedContinuityLineageReconciliation =
  dl_reconciliation_id :: string
  dl_reconciliation_result :: ContinuityLineageReconciliationOutcome
  dl_lineage_topology_hash :: string
  dl_participant_count :: nat
  dl_converged_count :: nat
  dl_diverged_count :: nat
  dl_orphaned_ids :: "string list"
  dl_revocation_propagation_complete :: bool
  dl_replay_eligibility :: "ContinuityReplayEligibilityEntry list"
  dl_drift_observations :: "ContinuityLineageDriftObservation list"
  dl_audit_surface :: ContinuityLineageAuditSurface

section \<open>Hashes\<close>

definition computeContinuityLineageTopologyHash :: "(string \<Rightarrow> string \<Rightarrow> bool) \<Rightarrow> ClosureEntry list \<Rightarrow> string" where
  "computeContinuityLineageTopologyHash loc entries = sha256Hex (canonicalize (JArr (map (\<lambda>e. JObj
       [(''continuity_hash'', JStr (rl_continuity_hash e)), (''continuity_id'', JStr (rl_continuity_id e)),
        (''identity_id'', js_opt (cn_identity_id e)), (''parent_continuity_id'', js_opt (rl_parent_continuity_id e)),
        (''session_id'', JStr (rl_session_id e)), (''status'', JStr (rl_status e))])
     (js_sort (\<lambda>a b. loc (rl_continuity_id a) (rl_continuity_id b)) entries))))"

definition computeRegistryViewConvergenceHash :: "(string \<Rightarrow> string \<Rightarrow> bool) \<Rightarrow> ClosureRegistryView \<Rightarrow> string" where
  "computeRegistryViewConvergenceHash loc view = sha256Hex (canonicalize (JObj
     [(''entries_topology_hash'', JStr (computeContinuityLineageTopologyHash loc (cw_entries view))),
      (''lineage_root_id'', JStr (cw_lineage_root_id view)), (''node_id'', JStr (cw_node_id view)),
      (''registry_epoch'', JStr (cw_registry_epoch view))]))"

section \<open>Orphans and walks\<close>

definition detectOrphanedContinuityLineage :: "ClosureEntry list \<Rightarrow> string list" where
  "detectOrphanedContinuityLineage entries =
     (let index = filter (\<lambda>i. i \<noteq> []) (map (\<lambda>e. js_trim (rl_continuity_id e)) entries)
      in map rl_continuity_id (filter (\<lambda>e. parent_id e \<noteq> [] \<and> parent_id e \<notin> set index) entries))"

record LineageTraversal =
  lt_ok :: bool
  lt_cycle_detected :: bool
  lt_depth_exceeded :: bool
  lt_depth :: nat

text \<open>The \<^verbatim>\<open>while\<close> loop: \<open>visited\<close> has one id per round, so its length is \<^verbatim>\<open>depth\<close>.\<close>

function ancestry_walk :: "closure_index \<Rightarrow> nat \<Rightarrow> string list \<Rightarrow> string \<Rightarrow> LineageTraversal" where
  "ancestry_walk index maxDepth visited current =
     (if current = [] then \<lparr>lt_ok = True, lt_cycle_detected = False, lt_depth_exceeded = False, lt_depth = length visited\<rparr>
      else if current \<in> set visited
      then \<lparr>lt_ok = False, lt_cycle_detected = True, lt_depth_exceeded = False, lt_depth = length visited\<rparr>
      else if Suc (length visited) > maxDepth
      then \<lparr>lt_ok = False, lt_cycle_detected = False, lt_depth_exceeded = True, lt_depth = Suc (length visited)\<rparr>
      else case map_of index current of
        None \<Rightarrow> \<lparr>lt_ok = True, lt_cycle_detected = False, lt_depth_exceeded = False, lt_depth = Suc (length visited)\<rparr>
      | Some node \<Rightarrow> ancestry_walk index maxDepth (visited @ [current]) (parent_id node))"
  by pat_completeness auto
termination
  by (relation "measure (\<lambda>(index, maxDepth, visited, current). Suc maxDepth - length visited)") auto

declare ancestry_walk.simps [simp del]

definition traverseAncestry :: "string \<Rightarrow> closure_index \<Rightarrow> nat \<Rightarrow> LineageTraversal" where
  "traverseAncestry startId index maxDepth = ancestry_walk index maxDepth [] startId"

section \<open>Replay, revocation, convergence, freshness\<close>

text \<open>Eligible is \<^verbatim>\<open>null\<close>, an ineligible record has a reason.\<close>

definition verifyReplayLineageEligibility ::
  "(string \<Rightarrow> int option) \<Rightarrow> int \<Rightarrow> ContinuityReplayRecord \<Rightarrow> closure_index \<Rightarrow> ContinuityRevocationEvidence list \<Rightarrow> string option" where
  "verifyReplayLineageEligibility parse now replay index revocationEvidence =
     (case map_of index (cy_continuity_id replay) of
        None \<Rightarrow> Some ''detached_replay_no_continuity_entry''
      | Some entry \<Rightarrow>
          if isRevokedOrExpired parse now entry then Some ''replay_continuity_revoked_or_expired''
          else if is_hex64 (rl_continuity_hash entry) \<and> is_hex64 (cy_continuity_hash replay) \<and>
                  rl_continuity_hash entry \<noteq> cy_continuity_hash replay then Some ''replay_continuity_hash_mismatch''
          else if list_ex (\<lambda>rv. ce_root_continuity_id rv = cy_continuity_id replay \<or>
                              cy_continuity_id replay \<in> set (ce_propagated_to_ids rv)) revocationEvidence
          then Some ''replay_revocation_cascade_detected''
          else None)"

definition missing_propagations :: "ContinuityRevocationEvidence \<Rightarrow> closure_index \<Rightarrow> string list" where
  "missing_propagations rv index =
     (let shouldBeRevoked = ce_root_continuity_id rv # ce_propagated_to_ids rv
      in map fst (filter (\<lambda>(i, entry). parent_id entry \<noteq> [] \<and> parent_id entry \<in> set shouldBeRevoked \<and>
           i \<notin> set shouldBeRevoked \<and> isActiveStatus (rl_status entry)) index))"

text \<open>\<^verbatim>\<open>verifyRevocationPropagationCompleteness\<close>; the revocation report has a function of the same name.\<close>

definition verifyLineageRevocationCompleteness ::
  "ContinuityRevocationEvidence list \<Rightarrow> closure_index \<Rightarrow> bool \<times> string list" where
  "verifyLineageRevocationCompleteness revocationEvidence index =
     (let missing = concat (map (\<lambda>rv. missing_propagations rv index) revocationEvidence) in (missing = [], missing))"

record LineageConvergence =
  lx_convergence_result :: ContinuityConvergenceResult
  lx_converged_count :: nat
  lx_diverged_count :: nat
  lx_canonical_epoch :: "string option"
  lx_canonical_registry_hash :: "string option"

definition evaluateContinuityLineageConvergence :: "ClosureRegistryView list \<Rightarrow> LineageConvergence" where
  "evaluateContinuityLineageConvergence views =
     (if views = [] then
        \<lparr>lx_convergence_result = CCR_COLLAPSED, lx_converged_count = 0, lx_diverged_count = 0, lx_canonical_epoch = None,
         lx_canonical_registry_hash = None\<rparr>
      else
        let (topHash, topCount) = top_loop ([], 0) (count_loop [] (map cw_registry_hash views));
            canonicalEpoch = map_option cw_registry_epoch (find (\<lambda>v. cw_registry_hash v = topHash) views)
        in if topCount = length views then
             \<lparr>lx_convergence_result = CCR_REACHED, lx_converged_count = topCount, lx_diverged_count = 0,
              lx_canonical_epoch = canonicalEpoch, lx_canonical_registry_hash = Some topHash\<rparr>
           else
             \<lparr>lx_convergence_result = CCR_DIVERGED, lx_converged_count = topCount, lx_diverged_count = length views - topCount,
              lx_canonical_epoch = canonicalEpoch, lx_canonical_registry_hash = Some topHash\<rparr>)"

definition checkFreshnessBarrier :: "(string \<Rightarrow> int option) \<Rightarrow> int \<Rightarrow> ClosureEntry list \<Rightarrow> int \<Rightarrow> string list" where
  "checkFreshnessBarrier parse now entries freshnessHorizonMs =
     map rl_continuity_id (filter (\<lambda>e. case rl_expires_at e of
         None \<Rightarrow> False
       | Some t \<Rightarrow> t \<noteq> [] \<and> (case parse t of None \<Rightarrow> False | Some ms \<Rightarrow> ms > 0 \<and> ms - now < freshnessHorizonMs)) entries)"

section \<open>Outputs\<close>

definition buildContinuityLineageAuditSurface ::
  "string \<Rightarrow> string \<Rightarrow> nat \<Rightarrow> nat \<Rightarrow> string list \<Rightarrow> bool \<Rightarrow> nat \<Rightarrow> ContinuityLineageAuditSurface" where
  "buildContinuityLineageAuditSurface reconciliation_id lineage_topology_hash participant_count converged_count orphaned_ids
     revocation_complete drift_count =
     \<lparr>ls_audit_id = sha256Hex (canonicalize (JObj
        [(''converged_count'', js_nat converged_count), (''drift_count'', js_nat drift_count),
         (''lineage_topology_hash'', JStr lineage_topology_hash), (''orphaned_count'', js_nat (length orphaned_ids)),
         (''participant_count'', js_nat participant_count), (''reconciliation_id'', JStr reconciliation_id),
         (''revocation_complete'', JBool revocation_complete)])),
      ls_lineage_topology_hash = lineage_topology_hash, ls_participant_count = participant_count,
      ls_converged_count = converged_count, ls_orphaned_count = length orphaned_ids,
      ls_revocation_complete = revocation_complete, ls_drift_count = drift_count\<rparr>"

definition buildNullReconciliation :: "string \<Rightarrow> DistributedContinuityLineageReconciliation" where
  "buildNullReconciliation reconciliation_id =
     (let nullHash = sha256Hex (canonicalize (JObj [(''null'', JBool True), (''reconciliation_id'', JStr reconciliation_id)]))
      in \<lparr>dl_reconciliation_id = reconciliation_id, dl_reconciliation_result = LINEAGE_NULL, dl_lineage_topology_hash = nullHash,
          dl_participant_count = 0, dl_converged_count = 0, dl_diverged_count = 0, dl_orphaned_ids = [],
          dl_revocation_propagation_complete = False, dl_replay_eligibility = [], dl_drift_observations = [],
          dl_audit_surface = buildContinuityLineageAuditSurface reconciliation_id nullHash 0 0 [] False 0\<rparr>)"

section \<open>Reading the input\<close>

definition read_lineage_entry :: "jsval \<Rightarrow> ClosureEntry" where
  "read_lineage_entry e =
     \<lparr>rl_continuity_id = js_String (js_get e ''continuity_id''), rl_session_id = str_field e ''session_id'',
      rl_parent_continuity_id = opt_field e ''parent_continuity_id'', rl_continuity_hash = str_field e ''continuity_hash'',
      rl_status = str_field e ''status'', rl_revoked_at = opt_field e ''revoked_at'', rl_expires_at = opt_field e ''expires_at'',
      cn_identity_id = opt_field e ''identity_id''\<rparr>"

fun read_lineage_entries :: "jsval list \<Rightarrow> ClosureEntry list option" where
  "read_lineage_entries [] = Some []"
| "read_lineage_entries (re # res) =
     (let e = safeObj re in
      if hasForbiddenField e then None
      else if js_trim (str_field e ''continuity_id'') = [] then read_lineage_entries res
      else map_option (Cons (read_lineage_entry e)) (read_lineage_entries res))"

fun read_lineage_views :: "jsval list \<Rightarrow> ClosureRegistryView list option" where
  "read_lineage_views [] = Some []"
| "read_lineage_views (rv # rvs) =
     (let v = safeObj rv in
      if hasForbiddenField v then None
      else if js_trim (str_field v ''node_id'') = [] \<or> js_trim (str_field v ''registry_epoch'') = [] \<or>
              js_trim (str_field v ''lineage_root_id'') = [] \<or> \<not> isValidSha256 (js_get v ''registry_hash'')
      then read_lineage_views rvs
      else case read_lineage_entries (js_array (js_get v ''entries'')) of
        None \<Rightarrow> None
      | Some entries \<Rightarrow> map_option (Cons
          \<lparr>cw_node_id = js_String (js_get v ''node_id''), cw_registry_epoch = js_String (js_get v ''registry_epoch''),
           cw_lineage_root_id = js_String (js_get v ''lineage_root_id''), cw_entries = entries,
           cw_registry_hash = js_String (js_get v ''registry_hash'')\<rparr>) (read_lineage_views rvs))"

definition read_continuity_revocation :: "jsval \<Rightarrow> ContinuityRevocationEvidence option" where
  "read_continuity_revocation rr =
     (let r = safeObj rr in
      if js_trim (str_field r ''revocation_id'') = [] \<or> js_trim (str_field r ''root_continuity_id'') = [] \<or>
         js_trim (str_field r ''revoked_at'') = [] then None
      else Some \<lparr>ce_revocation_id = js_String (js_get r ''revocation_id''),
        ce_root_continuity_id = js_String (js_get r ''root_continuity_id''), ce_revoked_at = js_String (js_get r ''revoked_at''),
        ce_propagated_to_ids = map js_String (filter isNonBlankString (js_array (js_get r ''propagated_to_ids'')))\<rparr>)"

definition read_continuity_replay :: "jsval \<Rightarrow> ContinuityReplayRecord option" where
  "read_continuity_replay rr =
     (let r = safeObj rr; replayId = js_trim (str_field r ''replay_id''); continuityId = js_trim (str_field r ''continuity_id'') in
      if replayId = [] \<or> continuityId = [] then None
      else Some \<lparr>cy_replay_id = replayId, cy_continuity_id = continuityId, cy_continuity_hash = str_field r ''continuity_hash'',
                 cy_lineage_hash = str_field r ''lineage_hash''\<rparr>)"

section \<open>Observations\<close>

type_synonym pending_observation = "ContinuityLineageDriftClass \<times> string option \<times> string"

definition orphan_observation :: "string \<Rightarrow> pending_observation" where
  "orphan_observation oid = (LD_ORPHAN_LINEAGE_DETECTED, Some oid,
     ''continuity_id '' @ oid @ '' references a parent not found in any registry view'')"

definition walk_observation :: "closure_index \<Rightarrow> nat \<Rightarrow> ClosureEntry \<Rightarrow> pending_observation list" where
  "walk_observation index maxDepth entry =
     (let result = traverseAncestry (rl_continuity_id entry) index maxDepth in
      if lt_ok result then []
      else if lt_cycle_detected result then [(LD_ANCESTRY_CYCLE_DETECTED, Some (rl_continuity_id entry),
        ''ancestry cycle detected at depth '' @ nat_dec (lt_depth result) @ '' for continuity_id '' @ rl_continuity_id entry)]
      else [(LD_ANCESTRY_DEPTH_EXCEEDED, Some (rl_continuity_id entry),
        ''ancestry depth '' @ nat_dec (lt_depth result) @ '' exceeded maximum '' @ nat_dec maxDepth @
        '' for continuity_id '' @ rl_continuity_id entry)])"

definition freshness_observation :: "int \<Rightarrow> string \<Rightarrow> pending_observation" where
  "freshness_observation horizon sid = (LD_FRESHNESS_BARRIER_VIOLATED, Some sid,
     ''continuity_id '' @ sid @ '' violates freshness barrier of '' @ int_dec horizon @ ''ms'')"

definition propagation_observation :: "string \<Rightarrow> pending_observation" where
  "propagation_observation mid = (LD_REVOCATION_PROPAGATION_INCOMPLETE, Some mid,
     ''continuity_id '' @ mid @ '' should be revoked by cascade but remains ACTIVE'')"

definition replay_drift_class :: "string \<Rightarrow> ContinuityLineageDriftClass" where
  "replay_drift_class reason =
     (if reason = ''detached_replay_no_continuity_entry'' then LD_DETACHED_REPLAY_DETECTED
      else if reason = ''replay_continuity_revoked_or_expired'' then LD_STALE_LINEAGE_RESURRECTION
      else if reason = ''replay_revocation_cascade_detected'' then LD_REVOCATION_PROPAGATION_INCOMPLETE
      else LD_REPLAY_LINEAGE_MISMATCH)"

definition replay_observation :: "ContinuityReplayEligibilityEntry \<Rightarrow> pending_observation list" where
  "replay_observation r =
     (case re_ineligibility_reason r of
        None \<Rightarrow> []
      | Some reason \<Rightarrow> [(replay_drift_class reason, Some (re_continuity_id r),
          ''replay_id '' @ re_replay_id r @ '' ineligible: '' @ reason)])"

definition divergence_observation :: "LineageConvergence \<Rightarrow> pending_observation" where
  "divergence_observation convergence = (LD_DISTRIBUTED_LINEAGE_DRIFT, None,
     ''distributed registry views diverged: '' @ nat_dec (lx_converged_count convergence) @ '' converged, '' @
     nat_dec (lx_diverged_count convergence) @ '' diverged'')"

definition number_observations :: "string \<Rightarrow> pending_observation list \<Rightarrow> ContinuityLineageDriftObservation list" where
  "number_observations reconciliationId pending =
     map2 (\<lambda>(c, a, d) n. \<lparr>do_observation_id = reconciliationId @ ''-obs-'' @ nat_dec n, do_drift_class = c,
                             do_affected_continuity_id = a, do_detail = d\<rparr>) pending [0..<length pending]"

section \<open>The report\<close>

record ReconciliationInput =
  ri_views :: "ClosureRegistryView list"
  ri_max_depth :: nat
  ri_horizon :: "int option"
  ri_revocations :: "ContinuityRevocationEvidence list"
  ri_replays :: "ContinuityReplayRecord list"

definition reconciliation_result_of ::
  "string list \<Rightarrow> pending_observation list \<Rightarrow> bool \<Rightarrow> LineageConvergence \<Rightarrow> ContinuityLineageReconciliationOutcome" where
  "reconciliation_result_of orphanedIds pending revocationComplete convergence =
     (let seen = \<lambda>c. c \<in> fst ` set pending in
      if orphanedIds \<noteq> [] then LINEAGE_ORPHANED
      else if seen LD_ANCESTRY_CYCLE_DETECTED \<or> seen LD_ANCESTRY_DEPTH_EXCEEDED then LINEAGE_COLLAPSED
      else if \<not> revocationComplete then LINEAGE_REVOKED
      else if lx_convergence_result convergence = CCR_DIVERGED \<or> lx_convergence_result convergence = CCR_COLLAPSED
      then LINEAGE_DIVERGED
      else if seen LD_STALE_LINEAGE_RESURRECTION \<or> seen LD_FRESHNESS_BARRIER_VIOLATED then LINEAGE_STALE
      else LINEAGE_RECONCILED)"

definition replay_eligibility_entry ::
  "(string \<Rightarrow> int option) \<Rightarrow> int \<Rightarrow> closure_index \<Rightarrow> ContinuityRevocationEvidence list \<Rightarrow> ContinuityReplayRecord
   \<Rightarrow> ContinuityReplayEligibilityEntry" where
  "replay_eligibility_entry parse now index revocationEvidence r =
     (let reason = verifyReplayLineageEligibility parse now r index revocationEvidence
      in \<lparr>re_replay_id = cy_replay_id r, re_continuity_id = cy_continuity_id r, re_eligible = (reason = None),
          re_ineligibility_reason = reason\<rparr>)"

text \<open>What is observed before the views are compared, in the order of the checks.\<close>

definition pending_observations ::
  "(string \<Rightarrow> int option) \<Rightarrow> int \<Rightarrow> closure_index \<Rightarrow> ReconciliationInput \<Rightarrow> pending_observation list" where
  "pending_observations parse now index inp =
     (let allEntries = map snd index in
      map orphan_observation (detectOrphanedContinuityLineage allEntries) @
      concat (map (walk_observation index (ri_max_depth inp)) allEntries) @
      (case ri_horizon inp of None \<Rightarrow> [] | Some h \<Rightarrow> map (freshness_observation h) (checkFreshnessBarrier parse now allEntries h)) @
      map propagation_observation (snd (verifyLineageRevocationCompleteness (ri_revocations inp) index)) @
      concat (map (\<lambda>r. replay_observation (replay_eligibility_entry parse now index (ri_revocations inp) r)) (ri_replays inp)))"

definition reconciliation_report ::
  "(string \<Rightarrow> int option) \<Rightarrow> int \<Rightarrow> (string \<Rightarrow> string \<Rightarrow> bool) \<Rightarrow> string \<Rightarrow> ReconciliationInput
   \<Rightarrow> DistributedContinuityLineageReconciliation" where
  "reconciliation_report parse now loc reconciliationId inp =
     (let views = ri_views inp;
          allEntriesMap = closure_entries views;
          allEntries = map snd allEntriesMap;
          lineageTopologyHash = computeContinuityLineageTopologyHash loc allEntries;
          orphanedIds = detectOrphanedContinuityLineage allEntries;
          revocationComplete = fst (verifyLineageRevocationCompleteness (ri_revocations inp) allEntriesMap);
          replayEligibility = map (replay_eligibility_entry parse now allEntriesMap (ri_revocations inp)) (ri_replays inp);
          pending = pending_observations parse now allEntriesMap inp;
          convergence = evaluateContinuityLineageConvergence views;
          result = reconciliation_result_of orphanedIds pending revocationComplete convergence;
          observations = number_observations reconciliationId
            (pending @ (if result = LINEAGE_DIVERGED then [divergence_observation convergence] else []))
      in \<lparr>dl_reconciliation_id = reconciliationId, dl_reconciliation_result = result,
          dl_lineage_topology_hash = lineageTopologyHash, dl_participant_count = length views,
          dl_converged_count = lx_converged_count convergence, dl_diverged_count = lx_diverged_count convergence,
          dl_orphaned_ids = orphanedIds, dl_revocation_propagation_complete = revocationComplete,
          dl_replay_eligibility = replayEligibility, dl_drift_observations = observations,
          dl_audit_surface = buildContinuityLineageAuditSurface reconciliationId lineageTopologyHash (length views)
            (lx_converged_count convergence) orphanedIds revocationComplete (length observations)\<rparr>)"

definition read_reconciliation :: "jsval \<Rightarrow> string \<times> ReconciliationInput option" where
  "read_reconciliation input =
     (let safeInput = safeObj input in
      if \<not> isNonBlankString (js_get safeInput ''reconciliation_id'') then (''unknown'', None)
      else
        let reconciliationId = js_trim (js_String (js_get safeInput ''reconciliation_id'')) in
        if js_get safeInput ''evidence_only'' \<noteq> JBool True then (reconciliationId, None)
        else if hasForbiddenField safeInput then (reconciliationId, None)
        else if js_array (js_get safeInput ''registry_views'') = [] then (reconciliationId, None)
        else case read_lineage_views (js_array (js_get safeInput ''registry_views'')) of
          None \<Rightarrow> (reconciliationId, None)
        | Some views \<Rightarrow>
            if views = [] then (reconciliationId, None)
            else (reconciliationId, Some
              \<lparr>ri_views = views, ri_max_depth = read_max_ancestry_depth (js_get safeInput ''max_ancestry_depth''),
               ri_horizon = read_horizon (js_get safeInput ''freshness_horizon_ms''),
               ri_revocations = List.map_filter read_continuity_revocation (js_array (js_get safeInput ''revocation_evidence'')),
               ri_replays = List.map_filter read_continuity_replay (js_array (js_get safeInput ''replay_records''))\<rparr>))"

definition reconcileDistributedContinuityLineage ::
  "(string \<Rightarrow> int option) \<Rightarrow> int \<Rightarrow> (string \<Rightarrow> string \<Rightarrow> bool) \<Rightarrow> jsval \<Rightarrow> DistributedContinuityLineageReconciliation" where
  "reconcileDistributedContinuityLineage parse now loc input =
     (case read_reconciliation input of
        (reconciliationId, None) \<Rightarrow> buildNullReconciliation reconciliationId
      | (reconciliationId, Some inp) \<Rightarrow> reconciliation_report parse now loc reconciliationId inp)"

end
