(* ===== verification/Lineage_Reconciliation_Facts.thy ===== *)
theory Lineage_Reconciliation_Facts
  imports Lineage_Reconciliation Closure_Facts
begin

text \<open>
  Facts on \<^verbatim>\<open>src/distributed-continuity-lineage-reconciliation.ts\<close>: what the count of the registry
  hashes and the walk to the root compute, what LINEAGE_RECONCILED means, and what it leaves out.
\<close>

section \<open>The most frequent hash\<close>

lemma count_loop_get:
  "map_of (count_loop m hs) h =
     (if map_of m h = None \<and> h \<notin> set hs then None
      else Some ((case map_of m h of None \<Rightarrow> 0 | Some n \<Rightarrow> n) + count_list hs h))"
  by (induction m hs rule: count_loop.induct) (auto simp: update_conv' split: option.splits)

lemma count_loop_distinct: "distinct (map fst m) \<Longrightarrow> distinct (map fst (count_loop m hs))"
  by (induction m hs rule: count_loop.induct) (simp_all add: distinct_update)

lemma top_loop_max:
  "snd (top_loop t m) \<in> insert (snd t) (snd ` set m) \<and> snd t \<le> snd (top_loop t m) \<and> (\<forall>c\<in>snd ` set m. c \<le> snd (top_loop t m))"
  by (induction t m rule: top_loop.induct) (auto intro: le_trans less_imp_le)

lemma count_list_full: "count_list xs x = length xs \<longleftrightarrow> set xs \<subseteq> {x}"
proof (induction xs)
  case (Cons y ys)
  then show ?case using count_le_length [of ys x] by auto
qed simp

text \<open>The top count reaches the number of hashes exactly when all are equal.\<close>

lemma top_count_full:
  assumes "hs \<noteq> []"
  shows "snd (top_loop ([], 0) (count_loop [] hs)) = length hs \<longleftrightarrow> (\<exists>h. set hs = {h})" (is "?top = _ \<longleftrightarrow> _")
proof -
  have counts: "snd ` set (count_loop [] hs) = count_list hs ` set hs"
  proof -
    have "(h, n) \<in> set (count_loop [] hs) \<longleftrightarrow> h \<in> set hs \<and> n = count_list hs h" for h n
      using map_of_eq_Some_iff [OF count_loop_distinct [of "[]" hs], of h n]
      by (auto simp: count_loop_get split: if_splits)
    then show ?thesis by force
  qed
  note m = top_loop_max [of "([], 0)" "count_loop [] hs", unfolded counts]
  show ?thesis
  proof
    assume "?top = length hs"
    with m assms obtain h where "h \<in> set hs" "count_list hs h = length hs" by auto
    then show "\<exists>h. set hs = {h}" unfolding count_list_full by blast
  next
    assume "\<exists>h. set hs = {h}"
    then obtain h where h: "set hs = {h}" ..
    then have "count_list hs h = length hs" unfolding count_list_full by simp
    then have "?top = 0 \<or> ?top = length hs" "length hs \<le> ?top" using m by (simp_all add: h)
    then show "?top = length hs" using assms by fastforce
  qed
qed

lemma convergence_reached:
  "lx_convergence_result (evaluateContinuityLineageConvergence views) = CCR_REACHED \<longleftrightarrow> (\<exists>h. cw_registry_hash ` set views = {h})"
  "lx_convergence_result (evaluateContinuityLineageConvergence views) \<in> {CCR_REACHED, CCR_DIVERGED, CCR_COLLAPSED}"
  using top_count_full [of "map cw_registry_hash views"]
  by (auto simp: evaluateContinuityLineageConvergence_def Let_def split: prod.splits)

section \<open>The walk to the root\<close>

lemma anc_None_mono: "anc par m x = None \<Longrightarrow> m \<le> n \<Longrightarrow> anc par n x = None"
  by (auto simp: anc_add dest!: le_Suc_ex)

lemma anc_cycle:
  assumes "anc par j i = anc par n i" "j < n" "anc par n i \<noteq> None"
  shows "anc par m i \<noteq> None"
proof (induction m rule: less_induct)
  case (less m)
  show ?case
  proof (cases "m \<le> n")
    case True
    with assms(3) anc_None_mono show ?thesis by metis
  next
    case False
    then obtain l where l: "m = n + l" by (metis le_add_diff_inverse nat_le_linear)
    then have "anc par m i = anc par (j + l) i" using assms(1) by (simp add: anc_add)
    with less.IH [of "j + l"] l assms(2) show ?thesis by simp
  qed
qed

lemma walk_ok:
  assumes "c \<noteq> []" "\<And>k. k < length v \<Longrightarrow> anc (parent_in index) k i = Some (v ! k)" "anc (parent_in index) (length v) i = Some c"
  shows "lt_ok (ancestry_walk index M v c) \<longleftrightarrow> anc (parent_in index) M i = None"
  using assms
proof (induction index M v c rule: ancestry_walk.induct)
  case (1 index M v c)
  let ?P = "parent_in index"
  consider (cycle) "c \<in> set v" | (deep) "c \<notin> set v" "M \<le> length v"
    | (stop) "c \<notin> set v" "length v < M" "?P c = None" | (up) p where "c \<notin> set v" "length v < M" "?P c = Some p"
    by (cases "?P c") force+
  then show ?case
  proof cases
    case cycle
    then obtain j where "j < length v" "v ! j = c" by (auto simp: in_set_conv_nth)
    then have "anc ?P M i \<noteq> None" using anc_cycle [of ?P j i "length v" M] 1 by simp
    then show ?thesis using cycle 1 by (subst ancestry_walk.simps) simp
  next
    case deep
    then have "anc ?P M i \<noteq> None" using anc_None_mono [of ?P M i "length v"] 1 by auto
    then show ?thesis using deep 1 by (subst ancestry_walk.simps) simp
  next
    case stop
    then have "anc ?P (Suc (length v)) i = None" using 1 by simp
    then have "anc ?P M i = None" using stop anc_None_mono by (metis Suc_leI)
    moreover have "map_of index c = None \<or> (\<exists>e. map_of index c = Some e \<and> parent_id e = [])"
      using stop by (auto simp: parent_in_def split: option.splits if_splits)
    ultimately show ?thesis using stop 1
      by (subst ancestry_walk.simps) (auto simp: ancestry_walk.simps [of index M "v @ [c]" "[]"])
  next
    case (up p)
    then obtain e where e: "map_of index c = Some e" "parent_id e = p" "p \<noteq> []"
      by (auto simp: parent_in_def split: option.splits if_splits)
    have chain: "anc ?P k i = Some ((v @ [c]) ! k)" if "k < length (v @ [c])" for k
      using that 1 by (auto simp: nth_append less_Suc_eq)
    have "lt_ok (ancestry_walk index M (v @ [c]) (parent_id e)) \<longleftrightarrow> anc ?P M i = None"
      using up e chain 1(3,4,2) by (intro 1(1)) auto
    then show ?thesis using up e 1(2) by (subst ancestry_walk.simps) simp
  qed
qed

lemma traverse_ok: "i \<noteq> [] \<Longrightarrow> lt_ok (traverseAncestry i index M) \<longleftrightarrow> anc (parent_in index) M i = None"
  unfolding traverseAncestry_def by (rule walk_ok) simp_all

section \<open>The result\<close>

lemma walk_seen: "fst ` set (walk_observation index M e) =
    (let r = traverseAncestry (rl_continuity_id e) index M in
     if lt_ok r then {} else {if lt_cycle_detected r then LD_ANCESTRY_CYCLE_DETECTED else LD_ANCESTRY_DEPTH_EXCEEDED})"
  by (simp add: walk_observation_def Let_def)

text \<open>The only observations of a replay record that enter the result are those of a revoked or expired entry.\<close>

definition replays_stale :: "(string \<Rightarrow> int option) \<Rightarrow> int \<Rightarrow> closure_index \<Rightarrow> ContinuityReplayRecord \<Rightarrow> bool" where
  "replays_stale parse now index r \<longleftrightarrow> (case map_of index (cy_continuity_id r) of
     None \<Rightarrow> False | Some e \<Rightarrow> isRevokedOrExpired parse now e)"

lemma reason_stale:
  "verifyReplayLineageEligibility parse now r index revs = Some ''replay_continuity_revoked_or_expired'' \<longleftrightarrow> replays_stale parse now index r"
  by (cases "map_of index (cy_continuity_id r)") (simp_all add: verifyReplayLineageEligibility_def replays_stale_def)

lemma drift_class_stale: "replay_drift_class reason = LD_STALE_LINEAGE_RESURRECTION \<longleftrightarrow> reason = ''replay_continuity_revoked_or_expired''"
  by (simp add: replay_drift_class_def)

lemma drift_class_range: "replay_drift_class reason \<in>
    {LD_DETACHED_REPLAY_DETECTED, LD_STALE_LINEAGE_RESURRECTION, LD_REVOCATION_PROPAGATION_INCOMPLETE, LD_REPLAY_LINEAGE_MISMATCH}"
  by (simp add: replay_drift_class_def)

lemma replay_classes: "fst ` set (replay_observation (replay_eligibility_entry parse now index revs r)) =
    replay_drift_class ` set_option (verifyReplayLineageEligibility parse now r index revs)"
  by (cases "verifyReplayLineageEligibility parse now r index revs")
    (simp_all add: replay_observation_def replay_eligibility_entry_def Let_def)

lemma replay_seen:
  "LD_STALE_LINEAGE_RESURRECTION \<in> fst ` set (replay_observation (replay_eligibility_entry parse now index revs r)) \<longleftrightarrow>
     replays_stale parse now index r"
  "fst ` set (replay_observation (replay_eligibility_entry parse now index revs r)) \<subseteq>
     {LD_DETACHED_REPLAY_DETECTED, LD_STALE_LINEAGE_RESURRECTION, LD_REVOCATION_PROPAGATION_INCOMPLETE, LD_REPLAY_LINEAGE_MISMATCH}"
proof -
  have "LD_STALE_LINEAGE_RESURRECTION \<in> replay_drift_class ` set_option x \<longleftrightarrow> x = Some ''replay_continuity_revoked_or_expired''" for x
    by (cases x) (use drift_class_stale in \<open>auto simp: eq_commute\<close>)
  then show "LD_STALE_LINEAGE_RESURRECTION \<in> fst ` set (replay_observation (replay_eligibility_entry parse now index revs r)) \<longleftrightarrow>
     replays_stale parse now index r"
    by (simp only: replay_classes reason_stale)
  show "fst ` set (replay_observation (replay_eligibility_entry parse now index revs r)) \<subseteq>
     {LD_DETACHED_REPLAY_DETECTED, LD_STALE_LINEAGE_RESURRECTION, LD_REVOCATION_PROPAGATION_INCOMPLETE, LD_REPLAY_LINEAGE_MISMATCH}"
    unfolding replay_classes using drift_class_range by blast
qed

definition stale_ids :: "(string \<Rightarrow> int option) \<Rightarrow> int \<Rightarrow> closure_index \<Rightarrow> int option \<Rightarrow> string list" where
  "stale_ids parse now index horizon =
     (case horizon of None \<Rightarrow> [] | Some h \<Rightarrow> checkFreshnessBarrier parse now (map snd index) h)"

lemma pending_seen:
  "LD_ANCESTRY_CYCLE_DETECTED \<in> fst ` set (pending_observations parse now index inp) \<or>
   LD_ANCESTRY_DEPTH_EXCEEDED \<in> fst ` set (pending_observations parse now index inp) \<longleftrightarrow>
     (\<exists>e\<in>snd ` set index. \<not> lt_ok (traverseAncestry (rl_continuity_id e) index (ri_max_depth inp)))" (is ?walks)
  "LD_STALE_LINEAGE_RESURRECTION \<in> fst ` set (pending_observations parse now index inp) \<or>
   LD_FRESHNESS_BARRIER_VIOLATED \<in> fst ` set (pending_observations parse now index inp) \<longleftrightarrow>
     list_ex (replays_stale parse now index) (ri_replays inp) \<or> stale_ids parse now index (ri_horizon inp) \<noteq> []" (is ?stale)
proof -
  let ?O = "fst ` set (pending_observations parse now index inp)"
  let ?R = "\<lambda>r. fst ` set (replay_observation (replay_eligibility_entry parse now index (ri_revocations inp) r))"
  let ?W = "\<lambda>e. fst ` set (walk_observation index (ri_max_depth inp) e)"
  have classes: "?O =
      (if detectOrphanedContinuityLineage (map snd index) = [] then {} else {LD_ORPHAN_LINEAGE_DETECTED}) \<union>
      (\<Union>e\<in>snd ` set index. ?W e) \<union>
      (if stale_ids parse now index (ri_horizon inp) = [] then {} else {LD_FRESHNESS_BARRIER_VIOLATED}) \<union>
      (if snd (verifyLineageRevocationCompleteness (ri_revocations inp) index) = [] then {} else {LD_REVOCATION_PROPAGATION_INCOMPLETE}) \<union>
      (\<Union>r\<in>set (ri_replays inp). ?R r)"
    by (simp add: pending_observations_def Let_def image_Un image_UN stale_ids_def image_image orphan_observation_def
        freshness_observation_def propagation_observation_def image_constant_conv split: option.split)
  have mem: "c \<in> ?O \<longleftrightarrow> (\<exists>e\<in>snd ` set index. c \<in> ?W e) \<or> (\<exists>r\<in>set (ri_replays inp). c \<in> ?R r) \<or>
      c = LD_FRESHNESS_BARRIER_VIOLATED \<and> stale_ids parse now index (ri_horizon inp) \<noteq> []"
    if "c \<noteq> LD_ORPHAN_LINEAGE_DETECTED" "c \<noteq> LD_REVOCATION_PROPAGATION_INCOMPLETE" for c
    unfolding classes using that by auto
  have walk: "LD_ANCESTRY_CYCLE_DETECTED \<in> ?W e \<or> LD_ANCESTRY_DEPTH_EXCEEDED \<in> ?W e \<longleftrightarrow>
      \<not> lt_ok (traverseAncestry (rl_continuity_id e) index (ri_max_depth inp))"
    "LD_STALE_LINEAGE_RESURRECTION \<notin> ?W e" "LD_FRESHNESS_BARRIER_VIOLATED \<notin> ?W e" for e
    unfolding walk_seen Let_def by simp_all
  have replay: "LD_ANCESTRY_CYCLE_DETECTED \<notin> ?R r" "LD_ANCESTRY_DEPTH_EXCEEDED \<notin> ?R r" "LD_FRESHNESS_BARRIER_VIOLATED \<notin> ?R r" for r
    using replay_seen(2) [of parse now index "ri_revocations inp" r] by blast+
  have "LD_ANCESTRY_CYCLE_DETECTED \<in> ?O \<longleftrightarrow> (\<exists>e\<in>snd ` set index. LD_ANCESTRY_CYCLE_DETECTED \<in> ?W e)"
    "LD_ANCESTRY_DEPTH_EXCEEDED \<in> ?O \<longleftrightarrow> (\<exists>e\<in>snd ` set index. LD_ANCESTRY_DEPTH_EXCEEDED \<in> ?W e)"
    using mem replay by simp_all
  then show ?walks using walk(1) by blast
  have "LD_STALE_LINEAGE_RESURRECTION \<in> ?O \<longleftrightarrow> list_ex (replays_stale parse now index) (ri_replays inp)"
    using mem [of LD_STALE_LINEAGE_RESURRECTION] walk(2) by (simp add: replay_seen(1) list_ex_iff)
  moreover have "LD_FRESHNESS_BARRIER_VIOLATED \<in> ?O \<longleftrightarrow> stale_ids parse now index (ri_horizon inp) \<noteq> []"
    using mem [of LD_FRESHNESS_BARRIER_VIOLATED] walk(3) replay(3) by simp
  ultimately show ?stale by (simp only:)
qed

lemma orphaned_none:
  "detectOrphanedContinuityLineage es = [] \<longleftrightarrow> (\<forall>e\<in>set es. parent_id e \<noteq> [] \<longrightarrow> parent_id e \<in> js_trim ` rl_continuity_id ` set es)"
  by (auto simp: detectOrphanedContinuityLineage_def Let_def filter_empty_conv image_image)

lemma propagation_complete:
  "fst (verifyLineageRevocationCompleteness revs index) \<longleftrightarrow>
     list_all (\<lambda>rv. list_all (\<lambda>(i, e). parent_id e \<noteq> [] \<and> parent_id e \<in> set (ce_root_continuity_id rv # ce_propagated_to_ids rv) \<and>
        rl_status e = ''ACTIVE'' \<longrightarrow> i \<in> set (ce_root_continuity_id rv # ce_propagated_to_ids rv)) index) revs"
  by (simp add: verifyLineageRevocationCompleteness_def missing_propagations_def Let_def filter_empty_conv list_all_iff
      isActiveStatus_def split_beta) blast

lemma read_lineage_entries_ids: "read_lineage_entries es = Some rs \<Longrightarrow> e \<in> set rs \<Longrightarrow> rl_continuity_id e \<noteq> []"
proof (induction es arbitrary: rs)
  case (Cons re res)
  have "read_lineage_entries res = Some rs \<or> (\<exists>ws. rs = read_lineage_entry (safeObj re) # ws \<and> read_lineage_entries res = Some ws \<and>
      js_trim (str_field (safeObj re) ''continuity_id'') \<noteq> [])"
    using Cons.prems(1) by (auto simp: Let_def split: if_splits)
  moreover have "js_String (js_get x k) \<noteq> []" if "js_trim (str_field x k) \<noteq> []" for x k
    using that by (auto simp: str_field_def js_String_or_def js_trim_def split: if_splits)
  ultimately show ?case using Cons by (auto simp: read_lineage_entry_def)
qed simp

lemma read_lineage_views_ids:
  "read_lineage_views vs = Some views \<Longrightarrow> v \<in> set views \<Longrightarrow> e \<in> set (cw_entries v) \<Longrightarrow> rl_continuity_id e \<noteq> []"
proof (induction vs arbitrary: views)
  case (Cons rv rvs)
  have "read_lineage_views rvs = Some views \<or> (\<exists>w ws. views = w # ws \<and> read_lineage_views rvs = Some ws \<and>
      read_lineage_entries (js_array (js_get (safeObj rv) ''entries'')) = Some (cw_entries w))"
    using Cons.prems(1) by (auto simp: Let_def split: if_splits option.splits)
  then show ?case using Cons read_lineage_entries_ids by (metis set_ConsD)
qed simp

lemma read_reconciliation_ids:
  assumes "read_reconciliation input = (rid, Some inp)" "e \<in> snd ` set (closure_entries (ri_views inp))"
  shows "rl_continuity_id e \<noteq> []"
proof -
  obtain vs where "read_lineage_views vs = Some (ri_views inp)"
    using assms(1) by (auto simp: read_reconciliation_def Let_def split: if_splits option.splits)
  with assms(2) merge_loop_values [of "[]" "concat (map cw_entries (ri_views inp))"] read_lineage_views_ids
  show ?thesis by (auto simp: closure_entries_def)
qed

text \<open>Everything LINEAGE_RECONCILED promises of the merged registry.\<close>

definition lineage_sound :: "(string \<Rightarrow> int option) \<Rightarrow> int \<Rightarrow> ReconciliationInput \<Rightarrow> bool" where
  "lineage_sound parse now inp \<longleftrightarrow> (let index = closure_entries (ri_views inp) in
     list_all (\<lambda>e. parent_id e = [] \<or> parent_id e \<in> js_trim ` fst ` set index) (map snd index) \<and>
     list_all (\<lambda>(i, e). anc (parent_in index) (ri_max_depth inp) i = None) index \<and>
     fst (verifyLineageRevocationCompleteness (ri_revocations inp) index) \<and>
     list_all (\<lambda>v. cw_registry_hash v = cw_registry_hash (hd (ri_views inp))) (ri_views inp) \<and>
     list_all (\<lambda>r. \<not> replays_stale parse now index r) (ri_replays inp) \<and>
     stale_ids parse now index (ri_horizon inp) = [])"

lemma reconciled_iff:
  assumes rd: "read_reconciliation input = (rid, Some inp)"
  shows "dl_reconciliation_result (reconcileDistributedContinuityLineage parse now loc input) = LINEAGE_RECONCILED \<longleftrightarrow>
    lineage_sound parse now inp"
proof -
  define index where "index = closure_entries (ri_views inp)"
  let ?o = "detectOrphanedContinuityLineage (map snd index)" and ?O = "pending_observations parse now index inp"
  let ?rc = "fst (verifyLineageRevocationCompleteness (ri_revocations inp) index)"
  let ?c = "lx_convergence_result (evaluateContinuityLineageConvergence (ri_views inp))"
  have wf: "wf_index index" unfolding index_def by simp
  have key: "i = rl_continuity_id e" if "(i, e) \<in> set index" for i e using wf that by (auto simp: wf_index_def list_all_iff)
  have views: "ri_views inp \<noteq> []" using rd by (auto simp: read_reconciliation_def Let_def split: if_splits option.splits)
  have "dl_reconciliation_result (reconcileDistributedContinuityLineage parse now loc input) =
      reconciliation_result_of ?o ?O ?rc (evaluateContinuityLineageConvergence (ri_views inp))"
    by (simp add: reconcileDistributedContinuityLineage_def rd reconciliation_report_def Let_def index_def)
  also have "\<dots> = LINEAGE_RECONCILED \<longleftrightarrow> ?o = [] \<and>
      \<not> (LD_ANCESTRY_CYCLE_DETECTED \<in> fst ` set ?O \<or> LD_ANCESTRY_DEPTH_EXCEEDED \<in> fst ` set ?O) \<and> ?rc \<and> ?c = CCR_REACHED \<and>
      \<not> (LD_STALE_LINEAGE_RESURRECTION \<in> fst ` set ?O \<or> LD_FRESHNESS_BARRIER_VIOLATED \<in> fst ` set ?O)"
    using convergence_reached(2) [of "ri_views inp"] by (auto simp: reconciliation_result_of_def Let_def)
  also have "\<dots> \<longleftrightarrow> ?o = [] \<and> list_all (\<lambda>(i, e). anc (parent_in index) (ri_max_depth inp) i = None) index \<and> ?rc \<and>
      (\<exists>h. cw_registry_hash ` set (ri_views inp) = {h}) \<and>
      list_all (\<lambda>r. \<not> replays_stale parse now index r) (ri_replays inp) \<and> stale_ids parse now index (ri_horizon inp) = []"
  proof -
    have "(\<exists>e\<in>snd ` set index. \<not> lt_ok (traverseAncestry (rl_continuity_id e) index (ri_max_depth inp))) \<longleftrightarrow>
        \<not> list_all (\<lambda>(i, e). anc (parent_in index) (ri_max_depth inp) i = None) index"
    proof -
      have "lt_ok (traverseAncestry (rl_continuity_id e) index M) \<longleftrightarrow> anc (parent_in index) M i = None" if "(i, e) \<in> set index" for i e M
        using traverse_ok [OF read_reconciliation_ids [OF rd, folded index_def]] key [OF that] that by force
      then show ?thesis unfolding list_all_iff by fastforce
    qed
    then show ?thesis unfolding pending_seen convergence_reached(1) list_ex_iff list_all_iff by blast
  qed
  also have "(\<exists>h. cw_registry_hash ` set (ri_views inp) = {h}) \<longleftrightarrow>
      list_all (\<lambda>v. cw_registry_hash v = cw_registry_hash (hd (ri_views inp))) (ri_views inp)"
    using hd_in_set [OF views] by (auto simp: list_all_iff) (metis imageI singletonD)
  also have "?o = [] \<longleftrightarrow> list_all (\<lambda>e. parent_id e = [] \<or> parent_id e \<in> js_trim ` fst ` set index) (map snd index)"
  proof -
    have "rl_continuity_id ` snd ` set index = fst ` set index" using key by force
    then show ?thesis by (auto simp: orphaned_none list_all_iff)
  qed
  finally show ?thesis by (simp only: lineage_sound_def Let_def index_def)
qed

text \<open>
  C30. When the input is readable the report says LINEAGE_RECONCILED exactly when, in the registry
  merged from all views, every named parent is registered up to surrounding blanks, no chain of
  parents is as long as the maximal depth (so there is no cycle), no active child of a revoked id
  is missing from the revocation evidence, all views claim the same registry hash, no replay is of
  a revoked or expired entry and no entry expires within the freshness horizon.
\<close>

theorem lineage_reconciled_exactly:
  assumes "read_reconciliation input = (rid, Some inp)"
  shows "dl_reconciliation_result (reconcileDistributedContinuityLineage parse now loc input) = LINEAGE_RECONCILED \<longleftrightarrow>
    lineage_sound parse now inp"
  using assms by (rule reconciled_iff)

section \<open>Sample registries\<close>

definition sample_registry_view :: "jsval list \<Rightarrow> jsval" where
  "sample_registry_view entries = JObj [(''node_id'', JStr ''n''), (''registry_epoch'', JStr ''e''), (''lineage_root_id'', JStr ''r''),
     (''registry_hash'', JStr (replicate 64 CHR ''a'')), (''entries'', JArr entries)]"

definition sample_reconciliation :: "jsval list list \<Rightarrow> jsval list \<Rightarrow> jsval list \<Rightarrow> jsval" where
  "sample_reconciliation vs revs replays = JObj
     [(''reconciliation_id'', JStr ''p''), (''evidence_only'', JBool True), (''registry_views'', JArr (map sample_registry_view vs)),
      (''revocation_evidence'', JArr revs), (''replay_records'', JArr replays)]"

definition sample_read_view :: "ClosureEntry list \<Rightarrow> ClosureRegistryView" where
  "sample_read_view es = \<lparr>cw_node_id = ''n'', cw_registry_epoch = ''e'', cw_lineage_root_id = ''r'', cw_entries = es,
     cw_registry_hash = replicate 64 CHR ''a''\<rparr>"

lemma read_sample_registry_views:
  "list_all2 (\<lambda>v es. read_lineage_entries v = Some es) vs ess \<Longrightarrow>
     read_lineage_views (map sample_registry_view vs) = Some (map sample_read_view ess)"
proof (induction rule: list_all2_induct)
  case (Cons v vs es ess)
  have "is_hex64 (replicate 64 CHR ''a'')" by (simp add: is_hex64_def list_all_iff)
  with Cons show ?case
    by (simp add: sample_registry_view_def sample_read_view_def safeObj_def hasForbiddenField_def FORBIDDEN_FIELDS_def str_field_def
        js_String_or_def trim_eqs)
qed simp

lemma read_sample_reconciliation:
  assumes "list_all2 (\<lambda>v es. read_lineage_entries v = Some es) vs ess" "ess \<noteq> []"
  shows "read_reconciliation (sample_reconciliation vs revs replays) = (''p'', Some
    \<lparr>ri_views = map sample_read_view ess, ri_max_depth = 32, ri_horizon = None,
     ri_revocations = List.map_filter read_continuity_revocation revs, ri_replays = List.map_filter read_continuity_replay replays\<rparr>)"
  using read_sample_registry_views [OF assms(1)] assms
  by (auto simp: read_reconciliation_def sample_reconciliation_def Let_def safeObj_def hasForbiddenField_def FORBIDDEN_FIELDS_def
      nonblank_def trim_eqs read_max_ancestry_depth_def SYSTEM_MAX_ANCESTRY_DEPTH_def read_horizon_def)

lemma read_sample_lineage_entry:
  assumes "js_trim i \<noteq> []" "i \<noteq> []"
  shows "read_lineage_entries (sample_entry_json i p st # es) = map_option (Cons (sample_closure_entry i p st)) (read_lineage_entries es)"
  using assms
  by (simp add: Let_def sample_entry_json_def sample_closure_entry_def safeObj_def hasForbiddenField_def FORBIDDEN_FIELDS_def
      str_field_def opt_field_def js_String_or_def read_lineage_entry_def)

lemmas sample_lineage_simps =
  sample_closure_entry_def sample_read_view_def closure_entries_def parent_in_def parent_id_def trim_opt_def trim_eqs
  stale_ids_def propagation_complete lineage_sound_def

lemma numeral_anc: "anc par 32 x = Option.bind (Option.bind (par x) par) (anc par 30)"
  using anc_add [of par 2 30 x] by (simp add: numeral_2_eq_2)

theorem lineage_reconciled_exactly_witness:
  "dl_reconciliation_result (reconcileDistributedContinuityLineage (\<lambda>_. None) 0 (\<le>) (sample_reconciliation
     [[sample_entry_json ''a'' [] ''ACTIVE'', sample_entry_json ''b'' ''a'' ''ACTIVE'']] [] [])) = LINEAGE_RECONCILED"
proof -
  have "list_all2 (\<lambda>v es. read_lineage_entries v = Some es) [[sample_entry_json ''a'' [] ''ACTIVE'', sample_entry_json ''b'' ''a'' ''ACTIVE'']]
      [[sample_closure_entry ''a'' [] ''ACTIVE'', sample_closure_entry ''b'' ''a'' ''ACTIVE'']]"
    by (simp add: read_sample_lineage_entry trim_eqs del: read_lineage_entries.simps(2))
  from lineage_reconciled_exactly [OF read_sample_reconciliation [OF this]] show ?thesis
    by (simp add: sample_lineage_simps numeral_anc map_filter_simps)
qed

section \<open>What a reconciled lineage leaves out\<close>

text \<open>
  Blanks hide a cycle: an entry whose id, up to a leading blank, is its own parent is
  reported as LINEAGE_RECONCILED. The orphan check compares trimmed ids, the walk looks the
  trimmed parent up among untrimmed ids and takes its absence for a root.
\<close>

theorem padded_self_parent_reconciled:
  "dl_reconciliation_result (reconcileDistributedContinuityLineage parse now loc
     (sample_reconciliation [[sample_entry_json '' a'' ''a'' ''ACTIVE'']] [] [])) = LINEAGE_RECONCILED"
proof -
  have t: "js_trim '' a'' = ''a''" by (simp add: js_trim_def js_ws_def)
  then have "list_all2 (\<lambda>v es. read_lineage_entries v = Some es) [[sample_entry_json '' a'' ''a'' ''ACTIVE'']]
      [[sample_closure_entry '' a'' ''a'' ''ACTIVE'']]"
    by (simp add: read_sample_lineage_entry del: read_lineage_entries.simps(2))
  from reconciled_iff [OF read_sample_reconciliation [OF this]] show ?thesis
    by (simp add: sample_lineage_simps numeral_anc t)
qed

text \<open>
  The revoked id itself is not looked at: with evidence that \<open>a\<close> was revoked, a registry in
  which \<open>a\<close> is active is LINEAGE_RECONCILED, and so it stays with replays of \<open>a\<close> and of an unknown
  id although both are reported as ineligible.
\<close>

theorem active_revoked_root_reconciled:
  fixes parse now loc
  defines "r \<equiv> reconcileDistributedContinuityLineage parse now loc (sample_reconciliation [[sample_entry_json ''a'' [] ''ACTIVE'']]
     [JObj [(''revocation_id'', JStr ''r''), (''root_continuity_id'', JStr ''a''), (''revoked_at'', JStr ''n'')]]
     [JObj [(''replay_id'', JStr ''p''), (''continuity_id'', JStr ''a'')], JObj [(''replay_id'', JStr ''r''), (''continuity_id'', JStr ''b'')]])"
  shows "dl_reconciliation_result r = LINEAGE_RECONCILED \<and> map re_eligible (dl_replay_eligibility r) = [False, False]"
proof -
  have "list_all2 (\<lambda>v es. read_lineage_entries v = Some es) [[sample_entry_json ''a'' [] ''ACTIVE'']] [[sample_closure_entry ''a'' [] ''ACTIVE'']]"
    by (simp add: read_sample_lineage_entry trim_eqs del: read_lineage_entries.simps(2))
  note rd = read_sample_reconciliation [OF this]
  have rv: "read_continuity_revocation (JObj [(''revocation_id'', JStr ''r''), (''root_continuity_id'', JStr ''a''), (''revoked_at'', JStr ''n'')]) =
      Some \<lparr>ce_revocation_id = ''r'', ce_root_continuity_id = ''a'', ce_revoked_at = ''n'', ce_propagated_to_ids = []\<rparr>"
    by (simp add: read_continuity_revocation_def safeObj_def str_field_def js_String_or_def trim_eqs)
  have rp: "read_continuity_replay (JObj [(''replay_id'', JStr i), (''continuity_id'', JStr c)]) =
      Some \<lparr>cy_replay_id = i, cy_continuity_id = c, cy_continuity_hash = [], cy_lineage_hash = []\<rparr>"
    if "js_trim i = i" "js_trim c = c" "i \<noteq> []" "c \<noteq> []" for i c
    using that by (simp add: read_continuity_replay_def safeObj_def str_field_def js_String_or_def)
  have "dl_reconciliation_result r = LINEAGE_RECONCILED"
    unfolding r_def using reconciled_iff [OF rd]
    by (simp add: sample_lineage_simps numeral_anc map_filter_simps rv rp replays_stale_def isRevokedOrExpired_def isActiveStatus_def set_field_def)
  moreover have "map re_eligible (dl_replay_eligibility r) = [False, False]"
    by (simp add: r_def reconcileDistributedContinuityLineage_def rd reconciliation_report_def Let_def map_filter_simps rv rp trim_eqs
        replay_eligibility_entry_def verifyReplayLineageEligibility_def closure_entries_def sample_read_view_def sample_closure_entry_def)
  ultimately show ?thesis ..
qed

text \<open>
  Views converge by the hash they claim: two nodes whose registries have no entry in common
  are LINEAGE_RECONCILED when they state the same \<^verbatim>\<open>registry_hash\<close>, which is never recomputed from
  the entries.
\<close>

theorem disjoint_registries_reconciled:
  "dl_reconciliation_result (reconcileDistributedContinuityLineage parse now loc (sample_reconciliation
     [[sample_entry_json ''a'' [] ''ACTIVE''], [sample_entry_json ''b'' [] ''ACTIVE'']] [] [])) = LINEAGE_RECONCILED"
proof -
  have "list_all2 (\<lambda>v es. read_lineage_entries v = Some es) [[sample_entry_json ''a'' [] ''ACTIVE''], [sample_entry_json ''b'' [] ''ACTIVE'']]
      [[sample_closure_entry ''a'' [] ''ACTIVE''], [sample_closure_entry ''b'' [] ''ACTIVE'']]"
    by (simp add: read_sample_lineage_entry trim_eqs del: read_lineage_entries.simps(2))
  from reconciled_iff [OF read_sample_reconciliation [OF this]] show ?thesis
    by (simp add: sample_lineage_simps numeral_anc map_filter_simps)
qed

end
