(* ===== verification/Issue_Comment_Gateway.thy ===== *)
theory Issue_Comment_Gateway
  imports Canonical_Facts Filesystem_Gateway
begin

text \<open>
  \<^verbatim>\<open>src/lib/github-issue-comment-gateway.ts\<close>: the second governed mutation surface, one comment
  on one GitHub issue. The agent's proposal is captured (\<^verbatim>\<open>captureGitHubIssueCommentATAO\<close>), bound
  to an authority (\<^verbatim>\<open>compileGitHubIssueCommentAEO\<close>), judged
  (\<^verbatim>\<open>validateGitHubIssueCommentAEO\<close>) and executed (\<^verbatim>\<open>executeGitHubIssueComment\<close>).

  What arrives from outside (the proposal, the binding, the object to validate, the evidence of
  the executor) is a \<^typ>\<open>jsval\<close> and the guards of the code are tests on it; what the code has
  built itself is a record. A field whose TypeScript type is a literal has one value: it is not
  a field of the record and is written where the record becomes an object (\<open>ataoJs\<close>, \<open>aeoJs\<close>).

  The executor and \<^verbatim>\<open>persistProof\<close> belong to the caller and act on a world \<open>'w\<close>; the replay
  registry is the caller's \<^verbatim>\<open>{ has, add }\<close> object with a state \<open>'s\<close>. What the gateway needs of
  it is the locale \<open>nonce_registry\<close>, which the JavaScript \<^verbatim>\<open>Set\<close> satisfies.
\<close>

section \<open>Constants\<close>

definition GITHUB_ISSUE_COMMENT_AEO_REQUIRED_KEYS :: "string list" where
  "GITHUB_ISSUE_COMMENT_AEO_REQUIRED_KEYS =
     [''finality'', ''intent'', ''scope'', ''target'', ''validation'']"

definition GITHUB_ISSUE_COMMENT_PROOF_FIELDS :: "string list" where
  "GITHUB_ISSUE_COMMENT_PROOF_FIELDS =
     [''validated_object_hash'', ''executed_object_hash'', ''aeo_hash'', ''target_issue'',
      ''comment_id'', ''comment_url'', ''proposed_action_hash'', ''action_hash'', ''executed_at'',
      ''validation_result'', ''execution_result'', ''replay_nonce_status_after_success'',
      ''proof_emitted_at'', ''timestamp'', ''result'', ''execution_evidence_hash'', ''emitted_at'']"

section \<open>Tests on values\<close>

fun isPositiveInteger :: "jsval \<Rightarrow> bool" where
  "isPositiveInteger (JNum (NInt i)) = (i > 0)"
| "isPositiveInteger _ = False"

definition hasExactKeysOf :: "jsval \<Rightarrow> string list \<Rightarrow> bool" where
  "hasExactKeysOf v expectedKeys \<longleftrightarrow> isPlainObject v \<and> sort (js_keys v) = sort expectedKeys"

fun isNumberArray :: "jsval \<Rightarrow> bool" where
  "isNumberArray (JArr xs) = list_all isPositiveInteger xs"
| "isNumberArray _ = False"

fun equalsStringArray :: "jsval \<Rightarrow> string list \<Rightarrow> bool" where
  "equalsStringArray (JArr xs) expected \<longleftrightarrow> xs = map JStr expected"
| "equalsStringArray _ _ = False"

section \<open>The captured proposal\<close>

record IssueRef =
  ir_owner :: string
  ir_repo :: string
  ir_issue_number :: int

record CommentParameters = IssueRef +
  cp_body :: string

record GitHubIssueCommentATAO =
  ga_atao_id :: string
  ga_agent_id :: string
  ga_session_id :: string
  ga_intent :: string
  ga_parameters :: CommentParameters
  ga_scope :: IssueRef
  ga_timestamp :: string

definition parametersJs :: "CommentParameters \<Rightarrow> jsval" where
  "parametersJs p = JObj
     [(''owner'', JStr (ir_owner p)), (''repo'', JStr (ir_repo p)),
      (''issue_number'', JNum (NInt (ir_issue_number p))), (''body'', JStr (cp_body p))]"

definition issueRefJs :: "IssueRef \<Rightarrow> jsval" where
  "issueRefJs r = JObj
     [(''owner'', JStr (ir_owner r)), (''repo'', JStr (ir_repo r)),
      (''issue_number'', JNum (NInt (ir_issue_number r)))]"

definition proposedActionJs :: "GitHubIssueCommentATAO \<Rightarrow> jsval" where
  "proposedActionJs a = JObj
     [(''system'', JStr ''github''), (''action'', JStr ''comment_issue''),
      (''parameters'', parametersJs (ga_parameters a))]"

definition ataoJs :: "GitHubIssueCommentATAO \<Rightarrow> jsval" where
  "ataoJs a = JObj
     [(''agent_id'', JStr (ga_agent_id a)), (''session_id'', JStr (ga_session_id a)),
      (''intent'', JStr (ga_intent a)), (''proposed_action'', proposedActionJs a),
      (''scope'', issueRefJs (ga_scope a)), (''risk_class'', JStr ''P2''),
      (''timestamp'', JStr (ga_timestamp a)), (''creates_authority'', JBool False),
      (''creates_execution_eligibility'', JBool False)]"

text \<open>\<^verbatim>\<open>isPositiveInteger(v.k)\<close>, with the number.\<close>

definition positive_field :: "jsval \<Rightarrow> string \<Rightarrow> int option" where
  "positive_field v k = (case js_get v k of JNum (NInt i) \<Rightarrow> if i > 0 then Some i else None | _ \<Rightarrow> None)"

definition captureGitHubIssueCommentATAO :: "jsval \<Rightarrow> GitHubIssueCommentATAO option" where
  "captureGitHubIssueCommentATAO input = do {
     guard (js_truthy input);
     agent_id \<leftarrow> nonblank_field input ''agent_id'';
     session_id \<leftarrow> nonblank_field input ''session_id'';
     intent \<leftarrow> nonblank_field input ''intent'';
     owner \<leftarrow> nonblank_field input ''owner'';
     repo \<leftarrow> nonblank_field input ''repo'';
     issue_number \<leftarrow> positive_field input ''issue_number'';
     body \<leftarrow> nonblank_field input ''body'';
     timestamp \<leftarrow> nonblank_field input ''timestamp'';
     let atao = \<lparr>ga_atao_id = [], ga_agent_id = agent_id, ga_session_id = session_id, ga_intent = intent,
                 ga_parameters = \<lparr>ir_owner = owner, ir_repo = repo, ir_issue_number = issue_number, cp_body = body\<rparr>,
                 ga_scope = \<lparr>ir_owner = owner, ir_repo = repo, ir_issue_number = issue_number\<rparr>,
                 ga_timestamp = timestamp\<rparr>;
     Some (atao\<lparr>ga_atao_id := objectHash (ataoJs atao)\<rparr>) }"

section \<open>The AEO\<close>

record GitHubIssueCommentScope =
  gs_owner :: string
  gs_repo :: string
  gs_allowed_issue_numbers :: "int list"
  gs_max_body_length :: int

record GitHubIssueCommentValidation =
  gv_decision_id :: string
  gv_authority_lineage_hash :: string
  gv_policy_id :: string
  gv_policy_hash :: string
  gv_replay_nonce :: string

record GitHubIssueCommentAEO =
  ge_purpose :: string
  ge_scope :: GitHubIssueCommentScope
  ge_validation :: GitHubIssueCommentValidation
  ge_target :: CommentParameters

definition scopeJs :: "GitHubIssueCommentScope \<Rightarrow> jsval" where
  "scopeJs s = JObj
     [(''owner'', JStr (gs_owner s)), (''repo'', JStr (gs_repo s)),
      (''allowed_issue_numbers'', JArr (map (\<lambda>i. JNum (NInt i)) (gs_allowed_issue_numbers s))),
      (''max_body_length'', JNum (NInt (gs_max_body_length s)))]"

definition validationJs :: "GitHubIssueCommentValidation \<Rightarrow> jsval" where
  "validationJs v = JObj
     [(''decision_id'', JStr (gv_decision_id v)), (''authority_lineage_hash'', JStr (gv_authority_lineage_hash v)),
      (''policy_id'', JStr (gv_policy_id v)), (''policy_hash'', JStr (gv_policy_hash v)),
      (''canonicalization'', JStr ''json-canonical-v1''), (''aeo_hash_required'', JBool True),
      (''replay_nonce'', JStr (gv_replay_nonce v)), (''requires_unused_nonce'', JBool True),
      (''requires_scope_match'', JBool True), (''requires_issue_policy_match'', JBool True)]"

definition targetJs :: "CommentParameters \<Rightarrow> jsval" where
  "targetJs t = JObj
     [(''system'', JStr ''github''), (''action'', JStr ''comment_issue''), (''owner'', JStr (ir_owner t)),
      (''repo'', JStr (ir_repo t)), (''issue_number'', JNum (NInt (ir_issue_number t))),
      (''body'', JStr (cp_body t))]"

definition issueCommentFinalityJs :: jsval where
  "issueCommentFinalityJs = JObj
     [(''proof_required'', JBool True), (''proof_type'', JStr ''github_issue_comment_execution''),
      (''expected_result'', JStr ''single_bounded_issue_comment''),
      (''proof_fields'', JArr (map JStr GITHUB_ISSUE_COMMENT_PROOF_FIELDS)),
      (''registry_required'', JBool True), (''reconciliation_required'', JBool True),
      (''replay_state_after_success'', JStr ''CONSUMED'')]"

definition aeoJs :: "GitHubIssueCommentAEO \<Rightarrow> jsval" where
  "aeoJs a = JObj
     [(''intent'', JObj [(''action'', JStr ''comment_issue''), (''purpose'', JStr (ge_purpose a))]),
      (''scope'', scopeJs (ge_scope a)), (''validation'', validationJs (ge_validation a)),
      (''target'', targetJs (ge_target a)), (''finality'', issueCommentFinalityJs)]"

definition computeGitHubIssueCommentAEOHash :: "GitHubIssueCommentAEO \<Rightarrow> string" where
  "computeGitHubIssueCommentAEOHash aeo = objectHash (aeoJs aeo)"

definition computeGitHubIssueCommentProposedActionHash :: "GitHubIssueCommentATAO \<Rightarrow> string" where
  "computeGitHubIssueCommentProposedActionHash atao = objectHash (proposedActionJs atao)"

definition computeGitHubIssueCommentActionHash :: "GitHubIssueCommentAEO \<Rightarrow> string" where
  "computeGitHubIssueCommentActionHash aeo = objectHash (targetJs (ge_target aeo))"

text \<open>\<^verbatim>\<open>isNumberArray(v.k)\<close>, with the numbers.\<close>

fun the_int :: "jsval \<Rightarrow> int" where
  "the_int (JNum (NInt i)) = i"
| "the_int _ = 0"

definition numbers_field :: "jsval \<Rightarrow> string \<Rightarrow> int list option" where
  "numbers_field v k =
     (case js_get v k of JArr xs \<Rightarrow> if isNumberArray (JArr xs) then Some (map the_int xs) else None | _ \<Rightarrow> None)"

definition compileGitHubIssueCommentAEO ::
  "GitHubIssueCommentATAO option \<Rightarrow> jsval \<Rightarrow> GitHubIssueCommentAEO option" where
  "compileGitHubIssueCommentAEO atao0 binding = do {
     atao \<leftarrow> atao0;
     guard (js_truthy binding);
     decision_id \<leftarrow> nonblank_field binding ''decision_id'';
     alh \<leftarrow> nonblank_field binding ''authority_lineage_hash'';
     policy_id \<leftarrow> nonblank_field binding ''policy_id'';
     policy_hash \<leftarrow> nonblank_field binding ''policy_hash'';
     replay_nonce \<leftarrow> nonblank_field binding ''replay_nonce'';
     allowed_owner \<leftarrow> nonblank_field binding ''allowed_owner'';
     allowed_repo \<leftarrow> nonblank_field binding ''allowed_repo'';
     allowed \<leftarrow> numbers_field binding ''allowed_issue_numbers'';
     guard (allowed \<noteq> []);
     max_body_length \<leftarrow> positive_field binding ''max_body_length'';
     Some
       \<lparr>ge_purpose = ga_intent atao,
        ge_scope = \<lparr>gs_owner = allowed_owner, gs_repo = allowed_repo, gs_allowed_issue_numbers = allowed,
                    gs_max_body_length = max_body_length\<rparr>,
        ge_validation = \<lparr>gv_decision_id = decision_id, gv_authority_lineage_hash = alh, gv_policy_id = policy_id,
                         gv_policy_hash = policy_hash, gv_replay_nonce = replay_nonce\<rparr>,
        ge_target = ga_parameters atao\<rparr> }"

section \<open>The validator\<close>

datatype GitHubAuthorityStatus = GH_ACTIVE | GH_INACTIVE | GH_REVOKED

record GitHubAuthority =
  gu_decision_id :: string
  gu_authority_lineage_hash :: string
  gu_policy_id :: string
  gu_policy_hash :: string
  gu_status :: GitHubAuthorityStatus

record GitHubIssueCommentValidationContext =
  gc_authority :: "GitHubAuthority option"
  gc_consumed_replay_nonces :: "string set option"

datatype GitHubIssueCommentValidatorResult = GIC_VALID | GIC_NULL

text \<open>The object and its five parts have exactly the fields of the type.\<close>

definition issue_comment_shape :: "jsval \<Rightarrow> bool" where
  "issue_comment_shape aeo \<longleftrightarrow>
     hasExactKeysOf aeo GITHUB_ISSUE_COMMENT_AEO_REQUIRED_KEYS \<and>
     hasExactKeysOf (js_get aeo ''intent'') [''action'', ''purpose''] \<and>
     hasExactKeysOf (js_get aeo ''scope'') [''allowed_issue_numbers'', ''max_body_length'', ''owner'', ''repo''] \<and>
     hasExactKeysOf (js_get aeo ''validation'')
       [''aeo_hash_required'', ''authority_lineage_hash'', ''canonicalization'', ''decision_id'', ''policy_hash'',
        ''policy_id'', ''replay_nonce'', ''requires_issue_policy_match'', ''requires_scope_match'',
        ''requires_unused_nonce''] \<and>
     hasExactKeysOf (js_get aeo ''target'') [''action'', ''body'', ''issue_number'', ''owner'', ''repo'', ''system''] \<and>
     hasExactKeysOf (js_get aeo ''finality'')
       [''expected_result'', ''proof_fields'', ''proof_required'', ''proof_type'', ''reconciliation_required'',
        ''registry_required'', ''replay_state_after_success'']"

fun js_str_length :: "jsval \<Rightarrow> nat" where
  "js_str_length (JStr s) = length s"
| "js_str_length _ = 0"

text \<open>Every field has its value, or is a string or a number of the right kind.\<close>

definition issue_comment_fields :: "jsval \<Rightarrow> bool" where
  "issue_comment_fields aeo \<longleftrightarrow>
     (let intent = js_get aeo ''intent''; scope = js_get aeo ''scope''; validation = js_get aeo ''validation'';
          target = js_get aeo ''target''; finality = js_get aeo ''finality'' in
      js_get intent ''action'' = JStr ''comment_issue'' \<and>
      isNonBlankString (js_get intent ''purpose'') \<and>
      isNonBlankString (js_get scope ''owner'') \<and>
      isNonBlankString (js_get scope ''repo'') \<and>
      isNumberArray (js_get scope ''allowed_issue_numbers'') \<and> js_get scope ''allowed_issue_numbers'' \<noteq> JArr [] \<and>
      isPositiveInteger (js_get scope ''max_body_length'') \<and>
      isNonBlankString (js_get validation ''decision_id'') \<and>
      isNonBlankString (js_get validation ''authority_lineage_hash'') \<and>
      isNonBlankString (js_get validation ''policy_id'') \<and>
      isNonBlankString (js_get validation ''policy_hash'') \<and>
      js_get validation ''canonicalization'' = JStr ''json-canonical-v1'' \<and>
      js_get validation ''aeo_hash_required'' = JBool True \<and>
      isNonBlankString (js_get validation ''replay_nonce'') \<and>
      js_get validation ''requires_unused_nonce'' = JBool True \<and>
      js_get validation ''requires_scope_match'' = JBool True \<and>
      js_get validation ''requires_issue_policy_match'' = JBool True \<and>
      js_get target ''system'' = JStr ''github'' \<and>
      js_get target ''action'' = JStr ''comment_issue'' \<and>
      isNonBlankString (js_get target ''owner'') \<and>
      isNonBlankString (js_get target ''repo'') \<and>
      isPositiveInteger (js_get target ''issue_number'') \<and>
      isNonBlankString (js_get target ''body'') \<and>
      \<not> int (js_str_length (js_get target ''body'')) > the_int (js_get scope ''max_body_length'') \<and>
      js_get finality ''proof_required'' = JBool True \<and>
      js_get finality ''proof_type'' = JStr ''github_issue_comment_execution'' \<and>
      js_get finality ''expected_result'' = JStr ''single_bounded_issue_comment'' \<and>
      equalsStringArray (js_get finality ''proof_fields'') GITHUB_ISSUE_COMMENT_PROOF_FIELDS \<and>
      js_get finality ''registry_required'' = JBool True \<and>
      js_get finality ''reconciliation_required'' = JBool True \<and>
      js_get finality ''replay_state_after_success'' = JStr ''CONSUMED'')"

fun js_arr :: "jsval \<Rightarrow> jsval list" where
  "js_arr (JArr xs) = xs"
| "js_arr _ = []"

text \<open>The authority is active and is the one named, the nonce is fresh, the target is in scope.\<close>

definition issue_comment_context :: "jsval \<Rightarrow> GitHubIssueCommentValidationContext option \<Rightarrow> bool" where
  "issue_comment_context aeo context =
     (case context of
        None \<Rightarrow> False
      | Some ctx \<Rightarrow>
          (case (gc_authority ctx, gc_consumed_replay_nonces ctx) of
             (Some authority, Some consumed) \<Rightarrow>
               (let scope = js_get aeo ''scope''; validation = js_get aeo ''validation''; target = js_get aeo ''target'' in
                gu_status authority = GH_ACTIVE \<and>
                JStr (gu_decision_id authority) = js_get validation ''decision_id'' \<and>
                JStr (gu_authority_lineage_hash authority) = js_get validation ''authority_lineage_hash'' \<and>
                JStr (gu_policy_id authority) = js_get validation ''policy_id'' \<and>
                JStr (gu_policy_hash authority) = js_get validation ''policy_hash'' \<and>
                the (as_str (js_get validation ''replay_nonce'')) \<notin> consumed \<and>
                js_get scope ''owner'' = js_get target ''owner'' \<and>
                js_get scope ''repo'' = js_get target ''repo'' \<and>
                js_get target ''issue_number'' \<in> set (js_arr (js_get scope ''allowed_issue_numbers'')))
           | _ \<Rightarrow> False))"

definition validateGitHubIssueCommentAEO ::
  "jsval \<Rightarrow> GitHubIssueCommentValidationContext option \<Rightarrow> string option \<Rightarrow> GitHubIssueCommentValidatorResult" where
  "validateGitHubIssueCommentAEO aeo context expectedAEOHash =
     (if \<not> issue_comment_shape aeo then GIC_NULL
      else if \<not> issue_comment_fields aeo then GIC_NULL
      else if expectedAEOHash \<noteq> None \<and> expectedAEOHash \<noteq> Some (objectHash aeo) then GIC_NULL
      else if \<not> issue_comment_context aeo context then GIC_NULL
      else GIC_VALID)"

section \<open>The execution boundary\<close>

text \<open>The caller's registry of consumed nonces, an object with \<^verbatim>\<open>has\<close> and \<^verbatim>\<open>add\<close>.\<close>

record 's NonceRegistry =
  nr_has :: "'s \<Rightarrow> string \<Rightarrow> bool"
  nr_add :: "string \<Rightarrow> 's \<Rightarrow> 's"

record GitHubIssueCommentExecutionProof =
  gp_proof_id :: string
  gp_atao_id :: string
  gp_validated_object_hash :: string
  gp_executed_object_hash :: string
  gp_aeo_hash :: string
  gp_target_issue :: IssueRef
  gp_comment_id :: string
  gp_comment_url :: string
  gp_proposed_action_hash :: string
  gp_action_hash :: string
  gp_executed_at :: string
  gp_execution_evidence_hash :: string
  gp_emitted_at :: string

definition issueCommentProofJs :: "GitHubIssueCommentExecutionProof \<Rightarrow> jsval" where
  "issueCommentProofJs p = JObj
     [(''atao_id'', JStr (gp_atao_id p)), (''validated_object_hash'', JStr (gp_validated_object_hash p)),
      (''executed_object_hash'', JStr (gp_executed_object_hash p)), (''aeo_hash'', JStr (gp_aeo_hash p)),
      (''target_surface'', JStr ''github''), (''target_action'', JStr ''comment_issue''),
      (''owner'', JStr (ir_owner (gp_target_issue p))), (''repo'', JStr (ir_repo (gp_target_issue p))),
      (''issue_number'', JNum (NInt (ir_issue_number (gp_target_issue p)))),
      (''target_issue'', issueRefJs (gp_target_issue p)), (''comment_id'', JStr (gp_comment_id p)),
      (''comment_url'', JStr (gp_comment_url p)), (''proposed_action_hash'', JStr (gp_proposed_action_hash p)),
      (''action_hash'', JStr (gp_action_hash p)), (''executed_at'', JStr (gp_executed_at p)),
      (''timestamp'', JStr (gp_emitted_at p)), (''validation_result'', JStr ''VALID''),
      (''result'', JStr ''EXECUTED''), (''execution_evidence_hash'', JStr (gp_execution_evidence_hash p)),
      (''execution_result'', JStr ''EXECUTED''), (''replay_nonce_status_after_success'', JStr ''CONSUMED''),
      (''proof_emitted_at'', JStr (gp_emitted_at p)), (''creates_authority'', JBool False),
      (''emitted_at'', JStr (gp_emitted_at p))]"

record ('s, 'w) GitHubIssueCommentExecuteInput =
  gx_aeo :: "GitHubIssueCommentAEO option"
  gx_validated_object_hash :: string
  gx_validation_result :: GitHubIssueCommentValidatorResult
  gx_atao :: "GitHubIssueCommentATAO option"
  gx_executor :: "(CommentParameters \<Rightarrow> 'w \<Rightarrow> 'w \<times> jsval) option"
  gx_emitted_at :: string
  gx_consumed_action_hashes :: "string set option"
  gx_consumed_replay_nonces :: "'s NonceRegistry option"
  gx_persistProof :: "(GitHubIssueCommentExecutionProof \<Rightarrow> 'w \<Rightarrow> 'w) option"

text \<open>The guards before the executor is called; they read the registry and change nothing.\<close>

definition issue_comment_admitted ::
  "('s, 'w) GitHubIssueCommentExecuteInput \<Rightarrow> 's \<Rightarrow> (GitHubIssueCommentAEO \<times> GitHubIssueCommentATAO \<times>
     (CommentParameters \<Rightarrow> 'w \<Rightarrow> 'w \<times> jsval)) option" where
  "issue_comment_admitted input s = do {
     aeo \<leftarrow> gx_aeo input;
     atao \<leftarrow> gx_atao input;
     guard (nonblank (gx_validated_object_hash input));
     guard (gx_validation_result input = GIC_VALID);
     guard (nonblank (gx_emitted_at input));
     executor \<leftarrow> gx_executor input;
     guard (computeGitHubIssueCommentAEOHash aeo = gx_validated_object_hash input);
     guard (case gx_consumed_replay_nonces input of None \<Rightarrow> True
            | Some R \<Rightarrow> \<not> nr_has R s (gv_replay_nonce (ge_validation aeo)));
     guard (case gx_consumed_action_hashes input of None \<Rightarrow> True
            | Some H \<Rightarrow> computeGitHubIssueCommentActionHash aeo \<notin> H);
     Some (aeo, atao, executor) }"

text \<open>The proof formed from the evidence.\<close>

definition form_issue_comment_proof ::
  "('s, 'w) GitHubIssueCommentExecuteInput \<Rightarrow> GitHubIssueCommentAEO \<Rightarrow> GitHubIssueCommentATAO \<Rightarrow> jsval
   \<Rightarrow> GitHubIssueCommentExecutionProof option" where
  "form_issue_comment_proof input aeo atao evidence = do {
     guard (js_truthy evidence);
     comment_id \<leftarrow> nonblank_field evidence ''comment_id'';
     comment_url \<leftarrow> nonblank_field evidence ''comment_url'';
     executed_at \<leftarrow> nonblank_field evidence ''executed_at'';
     let h = computeGitHubIssueCommentAEOHash aeo;
     let p = \<lparr>gp_proof_id = [], gp_atao_id = ga_atao_id atao,
              gp_validated_object_hash = gx_validated_object_hash input,
              gp_executed_object_hash = h, gp_aeo_hash = h,
              gp_target_issue = \<lparr>ir_owner = ir_owner (ge_target aeo), ir_repo = ir_repo (ge_target aeo),
                                 ir_issue_number = ir_issue_number (ge_target aeo)\<rparr>,
              gp_comment_id = comment_id, gp_comment_url = comment_url,
              gp_proposed_action_hash = computeGitHubIssueCommentProposedActionHash atao,
              gp_action_hash = computeGitHubIssueCommentActionHash aeo,
              gp_executed_at = executed_at, gp_execution_evidence_hash = objectHash evidence,
              gp_emitted_at = gx_emitted_at input\<rparr>;
     Some (p\<lparr>gp_proof_id := objectHash (issueCommentProofJs p)\<rparr>) }"

definition executeGitHubIssueComment ::
  "('s, 'w) GitHubIssueCommentExecuteInput option \<Rightarrow> 's \<times> 'w
   \<Rightarrow> ('s \<times> 'w) \<times> GitHubIssueCommentExecutionProof option" where
  "executeGitHubIssueComment input0 st =
     (case input0 of
        None \<Rightarrow> (st, None)
      | Some input \<Rightarrow>
          (case issue_comment_admitted input (fst st) of
             None \<Rightarrow> (st, None)
           | Some (aeo, atao, executor) \<Rightarrow>
               (case executor (ge_target aeo) (snd st) of (w, evidence) \<Rightarrow>
                  (case form_issue_comment_proof input aeo atao evidence of
                     None \<Rightarrow> ((fst st, w), None)
                   | Some proof \<Rightarrow>
                       (((case gx_consumed_replay_nonces input of None \<Rightarrow> fst st
                          | Some R \<Rightarrow> nr_add R (gv_replay_nonce (ge_validation aeo)) (fst st)),
                         (case gx_persistProof input of None \<Rightarrow> w | Some persist \<Rightarrow> persist proof w)),
                        Some proof)))))"

end
