(* ===== verification/Issue_Comment_Facts.thy ===== *)
theory Issue_Comment_Facts
  imports Issue_Comment_Gateway
begin

text \<open>
  What the issue comment gateway guarantees. A value the validator accepts is, up to the order
  of its properties, an AEO of the declared type (so the cast \<^verbatim>\<open>aeo as GitHubIssueCommentAEO\<close> is
  justified), and it is judged as the typed object is; a captured and compiled proposal is
  accepted exactly inside the bounds of its binding; the executor is called exactly on admitted
  objects; and one registry of nonces admits one proof per nonce.
\<close>

section \<open>Objects with exactly the given keys\<close>

lemma normalize_exact_keys:
  assumes "hasExactKeysOf v ks" and "distinct ks"
  shows "normalize v = normalize (JObj (map (\<lambda>k. (k, js_get v k)) ks))"
proof -
  obtain kvs where v: "v = JObj kvs" using assms(1) by (cases v) (auto simp: hasExactKeysOf_def)
  have "sort (map fst kvs) = sort ks"
    using assms(1) by (simp add: hasExactKeysOf_def v)
  then have keys: "mset (map fst kvs) = mset ks"
    by (metis mset_sort)
  then have dist: "distinct (map fst kvs)" using assms(2) mset_eq_imp_distinct_iff by blast
  have "(fst kv, js_get v (fst kv)) = kv" if "kv \<in> set kvs" for kv
  proof -
    have "map_of kvs (fst kv) = Some (snd kv)" using dist that by simp
    then show ?thesis by (simp add: v)
  qed
  then have "map (\<lambda>k. (k, js_get v k)) (map fst kvs) = kvs" by (simp add: map_idI comp_def)
  moreover have "mset (map (\<lambda>k. (k, js_get v k)) ks) = mset (map (\<lambda>k. (k, js_get v k)) (map fst kvs))"
    using keys by (metis mset_map)
  ultimately have "mset kvs = mset (map (\<lambda>k. (k, js_get v k)) ks)" by metis
  then have "set kvs = set (map (\<lambda>k. (k, js_get v k)) ks)" by (metis set_mset_mset)
  moreover have "distinct (map fst (map (\<lambda>k. (k, js_get v k)) ks))" using assms(2) by (simp add: comp_def)
  ultimately have "canonicalize (JObj kvs) = canonicalize (JObj (map (\<lambda>k. (k, js_get v k)) ks))"
    using dist by (intro canonicalize_key_order)
  then show ?thesis by (simp add: v canonicalize_inj)
qed

lemma normalize_same_keys:
  assumes "hasExactKeysOf v ks" and "hasExactKeysOf w ks" and "distinct ks"
    and "\<forall>k\<in>set ks. normalize (js_get v k) = normalize (js_get w k)"
  shows "normalize v = normalize w"
proof -
  have "map (map_prod id normalize) (map (\<lambda>k. (k, js_get v k)) ks)
      = map (map_prod id normalize) (map (\<lambda>k. (k, js_get w k)) ks)"
    using assms(4) by simp
  then have "normalize (JObj (map (\<lambda>k. (k, js_get v k)) ks)) = normalize (JObj (map (\<lambda>k. (k, js_get w k)) ks))"
    by (simp only: normalize.simps)
  then show ?thesis
    using normalize_exact_keys assms(1-3) by metis
qed

lemma objectHash_normalize: "normalize v = normalize w \<Longrightarrow> objectHash v = objectHash w"
  by (simp add: objectHash_def canonicalize_eq_print)

section \<open>Reading an untyped value as an AEO\<close>

text \<open>\<^verbatim>\<open>aeo as GitHubIssueCommentAEO\<close>: the fields read through the cast.\<close>

fun the_str :: "jsval \<Rightarrow> string" where
  "the_str (JStr s) = s"
| "the_str _ = []"

definition aeoOf :: "jsval \<Rightarrow> GitHubIssueCommentAEO" where
  "aeoOf v =
     (let scope = js_get v ''scope''; validation = js_get v ''validation''; target = js_get v ''target'' in
      \<lparr>ge_purpose = the_str (js_get (js_get v ''intent'') ''purpose''),
       ge_scope = \<lparr>gs_owner = the_str (js_get scope ''owner''), gs_repo = the_str (js_get scope ''repo''),
                   gs_allowed_issue_numbers = map the_int (js_arr (js_get scope ''allowed_issue_numbers'')),
                   gs_max_body_length = the_int (js_get scope ''max_body_length'')\<rparr>,
       ge_validation =
         \<lparr>gv_decision_id = the_str (js_get validation ''decision_id''),
          gv_authority_lineage_hash = the_str (js_get validation ''authority_lineage_hash''),
          gv_policy_id = the_str (js_get validation ''policy_id''),
          gv_policy_hash = the_str (js_get validation ''policy_hash''),
          gv_replay_nonce = the_str (js_get validation ''replay_nonce'')\<rparr>,
       ge_target = \<lparr>ir_owner = the_str (js_get target ''owner''), ir_repo = the_str (js_get target ''repo''),
                    ir_issue_number = the_int (js_get target ''issue_number''),
                    cp_body = the_str (js_get target ''body'')\<rparr>\<rparr>)"

lemma aeoOf_aeoJs [simp]: "aeoOf (aeoJs a) = a"
  by (simp add: aeoOf_def aeoJs_def scopeJs_def validationJs_def targetJs_def comp_def)

text \<open>The typed counterpart of the tests on fields and of the tests on the context.\<close>

definition issue_comment_wf :: "GitHubIssueCommentAEO \<Rightarrow> bool" where
  "issue_comment_wf a \<longleftrightarrow>
     nonblank (ge_purpose a) \<and> nonblank (gs_owner (ge_scope a)) \<and> nonblank (gs_repo (ge_scope a)) \<and>
     gs_allowed_issue_numbers (ge_scope a) \<noteq> [] \<and> (\<forall>i\<in>set (gs_allowed_issue_numbers (ge_scope a)). 0 < i) \<and>
     0 < gs_max_body_length (ge_scope a) \<and>
     nonblank (gv_decision_id (ge_validation a)) \<and> nonblank (gv_authority_lineage_hash (ge_validation a)) \<and>
     nonblank (gv_policy_id (ge_validation a)) \<and> nonblank (gv_policy_hash (ge_validation a)) \<and>
     nonblank (gv_replay_nonce (ge_validation a)) \<and>
     nonblank (ir_owner (ge_target a)) \<and> nonblank (ir_repo (ge_target a)) \<and> 0 < ir_issue_number (ge_target a) \<and>
     nonblank (cp_body (ge_target a)) \<and>
     int (length (cp_body (ge_target a))) \<le> gs_max_body_length (ge_scope a)"

definition issue_comment_authorized ::
  "GitHubIssueCommentAEO \<Rightarrow> GitHubIssueCommentValidationContext option \<Rightarrow> bool" where
  "issue_comment_authorized a context \<longleftrightarrow>
     (\<exists>ctx authority consumed. context = Some ctx \<and> gc_authority ctx = Some authority \<and>
        gc_consumed_replay_nonces ctx = Some consumed \<and> gu_status authority = GH_ACTIVE \<and>
        gu_decision_id authority = gv_decision_id (ge_validation a) \<and>
        gu_authority_lineage_hash authority = gv_authority_lineage_hash (ge_validation a) \<and>
        gu_policy_id authority = gv_policy_id (ge_validation a) \<and>
        gu_policy_hash authority = gv_policy_hash (ge_validation a) \<and>
        gv_replay_nonce (ge_validation a) \<notin> consumed) \<and>
     gs_owner (ge_scope a) = ir_owner (ge_target a) \<and> gs_repo (ge_scope a) = ir_repo (ge_target a) \<and>
     ir_issue_number (ge_target a) \<in> set (gs_allowed_issue_numbers (ge_scope a))"

text \<open>The tests determine the normal form of the value they accept.\<close>

lemma normalize_nonblank: "isNonBlankString v \<Longrightarrow> normalize v = JStr (the_str v)"
  by (cases v) auto

lemma normalize_positive: "isPositiveInteger v \<Longrightarrow> normalize v = JNum (NInt (the_int v))"
  by (cases v rule: isPositiveInteger.cases) auto

lemma normalize_numbers:
  "isNumberArray v \<Longrightarrow> normalize v = JArr (map (\<lambda>i. JNum (NInt i)) (map the_int (js_arr v)))"
  by (cases v) (auto simp: list_all_iff normalize_positive)

lemma normalize_strings: "equalsStringArray v xs \<Longrightarrow> normalize v = JArr (map JStr xs)"
  by (cases v) auto

lemmas normalize_tests = normalize_nonblank normalize_positive normalize_numbers normalize_strings

lemma nonblank_the_str: "isNonBlankString v \<Longrightarrow> nonblank (the_str v)"
  by (cases v) auto

lemma positive_the_int: "isPositiveInteger v \<Longrightarrow> 0 < the_int v"
  by (cases v rule: isPositiveInteger.cases) auto

lemma positive_numbers: "isNumberArray v \<Longrightarrow> \<forall>x\<in>set (js_arr v). 0 < the_int x"
  by (cases v) (auto simp: list_all_iff positive_the_int)

lemma js_arr_empty: "isNumberArray v \<Longrightarrow> js_arr v = [] \<longleftrightarrow> v = JArr []"
  by (cases v) auto

lemma js_str_length_the_str: "isNonBlankString v \<Longrightarrow> length (the_str v) = js_str_length v"
  by (cases v) auto

lemmas value_tests = nonblank_the_str positive_the_int js_arr_empty js_str_length_the_str

lemmas aeo_objects = aeoJs_def scopeJs_def validationJs_def targetJs_def issueCommentFinalityJs_def

lemma hasExactKeysOf_sections:
  "hasExactKeysOf (aeoJs a) GITHUB_ISSUE_COMMENT_AEO_REQUIRED_KEYS"
  "hasExactKeysOf (js_get (aeoJs a) ''intent'') [''action'', ''purpose'']"
  "hasExactKeysOf (scopeJs s) [''allowed_issue_numbers'', ''max_body_length'', ''owner'', ''repo'']"
  "hasExactKeysOf (validationJs w)
       [''aeo_hash_required'', ''authority_lineage_hash'', ''canonicalization'', ''decision_id'', ''policy_hash'',
        ''policy_id'', ''replay_nonce'', ''requires_issue_policy_match'', ''requires_scope_match'',
        ''requires_unused_nonce'']"
  "hasExactKeysOf (targetJs t) [''action'', ''body'', ''issue_number'', ''owner'', ''repo'', ''system'']"
  "hasExactKeysOf issueCommentFinalityJs
       [''expected_result'', ''proof_fields'', ''proof_required'', ''proof_type'', ''reconciliation_required'',
        ''registry_required'', ''replay_state_after_success'']"
  by (simp_all add: hasExactKeysOf_def aeo_objects GITHUB_ISSUE_COMMENT_AEO_REQUIRED_KEYS_def)

lemma aeoJs_sections [simp]:
  "js_get (aeoJs a) ''scope'' = scopeJs (ge_scope a)"
  "js_get (aeoJs a) ''validation'' = validationJs (ge_validation a)"
  "js_get (aeoJs a) ''target'' = targetJs (ge_target a)"
  "js_get (aeoJs a) ''finality'' = issueCommentFinalityJs"
  by (simp_all add: aeoJs_def)

lemma fields_wf:
  assumes "issue_comment_fields v"
  shows "issue_comment_wf (aeoOf v)"
proof -
  note fields = assms [unfolded issue_comment_fields_def Let_def not_less]
  then have "\<forall>x\<in>set (js_arr (js_get (js_get v ''scope'') ''allowed_issue_numbers'')). 0 < the_int x"
    by (intro positive_numbers) blast
  with fields show ?thesis
    by (simp add: issue_comment_wf_def aeoOf_def Let_def value_tests)
qed

lemma fields_sections:
  assumes "issue_comment_shape v" and "issue_comment_fields v"
  shows "normalize (js_get v ''intent'') = normalize (js_get (aeoJs (aeoOf v)) ''intent'')"
    and "normalize (js_get v ''scope'') = normalize (scopeJs (ge_scope (aeoOf v)))"
    and "normalize (js_get v ''validation'') = normalize (validationJs (ge_validation (aeoOf v)))"
    and "normalize (js_get v ''target'') = normalize (targetJs (ge_target (aeoOf v)))"
    and "normalize (js_get v ''finality'') = normalize issueCommentFinalityJs"
proof -
  note shape = assms(1) [unfolded issue_comment_shape_def]
  note fields = assms(2) [unfolded issue_comment_fields_def Let_def]
  show "normalize (js_get v ''intent'') = normalize (js_get (aeoJs (aeoOf v)) ''intent'')"
    by (rule normalize_same_keys [OF _ hasExactKeysOf_sections(2)])
      (use shape fields in \<open>simp_all add: aeoJs_def aeoOf_def Let_def normalize_nonblank\<close>)
  show "normalize (js_get v ''scope'') = normalize (scopeJs (ge_scope (aeoOf v)))"
    by (rule normalize_same_keys [OF _ hasExactKeysOf_sections(3)])
      (use shape fields in \<open>simp_all add: scopeJs_def aeoOf_def Let_def normalize_tests\<close>)
  show "normalize (js_get v ''validation'') = normalize (validationJs (ge_validation (aeoOf v)))"
    by (rule normalize_same_keys [OF _ hasExactKeysOf_sections(4)])
      (use shape fields in \<open>simp_all add: validationJs_def aeoOf_def Let_def normalize_nonblank\<close>)
  show "normalize (js_get v ''target'') = normalize (targetJs (ge_target (aeoOf v)))"
    by (rule normalize_same_keys [OF _ hasExactKeysOf_sections(5)])
      (use shape fields in \<open>simp_all add: targetJs_def aeoOf_def Let_def normalize_tests\<close>)
  show "normalize (js_get v ''finality'') = normalize issueCommentFinalityJs"
    by (rule normalize_same_keys [OF _ hasExactKeysOf_sections(6)])
      (use shape fields in \<open>simp_all add: issueCommentFinalityJs_def normalize_strings comp_def\<close>)
qed

lemma valid_shape_normalize:
  assumes "issue_comment_shape v" and "issue_comment_fields v"
  shows "normalize v = normalize (aeoJs (aeoOf v))"
proof (rule normalize_same_keys [OF _ hasExactKeysOf_sections(1)])
  show "hasExactKeysOf v GITHUB_ISSUE_COMMENT_AEO_REQUIRED_KEYS"
    using assms(1) by (simp add: issue_comment_shape_def)
  show "distinct GITHUB_ISSUE_COMMENT_AEO_REQUIRED_KEYS"
    by (simp add: GITHUB_ISSUE_COMMENT_AEO_REQUIRED_KEYS_def)
  show "\<forall>k\<in>set GITHUB_ISSUE_COMMENT_AEO_REQUIRED_KEYS. normalize (js_get v k) = normalize (js_get (aeoJs (aeoOf v)) k)"
    by (simp add: GITHUB_ISSUE_COMMENT_AEO_REQUIRED_KEYS_def fields_sections [OF assms])
qed

lemma positive_number_eq: "isPositiveInteger v \<Longrightarrow> JNum (NInt (the_int v)) = v"
  by (cases v rule: isPositiveInteger.cases) auto

lemma the_int_mem:
  assumes "isNumberArray v" and "isPositiveInteger x"
  shows "x \<in> set (js_arr v) \<longleftrightarrow> the_int x \<in> the_int ` set (js_arr v)"
proof (cases v)
  case (JArr xs)
  have "x = y" if "y \<in> set xs" "the_int x = the_int y" for y
  proof -
    have "isPositiveInteger y" using assms(1) JArr that(1) by (simp add: list_all_iff)
    then have "JNum (NInt (the_int y)) = y" by (rule positive_number_eq)
    moreover have "JNum (NInt (the_int x)) = x" using assms(2) by (rule positive_number_eq)
    ultimately show ?thesis using that(2) by argo
  qed
  then show ?thesis by (auto simp: JArr)
qed (use assms in auto)

lemma the_str_eq: "isNonBlankString v \<Longrightarrow> JStr s = v \<longleftrightarrow> s = the_str v"
  by (cases v) auto

lemma the_str_eq2: "isNonBlankString v \<Longrightarrow> isNonBlankString w \<Longrightarrow> v = w \<longleftrightarrow> the_str v = the_str w"
  by (cases v; cases w) auto

lemma as_str_the_str: "isNonBlankString v \<Longrightarrow> as_str v = Some (the_str v)"
  by (cases v) auto

lemma context_authorized:
  assumes "issue_comment_fields v"
  shows "issue_comment_context v ctxt \<longleftrightarrow> issue_comment_authorized (aeoOf v) ctxt"
proof (cases ctxt)
  case (Some ctx)
  show ?thesis
  proof (cases "gc_authority ctx = None \<or> gc_consumed_replay_nonces ctx = None")
    case False
    then obtain u S where "gc_authority ctx = Some u" "gc_consumed_replay_nonces ctx = Some S" by auto
    with assms Some show ?thesis
      by (simp add: issue_comment_context_def issue_comment_authorized_def issue_comment_fields_def aeoOf_def
          Let_def the_str_eq the_str_eq2 as_str_the_str the_int_mem conj_assoc)
  qed (auto simp: issue_comment_context_def issue_comment_authorized_def Some split: option.splits)
qed (simp add: issue_comment_context_def issue_comment_authorized_def)

lemma shape_aeoJs [simp]: "issue_comment_shape (aeoJs a)"
  by (simp add: issue_comment_shape_def hasExactKeysOf_sections)

lemma isNumberArray_ints [simp]: "list_all isPositiveInteger (map (\<lambda>i. JNum (NInt i)) is) \<longleftrightarrow> (\<forall>i\<in>set is. 0 < i)"
  by (induction "is") auto

lemma fields_aeoJs [simp]: "issue_comment_fields (aeoJs a) \<longleftrightarrow> issue_comment_wf a"
proof
  assume "issue_comment_fields (aeoJs a)"
  then show "issue_comment_wf a" using fields_wf [of "aeoJs a"] by simp
next
  assume "issue_comment_wf a"
  then show "issue_comment_fields (aeoJs a)"
    unfolding issue_comment_fields_def issue_comment_wf_def Let_def aeoJs_sections
    by (simp add: scopeJs_def validationJs_def targetJs_def issueCommentFinalityJs_def)
      (simp add: aeoJs_def)
qed

lemma validate_aeoJs:
  "validateGitHubIssueCommentAEO (aeoJs a) ctxt expected = GIC_VALID \<longleftrightarrow>
     issue_comment_wf a \<and> (expected = None \<or> expected = Some (computeGitHubIssueCommentAEOHash a)) \<and>
     issue_comment_authorized a ctxt"
  by (auto simp: validateGitHubIssueCommentAEO_def context_authorized computeGitHubIssueCommentAEOHash_def)

section \<open>Capture and compilation\<close>

lemma positive_field_Some: "positive_field v k = Some i \<longleftrightarrow> js_get v k = JNum (NInt i) \<and> 0 < i"
  by (auto simp: positive_field_def split: jsval.splits jsnum.splits if_splits)

lemma ints_of_numbers:
  "map the_int xs = is \<and> list_all isPositiveInteger xs \<longleftrightarrow> xs = map (\<lambda>i. JNum (NInt i)) is \<and> (\<forall>i\<in>set is. 0 < i)"
proof (induction xs arbitrary: "is")
  case (Cons x xs)
  show ?case
    by (cases "is"; cases x rule: isPositiveInteger.cases) (use Cons.IH [of "tl is"] in auto)
qed auto

lemma numbers_field_Some:
  "numbers_field v k = Some is \<longleftrightarrow> js_get v k = JArr (map (\<lambda>i. JNum (NInt i)) is) \<and> (\<forall>i\<in>set is. 0 < i)"
proof (cases "js_get v k")
  case (JArr xs)
  then have "numbers_field v k = Some is \<longleftrightarrow> map the_int xs = is \<and> list_all isPositiveInteger xs"
    by (auto simp: numbers_field_def)
  then show ?thesis by (simp add: ints_of_numbers JArr)
qed (auto simp: numbers_field_def)

lemmas field_Some = nonblank_field_Some positive_field_Some numbers_field_Some

lemma comment_capture_Some:
  assumes "captureGitHubIssueCommentATAO input = Some atao"
  shows "nonblank (ga_intent atao) \<and> nonblank (ir_owner (ga_parameters atao)) \<and>
    nonblank (ir_repo (ga_parameters atao)) \<and> 0 < ir_issue_number (ga_parameters atao) \<and>
    nonblank (cp_body (ga_parameters atao)) \<and> ga_atao_id atao = objectHash (ataoJs atao)"
  using assms
  by (clarsimp simp: captureGitHubIssueCommentATAO_def bind_eq_Some_conv field_Some if_None_Some
      ataoJs_def proposedActionJs_def Let_def)

lemma comment_compile_Some:
  assumes "compileGitHubIssueCommentAEO (Some atao) binding = Some aeo"
  shows "ge_purpose aeo = ga_intent atao" and "ge_target aeo = ga_parameters atao"
    and "js_get binding ''allowed_owner'' = JStr (gs_owner (ge_scope aeo)) \<and> nonblank (gs_owner (ge_scope aeo))"
    and "js_get binding ''allowed_repo'' = JStr (gs_repo (ge_scope aeo)) \<and> nonblank (gs_repo (ge_scope aeo))"
    and "js_get binding ''allowed_issue_numbers'' = JArr (map (\<lambda>i. JNum (NInt i)) (gs_allowed_issue_numbers (ge_scope aeo)))
      \<and> gs_allowed_issue_numbers (ge_scope aeo) \<noteq> [] \<and> (\<forall>i\<in>set (gs_allowed_issue_numbers (ge_scope aeo)). 0 < i)"
    and "js_get binding ''max_body_length'' = JNum (NInt (gs_max_body_length (ge_scope aeo))) \<and>
      0 < gs_max_body_length (ge_scope aeo)"
    and "js_get binding ''decision_id'' = JStr (gv_decision_id (ge_validation aeo)) \<and> nonblank (gv_decision_id (ge_validation aeo))"
    and "js_get binding ''authority_lineage_hash'' = JStr (gv_authority_lineage_hash (ge_validation aeo)) \<and>
      nonblank (gv_authority_lineage_hash (ge_validation aeo))"
    and "js_get binding ''policy_id'' = JStr (gv_policy_id (ge_validation aeo)) \<and> nonblank (gv_policy_id (ge_validation aeo))"
    and "js_get binding ''policy_hash'' = JStr (gv_policy_hash (ge_validation aeo)) \<and> nonblank (gv_policy_hash (ge_validation aeo))"
    and "js_get binding ''replay_nonce'' = JStr (gv_replay_nonce (ge_validation aeo)) \<and> nonblank (gv_replay_nonce (ge_validation aeo))"
  using assms
  by (clarsimp simp: compileGitHubIssueCommentAEO_def bind_eq_Some_conv field_Some if_None_Some)+

lemma compiled_wf:
  assumes "captureGitHubIssueCommentATAO input = Some atao"
    and "compileGitHubIssueCommentAEO (Some atao) binding = Some aeo"
  shows "issue_comment_wf aeo \<longleftrightarrow> int (length (cp_body (ga_parameters atao))) \<le> gs_max_body_length (ge_scope aeo)"
  using comment_capture_Some [OF assms(1)] comment_compile_Some [OF assms(2)] by (simp add: issue_comment_wf_def)

section \<open>The execution boundary\<close>

lemma admitted_Some:
  "issue_comment_admitted input s = Some (aeo, atao, ex) \<longleftrightarrow>
     gx_aeo input = Some aeo \<and> gx_atao input = Some atao \<and> gx_executor input = Some ex \<and>
     nonblank (gx_emitted_at input) \<and> gx_validation_result input = GIC_VALID \<and>
     gx_validated_object_hash input = computeGitHubIssueCommentAEOHash aeo \<and>
     (\<forall>R. gx_consumed_replay_nonces input = Some R \<longrightarrow> \<not> nr_has R s (gv_replay_nonce (ge_validation aeo))) \<and>
     (\<forall>H. gx_consumed_action_hashes input = Some H \<longrightarrow> computeGitHubIssueCommentActionHash aeo \<notin> H)"
  by (auto simp: issue_comment_admitted_def bind_eq_Some_conv computeGitHubIssueCommentAEOHash_def
      split: option.splits)

text \<open>Evidence from which a proof can be formed.\<close>

definition issue_comment_evidence :: "jsval \<Rightarrow> bool" where
  "issue_comment_evidence e \<longleftrightarrow>
     isNonBlankString (js_get e ''comment_id'') \<and> isNonBlankString (js_get e ''comment_url'') \<and>
     isNonBlankString (js_get e ''executed_at'')"

lemma evidence_truthy: "isNonBlankString (js_get e k) \<Longrightarrow> js_truthy e"
  by (cases e) auto

lemma nonblank_field_None: "nonblank_field v k = None \<longleftrightarrow> \<not> isNonBlankString (js_get v k)"
  by (cases "js_get v k") (auto simp: nonblank_field_def)

lemma form_proof_None:
  "form_issue_comment_proof input aeo atao e = None \<longleftrightarrow> \<not> issue_comment_evidence e"
proof (cases "issue_comment_evidence e")
  case True
  then have "js_truthy e" "nonblank_field e ''comment_id'' \<noteq> None" "nonblank_field e ''comment_url'' \<noteq> None"
    "nonblank_field e ''executed_at'' \<noteq> None"
    by (auto simp: issue_comment_evidence_def nonblank_field_None evidence_truthy)
  then show ?thesis using True by (auto simp: form_issue_comment_proof_def Let_def)
next
  case False
  then have "\<not> isNonBlankString (js_get e ''comment_id'') \<or> \<not> isNonBlankString (js_get e ''comment_url'') \<or>
    \<not> isNonBlankString (js_get e ''executed_at'')" by (simp add: issue_comment_evidence_def)
  then have "nonblank_field e ''comment_id'' = None \<or> nonblank_field e ''comment_url'' = None \<or>
    nonblank_field e ''executed_at'' = None" by (simp add: nonblank_field_None)
  then show ?thesis using False
    by (cases "nonblank_field e ''comment_id''"; cases "nonblank_field e ''comment_url''")
      (auto simp: form_issue_comment_proof_def)
qed

lemma form_proof_Some:
  assumes "form_issue_comment_proof input aeo atao e = Some p"
  shows "gp_validated_object_hash p = gx_validated_object_hash input \<and>
    gp_executed_object_hash p = computeGitHubIssueCommentAEOHash aeo \<and>
    gp_aeo_hash p = computeGitHubIssueCommentAEOHash aeo \<and> gp_atao_id p = ga_atao_id atao \<and>
    gp_action_hash p = computeGitHubIssueCommentActionHash aeo \<and>
    gp_execution_evidence_hash p = objectHash e \<and> gp_proof_id p = objectHash (issueCommentProofJs p) \<and>
    js_get e ''comment_id'' = JStr (gp_comment_id p)"
  using assms
  by (clarsimp simp: form_issue_comment_proof_def bind_eq_Some_conv nonblank_field_Some if_None_Some
      Let_def issueCommentProofJs_def)

lemma execute_admitted:
  assumes "issue_comment_admitted input s = Some (aeo, atao, ex)" and "ex (ge_target aeo) w = (w', e)"
  shows "executeGitHubIssueComment (Some input) (s, w) =
    (case form_issue_comment_proof input aeo atao e of
       None \<Rightarrow> ((s, w'), None)
     | Some p \<Rightarrow>
         (((case gx_consumed_replay_nonces input of None \<Rightarrow> s
            | Some R \<Rightarrow> nr_add R (gv_replay_nonce (ge_validation aeo)) s),
           (case gx_persistProof input of None \<Rightarrow> w' | Some persist \<Rightarrow> persist p w')), Some p))"
  using assms by (simp add: executeGitHubIssueComment_def cong: option.case_cong)

lemma execute_rejected:
  "issue_comment_admitted input s = None \<Longrightarrow> executeGitHubIssueComment (Some input) (s, w) = ((s, w), None)"
  by (simp add: executeGitHubIssueComment_def)

lemma execute_Some:
  assumes "executeGitHubIssueComment (Some input) (s, w) = ((s', w'), Some p)"
  obtains aeo atao ex w1 e where
    "issue_comment_admitted input s = Some (aeo, atao, ex)" and "ex (ge_target aeo) w = (w1, e)"
    and "form_issue_comment_proof input aeo atao e = Some p"
    and "s' = (case gx_consumed_replay_nonces input of None \<Rightarrow> s
               | Some R \<Rightarrow> nr_add R (gv_replay_nonce (ge_validation aeo)) s)"
    and "w' = (case gx_persistProof input of None \<Rightarrow> w1 | Some persist \<Rightarrow> persist p w1)"
proof (cases "issue_comment_admitted input s")
  case None
  then show ?thesis using assms by (simp add: execute_rejected)
next
  case (Some t)
  obtain aeo atao ex where t: "t = (aeo, atao, ex)" by (cases t)
  obtain w1 e where e: "ex (ge_target aeo) w = (w1, e)" by (cases "ex (ge_target aeo) w")
  note x = execute_admitted [OF Some [unfolded t] e]
  show ?thesis
    using assms that [OF Some [unfolded t] e] unfolding x by (auto split: option.splits)
qed

text \<open>A call without a proof leaves the registry of nonces alone.\<close>

lemma execute_None_state:
  "snd (executeGitHubIssueComment (Some input) st) = None \<Longrightarrow>
   fst (fst (executeGitHubIssueComment (Some input) st)) = fst st"
  by (cases "issue_comment_admitted input (fst st)")
    (auto simp: executeGitHubIssueComment_def split: prod.splits option.splits)

section \<open>One registry, one proof per nonce\<close>

text \<open>A sequence of calls that share one registry and one world.\<close>

fun executeGitHubIssueComments ::
  "('s, 'w) GitHubIssueCommentExecuteInput list \<Rightarrow> 's \<times> 'w
   \<Rightarrow> ('s \<times> 'w) \<times> (('s, 'w) GitHubIssueCommentExecuteInput \<times> GitHubIssueCommentExecutionProof option) list" where
  "executeGitHubIssueComments [] st = (st, [])"
| "executeGitHubIssueComments (i # is) st =
     (case executeGitHubIssueComment (Some i) st of (st1, r) \<Rightarrow>
        (case executeGitHubIssueComments is st1 of (st2, rs) \<Rightarrow> (st2, (i, r) # rs)))"

definition input_nonce :: "('s, 'w) GitHubIssueCommentExecuteInput \<Rightarrow> string" where
  "input_nonce i = (case gx_aeo i of None \<Rightarrow> [] | Some aeo \<Rightarrow> gv_replay_nonce (ge_validation aeo))"

definition proof_nonces ::
  "(('s, 'w) GitHubIssueCommentExecuteInput \<times> GitHubIssueCommentExecutionProof option) list \<Rightarrow> string list" where
  "proof_nonces rs = map (input_nonce \<circ> fst) (filter (\<lambda>r. snd r \<noteq> None) rs)"

lemma proof_nonces_simps [simp]:
  "proof_nonces [] = []"
  "proof_nonces ((i, None) # rs) = proof_nonces rs"
  "proof_nonces ((i, Some p) # rs) = input_nonce i # proof_nonces rs"
  by (simp_all add: proof_nonces_def)

text \<open>What the gateway relies on: a nonce that was added is had, and nothing else changes.\<close>

locale nonce_registry =
  fixes R :: "'s NonceRegistry"
  assumes has_add: "nr_has R (nr_add R n s) m \<longleftrightarrow> m = n \<or> nr_has R s m"
begin

lemma execute_nonce:
  assumes "gx_consumed_replay_nonces i = Some R" and "executeGitHubIssueComment (Some i) st = (st', r)"
  shows "(r = None \<longrightarrow> fst st' = fst st) \<and>
    (r \<noteq> None \<longrightarrow> \<not> nr_has R (fst st) (input_nonce i) \<and> fst st' = nr_add R (input_nonce i) (fst st))"
proof (cases r)
  case None
  then show ?thesis using execute_None_state [of i st] assms(2) by simp
next
  case (Some p)
  obtain s w s' w' where st: "st = (s, w)" "st' = (s', w')" by (cases st; cases st')
  with assms(2) Some have "executeGitHubIssueComment (Some i) (s, w) = ((s', w'), Some p)" by simp
  then show ?thesis
    by (rule execute_Some) (simp add: admitted_Some assms(1) st Some input_nonce_def)
qed

lemma proofs_use_fresh_nonces:
  assumes "\<forall>i\<in>set is. gx_consumed_replay_nonces i = Some R" and "executeGitHubIssueComments is st = (st', rs)"
  shows "distinct (proof_nonces rs) \<and> (\<forall>n\<in>set (proof_nonces rs). \<not> nr_has R (fst st) n) \<and>
    (\<forall>n. nr_has R (fst st') n \<longleftrightarrow> nr_has R (fst st) n \<or> n \<in> set (proof_nonces rs))"
  using assms
proof (induction "is" arbitrary: st rs)
  case Nil
  then show ?case by simp
next
  case (Cons i "is")
  obtain st1 r where e: "executeGitHubIssueComment (Some i) st = (st1, r)"
    by (cases "executeGitHubIssueComment (Some i) st")
  obtain st2 rs1 where f: "executeGitHubIssueComments is st1 = (st2, rs1)"
    by (cases "executeGitHubIssueComments is st1")
  have rs: "rs = (i, r) # rs1" "st' = st2" using Cons.prems(2) e f by simp_all
  have ih: "distinct (proof_nonces rs1)" "\<forall>n\<in>set (proof_nonces rs1). \<not> nr_has R (fst st1) n"
    "\<forall>n. nr_has R (fst st2) n \<longleftrightarrow> nr_has R (fst st1) n \<or> n \<in> set (proof_nonces rs1)"
    using Cons.IH [of st1 rs1] Cons.prems(1) f rs(2) by simp_all
  have n: "(r = None \<longrightarrow> fst st1 = fst st) \<and>
    (r \<noteq> None \<longrightarrow> \<not> nr_has R (fst st) (input_nonce i) \<and> fst st1 = nr_add R (input_nonce i) (fst st))"
    using execute_nonce [OF _ e] Cons.prems(1) by simp
  show ?case
  proof (cases r)
    case None
    then show ?thesis using ih n rs by simp
  next
    case (Some p)
    then show ?thesis using ih n rs by (auto simp: has_add)
  qed
qed

end

text \<open>The JavaScript \<^verbatim>\<open>Set\<close>.\<close>

definition js_set_registry :: "string set NonceRegistry" where
  "js_set_registry = \<lparr>nr_has = (\<lambda>S n. n \<in> S), nr_add = insert\<rparr>"

interpretation js_set: nonce_registry js_set_registry
  by unfold_locales (simp add: js_set_registry_def)

section \<open>A proposal, a binding and a context\<close>

definition sample_comment :: jsval where
  "sample_comment = JObj
     [(''agent_id'', JStr ''agent-001''), (''session_id'', JStr ''session-001''), (''intent'', JStr ''reply''),
      (''owner'', JStr ''octo''), (''repo'', JStr ''hub''), (''issue_number'', JNum (NInt 42)),
      (''body'', JStr ''Queued.''), (''timestamp'', JStr ''2026-06-04'')]"

definition sample_binding :: jsval where
  "sample_binding = JObj
     [(''decision_id'', JStr ''AUTH-1''), (''authority_lineage_hash'', JStr ''L''), (''policy_id'', JStr ''P''),
      (''policy_hash'', JStr ''H''), (''replay_nonce'', JStr ''n-1''), (''allowed_owner'', JStr ''octo''),
      (''allowed_repo'', JStr ''hub''), (''allowed_issue_numbers'', JArr [JNum (NInt 42)]),
      (''max_body_length'', JNum (NInt 280))]"

definition sample_aeo_comment :: GitHubIssueCommentAEO where
  "sample_aeo_comment =
     \<lparr>ge_purpose = ''reply'',
      ge_scope = \<lparr>gs_owner = ''octo'', gs_repo = ''hub'', gs_allowed_issue_numbers = [42], gs_max_body_length = 280\<rparr>,
      ge_validation = \<lparr>gv_decision_id = ''AUTH-1'', gv_authority_lineage_hash = ''L'', gv_policy_id = ''P'',
                       gv_policy_hash = ''H'', gv_replay_nonce = ''n-1''\<rparr>,
      ge_target = \<lparr>ir_owner = ''octo'', ir_repo = ''hub'', ir_issue_number = 42, cp_body = ''Queued.''\<rparr>\<rparr>"

definition sample_comment_context :: GitHubIssueCommentValidationContext where
  "sample_comment_context =
     \<lparr>gc_authority = Some \<lparr>gu_decision_id = ''AUTH-1'', gu_authority_lineage_hash = ''L'', gu_policy_id = ''P'',
                           gu_policy_hash = ''H'', gu_status = GH_ACTIVE\<rparr>,
      gc_consumed_replay_nonces = Some {}\<rparr>"

lemma sample_comment_captured:
  obtains atao where "captureGitHubIssueCommentATAO sample_comment = Some atao"
    and "compileGitHubIssueCommentAEO (Some atao) sample_binding = Some sample_aeo_comment"
proof -
  have "\<exists>atao. captureGitHubIssueCommentATAO sample_comment = Some atao \<and> ga_intent atao = ''reply'' \<and>
      ga_parameters atao = ge_target sample_aeo_comment"
    by (simp add: captureGitHubIssueCommentATAO_def sample_comment_def sample_aeo_comment_def nonblank_field_def
        positive_field_def js_ws_def Let_def)
  then obtain atao where a: "captureGitHubIssueCommentATAO sample_comment = Some atao"
    "ga_intent atao = ''reply''" "ga_parameters atao = ge_target sample_aeo_comment" by blast
  then have "compileGitHubIssueCommentAEO (Some atao) sample_binding = Some sample_aeo_comment"
    by (simp add: compileGitHubIssueCommentAEO_def sample_binding_def sample_aeo_comment_def nonblank_field_def
        positive_field_def numbers_field_def js_ws_def)
  with a(1) show ?thesis by (rule that)
qed

lemma sample_comment_authorized:
  "issue_comment_wf sample_aeo_comment" "issue_comment_authorized sample_aeo_comment (Some sample_comment_context)"
  by (simp_all add: issue_comment_wf_def issue_comment_authorized_def sample_aeo_comment_def
      sample_comment_context_def js_ws_def)

text \<open>An executor that logs its calls and reports success, or reports nothing.\<close>

definition logging_executor :: "CommentParameters \<Rightarrow> CommentParameters list \<Rightarrow> CommentParameters list \<times> jsval" where
  "logging_executor p w = (w @ [p], JObj
     [(''comment_id'', JStr ''c-1''), (''comment_url'', JStr ''u''), (''executed_at'', JStr ''t'')])"

definition silent_executor :: "CommentParameters \<Rightarrow> CommentParameters list \<Rightarrow> CommentParameters list \<times> jsval" where
  "silent_executor p w = (w @ [p], JNull)"

definition sample_execution ::
  "(CommentParameters \<Rightarrow> CommentParameters list \<Rightarrow> CommentParameters list \<times> jsval)
   \<Rightarrow> (string set, CommentParameters list) GitHubIssueCommentExecuteInput" where
  "sample_execution ex =
     \<lparr>gx_aeo = Some sample_aeo_comment,
      gx_validated_object_hash = computeGitHubIssueCommentAEOHash sample_aeo_comment,
      gx_validation_result = GIC_VALID,
      gx_atao = Some \<lparr>ga_atao_id = ''a'', ga_agent_id = ''agent-001'', ga_session_id = ''session-001'',
                      ga_intent = ''reply'', ga_parameters = ge_target sample_aeo_comment,
                      ga_scope = \<lparr>ir_owner = ''octo'', ir_repo = ''hub'', ir_issue_number = 42\<rparr>,
                      ga_timestamp = ''2026-06-04''\<rparr>,
      gx_executor = Some ex, gx_emitted_at = ''2026-06-05'', gx_consumed_action_hashes = None,
      gx_consumed_replay_nonces = Some js_set_registry, gx_persistProof = None\<rparr>"

lemma sample_admitted:
  "issue_comment_admitted (sample_execution ex) {} =
     Some (sample_aeo_comment, the (gx_atao (sample_execution ex)), ex)"
  unfolding admitted_Some by (simp add: sample_execution_def js_set_registry_def js_ws_def)

lemma sample_executed:
  "executeGitHubIssueComment (Some (sample_execution logging_executor)) ({}, []) =
     (({''n-1''}, [ge_target sample_aeo_comment]),
      form_issue_comment_proof (sample_execution logging_executor) sample_aeo_comment
        (the (gx_atao (sample_execution logging_executor))) (snd (logging_executor (ge_target sample_aeo_comment) [])))"
proof -
  have "issue_comment_evidence (snd (logging_executor p w))" for p w
    by (simp add: issue_comment_evidence_def logging_executor_def js_ws_def)
  then obtain p where p: "form_issue_comment_proof (sample_execution logging_executor) sample_aeo_comment
        (the (gx_atao (sample_execution logging_executor))) (snd (logging_executor (ge_target sample_aeo_comment) [])) = Some p"
    using form_proof_None by blast
  have "gx_persistProof (sample_execution logging_executor) = None"
    "gx_consumed_replay_nonces (sample_execution logging_executor) = Some js_set_registry"
    "nr_add js_set_registry (gv_replay_nonce (ge_validation sample_aeo_comment)) {} = {''n-1''}"
    by (simp_all add: sample_execution_def js_set_registry_def sample_aeo_comment_def)
  moreover have "logging_executor (ge_target sample_aeo_comment) [] =
    ([ge_target sample_aeo_comment], snd (logging_executor (ge_target sample_aeo_comment) []))"
    by (simp add: logging_executor_def)
  ultimately show ?thesis using execute_admitted [OF sample_admitted] p by simp
qed

section \<open>Properties\<close>

text \<open>
  C21. Type safety of the validator's cast: whatever value the validator accepts, the object the
  code goes on with is an AEO of the declared type. It has the canonical text of that typed
  object, hence its hash, and every field of it is of the declared kind.
\<close>

theorem issue_comment_valid_is_typed:
  assumes "validateGitHubIssueCommentAEO v ctxt expected = GIC_VALID"
  shows "canonicalize v = canonicalize (aeoJs (aeoOf v)) \<and> objectHash v = computeGitHubIssueCommentAEOHash (aeoOf v) \<and>
    issue_comment_wf (aeoOf v) \<and> issue_comment_authorized (aeoOf v) ctxt \<and>
    validateGitHubIssueCommentAEO (aeoJs (aeoOf v)) ctxt expected = GIC_VALID"
proof -
  have v: "issue_comment_shape v" "issue_comment_fields v" "issue_comment_context v ctxt"
    "expected = None \<or> expected = Some (objectHash v)"
    using assms by (auto simp: validateGitHubIssueCommentAEO_def split: if_splits)
  have n: "normalize v = normalize (aeoJs (aeoOf v))" using v by (intro valid_shape_normalize)
  then have h: "objectHash v = computeGitHubIssueCommentAEOHash (aeoOf v)"
    unfolding computeGitHubIssueCommentAEOHash_def by (rule objectHash_normalize)
  moreover have "canonicalize v = canonicalize (aeoJs (aeoOf v))" using n unfolding canonicalize_inj .
  moreover have "issue_comment_wf (aeoOf v)" using v(2) by (rule fields_wf)
  moreover have "issue_comment_authorized (aeoOf v) ctxt" using v(2,3) context_authorized by blast
  ultimately show ?thesis using v(4) unfolding validate_aeoJs by metis
qed

theorem issue_comment_valid_is_typed_witness:
  "canonicalize (aeoJs sample_aeo_comment) = canonicalize (aeoJs (aeoOf (aeoJs sample_aeo_comment)))"
proof -
  have "validateGitHubIssueCommentAEO (aeoJs sample_aeo_comment) (Some sample_comment_context) None = GIC_VALID"
    by (simp add: validate_aeoJs sample_comment_authorized)
  from issue_comment_valid_is_typed [OF this] show ?thesis by simp
qed

text \<open>
  Round trip from proposal to verdict: a proposal that was captured and compiled under a
  binding is accepted, against its own hash, exactly when the body is within the binding's
  length, the target is the binding's repository and one of its issues, and the context has the
  binding's authority active with the nonce unused.
\<close>

theorem captured_comment_valid_iff:
  assumes "captureGitHubIssueCommentATAO input = Some atao"
    and "compileGitHubIssueCommentAEO (Some atao) binding = Some aeo"
  shows "validateGitHubIssueCommentAEO (aeoJs aeo) ctxt (Some (computeGitHubIssueCommentAEOHash aeo)) = GIC_VALID \<longleftrightarrow>
    int (length (cp_body (ga_parameters atao))) \<le> the_int (js_get binding ''max_body_length'') \<and>
    js_get binding ''allowed_owner'' = JStr (ir_owner (ga_parameters atao)) \<and>
    js_get binding ''allowed_repo'' = JStr (ir_repo (ga_parameters atao)) \<and>
    JNum (NInt (ir_issue_number (ga_parameters atao))) \<in> set (js_arr (js_get binding ''allowed_issue_numbers'')) \<and>
    (\<exists>ctx u S. ctxt = Some ctx \<and> gc_authority ctx = Some u \<and> gc_consumed_replay_nonces ctx = Some S \<and>
       gu_status u = GH_ACTIVE \<and> js_get binding ''decision_id'' = JStr (gu_decision_id u) \<and>
       js_get binding ''authority_lineage_hash'' = JStr (gu_authority_lineage_hash u) \<and>
       js_get binding ''policy_id'' = JStr (gu_policy_id u) \<and> js_get binding ''policy_hash'' = JStr (gu_policy_hash u) \<and>
       the_str (js_get binding ''replay_nonce'') \<notin> S)"
proof -
  have mem: "JNum (NInt i) \<in> set (map (\<lambda>i. JNum (NInt i)) is) \<longleftrightarrow> i \<in> set is" for i "is" by auto
  note c = comment_compile_Some [OF assms(2)]
  show ?thesis
    unfolding validate_aeoJs compiled_wf [OF assms] issue_comment_authorized_def
      c(1,2) c(3-11) [THEN conjunct1] the_int.simps the_str.simps js_arr.simps mem c(5) [THEN conjunct1]
    by (auto simp: eq_commute)
qed

theorem captured_comment_valid_iff_witness:
  "\<exists>atao. captureGitHubIssueCommentATAO sample_comment = Some atao \<and>
     int (length (cp_body (ga_parameters atao))) \<le> the_int (js_get sample_binding ''max_body_length'')"
proof -
  obtain atao where a: "captureGitHubIssueCommentATAO sample_comment = Some atao"
    "compileGitHubIssueCommentAEO (Some atao) sample_binding = Some sample_aeo_comment"
    by (rule sample_comment_captured)
  have "validateGitHubIssueCommentAEO (aeoJs sample_aeo_comment) (Some sample_comment_context)
      (Some (computeGitHubIssueCommentAEOHash sample_aeo_comment)) = GIC_VALID"
    by (simp add: validate_aeoJs sample_comment_authorized)
  with captured_comment_valid_iff [OF a] a(1) show ?thesis by blast
qed



text \<open>
  C23. The execution boundary in full: a call returns a proof exactly when the object is admitted
  (present, judged VALID, with the hash that was validated, its nonce and action unused) and the
  executor, called once on the target of that object, reports a comment id, a url and a time.
  The proof carries the hash of the executed object as validated and executed hash and the hash
  of the evidence; afterwards the nonce is in the registry.
\<close>

theorem issue_comment_proof_iff:
  "executeGitHubIssueComment (Some input) (s, w) = ((s', w'), Some p) \<longleftrightarrow>
    (\<exists>aeo atao ex w1 e.
       gx_aeo input = Some aeo \<and> gx_atao input = Some atao \<and> gx_executor input = Some ex \<and>
       nonblank (gx_emitted_at input) \<and> gx_validation_result input = GIC_VALID \<and>
       gx_validated_object_hash input = computeGitHubIssueCommentAEOHash aeo \<and>
       (\<forall>R. gx_consumed_replay_nonces input = Some R \<longrightarrow> \<not> nr_has R s (gv_replay_nonce (ge_validation aeo))) \<and>
       (\<forall>H. gx_consumed_action_hashes input = Some H \<longrightarrow> computeGitHubIssueCommentActionHash aeo \<notin> H) \<and>
       ex (ge_target aeo) w = (w1, e) \<and> issue_comment_evidence e \<and>
       form_issue_comment_proof input aeo atao e = Some p \<and>
       gp_validated_object_hash p = computeGitHubIssueCommentAEOHash aeo \<and>
       gp_executed_object_hash p = computeGitHubIssueCommentAEOHash aeo \<and>
       gp_execution_evidence_hash p = objectHash e \<and> gp_proof_id p = objectHash (issueCommentProofJs p) \<and>
       s' = (case gx_consumed_replay_nonces input of None \<Rightarrow> s
             | Some R \<Rightarrow> nr_add R (gv_replay_nonce (ge_validation aeo)) s) \<and>
       w' = (case gx_persistProof input of None \<Rightarrow> w1 | Some persist \<Rightarrow> persist p w1))"
  (is "?L \<longleftrightarrow> ?R")
proof
  assume ?L
  then show ?R
  proof (rule execute_Some)
    fix aeo atao ex w1 e
    assume a: "issue_comment_admitted input s = Some (aeo, atao, ex)" and x: "ex (ge_target aeo) w = (w1, e)"
      and p: "form_issue_comment_proof input aeo atao e = Some p"
      and st: "s' = (case gx_consumed_replay_nonces input of None \<Rightarrow> s
                     | Some R \<Rightarrow> nr_add R (gv_replay_nonce (ge_validation aeo)) s)"
        "w' = (case gx_persistProof input of None \<Rightarrow> w1 | Some persist \<Rightarrow> persist p w1)"
    have "issue_comment_evidence e" using p form_proof_None [of input aeo atao e] by simp
    with a [unfolded admitted_Some] x p form_proof_Some [OF p] st show ?R by metis
  qed
next
  assume ?R
  then obtain aeo atao ex w1 e where a: "issue_comment_admitted input s = Some (aeo, atao, ex)"
    and x: "ex (ge_target aeo) w = (w1, e)" and p: "form_issue_comment_proof input aeo atao e = Some p"
    and st: "s' = (case gx_consumed_replay_nonces input of None \<Rightarrow> s
                     | Some R \<Rightarrow> nr_add R (gv_replay_nonce (ge_validation aeo)) s)"
        "w' = (case gx_persistProof input of None \<Rightarrow> w1 | Some persist \<Rightarrow> persist p w1)"
    unfolding admitted_Some by blast
  show ?L unfolding execute_admitted [OF a x] p by (simp add: st)
qed

theorem issue_comment_proof_iff_witness:
  "\<exists>p. executeGitHubIssueComment (Some (sample_execution logging_executor)) ({}, [])
         = (({''n-1''}, [ge_target sample_aeo_comment]), Some p) \<and>
       gp_executed_object_hash p = computeGitHubIssueCommentAEOHash sample_aeo_comment"
proof -
  have "issue_comment_evidence (snd (logging_executor q v))" for q v
    by (simp add: issue_comment_evidence_def logging_executor_def js_ws_def)
  then obtain p where "executeGitHubIssueComment (Some (sample_execution logging_executor)) ({}, [])
      = (({''n-1''}, [ge_target sample_aeo_comment]), Some p)"
    using sample_executed form_proof_None by (metis option.exhaust)
  with issue_comment_proof_iff [of "sample_execution logging_executor" "{}" "[]"] show ?thesis
    by (auto simp: sample_execution_def)
qed

text \<open>
  C24. One proof per nonce: in a sequence of calls that share one \<^verbatim>\<open>Set\<close> of consumed nonces, the
  calls that returned a proof have pairwise different nonces, none of them consumed before, and
  at the end exactly these have been added.
\<close>

theorem issue_comment_nonce_once:
  assumes "\<forall>i\<in>set is. gx_consumed_replay_nonces i = Some js_set_registry"
    and "executeGitHubIssueComments is (S, w) = ((S', w'), rs)"
  shows "distinct (proof_nonces rs) \<and> set (proof_nonces rs) \<inter> S = {} \<and> S' = S \<union> set (proof_nonces rs)"
  using js_set.proofs_use_fresh_nonces [OF assms] by (auto simp: js_set_registry_def)

theorem issue_comment_nonce_once_witness:
  "fst (fst (executeGitHubIssueComments [sample_execution logging_executor, sample_execution logging_executor] ({}, [])))
     = {} \<union> set (proof_nonces
         (snd (executeGitHubIssueComments [sample_execution logging_executor, sample_execution logging_executor] ({}, []))))"
proof -
  let ?is = "[sample_execution logging_executor, sample_execution logging_executor]"
  obtain S w rs where e: "executeGitHubIssueComments ?is ({}, []) = ((S, w), rs)"
    by (metis prod.exhaust)
  have "\<forall>i\<in>set ?is. gx_consumed_replay_nonces i = Some js_set_registry" by (simp add: sample_execution_def)
  from issue_comment_nonce_once [OF this e] show ?thesis unfolding e by simp
qed

text \<open>
  An effect without a proof: if an admitted call reaches the executor and the executor's
  report lacks a field, the effect has happened, no proof is formed and the nonce stays unused;
  the same call is admitted again and the executor posts a second time.
\<close>

theorem issue_comment_retry_posts_again:
  assumes "issue_comment_admitted input s = Some (aeo, atao, ex)"
    and "ex (ge_target aeo) w = (w1, e1)" and "\<not> issue_comment_evidence e1"
    and "ex (ge_target aeo) w1 = (w2, e2)" and "\<not> issue_comment_evidence e2"
  shows "executeGitHubIssueComment (Some input) (s, w) = ((s, w1), None) \<and>
    executeGitHubIssueComment (Some input) (fst (executeGitHubIssueComment (Some input) (s, w))) = ((s, w2), None)"
proof -
  have "executeGitHubIssueComment (Some input) (s, w) = ((s, w1), None)"
    using assms(3) form_proof_None [of input aeo atao e1] by (simp add: execute_admitted [OF assms(1,2)])
  moreover have "executeGitHubIssueComment (Some input) (s, w1) = ((s, w2), None)"
    using assms(5) form_proof_None [of input aeo atao e2] by (simp add: execute_admitted [OF assms(1,4)])
  ultimately show ?thesis by simp
qed

theorem issue_comment_retry_posts_again_witness:
  "executeGitHubIssueComment (Some (sample_execution silent_executor))
     (fst (executeGitHubIssueComment (Some (sample_execution silent_executor)) ({}, []))) =
   (({}, [ge_target sample_aeo_comment, ge_target sample_aeo_comment]), None)"
proof -
  have "\<not> issue_comment_evidence JNull" by (simp add: issue_comment_evidence_def)
  moreover have "silent_executor (ge_target sample_aeo_comment) [] = ([ge_target sample_aeo_comment], JNull)"
    "silent_executor (ge_target sample_aeo_comment) [ge_target sample_aeo_comment] =
       ([ge_target sample_aeo_comment, ge_target sample_aeo_comment], JNull)"
    by (simp_all add: silent_executor_def)
  ultimately show ?thesis
    by (intro issue_comment_retry_posts_again [OF sample_admitted, THEN conjunct2])
qed

end
