(* ===== verification/Json_Text.thy ===== *)
theory Json_Text
  imports Continuity_Core
begin

text \<open>
  \<^verbatim>\<open>JSON.stringify\<close> and \<^verbatim>\<open>JSON.parse\<close>. The registries keep scopes, constraints and objects as
  JSON text, so what a later stage reads is what the parser makes of what an earlier stage
  printed. The parser is the grammar of JSON over the values of the model: numbers are
  integers (a fraction or an exponent is rejected here, as is an escape beyond \<^verbatim>\<open>U+00FF\<close>),
  a repeated key keeps its first position and its last value.

  The recursion of the parser carries fuel; \<open>parse_fuel_enough\<close> shows that twice the length of
  the text is enough: no larger amount changes the result.
\<close>

section \<open>Printing\<close>

definition json_stringify :: "jsval \<Rightarrow> string" where
  "json_stringify v = print_json (json_clone v)"

section \<open>Parsing\<close>

definition json_ws :: "char \<Rightarrow> bool" where
  "json_ws c \<longleftrightarrow> (of_char c :: nat) \<in> {9, 10, 13, 32}"

definition skip_ws :: "string \<Rightarrow> string" where
  "skip_ws s = dropWhile json_ws s"

definition is_hex :: "char \<Rightarrow> bool" where
  "is_hex c \<longleftrightarrow> (of_char c :: nat) \<in> {48..57} \<union> {65..70} \<union> {97..102}"

definition hex_val :: "char \<Rightarrow> nat" where
  "hex_val c = (let n = of_char c in if n < 58 then n - 48 else if n < 71 then n - 55 else n - 87)"

definition simple_escape :: "char \<Rightarrow> char option" where
  "simple_escape y =
     (if y = CHR 0x22 \<or> y = CHR 0x5C \<or> y = CHR ''/'' then Some y
      else if y = CHR ''b'' then Some (char_of (8::nat))
      else if y = CHR ''f'' then Some (char_of (12::nat))
      else if y = CHR ''n'' then Some (char_of (10::nat))
      else if y = CHR ''r'' then Some (char_of (13::nat))
      else if y = CHR ''t'' then Some (char_of (9::nat))
      else None)"

text \<open>One character of a string, the quote having been excluded.\<close>

definition parse_char :: "string \<Rightarrow> (char \<times> string) option" where
  "parse_char s =
     (case s of
        [] \<Rightarrow> None
      | c # r \<Rightarrow>
          if c \<noteq> CHR 0x5C then (if (of_char c :: nat) < 32 then None else Some (c, r))
          else (case r of
                  [] \<Rightarrow> None
                | y # r1 \<Rightarrow>
                    if y \<noteq> CHR ''u'' then map_option (\<lambda>x. (x, r1)) (simple_escape y)
                    else (case r1 of
                            h1 # h2 # h3 # h4 # r2 \<Rightarrow>
                              if is_hex h1 \<and> is_hex h2 \<and> is_hex h3 \<and> is_hex h4 \<and> hex_val h1 = 0 \<and> hex_val h2 = 0
                              then Some (char_of (16 * hex_val h3 + hex_val h4), r2) else None
                          | _ \<Rightarrow> None)))"

lemma parse_char_shorter: "parse_char s = Some (c, r) \<Longrightarrow> length r < length s"
  by (auto simp: parse_char_def split: list.splits if_splits option.splits)

text \<open>The characters up to the closing quote.\<close>

function parse_str :: "string \<Rightarrow> (string \<times> string) option" where
  "parse_str s =
     (case s of
        [] \<Rightarrow> None
      | c # r \<Rightarrow>
          if c = CHR 0x22 then Some ([], r)
          else (case parse_char s of
                  None \<Rightarrow> None
                | Some (x, r1) \<Rightarrow> map_option (\<lambda>(xs, r2). (x # xs, r2)) (parse_str r1)))"
  by pat_completeness auto
termination
  by (relation "measure length") (auto dest: parse_char_shorter)

declare parse_str.simps [simp del]

definition dec_value :: "string \<Rightarrow> nat" where
  "dec_value ds = foldl (\<lambda>n c. 10 * n + ((of_char c :: nat) - 48)) 0 ds"

definition parse_nat :: "string \<Rightarrow> (nat \<times> string) option" where
  "parse_nat s =
     (let ds = takeWhile is_digit s; r = dropWhile is_digit s in
      if ds = [] \<or> (hd ds = CHR ''0'' \<and> tl ds \<noteq> []) then None
      else if r \<noteq> [] \<and> hd r \<in> {CHR ''.'', CHR ''e'', CHR ''E''} then None
      else Some (dec_value ds, r))"

definition parse_num :: "string \<Rightarrow> (jsval \<times> string) option" where
  "parse_num s =
     (case s of
        [] \<Rightarrow> None
      | c # r \<Rightarrow>
          if c = CHR ''-'' then map_option (\<lambda>(n, r1). (JNum (NInt (- int n)), r1)) (parse_nat r)
          else map_option (\<lambda>(n, r1). (JNum (NInt (int n)), r1)) (parse_nat s))"

text \<open>Literals and numbers.\<close>

definition parse_atom :: "string \<Rightarrow> (jsval \<times> string) option" where
  "parse_atom s =
     (if js_starts_with s ''true'' then Some (JBool True, drop 4 s)
      else if js_starts_with s ''false'' then Some (JBool False, drop 5 s)
      else if js_starts_with s ''null'' then Some (JNull, drop 4 s)
      else parse_num s)"

fun parse_value :: "nat \<Rightarrow> string \<Rightarrow> (jsval \<times> string) option"
  and parse_elems :: "nat \<Rightarrow> string \<Rightarrow> (jsval list \<times> string) option"
  and parse_members :: "nat \<Rightarrow> (string \<times> jsval) list \<Rightarrow> string \<Rightarrow> ((string \<times> jsval) list \<times> string) option" where
  "parse_value 0 s = None"
| "parse_value (Suc n) s =
     (case skip_ws s of
        [] \<Rightarrow> None
      | c # r \<Rightarrow>
          if c = CHR ''{'' then
            (if skip_ws r \<noteq> [] \<and> hd (skip_ws r) = CHR ''}'' then Some (JObj [], tl (skip_ws r))
             else map_option (\<lambda>(kvs, r1). (JObj kvs, r1)) (parse_members n [] r))
          else if c = CHR ''['' then
            (if skip_ws r \<noteq> [] \<and> hd (skip_ws r) = CHR '']'' then Some (JArr [], tl (skip_ws r))
             else map_option (\<lambda>(xs, r1). (JArr xs, r1)) (parse_elems n r))
          else if c = CHR 0x22 then map_option (\<lambda>(x, r1). (JStr x, r1)) (parse_str r)
          else parse_atom (c # r))"
| "parse_elems 0 s = None"
| "parse_elems (Suc n) s =
     (case parse_value n s of
        None \<Rightarrow> None
      | Some (v, r) \<Rightarrow>
          (case skip_ws r of
             [] \<Rightarrow> None
           | c # r1 \<Rightarrow>
               if c = CHR '','' then map_option (\<lambda>(vs, r2). (v # vs, r2)) (parse_elems n r1)
               else if c = CHR '']'' then Some ([v], r1) else None))"
| "parse_members 0 kvs s = None"
| "parse_members (Suc n) kvs s =
     (case skip_ws s of
        [] \<Rightarrow> None
      | q # r \<Rightarrow>
          if q \<noteq> CHR 0x22 then None
          else (case parse_str r of
                  None \<Rightarrow> None
                | Some (k, r1) \<Rightarrow>
                    (case skip_ws r1 of
                       [] \<Rightarrow> None
                     | c # r2 \<Rightarrow>
                         if c \<noteq> CHR '':'' then None
                         else (case parse_value n r2 of
                                 None \<Rightarrow> None
                               | Some (v, r3) \<Rightarrow>
                                   (case skip_ws r3 of
                                      [] \<Rightarrow> None
                                    | d # r4 \<Rightarrow>
                                        if d = CHR '','' then parse_members n (alist_set kvs k v) r4
                                        else if d = CHR ''}'' then Some (alist_set kvs k v, r4) else None)))))"

definition json_parse :: "string \<Rightarrow> jsval option" where
  "json_parse s =
     (case parse_value (2 * length s + 1) s of
        None \<Rightarrow> None
      | Some (v, r) \<Rightarrow> if skip_ws r = [] then Some v else None)"

section \<open>The parser makes progress\<close>

lemma length_skip_ws: "length (skip_ws s) \<le> length s"
  by (simp add: skip_ws_def length_dropWhile_le)

lemma skip_ws_Cons: "skip_ws s = c # r \<Longrightarrow> length r < length s"
  using length_skip_ws [of s] by simp

lemma parse_str_shorter: "parse_str s = Some (x, r) \<Longrightarrow> length r < length s"
proof (induction s arbitrary: x r rule: parse_str.induct)
  case (1 s)
  show ?case
  proof (cases s)
    case Nil
    then show ?thesis using 1(2) by (simp add: parse_str.simps)
  next
    case (Cons c t)
    show ?thesis
    proof (cases "c = CHR 0x22")
      case True
      then show ?thesis using 1(2) Cons by (simp add: parse_str.simps)
    next
      case False
      then obtain y r1 xs where y: "parse_char s = Some (y, r1)" "parse_str r1 = Some (xs, r)"
        using 1(2) Cons by (subst (asm) parse_str.simps) (auto split: option.splits)
      then show ?thesis using 1(1) [OF Cons False y(1) refl y(2)] parse_char_shorter [OF y(1)] by simp
    qed
  qed
qed

lemma parse_nat_shorter: "parse_nat s = Some (n, r) \<Longrightarrow> length r < length s"
proof -
  assume p: "parse_nat s = Some (n, r)"
  then have "takeWhile is_digit s \<noteq> []" "r = dropWhile is_digit s"
    by (auto simp: parse_nat_def Let_def split: if_splits)
  then show ?thesis
    by (metis length_append length_greater_0_conv less_add_same_cancel2 takeWhile_dropWhile_id)
qed

lemma parse_atom_shorter: "parse_atom s = Some (v, r) \<Longrightarrow> length r < length s"
  by (cases s) (auto simp: parse_atom_def parse_num_def js_starts_with_def split: if_splits dest: parse_nat_shorter)

lemma parse_shorter:
  "parse_value n s = Some (v, r) \<Longrightarrow> length r < length s"
  "parse_elems n s = Some (vs, r) \<Longrightarrow> length r < length s"
  "parse_members n kvs s = Some (kws, r) \<Longrightarrow> length r < length s"
proof (induction n arbitrary: s v r vs kvs kws)
  case (Suc n)
  {
    case 1
    obtain c t where c: "skip_ws s = c # t" using 1 by (cases "skip_ws s") auto
    have t: "length t < length s" using skip_ws_Cons [OF c] .
    have w: "length (tl (skip_ws t)) \<le> length t" using length_skip_ws [of t] by simp
    have a: "length r < length s" if "parse_atom (c # t) = Some (v, r)"
      using parse_atom_shorter [OF that] length_skip_ws [of s] c by simp
    show ?case using 1 t w a c Suc(2) [of t] Suc(3) [of "[]" t] parse_str_shorter [of t]
      by (fastforce split: if_splits)
  next
    case 2
    obtain v r1 where v: "parse_value n s = Some (v, r1)" using 2 by (auto split: option.splits)
    obtain c r2 where c: "skip_ws r1 = c # r2" using 2 v by (cases "skip_ws r1") auto
    have "length r2 < length s" using skip_ws_Cons [OF c] Suc(1) [OF v] by simp
    then show ?case using 2 v c Suc(2) [of r2] by (fastforce split: if_splits)
  next
    case 3
    obtain q t where q: "skip_ws s = q # t" using 3 by (cases "skip_ws s") auto
    obtain k r1 where k: "parse_str t = Some (k, r1)" using 3 q by (auto split: if_splits option.splits)
    obtain c r2 where c: "skip_ws r1 = c # r2" using 3 q k by (cases "skip_ws r1") (auto split: if_splits)
    obtain v r3 where v: "parse_value n r2 = Some (v, r3)" using 3 q k c by (auto split: if_splits option.splits)
    obtain d r4 where d: "skip_ws r3 = d # r4" using 3 q k c v by (cases "skip_ws r3") (auto split: if_splits)
    have "length r4 < length s"
      using skip_ws_Cons [OF q] parse_str_shorter [OF k] skip_ws_Cons [OF c] Suc(1) [OF v] skip_ws_Cons [OF d] by simp
    then show ?case using 3 q k c v d Suc(3) [of "alist_set kvs k v" r4] by (fastforce split: if_splits)
  }
qed simp_all

declare parse_value.simps [simp del] parse_elems.simps [simp del] parse_members.simps [simp del]

section \<open>The fuel is enough\<close>

lemma parse_fuel_step:
  "2 * length s + 1 \<le> n \<Longrightarrow> parse_value (Suc n) s = parse_value n s"
  "2 * length s + 2 \<le> n \<Longrightarrow> parse_elems (Suc n) s = parse_elems n s"
  "2 * length s + 2 \<le> n \<Longrightarrow> parse_members (Suc n) kvs s = parse_members n kvs s"
proof (induction n arbitrary: s kvs)
  case (Suc n)
  {
    case 1
    show ?case
    proof (cases "skip_ws s")
      case (Cons c t)
      then have "2 * length t + 2 \<le> n" using 1 skip_ws_Cons [OF Cons] by simp
      then have "parse_elems (Suc n) t = parse_elems n t" "parse_members (Suc n) [] t = parse_members n [] t"
        using Suc(2,3) by blast+
      then show ?thesis unfolding parse_value.simps(2) Cons by simp
    qed (simp add: parse_value.simps)
  next
    case 2
    have v: "parse_value (Suc n) s = parse_value n s" using Suc(1) 2 by simp
    have "parse_elems (Suc n) r1 = parse_elems n r1" if "parse_value n s = Some (v, r)" "skip_ws r = c # r1" for v r c r1
      using Suc(2) [of r1] 2 parse_shorter(1) [OF that(1)] skip_ws_Cons [OF that(2)] by simp
    then show ?case unfolding parse_elems.simps(2) [of "Suc n" s] parse_elems.simps(2) [of n s] v by (auto split: option.splits list.splits)
  next
    case 3
    show ?case
    proof (cases "skip_ws s")
      case (Cons q t)
      have t: "length t < length s" using skip_ws_Cons [OF Cons] .
      have v: "parse_value (Suc n) r2 = parse_value n r2" if "parse_str t = Some (k, r1)" "skip_ws r1 = c # r2" for k r1 c r2
        using Suc(1) [of r2] 3 t parse_str_shorter [OF that(1)] skip_ws_Cons [OF that(2)] by simp
      have m: "parse_members (Suc n) kws r4 = parse_members n kws r4"
        if "parse_str t = Some (k, r1)" "skip_ws r1 = c # r2" "parse_value n r2 = Some (v, r3)" "skip_ws r3 = d # r4"
        for k r1 c r2 v r3 d r4 kws
        using Suc(3) [of r4 kws] 3 t parse_str_shorter [OF that(1)] skip_ws_Cons [OF that(2)]
          parse_shorter(1) [OF that(3)] skip_ws_Cons [OF that(4)] by simp
      show ?thesis unfolding parse_members.simps(2) [of "Suc n" kvs s] parse_members.simps(2) [of n kvs s] Cons
        using v m by (auto split: option.splits list.splits)
    qed (simp add: parse_members.simps)
  }
qed simp_all

lemma parse_fuel_enough: "2 * length s + 1 \<le> n \<Longrightarrow> parse_value n s = parse_value (2 * length s + 1) s"
proof (induction n)
  case (Suc n)
  then show ?case
    using parse_fuel_step(1) [of s n] by (cases "2 * length s + 1 \<le> n") (auto simp: le_Suc_eq)
qed simp

section \<open>Reading back what was printed\<close>

text \<open>The values of JSON texts: no \<^verbatim>\<open>undefined\<close>, finite numbers, every key once.\<close>

primrec json_ok :: "jsval \<Rightarrow> bool" where
  "json_ok JUndef = False"
| "json_ok JNull = True"
| "json_ok (JBool b) = True"
| "json_ok (JNum n) = (\<exists>i. n = NInt i)"
| "json_ok (JStr s) = True"
| "json_ok (JArr xs) = (\<forall>b\<in>set (map json_ok xs). b)"
| "json_ok (JObj kvs) = (distinct (map fst kvs) \<and> (\<forall>kb\<in>set (map (map_prod id json_ok) kvs). snd kb))"

lemma json_ok_JArr [simp]: "json_ok (JArr xs) \<longleftrightarrow> (\<forall>x\<in>set xs. json_ok x)"
  by auto

lemma json_ok_JObj [simp]: "json_ok (JObj kvs) \<longleftrightarrow> distinct (map fst kvs) \<and> (\<forall>kv\<in>set kvs. json_ok (snd kv))"
  by auto

declare json_ok.simps(6,7) [simp del]

lemma hex_val_digit: "d < 16 \<Longrightarrow> hex_val (hex_digit d) = d \<and> is_hex (hex_digit d)"
  by (auto simp: hex_val_def hex_digit_def is_hex_def Let_def)

lemma parse_char_escape: "parse_char (json_escape c @ r) = Some (c, r)"
proof -
  define n where "n = (of_char c :: nat)"
  have c: "c = char_of n" by (simp add: n_def)
  consider "n = 34" | "n = 92" | "n = 8" | "n = 9" | "n = 10" | "n = 12" | "n = 13"
    | "n < 32" "n \<noteq> 8" "n \<noteq> 9" "n \<noteq> 10" "n \<noteq> 12" "n \<noteq> 13"
    | "\<not> n < 32" "n \<noteq> 34" "n \<noteq> 92" by linarith
  then show ?thesis
  proof cases
    case 8
    then have e: "json_escape c = CHR 0x5C # ''u00'' @ [hex_digit (n div 16), hex_digit (n mod 16)]"
      by (simp add: json_escape_def n_def Let_def)
    have "hex_val (hex_digit (n div 16)) = n div 16" "hex_val (hex_digit (n mod 16)) = n mod 16"
      "is_hex (hex_digit (n div 16))" "is_hex (hex_digit (n mod 16))"
      using hex_val_digit [of "n div 16"] hex_val_digit [of "n mod 16"] 8(1) by simp_all
    moreover have "is_hex CHR ''0''" "hex_val CHR ''0'' = 0" by (simp_all add: is_hex_def hex_val_def)
    moreover have "16 * (n div 16) + n mod 16 = n" by simp
    ultimately show ?thesis by (simp add: parse_char_def e) (simp add: c)
  next
    case 9
    then have "json_escape c = [c]" "c \<noteq> CHR 0x5C" by (auto simp: json_escape_def n_def Let_def)
    then show ?thesis using 9 by (simp add: parse_char_def n_def)
  qed (simp_all add: json_escape_def parse_char_def simple_escape_def n_def [symmetric] c Let_def char_of_quote char_of_backslash)
qed

lemma parse_str_quoted: "parse_str (concat (map json_escape s) @ CHR 0x22 # r) = Some (s, r)"
proof (induction s)
  case Nil
  then show ?case by (simp add: parse_str.simps)
next
  case (Cons c s)
  obtain d t where e: "json_escape c = d # t" by (cases "json_escape c") auto
  have "d \<noteq> CHR 0x22" using json_escape_hd [of c "[]"] e by simp
  then show ?case
    using Cons.IH parse_char_escape [of c "concat (map json_escape s) @ CHR 0x22 # r"] e
    by (subst parse_str.simps) simp
qed

lemma dec_value_snoc: "dec_value (ds @ [c]) = 10 * dec_value ds + ((of_char c :: nat) - 48)"
  by (simp add: dec_value_def)

lemma dec_value_nat_dec: "dec_value (nat_dec n) = n"
proof (induction n rule: nat_dec.induct)
  case (1 n)
  show ?case
  proof (cases "n < 10")
    case True
    then show ?thesis by (subst nat_dec.simps) (simp add: dec_value_def of_char_dec_digit)
  next
    case False
    then have "dec_value (nat_dec n) = 10 * dec_value (nat_dec (n div 10)) + n mod 10"
      by (subst nat_dec.simps) (simp add: dec_value_snoc of_char_dec_digit)
    then show ?thesis using 1 False by simp
  qed
qed

lemma nat_dec_nonempty [simp]: "nat_dec n \<noteq> []"
  by (subst nat_dec.simps) simp

lemma nat_dec_no_zero: "10 \<le> n \<Longrightarrow> hd (nat_dec n) \<noteq> CHR ''0''"
proof (induction n rule: nat_dec.induct)
  case (1 n)
  have h: "hd (nat_dec n) = hd (nat_dec (n div 10))" using 1(2) by (subst nat_dec.simps) simp
  show ?case
  proof (cases "n div 10 < 10")
    case True
    have "dec_digit (n div 10) \<noteq> dec_digit 0" using dec_digit_inj [of "n div 10" 0] True 1(2) by auto
    moreover have "dec_digit 0 = CHR ''0''" by (simp add: dec_digit_def char_of_nat_eqI)
    moreover have "nat_dec (n div 10) = [dec_digit (n div 10)]" using True by (subst nat_dec.simps) simp
    ultimately show ?thesis using h by simp
  next
    case False
    then show ?thesis using 1 h by simp
  qed
qed

lemma parse_nat_dec: "follows r \<Longrightarrow> parse_nat (nat_dec n @ r) = Some (n, r)"
proof -
  assume r: "follows r"
  have tw: "takeWhile is_digit (nat_dec n @ r) = nat_dec n" "dropWhile is_digit (nat_dec n @ r) = r"
    using nat_dec_digits [of n] follows_not_digit [OF r] by (cases r; auto simp: takeWhile_append dropWhile_append)+
  have z: "\<not> (hd (nat_dec n) = CHR ''0'' \<and> tl (nat_dec n) \<noteq> [])"
  proof (cases "n < 10")
    case True
    then show ?thesis by (subst (2) nat_dec.simps) simp
  next
    case False
    then show ?thesis using nat_dec_no_zero [of n] by simp
  qed
  have "\<not> (r \<noteq> [] \<and> hd r \<in> {CHR ''.'', CHR ''e'', CHR ''E''})"
    using r by (auto simp: follows_def split: list.splits)
  then show ?thesis using z unfolding parse_nat_def Let_def tw by (simp add: dec_value_nat_dec)
qed

lemma parse_num_dec: "follows r \<Longrightarrow> parse_num (int_dec i @ r) = Some (JNum (NInt i), r)"
proof (cases "i < 0")
  case True
  assume "follows r"
  then show ?thesis using True by (simp add: parse_num_def int_dec_def parse_nat_dec)
next
  case False
  assume r: "follows r"
  obtain c t where c: "nat_dec (nat i) = c # t" by (cases "nat_dec (nat i)") auto
  have "is_digit c" using nat_dec_digits [of "nat i"] c by simp
  then have "c \<noteq> CHR ''-''" by auto
  then show ?thesis using False parse_nat_dec [OF r, of "nat i"] by (simp add: parse_num_def int_dec_def c)
qed

lemma skip_ws_id [simp]: "\<not> json_ws c \<Longrightarrow> skip_ws (c # s) = c # s"
  by (simp add: skip_ws_def)

lemma json_ws_punct [simp]:
  "\<not> json_ws CHR '',''" "\<not> json_ws CHR '']''" "\<not> json_ws CHR ''}''" "\<not> json_ws CHR ''[''" "\<not> json_ws CHR ''{''"
  "\<not> json_ws CHR '':''" "\<not> json_ws CHR 0x22" "\<not> json_ws CHR ''t''" "\<not> json_ws CHR ''f''" "\<not> json_ws CHR ''n''"
  "\<not> json_ws CHR ''-''"
  by (simp_all add: json_ws_def)

lemma json_ws_digit: "is_digit c \<Longrightarrow> \<not> json_ws c"
  by (auto simp: json_ws_def is_digit_def)

lemma print_json_first: "\<exists>c t. print_json v = c # t \<and> c \<notin> {CHR '']'', CHR ''}''} \<and> \<not> json_ws c"
proof (cases v)
  case (JNum n)
  show ?thesis
  proof (cases n)
    case (NInt i)
    obtain c t where "int_dec i = c # t" "is_digit c \<or> c = CHR ''-''" using int_dec_hd [of i] by blast
    then show ?thesis using JNum NInt json_ws_digit by (auto simp: is_digit_def)
  qed (simp_all add: JNum)
qed (auto simp: json_quote_def)

lemma parse_atom_scalars:
  "parse_atom (''true'' @ r) = Some (JBool True, r)"
  "parse_atom (''false'' @ r) = Some (JBool False, r)"
  "parse_atom (''null'' @ r) = Some (JNull, r)"
  "follows r \<Longrightarrow> parse_atom (int_dec i @ r) = Some (JNum (NInt i), r)"
proof -
  assume r: "follows r"
  obtain c t where c: "int_dec i = c # t" "is_digit c \<or> c = CHR ''-''" using int_dec_hd [of i] by blast
  then have "c \<notin> {CHR ''t'', CHR ''f'', CHR ''n''}" by (auto simp: is_digit_def)
  then show "parse_atom (int_dec i @ r) = Some (JNum (NInt i), r)"
    using parse_num_dec [OF r, of i] by (auto simp: parse_atom_def c js_starts_with_def)
qed (simp_all add: parse_atom_def js_starts_with_def)

lemma parse_elems_print:
  assumes "\<forall>x\<in>set xs. \<forall>r n. follows r \<longrightarrow> 2 * length (print_json x) \<le> n \<longrightarrow> parse_value n (print_json x @ r) = Some (x, r)"
    and "xs \<noteq> []" and "2 * length (js_join '','' (map print_json xs)) + 1 \<le> m"
  shows "parse_elems m (js_join '','' (map print_json xs) @ CHR '']'' # r) = Some (xs, r)"
  using assms
proof (induction xs arbitrary: m)
  case (Cons x xs)
  obtain m' where m: "m = Suc m'" using Cons.prems(3) by (cases m) auto
  show ?case
  proof (cases xs)
    case Nil
    then have "parse_value m' (print_json x @ CHR '']'' # r) = Some (x, CHR '']'' # r)"
      using Cons.prems m by (simp add: follows_def)
    then show ?thesis using Nil by (simp add: m parse_elems.simps)
  next
    case (Cons y ys)
    let ?j = "js_join '','' (map print_json xs)"
    have j: "js_join '','' (map print_json (x # xs)) = print_json x @ CHR '','' # ?j" by (simp add: Cons)
    have "parse_value m' (print_json x @ CHR '','' # ?j @ CHR '']'' # r) = Some (x, CHR '','' # ?j @ CHR '']'' # r)"
      using Cons.prems m j by (simp add: follows_def)
    moreover have "parse_elems m' (?j @ CHR '']'' # r) = Some (xs, r)"
      by (rule Cons.IH) (use Cons.prems m j Cons in auto)
    ultimately show ?thesis unfolding j m by (simp add: parse_elems.simps)
  qed
qed simp

definition print_pair :: "string \<times> jsval \<Rightarrow> string" where
  "print_pair kv = json_quote (fst kv) @ '':'' @ print_json (snd kv)"

lemma alist_set_fresh: "k \<notin> fst ` set kvs \<Longrightarrow> alist_set kvs k v = kvs @ [(k, v)]"
  by (induction kvs) auto

lemma parse_member_print:
  assumes "parse_value m (print_json (snd kv) @ d # r) = Some (snd kv, d # r)" and "\<not> json_ws d"
  shows "parse_members (Suc m) kvs (print_pair kv @ d # r) =
    (if d = CHR '','' then parse_members m (alist_set kvs (fst kv) (snd kv)) r
     else if d = CHR ''}'' then Some (alist_set kvs (fst kv) (snd kv), r) else None)"
  using assms by (simp add: parse_members.simps print_pair_def json_quote_def parse_str_quoted)

lemma parse_members_print:
  assumes "\<forall>kv\<in>set kvs. \<forall>r n. follows r \<longrightarrow> 2 * length (print_json (snd kv)) \<le> n \<longrightarrow>
      parse_value n (print_json (snd kv) @ r) = Some (snd kv, r)"
    and "kvs \<noteq> []" and "2 * length (js_join '','' (map print_pair kvs)) + 1 \<le> m"
    and "distinct (map fst (kws @ kvs))"
  shows "parse_members m kws (js_join '','' (map print_pair kvs) @ CHR ''}'' # r) = Some (kws @ kvs, r)"
  using assms
proof (induction kvs arbitrary: m kws)
  case (Cons kv kvs)
  obtain m' where m: "m = Suc m'" using Cons.prems(3) by (cases m) auto
  have fresh: "alist_set kws (fst kv) (snd kv) = kws @ [kv]"
    using Cons.prems(4) by (auto intro!: trans [OF alist_set_fresh])
  have len: "length (print_json (snd kv)) \<le> length (print_pair kv)" by (simp add: print_pair_def)
  show ?case
  proof (cases kvs)
    case Nil
    then have "parse_value m' (print_json (snd kv) @ CHR ''}'' # r) = Some (snd kv, CHR ''}'' # r)"
      using Cons.prems(1,3) len m by (simp add: follows_def)
    from parse_member_print [OF this] show ?thesis using Nil fresh by (simp add: m)
  next
    case (Cons kv' kvs')
    let ?j = "js_join '','' (map print_pair kvs)"
    have j: "js_join '','' (map print_pair (kv # kvs)) = print_pair kv @ CHR '','' # ?j" by (simp add: Cons)
    have "parse_value m' (print_json (snd kv) @ CHR '','' # ?j @ CHR ''}'' # r) = Some (snd kv, CHR '','' # ?j @ CHR ''}'' # r)"
      using Cons.prems(1,3) m j len by (simp add: follows_def)
    note step = parse_member_print [OF this, of kws]
    have "parse_members m' (kws @ [kv]) (?j @ CHR ''}'' # r) = Some ((kws @ [kv]) @ kvs, r)"
      by (rule Cons.IH) (use Cons.prems m j Cons in auto)
    with step show ?thesis unfolding j m using fresh by simp
  qed
qed simp

lemma parse_value_object:
  assumes "parse_members n [] (s @ CHR ''}'' # r) = Some (kvs, r)" and "\<exists>t. s = CHR 0x22 # t"
  shows "parse_value (Suc n) (CHR ''{'' # s @ CHR ''}'' # r) = Some (JObj kvs, r)"
  using assms by (auto simp: parse_value.simps)

lemma parse_value_array:
  assumes "parse_elems n (s @ CHR '']'' # r) = Some (vs, r)" and "\<exists>c t. s = c # t \<and> c \<noteq> CHR '']'' \<and> \<not> json_ws c"
  shows "parse_value (Suc n) (CHR ''['' # s @ CHR '']'' # r) = Some (JArr vs, r)"
  using assms by (auto simp: parse_value.simps)

lemma parse_value_atom:
  assumes "parse_atom (c # s) = x" and "\<not> json_ws c" and "c \<notin> {CHR ''{'', CHR ''['', CHR 0x22}"
  shows "parse_value (Suc n) (c # s) = x"
  using assms by (simp add: parse_value.simps)

lemma join_print_first:
  assumes "xs \<noteq> []"
  shows "\<exists>c t. js_join '','' (map print_json xs) = c # t \<and> c \<noteq> CHR '']'' \<and> \<not> json_ws c"
proof -
  obtain x ys where "xs = x # ys" using assms by (cases xs) auto
  then show ?thesis using print_json_first [of x] by (auto simp: js_join_Cons)
qed

lemma join_pair_first: "kvs \<noteq> [] \<Longrightarrow> \<exists>t. js_join '','' (map print_pair kvs) = CHR 0x22 # t"
  by (cases kvs) (auto simp: js_join_Cons print_pair_def json_quote_def)

lemma parse_print:
  "json_ok v \<Longrightarrow> follows r \<Longrightarrow> 2 * length (print_json v) \<le> n \<Longrightarrow> parse_value n (print_json v @ r) = Some (v, r)"
proof (induction v arbitrary: r n)
  case (JNum i)
  obtain k where k: "i = NInt k" using JNum by auto
  obtain c t where c: "int_dec k = c # t" "is_digit c \<or> c = CHR ''-''" using int_dec_hd [of k] by blast
  obtain n' where n: "n = Suc n'" using JNum(3) k c by (cases n) auto
  have "parse_atom (c # t @ r) = Some (JNum (NInt k), r)" using parse_atom_scalars(4) [OF JNum(2), of k] c by simp
  then show ?case using c json_ws_digit unfolding n k
    by (auto simp: is_digit_def intro!: parse_value_atom)
next
  case (JArr xs)
  obtain n' where n: "n = Suc n'" using JArr(4) by (cases n) auto
  show ?case
  proof (cases "xs = []")
    case True
    then show ?thesis by (simp add: n parse_value.simps)
  next
    case False
    have "parse_elems n' (js_join '','' (map print_json xs) @ CHR '']'' # r) = Some (xs, r)"
      by (rule parse_elems_print) (use JArr False n in auto)
    from parse_value_array [OF this join_print_first [OF False]] show ?thesis by (simp add: n)
  qed
next
  case (JObj kvs)
  obtain n' where n: "n = Suc n'" using JObj(4) by (cases n) auto
  have p: "print_json (JObj kvs) = CHR ''{'' # js_join '','' (map print_pair kvs) @ ''}''"
    unfolding print_json_JObj print_pair_def [abs_def] by simp
  show ?case
  proof (cases "kvs = []")
    case True
    then show ?thesis by (simp add: n parse_value.simps)
  next
    case False
    have "parse_members n' [] (js_join '','' (map print_pair kvs) @ CHR ''}'' # r) = Some ([] @ kvs, r)"
    proof (rule parse_members_print [OF _ False])
      show "\<forall>kv\<in>set kvs. \<forall>r n. follows r \<longrightarrow> 2 * length (print_json (snd kv)) \<le> n \<longrightarrow>
          parse_value n (print_json (snd kv) @ r) = Some (snd kv, r)"
        using JObj(1) [OF _ snd_in_snds] JObj(2) by simp
      show "2 * length (js_join '','' (map print_pair kvs)) + 1 \<le> n'" using JObj(4) n unfolding p by simp
      show "distinct (map fst ([] @ kvs))" using JObj(2) by simp
    qed
    from parse_value_object [OF this join_pair_first [OF False]] show ?thesis unfolding n p by simp
  qed
next
  case (JBool b)
  obtain n' where n: "n = Suc n'" using JBool(3) by (cases n) (auto split: if_splits)
  show ?case using parse_atom_scalars(1,2) [of r] unfolding n by (cases b) (auto intro!: parse_value_atom)
next
  case JNull
  obtain n' where n: "n = Suc n'" using JNull(3) by (cases n) auto
  show ?case using parse_atom_scalars(3) [of r] unfolding n by (auto intro!: parse_value_atom)
next
  case (JStr s)
  obtain n' where n: "n = Suc n'" using JStr(3) by (cases n) (auto simp: json_quote_def)
  show ?case unfolding n by (simp add: parse_value.simps json_quote_def parse_str_quoted)
qed simp

lemma json_parse_print: "json_ok v \<Longrightarrow> json_parse (print_json v) = Some v"
  using parse_print [of v "[]" "2 * length (print_json v) + 1"]
  by (simp add: json_parse_def follows_def skip_ws_def)

text \<open>Objects of the program: every object at every depth has each key once.\<close>

primrec keys_once :: "jsval \<Rightarrow> bool" where
  "keys_once JUndef = True"
| "keys_once JNull = True"
| "keys_once (JBool b) = True"
| "keys_once (JNum n) = True"
| "keys_once (JStr s) = True"
| "keys_once (JArr xs) = (\<forall>b\<in>set (map keys_once xs). b)"
| "keys_once (JObj kvs) = (distinct (map fst kvs) \<and> (\<forall>kb\<in>set (map (map_prod id keys_once) kvs). snd kb))"

lemma distinct_map_fst_filter: "distinct (map fst kvs) \<Longrightarrow> distinct (map fst (filter P kvs))"
  by (induction kvs) auto

lemma json_ok_clone: "keys_once v \<Longrightarrow> json_ok (json_clone v)"
proof (induction v)
  case (JNum n)
  then show ?case by (cases n) auto
next
  case (JObj kvs)
  have "\<forall>kv\<in>set kvs. json_ok (json_clone (snd kv))"
    using JObj.IH [OF _ snd_in_snds] JObj.prems by auto
  then show ?case using JObj.prems by (simp add: comp_def distinct_map_fst_filter)
qed auto

lemma clone_ok: "json_ok v \<Longrightarrow> json_clone v = v"
proof (induction v)
  case (JObj kvs)
  have "json_clone (snd kv) = snd kv \<and> snd kv \<noteq> JUndef" if "kv \<in> set kvs" for kv
    using JObj.IH [OF that snd_in_snds] JObj.prems that by (cases "snd kv") auto
  then have "filter (\<lambda>kv. snd kv \<noteq> JUndef) kvs = kvs" "map (\<lambda>kv. (fst kv, json_clone (snd kv))) kvs = kvs"
    by (auto simp: filter_id_conv intro!: map_idI)
  then show ?case by simp
qed (auto simp: map_idI)

lemma json_parse_stringify: "keys_once v \<Longrightarrow> json_parse (json_stringify v) = Some (json_clone v)"
  by (simp add: json_stringify_def json_parse_print json_ok_clone)

section \<open>Properties\<close>

text \<open>
  Round trip of the JSON columns: parsing what \<^verbatim>\<open>JSON.stringify\<close> printed gives the value back,
  with the properties that are \<^verbatim>\<open>undefined\<close> dropped and the numbers that are not finite
  replaced by \<^verbatim>\<open>null\<close>; a value of JSON comes back unchanged, and any amount of fuel from twice
  the length of the text on gives the same parse.
\<close>

theorem json_text_round_trip:
  assumes "keys_once v"
  shows "json_parse (json_stringify v) = Some (json_clone v) \<and>
    (json_ok v \<longrightarrow> json_parse (json_stringify v) = Some v) \<and>
    (\<forall>n s. 2 * length s + 1 \<le> n \<longrightarrow> parse_value n s = parse_value (2 * length s + 1) s)"
proof (intro conjI impI allI)
  show "json_parse (json_stringify v) = Some (json_clone v)" using assms by (rule json_parse_stringify)
  then show "json_parse (json_stringify v) = Some v" if "json_ok v" using that by (simp add: clone_ok)
  show "parse_value n s = parse_value (2 * length s + 1) s" if "2 * length s + 1 \<le> n" for n s
    using that by (rule parse_fuel_enough)
qed

theorem json_text_round_trip_witness:
  "json_parse (json_stringify (JObj [(''a'', JArr [JNum (NInt (- 12)), JUndef]), (''b'', JUndef), (''c'', JStr [CHR 0x22, CHR 0x0A])]))
     = Some (JObj [(''a'', JArr [JNum (NInt (- 12)), JNull]), (''c'', JStr [CHR 0x22, CHR 0x0A])])"
  using json_text_round_trip [THEN conjunct1,
      of "JObj [(''a'', JArr [JNum (NInt (- 12)), JUndef]), (''b'', JUndef), (''c'', JStr [CHR 0x22, CHR 0x0A])]"]
  by simp

end
