(* ===== verification/Predicate_Registry.thy ===== *)
theory Predicate_Registry
  imports Json_Text
begin

text \<open>
  \<^verbatim>\<open>src/lib/predicate-registry.ts\<close>: resolution of a predicate set from the registry and the
  purity gate in front of predicate loading.

  A row is the object the database returns. A table is the list of its rows in the order the
  engine visits them; a query is a filter of it, a stable sort by the columns of \<^verbatim>\<open>ORDER BY\<close>
  and, for \<^verbatim>\<open>LIMIT 1\<close>, the first row.
\<close>

section \<open>Queries\<close>

definition sql_eq :: "string \<Rightarrow> string \<Rightarrow> jsval \<Rightarrow> bool" where
  "sql_eq col x row \<longleftrightarrow> js_get row col = JStr x"

definition sql_text :: "jsval \<Rightarrow> string \<Rightarrow> string" where
  "sql_text row col = (case js_get row col of JStr s \<Rightarrow> s | _ \<Rightarrow> [])"

definition sql_order :: "string list \<Rightarrow> jsval \<Rightarrow> jsval \<Rightarrow> bool" where
  "sql_order cols a b \<longleftrightarrow> map (sql_text a) cols \<le> map (sql_text b) cols"

interpretation sql_rows: comparator "sql_order cols"
  by unfold_locales (auto simp: sql_order_def)

section \<open>Reading columns\<close>

definition nonEmptyText :: "jsval \<Rightarrow> string option" where
  "nonEmptyText v =
     (case v of JStr s \<Rightarrow> (let trimmed = js_trim s in if length trimmed > 0 then Some trimmed else None) | _ \<Rightarrow> None)"

text \<open>All of the values, or none.\<close>

fun all_some :: "'a option list \<Rightarrow> 'a list option" where
  "all_some [] = Some []"
| "all_some (None # xs) = None"
| "all_some (Some x # xs) = map_option (Cons x) (all_some xs)"

definition parsePredicateIds :: "jsval \<Rightarrow> string list option" where
  "parsePredicateIds v =
     (case nonEmptyText v of
        None \<Rightarrow> None
      | Some raw \<Rightarrow>
          (case json_parse raw of
             Some (JArr xs) \<Rightarrow> all_some (map nonEmptyText xs)
           | _ \<Rightarrow> None))"

definition parseSideEffectsAllowed :: "jsval \<Rightarrow> jsval" where
  "parseSideEffectsAllowed v =
     (case v of
        JStr s \<Rightarrow>
          (let trimmed = js_trim s in
           if trimmed \<noteq> ''false'' \<and> trimmed \<noteq> ''true'' then v
           else (case json_parse trimmed of Some (JBool b) \<Rightarrow> JBool b | _ \<Rightarrow> v))
      | _ \<Rightarrow> v)"

section \<open>The purity gate\<close>

record PredicateDefinition =
  pd_predicate_set_id :: string
  pd_predicate_hash :: string
  pd_lineage_version :: string
  pd_predicate_ids :: "string list"
  pd_side_effects_allowed :: jsval

datatype PredicatePurityViolation = PREDICATE_PURITY_VIOLATION

definition validatePredicateDefinitionPurity ::
  "PredicateDefinition option \<Rightarrow> (PredicateDefinition \<Rightarrow> 'a) \<Rightarrow> PredicatePurityViolation + 'a" where
  "validatePredicateDefinitionPurity predicate_definition continueValidation =
     (case predicate_definition of
        None \<Rightarrow> Inl PREDICATE_PURITY_VIOLATION
      | Some p \<Rightarrow>
          if pd_side_effects_allowed p \<noteq> JBool False then Inl PREDICATE_PURITY_VIOLATION
          else Inr (continueValidation (p\<lparr>pd_side_effects_allowed := JBool False\<rparr>)))"

section \<open>Resolution\<close>

definition resolvePredicateDefinition :: "jsval \<Rightarrow> jsval list \<Rightarrow> PredicateDefinition option" where
  "resolvePredicateDefinition predicate_set_id predicate_registry =
     (case nonEmptyText predicate_set_id of
        None \<Rightarrow> None
      | Some requested \<Rightarrow>
          (case js_sort (sql_order [''created_at'', ''predicate_hash'', ''lineage_version''])
                  (filter (\<lambda>row. sql_eq ''predicate_set_id'' requested row \<and> sql_eq ''status'' ''ACTIVE'' row)
                     predicate_registry) of
             [row] \<Rightarrow>
               (if nonEmptyText (js_get row ''status'') \<noteq> Some ''ACTIVE'' then None
                else if nonEmptyText (js_get row ''predicate_set_id'') \<noteq> Some requested then None
                else
                  (case (nonEmptyText (js_get row ''predicate_hash''), nonEmptyText (js_get row ''lineage_version''),
                         parsePredicateIds (js_get row ''predicate_ids'')) of
                     (Some h, Some l, Some ids) \<Rightarrow>
                       Some \<lparr>pd_predicate_set_id = requested, pd_predicate_hash = h, pd_lineage_version = l,
                             pd_predicate_ids = ids,
                             pd_side_effects_allowed = parseSideEffectsAllowed (js_get row ''side_effects_allowed'')\<rparr>
                   | _ \<Rightarrow> None))
           | _ \<Rightarrow> None))"

section \<open>Facts\<close>

lemma nonEmptyText_Some: "nonEmptyText v = Some t \<longleftrightarrow> (\<exists>s. v = JStr s \<and> t = js_trim s \<and> nonblank s)"
  by (auto simp: nonEmptyText_def nonblank_def Let_def split: jsval.splits)

lemma all_some_iff: "all_some xs = Some ys \<longleftrightarrow> xs = map Some ys"
  by (induction xs arbitrary: ys rule: all_some.induct) (auto simp: Cons_eq_map_conv)

lemma js_sort_single: "js_sort le xs = [x] \<longleftrightarrow> xs = [x]"
proof
  assume s: "js_sort le xs = [x]"
  then have "length xs = 1" by (metis One_nat_def length_Cons length_js_sort list.size(3))
  then obtain y where "xs = [y]" by (metis One_nat_def length_0_conv length_Suc_conv)
  with s show "xs = [x]" by simp
qed simp

lemma case_single:
  "(case js_sort le xs of [x] \<Rightarrow> f x | _ \<Rightarrow> None) = (case xs of [x] \<Rightarrow> f x | _ \<Rightarrow> None)"
proof (cases "\<exists>x. xs = [x]")
  case False
  then have "\<not> (\<exists>x. js_sort le xs = [x])" by (simp add: js_sort_single)
  with False show ?thesis by (auto split: list.splits)
qed auto

lemma js_trim_idem [simp]: "js_trim (js_trim s) = js_trim s"
proof (cases "js_trim s")
  case (Cons c u)
  let ?t = "dropWhile js_ws s"
  have r: "rev (js_trim s) = dropWhile js_ws (rev ?t)" by (simp add: js_trim_def)
  then obtain w where "rev ?t = w @ rev (js_trim s)" by (metis takeWhile_dropWhile_id)
  then have "?t = js_trim s @ rev w" by (metis rev_append rev_rev_ident)
  then have "hd ?t = c" "?t \<noteq> []" using Cons by simp_all
  then have "\<not> js_ws c" by (metis hd_dropWhile)
  then have "dropWhile js_ws (js_trim s) = js_trim s" using Cons by simp
  moreover have "dropWhile js_ws (rev (js_trim s)) = rev (js_trim s)" unfolding r by (rule dropWhile_idem)
  ultimately show ?thesis by (simp add: js_trim_def [of "js_trim s"])
qed (simp add: js_trim_def [of "[]"])

lemma nonEmptyText_trimmed: "nonEmptyText i = Some t \<Longrightarrow> nonEmptyText (JStr t) = Some t"
  by (auto simp: nonEmptyText_Some nonblank_def)

section \<open>Properties\<close>

text \<open>
  Resolution of a predicate set, exactly: a definition is returned if and only if the id is a
  text that is not blank, exactly one ACTIVE row of the registry has the trimmed id, and that row
  has a hash, a lineage version and a list of ids that parses to texts; the definition carries
  the trimmed columns. Several active rows give nothing, however they are ordered.
\<close>

theorem resolvePredicateDefinition_iff:
  "resolvePredicateDefinition i table = Some p \<longleftrightarrow>
    (\<exists>requested row.
       nonEmptyText i = Some requested \<and>
       filter (\<lambda>row. sql_eq ''predicate_set_id'' requested row \<and> sql_eq ''status'' ''ACTIVE'' row) table = [row] \<and>
       pd_predicate_set_id p = requested \<and>
       nonEmptyText (js_get row ''predicate_hash'') = Some (pd_predicate_hash p) \<and>
       nonEmptyText (js_get row ''lineage_version'') = Some (pd_lineage_version p) \<and>
       parsePredicateIds (js_get row ''predicate_ids'') = Some (pd_predicate_ids p) \<and>
       pd_side_effects_allowed p = parseSideEffectsAllowed (js_get row ''side_effects_allowed''))"
proof (cases "nonEmptyText i")
  case (Some requested)
  let ?F = "filter (\<lambda>row. sql_eq ''predicate_set_id'' requested row \<and> sql_eq ''status'' ''ACTIVE'' row) table"
  show ?thesis
  proof (cases "\<exists>row. ?F = [row]")
    case True
    then obtain row where F: "?F = [row]" by blast
    then have "row \<in> set ?F" by simp
    then have "js_get row ''status'' = JStr ''ACTIVE''" "js_get row ''predicate_set_id'' = JStr requested"
      by (simp_all add: sql_eq_def)
    then have c: "nonEmptyText (js_get row ''status'') = Some ''ACTIVE''"
      "nonEmptyText (js_get row ''predicate_set_id'') = Some requested"
      using nonEmptyText_trimmed [OF Some] by (simp_all add: nonEmptyText_def js_trim_def js_ws_def)
    show ?thesis
      by (cases p) (auto simp: resolvePredicateDefinition_def Some case_single F c split: option.splits)
  next
    case False
    then show ?thesis by (auto simp: resolvePredicateDefinition_def Some case_single split: list.splits)
  qed
qed (simp add: resolvePredicateDefinition_def)

text \<open>
  The purity gate is passed exactly by a definition that says \<^verbatim>\<open>side_effects_allowed: false\<close>; every
  other definition, and none, is refused without the continuation being run. A resolved
  definition passes it if and only if its column is the text \<^verbatim>\<open>false\<close> (up to white space) or the
  boolean.
\<close>

theorem purity_gate_iff:
  "(validatePredicateDefinitionPurity d k = Inr x \<longleftrightarrow>
     (\<exists>p. d = Some p \<and> pd_side_effects_allowed p = JBool False \<and> x = k p)) \<and>
   (validatePredicateDefinitionPurity d k = Inl PREDICATE_PURITY_VIOLATION \<longleftrightarrow>
     \<not> (\<exists>p. d = Some p \<and> pd_side_effects_allowed p = JBool False)) \<and>
   (parseSideEffectsAllowed v = JBool False \<longleftrightarrow> v = JBool False \<or> (\<exists>s. v = JStr s \<and> js_trim s = ''false''))"
proof (intro conjI)
  have upd: "p\<lparr>pd_side_effects_allowed := JBool False\<rparr> = p" if "pd_side_effects_allowed p = JBool False"
    for p :: PredicateDefinition using that by (cases p) simp
  show "validatePredicateDefinitionPurity d k = Inr x \<longleftrightarrow>
     (\<exists>p. d = Some p \<and> pd_side_effects_allowed p = JBool False \<and> x = k p)"
    by (cases d) (auto simp: validatePredicateDefinitionPurity_def upd)
  show "validatePredicateDefinitionPurity d k = Inl PREDICATE_PURITY_VIOLATION \<longleftrightarrow>
     \<not> (\<exists>p. d = Some p \<and> pd_side_effects_allowed p = JBool False)"
    by (cases d) (auto simp: validatePredicateDefinitionPurity_def)
  have "json_parse ''false'' = Some (JBool False)" "json_parse ''true'' = Some (JBool True)"
    using json_parse_print [of "JBool False"] json_parse_print [of "JBool True"] by simp_all
  then show "parseSideEffectsAllowed v = JBool False \<longleftrightarrow> v = JBool False \<or> (\<exists>s. v = JStr s \<and> js_trim s = ''false'')"
    by (cases v) (auto simp: parseSideEffectsAllowed_def Let_def split: if_splits)
qed

end
