(* ===== verification/Agent_Gateway.thy ===== *)
theory Agent_Gateway
  imports Predicate_Registry
begin

text \<open>
  \<^verbatim>\<open>src/lib/agent-tool-gateway.ts\<close>: selection of the template of a surface, the risk table of the
  tools, interception (observation, proposal, governance proposal) and the chain from a validator
  binding to an execution-boundary proof. A field whose TypeScript type is a literal is written
  where a record becomes an object. Risk levels are the digits after the first \<^verbatim>\<open>P\<close>; levels that
  do not fit a double exactly are outside the model.
\<close>

section \<open>Template selection\<close>

record AEOTemplate =
  tm_template_id :: string
  tm_schema_version :: string
  tm_surface_type :: string
  tm_risk_floor :: string
  tm_required_scope_fields :: "string list"
  tm_required_target_fields :: "string list"
  tm_required_validation_fields :: "string list"
  tm_required_finality_fields :: "string list"
  tm_predicate_set :: "string list"
  tm_failure_result :: string
  tm_created_at :: string

datatype AEOTemplateNullReason =
  TEMPLATE_NOT_FOUND | SCHEMA_INACTIVE | TEMPLATE_SURFACE_MISMATCH | RISK_FLOOR_VIOLATION

text \<open>The first match of \<^verbatim>\<open>/P(\d+)/\<close>.\<close>

fun risk_digits :: "string \<Rightarrow> string option" where
  "risk_digits [] = None"
| "risk_digits (c # s) =
     (if c = CHR ''P'' \<and> takeWhile is_digit s \<noteq> [] then Some (takeWhile is_digit s) else risk_digits s)"

definition riskLevel :: "string \<Rightarrow> int" where
  "riskLevel riskClass = (case risk_digits riskClass of None \<Rightarrow> -1 | Some ds \<Rightarrow> int (dec_value ds))"

definition parseJsonArray :: "jsval \<Rightarrow> string list" where
  "parseJsonArray raw =
     (case raw of
        JStr s \<Rightarrow> (case json_parse s of Some (JArr xs) \<Rightarrow> map js_String xs | _ \<Rightarrow> [])
      | _ \<Rightarrow> [])"

definition col_text :: "jsval \<Rightarrow> string \<Rightarrow> string" where
  "col_text row k = js_String_or (js_get row k) []"

definition selectAEOTemplate :: "string \<Rightarrow> string \<Rightarrow> jsval list \<Rightarrow> AEOTemplateNullReason + AEOTemplate" where
  "selectAEOTemplate surface_type risk_class aeo_template_registry =
     (case find (sql_eq ''surface_type'' surface_type) aeo_template_registry of
        None \<Rightarrow> Inl TEMPLATE_NOT_FOUND
      | Some row \<Rightarrow>
          if col_text row ''status'' \<noteq> ''ACTIVE'' then Inl SCHEMA_INACTIVE
          else
            let templateSurface = col_text row ''surface_type'' in
            if templateSurface \<noteq> surface_type then Inl TEMPLATE_SURFACE_MISMATCH
            else
              let riskFloor = col_text row ''risk_floor'' in
              if riskLevel risk_class < riskLevel riskFloor then Inl RISK_FLOOR_VIOLATION
              else Inr
                \<lparr>tm_template_id = col_text row ''template_id'', tm_schema_version = col_text row ''schema_version'',
                 tm_surface_type = templateSurface, tm_risk_floor = riskFloor,
                 tm_required_scope_fields = parseJsonArray (js_get row ''required_scope_fields''),
                 tm_required_target_fields = parseJsonArray (js_get row ''required_target_fields''),
                 tm_required_validation_fields = parseJsonArray (js_get row ''required_validation_fields''),
                 tm_required_finality_fields = parseJsonArray (js_get row ''required_finality_fields''),
                 tm_predicate_set = parseJsonArray (js_get row ''predicate_set''),
                 tm_failure_result = js_String_or (js_get row ''failure_result'') ''NULL'',
                 tm_created_at = col_text row ''created_at''\<rparr>)"

record AgentToolAEOTemplateDefinition =
  td_template_id :: string
  td_schema_version :: string
  td_surface_type :: string
  td_risk_floor :: string
  td_predicate_set_id :: string
  td_predicate_hash :: string
  td_lineage_version :: string

definition resolveAgentToolTemplate :: "jsval \<Rightarrow> jsval list \<Rightarrow> AgentToolAEOTemplateDefinition option" where
  "resolveAgentToolTemplate surface_type agent_tool_aeo_template_registry =
     (case nonEmptyText surface_type of
        None \<Rightarrow> None
      | Some requested \<Rightarrow>
          (case js_sort (sql_order [''template_id'', ''schema_version''])
                  (filter (\<lambda>row. sql_eq ''surface_type'' requested row \<and> sql_eq ''status'' ''ACTIVE'' row)
                     agent_tool_aeo_template_registry) of
             [row] \<Rightarrow>
               (if nonEmptyText (js_get row ''status'') \<noteq> Some ''ACTIVE'' then None
                else if nonEmptyText (js_get row ''surface_type'') \<noteq> Some requested then None
                else
                  (case (nonEmptyText (js_get row ''template_id''), nonEmptyText (js_get row ''schema_version''),
                         nonEmptyText (js_get row ''risk_floor''), nonEmptyText (js_get row ''predicate_set_id''),
                         nonEmptyText (js_get row ''predicate_hash''), nonEmptyText (js_get row ''lineage_version'')) of
                     (Some t, Some v, Some r, Some p, Some h, Some l) \<Rightarrow>
                       Some \<lparr>td_template_id = t, td_schema_version = v, td_surface_type = requested,
                             td_risk_floor = r, td_predicate_set_id = p, td_predicate_hash = h,
                             td_lineage_version = l\<rparr>
                   | _ \<Rightarrow> None))
           | _ \<Rightarrow> None))"

record ValidatorBinding =
  vb_template_id :: string
  vb_schema_version :: string
  vb_predicate_set_id :: string
  vb_predicate_hash :: string
  vb_lineage_version :: string

definition nonblank_str :: "jsval \<Rightarrow> string option" where
  "nonblank_str v = (case v of JStr s \<Rightarrow> if nonblank s then Some s else None | _ \<Rightarrow> None)"

definition createValidatorBinding :: "jsval \<Rightarrow> jsval \<Rightarrow> jsval \<Rightarrow> jsval \<Rightarrow> jsval \<Rightarrow> ValidatorBinding option" where
  "createValidatorBinding template_id schema_version predicate_set_id predicate_hash lineage_version =
     (case (nonblank_str template_id, nonblank_str schema_version, nonblank_str predicate_set_id,
            nonblank_str predicate_hash, nonblank_str lineage_version) of
        (Some t, Some v, Some p, Some h, Some l) \<Rightarrow>
          Some \<lparr>vb_template_id = t, vb_schema_version = v, vb_predicate_set_id = p, vb_predicate_hash = h,
                vb_lineage_version = l\<rparr>
      | _ \<Rightarrow> None)"

section \<open>Classification of tools\<close>

datatype GatewayToolSystem =
  TS_filesystem | TS_github | TS_shell | TS_ci_cd | TS_http_api | TS_database | TS_deploy | TS_read_only

datatype GatewayRiskClass = RC_P0 | RC_P1 | RC_P2 | RC_P3

fun tool_system_str :: "GatewayToolSystem \<Rightarrow> string" where
  "tool_system_str TS_filesystem = ''filesystem''"
| "tool_system_str TS_github = ''github''"
| "tool_system_str TS_shell = ''shell''"
| "tool_system_str TS_ci_cd = ''ci_cd''"
| "tool_system_str TS_http_api = ''http_api''"
| "tool_system_str TS_database = ''database''"
| "tool_system_str TS_deploy = ''deploy''"
| "tool_system_str TS_read_only = ''read_only''"

fun risk_class_str :: "GatewayRiskClass \<Rightarrow> string" where
  "risk_class_str RC_P0 = ''P0''"
| "risk_class_str RC_P1 = ''P1''"
| "risk_class_str RC_P2 = ''P2''"
| "risk_class_str RC_P3 = ''P3''"

definition GATEWAY_TOOL_RISK_TABLE :: "(string \<times> GatewayToolSystem \<times> GatewayRiskClass) list" where
  "GATEWAY_TOOL_RISK_TABLE =
     [(''read_file'', TS_filesystem, RC_P0), (''list_directory'', TS_filesystem, RC_P0), (''search_files'', TS_filesystem, RC_P0),
      (''get_file_contents'', TS_github, RC_P0), (''list_issues'', TS_github, RC_P0), (''list_pull_requests'', TS_github, RC_P0),
      (''search_code'', TS_github, RC_P0), (''comment_issue'', TS_github, RC_P2), (''http_get'', TS_http_api, RC_P0),
      (''db_read'', TS_database, RC_P0), (''http_post'', TS_http_api, RC_P1), (''http_put'', TS_http_api, RC_P1),
      (''http_patch'', TS_http_api, RC_P1), (''http_delete'', TS_http_api, RC_P1), (''create_issue'', TS_github, RC_P2),
      (''create_pull_request'', TS_github, RC_P2), (''merge_pull_request'', TS_github, RC_P2), (''push_files'', TS_github, RC_P2),
      (''write_file'', TS_filesystem, RC_P2), (''delete_file'', TS_filesystem, RC_P2), (''create_directory'', TS_filesystem, RC_P2),
      (''db_write'', TS_database, RC_P3), (''db_delete'', TS_database, RC_P3), (''db_mutate'', TS_database, RC_P3),
      (''terminal_command'', TS_shell, RC_P3), (''shell_exec'', TS_shell, RC_P3), (''run_command'', TS_shell, RC_P3),
      (''workflow_dispatch'', TS_ci_cd, RC_P3), (''trigger_build'', TS_ci_cd, RC_P3), (''deploy_action'', TS_deploy, RC_P3),
      (''deploy_workflow'', TS_deploy, RC_P3)]"

text \<open>\<^verbatim>\<open>toLowerCase\<close> on \<^verbatim>\<open>U+0000 .. U+00FF\<close>, and \<^verbatim>\<open>replace(/[-\s]/g, "_")\<close>.\<close>

definition js_lower_char :: "char \<Rightarrow> char" where
  "js_lower_char c =
     (let n = of_char c :: nat in
      if (65 \<le> n \<and> n \<le> 90) \<or> (192 \<le> n \<and> n \<le> 222 \<and> n \<noteq> 215) then char_of (n + 32) else c)"

definition js_lower :: "string \<Rightarrow> string" where
  "js_lower s = map js_lower_char s"

definition normalized_tool_name :: "string \<Rightarrow> string" where
  "normalized_tool_name s = map (\<lambda>c. if c = CHR ''-'' \<or> js_ws c then CHR ''_'' else c) (js_lower s)"

definition word_char :: "char \<Rightarrow> bool" where
  "word_char c \<longleftrightarrow> (of_char c :: nat) \<in> {48..57} \<union> {65..90} \<union> {97..122} \<union> {95}"

text \<open>\<^verbatim>\<open>/\bread\b/\<close>, given whether the character before the rest is a word character.\<close>

fun word_read :: "bool \<Rightarrow> string \<Rightarrow> bool" where
  "word_read prev [] = False"
| "word_read prev (c # s) =
     ((\<not> prev \<and> take 4 (c # s) = ''read'' \<and> (drop 4 (c # s) = [] \<or> \<not> word_char (hd (drop 4 (c # s))))) \<or>
      word_read (word_char c) s)"

definition read_prefixes :: "string list" where
  "read_prefixes =
     [''get_'', ''list_'', ''search_'', ''fetch_'', ''query_'', ''describe_'', ''inspect_'', ''view_'', ''show_'']"

definition read_name :: "string \<Rightarrow> bool" where
  "read_name s \<longleftrightarrow> word_read False s \<or> list_ex (js_starts_with s) read_prefixes"

definition mentions :: "string \<Rightarrow> string list \<Rightarrow> bool" where
  "mentions s ps \<longleftrightarrow> list_ex (js_includes s) ps"

definition classifyGatewayToolSurface :: "string \<Rightarrow> GatewayToolSystem \<times> GatewayRiskClass" where
  "classifyGatewayToolSurface toolName =
     (let s = normalized_tool_name toolName in
      case map_of GATEWAY_TOOL_RISK_TABLE s of
        Some entry \<Rightarrow> entry
      | None \<Rightarrow>
          if read_name s then (TS_read_only, RC_P0)
          else if mentions s [''deploy'', ''release'', ''publish'', ''ship''] then (TS_deploy, RC_P3)
          else if mentions s [''shell'', ''exec'', ''run_'', ''command'', ''terminal''] then (TS_shell, RC_P3)
          else if mentions s [''workflow'', ''dispatch'', ''pipeline'', ''ci_'', ''cd_''] then (TS_ci_cd, RC_P3)
          else if mentions s [''db_'', ''database'', ''sql'', ''_table'', ''_row''] then (TS_database, RC_P2)
          else if mentions s [''github'', ''_pr_'', ''_merge_'', ''_branch'', ''_commit'', ''_issue''] then (TS_github, RC_P2)
          else if mentions s [''write_'', ''delete_'', ''create_'', ''update_'', ''patch_'', ''put_''] then (TS_filesystem, RC_P2)
          else (TS_http_api, RC_P1))"

section \<open>Interception\<close>

record AgentToolObservationArtifact =
  ob_observation_id :: string
  ob_agent_id :: string
  ob_session_id :: string
  ob_tool_name :: string
  ob_tool_input :: "(string \<times> jsval) list"
  ob_tool_system :: GatewayToolSystem
  ob_risk_class :: GatewayRiskClass
  ob_observed_at :: string

definition observationJs :: "AgentToolObservationArtifact \<Rightarrow> jsval" where
  "observationJs ob = JObj
     [(''observation_id'', JStr (ob_observation_id ob)), (''agent_id'', JStr (ob_agent_id ob)),
      (''session_id'', JStr (ob_session_id ob)), (''framework'', JStr ''langchain''),
      (''tool_name'', JStr (ob_tool_name ob)), (''tool_input'', JObj (ob_tool_input ob)),
      (''tool_system'', JStr (tool_system_str (ob_tool_system ob))),
      (''risk_class'', JStr (risk_class_str (ob_risk_class ob))), (''observed_at'', JStr (ob_observed_at ob)),
      (''non_operative'', JBool True), (''creates_authority'', JBool False),
      (''creates_execution_eligibility'', JBool False)]"

definition formObservationArtifact ::
  "string \<Rightarrow> string \<Rightarrow> string \<Rightarrow> (string \<times> jsval) list \<Rightarrow> string \<Rightarrow> AgentToolObservationArtifact" where
  "formObservationArtifact agent_id session_id tool_name tool_input observed_at =
     (case classifyGatewayToolSurface tool_name of (system, risk_class) \<Rightarrow>
        \<lparr>ob_observation_id = ''obs:gateway:'' @ tool_name @ '':'' @ agent_id @ '':'' @ observed_at,
         ob_agent_id = agent_id, ob_session_id = session_id, ob_tool_name = tool_name,
         ob_tool_input = tool_input, ob_tool_system = system, ob_risk_class = risk_class,
         ob_observed_at = observed_at\<rparr>)"

record GatewayClassifiedInterceptionProposal =
  ci_cip_id :: string
  ci_observation_id :: string
  ci_observation_hash :: string
  ci_agent_id :: string
  ci_session_id :: string
  ci_tool_name :: string
  ci_tool_system :: GatewayToolSystem
  ci_risk_class :: GatewayRiskClass
  ci_intent :: string
  ci_scope :: "(string \<times> jsval) list"
  ci_constraints :: "(string \<times> jsval) list"
  ci_requires_authority_binding :: bool
  ci_proposed_at :: string

definition formCIPProposal ::
  "AgentToolObservationArtifact \<Rightarrow> string \<Rightarrow> string \<Rightarrow> (string \<times> jsval) list \<Rightarrow> (string \<times> jsval) list
   \<Rightarrow> GatewayClassifiedInterceptionProposal" where
  "formCIPProposal observation observation_hash intent scope constraints =
     \<lparr>ci_cip_id = ''cip:'' @ ob_observation_id observation @ '':'' @ observation_hash,
      ci_observation_id = ob_observation_id observation, ci_observation_hash = observation_hash,
      ci_agent_id = ob_agent_id observation, ci_session_id = ob_session_id observation,
      ci_tool_name = ob_tool_name observation, ci_tool_system = ob_tool_system observation,
      ci_risk_class = ob_risk_class observation, ci_intent = intent, ci_scope = scope,
      ci_constraints = constraints, ci_requires_authority_binding = (ob_risk_class observation \<noteq> RC_P0),
      ci_proposed_at = ob_observed_at observation\<rparr>"

record AgentToolGovernanceProposal =
  gpr_proposal_id :: string
  gpr_cip_id :: string
  gpr_observation_id :: string
  gpr_observation_hash :: string
  gpr_agent_id :: string
  gpr_session_id :: string
  gpr_tool_name :: string
  gpr_tool_system :: GatewayToolSystem
  gpr_risk_class :: GatewayRiskClass
  gpr_intent :: string
  gpr_scope :: "(string \<times> jsval) list"
  gpr_constraints :: "(string \<times> jsval) list"
  gpr_requires_authority_binding :: bool
  gpr_created_at :: string

definition formGovernanceProposal :: "GatewayClassifiedInterceptionProposal \<Rightarrow> AgentToolGovernanceProposal" where
  "formGovernanceProposal cip =
     \<lparr>gpr_proposal_id = ''proposal:'' @ ci_cip_id cip, gpr_cip_id = ci_cip_id cip,
      gpr_observation_id = ci_observation_id cip, gpr_observation_hash = ci_observation_hash cip,
      gpr_agent_id = ci_agent_id cip, gpr_session_id = ci_session_id cip, gpr_tool_name = ci_tool_name cip,
      gpr_tool_system = ci_tool_system cip, gpr_risk_class = ci_risk_class cip, gpr_intent = ci_intent cip,
      gpr_scope = ci_scope cip, gpr_constraints = ci_constraints cip,
      gpr_requires_authority_binding = ci_requires_authority_binding cip, gpr_created_at = ci_proposed_at cip\<rparr>"

record InterceptInput =
  ii_agent_id :: string
  ii_session_id :: string
  ii_tool_name :: string
  ii_tool_input :: "(string \<times> jsval) list"
  ii_intent :: string
  ii_scope :: "(string \<times> jsval) list"
  ii_constraints :: "(string \<times> jsval) list"
  ii_timestamp :: string

datatype InterceptNullReason = missing_tool_name | missing_agent_context | missing_intent

record Intercepted =
  ic_observation :: AgentToolObservationArtifact
  ic_observation_hash :: string
  ic_cip :: GatewayClassifiedInterceptionProposal
  ic_proposal :: AgentToolGovernanceProposal

definition interceptToolCall :: "InterceptInput \<Rightarrow> InterceptNullReason + Intercepted" where
  "interceptToolCall input =
     (if ii_tool_name input = [] then Inl missing_tool_name
      else if ii_agent_id input = [] \<or> ii_session_id input = [] then Inl missing_agent_context
      else if ii_intent input = [] then Inl missing_intent
      else
        let observation = formObservationArtifact (ii_agent_id input) (ii_session_id input) (ii_tool_name input)
                            (ii_tool_input input) (ii_timestamp input);
            observation_hash = hashCanonical (observationJs observation);
            cip = formCIPProposal observation observation_hash (ii_intent input) (ii_scope input) (ii_constraints input)
        in Inr \<lparr>ic_observation = observation, ic_observation_hash = observation_hash, ic_cip = cip,
                ic_proposal = formGovernanceProposal cip\<rparr>)"

section \<open>From binding to proof\<close>

datatype OmegaValidatorResult = OMEGA_VALID | OMEGA_NULL

fun omega_result_str :: "OmegaValidatorResult \<Rightarrow> string" where
  "omega_result_str OMEGA_VALID = ''VALID''"
| "omega_result_str OMEGA_NULL = ''NULL''"

record OmegaValidatorConditions =
  oc_valid :: bool
  oc_authorized :: bool
  oc_unused :: bool
  oc_policy_valid :: bool
  oc_replay_safe :: bool
  oc_topology_visible :: bool
  oc_reconcilable :: bool

definition checkOmegaValidatorBoundary :: "OmegaValidatorConditions \<Rightarrow> OmegaValidatorResult" where
  "checkOmegaValidatorBoundary c =
     (if oc_valid c \<and> oc_authorized c \<and> oc_unused c \<and> oc_policy_valid c \<and> oc_replay_safe c \<and>
         oc_topology_visible c \<and> oc_reconcilable c
      then OMEGA_VALID else OMEGA_NULL)"

record PredicateVerificationContract =
  pc_contract_id :: string
  pc_template_id :: string
  pc_schema_version :: string
  pc_predicate_set_id :: string
  pc_predicate_hash :: string
  pc_lineage_version :: string

text \<open>The object whose hash is the contract id.\<close>

definition contractMaterial :: "string \<Rightarrow> string \<Rightarrow> string \<Rightarrow> string \<Rightarrow> string \<Rightarrow> jsval" where
  "contractMaterial template_id schema_version predicate_set_id predicate_hash lineage_version = JObj
     [(''template_id'', JStr template_id), (''schema_version'', JStr schema_version),
      (''predicate_set_id'', JStr predicate_set_id), (''predicate_hash'', JStr predicate_hash),
      (''lineage_version'', JStr lineage_version)]"

definition createPredicateVerificationContract ::
  "ValidatorBinding option \<Rightarrow> PredicateDefinition option \<Rightarrow> PredicateVerificationContract option" where
  "createPredicateVerificationContract binding0 predicate0 =
     (case (binding0, predicate0) of
        (Some binding, Some predicate) \<Rightarrow>
          if pd_side_effects_allowed predicate \<noteq> JBool False then None
          else if \<not> nonblank (vb_template_id binding) then None
          else if \<not> nonblank (vb_schema_version binding) then None
          else if \<not> nonblank (vb_predicate_set_id binding) then None
          else if \<not> nonblank (vb_predicate_hash binding) then None
          else if \<not> nonblank (vb_lineage_version binding) then None
          else if vb_predicate_set_id binding \<noteq> pd_predicate_set_id predicate then None
          else if vb_predicate_hash binding \<noteq> pd_predicate_hash predicate then None
          else if vb_lineage_version binding \<noteq> pd_lineage_version predicate then None
          else Some
            \<lparr>pc_contract_id = hashCanonical (contractMaterial (vb_template_id binding) (vb_schema_version binding)
               (vb_predicate_set_id binding) (vb_predicate_hash binding) (vb_lineage_version binding)),
             pc_template_id = vb_template_id binding, pc_schema_version = vb_schema_version binding,
             pc_predicate_set_id = vb_predicate_set_id binding, pc_predicate_hash = vb_predicate_hash binding,
             pc_lineage_version = vb_lineage_version binding\<rparr>
      | _ \<Rightarrow> None)"

record OmegaValidatorInputEnvelope =
  oe_envelope_id :: string
  oe_contract_id :: string
  oe_template_id :: string
  oe_predicate_set_id :: string
  oe_predicate_hash :: string
  oe_lineage_version :: string

definition envelopeMaterial :: "string \<Rightarrow> string \<Rightarrow> string \<Rightarrow> string \<Rightarrow> string \<Rightarrow> jsval" where
  "envelopeMaterial contract_id template_id predicate_set_id predicate_hash lineage_version = JObj
     [(''contract_id'', JStr contract_id), (''template_id'', JStr template_id),
      (''predicate_set_id'', JStr predicate_set_id), (''predicate_hash'', JStr predicate_hash),
      (''lineage_version'', JStr lineage_version)]"

definition createOmegaValidatorInputEnvelope ::
  "PredicateVerificationContract option \<Rightarrow> OmegaValidatorInputEnvelope option" where
  "createOmegaValidatorInputEnvelope contract0 =
     (case contract0 of
        None \<Rightarrow> None
      | Some contract \<Rightarrow>
          if \<not> nonblank (pc_contract_id contract) then None
          else if \<not> nonblank (pc_template_id contract) then None
          else if \<not> nonblank (pc_schema_version contract) then None
          else if \<not> nonblank (pc_predicate_set_id contract) then None
          else if \<not> nonblank (pc_predicate_hash contract) then None
          else if \<not> nonblank (pc_lineage_version contract) then None
          else if hashCanonical (contractMaterial (pc_template_id contract) (pc_schema_version contract)
                    (pc_predicate_set_id contract) (pc_predicate_hash contract) (pc_lineage_version contract))
                  \<noteq> pc_contract_id contract then None
          else Some
            \<lparr>oe_envelope_id = hashCanonical (envelopeMaterial (pc_contract_id contract) (pc_template_id contract)
               (pc_predicate_set_id contract) (pc_predicate_hash contract) (pc_lineage_version contract)),
             oe_contract_id = pc_contract_id contract, oe_template_id = pc_template_id contract,
             oe_predicate_set_id = pc_predicate_set_id contract, oe_predicate_hash = pc_predicate_hash contract,
             oe_lineage_version = pc_lineage_version contract\<rparr>)"

definition OMEGA_CONDITION_KEYS :: "string list" where
  "OMEGA_CONDITION_KEYS =
     [''valid'', ''authorized'', ''unused'', ''policy_valid'', ''replay_safe'', ''topology_visible'', ''reconcilable'']"

fun is_bool :: "jsval \<Rightarrow> bool" where
  "is_bool (JBool b) = True"
| "is_bool _ = False"

fun is_js_object :: "jsval \<Rightarrow> bool" where
  "is_js_object (JObj kvs) = True"
| "is_js_object (JArr xs) = True"
| "is_js_object _ = False"

text \<open>\<^verbatim>\<open>!conditions || typeof conditions !== 'object'\<close>, then every key a boolean.\<close>

definition conditions_ok :: "jsval \<Rightarrow> bool" where
  "conditions_ok conditions \<longleftrightarrow>
     is_js_object conditions \<and> list_all (\<lambda>key. is_bool (js_get conditions key)) OMEGA_CONDITION_KEYS"

definition conditionsOf :: "jsval \<Rightarrow> OmegaValidatorConditions" where
  "conditionsOf v =
     \<lparr>oc_valid = (js_get v ''valid'' = JBool True), oc_authorized = (js_get v ''authorized'' = JBool True),
      oc_unused = (js_get v ''unused'' = JBool True), oc_policy_valid = (js_get v ''policy_valid'' = JBool True),
      oc_replay_safe = (js_get v ''replay_safe'' = JBool True),
      oc_topology_visible = (js_get v ''topology_visible'' = JBool True),
      oc_reconcilable = (js_get v ''reconcilable'' = JBool True)\<rparr>"

definition conditionsJs :: "OmegaValidatorConditions \<Rightarrow> jsval" where
  "conditionsJs c = JObj
     [(''valid'', JBool (oc_valid c)), (''authorized'', JBool (oc_authorized c)), (''unused'', JBool (oc_unused c)),
      (''policy_valid'', JBool (oc_policy_valid c)), (''replay_safe'', JBool (oc_replay_safe c)),
      (''topology_visible'', JBool (oc_topology_visible c)), (''reconcilable'', JBool (oc_reconcilable c))]"

record OmegaValidatorOutcome =
  oo_outcome_id :: string
  oo_envelope_id :: string
  oo_contract_id :: string
  oo_predicate_hash :: string
  oo_lineage_version :: string
  oo_result :: OmegaValidatorResult
  oo_conditions :: jsval

definition outcomeMaterial :: "string \<Rightarrow> string \<Rightarrow> string \<Rightarrow> string \<Rightarrow> OmegaValidatorResult \<Rightarrow> jsval \<Rightarrow> jsval" where
  "outcomeMaterial envelope_id contract_id predicate_hash lineage_version result conditions = JObj
     [(''envelope_id'', JStr envelope_id), (''contract_id'', JStr contract_id),
      (''predicate_hash'', JStr predicate_hash), (''lineage_version'', JStr lineage_version),
      (''result'', JStr (omega_result_str result)), (''conditions'', conditions)]"

text \<open>The context is the caller's object; the test of its conditions is at run time.\<close>

definition evaluateOmegaValidator ::
  "OmegaValidatorInputEnvelope option \<Rightarrow> jsval \<Rightarrow> OmegaValidatorOutcome option" where
  "evaluateOmegaValidator envelope0 ctxt =
     (case envelope0 of
        None \<Rightarrow> None
      | Some e \<Rightarrow>
          if \<not> nonblank (oe_envelope_id e) then None
          else if \<not> nonblank (oe_contract_id e) then None
          else if \<not> nonblank (oe_template_id e) then None
          else if \<not> nonblank (oe_predicate_set_id e) then None
          else if \<not> nonblank (oe_predicate_hash e) then None
          else if \<not> nonblank (oe_lineage_version e) then None
          else if hashCanonical (envelopeMaterial (oe_contract_id e) (oe_template_id e) (oe_predicate_set_id e)
                    (oe_predicate_hash e) (oe_lineage_version e)) \<noteq> oe_envelope_id e then None
          else if \<not> js_truthy ctxt then None
          else
            let conditions = js_get ctxt ''conditions'' in
            if \<not> conditions_ok conditions then None
            else
              let c = conditionsOf conditions;
                  result = checkOmegaValidatorBoundary c
              in Some
                \<lparr>oo_outcome_id = hashCanonical (outcomeMaterial (oe_envelope_id e) (oe_contract_id e)
                   (oe_predicate_hash e) (oe_lineage_version e) result (conditionsJs c)),
                 oo_envelope_id = oe_envelope_id e, oo_contract_id = oe_contract_id e,
                 oo_predicate_hash = oe_predicate_hash e, oo_lineage_version = oe_lineage_version e,
                 oo_result = result, oo_conditions = conditionsJs c\<rparr>)"

record ExecutionBoundaryProof =
  xb_proof_id :: string
  xb_outcome_id :: string
  xb_envelope_id :: string
  xb_contract_id :: string
  xb_predicate_hash :: string
  xb_lineage_version :: string

definition proofMaterial :: "string \<Rightarrow> string \<Rightarrow> string \<Rightarrow> string \<Rightarrow> string \<Rightarrow> jsval" where
  "proofMaterial outcome_id envelope_id contract_id predicate_hash lineage_version = JObj
     [(''outcome_id'', JStr outcome_id), (''envelope_id'', JStr envelope_id), (''contract_id'', JStr contract_id),
      (''predicate_hash'', JStr predicate_hash), (''lineage_version'', JStr lineage_version),
      (''creates_authority'', JBool False)]"

definition captureExecutionBoundaryProof :: "OmegaValidatorOutcome option \<Rightarrow> ExecutionBoundaryProof option" where
  "captureExecutionBoundaryProof outcome0 =
     (case outcome0 of
        None \<Rightarrow> None
      | Some u \<Rightarrow>
          if oo_result u \<noteq> OMEGA_VALID then None
          else if \<not> nonblank (oo_outcome_id u) then None
          else if \<not> nonblank (oo_envelope_id u) then None
          else if \<not> nonblank (oo_contract_id u) then None
          else if \<not> nonblank (oo_predicate_hash u) then None
          else if \<not> nonblank (oo_lineage_version u) then None
          else if \<not> conditions_ok (oo_conditions u) then None
          else if hashCanonical (outcomeMaterial (oo_envelope_id u) (oo_contract_id u) (oo_predicate_hash u)
                    (oo_lineage_version u) (oo_result u) (oo_conditions u)) \<noteq> oo_outcome_id u then None
          else Some
            \<lparr>xb_proof_id = hashCanonical (proofMaterial (oo_outcome_id u) (oo_envelope_id u) (oo_contract_id u)
               (oo_predicate_hash u) (oo_lineage_version u)),
             xb_outcome_id = oo_outcome_id u, xb_envelope_id = oo_envelope_id u,
             xb_contract_id = oo_contract_id u, xb_predicate_hash = oo_predicate_hash u,
             xb_lineage_version = oo_lineage_version u\<rparr>)"

end
