(* ===== verification/Authority_Review.thy ===== *)
theory Authority_Review
  imports Agent_Gateway
begin

text \<open>
  \<^verbatim>\<open>src/lib/authority-review.ts\<close>: a review decision on a gateway proposal and, when it approves, the
  formation of the ATAO. The scope and the constraints of the proposal come from JSON columns and
  may be any JSON value; they are copied with the spread operator.
\<close>

section \<open>Types\<close>

record GatewayProposalLineage =
  gl_proposal_id :: string
  gl_cip_id :: string
  gl_observation_id :: string
  gl_observation_hash :: string
  gl_agent_id :: string
  gl_session_id :: string
  gl_tool_name :: string
  gl_tool_system :: string
  gl_risk_class :: string
  gl_intent :: string
  gl_scope :: jsval
  gl_constraints :: jsval
  gl_requires_authority_binding :: bool

datatype AuthorityReviewDecision = RD_APPROVED | RD_REJECTED

record AuthorityReviewArtifact =
  ra_review_id :: string
  ra_review_decision :: AuthorityReviewDecision
  ra_proposal_id :: string
  ra_observation_id :: string
  ra_observation_hash :: string
  ra_reviewer_id :: string
  ra_review_rationale :: string
  ra_creates_atao :: bool
  ra_created_at :: string

record AgentToolATAO =
  tt_atao_id :: string
  tt_agent_id :: string
  tt_session_id :: string
  tt_tool_name :: string
  tt_tool_system :: string
  tt_risk_class :: string
  tt_intent :: string
  tt_scope :: "(string \<times> jsval) list"
  tt_constraints :: "(string \<times> jsval) list"
  tt_created_at :: string
  tt_review_id :: string
  tt_proposal_id :: string
  tt_observation_id :: string
  tt_observation_hash :: string

text \<open>The properties of \<^verbatim>\<open>{ ...v }\<close>.\<close>

fun js_spread :: "jsval \<Rightarrow> (string \<times> jsval) list" where
  "js_spread (JObj kvs) = kvs"
| "js_spread (JArr xs) = zip (map nat_dec [0..<length xs]) xs"
| "js_spread (JStr s) = zip (map nat_dec [0..<length s]) (map (\<lambda>c. JStr [c]) s)"
| "js_spread _ = []"

section \<open>Operations\<close>

definition formAuthorityReviewArtifact ::
  "GatewayProposalLineage \<Rightarrow> string \<Rightarrow> AuthorityReviewDecision \<Rightarrow> string \<Rightarrow> string \<Rightarrow> AuthorityReviewArtifact" where
  "formAuthorityReviewArtifact proposal reviewer_id review_decision review_rationale created_at =
     \<lparr>ra_review_id = ''authority-review:'' @ gl_proposal_id proposal @ '':'' @ reviewer_id @ '':'' @ created_at,
      ra_review_decision = review_decision, ra_proposal_id = gl_proposal_id proposal,
      ra_observation_id = gl_observation_id proposal, ra_observation_hash = gl_observation_hash proposal,
      ra_reviewer_id = reviewer_id, ra_review_rationale = review_rationale,
      ra_creates_atao = (review_decision = RD_APPROVED), ra_created_at = created_at\<rparr>"

definition formAgentToolATAO :: "AuthorityReviewArtifact \<Rightarrow> GatewayProposalLineage \<Rightarrow> AgentToolATAO" where
  "formAgentToolATAO review proposal =
     \<lparr>tt_atao_id = ''atao:'' @ ra_review_id review @ '':'' @ gl_proposal_id proposal,
      tt_agent_id = gl_agent_id proposal, tt_session_id = gl_session_id proposal,
      tt_tool_name = gl_tool_name proposal, tt_tool_system = gl_tool_system proposal,
      tt_risk_class = gl_risk_class proposal, tt_intent = gl_intent proposal,
      tt_scope = js_spread (gl_scope proposal), tt_constraints = js_spread (gl_constraints proposal),
      tt_created_at = ra_created_at review, tt_review_id = ra_review_id review,
      tt_proposal_id = gl_proposal_id proposal, tt_observation_id = gl_observation_id proposal,
      tt_observation_hash = gl_observation_hash proposal\<rparr>"

record AuthorityReviewInput =
  ri_proposal :: GatewayProposalLineage
  ri_reviewer_id :: string
  ri_review_decision :: string
  ri_review_rationale :: string
  ri_timestamp :: string
  ri_permitted_reviewer_ids :: "string list option"

datatype AuthorityReviewNullReason =
  missing_reviewer_id | unauthorized_reviewer_id | missing_review_rationale | invalid_review_decision |
  invalid_proposal_lineage

definition conductAuthorityReview ::
  "AuthorityReviewInput \<Rightarrow> AuthorityReviewNullReason + (AuthorityReviewArtifact \<times> AgentToolATAO option)" where
  "conductAuthorityReview input =
     (if ri_reviewer_id input = [] then Inl missing_reviewer_id
      else if (case ri_permitted_reviewer_ids input of None \<Rightarrow> False
               | Some ids \<Rightarrow> length ids > 0 \<and> ri_reviewer_id input \<notin> set ids) then Inl unauthorized_reviewer_id
      else if ri_review_rationale input = [] then Inl missing_review_rationale
      else if ri_review_decision input \<noteq> ''APPROVED'' \<and> ri_review_decision input \<noteq> ''REJECTED''
        then Inl invalid_review_decision
      else if gl_proposal_id (ri_proposal input) = [] \<or> gl_observation_id (ri_proposal input) = [] \<or>
              gl_observation_hash (ri_proposal input) = [] then Inl invalid_proposal_lineage
      else
        let decision = (if ri_review_decision input = ''APPROVED'' then RD_APPROVED else RD_REJECTED);
            review = formAuthorityReviewArtifact (ri_proposal input) (ri_reviewer_id input) decision
                       (ri_review_rationale input) (ri_timestamp input)
        in if ra_review_decision review = RD_APPROVED
           then Inr (review, Some (formAgentToolATAO review (ri_proposal input)))
           else Inr (review, None))"

section \<open>Properties\<close>

text \<open>
  A review approves, and an ATAO is formed, exactly when a reviewer who is permitted (every
  reviewer, if the list is empty or absent) gives a rationale and the decision APPROVED on a
  proposal with its lineage; a rejection forms none. The ATAO carries the review, the proposal and
  the observation it comes from.
\<close>

theorem conductAuthorityReview_iff:
  "conductAuthorityReview input = Inr (review, Some atao) \<longleftrightarrow>
     ri_review_decision input = ''APPROVED'' \<and> ri_reviewer_id input \<noteq> [] \<and> ri_review_rationale input \<noteq> [] \<and>
     ri_permitted_reviewer_ids input \<in> {None, Some []} \<union> {Some ids | ids. ri_reviewer_id input \<in> set ids} \<and>
     gl_proposal_id (ri_proposal input) \<noteq> [] \<and> gl_observation_id (ri_proposal input) \<noteq> [] \<and>
     gl_observation_hash (ri_proposal input) \<noteq> [] \<and>
     review = formAuthorityReviewArtifact (ri_proposal input) (ri_reviewer_id input) RD_APPROVED
       (ri_review_rationale input) (ri_timestamp input) \<and>
     atao = formAgentToolATAO review (ri_proposal input) \<and>
     ra_creates_atao review \<and> tt_review_id atao = ra_review_id review \<and>
     tt_proposal_id atao = ra_proposal_id review \<and> tt_observation_hash atao = ra_observation_hash review"
  by (auto simp: conductAuthorityReview_def Let_def formAuthorityReviewArtifact_def formAgentToolATAO_def
      split: option.splits if_splits)

end
