(* ===== verification/Agent_Routes.thy ===== *)
theory Agent_Routes
  imports Authority_Review Storage
begin

text \<open>
  The agent tool routes of the worker (\<^verbatim>\<open>src/index.ts\<close>): interception of a tool call, lookup of a
  proposal, authority review, lookup of an ATAO, compilation of the AEO and the invocation
  boundary. A handler is an asynchronous program over the registries: one \<^verbatim>\<open>await\<close> on the database
  is one atomic access.

  A table is the list of its rows; a row is the object the database returns, with \<^verbatim>\<open>null\<close> for a
  column that was not inserted. \<^verbatim>\<open>INSERT OR IGNORE\<close> drops a row that repeats a primary or unique
  key. The tables exist (the \<^verbatim>\<open>CREATE TABLE IF NOT EXISTS\<close> statements of the \<^verbatim>\<open>ensure...\<close> functions
  change nothing then), and their triggers reject updates and deletions, which the handlers never
  attempt. The clock, the random id and \<^verbatim>\<open>isExpired\<close> (which parses a date) are arguments; so is the
  reviewers' allowlist, which the repository keeps in a JSON file. \<^verbatim>\<open>normalizeCanonicalValue\<close> and
  \<^verbatim>\<open>canonicalize\<close> of this file are copies of those of \<^verbatim>\<open>canonical.js\<close>, modelled by \<open>normalize\<close> and
  \<open>canonicalize\<close>. A response is the reason of a
  refusal or the fields that depend on the request.
\<close>

section \<open>Registries\<close>

record AgentDb =
  agent_tool_observation_registry :: "jsval list"
  agent_tool_proposal_registry :: "jsval list"
  authority_review_registry :: "jsval list"
  agent_tool_atao_registry :: "jsval list"
  agent_tool_call_atao_registry :: "jsval list"
  agent_authority_registry :: "jsval list"
  agent_aeo_registry :: "jsval list"
  agent_session_registry :: "jsval list"
  agent_continuity_registry :: "jsval list"
  agent_validation_registry :: "jsval list"
  agent_execution_registry :: "jsval list"
  agent_proof_registry :: "jsval list"
  agent_tool_invocation_registry :: "jsval list"
  agent_template_registry :: "jsval list"

definition sql_conflict :: "string list list \<Rightarrow> jsval \<Rightarrow> jsval list \<Rightarrow> bool" where
  "sql_conflict uniques r t \<longleftrightarrow>
     list_ex (\<lambda>cols. list_ex (\<lambda>x. list_all (\<lambda>c. js_get x c = js_get r c) cols) t) uniques"

definition insert_ignore :: "string list list \<Rightarrow> jsval \<Rightarrow> jsval list \<Rightarrow> jsval list" where
  "insert_ignore uniques r t = (if sql_conflict uniques r t then t else t @ [r])"

definition sql_all :: "(string \<times> string) list \<Rightarrow> jsval \<Rightarrow> bool" where
  "sql_all conds row \<longleftrightarrow> list_all (\<lambda>(c, x). sql_eq c x row) conds"

section \<open>Canonical values\<close>

definition canonicalRecord :: "jsval \<Rightarrow> jsval" where
  "canonicalRecord v = (case normalize v of JObj kvs \<Rightarrow> JObj kvs | _ \<Rightarrow> JObj [])"

definition REQUIRED_AEO_KEYS :: "string list" where
  "REQUIRED_AEO_KEYS = [''intent'', ''scope'', ''validation'', ''target'', ''finality'']"

definition toCanonicalAeo :: "jsval \<Rightarrow> jsval option" where
  "toCanonicalAeo input =
     (if \<not> isPlainObject input then None
      else if sort (js_keys input) \<noteq> sort REQUIRED_AEO_KEYS then None
      else if col_text input ''intent'' = [] then None
      else Some (JObj
        [(''intent'', JStr (col_text input ''intent'')), (''scope'', canonicalRecord (js_get input ''scope'')),
         (''validation'', canonicalRecord (js_get input ''validation'')),
         (''target'', canonicalRecord (js_get input ''target'')),
         (''finality'', canonicalRecord (js_get input ''finality''))]))"

text \<open>\<^verbatim>\<open>v && typeof v === "object" && !Array.isArray(v) ? v : {}\<close>\<close>

definition record_or_empty :: "jsval \<Rightarrow> (string \<times> jsval) list" where
  "record_or_empty v = (case v of JObj kvs \<Rightarrow> kvs | _ \<Rightarrow> [])"

text \<open>\<^verbatim>\<open>a || b\<close>\<close>

definition js_or :: "jsval \<Rightarrow> jsval \<Rightarrow> jsval" where
  "js_or a b = (if js_truthy a then a else b)"

section \<open>Intercept\<close>

definition observation_row :: "InterceptInput \<Rightarrow> Intercepted \<Rightarrow> jsval" where
  "observation_row i x = JObj
     [(''observation_id'', JStr (ob_observation_id (ic_observation x))),
      (''observation_hash'', JStr (ic_observation_hash x)), (''agent_id'', JStr (ii_agent_id i)),
      (''session_id'', JStr (ii_session_id i)), (''framework'', JStr ''langchain''),
      (''tool_name'', JStr (ii_tool_name i)),
      (''tool_system'', JStr (tool_system_str (ob_tool_system (ic_observation x)))),
      (''risk_class'', JStr (risk_class_str (ob_risk_class (ic_observation x)))),
      (''tool_input'', JStr (json_stringify (JObj (ii_tool_input i)))), (''status'', JStr ''OBSERVED''),
      (''created_at'', JStr (ii_timestamp i))]"

definition proposal_row :: "InterceptInput \<Rightarrow> Intercepted \<Rightarrow> jsval" where
  "proposal_row i x = JObj
     [(''proposal_id'', JStr (gpr_proposal_id (ic_proposal x))), (''proposal_class'', JStr ''GOVERNANCE_PROPOSAL''),
      (''cip_id'', JStr (ci_cip_id (ic_cip x))), (''observation_id'', JStr (ob_observation_id (ic_observation x))),
      (''observation_hash'', JStr (ic_observation_hash x)), (''agent_id'', JStr (ii_agent_id i)),
      (''session_id'', JStr (ii_session_id i)), (''framework'', JStr ''langchain''),
      (''tool_name'', JStr (ii_tool_name i)),
      (''tool_system'', JStr (tool_system_str (ob_tool_system (ic_observation x)))),
      (''risk_class'', JStr (risk_class_str (ob_risk_class (ic_observation x)))), (''intent'', JStr (ii_intent i)),
      (''scope'', JStr (json_stringify (JObj (ii_scope i)))),
      (''constraints'', JStr (json_stringify (JObj (ii_constraints i)))),
      (''requires_authority_binding'', JNum (NInt (if ci_requires_authority_binding (ic_cip x) then 1 else 0))),
      (''proposal_status'', JStr ''PENDING_AUTHORITY_REVIEW''), (''creates_atao'', JNum (NInt 0)),
      (''creates_aeo'', JNum (NInt 0)), (''created_at'', JStr (ii_timestamp i))]"

definition intercept_input :: "jsval \<Rightarrow> string \<Rightarrow> InterceptInput" where
  "intercept_input b timestamp =
     \<lparr>ii_agent_id = col_text b ''agent_id'', ii_session_id = col_text b ''session_id'',
      ii_tool_name = col_text b ''tool_name'', ii_tool_input = record_or_empty (js_get b ''tool_input''),
      ii_intent = col_text b ''intent'', ii_scope = record_or_empty (js_get b ''scope''),
      ii_constraints = record_or_empty (js_get b ''constraints''), ii_timestamp = timestamp\<rparr>"

fun intercept_reason :: "InterceptNullReason \<Rightarrow> string" where
  "intercept_reason missing_tool_name = ''missing_tool_name''"
| "intercept_reason missing_agent_context = ''missing_agent_context''"
| "intercept_reason missing_intent = ''missing_intent''"

definition handleAgentToolGatewayIntercept :: "jsval \<Rightarrow> string \<Rightarrow> (AgentDb, string + Intercepted) proc" where
  "handleAgentToolGatewayIntercept b timestamp =
     (if \<not> is_js_object b then Ret (Inl ''malformed_request'')
      else
        let i = intercept_input b timestamp in
        case interceptToolCall i of
          Inl r \<Rightarrow> Ret (Inl (intercept_reason r))
        | Inr x \<Rightarrow>
            proc_bind (atomically (\<lambda>db.
              (db\<lparr>agent_tool_observation_registry :=
                   insert_ignore [[''observation_id''], [''observation_hash'']] (observation_row i x)
                     (agent_tool_observation_registry db)\<rparr>, ()))) (\<lambda>_.
            proc_bind (atomically (\<lambda>db.
              (db\<lparr>agent_tool_proposal_registry :=
                   insert_ignore [[''proposal_id''], [''cip_id'']] (proposal_row i x)
                     (agent_tool_proposal_registry db)\<rparr>, ()))) (\<lambda>_.
            Ret (Inr x))))"

section \<open>Propose\<close>

definition pending_proposal :: "string \<Rightarrow> string \<Rightarrow> string \<Rightarrow> AgentDb \<Rightarrow> jsval option" where
  "pending_proposal proposal_id observation_id observation_hash db =
     find (sql_all [(''proposal_id'', proposal_id), (''observation_id'', observation_id),
                    (''observation_hash'', observation_hash), (''proposal_status'', ''PENDING_AUTHORITY_REVIEW'')])
       (agent_tool_proposal_registry db)"

definition handleAgentToolGatewayPropose :: "jsval \<Rightarrow> (AgentDb, string + jsval) proc" where
  "handleAgentToolGatewayPropose b =
     (if \<not> is_js_object b then Ret (Inl ''malformed_request'')
      else
        let proposal_id = col_text b ''proposal_id''; observation_id = col_text b ''observation_id'';
            observation_hash = col_text b ''observation_hash'' in
        if proposal_id = [] \<or> observation_id = [] \<or> observation_hash = [] then Ret (Inl ''missing_proposal_fields'')
        else proc_bind (fetch (pending_proposal proposal_id observation_id observation_hash)) (\<lambda>p.
          Ret (case p of None \<Rightarrow> Inl ''proposal_not_found'' | Some row \<Rightarrow> Inr row)))"

section \<open>Authority review\<close>

definition json_column :: "jsval \<Rightarrow> string \<Rightarrow> jsval" where
  "json_column row k = (case json_parse (js_String_or (js_get row k) ''{}'') of Some v \<Rightarrow> v | None \<Rightarrow> JObj [])"

definition proposal_lineage :: "jsval \<Rightarrow> GatewayProposalLineage" where
  "proposal_lineage row =
     \<lparr>gl_proposal_id = col_text row ''proposal_id'', gl_cip_id = col_text row ''cip_id'',
      gl_observation_id = col_text row ''observation_id'', gl_observation_hash = col_text row ''observation_hash'',
      gl_agent_id = col_text row ''agent_id'', gl_session_id = col_text row ''session_id'',
      gl_tool_name = col_text row ''tool_name'', gl_tool_system = col_text row ''tool_system'',
      gl_risk_class = col_text row ''risk_class'', gl_intent = col_text row ''intent'',
      gl_scope = json_column row ''scope'', gl_constraints = json_column row ''constraints'',
      gl_requires_authority_binding = js_truthy (js_get row ''requires_authority_binding'')\<rparr>"

fun review_reason :: "AuthorityReviewNullReason \<Rightarrow> string" where
  "review_reason missing_reviewer_id = ''missing_reviewer_id''"
| "review_reason unauthorized_reviewer_id = ''unauthorized_reviewer_id''"
| "review_reason missing_review_rationale = ''missing_review_rationale''"
| "review_reason invalid_review_decision = ''invalid_review_decision''"
| "review_reason invalid_proposal_lineage = ''invalid_proposal_lineage''"

fun decision_str :: "AuthorityReviewDecision \<Rightarrow> string" where
  "decision_str RD_APPROVED = ''APPROVED''"
| "decision_str RD_REJECTED = ''REJECTED''"

definition review_row ::
  "string \<Rightarrow> string \<Rightarrow> string \<Rightarrow> GatewayProposalLineage \<Rightarrow> AuthorityReviewArtifact \<Rightarrow> string \<Rightarrow> jsval" where
  "review_row proposal_id observation_id observation_hash lin review timestamp = JObj
     [(''review_id'', JStr (ra_review_id review)), (''proposal_id'', JStr proposal_id),
      (''observation_id'', JStr observation_id), (''observation_hash'', JStr observation_hash),
      (''agent_id'', JStr (gl_agent_id lin)), (''session_id'', JStr (gl_session_id lin)),
      (''tool_name'', JStr (gl_tool_name lin)), (''tool_system'', JStr (gl_tool_system lin)),
      (''risk_class'', JStr (gl_risk_class lin)), (''reviewer_id'', JStr (ra_reviewer_id review)),
      (''review_decision'', JStr (decision_str (ra_review_decision review))),
      (''review_rationale'', JStr (ra_review_rationale review)),
      (''creates_atao'', JNum (NInt (if ra_creates_atao review then 1 else 0))), (''created_at'', JStr timestamp)]"

definition atao_row :: "AgentToolATAO \<Rightarrow> string \<Rightarrow> jsval" where
  "atao_row a timestamp = JObj
     [(''atao_id'', JStr (tt_atao_id a)), (''review_id'', JStr (tt_review_id a)),
      (''proposal_id'', JStr (tt_proposal_id a)), (''observation_id'', JStr (tt_observation_id a)),
      (''observation_hash'', JStr (tt_observation_hash a)), (''agent_id'', JStr (tt_agent_id a)),
      (''session_id'', JStr (tt_session_id a)), (''framework'', JStr ''langchain''),
      (''tool_name'', JStr (tt_tool_name a)), (''tool_system'', JStr (tt_tool_system a)),
      (''risk_class'', JStr (tt_risk_class a)), (''intent'', JStr (tt_intent a)),
      (''scope'', JStr (json_stringify (JObj (tt_scope a)))),
      (''constraints'', JStr (json_stringify (JObj (tt_constraints a)))), (''atao_status'', JStr ''FORMED''),
      (''created_at'', JStr timestamp)]"

definition handleAgentToolGatewayAuthorityReview ::
  "string list \<Rightarrow> jsval \<Rightarrow> string \<Rightarrow> (AgentDb, string + (AuthorityReviewArtifact \<times> AgentToolATAO option)) proc" where
  "handleAgentToolGatewayAuthorityReview allowlist b timestamp =
     (if \<not> is_js_object b then Ret (Inl ''malformed_request'')
      else
        let proposal_id = col_text b ''proposal_id''; observation_id = col_text b ''observation_id'';
            observation_hash = col_text b ''observation_hash'' in
        if proposal_id = [] \<or> observation_id = [] \<or> observation_hash = [] then Ret (Inl ''missing_proposal_fields'')
        else proc_bind (fetch (pending_proposal proposal_id observation_id observation_hash)) (\<lambda>p.
          case p of
            None \<Rightarrow> Ret (Inl ''proposal_not_found'')
          | Some row \<Rightarrow>
              let lin = proposal_lineage row in
              case conductAuthorityReview
                     \<lparr>ri_proposal = lin, ri_reviewer_id = col_text b ''reviewer_id'',
                      ri_review_decision = col_text b ''review_decision'',
                      ri_review_rationale = col_text b ''review_rationale'', ri_timestamp = timestamp,
                      ri_permitted_reviewer_ids = Some allowlist\<rparr> of
                Inl r \<Rightarrow> Ret (Inl (review_reason r))
              | Inr (review, atao) \<Rightarrow>
                  proc_bind (atomically (\<lambda>db.
                    (db\<lparr>authority_review_registry :=
                         insert_ignore [[''review_id'']]
                           (review_row proposal_id observation_id observation_hash lin review timestamp)
                           (authority_review_registry db)\<rparr>, ()))) (\<lambda>_.
                  case atao of
                    None \<Rightarrow> Ret (Inr (review, None))
                  | Some a \<Rightarrow>
                      proc_bind (atomically (\<lambda>db.
                        (db\<lparr>agent_tool_atao_registry :=
                             insert_ignore [[''atao_id'']] (atao_row a timestamp) (agent_tool_atao_registry db)\<rparr>, ())))
                        (\<lambda>_. Ret (Inr (review, Some a))))))"

definition handleAgentToolGatewayATAO :: "string \<Rightarrow> (AgentDb, string + jsval) proc" where
  "handleAgentToolGatewayATAO atao_id =
     (if atao_id = [] then Ret (Inl ''missing_atao_id'')
      else proc_bind (fetch (\<lambda>db. find (sql_eq ''atao_id'' atao_id) (agent_tool_atao_registry db))) (\<lambda>a.
        Ret (case a of None \<Rightarrow> Inl ''atao_not_found'' | Some row \<Rightarrow> Inr row)))"

section \<open>Compile\<close>

definition parseGatewayJsonRecord :: "jsval \<Rightarrow> jsval" where
  "parseGatewayJsonRecord raw =
     (case raw of
        JStr s \<Rightarrow> (case json_parse s of Some v \<Rightarrow> canonicalRecord v | None \<Rightarrow> JObj [])
      | _ \<Rightarrow> JObj [])"

definition deriveGatewaySurfaceType :: "jsval \<Rightarrow> string option" where
  "deriveGatewaySurfaceType atao =
     (let toolSystem = col_text atao ''tool_system'';
          toolName = js_lower (col_text atao ''tool_name'');
          scope = parseGatewayJsonRecord (js_get atao ''scope'');
          constraints = parseGatewayJsonRecord (js_get atao ''constraints'');
          hinted = js_lower (js_String_or
            (js_or (js_get scope ''surface'') (js_or (js_get scope ''operation'')
              (js_or (js_get constraints ''surface'') (js_or (js_get constraints ''operation'') (JStr toolName))))) [])
      in
      if toolSystem = ''filesystem'' then
        (if js_includes hinted ''read'' \<and> \<not> js_includes hinted ''write'' then Some ''filesystem_read''
         else Some ''filesystem_write'')
      else if toolSystem = ''shell'' then Some ''shell_exec''
      else if toolSystem = ''github'' \<or> toolSystem = ''http_api'' then Some ''browser''
      else if toolSystem = ''ci_cd'' then Some ''gateway_routing''
      else if toolSystem = ''read_only'' then Some ''filesystem_read''
      else None)"

definition riskClassForGatewayTemplate :: "string \<Rightarrow> string" where
  "riskClassForGatewayTemplate ataoRiskClass =
     (let normalized = js_trim ataoRiskClass in
      if normalized = ''P0'' then ''P0_READ_ONLY''
      else if normalized = ''P1'' then ''P1_EXECUTION_ADJACENT''
      else if normalized = ''P2'' then ''P2_BOUNDED_MUTATION''
      else if normalized = ''P3'' then ''P3_EXTERNAL_MUTATION''
      else normalized)"

definition templateRiskLevel :: "string \<Rightarrow> int" where
  "templateRiskLevel riskClass = (case risk_digits riskClass of None \<Rightarrow> -1 | Some ds \<Rightarrow> int (dec_value ds))"

definition canonicalGatewayCompileAeo :: "jsval \<Rightarrow> string \<Rightarrow> string \<Rightarrow> jsval option" where
  "canonicalGatewayCompileAeo atao authorityDecisionId surfaceType =
     (let ataoScope = parseGatewayJsonRecord (js_get atao ''scope'');
          constraints = parseGatewayJsonRecord (js_get atao ''constraints'');
          target = js_or (canonicalRecord (js_get constraints ''target'')) constraints;
          validation = canonicalRecord (JObj
            [(''atao_id'', JStr (col_text atao ''atao_id'')), (''authority_decision_id'', JStr authorityDecisionId),
             (''require_active_authority'', JBool True), (''require_approved_authority_review'', JBool True),
             (''require_exact_object_hash'', JBool True)]);
          finality = canonicalRecord (JObj
            [(''compile_only'', JBool True), (''execution_created'', JBool False), (''proof_created'', JBool False),
             (''proof_required'', JBool True)])
      in toCanonicalAeo (JObj
        [(''intent'', JStr (col_text atao ''intent'')),
         (''scope'', canonicalRecord (js_set ataoScope ''surface_type'' (JStr surfaceType))),
         (''validation'', validation), (''target'', target), (''finality'', finality)]))"

record CompileRequest =
  cr_expired :: "string \<Rightarrow> bool"
  cr_uuid :: string
  cr_now :: string

record Compiled =
  co_decision_id :: string
  co_authority_id :: string
  co_atao_id :: string
  co_validated_object_hash :: string
  co_canonical_aeo :: jsval
  co_existing :: bool

definition aeo_row :: "string \<Rightarrow> string \<Rightarrow> string \<Rightarrow> string \<Rightarrow> string \<Rightarrow> string \<Rightarrow> jsval" where
  "aeo_row aeo_id authority_id decision_id canonical_aeo validated_object_hash created_at = JObj
     [(''aeo_id'', JStr aeo_id), (''authority_id'', JStr authority_id), (''decision_id'', JStr decision_id),
      (''canonical_aeo'', JStr canonical_aeo), (''validated_object_hash'', JStr validated_object_hash),
      (''status'', JStr ''COMPILED''), (''created_at'', JStr created_at), (''continuity_id'', JNull)]"

text \<open>What the authority must satisfy against the ATAO, with the surface derived from it.\<close>

definition compile_authority_check ::
  "(string \<Rightarrow> bool) \<Rightarrow> jsval \<Rightarrow> jsval \<Rightarrow> string + string" where
  "compile_authority_check expired authority atao =
     (if col_text authority ''status'' \<noteq> ''ACTIVE'' \<or>
         (col_text authority ''expiry'' \<noteq> [] \<and> expired (col_text authority ''expiry'')) then Inl ''authority_not_active''
      else if col_text authority ''session_id'' \<noteq> col_text atao ''session_id'' \<or>
              col_text authority ''intent'' \<noteq> col_text atao ''intent'' then Inl ''authority_mismatch''
      else
        let authorityScope = parseGatewayJsonRecord (js_get authority ''scope'');
            ataoScope = parseGatewayJsonRecord (js_get atao ''scope'')
        in case deriveGatewaySurfaceType atao of
             None \<Rightarrow> Inl ''unknown_surface_type''
           | Some derivedSurface \<Rightarrow>
               let derivedScope = canonicalRecord (js_set ataoScope ''surface_type'' (JStr derivedSurface)) in
               if canonicalize authorityScope \<noteq> canonicalize ataoScope \<and>
                  canonicalize authorityScope \<noteq> canonicalize derivedScope then Inl ''authority_mismatch''
               else Inr derivedSurface)"

definition compile_template_check :: "AEOTemplateNullReason + AEOTemplate \<Rightarrow> string option" where
  "compile_template_check templateResult =
     (case templateResult of
        Inl r \<Rightarrow> Some (if r = SCHEMA_INACTIVE then ''schema_inactive'' else ''unknown_surface_type'')
      | Inr t \<Rightarrow> if templateRiskLevel (tm_risk_floor t) \<ge> 4 then Some ''privileged_surface_blocked'' else None)"

text \<open>The last stage: an AEO of the decision exists already, or it is inserted.\<close>

definition compile_register ::
  "CompileRequest \<Rightarrow> string \<Rightarrow> string \<Rightarrow> string \<Rightarrow> jsval \<Rightarrow> (AgentDb, string + Compiled) proc" where
  "compile_register q authority_decision_id authority_id atao_id canonicalAeo =
     (let canonical_aeo = canonicalize canonicalAeo;
          h = sha256Hex canonical_aeo;
          response = \<lambda>ex. \<lparr>co_decision_id = authority_decision_id, co_authority_id = authority_id, co_atao_id = atao_id,
                            co_validated_object_hash = h, co_canonical_aeo = canonicalAeo, co_existing = ex\<rparr>
      in proc_bind (fetch (\<lambda>db. js_sort (sql_order [''created_at'', ''aeo_id''])
                                  (filter (sql_eq ''decision_id'' authority_decision_id) (agent_aeo_registry db)))) (\<lambda>existingRows.
         if length existingRows > 0 then
           (if find (\<lambda>row. col_text row ''validated_object_hash'' = h \<and> col_text row ''canonical_aeo'' = canonical_aeo)
                 existingRows \<noteq> None \<and> length existingRows = 1
            then Ret (Inr (response True)) else Ret (Inl ''duplicate_compile''))
         else
           atomically (\<lambda>db.
             let row = aeo_row (cr_uuid q) authority_id authority_decision_id canonical_aeo h (cr_now q) in
             if sql_conflict [[''aeo_id'']] row (agent_aeo_registry db) then (db, Inl ''compile_exception'')
             else (db\<lparr>agent_aeo_registry := agent_aeo_registry db @ [row]\<rparr>, Inr (response False)))))"

definition handleAgentToolGatewayCompile ::
  "CompileRequest \<Rightarrow> jsval \<Rightarrow> (AgentDb, string + Compiled) proc" where
  "handleAgentToolGatewayCompile q b =
     (if \<not> is_js_object b then Ret (Inl ''malformed_request'')
      else
        let atao_id = col_text b ''atao_id''; authority_decision_id = col_text b ''authority_decision_id'' in
        if atao_id = [] then Ret (Inl ''missing_atao_id'')
        else if authority_decision_id = [] then Ret (Inl ''missing_authority_decision_id'')
        else proc_bind (fetch (\<lambda>db. find (sql_all [(''atao_id'', atao_id), (''atao_status'', ''FORMED'')])
                                     (agent_tool_atao_registry db))) (\<lambda>a0.
        case a0 of None \<Rightarrow> Ret (Inl ''atao_not_found'') | Some atao \<Rightarrow>
        proc_bind (fetch (\<lambda>db. find (sql_all
            [(''review_id'', col_text atao ''review_id''), (''proposal_id'', col_text atao ''proposal_id''),
             (''observation_id'', col_text atao ''observation_id''), (''observation_hash'', col_text atao ''observation_hash'')])
            (authority_review_registry db))) (\<lambda>r0.
        case r0 of None \<Rightarrow> Ret (Inl ''authority_review_not_approved'') | Some review \<Rightarrow>
        if col_text review ''review_decision'' \<noteq> ''APPROVED'' \<or> js_get review ''creates_atao'' \<noteq> JNum (NInt 1)
        then Ret (Inl ''authority_review_not_approved'')
        else proc_bind (fetch (\<lambda>db. find (sql_eq ''decision_id'' authority_decision_id) (agent_authority_registry db))) (\<lambda>u0.
        case u0 of None \<Rightarrow> Ret (Inl ''authority_missing'') | Some authority \<Rightarrow>
        case compile_authority_check (cr_expired q) authority atao of Inl reason \<Rightarrow> Ret (Inl reason) | Inr derivedSurface \<Rightarrow>
        proc_bind (fetch (\<lambda>db. selectAEOTemplate derivedSurface
            (riskClassForGatewayTemplate (col_text atao ''risk_class'')) (agent_template_registry db))) (\<lambda>t.
        case compile_template_check t of Some reason \<Rightarrow> Ret (Inl reason) | None \<Rightarrow>
        case canonicalGatewayCompileAeo atao authority_decision_id derivedSurface of
          None \<Rightarrow> Ret (Inl ''invalid_canonical_aeo'')
        | Some canonicalAeo \<Rightarrow>
            if col_text b ''validated_object_hash'' \<noteq> [] \<and>
               col_text b ''validated_object_hash'' \<noteq> sha256Hex (canonicalize canonicalAeo)
            then Ret (Inl ''hash_mismatch'')
            else compile_register q authority_decision_id (col_text authority ''authority_id'') atao_id canonicalAeo)))))"

section \<open>The invocation boundary\<close>

datatype PolicyClass = TOOL_RUNTIME_MUTATION | TOOL_RECONCILIATION_READONLY | TOOL_UNKNOWN

fun policy_class_str :: "PolicyClass \<Rightarrow> string" where
  "policy_class_str TOOL_RUNTIME_MUTATION = ''TOOL_RUNTIME_MUTATION''"
| "policy_class_str TOOL_RECONCILIATION_READONLY = ''TOOL_RECONCILIATION_READONLY''"
| "policy_class_str TOOL_UNKNOWN = ''TOOL_UNKNOWN''"

definition classifyToolSurface :: "jsval \<Rightarrow> string \<times> PolicyClass" where
  "classifyToolSurface target =
     (let surface = js_String_or (js_or (js_get target ''tool_surface'')
            (js_or (js_get target ''execution_surface'') (js_get target ''surface''))) ''deploy_runtime''
      in
      if surface \<in> set [''deploy_runtime'', ''runtime_mutation'', ''state_mutation''] then (surface, TOOL_RUNTIME_MUTATION)
      else if surface \<in> set [''reconciliation_readonly'', ''observability_readonly'']
        then (surface, TOOL_RECONCILIATION_READONLY)
      else (surface, TOOL_UNKNOWN))"

datatype InvocationResponse =
    INV_NULL string
  | READONLY_OBSERVED string
  | PROVEN string
  | INV_THROWS

definition invocation_required :: "string list" where
  "invocation_required =
     [''atao_id'', ''atao_hash'', ''session_id'', ''continuity_id'', ''authority_id'', ''decision_id'',
      ''validated_object_hash'', ''invocation_nonce'', ''execution_id'', ''proof_id'']"

record InvocationEnv =
  iv_uuid :: string
  iv_now_session :: string
  iv_now_continuity :: string
  iv_now_insert :: string

definition invocation_row :: "InvocationEnv \<Rightarrow> jsval \<Rightarrow> jsval" where
  "invocation_row e b = JObj
     [(''invocation_id'', JStr (iv_uuid e)), (''atao_hash'', JStr (col_text b ''atao_hash'')),
      (''decision_id'', JStr (col_text b ''decision_id'')),
      (''validated_object_hash'', JStr (col_text b ''validated_object_hash'')),
      (''invocation_nonce'', JStr (col_text b ''invocation_nonce'')), (''execution_id'', JStr (col_text b ''execution_id'')),
      (''proof_id'', JStr (col_text b ''proof_id'')), (''status'', JStr ''PROVEN''),
      (''created_at'', JStr (iv_now_insert e))]"

text \<open>The compiled object is re-read from its text and re-hashed.\<close>

definition recompiled_aeo :: "jsval \<Rightarrow> string \<Rightarrow> jsval option" where
  "recompiled_aeo compiled validated_object_hash =
     (case json_parse (js_String_or (js_get compiled ''canonical_aeo'') ''{}'') of
        None \<Rightarrow> None
      | Some v \<Rightarrow>
          (case toCanonicalAeo v of
             None \<Rightarrow> None
           | Some aeo \<Rightarrow>
               if sha256Hex (canonicalize aeo) = validated_object_hash \<and>
                  sha256Hex (canonicalize aeo) = col_text compiled ''validated_object_hash''
               then Some aeo else None))"

text \<open>The surface and the risk class against which the template is checked.\<close>

definition invocation_surface :: "jsval \<Rightarrow> string" where
  "invocation_surface aeo = col_text (js_get aeo ''scope'') ''surface_type''"

definition invocation_risk :: "jsval \<Rightarrow> jsval \<Rightarrow> string" where
  "invocation_risk b aeo = js_String_or (js_or (js_get (js_get aeo ''scope'') ''aeo_risk_class'') (js_get b ''aeo_risk_class''))
     ''P0_READ_ONLY''"

fun template_reason :: "AEOTemplateNullReason \<Rightarrow> string" where
  "template_reason TEMPLATE_NOT_FOUND = ''aeo_template_template_not_found''"
| "template_reason SCHEMA_INACTIVE = ''aeo_template_schema_inactive''"
| "template_reason TEMPLATE_SURFACE_MISMATCH = ''aeo_template_template_surface_mismatch''"
| "template_reason RISK_FLOOR_VIOLATION = ''aeo_template_risk_floor_violation''"

text \<open>The lookups after the compiled object: validation, execution, proof, and the record.\<close>

definition invocation_evidence :: "InvocationEnv \<Rightarrow> jsval \<Rightarrow> (AgentDb, InvocationResponse) proc" where
  "invocation_evidence e b =
     (let t = col_text b in
      proc_bind (fetch (\<lambda>db. find (sql_all
          [(''decision_id'', t ''decision_id''), (''validated_object_hash'', t ''validated_object_hash''),
           (''invocation_nonce'', t ''invocation_nonce''), (''session_id'', t ''session_id''),
           (''continuity_id'', t ''continuity_id''), (''status'', ''VALID''), (''result'', ''VALID'')])
          (agent_validation_registry db))) (\<lambda>v0.
      case v0 of None \<Rightarrow> Ret (INV_NULL ''validation_missing'') | Some validation \<Rightarrow>
      proc_bind (fetch (\<lambda>db. find (sql_all
          [(''execution_id'', t ''execution_id''), (''decision_id'', t ''decision_id''),
           (''validated_object_hash'', t ''validated_object_hash''), (''invocation_nonce'', t ''invocation_nonce''),
           (''session_id'', t ''session_id''), (''continuity_id'', t ''continuity_id''), (''status'', ''EXECUTED'')])
          (agent_execution_registry db))) (\<lambda>x0.
      case x0 of None \<Rightarrow> Ret (INV_NULL ''execution_missing'') | Some execution \<Rightarrow>
      if col_text validation ''validated_object_hash'' \<noteq> col_text execution ''validated_object_hash''
      then Ret (INV_NULL ''validated_object_execution_mismatch'')
      else proc_bind (fetch (\<lambda>db. find (sql_all
          [(''proof_id'', t ''proof_id''), (''execution_id'', t ''execution_id''), (''decision_id'', t ''decision_id''),
           (''validated_object_hash'', t ''validated_object_hash''), (''session_id'', t ''session_id''),
           (''continuity_id'', t ''continuity_id'')])
          (agent_proof_registry db))) (\<lambda>p0.
      case p0 of None \<Rightarrow> Ret (INV_NULL ''proof_missing'') | Some _ \<Rightarrow>
      atomically (\<lambda>db.
        if sql_conflict [[''invocation_id''], [''atao_hash'', ''decision_id'', ''validated_object_hash'', ''invocation_nonce'']]
             (invocation_row e b) (agent_tool_invocation_registry db)
        then (db, INV_NULL ''agent_tool_invocation_replay'')
        else (db\<lparr>agent_tool_invocation_registry := agent_tool_invocation_registry db @ [invocation_row e b]\<rparr>,
              PROVEN (col_text execution ''validated_object_hash'')))))))"

definition handleAgentToolInvocationBoundary :: "InvocationEnv \<Rightarrow> jsval \<Rightarrow> (AgentDb, InvocationResponse) proc" where
  "handleAgentToolInvocationBoundary e b =
     (if is_nullish b then Ret INV_THROWS
      else
        let target = canonicalRecord (if isPlainObject (js_get b ''target'') then js_get b ''target''
              else JObj [(''tool_surface'', js_get b ''tool_surface''),
                         (''execution_surface'', js_get b ''execution_surface''), (''surface'', js_get b ''surface'')]);
            (tool_surface, cls) = classifyToolSurface target;
            policy_class = js_String_or (js_get b ''policy_class'') (policy_class_str cls);
            t = col_text b
        in
        if policy_class = ''TOOL_RECONCILIATION_READONLY'' then Ret (READONLY_OBSERVED tool_surface)
        else if policy_class \<noteq> ''TOOL_RUNTIME_MUTATION'' then Ret (INV_NULL ''policy_class_invalid'')
        else case find (\<lambda>field. t field = []) invocation_required of
          Some field \<Rightarrow> Ret (INV_NULL (''missing_'' @ field))
        | None \<Rightarrow>
          proc_bind (fetch (\<lambda>db. find (sql_all [(''atao_id'', t ''atao_id''), (''atao_hash'', t ''atao_hash''),
              (''session_id'', t ''session_id''), (''status'', ''CAPTURED'')]) (agent_tool_call_atao_registry db))) (\<lambda>a0.
          case a0 of None \<Rightarrow> Ret (INV_NULL ''atao_missing'') | Some _ \<Rightarrow>
          proc_bind (fetch (\<lambda>db. find (\<lambda>r. sql_all [(''session_id'', t ''session_id''), (''continuity_status'', ''ACTIVE'')] r \<and>
              iv_now_session e < sql_text r ''expires_at'') (agent_session_registry db))) (\<lambda>s0.
          case s0 of None \<Rightarrow> Ret (INV_NULL ''invalid_session'') | Some session \<Rightarrow>
          proc_bind (fetch (\<lambda>db. find (\<lambda>r. sql_all [(''continuity_id'', t ''continuity_id''), (''session_id'', t ''session_id''),
              (''identity_id'', col_text session ''identity_id''), (''status'', ''ACTIVE'')] r \<and>
              is_nullish (js_get r ''revoked_at'') \<and> iv_now_continuity e < sql_text r ''expires_at'')
              (agent_continuity_registry db))) (\<lambda>c0.
          case c0 of None \<Rightarrow> Ret (INV_NULL ''invalid_continuity'') | Some _ \<Rightarrow>
          proc_bind (fetch (\<lambda>db. find (sql_all [(''authority_id'', t ''authority_id''), (''decision_id'', t ''decision_id''),
              (''session_id'', t ''session_id''), (''continuity_id'', t ''continuity_id'')]) (agent_authority_registry db))) (\<lambda>u0.
          case u0 of None \<Rightarrow> Ret (INV_NULL ''authority_missing'') | Some authority \<Rightarrow>
          if col_text authority ''status'' \<notin> set [''EXECUTED'', ''CONSUMED'', ''RESERVED'', ''VALIDATED'']
          then Ret (INV_NULL ''authority_unusable'')
          else proc_bind (fetch (\<lambda>db. find (sql_all [(''decision_id'', t ''decision_id''), (''authority_id'', t ''authority_id''),
              (''continuity_id'', t ''continuity_id''), (''validated_object_hash'', t ''validated_object_hash''),
              (''status'', ''COMPILED'')]) (agent_aeo_registry db))) (\<lambda>m0.
          case m0 of None \<Rightarrow> Ret (INV_NULL ''compiled_aeo_missing'') | Some compiled \<Rightarrow>
          case recompiled_aeo compiled (t ''validated_object_hash'') of
            None \<Rightarrow> Ret (INV_NULL ''compiled_aeo_hash_mismatch'')
          | Some aeo \<Rightarrow>
              if invocation_surface aeo = [] then invocation_evidence e b
              else if t ''surface_type'' \<noteq> [] \<and> t ''surface_type'' \<noteq> invocation_surface aeo
              then Ret (INV_NULL ''aeo_template_surface_type_mismatch'')
              else proc_bind (fetch (\<lambda>db. selectAEOTemplate (invocation_surface aeo) (invocation_risk b aeo)
                      (agent_template_registry db))) (\<lambda>tmpl.
                case tmpl of Inl r \<Rightarrow> Ret (INV_NULL (template_reason r)) | Inr _ \<Rightarrow> invocation_evidence e b)))))))"

section \<open>Dispatch\<close>

datatype AgentRequest =
    Req_Intercept jsval string
  | Req_Propose jsval
  | Req_Review "string list" jsval string
  | Req_ATAO string
  | Req_Compile CompileRequest jsval
  | Req_Invoke InvocationEnv jsval

datatype AgentResponse =
    Res_Intercept "string + Intercepted"
  | Res_Row "string + jsval"
  | Res_Review "string + (AuthorityReviewArtifact \<times> AgentToolATAO option)"
  | Res_Compile "string + Compiled"
  | Res_Invoke InvocationResponse

fun agent_handler :: "AgentRequest \<Rightarrow> (AgentDb, AgentResponse) proc" where
  "agent_handler (Req_Intercept b ts) = proc_bind (handleAgentToolGatewayIntercept b ts) (\<lambda>r. Ret (Res_Intercept r))"
| "agent_handler (Req_Propose b) = proc_bind (handleAgentToolGatewayPropose b) (\<lambda>r. Ret (Res_Row r))"
| "agent_handler (Req_Review allow b ts) =
     proc_bind (handleAgentToolGatewayAuthorityReview allow b ts) (\<lambda>r. Ret (Res_Review r))"
| "agent_handler (Req_ATAO i) = proc_bind (handleAgentToolGatewayATAO i) (\<lambda>r. Ret (Res_Row r))"
| "agent_handler (Req_Compile q b) = proc_bind (handleAgentToolGatewayCompile q b) (\<lambda>r. Ret (Res_Compile r))"
| "agent_handler (Req_Invoke e b) = proc_bind (handleAgentToolInvocationBoundary e b) (\<lambda>r. Ret (Res_Invoke r))"

end
