(* ===== verification/Agent_Gateway_Facts.thy ===== *)
theory Agent_Gateway_Facts
  imports Agent_Gateway
begin

text \<open>
  What the agent tool gateway guarantees: which templates are selected, how a tool name is
  classified, what an interception produces, and when the chain from a validator binding to an
  execution-boundary proof yields a proof.
\<close>

section \<open>Hashes and field tests\<close>

lemma hex_char_not_ws: "c \<in> hex_chars \<Longrightarrow> \<not> js_ws c"
  by (auto simp: hex_chars_def js_ws_def hex_digit_def split: if_splits)

lemma nonblank_hashCanonical [simp]: "nonblank (hashCanonical v)"
proof -
  obtain c where "c \<in> set (sha256Hex (canonicalize v))" by (meson last_in_set sha256Hex_not_Nil)
  then show ?thesis using sha256Hex_chars hex_char_not_ws by (auto simp: nonblank_iff hashCanonical_def)
qed

lemma nonblank_str_Some: "nonblank_str v = Some s \<longleftrightarrow> v = JStr s \<and> nonblank s"
  by (auto simp: nonblank_str_def split: jsval.splits if_splits)

lemma nonblank_str_None: "nonblank_str v = None \<longleftrightarrow> \<not> isNonBlankString v"
  by (cases v) (auto simp: nonblank_str_def)

lemma createValidatorBinding_Some:
  "createValidatorBinding t v p h l = Some b \<longleftrightarrow>
     t = JStr (vb_template_id b) \<and> nonblank (vb_template_id b) \<and>
     v = JStr (vb_schema_version b) \<and> nonblank (vb_schema_version b) \<and>
     p = JStr (vb_predicate_set_id b) \<and> nonblank (vb_predicate_set_id b) \<and>
     h = JStr (vb_predicate_hash b) \<and> nonblank (vb_predicate_hash b) \<and>
     l = JStr (vb_lineage_version b) \<and> nonblank (vb_lineage_version b)"
  by (cases b) (auto simp: createValidatorBinding_def nonblank_str_Some nonblank_str_None split: option.splits)

section \<open>The chain\<close>

lemma contract_Some:
  "createPredicateVerificationContract (Some b) (Some d) \<noteq> None \<longleftrightarrow>
     pd_side_effects_allowed d = JBool False \<and> nonblank (vb_template_id b) \<and> nonblank (vb_schema_version b) \<and>
     nonblank (vb_predicate_set_id b) \<and> nonblank (vb_predicate_hash b) \<and> nonblank (vb_lineage_version b) \<and>
     vb_predicate_set_id b = pd_predicate_set_id d \<and> vb_predicate_hash b = pd_predicate_hash d \<and>
     vb_lineage_version b = pd_lineage_version d"
  by (simp add: createPredicateVerificationContract_def)

lemma contract_of_binding:
  "createPredicateVerificationContract (createValidatorBinding t v p h l) d \<noteq> None \<longleftrightarrow>
    (\<exists>b q. createValidatorBinding t v p h l = Some b \<and> d = Some q \<and> pd_side_effects_allowed q = JBool False \<and>
       vb_predicate_set_id b = pd_predicate_set_id q \<and> vb_predicate_hash b = pd_predicate_hash q \<and>
       vb_lineage_version b = pd_lineage_version q)"
proof (cases "createValidatorBinding t v p h l"; cases d)
  fix b q assume b: "createValidatorBinding t v p h l = Some b" and d: "d = Some q"
  show ?thesis unfolding b d contract_Some using b [unfolded createValidatorBinding_Some] by auto
qed (simp_all add: createPredicateVerificationContract_def)

text \<open>A contract the code made itself is always accepted by the next stage.\<close>

lemma envelope_of_contract:
  assumes "createPredicateVerificationContract b d = Some c"
  shows "\<exists>e. createOmegaValidatorInputEnvelope (Some c) = Some e \<and> oe_contract_id e = pc_contract_id c \<and>
    nonblank (oe_contract_id e) \<and> nonblank (oe_template_id e) \<and> nonblank (oe_predicate_set_id e) \<and>
    nonblank (oe_predicate_hash e) \<and> nonblank (oe_lineage_version e) \<and>
    oe_predicate_hash e = pc_predicate_hash c \<and> oe_lineage_version e = pc_lineage_version c \<and>
    oe_envelope_id e = hashCanonical (envelopeMaterial (oe_contract_id e) (oe_template_id e) (oe_predicate_set_id e)
      (oe_predicate_hash e) (oe_lineage_version e))"
  using assms
  by (auto simp: createPredicateVerificationContract_def createOmegaValidatorInputEnvelope_def
      split: option.splits if_splits)

lemma evaluate_envelope:
  assumes "createOmegaValidatorInputEnvelope (Some c) = Some e"
  shows "evaluateOmegaValidator (Some e) ctxt =
    (if js_truthy ctxt \<and> conditions_ok (js_get ctxt ''conditions'')
     then (let k = conditionsOf (js_get ctxt ''conditions''); r = checkOmegaValidatorBoundary k in
           Some \<lparr>oo_outcome_id = hashCanonical (outcomeMaterial (oe_envelope_id e) (oe_contract_id e)
                   (oe_predicate_hash e) (oe_lineage_version e) r (conditionsJs k)),
                 oo_envelope_id = oe_envelope_id e, oo_contract_id = oe_contract_id e,
                 oo_predicate_hash = oe_predicate_hash e, oo_lineage_version = oe_lineage_version e,
                 oo_result = r, oo_conditions = conditionsJs k\<rparr>)
     else None)"
  using assms by (auto simp: createOmegaValidatorInputEnvelope_def evaluateOmegaValidator_def split: if_splits)

lemma conditions_ok_Js [simp]: "conditions_ok (conditionsJs k)"
  by (simp add: conditions_ok_def conditionsJs_def OMEGA_CONDITION_KEYS_def)

lemma all_conditions_true:
  "conditions_ok v \<and> checkOmegaValidatorBoundary (conditionsOf v) = OMEGA_VALID \<longleftrightarrow>
     (\<forall>key\<in>set OMEGA_CONDITION_KEYS. js_get v key = JBool True)"
proof -
  have b: "js_get v key = JBool True \<Longrightarrow> is_js_object v" for key by (cases v) auto
  have "is_bool (js_get v key) \<or> js_get v key \<noteq> JBool True" for key by (cases "js_get v key") auto
  then show ?thesis
    using b [of "''valid''"]
    by (auto simp: conditions_ok_def conditionsOf_def checkOmegaValidatorBoundary_def OMEGA_CONDITION_KEYS_def)
qed

lemma capture_Some_iff:
  "captureExecutionBoundaryProof (Some u) \<noteq> None \<longleftrightarrow>
     oo_result u = OMEGA_VALID \<and> nonblank (oo_envelope_id u) \<and> nonblank (oo_contract_id u) \<and>
     nonblank (oo_predicate_hash u) \<and> nonblank (oo_lineage_version u) \<and> conditions_ok (oo_conditions u) \<and>
     oo_outcome_id u = hashCanonical (outcomeMaterial (oo_envelope_id u) (oo_contract_id u) (oo_predicate_hash u)
       (oo_lineage_version u) (oo_result u) (oo_conditions u))"
  by (auto simp: captureExecutionBoundaryProof_def) (metis nonblank_hashCanonical)

lemma js_get_truthy: "js_get v k \<noteq> JUndef \<Longrightarrow> js_truthy v"
  by (cases v) auto

section \<open>Classification\<close>

lemma risk_table_keys: "distinct (map fst GATEWAY_TOOL_RISK_TABLE)"
  by (simp add: GATEWAY_TOOL_RISK_TABLE_def)

lemma classify_table: "(normalized_tool_name n, e) \<in> set GATEWAY_TOOL_RISK_TABLE \<Longrightarrow> classifyGatewayToolSurface n = e"
  using map_of_is_SomeI [OF risk_table_keys] by (simp add: classifyGatewayToolSurface_def)

lemma classify_read:
  "map_of GATEWAY_TOOL_RISK_TABLE (normalized_tool_name n) = None \<Longrightarrow> read_name (normalized_tool_name n) \<Longrightarrow>
   classifyGatewayToolSurface n = (TS_read_only, RC_P0)"
  by (simp add: classifyGatewayToolSurface_def)

lemma riskLevel_class: "0 \<le> riskLevel (risk_class_str r) \<and> riskLevel (risk_class_str r) \<le> 3"
  by (cases r) (simp_all add: riskLevel_def is_digit_def dec_value_def)

section \<open>Properties\<close>

text \<open>
  C25. The chain from binding to proof: with any five binding fields, predicate and context, a
  proof comes out of the composition of the four stages exactly when the fields are strings that
  are not blank, the predicate is declared free of side effects and has the set id, hash and
  lineage version of the binding, and all seven conditions are \<^verbatim>\<open>true\<close>. No stage refuses what
  the stage before it has made.
\<close>

theorem omega_chain_proof_iff:
  "captureExecutionBoundaryProof (evaluateOmegaValidator (createOmegaValidatorInputEnvelope
      (createPredicateVerificationContract (createValidatorBinding t v p h l) d)) ctxt) \<noteq> None \<longleftrightarrow>
    (\<exists>b q. createValidatorBinding t v p h l = Some b \<and> d = Some q \<and> pd_side_effects_allowed q = JBool False \<and>
       vb_predicate_set_id b = pd_predicate_set_id q \<and> vb_predicate_hash b = pd_predicate_hash q \<and>
       vb_lineage_version b = pd_lineage_version q) \<and>
    list_all (\<lambda>key. js_get (js_get ctxt ''conditions'') key = JBool True) OMEGA_CONDITION_KEYS"
proof (cases "createPredicateVerificationContract (createValidatorBinding t v p h l) d")
  case None
  then show ?thesis using contract_of_binding [of t v p h l d]
    by (simp add: createOmegaValidatorInputEnvelope_def evaluateOmegaValidator_def captureExecutionBoundaryProof_def)
next
  case (Some c)
  then have m: "\<exists>b q. createValidatorBinding t v p h l = Some b \<and> d = Some q \<and> pd_side_effects_allowed q = JBool False \<and>
      vb_predicate_set_id b = pd_predicate_set_id q \<and> vb_predicate_hash b = pd_predicate_hash q \<and>
      vb_lineage_version b = pd_lineage_version q"
    using contract_of_binding [of t v p h l d] by blast
  obtain e where e: "createOmegaValidatorInputEnvelope (Some c) = Some e" and
    nb: "nonblank (oe_contract_id e)" "nonblank (oe_predicate_hash e)" "nonblank (oe_lineage_version e)"
      "nonblank (oe_envelope_id e)"
    using envelope_of_contract [OF Some] by (metis nonblank_hashCanonical)
  let ?k = "js_get ctxt ''conditions''"
  have "captureExecutionBoundaryProof (evaluateOmegaValidator (Some e) ctxt) \<noteq> None \<longleftrightarrow>
      js_truthy ctxt \<and> conditions_ok ?k \<and> checkOmegaValidatorBoundary (conditionsOf ?k) = OMEGA_VALID"
  proof (cases "js_truthy ctxt \<and> conditions_ok ?k")
    case True
    show ?thesis
      unfolding evaluate_envelope [OF e] Let_def if_P [OF True] capture_Some_iff using nb True by simp
  next
    case False
    show ?thesis unfolding evaluate_envelope [OF e] if_not_P [OF False]
      using False by (auto simp: captureExecutionBoundaryProof_def)
  qed
  also have "\<dots> \<longleftrightarrow> (\<forall>key\<in>set OMEGA_CONDITION_KEYS. js_get ?k key = JBool True)"
  proof -
    have "js_truthy ctxt" if "js_get ?k ''valid'' = JBool True"
      using that by (intro js_get_truthy [of ctxt "''conditions''"]) auto
    then show ?thesis using all_conditions_true [of ?k] by (auto simp: OMEGA_CONDITION_KEYS_def)
  qed
  finally show ?thesis using Some e m by (simp add: list_all_iff)
qed

text \<open>
  The integrity check of the last stage is a check of the outcome against itself: an outcome
  with the verdict VALID and all seven conditions false, whose id is the hash of its own fields,
  is given a proof. Nothing compares the verdict with the conditions.
\<close>

theorem self_hashed_outcome_proven:
  "\<exists>u. oo_result u = OMEGA_VALID \<and>
     list_all (\<lambda>key. js_get (oo_conditions u) key = JBool False) OMEGA_CONDITION_KEYS \<and>
     captureExecutionBoundaryProof (Some u) \<noteq> None"
proof -
  define k where "k = conditionsJs \<lparr>oc_valid = False, oc_authorized = False, oc_unused = False, oc_policy_valid = False,
    oc_replay_safe = False, oc_topology_visible = False, oc_reconcilable = False\<rparr>"
  define u where "u = \<lparr>oo_outcome_id = hashCanonical (outcomeMaterial ''e'' ''c'' ''h'' ''l'' OMEGA_VALID k),
    oo_envelope_id = ''e'', oo_contract_id = ''c'', oo_predicate_hash = ''h'', oo_lineage_version = ''l'',
    oo_result = OMEGA_VALID, oo_conditions = k\<rparr>"
  have "captureExecutionBoundaryProof (Some u) \<noteq> None"
    unfolding capture_Some_iff by (simp add: u_def k_def js_ws_def)
  moreover have "list_all (\<lambda>key. js_get (oo_conditions u) key = JBool False) OMEGA_CONDITION_KEYS"
    by (simp add: u_def k_def conditionsJs_def OMEGA_CONDITION_KEYS_def)
  ultimately show ?thesis by (intro exI [of _ u]) (simp add: u_def)
qed

text \<open>
  Template selection, exactly: a template is selected when the first row of the surface is
  ACTIVE and its risk floor is not above the level of the request; otherwise the reason says
  which of the two failed, or that there is no row. The mismatch branch is never taken, since
  the row was looked up by its surface.
\<close>

theorem selectAEOTemplate_cases:
  "(selectAEOTemplate s r db = Inl TEMPLATE_NOT_FOUND \<longleftrightarrow> find (sql_eq ''surface_type'' s) db = None) \<and>
   (selectAEOTemplate s r db = Inl SCHEMA_INACTIVE \<longleftrightarrow>
      (\<exists>row. find (sql_eq ''surface_type'' s) db = Some row \<and> col_text row ''status'' \<noteq> ''ACTIVE'')) \<and>
   (selectAEOTemplate s r db = Inl RISK_FLOOR_VIOLATION \<longleftrightarrow>
      (\<exists>row. find (sql_eq ''surface_type'' s) db = Some row \<and> col_text row ''status'' = ''ACTIVE'' \<and>
         riskLevel r < riskLevel (col_text row ''risk_floor''))) \<and>
   selectAEOTemplate s r db \<noteq> Inl TEMPLATE_SURFACE_MISMATCH \<and>
   ((\<exists>t. selectAEOTemplate s r db = Inr t) \<longleftrightarrow>
      (\<exists>row. find (sql_eq ''surface_type'' s) db = Some row \<and> col_text row ''status'' = ''ACTIVE'' \<and>
         riskLevel (col_text row ''risk_floor'') \<le> riskLevel r))"
proof (cases "find (sql_eq ''surface_type'' s) db")
  case (Some row)
  then have "sql_eq ''surface_type'' s row" by (auto simp: find_Some_iff)
  then have "col_text row ''surface_type'' = s" by (simp add: sql_eq_def col_text_def js_String_or_def)
  then show ?thesis using Some by (auto simp: selectAEOTemplate_def Let_def)
qed (simp add: selectAEOTemplate_def)

text \<open>
  A tool in the risk table is classified by its entry whatever the case of its letters and
  whether its words are joined by dashes, spaces or underscores.
\<close>

theorem risk_table_modulo_spelling:
  assumes "(k, e) \<in> set GATEWAY_TOOL_RISK_TABLE" and "normalized_tool_name n = k"
  shows "classifyGatewayToolSurface n = e"
  using assms by (intro classify_table) simp

theorem risk_table_modulo_spelling_witness:
  "classifyGatewayToolSurface ''Shell-Exec'' = (TS_shell, RC_P3) \<and>
   classifyGatewayToolSurface ''DELETE FILE'' = (TS_filesystem, RC_P2)"
proof -
  have "normalized_tool_name ''Shell-Exec'' = ''shell_exec''" "normalized_tool_name ''DELETE FILE'' = ''delete_file''"
    by code_simp+
  then show ?thesis
    using risk_table_modulo_spelling [of "''shell_exec''" "(TS_shell, RC_P3)" "''Shell-Exec''"]
      risk_table_modulo_spelling [of "''delete_file''" "(TS_filesystem, RC_P2)" "''DELETE FILE''"]
    by (simp add: GATEWAY_TOOL_RISK_TABLE_def)
qed

text \<open>
  The reading prefixes win over everything that follows them: a tool that is not in the table
  and whose name starts with one of them is classified as read only with the lowest risk and
  without an authority binding, whatever the rest of the name says.
\<close>

theorem read_prefix_overrides:
  assumes "p \<in> set read_prefixes" and "normalized_tool_name n = p @ rest"
    and "map_of GATEWAY_TOOL_RISK_TABLE (p @ rest) = None"
  shows "classifyGatewayToolSurface n = (TS_read_only, RC_P0) \<and>
    \<not> ci_requires_authority_binding (formCIPProposal (formObservationArtifact a s n i t) h intent scope c)"
proof -
  have "read_name (normalized_tool_name n)"
    using assms(1,2) by (auto simp: read_name_def list_ex_iff js_starts_with_iff)
  then have "classifyGatewayToolSurface n = (TS_read_only, RC_P0)"
    using assms(2,3) by (intro classify_read) simp_all
  then show ?thesis by (simp add: formCIPProposal_def formObservationArtifact_def)
qed

theorem read_prefix_overrides_witness:
  "classifyGatewayToolSurface ''query_then_delete_database'' = (TS_read_only, RC_P0)"
proof -
  have "normalized_tool_name ''query_then_delete_database'' = ''query_'' @ ''then_delete_database''"
    by (simp add: normalized_tool_name_def js_lower_def js_lower_char_def js_ws_def)
  moreover have "''query_'' \<in> set read_prefixes" by (simp add: read_prefixes_def)
  moreover have "map_of GATEWAY_TOOL_RISK_TABLE (''query_'' @ ''then_delete_database'') = None"
    by (simp add: GATEWAY_TOOL_RISK_TABLE_def)
  ultimately show ?thesis using read_prefix_overrides by blast
qed

text \<open>
  Interception: the call is intercepted exactly when it names a tool, an agent, a session and
  an intent. The proposal then carries the hash of the observation, the ids chain from the
  observation through the interception to the proposal, tool, session, scope and constraints are
  those of the call, and an authority binding is required unless the risk class is the lowest.
\<close>

theorem interceptToolCall_iff:
  "(\<exists>x. interceptToolCall i = Inr x) = (ii_tool_name i \<noteq> [] \<and> ii_agent_id i \<noteq> [] \<and> ii_session_id i \<noteq> [] \<and> ii_intent i \<noteq> []) \<and>
   (\<forall>x\<in>{x. interceptToolCall i = Inr x}.
      ic_observation_hash x = hashCanonical (observationJs (ic_observation x)) \<and>
      gpr_proposal_id (ic_proposal x) = ''proposal:cip:'' @ ob_observation_id (ic_observation x) @ '':'' @ ic_observation_hash x \<and>
      gpr_observation_hash (ic_proposal x) = ic_observation_hash x \<and>
      gpr_observation_id (ic_proposal x) = ob_observation_id (ic_observation x) \<and>
      gpr_tool_name (ic_proposal x) = ii_tool_name i \<and> gpr_session_id (ic_proposal x) = ii_session_id i \<and>
      gpr_agent_id (ic_proposal x) = ii_agent_id i \<and> gpr_intent (ic_proposal x) = ii_intent i \<and>
      gpr_scope (ic_proposal x) = ii_scope i \<and> gpr_constraints (ic_proposal x) = ii_constraints i \<and>
      (gpr_tool_system (ic_proposal x), gpr_risk_class (ic_proposal x)) = classifyGatewayToolSurface (ii_tool_name i) \<and>
      (gpr_requires_authority_binding (ic_proposal x) \<longleftrightarrow> gpr_risk_class (ic_proposal x) \<noteq> RC_P0))"
  by (auto simp: interceptToolCall_def Let_def formGovernanceProposal_def formCIPProposal_def
      formObservationArtifact_def split: prod.splits if_splits)

theorem interceptToolCall_iff_witness:
  "\<exists>x. interceptToolCall \<lparr>ii_agent_id = ''a'', ii_session_id = ''s'', ii_tool_name = ''shell_exec'', ii_tool_input = [],
      ii_intent = ''i'', ii_scope = [], ii_constraints = [], ii_timestamp = ''t''\<rparr> = Inr x"
  using interceptToolCall_iff [of "\<lparr>ii_agent_id = ''a'', ii_session_id = ''s'', ii_tool_name = ''shell_exec'',
      ii_tool_input = [], ii_intent = ''i'', ii_scope = [], ii_constraints = [], ii_timestamp = ''t''\<rparr>"] by simp

end
