(* ===== verification/Rely_Guarantee.thy ===== *)
theory Rely_Guarantee
  imports Prelude
begin

text \<open>
  Invariants of interleaved programs. \<open>keeps G I p s0\<close>: started when the state was \<open>s0\<close>, the program
  \<open>p\<close> keeps the invariant \<open>I\<close> and moves only along \<open>G\<close> at each of its accesses, provided the others
  have moved the state along \<open>G\<close> and kept \<open>I\<close> in the meantime. What a program has read stays
  available to it as far as \<open>G\<close> preserves it. If every program keeps the invariant, every
  interleaving does.
\<close>

primrec keeps :: "('s \<Rightarrow> 's \<Rightarrow> bool) \<Rightarrow> ('s \<Rightarrow> bool) \<Rightarrow> ('s, 'a) proc \<Rightarrow> 's \<Rightarrow> bool" where
  "keeps G I (Ret a) = (\<lambda>s0. True)"
| "keeps G I (Await g) = (\<lambda>s0. \<forall>s. G s0 s \<longrightarrow> I s \<longrightarrow>
     (case map_prod id (keeps G I) (g s) of (s', k) \<Rightarrow> G s s' \<and> I s' \<and> k s'))"

lemma keeps_Await:
  "keeps G I (Await g) s0 \<longleftrightarrow>
     (\<forall>s. G s0 s \<longrightarrow> I s \<longrightarrow> G s (fst (g s)) \<and> I (fst (g s)) \<and> keeps G I (snd (g s)) (fst (g s)))"
  by (simp add: case_prod_unfold)

declare keeps.simps(2) [simp del]

lemma keeps_map: "keeps G I p s0 \<Longrightarrow> keeps G I (proc_bind p (\<lambda>r. Ret (f r))) s0"
proof (induction p arbitrary: s0)
  case (Await g)
  have "keeps G I (proc_bind (snd (g s)) (\<lambda>r. Ret (f r))) s1" if "keeps G I (snd (g s)) s1" for s s1
    using Await.IH [OF rangeI snd_snds that] .
  then show ?case using Await.prems by (simp add: keeps_Await)
qed simp

locale rely_guarantee = guarantee G for G :: "'s \<Rightarrow> 's \<Rightarrow> bool" +
  fixes I :: "'s \<Rightarrow> bool"
begin

lemma keeps_later: "keeps G I p s0 \<Longrightarrow> G s0 s1 \<Longrightarrow> keeps G I p s1"
  by (cases p) (auto simp: keeps_Await intro: R_trans)

lemma keeps_fetch:
  assumes "\<And>s. G s0 s \<Longrightarrow> I s \<Longrightarrow> keeps G I (f (h s)) s"
  shows "keeps G I (proc_bind (fetch h) f) s0"
  using assms by (simp add: fetch_def keeps_Await R_refl)

lemma keeps_atomically_bind:
  assumes "\<And>s. G s0 s \<Longrightarrow> I s \<Longrightarrow> G s (fst (h s)) \<and> I (fst (h s)) \<and> keeps G I (f (snd (h s))) (fst (h s))"
  shows "keeps G I (proc_bind (atomically h) f) s0"
  using assms by (simp add: atomically_def keeps_Await)

lemma keeps_atomically:
  assumes "\<And>s. G s0 s \<Longrightarrow> I s \<Longrightarrow> G s (fst (h s)) \<and> I (fst (h s))"
  shows "keeps G I (atomically h) s0"
  using assms by (simp add: atomically_def keeps_Await)

lemma sched_keeps:
  assumes "sched (s, ps) (s', ps')" and "I s" and "\<forall>p\<in>set ps. keeps G I p s"
  shows "I s' \<and> G s s' \<and> (\<forall>p\<in>set ps'. keeps G I p s')"
  using assms(1)
proof (cases rule: sched.cases)
  case (sched_step i g p)
  have "keeps G I (Await g) s" using assms(3) sched_step by (metis nth_mem)
  then have k: "G s s'" "I s'" "keeps G I p s'"
    using assms(2) sched_step R_refl [of s] by (auto simp: keeps_Await)
  have "\<forall>q\<in>set ps. keeps G I q s'" using assms(3) keeps_later k(1) by blast
  then have "\<forall>q\<in>set ps'. keeps G I q s'"
    using k(3) sched_step by (auto dest!: set_update_subset_insert [THEN subsetD])
  with k show ?thesis by blast
qed

lemma scheds_keeps:
  assumes "scheds (s, ps) (s', ps')" and "I s" and "\<forall>p\<in>set ps. keeps G I p s"
  shows "I s' \<and> G s s'"
  using assms
proof (induction "(s, ps)" "(s', ps')" arbitrary: s ps rule: scheds.induct)
  case scheds_refl
  then show ?case by (simp add: R_refl)
next
  case (scheds_step c')
  obtain t qs where c': "c' = (t, qs)" by (cases c')
  have "I t \<and> G s t \<and> (\<forall>p\<in>set qs. keeps G I p t)"
    using sched_keeps scheds_step(1,4,5) c' by blast
  then show ?case using scheds_step(3) [OF c'] R_trans by blast
qed

end

text \<open>
  The same with a condition on the result: \<open>Q\<close> relates a returned value to the state in which the
  program returned it.
\<close>

primrec keepsq ::
  "('s \<Rightarrow> 's \<Rightarrow> bool) \<Rightarrow> ('s \<Rightarrow> bool) \<Rightarrow> ('a \<Rightarrow> 's \<Rightarrow> bool) \<Rightarrow> ('s, 'a) proc \<Rightarrow> 's \<Rightarrow> bool" where
  "keepsq G I Q (Ret a) = Q a"
| "keepsq G I Q (Await g) = (\<lambda>s0. \<forall>s. G s0 s \<longrightarrow> I s \<longrightarrow>
     (case map_prod id (keepsq G I Q) (g s) of (s', k) \<Rightarrow> G s s' \<and> I s' \<and> k s'))"

lemma keepsq_Await:
  "keepsq G I Q (Await g) s0 \<longleftrightarrow>
     (\<forall>s. G s0 s \<longrightarrow> I s \<longrightarrow> G s (fst (g s)) \<and> I (fst (g s)) \<and> keepsq G I Q (snd (g s)) (fst (g s)))"
  by (simp add: case_prod_unfold)

declare keepsq.simps(2) [simp del]

lemma keeps_keepsq: "keeps G I p s0 \<longleftrightarrow> keepsq G I (\<lambda>_ _. True) p s0"
proof (induction p arbitrary: s0)
  case (Await g)
  have "keeps G I (snd (g s)) s1 \<longleftrightarrow> keepsq G I (\<lambda>_ _. True) (snd (g s)) s1" for s s1
    by (rule Await.IH [OF rangeI snd_snds])
  then show ?case by (simp add: keepsq_Await keeps_Await)
qed simp

context rely_guarantee
begin

lemma keepsq_bind_from:
  "keepsq G I Q p s1 \<Longrightarrow> G s0 s1 \<Longrightarrow> (\<And>a s. Q a s \<Longrightarrow> G s0 s \<Longrightarrow> keepsq G I P (f a) s) \<Longrightarrow>
   keepsq G I P (proc_bind p f) s1"
proof (induction p arbitrary: s1)
  case (Await g)
  have "keepsq G I P (proc_bind (snd (g s)) f) (fst (g s))"
    if "keepsq G I Q (snd (g s)) (fst (g s))" "G s0 (fst (g s))" for s
    using Await.IH [OF rangeI snd_snds that] Await.prems(3) by blast
  then show ?case using Await.prems(1,2) by (auto simp: keepsq_Await) (meson R_trans)
qed simp

lemmas keepsq_bind = keepsq_bind_from [OF _ R_refl]

lemma keepsq_post_from:
  "keepsq G I Q p s1 \<Longrightarrow> G s0 s1 \<Longrightarrow> (\<And>a s. Q a s \<Longrightarrow> G s0 s \<Longrightarrow> P a s) \<Longrightarrow> keepsq G I P p s1"
proof (induction p arbitrary: s1)
  case (Await g)
  have "keepsq G I P (snd (g s)) (fst (g s))" if "keepsq G I Q (snd (g s)) (fst (g s))" "G s0 (fst (g s))" for s
    using Await.IH [OF rangeI snd_snds that] Await.prems(3) by blast
  then show ?case using Await.prems(1,2) by (auto simp: keepsq_Await) (meson R_trans)
qed simp

lemmas keepsq_post = keepsq_post_from [OF _ R_refl]

lemma keepsq_later:
  assumes "keepsq G I Q p s0" and "G s0 s1" and "\<And>a. Q a s0 \<Longrightarrow> Q a s1"
  shows "keepsq G I Q p s1"
  using assms by (cases p) (auto simp: keepsq_Await intro: R_trans)

lemma scheds_keepsq:
  assumes "scheds (s, ps) (s', ps')" and "I s" and "\<forall>i<length ps. keepsq G I (Q i) (ps ! i) s"
    and stable: "\<And>i a s s'. Q i a s \<Longrightarrow> G s s' \<Longrightarrow> Q i a s'"
  shows "I s' \<and> G s s' \<and> length ps' = length ps \<and> (\<forall>i<length ps. keepsq G I (Q i) (ps' ! i) s')"
  using assms(1,2,3)
proof (induction "(s, ps)" "(s', ps')" arbitrary: s ps rule: scheds.induct)
  case scheds_refl
  then show ?case by (simp add: R_refl)
next
  case (scheds_step c')
  then obtain i g t p where st: "i < length ps" "ps ! i = Await g" "g s = (t, p)" "c' = (t, ps[i := p])"
    by (auto elim: sched_cases)
  have "keepsq G I (Q i) (Await g) s" using scheds_step(5) st(1,2) by metis
  then have k: "G s t" "I t" "keepsq G I (Q i) p t"
    using scheds_step(4) st(3) R_refl [of s] by (auto simp: keepsq_Await)
  have "keepsq G I (Q j) (ps[i := p] ! j) t" if "j < length ps" for j
  proof (cases "j = i")
    case False
    have "keepsq G I (Q j) (ps ! j) t"
      using scheds_step(5) that by (blast intro: keepsq_later [OF _ k(1)] stable [OF _ k(1)])
    then show ?thesis using False by simp
  qed (use k(3) st(1) in simp)
  then show ?case using scheds_step(3) [OF st(4) k(2)] R_trans [OF k(1)] by auto
qed

lemma keepsq_fetch:
  "(\<And>s. G s0 s \<Longrightarrow> I s \<Longrightarrow> keepsq G I Q (f (h s)) s) \<Longrightarrow> keepsq G I Q (proc_bind (fetch h) f) s0"
  by (simp add: fetch_def keepsq_Await R_refl)

lemma keepsq_atomically_bind:
  "(\<And>s. G s0 s \<Longrightarrow> I s \<Longrightarrow> G s (fst (h s)) \<and> I (fst (h s)) \<and> keepsq G I Q (f (snd (h s))) (fst (h s))) \<Longrightarrow>
   keepsq G I Q (proc_bind (atomically h) f) s0"
  by (simp add: atomically_def keepsq_Await)

lemma keepsq_atomically:
  "(\<And>s. G s0 s \<Longrightarrow> I s \<Longrightarrow> G s (fst (h s)) \<and> I (fst (h s)) \<and> Q (snd (h s)) (fst (h s))) \<Longrightarrow>
   keepsq G I Q (atomically h) s0"
  by (simp add: atomically_def keepsq_Await)

end

end
