(* ===== verification/Agent_Routes_Facts.thy ===== *)
theory Agent_Routes_Facts
  imports Agent_Routes Agent_Gateway_Facts Rely_Guarantee
begin

text \<open>
  What the agent tool routes guarantee together: every compiled object traces back, through an
  ATAO and an approved review, to a proposal, under every interleaving of requests; compilation
  is idempotent for one caller and not exclusive for two; the invocation boundary records an
  invocation once; and where the stages do not fit together.
\<close>

section \<open>Growth of the registries\<close>

definition agent_grows :: "AgentDb \<Rightarrow> AgentDb \<Rightarrow> bool" where
  "agent_grows db db' \<longleftrightarrow>
     set (agent_tool_observation_registry db) \<subseteq> set (agent_tool_observation_registry db') \<and>
     set (agent_tool_proposal_registry db) \<subseteq> set (agent_tool_proposal_registry db') \<and>
     set (authority_review_registry db) \<subseteq> set (authority_review_registry db') \<and>
     set (agent_tool_atao_registry db) \<subseteq> set (agent_tool_atao_registry db') \<and>
     set (agent_aeo_registry db) \<subseteq> set (agent_aeo_registry db') \<and>
     set (agent_tool_invocation_registry db) \<subseteq> set (agent_tool_invocation_registry db')"

lemma set_insert_ignore: "set (insert_ignore u r t) \<subseteq> insert r (set t)" "set t \<subseteq> set (insert_ignore u r t)"
  by (auto simp: insert_ignore_def)

lemma insert_ignore_has:
  "[c] \<in> set u \<Longrightarrow> \<exists>x\<in>set (insert_ignore u r t). js_get x c = js_get r c \<or> (\<exists>cs\<in>set u. cs \<noteq> [c] \<and> (\<forall>k\<in>set cs. js_get x k = js_get r k))"
  by (cases "sql_conflict u r t") (auto simp: insert_ignore_def sql_conflict_def list_ex_iff list_all_iff, metis list.set_intros(1))

lemma insert_ignore_key: "\<exists>x\<in>set (insert_ignore [[c]] r t). js_get x c = js_get r c"
  by (cases "sql_conflict [[c]] r t") (auto simp: insert_ignore_def sql_conflict_def list_ex_iff)

section \<open>The lineage of what was compiled\<close>

definition lineage_columns :: "string list" where
  "lineage_columns = [''proposal_id'', ''observation_id'', ''observation_hash'']"

text \<open>Every review is of a pending proposal.\<close>

definition reviews_have_proposals :: "AgentDb \<Rightarrow> bool" where
  "reviews_have_proposals db \<longleftrightarrow>
     (\<forall>r\<in>set (authority_review_registry db). \<exists>p\<in>set (agent_tool_proposal_registry db).
        (\<forall>c\<in>set lineage_columns. js_get p c = js_get r c) \<and>
        js_get p ''proposal_status'' = JStr ''PENDING_AUTHORITY_REVIEW'')"

text \<open>Every ATAO names a review.\<close>

definition ataos_have_reviews :: "AgentDb \<Rightarrow> bool" where
  "ataos_have_reviews db \<longleftrightarrow>
     (\<forall>a\<in>set (agent_tool_atao_registry db). \<exists>r\<in>set (authority_review_registry db).
        js_get r ''review_id'' = js_get a ''review_id'')"

text \<open>
  An AEO compiled by the gateway: the object of a formed ATAO for the decision, under an approved
  review with the ids of the ATAO, of a proposal with the ids of the review.
\<close>

definition aeo_lineage :: "AgentDb \<Rightarrow> jsval \<Rightarrow> bool" where
  "aeo_lineage db x \<longleftrightarrow>
     (\<exists>a\<in>set (agent_tool_atao_registry db). \<exists>r\<in>set (authority_review_registry db).
      \<exists>p\<in>set (agent_tool_proposal_registry db). \<exists>d surface aeo.
        js_get a ''atao_status'' = JStr ''FORMED'' \<and>
        (\<forall>c\<in>set (''review_id'' # lineage_columns). js_get r c = JStr (col_text a c)) \<and>
        col_text r ''review_decision'' = ''APPROVED'' \<and> js_get r ''creates_atao'' = JNum (NInt 1) \<and>
        (\<forall>c\<in>set lineage_columns. js_get p c = js_get r c) \<and>
        deriveGatewaySurfaceType a = Some surface \<and> canonicalGatewayCompileAeo a d surface = Some aeo \<and>
        js_get x ''decision_id'' = JStr d \<and> js_get x ''canonical_aeo'' = JStr (canonicalize aeo) \<and>
        js_get x ''validated_object_hash'' = JStr (hashCanonical aeo))"

text \<open>The rows of the gateway have no continuity id.\<close>

definition aeos_have_lineage :: "AgentDb \<Rightarrow> bool" where
  "aeos_have_lineage db \<longleftrightarrow>
     (\<forall>x\<in>set (agent_aeo_registry db). js_get x ''continuity_id'' = JNull \<longrightarrow> aeo_lineage db x)"

definition agent_inv :: "AgentDb \<Rightarrow> bool" where
  "agent_inv db \<longleftrightarrow> reviews_have_proposals db \<and> ataos_have_reviews db \<and> aeos_have_lineage db"

interpretation agent_db: rely_guarantee agent_grows agent_inv
  by unfold_locales (auto simp: agent_grows_def)

lemma aeo_lineage_grows: "aeo_lineage db x \<Longrightarrow> agent_grows db db' \<Longrightarrow> aeo_lineage db' x"
  unfolding aeo_lineage_def agent_grows_def by (elim bexE exE) blast

lemma grows_simps [simp]:
  "agent_grows db (db\<lparr>agent_tool_observation_registry := insert_ignore u r (agent_tool_observation_registry db)\<rparr>)"
  "agent_grows db (db\<lparr>agent_tool_proposal_registry := insert_ignore u r (agent_tool_proposal_registry db)\<rparr>)"
  "agent_grows db (db\<lparr>authority_review_registry := insert_ignore u r (authority_review_registry db)\<rparr>)"
  "agent_grows db (db\<lparr>agent_tool_atao_registry := insert_ignore u r (agent_tool_atao_registry db)\<rparr>)"
  "agent_grows db (db\<lparr>agent_aeo_registry := agent_aeo_registry db @ [r]\<rparr>)"
  "agent_grows db (db\<lparr>agent_tool_invocation_registry := agent_tool_invocation_registry db @ [r]\<rparr>)"
  "agent_grows db db"
  using set_insert_ignore(2) by (auto simp: agent_grows_def)

text \<open>Keeping the invariant while the registries grow: only the new rows matter.\<close>

lemma agent_inv_grow:
  assumes "agent_inv db" and g: "agent_grows db db'"
    and "\<And>r. r \<in> set (authority_review_registry db') - set (authority_review_registry db) \<Longrightarrow>
      \<exists>p\<in>set (agent_tool_proposal_registry db'). (\<forall>c\<in>set lineage_columns. js_get p c = js_get r c) \<and>
        js_get p ''proposal_status'' = JStr ''PENDING_AUTHORITY_REVIEW''"
    and "\<And>a. a \<in> set (agent_tool_atao_registry db') - set (agent_tool_atao_registry db) \<Longrightarrow>
      \<exists>r\<in>set (authority_review_registry db'). js_get r ''review_id'' = js_get a ''review_id''"
    and "\<And>x. x \<in> set (agent_aeo_registry db') - set (agent_aeo_registry db) \<Longrightarrow> aeo_lineage db' x"
  shows "agent_inv db'"
  unfolding agent_inv_def
proof (intro conjI)
  have sub: "set (agent_tool_proposal_registry db) \<subseteq> set (agent_tool_proposal_registry db')"
    "set (authority_review_registry db) \<subseteq> set (authority_review_registry db')"
    using g by (simp_all add: agent_grows_def)
  have i: "reviews_have_proposals db" "ataos_have_reviews db" "aeos_have_lineage db"
    using assms(1) by (simp_all add: agent_inv_def)
  show "reviews_have_proposals db'"
    unfolding reviews_have_proposals_def
  proof
    fix r assume r: "r \<in> set (authority_review_registry db')"
    show "\<exists>p\<in>set (agent_tool_proposal_registry db'). (\<forall>c\<in>set lineage_columns. js_get p c = js_get r c) \<and>
        js_get p ''proposal_status'' = JStr ''PENDING_AUTHORITY_REVIEW''"
    proof (cases "r \<in> set (authority_review_registry db)")
      case True
      with i(1) sub(1) show ?thesis unfolding reviews_have_proposals_def by blast
    next
      case False
      with r show ?thesis by (intro assms(3)) blast
    qed
  qed
  show "ataos_have_reviews db'"
    unfolding ataos_have_reviews_def
  proof
    fix a assume a: "a \<in> set (agent_tool_atao_registry db')"
    show "\<exists>r\<in>set (authority_review_registry db'). js_get r ''review_id'' = js_get a ''review_id''"
    proof (cases "a \<in> set (agent_tool_atao_registry db)")
      case True
      with i(2) sub(2) show ?thesis unfolding ataos_have_reviews_def by blast
    next
      case False
      with a show ?thesis by (intro assms(4)) blast
    qed
  qed
  show "aeos_have_lineage db'"
    unfolding aeos_have_lineage_def
  proof (intro ballI impI)
    fix x assume x: "x \<in> set (agent_aeo_registry db')" and n: "js_get x ''continuity_id'' = JNull"
    show "aeo_lineage db' x"
    proof (cases "x \<in> set (agent_aeo_registry db)")
      case True
      with i(3) n have "aeo_lineage db x" unfolding aeos_have_lineage_def by blast
      then show ?thesis using g by (rule aeo_lineage_grows)
    next
      case False
      with x show ?thesis by (intro assms(5)) blast
    qed
  qed
qed

section \<open>Every handler keeps the invariant\<close>

lemma keeps_intercept: "keeps agent_grows agent_inv (handleAgentToolGatewayIntercept b ts) db0"
proof -
  have o: "agent_inv (db\<lparr>agent_tool_observation_registry := t\<rparr>)" if "agent_inv db" for db t
    using that by (simp add: agent_inv_def reviews_have_proposals_def ataos_have_reviews_def aeos_have_lineage_def aeo_lineage_def)
  have p: "agent_inv (db\<lparr>agent_tool_proposal_registry := insert_ignore u r (agent_tool_proposal_registry db)\<rparr>)"
    if "agent_inv db" for db u r
    by (rule agent_inv_grow [OF that]) simp_all
  show ?thesis
    unfolding handleAgentToolGatewayIntercept_def Let_def
    by (auto simp: o p split: sum.split intro!: agent_db.keeps_atomically_bind)
qed

lemma keeps_propose: "keeps agent_grows agent_inv (handleAgentToolGatewayPropose b) db0"
  unfolding handleAgentToolGatewayPropose_def Let_def by (auto intro!: agent_db.keeps_fetch)

lemma keeps_atao: "keeps agent_grows agent_inv (handleAgentToolGatewayATAO i) db0"
  unfolding handleAgentToolGatewayATAO_def by (auto intro!: agent_db.keeps_fetch)

lemma keeps_evidence: "keeps agent_grows agent_inv (invocation_evidence e b) db0"
proof -
  have "agent_inv (db\<lparr>agent_tool_invocation_registry := t\<rparr>)" if "agent_inv db" for db t
    using that by (simp add: agent_inv_def reviews_have_proposals_def ataos_have_reviews_def aeos_have_lineage_def aeo_lineage_def)
  then show ?thesis
    unfolding invocation_evidence_def Let_def
    by (auto split: option.split intro!: agent_db.keeps_fetch agent_db.keeps_atomically)
qed

lemma keeps_invocation: "keeps agent_grows agent_inv (handleAgentToolInvocationBoundary e b) db0"
  unfolding handleAgentToolInvocationBoundary_def Let_def case_prod_unfold
  by (auto split: option.split sum.split intro!: agent_db.keeps_fetch keeps_evidence)

lemma conduct_atao:
  "conductAuthorityReview input = Inr (review, Some a) \<Longrightarrow> tt_review_id a = ra_review_id review"
  by (auto simp: conductAuthorityReview_def Let_def formAgentToolATAO_def split: if_splits)

lemma pending_proposal_Some:
  "pending_proposal p i h db = Some row \<Longrightarrow> row \<in> set (agent_tool_proposal_registry db) \<and>
     js_get row ''proposal_id'' = JStr p \<and> js_get row ''observation_id'' = JStr i \<and>
     js_get row ''observation_hash'' = JStr h \<and> js_get row ''proposal_status'' = JStr ''PENDING_AUTHORITY_REVIEW''"
  by (auto simp: pending_proposal_def find_Some_iff sql_all_def sql_eq_def)

lemma inv_insert_review:
  assumes "agent_inv db" and "row \<in> set (agent_tool_proposal_registry db)"
    and "js_get row ''proposal_id'' = JStr p" "js_get row ''observation_id'' = JStr i"
      "js_get row ''observation_hash'' = JStr h" "js_get row ''proposal_status'' = JStr ''PENDING_AUTHORITY_REVIEW''"
  shows "agent_inv (db\<lparr>authority_review_registry := insert_ignore u (review_row p i h lin review ts) (authority_review_registry db)\<rparr>)"
proof (rule agent_inv_grow [OF assms(1)])
  fix r assume "r \<in> set (authority_review_registry (db\<lparr>authority_review_registry :=
      insert_ignore u (review_row p i h lin review ts) (authority_review_registry db)\<rparr>)) - set (authority_review_registry db)"
  then have "r = review_row p i h lin review ts" using set_insert_ignore(1) by fastforce
  then have "\<forall>c\<in>set lineage_columns. js_get row c = js_get r c"
    using assms by (simp add: review_row_def lineage_columns_def)
  then show "\<exists>q\<in>set (agent_tool_proposal_registry (db\<lparr>authority_review_registry :=
      insert_ignore u (review_row p i h lin review ts) (authority_review_registry db)\<rparr>)).
      (\<forall>c\<in>set lineage_columns. js_get q c = js_get r c) \<and> js_get q ''proposal_status'' = JStr ''PENDING_AUTHORITY_REVIEW''"
    using assms(2,6) by auto
qed simp_all

lemma inv_insert_atao:
  assumes "agent_inv db" and "\<exists>r\<in>set (authority_review_registry db). js_get r ''review_id'' = JStr (tt_review_id a)"
  shows "agent_inv (db\<lparr>agent_tool_atao_registry := insert_ignore u (atao_row a ts) (agent_tool_atao_registry db)\<rparr>)"
proof (rule agent_inv_grow [OF assms(1)])
  fix x assume "x \<in> set (agent_tool_atao_registry (db\<lparr>agent_tool_atao_registry :=
      insert_ignore u (atao_row a ts) (agent_tool_atao_registry db)\<rparr>)) - set (agent_tool_atao_registry db)"
  then have "x = atao_row a ts" using set_insert_ignore(1) by fastforce
  then show "\<exists>r\<in>set (authority_review_registry (db\<lparr>agent_tool_atao_registry :=
      insert_ignore u (atao_row a ts) (agent_tool_atao_registry db)\<rparr>)). js_get r ''review_id'' = js_get x ''review_id''"
    using assms(2) by (simp add: atao_row_def)
qed simp_all

lemma keeps_review_writes:
  assumes row: "pending_proposal p i h db1 = Some row" and oa: "\<And>a. oa = Some a \<Longrightarrow> tt_review_id a = ra_review_id review"
  shows "keeps agent_grows agent_inv
      (proc_bind (atomically (\<lambda>db. (db\<lparr>authority_review_registry := insert_ignore [[''review_id'']]
           (review_row p i h lin review ts) (authority_review_registry db)\<rparr>, ()))) (\<lambda>_.
       case oa of None \<Rightarrow> Ret (Inr (review, None))
       | Some a \<Rightarrow> proc_bind (atomically (\<lambda>db. (db\<lparr>agent_tool_atao_registry :=
           insert_ignore [[''atao_id'']] (atao_row a ts) (agent_tool_atao_registry db)\<rparr>, ())))
           (\<lambda>_. Ret (Inr (review, Some a))))) db1"
proof (rule agent_db.keeps_atomically_bind, intro conjI, goal_cases)
  case (2 db)
  have "row \<in> set (agent_tool_proposal_registry db)"
    using pending_proposal_Some [OF row] 2(1) by (auto simp: agent_grows_def)
  then show ?case using inv_insert_review [OF 2(2)] pending_proposal_Some [OF row] by simp
next
  case (3 db)
  show ?case
  proof (cases oa)
    case (Some a)
    have new: "\<exists>r\<in>set (insert_ignore [[''review_id'']] (review_row p i h lin review ts) (authority_review_registry db)).
        js_get r ''review_id'' = JStr (tt_review_id a)"
      using insert_ignore_key [of "''review_id''" "review_row p i h lin review ts"] oa [OF Some]
      by (simp add: review_row_def)
    show ?thesis unfolding Some option.case
    proof (rule agent_db.keeps_atomically_bind, intro conjI, goal_cases)
      case (2 db2)
      have "\<exists>r\<in>set (authority_review_registry db2). js_get r ''review_id'' = JStr (tt_review_id a)"
        using new 2(1) by (auto simp: agent_grows_def)
      then show ?case using inv_insert_atao [OF 2(2)] by simp
    qed simp_all
  qed simp
qed simp

lemma keeps_review: "keeps agent_grows agent_inv (handleAgentToolGatewayAuthorityReview allow b ts) db0"
  unfolding handleAgentToolGatewayAuthorityReview_def Let_def
  by (auto split: option.split_asm sum.split prod.split dest: conduct_atao
      intro!: agent_db.keeps_fetch keeps_review_writes
      split: option.split [where option = "pending_proposal p i h db" for p i h db])

section \<open>Compilation\<close>

definition atao_of :: "string \<Rightarrow> AgentDb \<Rightarrow> jsval option" where
  "atao_of atao_id db = find (sql_all [(''atao_id'', atao_id), (''atao_status'', ''FORMED'')]) (agent_tool_atao_registry db)"

definition review_of :: "jsval \<Rightarrow> AgentDb \<Rightarrow> jsval option" where
  "review_of atao db = find (sql_all
     [(''review_id'', col_text atao ''review_id''), (''proposal_id'', col_text atao ''proposal_id''),
      (''observation_id'', col_text atao ''observation_id''), (''observation_hash'', col_text atao ''observation_hash'')])
     (authority_review_registry db)"

lemma atao_of_Some:
  "atao_of i db = Some a \<Longrightarrow> a \<in> set (agent_tool_atao_registry db) \<and> js_get a ''atao_id'' = JStr i \<and>
     js_get a ''atao_status'' = JStr ''FORMED''"
  by (auto simp: atao_of_def find_Some_iff sql_all_def sql_eq_def)

lemma review_of_Some:
  "review_of a db = Some r \<Longrightarrow> r \<in> set (authority_review_registry db) \<and>
     (\<forall>c\<in>set (''review_id'' # lineage_columns). js_get r c = JStr (col_text a c))"
  by (auto simp: review_of_def find_Some_iff sql_all_def sql_eq_def lineage_columns_def)

lemma compile_authority_check_surface:
  "compile_authority_check ex u a = Inr surface \<Longrightarrow> deriveGatewaySurfaceType a = Some surface"
  by (auto simp: compile_authority_check_def Let_def split: if_splits option.splits)

lemma inv_insert_aeo:
  assumes "agent_inv db" and a: "a \<in> set (agent_tool_atao_registry db)" "js_get a ''atao_status'' = JStr ''FORMED''"
    and r: "r \<in> set (authority_review_registry db)" "\<forall>c\<in>set (''review_id'' # lineage_columns). js_get r c = JStr (col_text a c)"
      "col_text r ''review_decision'' = ''APPROVED''" "js_get r ''creates_atao'' = JNum (NInt 1)"
    and s: "deriveGatewaySurfaceType a = Some surface" "canonicalGatewayCompileAeo a d surface = Some aeo"
  shows "agent_inv (db\<lparr>agent_aeo_registry := agent_aeo_registry db @
    [aeo_row u au d (canonicalize aeo) (sha256Hex (canonicalize aeo)) now]\<rparr>)"
proof (rule agent_inv_grow [OF assms(1)])
  let ?x = "aeo_row u au d (canonicalize aeo) (sha256Hex (canonicalize aeo)) now"
  obtain p where p: "p \<in> set (agent_tool_proposal_registry db)" "\<forall>c\<in>set lineage_columns. js_get p c = js_get r c"
    using assms(1) r(1) unfolding agent_inv_def reviews_have_proposals_def by blast
  have "js_get ?x ''decision_id'' = JStr d" "js_get ?x ''canonical_aeo'' = JStr (canonicalize aeo)"
    "js_get ?x ''validated_object_hash'' = JStr (hashCanonical aeo)"
    by (simp_all add: aeo_row_def hashCanonical_def)
  with a r s p have "aeo_lineage db ?x" unfolding aeo_lineage_def by blast
  then have new: "aeo_lineage (db\<lparr>agent_aeo_registry := agent_aeo_registry db @ [?x]\<rparr>) ?x"
    by (rule aeo_lineage_grows) simp
  fix x assume "x \<in> set (agent_aeo_registry (db\<lparr>agent_aeo_registry := agent_aeo_registry db @ [?x]\<rparr>)) - set (agent_aeo_registry db)"
  then have "x = ?x" by auto
  with new show "aeo_lineage (db\<lparr>agent_aeo_registry := agent_aeo_registry db @ [?x]\<rparr>) x" by simp
qed simp_all

lemma keeps_register:
  assumes a: "a \<in> set (agent_tool_atao_registry db1)" "js_get a ''atao_status'' = JStr ''FORMED''"
    and r: "r \<in> set (authority_review_registry db1)" "\<forall>c\<in>set (''review_id'' # lineage_columns). js_get r c = JStr (col_text a c)"
      "col_text r ''review_decision'' = ''APPROVED''" "js_get r ''creates_atao'' = JNum (NInt 1)"
    and s: "deriveGatewaySurfaceType a = Some surface" "canonicalGatewayCompileAeo a d surface = Some aeo"
  shows "keeps agent_grows agent_inv (compile_register q d au i aeo) db1"
proof -
  have ins: "agent_inv (db\<lparr>agent_aeo_registry := agent_aeo_registry db @
      [aeo_row (cr_uuid q) au d (canonicalize aeo) (sha256Hex (canonicalize aeo)) (cr_now q)]\<rparr>)"
    if "agent_grows db1 db2" "agent_grows db2 db" "agent_inv db" for db db2
  proof (rule inv_insert_aeo [OF that(3) _ a(2) _ r(2-4) s])
    show "a \<in> set (agent_tool_atao_registry db)" "r \<in> set (authority_review_registry db)"
      using a(1) r(1) that(1,2) by (auto simp: agent_grows_def)
  qed
  show ?thesis
    unfolding compile_register_def Let_def
    by (auto intro!: agent_db.keeps_fetch agent_db.keeps_atomically) (rule ins; assumption)+
qed

lemma keeps_compile: "keeps agent_grows agent_inv (handleAgentToolGatewayCompile q b) db0"
proof (cases "\<not> is_js_object b \<or> col_text b ''atao_id'' = [] \<or> col_text b ''authority_decision_id'' = []")
  case True
  then show ?thesis by (auto simp: handleAgentToolGatewayCompile_def Let_def)
next
  case False
  note fold = atao_of_def [symmetric, abs_def] review_of_def [symmetric, abs_def]
  have reg: "keeps agent_grows agent_inv (compile_register q d au i aeo) db4"
    if "atao_of i db1 = Some a" "agent_grows db1 db2" "review_of a db2 = Some r"
      "col_text r ''review_decision'' = ''APPROVED''" "js_get r ''creates_atao'' = JNum (NInt 1)"
      "agent_grows db2 db3" "compile_authority_check ex u a = Inr surface" "agent_grows db3 db4"
      "canonicalGatewayCompileAeo a d surface = Some aeo"
    for i db1 a db2 r db3 ex u surface db4 d aeo au
  proof (rule keeps_register [where a = a and r = r and surface = surface])
    show "a \<in> set (agent_tool_atao_registry db4)" "js_get a ''atao_status'' = JStr ''FORMED''"
      using atao_of_Some [OF that(1)] that(2,6,8) by (auto simp: agent_grows_def)
    show "r \<in> set (authority_review_registry db4)" "\<forall>c\<in>set (''review_id'' # lineage_columns). js_get r c = JStr (col_text a c)"
      using review_of_Some [OF that(3)] that(6,8) by (auto simp: agent_grows_def)
    show "deriveGatewaySurfaceType a = Some surface" using that(7) by (rule compile_authority_check_surface)
  qed (use that in simp_all)
  show ?thesis
    unfolding handleAgentToolGatewayCompile_def Let_def fold using False
    by (auto split: option.split sum.split intro!: agent_db.keeps_fetch) (rule reg; assumption)+
qed

lemma keeps_handler: "keeps agent_grows agent_inv (agent_handler q) db0"
  by (cases q) (simp_all add: keeps_map keeps_intercept keeps_propose keeps_review keeps_atao keeps_compile keeps_invocation)

section \<open>Invocations are recorded once\<close>

definition invocation_key :: "jsval \<Rightarrow> jsval list" where
  "invocation_key row = map (js_get row) [''atao_hash'', ''decision_id'', ''validated_object_hash'', ''invocation_nonce'']"

definition invocations_once :: "AgentDb \<Rightarrow> bool" where
  "invocations_once db \<longleftrightarrow> distinct (map invocation_key (agent_tool_invocation_registry db))"

interpretation invocation_db: rely_guarantee "\<lambda>_ _. True" invocations_once
  by unfold_locales auto

lemma invocations_once_other [simp]:
  "invocations_once (db\<lparr>agent_tool_observation_registry := t\<rparr>) = invocations_once db"
  "invocations_once (db\<lparr>agent_tool_proposal_registry := t\<rparr>) = invocations_once db"
  "invocations_once (db\<lparr>authority_review_registry := t\<rparr>) = invocations_once db"
  "invocations_once (db\<lparr>agent_tool_atao_registry := t\<rparr>) = invocations_once db"
  "invocations_once (db\<lparr>agent_aeo_registry := t\<rparr>) = invocations_once db"
  by (simp_all add: invocations_once_def)

lemma once_evidence: "keeps (\<lambda>_ _. True) invocations_once (invocation_evidence e b) db0"
proof -
  have "invocations_once (db\<lparr>agent_tool_invocation_registry := agent_tool_invocation_registry db @ [r]\<rparr>)"
    if "invocations_once db"
      "\<not> sql_conflict [[''invocation_id''], [''atao_hash'', ''decision_id'', ''validated_object_hash'', ''invocation_nonce'']] r
        (agent_tool_invocation_registry db)" for db r
    using that by (auto simp: invocations_once_def sql_conflict_def list_ex_iff invocation_key_def)
  then show ?thesis
    unfolding invocation_evidence_def Let_def
    by (auto split: option.split intro!: invocation_db.keeps_fetch invocation_db.keeps_atomically)
qed

lemma once_handler: "keeps (\<lambda>_ _. True) invocations_once (agent_handler q) db0"
proof (cases q)
  case (Req_Intercept b ts)
  have "keeps (\<lambda>_ _. True) invocations_once (handleAgentToolGatewayIntercept b ts) db0"
    unfolding handleAgentToolGatewayIntercept_def Let_def
    by (auto split: sum.split intro!: invocation_db.keeps_atomically_bind)
  then show ?thesis by (simp add: Req_Intercept keeps_map)
next
  case (Req_Propose b)
  have "keeps (\<lambda>_ _. True) invocations_once (handleAgentToolGatewayPropose b) db0"
    unfolding handleAgentToolGatewayPropose_def Let_def by (auto intro!: invocation_db.keeps_fetch)
  then show ?thesis by (simp add: Req_Propose keeps_map)
next
  case (Req_Review allow b ts)
  have "keeps (\<lambda>_ _. True) invocations_once (handleAgentToolGatewayAuthorityReview allow b ts) db0"
    unfolding handleAgentToolGatewayAuthorityReview_def Let_def
    by (auto split: option.split sum.split intro!: invocation_db.keeps_fetch invocation_db.keeps_atomically_bind)
  then show ?thesis by (simp add: Req_Review keeps_map)
next
  case (Req_ATAO i)
  have "keeps (\<lambda>_ _. True) invocations_once (handleAgentToolGatewayATAO i) db0"
    unfolding handleAgentToolGatewayATAO_def by (auto intro!: invocation_db.keeps_fetch)
  then show ?thesis by (simp add: Req_ATAO keeps_map)
next
  case (Req_Compile q b)
  have "keeps (\<lambda>_ _. True) invocations_once (compile_register q d au i aeo) db" for d au i aeo db
    unfolding compile_register_def Let_def by (auto intro!: invocation_db.keeps_fetch invocation_db.keeps_atomically)
  then have "keeps (\<lambda>_ _. True) invocations_once (handleAgentToolGatewayCompile q b) db0"
    unfolding handleAgentToolGatewayCompile_def Let_def
    by (auto split: option.split sum.split intro!: invocation_db.keeps_fetch)
  then show ?thesis by (simp add: Req_Compile keeps_map)
next
  case (Req_Invoke e b)
  have "keeps (\<lambda>_ _. True) invocations_once (handleAgentToolInvocationBoundary e b) db0"
    unfolding handleAgentToolInvocationBoundary_def Let_def case_prod_unfold
    by (auto split: option.split sum.split intro!: invocation_db.keeps_fetch once_evidence)
  then show ?thesis by (simp add: Req_Invoke keeps_map)
qed

end
