(* ===== verification/Agent_Routes_Properties.thy ===== *)
theory Agent_Routes_Properties
  imports Agent_Routes_Facts Scheduling
begin

text \<open>
  Properties of the agent tool routes: the lineage of compiled objects and the uniqueness of
  invocations under every interleaving, compilation as a function of the registries, what the
  stages store for each other, and where they do not meet.
\<close>

section \<open>Compilation as a function\<close>

text \<open>What the stages before the last decide, from one state of the registries.\<close>

definition compile_prepare :: "(string \<Rightarrow> bool) \<Rightarrow> jsval \<Rightarrow> AgentDb \<Rightarrow> string + (string \<times> string \<times> string \<times> jsval)" where
  "compile_prepare expired b db =
     (if \<not> is_js_object b then Inl ''malformed_request''
      else if col_text b ''atao_id'' = [] then Inl ''missing_atao_id''
      else if col_text b ''authority_decision_id'' = [] then Inl ''missing_authority_decision_id''
      else case atao_of (col_text b ''atao_id'') db of
        None \<Rightarrow> Inl ''atao_not_found''
      | Some atao \<Rightarrow> (case review_of atao db of
        None \<Rightarrow> Inl ''authority_review_not_approved''
      | Some review \<Rightarrow>
        if col_text review ''review_decision'' \<noteq> ''APPROVED'' \<or> js_get review ''creates_atao'' \<noteq> JNum (NInt 1)
        then Inl ''authority_review_not_approved''
        else (case find (sql_eq ''decision_id'' (col_text b ''authority_decision_id'')) (agent_authority_registry db) of
          None \<Rightarrow> Inl ''authority_missing''
        | Some authority \<Rightarrow> (case compile_authority_check expired authority atao of
          Inl reason \<Rightarrow> Inl reason
        | Inr derived \<Rightarrow> (case compile_template_check (selectAEOTemplate derived
              (riskClassForGatewayTemplate (col_text atao ''risk_class'')) (agent_template_registry db)) of
          Some reason \<Rightarrow> Inl reason
        | None \<Rightarrow> (case canonicalGatewayCompileAeo atao (col_text b ''authority_decision_id'') derived of
          None \<Rightarrow> Inl ''invalid_canonical_aeo''
        | Some aeo \<Rightarrow>
          if col_text b ''validated_object_hash'' \<noteq> [] \<and>
             col_text b ''validated_object_hash'' \<noteq> sha256Hex (canonicalize aeo)
          then Inl ''hash_mismatch''
          else Inr (col_text b ''authority_decision_id'', col_text authority ''authority_id'', col_text b ''atao_id'', aeo)))))))"

lemma run_compile:
  "run (handleAgentToolGatewayCompile q b) db =
     (case compile_prepare (cr_expired q) b db of
        Inl r \<Rightarrow> (db, Inl r)
      | Inr (d, au, i, aeo) \<Rightarrow> run (compile_register q d au i aeo) db)"
  by (simp add: handleAgentToolGatewayCompile_def compile_prepare_def Let_def atao_of_def review_of_def
      split: option.split sum.split)

lemma compile_prepare_cong [simp]:
  "compile_prepare ex b (db\<lparr>agent_aeo_registry := t\<rparr>) = compile_prepare ex b db"
  by (simp add: compile_prepare_def atao_of_def review_of_def cong: option.case_cong sum.case_cong if_cong)

definition decision_aeos :: "string \<Rightarrow> AgentDb \<Rightarrow> jsval list" where
  "decision_aeos d db = filter (sql_eq ''decision_id'' d) (agent_aeo_registry db)"

definition compiled_response :: "string \<Rightarrow> string \<Rightarrow> string \<Rightarrow> jsval \<Rightarrow> bool \<Rightarrow> Compiled" where
  "compiled_response d au i aeo ex = \<lparr>co_decision_id = d, co_authority_id = au, co_atao_id = i,
     co_validated_object_hash = hashCanonical aeo, co_canonical_aeo = aeo, co_existing = ex\<rparr>"

lemma find_js_sort: "find P (js_sort c xs) = None \<longleftrightarrow> find P xs = None"
  by (simp add: find_None_iff)

lemma run_register:
  "run (compile_register q d au i aeo) db =
     (if decision_aeos d db \<noteq> [] then
        (if \<exists>row. decision_aeos d db = [row] \<and> col_text row ''validated_object_hash'' = hashCanonical aeo \<and>
                  col_text row ''canonical_aeo'' = canonicalize aeo
         then (db, Inr (compiled_response d au i aeo True)) else (db, Inl ''duplicate_compile''))
      else
        let row = aeo_row (cr_uuid q) au d (canonicalize aeo) (hashCanonical aeo) (cr_now q) in
        if sql_conflict [[''aeo_id'']] row (agent_aeo_registry db) then (db, Inl ''compile_exception'')
        else (db\<lparr>agent_aeo_registry := agent_aeo_registry db @ [row]\<rparr>, Inr (compiled_response d au i aeo False)))"
proof -
  have one: "find P xs \<noteq> None \<and> length xs = 1 \<longleftrightarrow> (\<exists>x. xs = [x] \<and> P x)" for P and xs :: "jsval list"
    by (cases xs) (auto simp: Let_def)
  show ?thesis
    unfolding compile_register_def Let_def
    using one [of "\<lambda>row. col_text row ''validated_object_hash'' = hashCanonical aeo \<and> col_text row ''canonical_aeo'' = canonicalize aeo"
        "decision_aeos d db"]
    by (auto simp: find_js_sort decision_aeos_def [symmetric] hashCanonical_def compiled_response_def)
qed


text \<open>On its own, a request that finds no object can go on to the insertion.\<close>

lemma compile_until_insert:
  assumes "compile_prepare (cr_expired q) b db = Inr (d, au, i, aeo)" and "decision_aeos d db = []"
  shows "advances (handleAgentToolGatewayCompile q b) db
    (atomically (\<lambda>db. let row = aeo_row (cr_uuid q) au d (canonicalize aeo) (hashCanonical aeo) (cr_now q) in
       if sql_conflict [[''aeo_id'']] row (agent_aeo_registry db) then (db, Inl ''compile_exception'')
       else (db\<lparr>agent_aeo_registry := agent_aeo_registry db @ [row]\<rparr>, Inr (compiled_response d au i aeo False)))) db"
    (is "advances _ _ ?ins _")
proof -
  have reg: "advances (compile_register q d au i aeo) db ?ins db"
    unfolding compile_register_def Let_def hashCanonical_def compiled_response_def
    by (rule advances_fetch) (simp add: decision_aeos_def [symmetric] assms(2) advances_refl)
  show ?thesis
    using assms(1) reg unfolding compile_prepare_def handleAgentToolGatewayCompile_def Let_def atao_of_def review_of_def
    by (auto split: if_splits option.splits sum.splits intro!: advances_fetch)
qed

lemma insert_fresh:
  "list_all (\<lambda>x. js_get x ''aeo_id'' \<noteq> JStr u) t \<Longrightarrow> \<not> sql_conflict [[''aeo_id'']] (aeo_row u au d c h now) t"
  by (auto simp: sql_conflict_def list_ex_iff list_all_iff aeo_row_def)

section \<open>A compiled tool call\<close>

text \<open>Registries with one approved call, its authority and a template, for the witnesses.\<close>

definition sample_atao :: jsval where
  "sample_atao = JObj
     [(''atao_id'', JStr ''t1''), (''review_id'', JStr ''r1''), (''proposal_id'', JStr ''p1''), (''observation_id'', JStr ''o1''),
      (''observation_hash'', JStr ''h1''), (''session_id'', JStr ''s1''), (''tool_name'', JStr ''write_file''),
      (''tool_system'', JStr ''filesystem''), (''risk_class'', JStr ''P2''), (''intent'', JStr ''write''),
      (''scope'', JStr ''{}''), (''constraints'', JStr ''{}''), (''atao_status'', JStr ''FORMED'')]"

definition sample_review :: jsval where
  "sample_review = JObj
     [(''review_id'', JStr ''r1''), (''proposal_id'', JStr ''p1''), (''observation_id'', JStr ''o1''),
      (''observation_hash'', JStr ''h1''), (''review_decision'', JStr ''APPROVED''), (''creates_atao'', JNum (NInt 1))]"

definition sample_authority :: jsval where
  "sample_authority = JObj
     [(''authority_id'', JStr ''a1''), (''decision_id'', JStr ''d1''), (''session_id'', JStr ''s1''), (''intent'', JStr ''write''),
      (''scope'', JStr ''{}''), (''status'', JStr ''ACTIVE'')]"

definition sample_template :: jsval where
  "sample_template = JObj
     [(''template_id'', JStr ''m1''), (''surface_type'', JStr ''filesystem_write''), (''status'', JStr ''ACTIVE''),
      (''risk_floor'', JStr ''P2_BOUNDED_MUTATION'')]"

definition empty_db :: AgentDb where
  "empty_db = \<lparr>agent_tool_observation_registry = [], agent_tool_proposal_registry = [], authority_review_registry = [],
     agent_tool_atao_registry = [], agent_tool_call_atao_registry = [], agent_authority_registry = [],
     agent_aeo_registry = [], agent_session_registry = [], agent_continuity_registry = [], agent_validation_registry = [],
     agent_execution_registry = [], agent_proof_registry = [], agent_tool_invocation_registry = [],
     agent_template_registry = []\<rparr>"

definition sample_db :: AgentDb where
  "sample_db = empty_db\<lparr>authority_review_registry := [sample_review], agent_tool_atao_registry := [sample_atao],
     agent_authority_registry := [sample_authority], agent_template_registry := [sample_template]\<rparr>"

definition sample_body :: jsval where
  "sample_body = JObj [(''atao_id'', JStr ''t1''), (''authority_decision_id'', JStr ''d1'')]"

definition sample_request :: "string \<Rightarrow> CompileRequest" where
  "sample_request u = \<lparr>cr_expired = (\<lambda>_. False), cr_uuid = u, cr_now = ''n1''\<rparr>"

definition sample_aeo :: jsval where
  "sample_aeo = the (canonicalGatewayCompileAeo sample_atao ''d1'' ''filesystem_write'')"

lemma sample_prepare: "compile_prepare (\<lambda>_. False) sample_body sample_db = Inr (''d1'', ''a1'', ''t1'', sample_aeo)"
proof -
  have b: "is_js_object sample_body" "col_text sample_body ''atao_id'' = ''t1''"
    "col_text sample_body ''authority_decision_id'' = ''d1''" "col_text sample_body ''validated_object_hash'' = []"
    by (simp_all add: sample_body_def col_text_def js_String_or_def)
  have "atao_of ''t1'' sample_db = Some sample_atao"
    by (simp add: atao_of_def sample_db_def sample_atao_def sql_all_def sql_eq_def)
  moreover have "review_of sample_atao sample_db = Some sample_review"
    by (simp add: review_of_def sample_db_def sample_atao_def sample_review_def sql_all_def sql_eq_def col_text_def js_String_or_def)
  moreover have "col_text sample_review ''review_decision'' = ''APPROVED''" "js_get sample_review ''creates_atao'' = JNum (NInt 1)"
    by (simp_all add: sample_review_def col_text_def js_String_or_def)
  moreover have "find (sql_eq ''decision_id'' ''d1'') (agent_authority_registry sample_db) = Some sample_authority"
    "col_text sample_authority ''authority_id'' = ''a1''"
    by (simp_all add: sample_db_def sample_authority_def sql_eq_def col_text_def js_String_or_def)
  moreover have "compile_authority_check (\<lambda>_. False) sample_authority sample_atao = Inr ''filesystem_write''"
    by code_simp
  moreover have "compile_template_check (selectAEOTemplate ''filesystem_write''
      (riskClassForGatewayTemplate (col_text sample_atao ''risk_class'')) (agent_template_registry sample_db)) = None"
    by code_simp
  moreover have "canonicalGatewayCompileAeo sample_atao ''d1'' ''filesystem_write'' = Some sample_aeo"
  proof -
    have "canonicalGatewayCompileAeo sample_atao ''d1'' ''filesystem_write'' \<noteq> None" by code_simp
    then show ?thesis by (auto simp: sample_aeo_def)
  qed
  ultimately show ?thesis by (simp add: compile_prepare_def b)
qed

lemma sample_compile:
  "run (handleAgentToolGatewayCompile (sample_request u) sample_body) sample_db =
     (sample_db\<lparr>agent_aeo_registry := [aeo_row u ''a1'' ''d1'' (canonicalize sample_aeo) (hashCanonical sample_aeo) ''n1'']\<rparr>,
      Inr (compiled_response ''d1'' ''a1'' ''t1'' sample_aeo False))"
proof -
  have "agent_aeo_registry sample_db = []" by (simp add: sample_db_def empty_db_def)
  then show ?thesis
    by (simp add: run_compile sample_request_def sample_prepare run_register decision_aeos_def sql_conflict_def Let_def)
qed

section \<open>Columns\<close>

lemma stringify_column:
  assumes "json_ok (JObj kvs)"
  shows "json_parse (js_String_or (JStr (json_stringify (JObj kvs))) ''{}'') = Some (JObj kvs)"
    "json_parse (json_stringify (JObj kvs)) = Some (JObj kvs)"
proof -
  have "json_stringify (JObj kvs) \<noteq> []"
    using print_json_first [of "json_clone (JObj kvs)"] by (auto simp: json_stringify_def)
  moreover show "json_parse (json_stringify (JObj kvs)) = Some (JObj kvs)"
    by (simp only: json_stringify_def clone_ok [OF assms] json_parse_print [OF assms])
  ultimately show "json_parse (js_String_or (JStr (json_stringify (JObj kvs))) ''{}'') = Some (JObj kvs)"
    by (simp add: js_String_or_def)
qed

lemma canonicalRecord_object: "\<exists>kvs. canonicalRecord v = JObj kvs \<and> normalize (JObj kvs) = JObj kvs"
proof (cases "normalize v")
  case (JObj kvs)
  then show ?thesis using normalize_idem [of v] by (simp add: canonicalRecord_def)
qed (simp_all add: canonicalRecord_def)

lemma canonicalRecord_idem: "canonicalRecord (canonicalRecord v) = canonicalRecord v"
  using canonicalRecord_object [of v] by (auto simp: canonicalRecord_def)

lemma js_or_canonical: "js_or (canonicalRecord v) w = canonicalRecord v"
  using canonicalRecord_object [of v] by (auto simp: js_or_def)

lemma template_level: "templateRiskLevel s \<le> riskLevel s"
  by (auto simp: templateRiskLevel_def riskLevel_def split: option.split)

section \<open>Properties\<close>





text \<open>
  Compilation is idempotent for one caller: after a successful compile the same request,
  under the same judgement of expiry, succeeds again with the same answer, marked as existing,
  and changes nothing.
\<close>

theorem compile_idempotent:
  assumes "run (handleAgentToolGatewayCompile q b) db = (db', Inr c)" and "cr_expired q' = cr_expired q"
  shows "run (handleAgentToolGatewayCompile q' b) db' = (db', Inr (c\<lparr>co_existing := True\<rparr>))"
proof -
  obtain d au i aeo where p: "compile_prepare (cr_expired q) b db = Inr (d, au, i, aeo)"
    and r: "run (compile_register q d au i aeo) db = (db', Inr c)"
    using assms(1) by (auto simp: run_compile split: sum.splits)
  have row: "col_text (aeo_row u au d ca h now) ''validated_object_hash'' = h"
    "col_text (aeo_row u au d ca h now) ''canonical_aeo'' = ca" "sql_eq ''decision_id'' d (aeo_row u au d ca h now)"
    for u ca h now by (simp_all add: aeo_row_def col_text_def js_String_or_def sql_eq_def)
  have "compile_prepare (cr_expired q') b db' = Inr (d, au, i, aeo) \<and> c\<lparr>co_existing := True\<rparr> = compiled_response d au i aeo True \<and>
     (\<exists>row. decision_aeos d db' = [row] \<and> col_text row ''validated_object_hash'' = hashCanonical aeo \<and>
        col_text row ''canonical_aeo'' = canonicalize aeo)"
  proof (cases "decision_aeos d db = []")
    case True
    then show ?thesis
      using r p assms(2) row by (auto simp: run_register Let_def compiled_response_def decision_aeos_def split: if_splits)
  next
    case False
    then show ?thesis
      using r p assms(2) by (auto simp: run_register compiled_response_def split: if_splits)
  qed
  then show ?thesis by (auto simp: run_compile run_register)
qed

theorem compile_idempotent_witness:
  "run (handleAgentToolGatewayCompile (sample_request ''u2'') sample_body)
     (sample_db\<lparr>agent_aeo_registry := [aeo_row ''u1'' ''a1'' ''d1'' (canonicalize sample_aeo) (hashCanonical sample_aeo) ''n1'']\<rparr>) =
   (sample_db\<lparr>agent_aeo_registry := [aeo_row ''u1'' ''a1'' ''d1'' (canonicalize sample_aeo) (hashCanonical sample_aeo) ''n1'']\<rparr>,
    Inr (compiled_response ''d1'' ''a1'' ''t1'' sample_aeo True))"
  using compile_idempotent [OF sample_compile [of "''u1''"], of "sample_request ''u2''"]
  by (simp add: sample_request_def compiled_response_def)

text \<open>
  An object compiled by the gateway is never executed through the invocation boundary: the
  gateway stores it without a continuity id, and the boundary looks it up by one. Every invocation
  of a decision that was first compiled by the gateway is refused.
\<close>

theorem gateway_object_not_invocable:
  assumes "run (handleAgentToolGatewayCompile q b) db = (db', Inr c)" and "\<not> co_existing c"
    and "col_text b' ''decision_id'' = co_decision_id c"
  shows "snd (run (handleAgentToolInvocationBoundary e b') db') \<noteq> PROVEN h"
proof -
  obtain d au i aeo where r: "run (compile_register q d au i aeo) db = (db', Inr c)"
    using assms(1) by (auto simp: run_compile split: sum.splits)
  have none: "decision_aeos d db = []" and d: "co_decision_id c = d"
    and db': "db' = db\<lparr>agent_aeo_registry := agent_aeo_registry db @
        [aeo_row (cr_uuid q) au d (canonicalize aeo) (hashCanonical aeo) (cr_now q)]\<rparr>"
    using r assms(2) by (auto simp: run_register compiled_response_def Let_def split: if_splits)
  have "\<not> (sql_eq ''decision_id'' d x \<and> sql_eq ''continuity_id'' k x)" if "x \<in> set (agent_aeo_registry db')" for x k
    using that none by (auto simp: db' decision_aeos_def filter_empty_conv aeo_row_def sql_eq_def)
  then have "find (sql_all [(''decision_id'', d), (''authority_id'', a), (''continuity_id'', k),
      (''validated_object_hash'', v), (''status'', ''COMPILED'')]) (agent_aeo_registry db') = None" for a k v
    by (auto simp: find_None_iff sql_all_def)
  then show ?thesis
    using assms(3) d
    by (simp add: handleAgentToolInvocationBoundary_def Let_def case_prod_unfold split: option.split)
qed


theorem gateway_object_not_invocable_witness:
  "snd (run (handleAgentToolInvocationBoundary
        \<lparr>iv_uuid = ''v'', iv_now_session = ''n'', iv_now_continuity = ''n'', iv_now_insert = ''n''\<rparr>
        (JObj (map (\<lambda>k. (k, JStr ''d1'')) invocation_required)))
     (fst (run (handleAgentToolGatewayCompile (sample_request ''u1'') sample_body) sample_db))) \<noteq> PROVEN ''d1''"
proof -
  have "col_text (JObj (map (\<lambda>k. (k, JStr ''d1'')) invocation_required)) ''decision_id'' = ''d1''"
    by (simp add: col_text_def js_String_or_def invocation_required_def)
  then show ?thesis
    using gateway_object_not_invocable [OF sample_compile [of "''u1''"]] by (simp add: sample_compile compiled_response_def)
qed

text \<open>
  Compilation is not exclusive for two callers: the test for an existing object and the
  insertion are separate accesses, and no index makes the decision unique. Two requests for one
  decision that has no object yet can interleave so that both are told COMPILED and two
  objects are stored; from then on every compile of the decision is refused as a duplicate.
\<close>

theorem compile_race:
  assumes "compile_prepare (cr_expired q1) b1 db = Inr (d, au1, i1, aeo1)"
    and "compile_prepare (cr_expired q2) b2 db = Inr (d, au2, i2, aeo2)"
    and "decision_aeos d db = []" and "cr_uuid q1 \<noteq> cr_uuid q2"
    and "list_all (\<lambda>x. js_get x ''aeo_id'' \<notin> {JStr (cr_uuid q1), JStr (cr_uuid q2)}) (agent_aeo_registry db)"
  shows "\<exists>db'. scheds (db, [handleAgentToolGatewayCompile q1 b1, handleAgentToolGatewayCompile q2 b2])
      (db', [Ret (Inr (compiled_response d au1 i1 aeo1 False)), Ret (Inr (compiled_response d au2 i2 aeo2 False))]) \<and>
    length (decision_aeos d db') = 2 \<and>
    run (handleAgentToolGatewayCompile q1 b1) db' = (db', Inl ''duplicate_compile'')"
proof -
  let ?row = "\<lambda>q au aeo. aeo_row (cr_uuid q) au d (canonicalize aeo) (hashCanonical aeo) (cr_now q)"
  let ?db1 = "db\<lparr>agent_aeo_registry := agent_aeo_registry db @ [?row q1 au1 aeo1]\<rparr>"
  let ?db2 = "db\<lparr>agent_aeo_registry := agent_aeo_registry db @ [?row q1 au1 aeo1, ?row q2 au2 aeo2]\<rparr>"
  let ?P1 = "handleAgentToolGatewayCompile q1 b1" and ?P2 = "handleAgentToolGatewayCompile q2 b2"
  let ?R1 = "Ret (Inr (compiled_response d au1 i1 aeo1 False))" and ?R2 = "Ret (Inr (compiled_response d au2 i2 aeo2 False))"
  obtain k1 where k1: "advances ?P1 db k1 db" and r1: "run k1 db = (?db1, Inr (compiled_response d au1 i1 aeo1 False))"
    using compile_until_insert [OF assms(1,3)] insert_fresh [of "cr_uuid q1" "agent_aeo_registry db"] assms(5)
    by (fastforce simp: list_all_iff)
  obtain k2 where k2: "advances ?P2 db k2 db" and r2: "run k2 ?db1 = (?db2, Inr (compiled_response d au2 i2 aeo2 False))"
    using compile_until_insert [OF assms(2,3)] insert_fresh [of "cr_uuid q2" "agent_aeo_registry ?db1"] assms(4,5)
    by (fastforce simp: aeo_row_def list_all_iff)
  have "scheds (db, [?P1, ?P2]) (db, [k1, ?P2])" using advances_scheds [OF k1, of 0 "[?P1, ?P2]"] by simp
  also have "scheds (db, [k1, ?P2]) (db, [k1, k2])" using advances_scheds [OF k2, of 1 "[k1, ?P2]"] by simp
  also have "scheds (db, [k1, k2]) (?db1, [?R1, k2])"
    using advances_scheds [OF advances_run [OF r1], of 0 "[k1, k2]"] by simp
  also have "scheds (?db1, [?R1, k2]) (?db2, [?R1, ?R2])"
    using advances_scheds [OF advances_run [OF r2], of 1 "[?R1, k2]"] by simp
  finally have "scheds (db, [?P1, ?P2]) (?db2, [?R1, ?R2])" .
  moreover have two: "decision_aeos d ?db2 = [?row q1 au1 aeo1, ?row q2 au2 aeo2]"
    using assms(3) by (simp add: decision_aeos_def aeo_row_def sql_eq_def)
  moreover have "run ?P1 ?db2 = (?db2, Inl ''duplicate_compile'')"
    unfolding run_compile compile_prepare_cong assms(1) using two by (simp add: run_register)
  ultimately show ?thesis by (intro exI [of _ ?db2]) simp
qed

theorem compile_race_witness:
  "\<exists>db'. scheds (sample_db, [handleAgentToolGatewayCompile (sample_request ''u1'') sample_body,
       handleAgentToolGatewayCompile (sample_request ''u2'') sample_body])
      (db', [Ret (Inr (compiled_response ''d1'' ''a1'' ''t1'' sample_aeo False)),
             Ret (Inr (compiled_response ''d1'' ''a1'' ''t1'' sample_aeo False))]) \<and> length (decision_aeos ''d1'' db') = 2"
  using compile_race [of "sample_request ''u1''" sample_body sample_db "''d1''" "''a1''" "''t1''" sample_aeo
      "sample_request ''u2''" sample_body "''a1''" "''t1''" sample_aeo] sample_prepare
  by (auto simp: sample_request_def decision_aeos_def sample_db_def empty_db_def)


text \<open>
  C19. What is compiled is what was intercepted: when a review approves the stored proposal of a
  call, the ATAO it stores has the agent, session, tool, system, risk class and intent of the
  call, and its scope and constraints, printed to JSON and read back twice on the way, are the
  canonical forms of the scope and the constraints of the call.
\<close>

theorem intercepted_call_reaches_atao:
  assumes "interceptToolCall i = Inr x" and "json_ok (JObj (ii_scope i))" "json_ok (JObj (ii_constraints i))"
    and "ri_proposal input = proposal_lineage (proposal_row i x)"
    and "conductAuthorityReview input = Inr (review, Some a)"
  shows "parseGatewayJsonRecord (js_get (atao_row a ts) ''scope'') = normalize (JObj (ii_scope i)) \<and>
    parseGatewayJsonRecord (js_get (atao_row a ts) ''constraints'') = normalize (JObj (ii_constraints i)) \<and>
    tt_agent_id a = ii_agent_id i \<and> tt_session_id a = ii_session_id i \<and> tt_tool_name a = ii_tool_name i \<and>
    tt_intent a = ii_intent i \<and> tt_observation_hash a = ic_observation_hash x \<and>
    (tt_tool_system a, tt_risk_class a) = map_prod tool_system_str risk_class_str (classifyGatewayToolSurface (ii_tool_name i))"
proof -
  have a: "a = formAgentToolATAO review (proposal_lineage (proposal_row i x))"
    using assms(4,5) by (auto simp: conductAuthorityReview_def Let_def split: if_splits)
  have col: "json_column (proposal_row i x) ''scope'' = JObj (ii_scope i)"
    "json_column (proposal_row i x) ''constraints'' = JObj (ii_constraints i)"
    using stringify_column [OF assms(2)] stringify_column [OF assms(3)] by (simp_all add: json_column_def proposal_row_def)
  have x: "ob_tool_system (ic_observation x) = fst (classifyGatewayToolSurface (ii_tool_name i))"
    "ob_risk_class (ic_observation x) = snd (classifyGatewayToolSurface (ii_tool_name i))"
    using assms(1) by (auto simp: interceptToolCall_def Let_def formObservationArtifact_def split: if_splits prod.splits)
  have "parseGatewayJsonRecord (js_get (atao_row a ts) ''scope'') = normalize (JObj (ii_scope i))"
    "parseGatewayJsonRecord (js_get (atao_row a ts) ''constraints'') = normalize (JObj (ii_constraints i))"
    using stringify_column [OF assms(2)] stringify_column [OF assms(3)]
    by (simp_all add: a atao_row_def formAgentToolATAO_def proposal_lineage_def col parseGatewayJsonRecord_def canonicalRecord_def)
  then show ?thesis
    by (simp add: a formAgentToolATAO_def proposal_lineage_def proposal_row_def col_text_def js_String_or_def x map_prod_def
        case_prod_unfold)
qed

theorem intercepted_call_reaches_atao_witness:
  "\<exists>a. tt_tool_system a = ''shell'' \<and> tt_risk_class a = ''P3'' \<and> tt_intent a = ''run'' \<and>
     parseGatewayJsonRecord (js_get (atao_row a ''n'') ''scope'') =
       JObj [(''cwd'', JStr ''/''), (''paths'', JArr [JStr ''x'', JNum (NInt 3)])]"
proof -
  define i where "i = \<lparr>ii_agent_id = ''g'', ii_session_id = ''s'', ii_tool_name = ''shell_exec'', ii_tool_input = [],
    ii_intent = ''run'', ii_scope = [(''paths'', JArr [JStr ''x'', JNum (NInt 3)]), (''cwd'', JStr ''/'')],
    ii_constraints = [], ii_timestamp = ''n''\<rparr>"
  obtain x where x: "interceptToolCall i = Inr x" by (simp add: interceptToolCall_def i_def Let_def)
  define lin where "lin = proposal_lineage (proposal_row i x)"
  define input where "input = \<lparr>ri_proposal = lin, ri_reviewer_id = ''v'', ri_review_decision = ''APPROVED'',
    ri_review_rationale = ''ok'', ri_timestamp = ''n'', ri_permitted_reviewer_ids = None\<rparr>"
  have "gl_proposal_id lin \<noteq> [] \<and> gl_observation_id lin \<noteq> [] \<and> gl_observation_hash lin \<noteq> []"
    using x by (auto simp: lin_def proposal_lineage_def proposal_row_def interceptToolCall_def i_def Let_def
        formGovernanceProposal_def formObservationArtifact_def col_text_def js_String_or_def hashCanonical_def
        split: prod.splits)
  then obtain review a where a: "conductAuthorityReview input = Inr (review, Some a)"
    by (simp add: conductAuthorityReview_def input_def Let_def formAuthorityReviewArtifact_def)
  have "classifyGatewayToolSurface ''shell_exec'' = (TS_shell, RC_P3)"
    by (rule classify_table) (simp add: GATEWAY_TOOL_RISK_TABLE_def normalized_tool_name_def js_lower_def js_lower_char_def js_ws_def)
  moreover have "normalize (JObj (ii_scope i)) = JObj [(''cwd'', JStr ''/''), (''paths'', JArr [JStr ''x'', JNum (NInt 3)])]"
    unfolding i_def by code_simp
  ultimately show ?thesis
    using intercepted_call_reaches_atao [OF x _ _ _ a, of "''n''"]
    by (intro exI [of _ a]) (simp add: i_def input_def lin_def)
qed

text \<open>
  Reviews do not look at earlier reviews: the answer to a review is the same whatever review
  was given before. A proposal stays pending for ever; a rejected one can be approved, again and
  again, each time with an ATAO of its own.
\<close>

theorem review_ignores_reviews:
  "snd (run (handleAgentToolGatewayAuthorityReview allow b ts)
      (fst (run (handleAgentToolGatewayAuthorityReview allow' b' ts') db))) =
   snd (run (handleAgentToolGatewayAuthorityReview allow b ts) db)"
proof -
  have reg: "agent_tool_proposal_registry (fst (run (handleAgentToolGatewayAuthorityReview allow' b' ts') db)) =
      agent_tool_proposal_registry db"
    by (simp add: handleAgentToolGatewayAuthorityReview_def Let_def split: option.split sum.split prod.split)
  have "snd (run (handleAgentToolGatewayAuthorityReview allow b ts) db1) =
      snd (run (handleAgentToolGatewayAuthorityReview allow b ts) db2)"
    if "agent_tool_proposal_registry db1 = agent_tool_proposal_registry db2" for db1 db2
  proof -
    have "pending_proposal p j h db1 = pending_proposal p j h db2" for p j h
      using that by (simp add: pending_proposal_def)
    then show ?thesis
      by (simp add: handleAgentToolGatewayAuthorityReview_def Let_def split: option.split sum.split prod.split)
  qed
  then show ?thesis using reg by blast
qed

text \<open>
  Two interceptions in the same millisecond: the ids of a proposal do not depend on intent,
  scope or constraints, and the second insertion is ignored. The second caller gets an answer
  for its own call, and the id in it names the stored proposal of the first.
\<close>

theorem intercept_collision:
  assumes "is_js_object b1" "interceptToolCall (intercept_input b1 ts) = Inr x1"
    and "is_js_object b2" "interceptToolCall (intercept_input b2 ts) = Inr x2"
    and "ic_observation x1 = ic_observation x2"
    and "\<not> sql_conflict [[''proposal_id''], [''cip_id'']] (proposal_row (intercept_input b1 ts) x1) (agent_tool_proposal_registry db)"
  shows "\<exists>db'. run (handleAgentToolGatewayIntercept b2 ts) (fst (run (handleAgentToolGatewayIntercept b1 ts) db)) = (db', Inr x2) \<and>
    gpr_intent (ic_proposal x2) = col_text b2 ''intent'' \<and>
    agent_tool_proposal_registry db' = agent_tool_proposal_registry db @ [proposal_row (intercept_input b1 ts) x1] \<and>
    js_get (proposal_row (intercept_input b1 ts) x1) ''proposal_id'' = JStr (gpr_proposal_id (ic_proposal x2)) \<and>
    js_get (proposal_row (intercept_input b1 ts) x1) ''intent'' = JStr (col_text b1 ''intent'')"
proof -
  let ?r1 = "proposal_row (intercept_input b1 ts) x1" and ?r2 = "proposal_row (intercept_input b2 ts) x2"
  have x: "gpr_proposal_id (ic_proposal x1) = gpr_proposal_id (ic_proposal x2)" "gpr_intent (ic_proposal x2) = col_text b2 ''intent''"
    using assms(2,4,5)
    by (auto simp: interceptToolCall_def Let_def formGovernanceProposal_def formCIPProposal_def intercept_input_def split: if_splits)
  have "sql_conflict [[''proposal_id''], [''cip_id'']] ?r2 (agent_tool_proposal_registry db @ [?r1])"
    using x(1) by (simp add: sql_conflict_def proposal_row_def)
  then show ?thesis
    using assms(1-4,6) x
    by (simp add: handleAgentToolGatewayIntercept_def Let_def insert_ignore_def proposal_row_def intercept_input_def)
qed

theorem intercept_collision_witness:
  "\<exists>x2 db'. run (handleAgentToolGatewayIntercept
        (JObj [(''agent_id'', JStr ''g''), (''session_id'', JStr ''s''), (''tool_name'', JStr ''t''), (''intent'', JStr ''drop'')]) ''n'')
      (fst (run (handleAgentToolGatewayIntercept
        (JObj [(''agent_id'', JStr ''g''), (''session_id'', JStr ''s''), (''tool_name'', JStr ''t''), (''intent'', JStr ''list'')]) ''n'')
      empty_db)) = (db', Inr x2) \<and> length (agent_tool_proposal_registry db') = 1"
proof -
  define b where "b = (\<lambda>intent. JObj [(''agent_id'', JStr ''g''), (''session_id'', JStr ''s''), (''tool_name'', JStr ''t''), (''intent'', JStr intent)])"
  have i: "intercept_input (b intent) ''n'' = \<lparr>ii_agent_id = ''g'', ii_session_id = ''s'', ii_tool_name = ''t'', ii_tool_input = [],
    ii_intent = intent, ii_scope = [], ii_constraints = [], ii_timestamp = ''n''\<rparr>" for intent
    by (simp add: b_def intercept_input_def col_text_def js_String_or_def record_or_empty_def)
  obtain x1 x2 where x: "interceptToolCall (intercept_input (b ''list'') ''n'') = Inr x1"
      "interceptToolCall (intercept_input (b ''drop'') ''n'') = Inr x2"
    and "ic_observation x1 = ic_observation x2"
    by (simp add: i interceptToolCall_def Let_def)
  then show ?thesis
    using intercept_collision [of "b ''list''" "''n''" x1 "b ''drop''" x2 empty_db]
    by (auto simp: b_def empty_db_def sql_conflict_def)
qed

text \<open>
  The guard against privileged surfaces is never reached for a risk class the gateway
  assigns: a template with a floor of four or more is refused before it, for its floor.
\<close>

theorem privileged_surface_never_blocked:
  "compile_template_check (selectAEOTemplate surface (riskClassForGatewayTemplate (risk_class_str r)) rows)
     \<noteq> Some ''privileged_surface_blocked''"
proof (cases "selectAEOTemplate surface (riskClassForGatewayTemplate (risk_class_str r)) rows")
  case (Inr t)
  have "\<forall>r\<in>{RC_P0, RC_P1, RC_P2, RC_P3}. riskLevel (riskClassForGatewayTemplate (risk_class_str r)) \<le> 3"
    by code_simp
  then have "riskLevel (riskClassForGatewayTemplate (risk_class_str r)) \<le> 3" by (cases r) simp_all
  moreover have "riskLevel (tm_risk_floor t) \<le> riskLevel (riskClassForGatewayTemplate (risk_class_str r))"
    using Inr by (auto simp: selectAEOTemplate_def Let_def split: option.splits if_splits)
  ultimately show ?thesis using Inr template_level [of "tm_risk_floor t"] by (simp add: compile_template_check_def)
qed (simp add: compile_template_check_def)

text \<open>
  The target of a compiled object is the canonical form of \<^verbatim>\<open>constraints.target\<close> and nothing
  else: the alternative, the constraints themselves, is never taken, because a canonical record
  is an object and an object is truthy. Without a \<^verbatim>\<open>target\<close> the compiled target is empty.
\<close>

theorem gateway_target_without_fallback:
  assumes "canonicalGatewayCompileAeo atao d surface = Some aeo"
  shows "js_get aeo ''target'' = canonicalRecord (js_get (parseGatewayJsonRecord (js_get atao ''constraints'')) ''target'')"
  using assms canonicalRecord_idem
  by (auto simp: canonicalGatewayCompileAeo_def Let_def toCanonicalAeo_def js_or_canonical split: if_splits)


theorem gateway_target_without_fallback_witness: "js_get sample_aeo ''target'' = JObj []"
proof -
  have "canonicalGatewayCompileAeo sample_atao ''d1'' ''filesystem_write'' \<noteq> None" by code_simp
  then have "canonicalGatewayCompileAeo sample_atao ''d1'' ''filesystem_write'' = Some sample_aeo"
    by (auto simp: sample_aeo_def)
  then have "js_get sample_aeo ''target'' =
      canonicalRecord (js_get (parseGatewayJsonRecord (js_get sample_atao ''constraints'')) ''target'')"
    by (rule gateway_target_without_fallback)
  also have "\<dots> = JObj []" by code_simp
  finally show ?thesis .
qed

end
