(* ===== verification/Agent_Invocation_Facts.thy ===== *)
theory Agent_Invocation_Facts
  imports Agent_Routes_Properties
begin

text \<open>
  The invocation boundary: what a PROVEN answer says of the registries, exactly, and which field
  of the request decides whether evidence is asked for at all.
\<close>

section \<open>Evidence\<close>












section \<open>A proven invocation\<close>












section \<open>Properties\<close>



text \<open>
  The request chooses the class: a request that states the reading class itself is answered
  READONLY_OBSERVED without any lookup, whatever its target is, and leaves the registries as they
  are; the classification of the target is only the default.
\<close>

theorem readonly_class_by_request:
  assumes "js_get b ''policy_class'' = JStr ''TOOL_RECONCILIATION_READONLY''"
  shows "\<exists>surface. run (handleAgentToolInvocationBoundary e b) db = (db, READONLY_OBSERVED surface)"
proof -
  have "\<not> is_nullish b" using assms by (cases b) auto
  then show ?thesis
    using assms by (simp add: handleAgentToolInvocationBoundary_def Let_def case_prod_unfold js_String_or_def)
qed

theorem readonly_class_by_request_witness:
  "\<exists>surface. run (handleAgentToolInvocationBoundary
      \<lparr>iv_uuid = ''v'', iv_now_session = ''n'', iv_now_continuity = ''n'', iv_now_insert = ''n''\<rparr>
      (JObj [(''policy_class'', JStr ''TOOL_RECONCILIATION_READONLY''),
             (''target'', JObj [(''tool_surface'', JStr ''deploy_runtime'')])])) empty_db = (empty_db, READONLY_OBSERVED surface)"
  by (rule readonly_class_by_request) simp

end
