(* ===== verification/Replay_Enforcement.thy ===== *)
theory Replay_Enforcement
  imports Replay_Convergence
begin

text \<open>
  \<^verbatim>\<open>src/lib/distributed-replay-convergence-enforcement.ts\<close>: the replay gate in front of an
  execution, five rules and two sections over the evidence on one nonce. Causal indices, ages and
  thresholds are numbers of the language (\<open>jsnum\<close>); comparisons with \<^verbatim>\<open>NaN\<close> are false. The fields that
  are the constant \<^verbatim>\<open>false\<close> in every result are left out of the record.
\<close>

section \<open>Data\<close>

datatype PartitionStatus = PARTITION_HEALED | PARTITION_ACTIVE | PARTITION_UNKNOWN

record DistributedReplayEvidenceDomain =
  rd_nonce_lineage :: "string list"
  rd_proof_ancestry :: "string list"
  rd_continuity_lineage :: "string list"
  rd_topology_visible :: bool
  rd_causal_ordering :: "jsnum list"
  rd_reconciliation_freshness_ms :: jsnum
  rd_partition_status :: PartitionStatus

record ExecutionBoundaryReplayCheck =
  xb_validated_replay_lineage_hash :: string
  xb_executed_replay_lineage_hash :: string

record DistributedReplayConvergenceEnforcementInput =
  ei_enforcement_id :: string
  ei_nonce :: string
  ei_evidence :: DistributedReplayEvidenceDomain
  ei_local_consumed :: bool
  ei_remote_consumed :: bool
  ei_prior_convergence_state :: "ReplayConvergenceState option"
  ei_execution_boundary_check :: "ExecutionBoundaryReplayCheck option"
  ei_staleness_threshold_ms :: "jsnum option"

datatype BoundaryIntegrity = BI_VALID | BI_NULL | BI_NOT_CHECKED

record DistributedReplayConvergenceEnforcementResult =
  er_enforcement_id :: string
  er_classification :: ReplayConvergenceState
  er_compound_predicate_satisfied :: bool
  er_violated_rules :: "string list"
  er_topology_relative_certainty :: bool
  er_lineage_continuity_satisfied :: bool
  er_reconciliation_stale :: bool
  er_execution_boundary_integrity :: BoundaryIntegrity

section \<open>Rules\<close>

fun js_gt :: "jsnum \<Rightarrow> jsnum \<Rightarrow> bool" where
  "js_gt (NInt a) (NInt b) = (a > b)"
| "js_gt NInf (NInt b) = True"
| "js_gt NInf NNegInf = True"
| "js_gt (NInt a) NNegInf = True"
| "js_gt _ _ = False"

definition isReplayAmbiguous :: "bool \<Rightarrow> bool \<Rightarrow> bool \<Rightarrow> bool" where
  "isReplayAmbiguous local_consumed remote_consumed topology_visible =
     (if \<not> topology_visible then False else local_consumed \<noteq> remote_consumed)"

definition topologyRelativeCertainty :: "bool \<Rightarrow> bool" where
  "topologyRelativeCertainty topology_visible = topology_visible"

definition isConsumptionIrreversibilityViolated :: "ReplayConvergenceState option \<Rightarrow> bool \<Rightarrow> bool \<Rightarrow> bool" where
  "isConsumptionIrreversibilityViolated prior_state local_consumed remote_consumed =
     (if prior_state \<noteq> Some REPLAY_CONSUMED then False else \<not> local_consumed \<or> \<not> remote_consumed)"

definition isResurrectionAttempt :: "ReplayConvergenceState option \<Rightarrow> bool \<Rightarrow> bool \<Rightarrow> bool" where
  "isResurrectionAttempt prior_state local_consumed remote_consumed =
     (if prior_state \<noteq> Some REPLAY_CONSUMED then False else \<not> local_consumed \<and> \<not> remote_consumed)"

definition hasLineageContinuity :: "DistributedReplayEvidenceDomain \<Rightarrow> bool" where
  "hasLineageContinuity evidence \<longleftrightarrow> length (rd_nonce_lineage evidence) > 0 \<and> length (rd_continuity_lineage evidence) > 0"

fun causal_index_ok :: "jsnum \<Rightarrow> bool" where
  "causal_index_ok (NInt i) = (i \<ge> 0)"
| "causal_index_ok _ = False"

definition isCausalOrderingValid :: "jsnum list \<Rightarrow> bool" where
  "isCausalOrderingValid causal_ordering = (if causal_ordering = [] then False else list_all causal_index_ok causal_ordering)"

definition checkExecutionBoundaryIntegrity :: "ExecutionBoundaryReplayCheck option \<Rightarrow> BoundaryIntegrity" where
  "checkExecutionBoundaryIntegrity chk = (case chk of
       None \<Rightarrow> BI_NOT_CHECKED
     | Some c \<Rightarrow>
         if xb_validated_replay_lineage_hash c = [] \<or> xb_executed_replay_lineage_hash c = [] \<or>
            xb_validated_replay_lineage_hash c \<noteq> xb_executed_replay_lineage_hash c
         then BI_NULL else BI_VALID)"

definition deriveClassification :: "bool \<Rightarrow> bool \<Rightarrow> bool \<Rightarrow> bool \<Rightarrow> bool \<Rightarrow> bool \<Rightarrow> ReplayConvergenceState" where
  "deriveClassification local_consumed remote_consumed topology_visible ambiguous null_violations lineage_continuity =
     (if null_violations \<or> \<not> lineage_continuity then RS_NULL
      else if \<not> topology_visible then REPLAY_PARTITION_SUSPENDED
      else if ambiguous then REPLAY_DIVERGENT
      else if local_consumed \<and> remote_consumed then REPLAY_CONSUMED
      else REPLAY_SAFE)"

definition buildEnforcementId :: "string \<Rightarrow> string \<Rightarrow> string" where
  "buildEnforcementId nonce enforcement_id =
     ''drc_'' @ sha256Hex (canonicalize (JObj [(''nonce'', JStr nonce), (''enforcement_id'', JStr enforcement_id)]))"

section \<open>The gate\<close>

definition flagged :: "bool \<Rightarrow> string \<Rightarrow> string list" where
  "flagged b rule = (if b then [rule] else [])"

definition enforceDistributedReplayConvergence ::
  "DistributedReplayConvergenceEnforcementInput \<Rightarrow> DistributedReplayConvergenceEnforcementResult" where
  "enforceDistributedReplayConvergence input =
     (let evidence = ei_evidence input; local_consumed = ei_local_consumed input; remote_consumed = ei_remote_consumed input;
          prior = ei_prior_convergence_state input;
          staleness_threshold_ms = (case ei_staleness_threshold_ms input of None \<Rightarrow> NInt 60000 | Some t \<Rightarrow> t);
          lineageContinuity = hasLineageContinuity evidence;
          causalValid = isCausalOrderingValid (rd_causal_ordering evidence);
          irreversibilityViolated = isConsumptionIrreversibilityViolated prior local_consumed remote_consumed;
          resurrectionAttempt = isResurrectionAttempt prior local_consumed remote_consumed;
          topoRelative = topologyRelativeCertainty (rd_topology_visible evidence);
          ambiguous = isReplayAmbiguous local_consumed remote_consumed (rd_topology_visible evidence);
          reconciliationStale = js_gt (rd_reconciliation_freshness_ms evidence) staleness_threshold_ms;
          boundary = checkExecutionBoundaryIntegrity (ei_execution_boundary_check input);
          violatedRules =
            flagged (\<not> lineageContinuity) ''rule_5_detached_lineage'' @
            flagged (\<not> causalValid) ''section_6_invalid_causal_ordering'' @
            flagged irreversibilityViolated ''rule_3_consumption_irreversibility'' @
            flagged resurrectionAttempt ''rule_4_replay_resurrection'' @
            flagged (\<not> topoRelative) ''rule_2_topology_relative_visibility'' @
            flagged ambiguous ''rule_1_replay_ambiguity'' @
            flagged reconciliationStale ''stale_reconciliation_evidence'' @
            flagged (boundary = BI_NULL) ''section_11_execution_boundary_mutation'';
          nullViolations = irreversibilityViolated \<or> resurrectionAttempt \<or> \<not> lineageContinuity \<or> boundary = BI_NULL;
          classification = deriveClassification local_consumed remote_consumed (rd_topology_visible evidence) ambiguous
            nullViolations lineageContinuity
      in \<lparr>er_enforcement_id = ei_enforcement_id input, er_classification = classification,
          er_compound_predicate_satisfied = (classification = REPLAY_SAFE \<and> violatedRules = []),
          er_violated_rules = sort violatedRules, er_topology_relative_certainty = topoRelative,
          er_lineage_continuity_satisfied = lineageContinuity, er_reconciliation_stale = reconciliationStale,
          er_execution_boundary_integrity = boundary\<rparr>)"

section \<open>What the gate guarantees\<close>




text \<open>
  Two of the seven domains of evidence the source calls required are never read: with an active
  partition and without any proof ancestry the gate gives the same answer.
\<close>

theorem partition_and_proofs_unread:
  "enforceDistributedReplayConvergence (input\<lparr>ei_evidence := (ei_evidence input)\<lparr>rd_partition_status := p, rd_proof_ancestry := ps\<rparr>\<rparr>) =
   enforceDistributedReplayConvergence input"
  by (simp add: enforceDistributedReplayConvergence_def Let_def hasLineageContinuity_def)

end
