(* ===== verification/Runtime_Registry.thy ===== *)
theory Runtime_Registry
  imports Agent_Routes Epoch
begin

text \<open>
  The registries of the worker (\<^verbatim>\<open>src/index.ts\<close>) and the continuity lineage on which every canonical
  route rests: sessions, continuities with their parents, cascading revocation, and the routes
  \<^verbatim>\<open>/session\<close> and \<^verbatim>\<open>/continuity\<close>.

  A table is the list of its rows in the order of insertion, a row the object the database
  returns, with \<^verbatim>\<open>null\<close> for a column that was not inserted; one SQL statement is one atomic access.
  An \<^verbatim>\<open>INSERT\<close> that repeats a primary or unique key raises, which the worker answers by
  \<open>runtime_exception\<close>; so does a request body \<^verbatim>\<open>null\<close>, of which every field access raises. The clock
  stands still during a request; \<^verbatim>\<open>Date.parse\<close>, \<^verbatim>\<open>Number\<close> of a string and random ids are arguments.
  Telemetry and drift records go to tables that no modelled route reads and are left out. A
  response is the reason of a refusal or the fields that depend on the request.

  The recursive query over the children of a continuity runs forever on a cycle; it is modelled by
  as many rounds as there are rows, which is all of it when the registry has no cycle
  (\<open>Continuity_Facts\<close>).
\<close>

section \<open>Registries\<close>

record RuntimeDb =
  rt_session_registry :: "jsval list"
  rt_continuity_registry :: "jsval list"
  rt_authority_registry :: "jsval list"
  rt_aeo_registry :: "jsval list"
  rt_preo_registry :: "jsval list"
  rt_validation_registry :: "jsval list"
  rt_invocation_registry :: "jsval list"
  rt_execution_registry :: "jsval list"
  rt_execution_snapshot_registry :: "jsval list"
  rt_proof_registry :: "jsval list"
  rt_proof_propagation_outbox :: "jsval list"
  rt_attestation_registry :: "jsval list"
  rt_delegated_authority_registry :: "jsval list"
  rt_governed_tool_envelope_registry :: "jsval list"
  rt_govern_envelope_registry :: "jsval list"
  rt_epoch_registry :: "EpochRow list"

record RuntimeClock =
  rc_now :: int
  rc_iso :: string
  rc_parse :: "string \<Rightarrow> int option"
  rc_num :: "string \<Rightarrow> jsnum"

section \<open>SQL\<close>

fun js_put :: "string \<Rightarrow> jsval \<Rightarrow> jsval \<Rightarrow> jsval" where
  "js_put k v (JObj kvs) = JObj (alist_set kvs k v)"
| "js_put k v x = x"

definition sql_update :: "(jsval \<Rightarrow> bool) \<Rightarrow> (jsval \<Rightarrow> jsval) \<Rightarrow> jsval list \<Rightarrow> jsval list" where
  "sql_update P f t = map (\<lambda>r. if P r then f r else r) t"

definition sql_in :: "string \<Rightarrow> string list \<Rightarrow> jsval \<Rightarrow> bool" where
  "sql_in col xs r \<longleftrightarrow> list_ex (\<lambda>x. sql_eq col x r) xs"

text \<open>\<^verbatim>\<open>col > ?\<close> on text\<close>

definition sql_after :: "string \<Rightarrow> string \<Rightarrow> jsval \<Rightarrow> bool" where
  "sql_after col t r \<longleftrightarrow> (case js_get r col of JStr s \<Rightarrow> t < s | _ \<Rightarrow> False)"

definition sql_null :: "string \<Rightarrow> jsval \<Rightarrow> bool" where
  "sql_null col r \<longleftrightarrow> js_get r col = JNull"

definition sql_coalesce :: "string \<Rightarrow> string \<Rightarrow> jsval \<Rightarrow> jsval" where
  "sql_coalesce col x r = (if sql_null col r then js_put col (JStr x) r else r)"

text \<open>\<^verbatim>\<open>INSERT\<close>: \<^const>\<open>None\<close> when a key is repeated.\<close>

definition sql_insert :: "string list list \<Rightarrow> jsval \<Rightarrow> jsval list \<Rightarrow> jsval list option" where
  "sql_insert uniques r t = (if sql_conflict uniques r t then None else Some (t @ [r]))"

section \<open>Time\<close>

definition SYSTEM_MAX_CONTINUITY_DEPTH :: nat where
  "SYSTEM_MAX_CONTINUITY_DEPTH = 32"

definition isExpired_at :: "RuntimeClock \<Rightarrow> string \<Rightarrow> bool" where
  "isExpired_at ck expires_at = (case rc_parse ck expires_at of None \<Rightarrow> True | Some expiresMs \<Rightarrow> expiresMs \<le> rc_now ck)"

definition isFresh :: "RuntimeClock \<Rightarrow> string \<Rightarrow> int \<Rightarrow> bool" where
  "isFresh ck created_at freshnessWindowMs =
     (case rc_parse ck created_at of None \<Rightarrow> False | Some createdMs \<Rightarrow> rc_now ck - createdMs \<le> freshnessWindowMs)"

section \<open>Hashes\<close>

text \<open>\<^verbatim>\<open>Array.isArray(v) ? v.map(String) : []\<close>\<close>

definition string_array :: "jsval \<Rightarrow> jsval" where
  "string_array v = (case v of JArr xs \<Rightarrow> JArr (map (\<lambda>x. JStr (js_String x)) xs) | _ \<Rightarrow> JArr [])"

definition string_or_null :: "jsval \<Rightarrow> jsval" where
  "string_or_null v = (if js_truthy v then JStr (js_String v) else JNull)"

definition continuityHashMaterial :: "jsval \<Rightarrow> jsval" where
  "continuityHashMaterial input =
     (let revocation = (if isPlainObject (js_get input ''revocation'') then js_get input ''revocation'' else JObj []) in
      JObj
       [(''actor_chain'', string_array (js_get input ''actor_chain'')),
        (''authority_chain'', string_array (js_get input ''authority_chain'')),
        (''constraints'', canonicalRecord (js_get input ''constraints'')),
        (''continuity_id'', JStr (col_text input ''continuity_id'')),
        (''expires_at'', JStr (col_text input ''expires_at'')),
        (''identity_id'', JStr (col_text input ''identity_id'')),
        (''issued_at'', JStr (col_text input ''issued_at'')),
        (''parent_continuity_id'', string_or_null (js_get input ''parent_continuity_id'')),
        (''revocation'', JObj
           [(''revoked_at'', if is_nullish (js_get revocation ''revoked_at'') then JNull else js_get revocation ''revoked_at''),
            (''status'', JStr (js_String_or (js_get revocation ''status'') ''ACTIVE''))]),
        (''scope'', canonicalRecord (js_get input ''scope'')),
        (''session_id'', JStr (col_text input ''session_id''))])"

definition continuityHash :: "jsval \<Rightarrow> string" where
  "continuityHash input = sha256Hex (canonicalize (continuityHashMaterial input))"

section \<open>Revocation\<close>

definition children_ids :: "jsval list \<Rightarrow> string list \<Rightarrow> string list" where
  "children_ids t ids = map (\<lambda>r. sql_text r ''continuity_id'') (filter (sql_in ''parent_continuity_id'' ids) t)"

primrec cte_rounds :: "nat \<Rightarrow> jsval list \<Rightarrow> string list \<Rightarrow> string list" where
  "cte_rounds 0 t ids = []"
| "cte_rounds (Suc n) t ids = ids @ cte_rounds n t (children_ids t ids)"

definition lineage_cte :: "string \<Rightarrow> jsval list \<Rightarrow> string list" where
  "lineage_cte continuity_id t =
     cte_rounds (length t) t (map (\<lambda>r. sql_text r ''continuity_id'') (filter (sql_eq ''continuity_id'' continuity_id) t))"

text \<open>\<^verbatim>\<open>continuity_id IN (SELECT continuity_id FROM lineage)\<close>\<close>

definition in_lineage :: "string \<Rightarrow> RuntimeDb \<Rightarrow> jsval \<Rightarrow> bool" where
  "in_lineage continuity_id db r \<longleftrightarrow> sql_in ''continuity_id'' (lineage_cte continuity_id (rt_continuity_registry db)) r"

definition revocation_projection :: "string \<Rightarrow> string \<Rightarrow> jsval \<Rightarrow> jsval" where
  "revocation_projection status reason row = JObj
     [(''object_type'', JStr ''DelegatedRevocationProjection''),
      (''delegated_authority_id'', JStr (col_text row ''delegated_authority_id'')),
      (''delegation_lineage_hash'', JStr (col_text row ''delegation_lineage_hash'')),
      (''projection_status'', JStr status), (''revocation_reason'', JStr reason),
      (''evidence_only'', JBool True), (''replay_neutral'', JBool True)]"

definition revocation_projection_row :: "RuntimeClock \<Rightarrow> string \<Rightarrow> jsval \<Rightarrow> jsval" where
  "revocation_projection_row ck uuid projection = JObj
     [(''registry_id'', JStr uuid), (''object_type'', JStr ''DelegatedRevocationProjection''),
      (''delegated_authority_id'', js_get projection ''delegated_authority_id''), (''parent_authority_id'', JStr []),
      (''authority_id'', JNull), (''decision_id'', JNull), (''continuity_id'', JNull), (''delegation_depth'', JStr ''0''),
      (''delegation_scope_subset'', JStr ''{}''), (''delegation_expiry'', JStr []),
      (''delegation_lineage_hash'', js_get projection ''delegation_lineage_hash''), (''delegation_root_hash'', JStr []),
      (''delegated_replay_chain_hash'', JStr []), (''canonical_delegation_object'', JStr (canonicalize projection)),
      (''exact_object_hash'', JStr (sha256Hex (canonicalize projection))),
      (''projection_status'', js_get projection ''projection_status''),
      (''revocation_reason'', js_get projection ''revocation_reason''), (''created_at'', JStr (rc_iso ck))]"

definition DELEGATED_KEYS :: "string list list" where
  "DELEGATED_KEYS = [[''registry_id''], [''exact_object_hash'']]"

definition appendDelegatedRevocationProjection :: "RuntimeClock \<Rightarrow> string \<Rightarrow> jsval \<Rightarrow> (RuntimeDb, unit) proc" where
  "appendDelegatedRevocationProjection ck uuid projection =
     atomically (\<lambda>db. (db\<lparr>rt_delegated_authority_registry :=
       insert_ignore DELEGATED_KEYS (revocation_projection_row ck uuid projection) (rt_delegated_authority_registry db)\<rparr>, ()))"

text \<open>The loop over the delegated authorities; \<open>uuid n\<close> is the random id of the \<open>n\<close>th row.\<close>

fun append_projections :: "RuntimeClock \<Rightarrow> (nat \<Rightarrow> string) \<Rightarrow> nat \<Rightarrow> jsval list \<Rightarrow> (RuntimeDb, unit) proc" where
  "append_projections ck uuid n [] = Ret ()"
| "append_projections ck uuid n (p # ps) =
     proc_bind (appendDelegatedRevocationProjection ck (uuid n) p) (\<lambda>_. append_projections ck uuid (Suc n) ps)"

definition revoke_continuities :: "RuntimeClock \<Rightarrow> string \<Rightarrow> string \<Rightarrow> RuntimeDb \<Rightarrow> RuntimeDb" where
  "revoke_continuities ck continuity_id status db = db\<lparr>rt_continuity_registry :=
     sql_update (\<lambda>r. in_lineage continuity_id db r \<and> sql_in ''status'' [''ACTIVE'', ''RESERVED'', ''EXECUTED'', ''CONSUMED''] r)
       (\<lambda>r. sql_coalesce ''revoked_at'' (rc_iso ck) (js_put ''status'' (JStr status) r)) (rt_continuity_registry db)\<rparr>"

definition revoke_authorities :: "string \<Rightarrow> RuntimeDb \<Rightarrow> RuntimeDb" where
  "revoke_authorities continuity_id db = db\<lparr>rt_authority_registry :=
     sql_update (\<lambda>r. in_lineage continuity_id db r \<and> sql_in ''status'' [''ACTIVE'', ''VALIDATED'', ''RESERVED'', ''EXECUTED''] r)
       (js_put ''status'' (JStr ''REVOKED'')) (rt_authority_registry db)\<rparr>"

definition revoke_validations :: "string \<Rightarrow> string \<Rightarrow> RuntimeDb \<Rightarrow> RuntimeDb" where
  "revoke_validations continuity_id reason db = db\<lparr>rt_validation_registry :=
     sql_update (\<lambda>r. in_lineage continuity_id db r \<and> sql_eq ''status'' ''VALID'' r)
       (\<lambda>r. js_put ''reason'' (JStr reason) (js_put ''result'' (JStr ''INVALID'') (js_put ''status'' (JStr ''REVOKED'') r)))
       (rt_validation_registry db)\<rparr>"

definition revoke_invocations :: "string \<Rightarrow> RuntimeDb \<Rightarrow> RuntimeDb" where
  "revoke_invocations continuity_id db = db\<lparr>rt_invocation_registry :=
     sql_update (\<lambda>r. in_lineage continuity_id db r \<and> sql_eq ''status'' ''RESERVED'' r)
       (js_put ''status'' (JStr ''REVOKED'')) (rt_invocation_registry db)\<rparr>"

definition delegated_rows :: "string \<Rightarrow> RuntimeDb \<Rightarrow> jsval list" where
  "delegated_rows continuity_id db =
     filter (\<lambda>r. in_lineage continuity_id db r \<and> \<not> sql_null ''delegated_authority_id'' r \<and> \<not> sql_eq ''delegated_authority_id'' [] r)
       (rt_authority_registry db)"

definition invalidateContinuityLineage ::
  "RuntimeClock \<Rightarrow> (nat \<Rightarrow> string) \<Rightarrow> string \<Rightarrow> string \<Rightarrow> string \<Rightarrow> (RuntimeDb, unit) proc" where
  "invalidateContinuityLineage ck uuid continuity_id status reason =
     (if continuity_id = [] then Ret ()
      else
        proc_bind (atomically (\<lambda>db. (revoke_continuities ck continuity_id status db, ()))) (\<lambda>_.
        proc_bind (atomically (\<lambda>db. (revoke_authorities continuity_id db, ()))) (\<lambda>_.
        proc_bind (atomically (\<lambda>db. (revoke_validations continuity_id reason db, ()))) (\<lambda>_.
        proc_bind (atomically (\<lambda>db. (revoke_invocations continuity_id db, ()))) (\<lambda>_.
        proc_bind (fetch (delegated_rows continuity_id)) (\<lambda>rows.
          append_projections ck uuid 0 (map (revocation_projection status reason) rows)))))))"

definition cascadeRevocation :: "RuntimeClock \<Rightarrow> (nat \<Rightarrow> string) \<Rightarrow> string \<Rightarrow> (RuntimeDb, unit) proc" where
  "cascadeRevocation ck uuid continuity_id = invalidateContinuityLineage ck uuid continuity_id ''REVOKED'' ''continuity_revoked''"

definition cascadeExpiration :: "RuntimeClock \<Rightarrow> (nat \<Rightarrow> string) \<Rightarrow> string \<Rightarrow> (RuntimeDb, unit) proc" where
  "cascadeExpiration ck uuid continuity_id = invalidateContinuityLineage ck uuid continuity_id ''EXPIRED'' ''continuity_expired''"

definition cascadeSessionRevocation :: "RuntimeClock \<Rightarrow> string \<Rightarrow> (RuntimeDb, unit) proc" where
  "cascadeSessionRevocation ck session_id =
     proc_bind (atomically (\<lambda>db. (db\<lparr>rt_continuity_registry :=
        sql_update (\<lambda>r. sql_eq ''session_id'' session_id r \<and> sql_eq ''status'' ''ACTIVE'' r)
          (\<lambda>r. sql_coalesce ''revoked_at'' (rc_iso ck) (js_put ''status'' (JStr ''REVOKED'') r)) (rt_continuity_registry db)\<rparr>, ()))) (\<lambda>_.
     proc_bind (atomically (\<lambda>db. (db\<lparr>rt_authority_registry :=
        sql_update (\<lambda>r. sql_eq ''session_id'' session_id r \<and> sql_in ''status'' [''ACTIVE'', ''VALIDATED'', ''RESERVED''] r)
          (js_put ''status'' (JStr ''REVOKED'')) (rt_authority_registry db)\<rparr>, ()))) (\<lambda>_.
     proc_bind (atomically (\<lambda>db. (db\<lparr>rt_validation_registry :=
        sql_update (\<lambda>r. sql_eq ''session_id'' session_id r \<and> sql_eq ''status'' ''VALID'' r)
          (\<lambda>r. js_put ''reason'' (JStr ''session_revoked'') (js_put ''result'' (JStr ''INVALID'') (js_put ''status'' (JStr ''REVOKED'') r)))
          (rt_validation_registry db)\<rparr>, ()))) (\<lambda>_.
     atomically (\<lambda>db. (db\<lparr>rt_invocation_registry :=
        sql_update (\<lambda>r. sql_in ''continuity_id''
              (map (\<lambda>c. sql_text c ''continuity_id'') (filter (sql_eq ''session_id'' session_id) (rt_continuity_registry db))) r \<and>
            sql_eq ''status'' ''RESERVED'' r)
          (js_put ''status'' (JStr ''REVOKED'')) (rt_invocation_registry db)\<rparr>, ())))))"

definition activeSession :: "RuntimeClock \<Rightarrow> string \<Rightarrow> (RuntimeDb, jsval option) proc" where
  "activeSession ck session_id =
     (if session_id = [] then Ret None
      else proc_bind (fetch (\<lambda>db. find (sql_eq ''session_id'' session_id) (rt_session_registry db))) (\<lambda>s0.
        case s0 of None \<Rightarrow> Ret None | Some session \<Rightarrow>
        if col_text session ''continuity_status'' \<noteq> ''ACTIVE'' then Ret None
        else if isExpired_at ck (col_text session ''expires_at'') then
          proc_bind (atomically (\<lambda>db. (db\<lparr>rt_session_registry :=
             sql_update (sql_all [(''session_id'', session_id), (''continuity_status'', ''ACTIVE'')])
               (js_put ''continuity_status'' (JStr ''EXPIRED'')) (rt_session_registry db)\<rparr>, ()))) (\<lambda>_.
          proc_bind (cascadeSessionRevocation ck session_id) (\<lambda>_. Ret None))
        else Ret (Some session)))"

section \<open>Lineage\<close>

record Lineage =
  ln_requestedContinuity :: jsval
  ln_requestedCanonical :: jsval
  ln_ancestry :: "(jsval \<times> jsval) list"

text \<open>
  The checks of one ancestor after its row and the rows of its session were read: a failed check
  refuses without effect (\<open>LC_refuse\<close>), revokes or expires a lineage, or lets the walk go on with the
  parsed object.
\<close>

datatype LineageCheck = LC_refuse | LC_revoke string | LC_expire string | LC_ok jsval

definition lineage_check ::
  "RuntimeClock \<Rightarrow> string \<Rightarrow> string \<Rightarrow> string \<Rightarrow> jsval \<Rightarrow> jsval \<Rightarrow> jsval list \<Rightarrow> LineageCheck" where
  "lineage_check ck continuity_id decision_id current_id session continuity sessionRows =
     (case sessionRows of
        [ancestorSession] \<Rightarrow>
          if col_text ancestorSession ''continuity_status'' \<noteq> ''ACTIVE'' \<or> isExpired_at ck (col_text ancestorSession ''expires_at'')
          then LC_expire current_id
          else if isExpired_at ck (col_text continuity ''expires_at'') then LC_expire current_id
          else if col_text continuity ''session_id'' \<noteq> col_text session ''session_id'' then LC_refuse
          else if col_text continuity ''identity_id'' \<noteq> col_text session ''identity_id'' then LC_refuse
          else (case json_parse (js_String_or (js_get continuity ''canonical_continuity'') ''{}'') of
            None \<Rightarrow> LC_refuse
          | Some canonical \<Rightarrow>
              let actualHash = continuityHash canonical;
                  canonicalParent = col_text canonical ''parent_continuity_id'' in
              if actualHash \<noteq> col_text continuity ''continuity_hash'' \<or> actualHash \<noteq> col_text canonical ''continuity_hash''
              then LC_refuse
              else if col_text canonical ''continuity_id'' \<noteq> col_text continuity ''continuity_id'' then LC_refuse
              else if canonicalParent \<noteq> col_text continuity ''parent_continuity_id'' then LC_refuse
              else if canonicalParent = current_id then LC_revoke continuity_id
              else if current_id = continuity_id \<and> decision_id \<noteq> [] \<and>
                      (case js_get canonical ''authority_chain'' of JArr xs \<Rightarrow> decision_id \<notin> js_String ` set xs | _ \<Rightarrow> True)
              then LC_refuse
              else LC_ok canonical)
      | _ \<Rightarrow> LC_revoke current_id)"

text \<open>\<^verbatim>\<open>Number.isFinite(n) && n >= 0 && depth > n\<close> for \<^verbatim>\<open>n = Number(canonical?.constraints?.max_depth)\<close>\<close>

definition exceeds_configured_depth :: "RuntimeClock \<Rightarrow> jsval \<Rightarrow> nat \<Rightarrow> bool" where
  "exceeds_configured_depth ck canonical depth =
     (case js_Number (rc_num ck) (js_get (js_get canonical ''constraints'') ''max_depth'') of
        NInt configuredMaxDepth \<Rightarrow> configuredMaxDepth \<ge> 0 \<and> int depth > configuredMaxDepth
      | _ \<Rightarrow> False)"

text \<open>
  The walk up the parents. \<open>fuel\<close> is 33 less the length of \<open>ancestry\<close>, so the case \<open>0\<close> is not reached:
  the round that makes the ancestry longer than \<open>SYSTEM_MAX_CONTINUITY_DEPTH\<close> is the last.
\<close>

primrec resolve_loop ::
  "nat \<Rightarrow> RuntimeClock \<Rightarrow> (nat \<Rightarrow> string) \<Rightarrow> string \<Rightarrow> string \<Rightarrow> jsval \<Rightarrow> string list \<Rightarrow> (jsval \<times> jsval) list \<Rightarrow> string
   \<Rightarrow> (RuntimeDb, (jsval \<times> jsval) list option) proc" where
  "resolve_loop 0 ck uuid continuity_id decision_id session visited ancestry current_id = Ret None"
| "resolve_loop (Suc fuel) ck uuid continuity_id decision_id session visited ancestry current_id =
     (if current_id = [] then Ret (Some ancestry)
      else if current_id \<in> set visited
      then proc_bind (cascadeRevocation ck uuid continuity_id) (\<lambda>_. Ret None)
      else proc_bind (fetch (\<lambda>db. find (sql_eq ''continuity_id'' current_id) (rt_continuity_registry db))) (\<lambda>c0.
        case c0 of None \<Rightarrow> proc_bind (cascadeRevocation ck uuid continuity_id) (\<lambda>_. Ret None)
        | Some continuity \<Rightarrow>
            if col_text continuity ''status'' \<noteq> ''ACTIVE''
            then proc_bind (cascadeRevocation ck uuid current_id) (\<lambda>_. Ret None)
            else proc_bind (fetch (\<lambda>db. take 2 (filter (sql_eq ''session_id'' (col_text continuity ''session_id''))
                (rt_session_registry db)))) (\<lambda>sessionRows.
              case lineage_check ck continuity_id decision_id current_id session continuity sessionRows of
                LC_refuse \<Rightarrow> Ret None
              | LC_revoke i \<Rightarrow> proc_bind (cascadeRevocation ck uuid i) (\<lambda>_. Ret None)
              | LC_expire i \<Rightarrow> proc_bind (cascadeExpiration ck uuid i) (\<lambda>_. Ret None)
              | LC_ok canonical \<Rightarrow>
                  let ancestry' = ancestry @ [(continuity, canonical)] in
                  if length ancestry' > SYSTEM_MAX_CONTINUITY_DEPTH \<or>
                     exceeds_configured_depth ck (snd (hd ancestry')) (length ancestry')
                  then proc_bind (cascadeRevocation ck uuid continuity_id) (\<lambda>_. Ret None)
                  else resolve_loop fuel ck uuid continuity_id decision_id session (current_id # visited) ancestry'
                         (col_text canonical ''parent_continuity_id''))))"

text \<open>An empty \<open>decision_id\<close> stands for an absent one.\<close>

definition resolveContinuityLineage ::
  "RuntimeClock \<Rightarrow> (nat \<Rightarrow> string) \<Rightarrow> string \<Rightarrow> jsval \<Rightarrow> string \<Rightarrow> (RuntimeDb, Lineage option) proc" where
  "resolveContinuityLineage ck uuid continuity_id session decision_id =
     (if continuity_id = [] then Ret None
      else proc_bind (resolve_loop (Suc SYSTEM_MAX_CONTINUITY_DEPTH) ck uuid continuity_id decision_id session [] [] continuity_id)
        (\<lambda>a0. case a0 of None \<Rightarrow> Ret None | Some ancestry \<Rightarrow>
          if ancestry = [] \<or> js_truthy (js_get (fst (last ancestry)) ''parent_continuity_id'') then Ret None
          else Ret (Some \<lparr>ln_requestedContinuity = fst (hd ancestry), ln_requestedCanonical = snd (hd ancestry),
                          ln_ancestry = ancestry\<rparr>)))"

definition continuityIsRevokedOrAmbiguous :: "RuntimeClock \<Rightarrow> (nat \<Rightarrow> string) \<Rightarrow> string \<Rightarrow> (RuntimeDb, bool) proc" where
  "continuityIsRevokedOrAmbiguous ck uuid continuity_id =
     (if continuity_id = [] then Ret True
      else proc_bind (fetch (\<lambda>db. find (sql_eq ''continuity_id'' continuity_id) (rt_continuity_registry db))) (\<lambda>r0.
        case r0 of None \<Rightarrow> Ret True | Some row \<Rightarrow>
        proc_bind (fetch (\<lambda>db. find (sql_eq ''session_id'' (col_text row ''session_id'')) (rt_session_registry db))) (\<lambda>s0.
        case s0 of None \<Rightarrow> Ret True | Some session \<Rightarrow>
        if col_text session ''identity_id'' \<noteq> col_text row ''identity_id'' \<or> col_text session ''continuity_status'' \<noteq> ''ACTIVE'' \<or>
           isExpired_at ck (col_text session ''expires_at'') then Ret True
        else proc_bind (resolveContinuityLineage ck uuid continuity_id session []) (\<lambda>l. Ret (l = None)))))"

text \<open>\<^verbatim>\<open>activeContinuity\<close> spreads the lineage over one object; its readers are the fields of \<open>Lineage\<close>.\<close>

definition activeContinuity ::
  "RuntimeClock \<Rightarrow> (nat \<Rightarrow> string) \<Rightarrow> string \<Rightarrow> jsval \<Rightarrow> string \<Rightarrow> (RuntimeDb, Lineage option) proc" where
  "activeContinuity ck uuid continuity_id session decision_id = resolveContinuityLineage ck uuid continuity_id session decision_id"

definition live_continuity :: "string \<Rightarrow> jsval \<Rightarrow> bool" where
  "live_continuity now_iso r \<longleftrightarrow> sql_eq ''status'' ''ACTIVE'' r \<and> (sql_null ''revoked_at'' r \<or> sql_eq ''revoked_at'' [] r) \<and>
     sql_after ''expires_at'' now_iso r"

definition current_continuities :: "string \<Rightarrow> string \<Rightarrow> string \<Rightarrow> jsval list \<Rightarrow> jsval list" where
  "current_continuities session_id identity_id now_iso t =
     filter (\<lambda>c. sql_all [(''session_id'', session_id), (''identity_id'', identity_id)] c \<and> live_continuity now_iso c \<and>
        \<not> list_ex (\<lambda>child. sql_eq ''parent_continuity_id'' (sql_text c ''continuity_id'') child \<and>
             sql_all [(''session_id'', session_id), (''identity_id'', identity_id)] child \<and> live_continuity now_iso child) t) t"

definition resolveCurrentContinuityIdentity :: "RuntimeClock \<Rightarrow> jsval \<Rightarrow> (RuntimeDb, (string \<times> string) option) proc" where
  "resolveCurrentContinuityIdentity ck session =
     (let session_id = col_text session ''session_id''; identity_id = col_text session ''identity_id'' in
      if session_id = [] \<or> identity_id = [] then Ret None
      else proc_bind (fetch (\<lambda>db. js_sort (\<lambda>a b. sql_order [''issued_at'', ''continuity_id''] b a)
             (current_continuities session_id identity_id (rc_iso ck) (rt_continuity_registry db)))) (\<lambda>rows.
        case rows of [] \<Rightarrow> Ret None
        | row # _ \<Rightarrow> Ret (Some (col_text row ''continuity_id'', col_text row ''identity_id''))))"

section \<open>Routes /session and /continuity\<close>

record RouteRequest =
  rr_clock :: RuntimeClock
  rr_uuid :: "nat \<Rightarrow> string"
  rr_default_expiry :: string
  rr_body :: jsval

text \<open>\<^verbatim>\<open>String(b.k || d)\<close>\<close>

definition body_or :: "jsval \<Rightarrow> string \<Rightarrow> string \<Rightarrow> string" where
  "body_or b k d = js_String_or (js_get b k) d"

definition session_row :: "RouteRequest \<Rightarrow> string \<Rightarrow> string \<Rightarrow> jsval" where
  "session_row q identity_id expires_at = JObj
     [(''session_id'', JStr (rr_uuid q 0)), (''identity_id'', JStr identity_id), (''owner'', JStr ''human-origin''),
      (''trust_tier'', JStr ''T0''), (''continuity_status'', JStr ''ACTIVE''), (''created_at'', JStr (rc_iso (rr_clock q))),
      (''expires_at'', JStr expires_at)]"

definition session_route :: "RouteRequest \<Rightarrow> (RuntimeDb, string + jsval) proc" where
  "session_route q =
     (let b = rr_body q; identity_id = col_text b ''identity_id''; expires_at = body_or b ''expires_at'' (rr_default_expiry q) in
      if b = JNull then Ret (Inl ''runtime_exception'')
      else if identity_id = [] then Ret (Inl ''missing_identity_id'')
      else if isExpired_at (rr_clock q) expires_at then Ret (Inl ''invalid_session_expiry'')
      else atomically (\<lambda>db. case sql_insert [[''session_id'']] (session_row q identity_id expires_at) (rt_session_registry db) of
        None \<Rightarrow> (db, Inl ''runtime_exception'')
      | Some t \<Rightarrow> (db\<lparr>rt_session_registry := t\<rparr>, Inr (session_row q identity_id expires_at))))"

definition delegationScopeIsSubset :: "jsval \<Rightarrow> jsval \<Rightarrow> bool" where
  "delegationScopeIsSubset parentScopeInput childScopeInput =
     (let parentScope = canonicalRecord parentScopeInput; childScope = canonicalRecord childScopeInput in
      list_all (\<lambda>key. key \<in> set (js_keys parentScope) \<and>
        canonicalize (js_get parentScope key) = canonicalize (js_get childScope key)) (js_keys childScope))"

text \<open>The guards of a continuity with a parent; the loop over the scope is that of \<open>delegationScopeIsSubset\<close>.\<close>

definition parent_guard :: "RuntimeClock \<Rightarrow> Lineage \<Rightarrow> jsval \<Rightarrow> string option" where
  "parent_guard ck parent requestedScope =
     (let prospectiveDepth = length (ln_ancestry parent) + 1; canonical = ln_requestedCanonical parent;
          parentScope = (if isPlainObject (js_get canonical ''scope'') then canonicalRecord (js_get canonical ''scope'') else JObj []) in
      if prospectiveDepth > SYSTEM_MAX_CONTINUITY_DEPTH then Some ''continuity_depth_exceeded''
      else if exceeds_configured_depth ck canonical prospectiveDepth then Some ''continuity_depth_exceeded''
      else if \<not> delegationScopeIsSubset parentScope requestedScope then Some ''scope_expansion_detected''
      else None)"

definition continuity_material :: "RouteRequest \<Rightarrow> jsval \<Rightarrow> string \<Rightarrow> string \<Rightarrow> jsval" where
  "continuity_material q session parent_continuity_id continuity_id =
     (let b = rr_body q in continuityHashMaterial (JObj
       [(''continuity_id'', JStr continuity_id), (''identity_id'', JStr (col_text session ''identity_id'')),
        (''session_id'', JStr (col_text b ''session_id'')),
        (''parent_continuity_id'', if parent_continuity_id = [] then JNull else JStr parent_continuity_id),
        (''authority_chain'', case js_get b ''authority_chain'' of JArr xs \<Rightarrow> JArr xs | _ \<Rightarrow> JArr []),
        (''actor_chain'', case js_get b ''actor_chain'' of JArr xs \<Rightarrow> JArr xs | _ \<Rightarrow> JArr [JStr ''human'', JStr ''agent'']),
        (''scope'', if isPlainObject (js_get b ''scope'') then canonicalRecord (js_get b ''scope'')
                    else JObj [(''environment'', JStr ''production'')]),
        (''constraints'', js_or (js_get b ''constraints'') (JObj [(''max_depth'', JNum (NInt 3)), (''delegation_allowed'', JBool False)])),
        (''revocation'', js_or (js_get b ''revocation'') (JObj [(''status'', JStr ''ACTIVE''), (''revoked_at'', JNull)])),
        (''issued_at'', JStr (body_or b ''issued_at'' (rc_iso (rr_clock q)))),
        (''expires_at'', JStr (body_or b ''expires_at'' (js_String (js_get session ''expires_at''))))]))"

definition with_hash :: "jsval \<Rightarrow> jsval" where
  "with_hash material = js_put ''continuity_hash'' (JStr (continuityHash material)) material"

definition continuity_row :: "jsval \<Rightarrow> jsval" where
  "continuity_row material = JObj
     [(''continuity_id'', js_get material ''continuity_id''), (''identity_id'', js_get material ''identity_id''),
      (''session_id'', js_get material ''session_id''), (''parent_continuity_id'', js_get material ''parent_continuity_id''),
      (''continuity_hash'', JStr (continuityHash material)), (''canonical_continuity'', JStr (canonicalize (with_hash material))),
      (''status'', JStr ''ACTIVE''), (''issued_at'', js_get material ''issued_at''), (''expires_at'', js_get material ''expires_at''),
      (''revoked_at'', JNull)]"

definition register_continuity :: "jsval \<Rightarrow> (RuntimeDb, string + jsval) proc" where
  "register_continuity material =
     (if js_get (js_get material ''revocation'') ''status'' \<noteq> JStr ''ACTIVE'' then Ret (Inl ''revoked_continuity'')
      else atomically (\<lambda>db. case sql_insert [[''continuity_id''], [''continuity_hash'']] (continuity_row material)
          (rt_continuity_registry db) of
        None \<Rightarrow> (db, Inl ''runtime_exception'')
      | Some t \<Rightarrow> (db\<lparr>rt_continuity_registry := t\<rparr>, Inr (with_hash material))))"

definition continuity_route :: "RouteRequest \<Rightarrow> (RuntimeDb, string + jsval) proc" where
  "continuity_route q =
     (let ck = rr_clock q; b = rr_body q in
      if b = JNull then Ret (Inl ''runtime_exception'')
      else proc_bind (activeSession ck (col_text b ''session_id'')) (\<lambda>s0.
        case s0 of None \<Rightarrow> Ret (Inl ''invalid_session'') | Some session \<Rightarrow>
        let continuity_id = body_or b ''continuity_id'' (rr_uuid q 0);
            expires_at = body_or b ''expires_at'' (js_String (js_get session ''expires_at''));
            parent_continuity_id = col_text b ''parent_continuity_id'';
            requestedScope = (if isPlainObject (js_get b ''scope'') then canonicalRecord (js_get b ''scope'')
                              else JObj [(''environment'', JStr ''production'')]);
            material = continuity_material q session parent_continuity_id continuity_id in
        if isExpired_at ck expires_at then Ret (Inl ''expired_continuity'')
        else if parent_continuity_id = continuity_id then Ret (Inl ''continuity_cycle_detected'')
        else if parent_continuity_id = [] then register_continuity material
        else proc_bind (activeContinuity ck (\<lambda>n. rr_uuid q (Suc n)) parent_continuity_id session []) (\<lambda>p0.
          case p0 of None \<Rightarrow> Ret (Inl ''invalid_parent_continuity'') | Some parent \<Rightarrow>
          case parent_guard ck parent requestedScope of Some reason \<Rightarrow> Ret (Inl reason) | None \<Rightarrow>
          register_continuity material)))"

text \<open>The dispatch of the worker on the path.\<close>

datatype RuntimeRoute = R_session RouteRequest | R_continuity RouteRequest

fun route_request :: "RuntimeRoute \<Rightarrow> RouteRequest" where
  "route_request (R_session q) = q"
| "route_request (R_continuity q) = q"

fun runtime_route :: "RuntimeRoute \<Rightarrow> (RuntimeDb, string + jsval) proc" where
  "runtime_route (R_session q) = session_route q"
| "runtime_route (R_continuity q) = continuity_route q"

end
