(* ===== verification/Continuity_Facts.thy ===== *)
theory Continuity_Facts
  imports Runtime_Registry Rely_Guarantee Json_Text
begin

text \<open>
  The lineage of continuities under every interleaving of the routes \<^verbatim>\<open>/session\<close> and \<^verbatim>\<open>/continuity\<close>.
  A row is read as a node; the registry stays a forest in which every child is a delegation of an
  earlier row of the same session and identity with a scope inside its own, at most 32 levels deep.
  No row is removed, its columns other than the status do not change, and a row that is no longer
  ACTIVE does not become ACTIVE again.
\<close>

section \<open>The forest of continuities\<close>

record ContinuityNode =
  cn_id :: string
  cn_parent :: string
  cn_session :: string
  cn_identity :: string
  cn_scope :: jsval

definition row_canonical :: "jsval \<Rightarrow> jsval" where
  "row_canonical r = (case json_parse (js_String_or (js_get r ''canonical_continuity'') ''{}'') of Some v \<Rightarrow> v | None \<Rightarrow> JUndef)"

definition canonical_scope :: "jsval \<Rightarrow> jsval" where
  "canonical_scope canonical =
     (if isPlainObject (js_get canonical ''scope'') then canonicalRecord (js_get canonical ''scope'') else JObj [])"

definition node :: "jsval \<Rightarrow> ContinuityNode" where
  "node r = \<lparr>cn_id = col_text r ''continuity_id'', cn_parent = col_text r ''parent_continuity_id'',
     cn_session = col_text r ''session_id'', cn_identity = col_text r ''identity_id'',
     cn_scope = canonical_scope (row_canonical r)\<rparr>"

text \<open>A child has the session and the identity of its parent and a scope that the parent's contains.\<close>

definition delegates :: "ContinuityNode \<Rightarrow> ContinuityNode \<Rightarrow> bool" where
  "delegates p c \<longleftrightarrow> cn_id p = cn_parent c \<and> cn_session p = cn_session c \<and> cn_identity p = cn_identity c \<and>
     delegationScopeIsSubset (cn_scope p) (cn_scope c)"

text \<open>From \<open>i\<close> a root is reached over at most \<open>n\<close> nodes, \<open>i\<close> included.\<close>

primrec rooted :: "nat \<Rightarrow> ContinuityNode list \<Rightarrow> string \<Rightarrow> bool" where
  "rooted 0 ns i = False"
| "rooted (Suc n) ns i = list_ex (\<lambda>c. cn_id c = i \<and> (cn_parent c = [] \<or> rooted n ns (cn_parent c))) ns"

definition continuity_forest :: "ContinuityNode list \<Rightarrow> bool" where
  "continuity_forest ns \<longleftrightarrow> distinct (map cn_id ns) \<and>
     list_all (\<lambda>i. cn_parent (ns ! i) = [] \<or> list_ex (\<lambda>p. delegates p (ns ! i)) (take i ns)) [0..<length ns] \<and>
     list_all (\<lambda>c. rooted SYSTEM_MAX_CONTINUITY_DEPTH ns (cn_id c)) ns"

lemma rooted_mono: "rooted n ns i \<Longrightarrow> set ns \<subseteq> set ns' \<Longrightarrow> n \<le> n' \<Longrightarrow> rooted n' ns' i"
proof (induction n arbitrary: i n')
  case (Suc n)
  obtain m where m: "n' = Suc m" "n \<le> m" using Suc.prems(3) by (cases n') auto
  obtain c where "c \<in> set ns" "cn_id c = i" "cn_parent c = [] \<or> rooted n ns (cn_parent c)"
    using Suc.prems(1) by (auto simp: list_ex_iff)
  then show ?case using Suc.IH [OF _ Suc.prems(2) m(2)] Suc.prems(2) by (auto simp: m(1) list_ex_iff)
qed simp

lemma forest_snoc:
  assumes f: "continuity_forest ns" and new: "cn_id c \<notin> cn_id ` set ns"
    and par: "cn_parent c = [] \<or> list_ex (\<lambda>p. delegates p c) ns \<and> rooted d ns (cn_parent c)"
    and d: "Suc d \<le> SYSTEM_MAX_CONTINUITY_DEPTH"
  shows "continuity_forest (ns @ [c])"
proof -
  have "rooted (Suc d) (ns @ [c]) (cn_id c)"
    using par rooted_mono [of d ns "cn_parent c" "ns @ [c]" d] by auto
  then have "rooted SYSTEM_MAX_CONTINUITY_DEPTH (ns @ [c]) (cn_id c)" using rooted_mono d by blast
  moreover have "rooted SYSTEM_MAX_CONTINUITY_DEPTH (ns @ [c]) (cn_id x)" if "x \<in> set ns" for x
    using f that rooted_mono [of SYSTEM_MAX_CONTINUITY_DEPTH ns "cn_id x" "ns @ [c]"]
    by (auto simp: continuity_forest_def list_all_iff)
  ultimately show ?thesis using f new par by (auto simp: continuity_forest_def list_all_iff nth_append)
qed

section \<open>What every statement keeps\<close>

definition frozen :: "jsval \<Rightarrow> jsval list" where
  "frozen r = map (js_get r) [''continuity_id'', ''identity_id'', ''session_id'', ''parent_continuity_id'',
     ''continuity_hash'', ''canonical_continuity'', ''issued_at'', ''expires_at'']"

definition continuity_active :: "jsval \<Rightarrow> bool" where
  "continuity_active r \<longleftrightarrow> col_text r ''status'' = ''ACTIVE''"

definition row_kept :: "jsval \<Rightarrow> jsval \<Rightarrow> bool" where
  "row_kept r r' \<longleftrightarrow> frozen r' = frozen r \<and> (continuity_active r' \<longrightarrow> continuity_active r)"

definition rows_kept :: "jsval list \<Rightarrow> jsval list \<Rightarrow> bool" where
  "rows_kept t t' \<longleftrightarrow> length t \<le> length t' \<and> (\<forall>i<length t. row_kept (t ! i) (t' ! i))"

definition continuity_kept :: "RuntimeDb \<Rightarrow> RuntimeDb \<Rightarrow> bool" where
  "continuity_kept db db' \<longleftrightarrow> rows_kept (rt_continuity_registry db) (rt_continuity_registry db')"

text \<open>The text columns of a row are text.\<close>

definition continuity_typed :: "jsval \<Rightarrow> bool" where
  "continuity_typed r \<longleftrightarrow> js_get r ''continuity_id'' = JStr (cn_id (node r)) \<and>
     js_get r ''parent_continuity_id'' = (if cn_parent (node r) = [] then JNull else JStr (cn_parent (node r)))"

definition continuity_inv :: "RuntimeDb \<Rightarrow> bool" where
  "continuity_inv db \<longleftrightarrow> list_all continuity_typed (rt_continuity_registry db) \<and>
     continuity_forest (map node (rt_continuity_registry db))"

lemma row_kept_refl [simp]: "row_kept r r"
  by (simp add: row_kept_def)

lemma row_kept_trans: "row_kept a b \<Longrightarrow> row_kept b c \<Longrightarrow> row_kept a c"
  by (simp add: row_kept_def)

interpretation continuity_db: rely_guarantee continuity_kept continuity_inv
proof unfold_locales
  show "continuity_kept db db" for db by (simp add: continuity_kept_def rows_kept_def)
  show "continuity_kept a c" if "continuity_kept a b" "continuity_kept b c" for a b c
    using that row_kept_trans by (auto simp: continuity_kept_def rows_kept_def)
qed

lemma frozen_get:
  assumes "frozen r' = frozen r"
  shows "js_get r' ''continuity_id'' = js_get r ''continuity_id''"
    "js_get r' ''identity_id'' = js_get r ''identity_id''" "js_get r' ''session_id'' = js_get r ''session_id''"
    "js_get r' ''parent_continuity_id'' = js_get r ''parent_continuity_id''"
    "js_get r' ''canonical_continuity'' = js_get r ''canonical_continuity''"
    "js_get r' ''expires_at'' = js_get r ''expires_at''"
  using assms by (simp_all add: frozen_def)

lemma frozen_node: "frozen r' = frozen r \<Longrightarrow> node r' = node r"
  using frozen_get [of r' r] by (simp add: node_def row_canonical_def col_text_def)

lemma frozen_typed: "frozen r' = frozen r \<Longrightarrow> continuity_typed r' = continuity_typed r"
  using frozen_node [of r' r] frozen_get [of r' r] by (simp add: continuity_typed_def)

lemma kept_nth_node: "continuity_kept db db' \<Longrightarrow> i < length (rt_continuity_registry db) \<Longrightarrow>
  node (rt_continuity_registry db' ! i) = node (rt_continuity_registry db ! i)"
  by (rule frozen_node) (simp add: continuity_kept_def rows_kept_def row_kept_def)

lemma kept_nodes:
  assumes "continuity_kept db db'"
  shows "set (map node (rt_continuity_registry db)) \<subseteq> set (map node (rt_continuity_registry db'))"
proof
  fix c assume "c \<in> set (map node (rt_continuity_registry db))"
  then obtain i where i: "i < length (rt_continuity_registry db)" "c = node (rt_continuity_registry db ! i)"
    by (auto simp: in_set_conv_nth)
  then have "c = node (rt_continuity_registry db' ! i)" using kept_nth_node [OF assms] by simp
  moreover have "i < length (rt_continuity_registry db')" using assms i(1) by (simp add: continuity_kept_def rows_kept_def)
  ultimately show "c \<in> set (map node (rt_continuity_registry db'))" by simp
qed

lemma rooted_kept:
  "rooted n (map node (rt_continuity_registry db)) i \<Longrightarrow> continuity_kept db db' \<Longrightarrow> n \<le> m \<Longrightarrow>
   rooted m (map node (rt_continuity_registry db')) i"
  using rooted_mono kept_nodes by blast

text \<open>An update of rows that leaves the columns and revives nothing keeps both.\<close>

lemma sql_update_kept:
  assumes "\<And>r. r \<in> set t \<Longrightarrow> P r \<Longrightarrow> row_kept r (f r)"
  shows "rows_kept t (sql_update P f t)" "map node (sql_update P f t) = map node t"
    "list_all continuity_typed (sql_update P f t) = list_all continuity_typed t"
proof -
  have f: "frozen (f r) = frozen r" if "r \<in> set t" "P r" for r
    using assms that by (simp add: row_kept_def)
  have n: "node (if P r then f r else r) = node r" "continuity_typed (if P r then f r else r) = continuity_typed r"
    if "r \<in> set t" for r
    using frozen_node [OF f] frozen_typed [OF f] that by simp_all
  show "rows_kept t (sql_update P f t)" using assms by (simp add: rows_kept_def sql_update_def)
  show "map node (sql_update P f t) = map node t"
    unfolding sql_update_def by (simp only: map_map o_def n(1) cong: map_cong)
  show "list_all continuity_typed (sql_update P f t) = list_all continuity_typed t"
    unfolding sql_update_def by (simp only: list.pred_map o_def n(2) cong: list.pred_cong)
qed

lemma alist_set_other: "k \<noteq> c \<Longrightarrow> map_of (alist_set kvs c v) k = map_of kvs k"
  by (induction kvs c v rule: alist_set.induct) auto

lemma alist_set_same: "map_of (alist_set kvs c v) c = Some v"
  by (induction kvs c v rule: alist_set.induct) auto

lemma js_put_other: "k \<noteq> c \<Longrightarrow> js_get (js_put c v r) k = js_get r k"
  by (cases r) (simp_all add: alist_set_other)

lemma frozen_status: "frozen (js_put ''status'' v r) = frozen r" "frozen (sql_coalesce ''revoked_at'' x r) = frozen r"
  by (simp_all add: frozen_def sql_coalesce_def js_put_other)

lemma status_coalesce: "col_text (sql_coalesce ''revoked_at'' x r) ''status'' = col_text r ''status''"
  by (simp add: col_text_def sql_coalesce_def js_put_other)

lemma status_put: "sql_in ''status'' ss r \<Longrightarrow> col_text (js_put ''status'' (JStr x) r) ''status'' = x"
  by (cases r) (auto simp: col_text_def js_String_or_def alist_set_same sql_in_def sql_eq_def list_ex_iff)

lemma row_kept_revoke:
  "sql_in ''status'' ss r \<Longrightarrow> x \<noteq> ''ACTIVE'' \<Longrightarrow> row_kept r (sql_coalesce ''revoked_at'' y (js_put ''status'' (JStr x) r))"
  by (simp add: row_kept_def frozen_status continuity_active_def status_coalesce status_put)


section \<open>The statements\<close>

text \<open>A write that leaves the continuities alone, or an update that keeps their rows, keeps the invariant.\<close>

lemma kept_step:
  assumes "continuity_inv db" and "\<And>r. r \<in> set (rt_continuity_registry db) \<Longrightarrow> P r \<Longrightarrow> row_kept r (f r)"
    and "rt_continuity_registry db' = sql_update P f (rt_continuity_registry db)"
  shows "continuity_kept db db' \<and> continuity_inv db'"
  using sql_update_kept [of "rt_continuity_registry db" P f] assms by (simp add: continuity_kept_def continuity_inv_def)

lemma other_registries_inv [simp]:
  "continuity_inv (db\<lparr>rt_session_registry := t\<rparr>) = continuity_inv db"
  "continuity_inv (db\<lparr>rt_authority_registry := t\<rparr>) = continuity_inv db"
  "continuity_inv (db\<lparr>rt_validation_registry := t\<rparr>) = continuity_inv db"
  "continuity_inv (db\<lparr>rt_invocation_registry := t\<rparr>) = continuity_inv db"
  "continuity_inv (db\<lparr>rt_delegated_authority_registry := t\<rparr>) = continuity_inv db"
  by (simp_all add: continuity_inv_def)

lemma other_registries_kept [simp]:
  "continuity_kept db (db\<lparr>rt_session_registry := t\<rparr>)"
  "continuity_kept db (db\<lparr>rt_authority_registry := t\<rparr>)"
  "continuity_kept db (db\<lparr>rt_validation_registry := t\<rparr>)"
  "continuity_kept db (db\<lparr>rt_invocation_registry := t\<rparr>)"
  "continuity_kept db (db\<lparr>rt_delegated_authority_registry := t\<rparr>)"
  "continuity_kept db db"
  by (simp_all add: continuity_kept_def rows_kept_def)

lemma kept_revoke_continuities:
  assumes "continuity_inv db" and "status \<noteq> ''ACTIVE''"
  shows "continuity_kept db (revoke_continuities ck c status db) \<and> continuity_inv (revoke_continuities ck c status db)"
  by (rule kept_step [OF assms(1) row_kept_revoke [OF conjunct2 assms(2)]]) (auto simp: revoke_continuities_def)

lemma keeps_append_projections:
  "keepsq continuity_kept continuity_inv (\<lambda>_ _. True) (append_projections ck uuid n ps) s0"
proof (induction ps arbitrary: n s0)
  case (Cons p ps)
  then show ?case
    unfolding append_projections.simps appendDelegatedRevocationProjection_def
    by (intro continuity_db.keepsq_atomically_bind) simp
qed simp

lemma keeps_invalidate:
  assumes "status \<noteq> ''ACTIVE''"
  shows "keepsq continuity_kept continuity_inv (\<lambda>_ _. True) (invalidateContinuityLineage ck uuid c status reason) s0"
  unfolding invalidateContinuityLineage_def
  by (auto simp: kept_revoke_continuities assms revoke_authorities_def revoke_validations_def revoke_invocations_def
      keeps_append_projections intro!: continuity_db.keepsq_atomically_bind continuity_db.keepsq_fetch)

lemma keeps_cascade:
  assumes "\<And>s. Q a s"
  shows "keepsq continuity_kept continuity_inv Q (proc_bind (cascadeRevocation ck uuid c) (\<lambda>_. Ret a)) s0"
    "keepsq continuity_kept continuity_inv Q (proc_bind (cascadeExpiration ck uuid c) (\<lambda>_. Ret a)) s0"
  unfolding cascadeRevocation_def cascadeExpiration_def
  by (rule continuity_db.keepsq_bind [OF keeps_invalidate], simp, simp add: assms)+

lemma kept_revoke_session:
  assumes "continuity_inv db" and "db' = db\<lparr>rt_continuity_registry :=
     sql_update (\<lambda>r. sql_eq ''session_id'' i r \<and> sql_eq ''status'' ''ACTIVE'' r)
       (\<lambda>r. sql_coalesce ''revoked_at'' y (js_put ''status'' (JStr ''REVOKED'') r)) (rt_continuity_registry db)\<rparr>"
  shows "continuity_kept db db' \<and> continuity_inv db'"
  by (rule kept_step [OF assms(1) row_kept_revoke [of "[''ACTIVE'']"]]) (auto simp: assms(2) sql_in_def)

lemma keeps_session_revocation:
  "keepsq continuity_kept continuity_inv (\<lambda>_ _. True) (cascadeSessionRevocation ck i) s0"
  unfolding cascadeSessionRevocation_def
  by (auto simp: kept_revoke_session [OF _ refl] intro!: continuity_db.keepsq_atomically_bind continuity_db.keepsq_atomically)


section \<open>The walk up the parents\<close>

abbreviation (input) nodes :: "RuntimeDb \<Rightarrow> ContinuityNode list" where
  "nodes db \<equiv> map node (rt_continuity_registry db)"

text \<open>The rows from \<open>i\<close> upwards over \<open>n\<close> levels are ACTIVE.\<close>

primrec line_active :: "nat \<Rightarrow> jsval list \<Rightarrow> string \<Rightarrow> bool" where
  "line_active 0 t i = True"
| "line_active (Suc n) t i = list_all (\<lambda>r. cn_id (node r) = i \<longrightarrow>
     continuity_active r \<and> (cn_parent (node r) = [] \<or> line_active n t (cn_parent (node r)))) t"

lemma line_active_before:
  assumes "continuity_kept db db'"
  shows "line_active n (rt_continuity_registry db') i \<Longrightarrow> line_active n (rt_continuity_registry db) i"
proof (induction n arbitrary: i)
  case (Suc n)
  let ?t = "rt_continuity_registry db" and ?t' = "rt_continuity_registry db'"
  show ?case
    unfolding line_active.simps list_all_length
  proof (intro allI impI)
    fix j assume j: "j < length ?t" "cn_id (node (?t ! j)) = i"
    have k: "row_kept (?t ! j) (?t' ! j)" "j < length ?t'" "node (?t' ! j) = node (?t ! j)"
      using assms j(1) kept_nth_node [OF assms j(1)] by (simp_all add: continuity_kept_def rows_kept_def)
    then have "continuity_active (?t' ! j) \<and> (cn_parent (node (?t ! j)) = [] \<or> line_active n ?t' (cn_parent (node (?t ! j))))"
      using Suc.prems j(2) by (auto simp: list_all_length)
    then show "continuity_active (?t ! j) \<and> (cn_parent (node (?t ! j)) = [] \<or> line_active n ?t (cn_parent (node (?t ! j))))"
      using k(1) Suc.IH by (auto simp: row_kept_def)
  qed
qed simp

text \<open>A row found by its id is the only one with it.\<close>

lemma found_unique:
  assumes "continuity_inv db" and "find (sql_eq ''continuity_id'' i) (rt_continuity_registry db) = Some r"
  shows "r \<in> set (rt_continuity_registry db) \<and> cn_id (node r) = i \<and>
    (\<forall>x\<in>set (rt_continuity_registry db). cn_id (node x) = i \<longrightarrow> x = r)"
proof -
  have r: "r \<in> set (rt_continuity_registry db)" "sql_eq ''continuity_id'' i r"
    using assms(2) by (auto simp: find_Some_iff)
  have i: "cn_id (node r) = i" using r(2) by (simp add: node_def col_text_def js_String_or_def sql_eq_def)
  have "distinct (map (\<lambda>r. cn_id (node r)) (rt_continuity_registry db))"
    using assms(1) by (simp add: continuity_inv_def continuity_forest_def comp_def)
  then have "inj_on (\<lambda>r. cn_id (node r)) (set (rt_continuity_registry db))" by (simp add: distinct_map)
  then show ?thesis using r(1) i by (auto dest: inj_onD)
qed

text \<open>What a walk from \<open>current_id\<close> that started in \<open>s0\<close> has seen when it returns in \<open>s\<close>.\<close>

definition walk_ok ::
  "RuntimeDb \<Rightarrow> jsval \<Rightarrow> (jsval \<times> jsval) list \<Rightarrow> string \<Rightarrow> (jsval \<times> jsval) list option \<Rightarrow> RuntimeDb \<Rightarrow> bool" where
  "walk_ok s0 session ancestry current_id result s \<longleftrightarrow> (case result of None \<Rightarrow> True | Some anc \<Rightarrow>
     if current_id = [] then anc = ancestry
     else length ancestry < length anc \<and> length anc \<le> SYSTEM_MAX_CONTINUITY_DEPTH \<and> take (length ancestry) anc = ancestry \<and>
       rooted (length anc - length ancestry) (nodes s) current_id \<and>
       (\<forall>n. line_active n (rt_continuity_registry s0) current_id) \<and>
       (\<exists>row. anc ! length ancestry = (row, row_canonical row) \<and> node row \<in> set (nodes s) \<and> cn_id (node row) = current_id \<and>
          cn_session (node row) = col_text session ''session_id'' \<and> cn_identity (node row) = col_text session ''identity_id''))"

lemma lineage_check_ok:
  assumes "lineage_check ck c d i session r ss = LC_ok canonical"
  shows "cn_session (node r) = col_text session ''session_id'' \<and> cn_identity (node r) = col_text session ''identity_id'' \<and>
    canonical = row_canonical r \<and> col_text canonical ''parent_continuity_id'' = cn_parent (node r)"
  using assms
  by (auto simp: lineage_check_def node_def row_canonical_def Let_def split: list.splits if_splits option.splits)

lemma line_active_step:
  assumes "continuity_inv db" and "find (sql_eq ''continuity_id'' i) (rt_continuity_registry db) = Some r"
    and "continuity_active r" and "\<And>n. cn_parent (node r) \<noteq> [] \<Longrightarrow> line_active n (rt_continuity_registry db) (cn_parent (node r))"
  shows "line_active n (rt_continuity_registry db) i"
  using found_unique [OF assms(1,2)] assms(3,4) by (cases n) (auto simp: list_all_iff)

lemma take_Suc_append:
  assumes "take (Suc (length xs)) ys = xs @ [x]" and "Suc (length xs) \<le> length ys"
  shows "take (length xs) ys = xs \<and> ys ! length xs = x"
proof -
  have "take (length xs) (take (Suc (length xs)) ys) = xs" "take (Suc (length xs)) ys ! length xs = x"
    using assms(1) by simp_all
  then show ?thesis by simp
qed

lemma walk_step:
  assumes s: "continuity_kept s0 s" "continuity_inv s" and i: "i \<noteq> []"
    and r: "find (sql_eq ''continuity_id'' i) (rt_continuity_registry s) = Some r" "continuity_active r"
    and c: "lineage_check ck c d i session r ss = LC_ok canonical"
    and len: "length ancestry < SYSTEM_MAX_CONTINUITY_DEPTH"
    and w: "walk_ok s session (ancestry @ [(r, canonical)]) (col_text canonical ''parent_continuity_id'') result s1"
    and s1: "continuity_kept s s1"
  shows "walk_ok s0 session ancestry i result s1"
proof (cases result)
  case (Some anc)
  have can: "canonical = row_canonical r" "col_text canonical ''parent_continuity_id'' = cn_parent (node r)"
    using lineage_check_ok [OF c] by blast+
  have r_s1: "node r \<in> set (nodes s1)" "cn_id (node r) = i" using found_unique [OF s(2) r(1)] kept_nodes [OF s1] by auto
  have w': "if cn_parent (node r) = [] then anc = ancestry @ [(r, row_canonical r)]
      else Suc (length ancestry) < length anc \<and> length anc \<le> SYSTEM_MAX_CONTINUITY_DEPTH \<and>
        take (Suc (length ancestry)) anc = ancestry @ [(r, row_canonical r)] \<and>
        rooted (length anc - Suc (length ancestry)) (nodes s1) (cn_parent (node r)) \<and>
        (\<forall>n. line_active n (rt_continuity_registry s) (cn_parent (node r)))"
    using w [unfolded Some can(2), unfolded can(1)] by (auto simp: walk_ok_def split: if_splits)
  have "line_active n (rt_continuity_registry s) i" for n
    using line_active_step [OF s(2) r] w' by (auto split: if_splits)
  then have live: "line_active n (rt_continuity_registry s0) i" for n using line_active_before [OF s(1)] by blast
  have shape: "length ancestry < length anc" "length anc \<le> SYSTEM_MAX_CONTINUITY_DEPTH"
    "take (length ancestry) anc = ancestry" "anc ! length ancestry = (r, row_canonical r)"
    using w' len take_Suc_append [of ancestry anc "(r, row_canonical r)"] by (auto split: if_splits)
  obtain m where m: "length anc - length ancestry = Suc m" "m = length anc - Suc (length ancestry)"
    using shape(1) by (metis Suc_diff_Suc)
  have "rooted (length anc - length ancestry) (nodes s1) i"
    using w' r_s1 unfolding m(1) rooted.simps list_ex_iff by (auto simp: m(2) split: if_splits)
  then show ?thesis
    using shape live r_s1 lineage_check_ok [OF c] i unfolding walk_ok_def Some by auto
qed (simp add: walk_ok_def)

lemma walk_ok_before:
  "walk_ok s' session ancestry i result s1 \<Longrightarrow> continuity_kept s s' \<Longrightarrow> walk_ok s session ancestry i result s1"
  using line_active_before by (auto simp: walk_ok_def split: option.splits if_splits)

lemma keeps_resolve_loop:
  "length ancestry \<le> SYSTEM_MAX_CONTINUITY_DEPTH \<Longrightarrow>
   keepsq continuity_kept continuity_inv (walk_ok s0 session ancestry i)
     (resolve_loop fuel ck uuid c d session visited ancestry i) s0"
proof (induction fuel arbitrary: visited ancestry i s0)
  case (Suc fuel)
  have none: "walk_ok s0 session ancestry i None s" for s by (simp add: walk_ok_def)
  have nil: "walk_ok s0 session ancestry [] (Some ancestry) s0" by (simp add: walk_ok_def)
  have go: "keepsq continuity_kept continuity_inv (walk_ok s0 session ancestry i)
      (resolve_loop fuel ck uuid c d session (i # visited) (ancestry @ [(r, canonical)])
        (col_text canonical ''parent_continuity_id'')) s'"
    if "continuity_kept s0 s" "continuity_inv s" "i \<noteq> []" "continuity_kept s s'"
      "find (sql_eq ''continuity_id'' i) (rt_continuity_registry s) = Some r" "continuity_active r"
      "lineage_check ck c d i session r ss = LC_ok canonical" "length ancestry < SYSTEM_MAX_CONTINUITY_DEPTH"
    for s s' r ss canonical
  proof (rule continuity_db.keepsq_post [OF Suc.IH])
    show "length (ancestry @ [(r, canonical)]) \<le> SYSTEM_MAX_CONTINUITY_DEPTH" using that(8) by simp
  next
    fix a s1
    assume "walk_ok s' session (ancestry @ [(r, canonical)]) (col_text canonical ''parent_continuity_id'') a s1" "continuity_kept s' s1"
    then show "walk_ok s0 session ancestry i a s1"
      using walk_step [OF that(1,2,3,5,6,7,8) walk_ok_before [OF _ that(4)]] continuity_db.R_trans [OF that(4)] by blast
  qed
  have cascade: "keepsq continuity_kept continuity_inv (walk_ok s0 session ancestry i) (proc_bind (cascadeRevocation ck uuid j) (\<lambda>_. Ret None)) s"
    "keepsq continuity_kept continuity_inv (walk_ok s0 session ancestry i) (proc_bind (cascadeExpiration ck uuid j) (\<lambda>_. Ret None)) s" for j s
    by (rule keeps_cascade, rule none)+
  show ?case
    by (auto simp: none nil cascade Let_def continuity_active_def split: option.split LineageCheck.split
        intro!: continuity_db.keepsq_fetch go)
qed (simp add: walk_ok_def)

section \<open>A new row\<close>

lemma keys_once_JObj: "keys_once (JObj kvs) \<longleftrightarrow> distinct (map fst kvs) \<and> (\<forall>kv\<in>set kvs. keys_once (snd kv))"
  by auto

lemma distinct_fst_sort: "distinct (map fst (sort_key fst xs)) \<longleftrightarrow> distinct (map fst xs)"
  by (rule mset_eq_imp_distinct_iff) simp

lemma json_ok_normalize: "keys_once v \<Longrightarrow> json_ok (normalize v)"
proof (induction v)
  case (JNum n)
  then show ?case by (cases n) auto
next
  case (JObj kvs)
  have "\<forall>kv\<in>set kvs. json_ok (normalize (snd kv))"
    using JObj.IH [OF _ snd_in_snds] JObj.prems by (auto simp: keys_once_JObj)
  moreover have "distinct (map fst (sort_key fst (map (map_prod id normalize) kvs)))"
    using JObj.prems by (simp add: distinct_fst_sort comp_def)
  ultimately show ?case by (auto simp: distinct_map_fst_filter)
qed auto

lemma keys_once_get: "keys_once v \<Longrightarrow> keys_once (js_get v k)"
  by (cases v) (auto split: option.split dest: map_of_SomeD)

lemma json_ok_keys_once: "json_ok v \<Longrightarrow> keys_once v"
proof (induction v)
  case (JObj kvs)
  then show ?case using snd_in_snds by (fastforce simp: keys_once_JObj)
qed auto

lemma get_normalize:
  assumes "distinct (map fst kvs)" and "(k, v) \<in> set kvs" and "k \<noteq> proto_key"
  shows "js_get (normalize (JObj kvs)) k = normalize v"
proof -
  let ?l = "filter (\<lambda>kv. fst kv \<noteq> proto_key) (sort_key fst (map (map_prod id normalize) kvs))"
  have "(k, normalize v) \<in> set ?l" using assms(2,3) by force
  moreover have "distinct (map fst ?l)"
    using assms(1) by (intro distinct_map_fst_filter) (simp add: distinct_fst_sort comp_def)
  ultimately have "map_of ?l k = Some (normalize v)" by (metis map_of_is_SomeI)
  then show ?thesis by simp
qed

lemma canonicalRecord_normal: "\<exists>kvs. canonicalRecord v = JObj kvs \<and> normal (JObj kvs)"
  using normal_normalize [of v] by (cases "normalize v") (auto simp: canonicalRecord_def)

lemma canonicalRecord_fixed [simp]:
  "normalize (canonicalRecord v) = canonicalRecord v" "isPlainObject (canonicalRecord v)"
  "canonicalRecord (canonicalRecord v) = canonicalRecord v"
proof -
  obtain kvs where v: "canonicalRecord v = JObj kvs" "normalize (JObj kvs) = JObj kvs"
    using canonicalRecord_normal [of v] normalize_normal by blast
  show "normalize (canonicalRecord v) = canonicalRecord v" "isPlainObject (canonicalRecord v)" using v by simp_all
  show "canonicalRecord (canonicalRecord v) = canonicalRecord v"
    unfolding v(1) canonicalRecord_def [of "JObj kvs"] v(2) by simp
qed

lemma keys_once_canonicalRecord: "keys_once v \<Longrightarrow> keys_once (canonicalRecord v)"
  using json_ok_keys_once [OF json_ok_normalize, of v] by (cases "normalize v") (auto simp: canonicalRecord_def)

definition requested_scope :: "jsval \<Rightarrow> jsval" where
  "requested_scope b = (if isPlainObject (js_get b ''scope'') then canonicalRecord (js_get b ''scope'')
     else JObj [(''environment'', JStr ''production'')])"

lemma requested_scope_fixed: "canonicalRecord (requested_scope b) = requested_scope b"
  by (simp add: requested_scope_def canonicalRecord_def [of "JObj _"] proto_key_def)

lemma material_get:
  fixes q session p c
  defines "m \<equiv> continuity_material q session p c"
  shows "js_get m ''continuity_id'' = JStr c" "js_get m ''identity_id'' = JStr (col_text session ''identity_id'')"
    "js_get m ''session_id'' = JStr (col_text (rr_body q) ''session_id'')"
    "js_get m ''parent_continuity_id'' = (if p = [] then JNull else JStr p)"
    "js_get m ''scope'' = requested_scope (rr_body q)"
  by (simp_all add: m_def continuity_material_def continuityHashMaterial_def Let_def col_text_def js_String_or_def
      string_or_null_def requested_scope_def [symmetric] requested_scope_fixed)

lemma material_object:
  assumes "keys_once (rr_body q)"
  shows "\<exists>kvs. continuity_material q session p c = JObj kvs \<and> ''continuity_hash'' \<notin> fst ` set kvs \<and> keys_once (JObj kvs)"
proof -
  have b: "keys_once (js_get (rr_body q) k)" for k using assms by (rule keys_once_get)
  have a: "keys_once (string_array v)" for v by (cases v) (auto simp: string_array_def)
  have "keys_once (js_or (js_get (rr_body q) ''constraints'') (JObj [(''max_depth'', JNum (NInt 3)), (''delegation_allowed'', JBool False)]))"
    "keys_once (js_or (js_get (rr_body q) ''revocation'') (JObj [(''status'', JStr ''ACTIVE''), (''revoked_at'', JNull)]))"
    using b by (simp_all add: js_or_def)
  moreover have "keys_once (requested_scope (rr_body q))"
    using b by (simp add: requested_scope_def keys_once_canonicalRecord)
  ultimately show ?thesis
    using keys_once_canonicalRecord keys_once_get a
    unfolding continuity_material_def continuityHashMaterial_def Let_def requested_scope_def [symmetric]
    by (simp add: string_or_null_def)
qed

lemma canonical_round_trip:
  assumes "keys_once (JObj kvs)"
  shows "json_parse (js_String_or (JStr (canonicalize (JObj kvs))) ''{}'') = Some (normalize (JObj kvs))"
  using print_json_hd [of "normalize (JObj kvs)"] json_parse_print [OF json_ok_normalize [OF assms]]
  by (auto simp: js_String_or_def canonicalize_eq_print simp del: normalize.simps)

definition material_keys :: "string list" where
  "material_keys = [''actor_chain'', ''authority_chain'', ''constraints'', ''continuity_id'', ''expires_at'', ''identity_id'',
     ''issued_at'', ''parent_continuity_id'', ''revocation'', ''scope'', ''session_id'']"

lemma material_keys_of: "continuityHashMaterial v = JObj kvs \<Longrightarrow> map fst kvs = material_keys"
  by (auto simp: continuityHashMaterial_def material_keys_def Let_def)

lemma material_shape: "\<exists>v. continuity_material q session p c = continuityHashMaterial v"
  unfolding continuity_material_def Let_def by blast

lemma with_hash_object:
  assumes "keys_once (rr_body q)" and "m = continuity_material q session p c"
  shows "\<exists>kvs. m = JObj kvs \<and> map fst kvs = material_keys \<and> keys_once (with_hash m) \<and>
    with_hash m = JObj (kvs @ [(''continuity_hash'', JStr (continuityHash m))])"
proof -
  obtain kvs where kvs: "m = JObj kvs" "''continuity_hash'' \<notin> fst ` set kvs" "keys_once (JObj kvs)"
    using material_object [OF assms(1)] assms(2) by blast
  have w: "with_hash m = JObj (kvs @ [(''continuity_hash'', JStr (continuityHash m))])"
    using alist_set_fresh [OF kvs(2)] by (simp add: with_hash_def kvs(1))
  have "map fst kvs = material_keys" using material_shape [of q session p c] assms(2) kvs(1) material_keys_of by metis
  moreover have "keys_once (with_hash m)" unfolding w using kvs(2,3) by (simp add: keys_once_JObj)
  ultimately show ?thesis using kvs(1) w by blast
qed

text \<open>What is stored is parsed to the normal form of the object.\<close>

lemma stored_get:
  assumes "keys_once (rr_body q)" and "m = continuity_material q session p c" and i: "i \<in> set material_keys"
  shows "js_get (normalize (with_hash m)) i = normalize (js_get m i)"
proof -
  obtain kvs where kvs: "m = JObj kvs" "map fst kvs = material_keys" "keys_once (with_hash m)"
    and w: "with_hash m = JObj (kvs @ [(''continuity_hash'', JStr (continuityHash m))])"
    using with_hash_object [OF assms(1,2)] by blast
  have d: "distinct (map fst (kvs @ [(''continuity_hash'', JStr (continuityHash m))]))"
    using kvs(3) unfolding w keys_once_JObj by simp
  obtain v where v: "(i, v) \<in> set kvs" using i kvs(2) by (metis fst_conv imageE list.set_map prod.collapse)
  then have "js_get m i = v" using d by (simp add: kvs(1) map_of_is_SomeI)
  moreover have "i \<noteq> proto_key" using i by (auto simp: material_keys_def proto_key_def)
  then have "js_get (normalize (with_hash m)) i = normalize v" using d v unfolding w by (intro get_normalize) auto
  ultimately show ?thesis by simp
qed

lemma stored_parsed:
  assumes "keys_once (rr_body q)" and "m = continuity_material q session p c"
  shows "json_parse (js_String_or (js_get (continuity_row m) ''canonical_continuity'') ''{}'') = Some (normalize (with_hash m))"
proof -
  obtain kvs where w: "with_hash m = JObj kvs" "keys_once (with_hash m)" using with_hash_object [OF assms] by blast
  have "js_get (continuity_row m) ''canonical_continuity'' = JStr (canonicalize (JObj kvs))"
    by (simp add: continuity_row_def w(1))
  then show ?thesis using canonical_round_trip [of kvs] w by (simp only:)
qed

lemma row_canonical_new:
  assumes "keys_once (rr_body q)"
  shows "js_get (row_canonical (continuity_row (continuity_material q session p c))) ''scope'' = requested_scope (rr_body q)"
proof -
  have "normalize (requested_scope (rr_body q)) = requested_scope (rr_body q)"
    using canonicalRecord_fixed(1) requested_scope_fixed by metis
  then show ?thesis
    using stored_get [OF assms refl, of "''scope''" session p c] stored_parsed [OF assms refl, of session p c]
    by (simp add: row_canonical_def material_get material_keys_def)
qed

lemma new_node:
  fixes q session p c
  assumes "keys_once (rr_body q)"
  defines "r \<equiv> continuity_row (continuity_material q session p c)"
  shows "node r = \<lparr>cn_id = c, cn_parent = p, cn_session = col_text (rr_body q) ''session_id'',
      cn_identity = col_text session ''identity_id'', cn_scope = requested_scope (rr_body q)\<rparr>"
    "continuity_typed r"
proof -
  have s: "cn_scope (node r) = requested_scope (rr_body q)"
    using row_canonical_new [OF assms(1)] canonicalRecord_fixed(2) [of "requested_scope (rr_body q)"]
    by (simp add: node_def canonical_scope_def r_def requested_scope_fixed)
  have g: "js_get r ''continuity_id'' = JStr c" "js_get r ''identity_id'' = JStr (col_text session ''identity_id'')"
    "js_get r ''session_id'' = JStr (col_text (rr_body q) ''session_id'')"
    "js_get r ''parent_continuity_id'' = (if p = [] then JNull else JStr p)"
    by (simp_all add: r_def continuity_row_def material_get)
  have "cn_id (node r) = c" "cn_parent (node r) = p" "cn_session (node r) = col_text (rr_body q) ''session_id''"
    "cn_identity (node r) = col_text session ''identity_id''"
    by (simp_all add: node_def col_text_def g js_String_or_def)
  then show "node r = \<lparr>cn_id = c, cn_parent = p, cn_session = col_text (rr_body q) ''session_id'',
      cn_identity = col_text session ''identity_id'', cn_scope = requested_scope (rr_body q)\<rparr>" "continuity_typed r"
    using s g by (simp_all add: continuity_typed_def)
qed

lemma kept_insert:
  assumes i: "continuity_inv db" and t: "sql_insert [[''continuity_id''], [''continuity_hash'']] r (rt_continuity_registry db) = Some t"
    and r: "continuity_typed r" and d: "Suc d \<le> SYSTEM_MAX_CONTINUITY_DEPTH"
    and p: "cn_parent (node r) = [] \<or> (\<exists>p\<in>set (nodes db). delegates p (node r)) \<and> rooted d (nodes db) (cn_parent (node r))"
  shows "continuity_kept db (db\<lparr>rt_continuity_registry := t\<rparr>) \<and> continuity_inv (db\<lparr>rt_continuity_registry := t\<rparr>)"
proof -
  have t': "t = rt_continuity_registry db @ [r]" "\<not> sql_conflict [[''continuity_id''], [''continuity_hash'']] r (rt_continuity_registry db)"
    using t by (auto simp: sql_insert_def split: if_splits)
  have "cn_id (node x) \<noteq> cn_id (node r)" if "x \<in> set (rt_continuity_registry db)" for x
    using t'(2) that r i by (auto simp: sql_conflict_def list_ex_iff list_all_iff continuity_inv_def continuity_typed_def)
  then have "cn_id (node r) \<notin> cn_id ` set (nodes db)" by fastforce
  then have "continuity_forest (nodes db @ [node r])"
    using forest_snoc [OF _ _ _ d] i p unfolding continuity_inv_def list_ex_iff by blast
  then show ?thesis
    using i r by (simp add: t'(1) continuity_inv_def continuity_kept_def rows_kept_def nth_append)
qed

section \<open>The routes\<close>

lemma keeps_activeSession:
  "keepsq continuity_kept continuity_inv (\<lambda>a s. \<forall>session. a = Some session \<longrightarrow> col_text session ''session_id'' = i)
     (activeSession ck i) s0"
proof -
  have found: "col_text session ''session_id'' = i" if "find (sql_eq ''session_id'' i) t = Some session" for t session
    using that by (auto simp: find_Some_iff sql_eq_def col_text_def js_String_or_def)
  have revoke: "keepsq continuity_kept continuity_inv (\<lambda>a s. \<forall>session. a = Some session \<longrightarrow> col_text session ''session_id'' = i)
      (proc_bind (cascadeSessionRevocation ck i) (\<lambda>_. Ret None)) s" for s
    by (rule continuity_db.keepsq_bind [OF keeps_session_revocation]) simp
  show ?thesis
    unfolding activeSession_def
    by (auto simp: found revoke split: option.split intro!: continuity_db.keepsq_fetch continuity_db.keepsq_atomically_bind)
qed

definition parent_ok :: "RuntimeDb \<Rightarrow> jsval \<Rightarrow> string \<Rightarrow> Lineage option \<Rightarrow> RuntimeDb \<Rightarrow> bool" where
  "parent_ok s0 session p result s \<longleftrightarrow> (case result of None \<Rightarrow> True | Some l \<Rightarrow>
     rooted (length (ln_ancestry l)) (nodes s) p \<and> (\<forall>n. line_active n (rt_continuity_registry s0) p) \<and>
     (\<exists>c\<in>set (nodes s). cn_id c = p \<and> cn_session c = col_text session ''session_id'' \<and>
        cn_identity c = col_text session ''identity_id'' \<and> cn_scope c = canonical_scope (ln_requestedCanonical l)))"

lemma keeps_activeContinuity:
  "keepsq continuity_kept continuity_inv (parent_ok s0 session p) (activeContinuity ck uuid p session d) s0"
proof -
  have ok: "parent_ok s0 session p (Some \<lparr>ln_requestedContinuity = fst (hd anc), ln_requestedCanonical = snd (hd anc), ln_ancestry = anc\<rparr>) s"
    if "walk_ok s0 session [] p (Some anc) s" "p \<noteq> []" for anc s
    using that by (cases anc) (auto simp: walk_ok_def parent_ok_def node_def)
  have none: "parent_ok s0 session x None s" for x s by (simp add: parent_ok_def)
  show ?thesis
    unfolding activeContinuity_def resolveContinuityLineage_def
    by (auto simp: none ok simp del: resolve_loop.simps split: option.split
        intro!: continuity_db.keepsq_bind [OF keeps_resolve_loop])
qed

text \<open>A granted continuity has no parent, or every ancestor was ACTIVE when the request began.\<close>

definition granted_ok :: "RuntimeDb \<Rightarrow> RouteRequest \<Rightarrow> string + jsval \<Rightarrow> RuntimeDb \<Rightarrow> bool" where
  "granted_ok s0 q result s \<longleftrightarrow> (case result of Inl _ \<Rightarrow> True | Inr _ \<Rightarrow>
     let p = col_text (rr_body q) ''parent_continuity_id'' in
     p = [] \<or> (\<forall>n. line_active n (rt_continuity_registry s0) p))"

lemma keeps_register_continuity:
  assumes k: "keys_once (rr_body q)" and session: "col_text session ''session_id'' = col_text (rr_body q) ''session_id''"
    and p: "p = [] \<or> (\<exists>l. parent_ok s0 session p (Some l) s1 \<and> parent_guard ck l (requested_scope (rr_body q)) = None)"
    and pq: "p = col_text (rr_body q) ''parent_continuity_id''"
  shows "keepsq continuity_kept continuity_inv (granted_ok s0 q) (register_continuity (continuity_material q session p c)) s1"
proof -
  let ?r = "continuity_row (continuity_material q session p c)"
  note n = new_node(1) [OF k, of session p c]
  have g: "granted_ok s0 q (Inr x) s" "granted_ok s0 q (Inl y) s" for x y s
    using p by (auto simp: granted_ok_def parent_ok_def pq Let_def)
  have ins: "continuity_kept s (s\<lparr>rt_continuity_registry := t\<rparr>) \<and> continuity_inv (s\<lparr>rt_continuity_registry := t\<rparr>)"
    if s: "continuity_kept s1 s" "continuity_inv s"
      and t: "sql_insert [[''continuity_id''], [''continuity_hash'']] ?r (rt_continuity_registry s) = Some t" for s t
  proof (cases "p = []")
    case True
    then show ?thesis
      using kept_insert [OF s(2) t new_node(2) [OF k], of 0] n by (simp add: SYSTEM_MAX_CONTINUITY_DEPTH_def)
  next
    case False
    then obtain l where l: "parent_ok s0 session p (Some l) s1" "parent_guard ck l (requested_scope (rr_body q)) = None"
      using p by blast
    have d: "Suc (length (ln_ancestry l)) \<le> SYSTEM_MAX_CONTINUITY_DEPTH"
      and sub: "delegationScopeIsSubset (canonical_scope (ln_requestedCanonical l)) (requested_scope (rr_body q))"
      using l(2) by (auto simp: parent_guard_def Let_def canonical_scope_def split: if_splits)
    have "\<exists>c\<in>set (nodes s1). delegates c (node ?r)"
      using l(1) sub session by (auto simp: parent_ok_def delegates_def n)
    then have "\<exists>c\<in>set (nodes s). delegates c (node ?r)" using kept_nodes [OF s(1)] by blast
    moreover have "rooted (length (ln_ancestry l)) (nodes s) p"
      using rooted_kept [OF _ s(1) order_refl] l(1) unfolding parent_ok_def by simp
    ultimately show ?thesis using kept_insert [OF s(2) t new_node(2) [OF k] d] n by simp
  qed
  show ?thesis
    unfolding register_continuity_def
    by (auto simp: g ins split: option.split intro!: continuity_db.keepsq_atomically)
qed

lemma keeps_continuity_route:
  assumes k: "keys_once (rr_body q)"
  shows "keepsq continuity_kept continuity_inv (granted_ok s0 q) (continuity_route q) s0"
proof -
  let ?b = "rr_body q" and ?p = "col_text (rr_body q) ''parent_continuity_id''"
  have no: "granted_ok s0 q (Inl x) s" for x s by (simp add: granted_ok_def)
  have root: "keepsq continuity_kept continuity_inv (granted_ok s0 q) (register_continuity (continuity_material q session [] c)) s"
    if "?p = []" "col_text session ''session_id'' = col_text ?b ''session_id''" for session c s
    using keeps_register_continuity [OF k that(2) _ that(1) [symmetric]] by blast
  have child: "keepsq continuity_kept continuity_inv (granted_ok s0 q)
      (case l0 of None \<Rightarrow> Ret (Inl ''invalid_parent_continuity'') | Some parent \<Rightarrow>
        case parent_guard ck parent (requested_scope ?b) of Some reason \<Rightarrow> Ret (Inl reason) | None \<Rightarrow>
          register_continuity (continuity_material q session ?p c)) s"
    if "parent_ok s0 session ?p l0 s" "col_text session ''session_id'' = col_text ?b ''session_id''" for l0 ck session c s
    using that(1) by (auto simp: no split: option.split intro: keeps_register_continuity [OF k that(2) disjI2 [OF exI] refl])
  have later: "keepsq continuity_kept continuity_inv (parent_ok s0 session ?p) (activeContinuity ck uuid ?p session []) s"
    if "continuity_kept s0 s" for session ck uuid s
    using continuity_db.keepsq_post [OF keeps_activeContinuity [of s session ?p ck uuid "[]"], of "parent_ok s0 session ?p"]
      line_active_before [OF that] by (fastforce simp: parent_ok_def split: option.splits)
  show ?thesis
    unfolding continuity_route_def Let_def requested_scope_def [symmetric]
    by (auto simp: no root child split: option.split
        intro!: continuity_db.keepsq_bind [OF keeps_activeSession] continuity_db.keepsq_bind [OF later])
qed

lemma keeps_session_route: "keepsq continuity_kept continuity_inv (\<lambda>_ _. True) (session_route q) s0"
  unfolding session_route_def Let_def by (auto split: option.split intro!: continuity_db.keepsq_atomically)

fun route_ok :: "RuntimeDb \<Rightarrow> RuntimeRoute \<Rightarrow> string + jsval \<Rightarrow> RuntimeDb \<Rightarrow> bool" where
  "route_ok s0 (R_session q) = (\<lambda>_ _. True)"
| "route_ok s0 (R_continuity q) = granted_ok s0 q"

lemma keeps_route:
  "keys_once (rr_body (route_request r)) \<Longrightarrow> keepsq continuity_kept continuity_inv (route_ok s0 r) (runtime_route r) s0"
  using keeps_session_route keeps_continuity_route by (cases r) simp_all

lemma scheds_routes:
  assumes "scheds (db, map runtime_route rs) (db', ps)" and "continuity_inv db"
    and "list_all (\<lambda>r. keys_once (rr_body (route_request r))) rs"
  shows "continuity_inv db' \<and> continuity_kept db db' \<and> length ps = length rs \<and>
    (\<forall>i<length rs. keepsq continuity_kept continuity_inv (route_ok db (rs ! i)) (ps ! i) db')"
proof -
  have "\<forall>i<length (map runtime_route rs). keepsq continuity_kept continuity_inv (route_ok db (rs ! i)) (map runtime_route rs ! i) db"
    using assms(3) keeps_route by (simp add: list_all_length)
  moreover have "route_ok db r a s \<Longrightarrow> route_ok db r a s'" for r a s s'
    by (cases r) (simp_all add: granted_ok_def)
  ultimately show ?thesis
    using continuity_db.scheds_keepsq [OF assms(1,2), of "\<lambda>i. route_ok db (rs ! i)"] by simp
qed

section \<open>The recursive query\<close>

text \<open>From \<open>i\<close>, going up, \<open>c\<close> is reached over at most \<open>n\<close> nodes, both included.\<close>

primrec descends :: "nat \<Rightarrow> ContinuityNode list \<Rightarrow> string \<Rightarrow> string \<Rightarrow> bool" where
  "descends 0 ns c i = False"
| "descends (Suc n) ns c i =
     list_ex (\<lambda>x. cn_id x = i \<and> (i = c \<or> cn_parent x \<noteq> [] \<and> descends n ns c (cn_parent x))) ns"

text \<open>The ids \<open>k\<close> levels below.\<close>

abbreviation (input) level :: "jsval list \<Rightarrow> string list \<Rightarrow> nat \<Rightarrow> string list" where
  "level t ids k \<equiv> (children_ids t ^^ k) ids"

lemma cte_levels: "set (cte_rounds n t ids) = (\<Union>k<n. set (level t ids k))"
proof (induction n arbitrary: ids)
  case (Suc n)
  have "level t (children_ids t ids) k = level t ids (Suc k)" for k by (simp add: funpow_swap1)
  then have "set (cte_rounds (Suc n) t ids) = set ids \<union> (\<Union>k<n. set (level t ids (Suc k)))" using Suc by simp
  also have "\<dots> = (\<Union>k<Suc n. set (level t ids k))" by (subst lessThan_Suc_eq_insert_0) auto
  finally show ?case .
qed simp

lemma typed_ids:
  assumes "continuity_inv db" and "r \<in> set (rt_continuity_registry db)"
  shows "sql_text r ''continuity_id'' = cn_id (node r)" "sql_eq ''continuity_id'' x r \<longleftrightarrow> cn_id (node r) = x"
    "sql_eq ''parent_continuity_id'' x r \<longleftrightarrow> cn_parent (node r) = x \<and> x \<noteq> []"
  using assms by (auto simp: continuity_inv_def list_all_iff continuity_typed_def sql_text_def sql_eq_def split: if_splits)

lemma level_Suc:
  assumes "continuity_inv db"
  shows "y \<in> set (level (rt_continuity_registry db) ids (Suc k)) \<longleftrightarrow>
    (\<exists>x\<in>set (nodes db). cn_id x = y \<and> cn_parent x \<noteq> [] \<and> cn_parent x \<in> set (level (rt_continuity_registry db) ids k))"
  using typed_ids [OF assms] by (auto simp: children_ids_def sql_in_def list_ex_iff image_iff)

text \<open>A parent is an earlier row, so the ids of level \<open>k\<close> stand behind at least \<open>k\<close> rows.\<close>

lemma level_index:
  assumes "continuity_inv db"
  shows "cn_id (nodes db ! j) \<in> set (level (rt_continuity_registry db) ids k) \<Longrightarrow> j < length (nodes db) \<Longrightarrow> k \<le> j"
proof (induction k arbitrary: j)
  case (Suc k)
  let ?ns = "nodes db"
  have d: "distinct (map cn_id ?ns)"
    and par: "cn_parent (?ns ! j) = [] \<or> (\<exists>p\<in>set (take j ?ns). delegates p (?ns ! j))"
    using assms Suc.prems(2) by (auto simp: continuity_inv_def continuity_forest_def list_all_iff list_ex_iff)
  obtain x where x: "x \<in> set ?ns" "cn_id x = cn_id (?ns ! j)" "cn_parent x \<noteq> []"
      "cn_parent x \<in> set (level (rt_continuity_registry db) ids k)"
    using Suc.prems(1) level_Suc [OF assms] by blast
  have "x = ?ns ! j" using d x(1,2) Suc.prems(2) by (metis distinct_map inj_onD nth_mem)
  then obtain i where "i < j" "cn_id (?ns ! i) = cn_parent x"
    using par x(3) Suc.prems(2) by (auto simp: in_set_conv_nth delegates_def)
  then show ?case using Suc.IH [of i] x(4) Suc.prems(2) by simp
qed simp

lemma level_end:
  assumes "continuity_inv db" and "length (rt_continuity_registry db) \<le> k" and "set ids \<subseteq> cn_id ` set (nodes db)"
  shows "level (rt_continuity_registry db) ids k = []"
proof (rule ccontr)
  assume "level (rt_continuity_registry db) ids k \<noteq> []"
  then obtain y where y: "y \<in> set (level (rt_continuity_registry db) ids k)" by (meson hd_in_set)
  have "y \<in> cn_id ` set (nodes db)" using y assms(3) level_Suc [OF assms(1)] by (cases k) auto
  then obtain j where "j < length (nodes db)" "y = cn_id (nodes db ! j)" by (metis imageE in_set_conv_nth)
  then show False using level_index [OF assms(1)] y assms(2) by fastforce
qed

lemma level_rooted:
  assumes "continuity_inv db"
  shows "y \<in> set (level (rt_continuity_registry db) ids k) \<Longrightarrow> rooted n (nodes db) y \<Longrightarrow> k < n"
proof (induction k arbitrary: y n)
  case 0
  then show ?case by (cases n) auto
next
  case (Suc k)
  obtain x where x: "x \<in> set (nodes db)" "cn_id x = y" "cn_parent x \<noteq> []"
      "cn_parent x \<in> set (level (rt_continuity_registry db) ids k)"
    using Suc.prems(1) level_Suc [OF assms] by blast
  obtain m z where n: "n = Suc m" "z \<in> set (nodes db)" "cn_id z = y" "cn_parent z = [] \<or> rooted m (nodes db) (cn_parent z)"
    using Suc.prems(2) unfolding rooted.simps by (cases n) (simp, fastforce simp: list_ex_iff)
  have "distinct (map cn_id (nodes db))" using assms by (simp add: continuity_inv_def continuity_forest_def)
  then have "z = x" using x(1,2) n(2,3) by (metis distinct_map inj_onD)
  then show ?case using Suc.IH x(3,4) n(1,4) by auto
qed

definition cte_start :: "string \<Rightarrow> RuntimeDb \<Rightarrow> string list" where
  "cte_start c db = map (\<lambda>r. sql_text r ''continuity_id'') (filter (sql_eq ''continuity_id'' c) (rt_continuity_registry db))"

lemma set_cte_start: "continuity_inv db \<Longrightarrow> set (cte_start c db) = {c} \<inter> cn_id ` set (nodes db)"
  using typed_ids by (fastforce simp: cte_start_def)

lemma descends_iff_level:
  assumes "continuity_inv db"
  shows "descends n (nodes db) c y \<longleftrightarrow> (\<exists>k<n. y \<in> set (level (rt_continuity_registry db) (cte_start c db) k))"
proof (induction n arbitrary: y)
  case (Suc n)
  have "(\<exists>k<Suc n. y \<in> set (level (rt_continuity_registry db) (cte_start c db) k)) \<longleftrightarrow>
      y \<in> set (cte_start c db) \<or> (\<exists>k<n. y \<in> set (level (rt_continuity_registry db) (cte_start c db) (Suc k)))"
    by (subst Ex_less_Suc2) simp
  also have "\<dots> \<longleftrightarrow> descends (Suc n) (nodes db) c y"
    unfolding set_cte_start [OF assms] level_Suc [OF assms] descends.simps list_ex_iff Suc.IH by blast
  finally show ?case by simp
qed simp

lemma in_lineage_descends:
  assumes i: "continuity_inv db" and r: "r \<in> set (rt_continuity_registry db)"
  shows "in_lineage c db r \<longleftrightarrow> descends SYSTEM_MAX_CONTINUITY_DEPTH (nodes db) c (cn_id (node r))"
proof -
  let ?t = "rt_continuity_registry db" and ?y = "cn_id (node r)"
  have "in_lineage c db r \<longleftrightarrow> (\<exists>k<length ?t. ?y \<in> set (level ?t (cte_start c db) k))"
    using typed_ids [OF i r]
    by (auto simp: in_lineage_def sql_in_def list_ex_iff lineage_cte_def cte_levels cte_start_def [symmetric])
  moreover have "k < length ?t" if "?y \<in> set (level ?t (cte_start c db) k)" for k
    using that level_end [OF i, of k "cte_start c db"] set_cte_start [OF i] by (cases "length ?t \<le> k") auto
  moreover have "k < SYSTEM_MAX_CONTINUITY_DEPTH" if "?y \<in> set (level ?t (cte_start c db) k)" for k
    using that level_rooted [OF i] i r by (auto simp: continuity_inv_def continuity_forest_def list_all_iff)
  ultimately show ?thesis unfolding descends_iff_level [OF i] by blast
qed

lemma cte_rounds_add: "cte_rounds (m + n) t ids = cte_rounds m t ids @ cte_rounds n t (level t ids m)"
  by (induction m arbitrary: ids) (simp_all add: funpow_swap1)

lemma cte_rounds_Nil: "cte_rounds n t [] = []"
  by (induction n) (simp_all add: children_ids_def sql_in_def)

lemma cte_enough:
  assumes "continuity_inv db"
  shows "cte_rounds (length (rt_continuity_registry db) + n) (rt_continuity_registry db) (cte_start c db) =
    lineage_cte c (rt_continuity_registry db)"
  using level_end [OF assms order_refl, of "cte_start c db"] set_cte_start [OF assms]
  by (simp add: cte_rounds_add cte_rounds_Nil lineage_cte_def cte_start_def [symmetric])

end
