(* ===== verification/Continuity_Properties.thy ===== *)
theory Continuity_Properties
  imports Continuity_Facts
begin

text \<open>
  The properties of the session and continuity routes: the forest under every interleaving, the reach
  of a revocation, and that a granted root is usable.
\<close>

section \<open>A granted root\<close>









lemma resolve_loop_root: "resolve_loop (Suc n) ck uuid c d session visited ancestry [] = Ret (Some ancestry)"
  by simp











section \<open>A sample registry\<close>

definition sample_clock :: RuntimeClock where
  "sample_clock = \<lparr>rc_now = 0, rc_iso = ''2026-01-01'', rc_parse = (\<lambda>_. Some 1), rc_num = (\<lambda>_. NNaN)\<rparr>"

definition sample_session :: jsval where
  "sample_session = JObj [(''session_id'', JStr ''s''), (''identity_id'', JStr ''me''), (''continuity_status'', JStr ''ACTIVE''),
     (''expires_at'', JStr ''2027-01-01'')]"

definition sample_continuity :: "string \<Rightarrow> jsval \<Rightarrow> jsval" where
  "sample_continuity c p = JObj [(''continuity_id'', JStr c), (''identity_id'', JStr ''me''), (''session_id'', JStr ''s''),
     (''parent_continuity_id'', p), (''canonical_continuity'', JStr ''{}''), (''status'', JStr ''ACTIVE''), (''revoked_at'', JNull)]"

definition sample_registry :: "jsval list \<Rightarrow> RuntimeDb" where
  "sample_registry cs = \<lparr>rt_session_registry = [sample_session], rt_continuity_registry = cs, rt_authority_registry = [],
     rt_aeo_registry = [], rt_preo_registry = [], rt_validation_registry = [], rt_invocation_registry = [],
     rt_execution_registry = [], rt_execution_snapshot_registry = [], rt_proof_registry = [], rt_proof_propagation_outbox = [],
     rt_attestation_registry = [], rt_delegated_authority_registry = [], rt_governed_tool_envelope_registry = [],
     rt_govern_envelope_registry = [], rt_epoch_registry = []\<rparr>"

definition sample_request :: "string \<Rightarrow> RouteRequest" where
  "sample_request p = \<lparr>rr_clock = sample_clock, rr_uuid = (\<lambda>_. ''u''), rr_default_expiry = ''2027-01-01'',
     rr_body = JObj [(''session_id'', JStr ''s''), (''continuity_id'', JStr ''c''), (''parent_continuity_id'', JStr p)]\<rparr>"

lemma sample_inv: "continuity_inv (sample_registry [])"
  by (simp add: continuity_inv_def continuity_forest_def sample_registry_def)

lemma sample_family_inv:
  "continuity_inv (sample_registry [sample_continuity ''root'' JNull, sample_continuity ''leaf'' (JStr ''root''), sample_continuity ''other'' JNull])"
  by code_simp


lemma sample_bodies: "list_all (\<lambda>r. keys_once (rr_body (route_request r))) [R_continuity (sample_request p)]"
  by (simp add: sample_request_def)

section \<open>Properties\<close>

text \<open>
  C12. Under every interleaving of requests to \<^verbatim>\<open>/session\<close> and \<^verbatim>\<open>/continuity\<close> the continuity registry stays
  a forest: ids are unique, every continuity with a parent is a delegation of an earlier row of the
  same session and identity whose scope contains its own, and a root is at most 32 levels away. No
  row is lost, the columns that identify a continuity do not change, and a continuity that is no
  longer ACTIVE never becomes ACTIVE again. The bodies are parsed JSON, so an object has a key once.
\<close>

theorem continuity_registry_stays_forest:
  assumes "scheds (db, map runtime_route rs) (db', ps)" and "continuity_inv db"
    and "list_all (\<lambda>r. keys_once (rr_body (route_request r))) rs"
  shows "continuity_inv db' \<and> continuity_kept db db'"
  using scheds_routes [OF assms] by simp

theorem continuity_registry_stays_forest_witness:
  "continuity_inv (fst (sched_run [0, 0] (sample_registry [], map runtime_route [R_continuity (sample_request [])])))"
  using continuity_registry_stays_forest [OF _ sample_inv sample_bodies] sched_run_scheds by (metis prod.collapse)



text \<open>
  C14. Cascading revocation reaches exactly the descendants. On a forest the recursive query ends,
  within as many rounds as there are rows, and the statement marks the rows from which the revoked
  continuity is reached upwards and that are not yet revoked or expired; every other row stays.
\<close>

theorem cascade_marks_exactly_the_descendants:
  assumes "continuity_inv db"
  shows "rt_continuity_registry (revoke_continuities ck c status db) =
      map (\<lambda>r. if descends SYSTEM_MAX_CONTINUITY_DEPTH (map node (rt_continuity_registry db)) c (cn_id (node r)) \<and>
                  sql_in ''status'' [''ACTIVE'', ''RESERVED'', ''EXECUTED'', ''CONSUMED''] r
               then sql_coalesce ''revoked_at'' (rc_iso ck) (js_put ''status'' (JStr status) r) else r)
        (rt_continuity_registry db) \<and>
    cte_rounds (length (rt_continuity_registry db) + n) (rt_continuity_registry db) (cte_start c db) =
      lineage_cte c (rt_continuity_registry db)"
  using in_lineage_descends [OF assms] cte_enough [OF assms]
  by (simp add: revoke_continuities_def sql_update_def)

theorem cascade_marks_exactly_the_descendants_witness:
  "map (\<lambda>r. sql_text r ''status'') (rt_continuity_registry (revoke_continuities sample_clock ''root'' ''REVOKED''
     (sample_registry [sample_continuity ''root'' JNull, sample_continuity ''leaf'' (JStr ''root''), sample_continuity ''other'' JNull]))) =
   [''REVOKED'', ''REVOKED'', ''ACTIVE'']"
  unfolding cascade_marks_exactly_the_descendants [OF sample_family_inv, THEN conjunct1] by code_simp



end
