(* ===== verification/Spec2Isabelle.thy ===== *)
theory Spec2Isabelle
  imports Route_Concurrency Quorum Causal_Clocks Reconciliation_SM Replay_Convergence Conflict_Set Revocation_Report Closure_Facts
    Topology_Convergence_Facts Lineage_Reconciliation_Facts Issue_Comment_Facts Agent_Invocation_Facts
    Replay_Enforcement Continuity_Properties
begin

text \<open>
  ContinuityOS: verification of the governed-execution core and of the distributed legitimacy
  evidence.

  \<^bold>\<open>The program.\<close> ContinuityOS decides whether an agent may change something and leaves evidence
  of the decision. A request is captured, compiled to an \<^emph>\<open>authorised execution object\<close> (AEO),
  validated against authority, policy, replay state and the state of the target, executed by
  an adapter for one surface only if the executed object is the validated one, and proved by a
  receipt; everything else is a bounded NULL response and an audit row. Around this path lie
  evidence modules that judge epochs, topology, quorum, causality, replay, conflicts and
  revocation over several partitions; they change no registry.

  \<^bold>\<open>Governed execution.\<close>
  \<^item> \<open>Canonical\<close>, \<open>Canonical_Facts\<close>: \<^verbatim>\<open>src/canonical.js\<close> (\<^verbatim>\<open>normalize\<close>, \<^verbatim>\<open>canonicalize\<close>, \<^verbatim>\<open>sha256Hex\<close> on
    32-bit words, \<^verbatim>\<open>hashCanonical\<close>). The canonical text identifies exactly the values with equal
    normal forms, apart from \<^verbatim>\<open>__proto__\<close>, which is dropped.
  \<^item> \<open>Continuity_Core\<close>: \<^verbatim>\<open>src/continuity-core.js\<close> (AEO validation, lineage graph, proof envelope,
    replay registry).
  \<^item> \<open>Filesystem_AEO\<close>, \<open>Filesystem_Validator\<close>: \<^verbatim>\<open>src/lib/filesystem-aeo.ts\<close> and
    \<^verbatim>\<open>filesystem-aeo-validator.ts\<close>; the validator is an asynchronous program over the context it
    queries, and VALID is characterised exactly.
  \<^item> \<open>Adapter_Contract\<close>: \<^verbatim>\<open>runtime/lineage/executionEligibility.mjs\<close>, \<^verbatim>\<open>src/lib/adapter-contract.ts\<close>
    and the filesystem, Cloudflare and D1 adapters: no effect unless every guard passed, and a
    receipt only for the exact object.
  \<^item> \<open>Storage\<close>: \<^verbatim>\<open>storage-adapter.ts\<close> and the registries of \<^verbatim>\<open>d1-storage-adapter.ts\<close>; the port
    contracts are locales. Registries are append-only under every interleaving.
  \<^item> \<open>Filesystem_Gateway\<close>: \<^verbatim>\<open>filesystem-write-gateway.ts\<close>, \<^verbatim>\<open>compile-canonical-aeo.ts\<close> and
    \<^verbatim>\<open>filesystem-write-runtime-gateway.ts\<close>, the eight stages in their order.
  \<^item> \<open>Null_Audit\<close>, \<open>Route\<close>, \<open>Route_Facts\<close>, \<open>Route_Concurrency\<close>: \<^verbatim>\<open>null-audit.ts\<close> and
    \<^verbatim>\<open>filesystem-write-route-adapter.ts\<close>, the request handler on its database. What EXECUTED and
    NULL mean, liveness, and any number of concurrent requests.

  \<^bold>\<open>Gateways for agents.\<close>
  \<^item> \<open>Issue_Comment_Gateway\<close>, \<open>Issue_Comment_Facts\<close>: \<^verbatim>\<open>github-issue-comment-gateway.ts\<close>, from the proposal
    of a comment to its proof. What the validator accepts has the declared type, an effect stays
    within the validated scope, a nonce yields one proof; an effect without a proof is possible.
  \<^item> \<open>Predicate_Registry\<close>, \<open>Agent_Gateway\<close>, \<open>Agent_Gateway_Facts\<close>, \<open>Authority_Review\<close>:
    \<^verbatim>\<open>predicate-registry.ts\<close>, \<^verbatim>\<open>agent-tool-gateway.ts\<close>, \<^verbatim>\<open>authority-review.ts\<close>: classification and
    interception of tool calls, templates, the chain from validator binding to proof, reviews.
  \<^item> \<open>Agent_Routes\<close>, \<open>Agent_Routes_Facts\<close>, \<open>Agent_Routes_Properties\<close>, \<open>Agent_Invocation_Facts\<close>: the agent tool
    handlers of \<^verbatim>\<open>src/index.ts\<close> over their registries. Lineage of compiled objects and uniqueness of
    invocations under every interleaving, the race of two compilations, what PROVEN rests on.
  \<^item> \<open>Runtime_Registry\<close>, \<open>Continuity_Facts\<close>, \<open>Continuity_Properties\<close>: the routes \<^verbatim>\<open>/session\<close> and \<^verbatim>\<open>/continuity\<close> of
    \<^verbatim>\<open>src/index.ts\<close>, the walk up the lineage and cascading revocation. Under every interleaving the
    registry is a forest of at most 32 levels with shrinking scopes in which nothing is revived;
    a revoked lineage gets no descendants; a revocation reaches exactly the descendants.
  \<^item> \<open>Json_Text\<close>: \<^verbatim>\<open>JSON.stringify\<close> and \<^verbatim>\<open>JSON.parse\<close>, with their round trip. \<open>Rely_Guarantee\<close> and
    \<open>Scheduling\<close>: invariants of interleaved programs, and the construction of schedules.

  \<^bold>\<open>Distributed evidence.\<close> \<open>Evidence\<close> holds the interfaces: tie-breaks by a total preorder or a
  linear order, merges that keep the first record of a key, absorbing states of a transition
  table. Each module interprets those it relies on.
  \<^item> \<open>Epoch\<close>: \<^verbatim>\<open>epoch-substrate.ts\<close>, \<^verbatim>\<open>topology-epoch.ts\<close>. \<open>Finality\<close>: \<^verbatim>\<open>finality-classification.ts\<close>,
    \<^verbatim>\<open>topology-visibility.ts\<close>, \<^verbatim>\<open>revocation-liveness.ts\<close>, \<^verbatim>\<open>proof-finality-metadata.ts\<close>.
    \<open>Quorum\<close>: \<^verbatim>\<open>quorum-attestation.ts\<close>.
  \<^item> \<open>Causal_Clocks\<close>: \<^verbatim>\<open>causal-clock.ts\<close>, \<^verbatim>\<open>causal-legitimacy-clock.ts\<close>; the comparison is a strict
    partial order and Lamport logs are causal.
  \<^item> \<open>Reconciliation_SM\<close>: \<^verbatim>\<open>reconciliation-state-machine.ts\<close>, reachability by the legal
    transitions, downgrades and the collapse of stale lineage.
  \<^item> \<open>Replay_Convergence\<close>: \<^verbatim>\<open>replay-convergence.ts\<close>, what anti-entropy keeps.
    \<open>Replay_Enforcement\<close>: \<^verbatim>\<open>distributed-replay-convergence-enforcement.ts\<close>, when the replay gate opens.
  \<^item> \<open>Conflict_Set\<close>: \<^verbatim>\<open>conflict-set.ts\<close>, \<^verbatim>\<open>reconciliation-determinism.ts\<close>; winners do not depend on
    the order of arrival and settlement keeps all evidence.
  \<^item> \<open>Lineage\<close>, \<open>Revocation\<close>, \<open>Revocation_Facts\<close>, \<open>Revocation_Report\<close>:
    \<^verbatim>\<open>src/recursive-revocation-propagation.ts\<close>, from untyped input to the report. Its loops are
    \<^verbatim>\<open>while_option\<close> and proved to end; the traversals are verified over the interface \<open>forest\<close>
    (a children map that agrees with the parents), which every merged registry meets.
  \<^item> \<open>Closure\<close>, \<open>Closure_Facts\<close>: \<^verbatim>\<open>src/continuity-lineage-closure-hardening.ts\<close>, the report on walks to
    the root, orphaned subtrees and the equivalence of views, over the same interface.
  \<^item> \<open>Lineage_Reconciliation\<close>, \<open>Lineage_Reconciliation_Facts\<close>:
    \<^verbatim>\<open>src/distributed-continuity-lineage-reconciliation.ts\<close>, what LINEAGE_RECONCILED means and what it
    leaves out.
  \<^item> \<open>Topology_Convergence\<close>, \<open>Topology_Convergence_Facts\<close>: \<^verbatim>\<open>src/distributed-topology-convergence.ts\<close>,
    when a topology converges, and that the report does not depend on the order of the views.

  \<^bold>\<open>How the code is modelled.\<close> Run-time values are \<open>jsval\<close>; interfaces are records, unions of
  strings datatypes. An asynchronous function is a resumption (\<open>proc\<close> of \<open>Prelude\<close>) whose steps
  are the accesses between two \<^verbatim>\<open>await\<close>s; one SQL statement or batch is one atomic access; \<open>sched\<close>
  interleaves programs. A thrown exception or early return is a constructor of a result type.
  \<^verbatim>\<open>Map\<close>s whose order matters are association lists.

  \<^bold>\<open>Bounds.\<close> Strings are code units up to 255, numbers are integers with \<^verbatim>\<open>NaN\<close> and the infinities
  (scores and weights are rationals); objects have data properties only, so \<^verbatim>\<open>String(v)\<close> of an
  object is the default text. \<^verbatim>\<open>Date.parse\<close>, \<^verbatim>\<open>Number\<close> of a string, \<^verbatim>\<open>localeCompare\<close>, the clock,
  random bytes and the side effects of the surfaces (file writer, deployer) are parameters.
  The JSON parser has fuel, twice the length of the text, and more changes nothing
  (\<open>parse_fuel_enough\<close>); the recursive query on continuities has as many rounds as there are rows,
  which is all of it on the registries the routes build (\<open>cte_enough\<close>), and the walk up the lineage
  stops by its own depth limit; otherwise the recursive definitions are total and the loops that are not
  structural return an option whose \<open>Some\<close> is proved.

  \<^bold>\<open>Not modelled.\<close> \<^verbatim>\<open>src/index.ts\<close> beyond the filesystem-write route, the agent tool routes and the session
  and continuity routes (one handler with its queries written in place); the schema bootstrap and backfill of \<^verbatim>\<open>d1-storage-adapter.ts\<close> and the
  two parsers of stored rows in \<^verbatim>\<open>causal-clock.ts\<close>; discovery, observability, dashboards,
  visualisation, the command line, scripts, workflows and the Rust crate, which are I/O around
  the core.
\<close>

end
